(* ===== verification/Py_Float.thy ===== *)
theory Py_Float
  imports Complex_Main
begin

text \<open>
  Python's \<^verbatim>\<open>float\<close>, as the estimator uses it: IEEE-754 binary64 with the round-half-even
  rule, on the operations \<^verbatim>\<open>int / int\<close>, \<^verbatim>\<open>float * float\<close>, \<^verbatim>\<open>float / float\<close>,
  \<^verbatim>\<open>float(int)\<close>, the comparisons, \<^verbatim>\<open>math.ceil\<close> and \<^verbatim>\<open>int(float)\<close>.  A float is
  a pair of a mantissa and a binary exponent, and every operation works on integers only, so it
  evaluates in the kernel.  The range is not bounded: the byte counts and ratios of the program
  are far from the subnormal numbers and from the overflow at \<open>2 ^ 1024\<close>.

  The second half relates the executable operations to a rounding function on the reals and
  states the laws the estimator relies on as the locale \<open>rounding\<close>: rounding is monotone, exact
  on 53-bit integers and within one part in \<open>2 ^ 53\<close> of the exact value.
\<close>

section \<open>Executable binary64 arithmetic\<close>

text \<open>\<^verbatim>\<open>int.bit_length\<close> minus one, on a positive number: the exponent of its binade.\<close>

function ilog2 :: "int \<Rightarrow> int" where
  "ilog2 n = (if n < 2 then 0 else 1 + ilog2 (n div 2))"
  by pat_completeness auto
termination
  by (relation "measure nat") auto

declare ilog2.simps [simp del]

text \<open>The quotient of two integers, rounded to the nearest integer, ties to even.\<close>

definition div_half_even :: "int \<Rightarrow> int \<Rightarrow> int" where
  "div_half_even n d =
     (let q = n div d; r = n mod d in
      if 2 * r < d then q else if d < 2 * r then q + 1 else if even q then q else q + 1)"

text \<open>The binade of a positive quotient: the \<open>e\<close> with \<open>2 ^ e \<le> n / d < 2 ^ (e + 1)\<close>.\<close>

definition ratio_exp :: "int \<Rightarrow> int \<Rightarrow> int" where
  "ratio_exp n d =
     (let k = ilog2 n - ilog2 d in
      if d * 2 ^ nat k \<le> n * 2 ^ nat (- k) then k else k - 1)"

datatype py_float = PyFloat (mantissa: int) (exponent: int)

fun float_neg :: "py_float \<Rightarrow> py_float" where
  "float_neg (PyFloat m e) = PyFloat (- m) e"

definition round_pos :: "int \<Rightarrow> int \<Rightarrow> py_float" where
  "round_pos n d =
     (let e = ratio_exp n d - 52 in
      PyFloat (div_half_even (n * 2 ^ nat (- e)) (d * 2 ^ nat e)) e)"

text \<open>\<^verbatim>\<open>n / d\<close> of two Python integers, for a positive \<open>d\<close>: the correctly rounded quotient.\<close>

definition round_ratio :: "int \<Rightarrow> int \<Rightarrow> py_float" where
  "round_ratio n d =
     (if n = 0 then PyFloat 0 0 else if 0 < n then round_pos n d
      else float_neg (round_pos (- n) d))"

definition float_of_int :: "int \<Rightarrow> py_float" where
  "float_of_int n = round_ratio n 1"

fun float_mult :: "py_float \<Rightarrow> py_float \<Rightarrow> py_float" where
  "float_mult (PyFloat m e) (PyFloat m' e') =
     round_ratio (m * m' * 2 ^ nat (e + e')) (2 ^ nat (- (e + e')))"

text \<open>Division by a positive float.\<close>

fun float_divide :: "py_float \<Rightarrow> py_float \<Rightarrow> py_float" where
  "float_divide (PyFloat m e) (PyFloat m' e') =
     round_ratio (m * 2 ^ nat (e - e')) (m' * 2 ^ nat (e' - e))"

fun float_le :: "py_float \<Rightarrow> py_float \<Rightarrow> bool" where
  "float_le (PyFloat m e) (PyFloat m' e') \<longleftrightarrow>
     m * 2 ^ nat (e - e') \<le> m' * 2 ^ nat (e' - e)"

definition float_less :: "py_float \<Rightarrow> py_float \<Rightarrow> bool" where
  "float_less x y \<longleftrightarrow> \<not> float_le y x"

definition float_eq :: "py_float \<Rightarrow> py_float \<Rightarrow> bool" where
  "float_eq x y \<longleftrightarrow> float_le x y \<and> float_le y x"

text \<open>\<^verbatim>\<open>max(x, y)\<close>: the first of two equal arguments is returned.\<close>

definition float_max :: "py_float \<Rightarrow> py_float \<Rightarrow> py_float" where
  "float_max x y = (if float_less x y then y else x)"

fun float_ceil :: "py_float \<Rightarrow> int" where
  "float_ceil (PyFloat m e) =
     (if 0 \<le> e then m * 2 ^ nat e else - ((- m) div 2 ^ nat (- e)))"

fun float_floor :: "py_float \<Rightarrow> int" where
  "float_floor (PyFloat m e) = (if 0 \<le> e then m * 2 ^ nat e else m div 2 ^ nat (- e))"

text \<open>\<^verbatim>\<open>int(x)\<close> truncates towards zero.\<close>

definition float_trunc :: "py_float \<Rightarrow> int" where
  "float_trunc x = (if 0 \<le> mantissa x then float_floor x else float_ceil x)"


section \<open>The real value of a float and correct rounding\<close>

text \<open>
  \<open>rnd\<close> is the specification of a binary64 operation: the exact result, rounded to 53
  significant bits, ties to even.  It is not executable; \<open>value_round_ratio\<close> shows that the
  integer code above computes it.
\<close>

definition float_value :: "py_float \<Rightarrow> real" where
  "float_value x = real_of_int (mantissa x) * 2 powr real_of_int (exponent x)"

definition half_even :: "real \<Rightarrow> int" where
  "half_even x =
     (let q = \<lfloor>x\<rfloor>; r = x - real_of_int q in
      if 2 * r < 1 then q else if 1 < 2 * r then q + 1 else if even q then q else q + 1)"

definition rnd_pos :: "real \<Rightarrow> real" where
  "rnd_pos x =
     (let e = \<lfloor>log 2 x\<rfloor> - 52 in
      real_of_int (half_even (x / 2 powr real_of_int e)) * 2 powr real_of_int e)"

definition rnd :: "real \<Rightarrow> real" where
  "rnd x = (if x = 0 then 0 else if 0 < x then rnd_pos x else - rnd_pos (- x))"

subsection \<open>Rounding to the nearest integer\<close>

lemma half_even_bounds: "\<lfloor>x\<rfloor> \<le> half_even x \<and> half_even x \<le> \<lfloor>x\<rfloor> + 1"
  by (auto simp: half_even_def Let_def)

lemma half_even_of_int [simp]: "half_even (real_of_int n) = n"
  by (simp add: half_even_def Let_def)

lemma half_even_mono:
  assumes "x \<le> y"
  shows "half_even x \<le> half_even y"
proof (cases "\<lfloor>x\<rfloor> = \<lfloor>y\<rfloor>")
  case True
  with assms show ?thesis by (auto simp: half_even_def Let_def)
next
  case False
  moreover have "\<lfloor>x\<rfloor> \<le> \<lfloor>y\<rfloor>" using assms by (rule floor_mono)
  ultimately have "\<lfloor>x\<rfloor> + 1 \<le> \<lfloor>y\<rfloor>" by simp
  with half_even_bounds [of x] half_even_bounds [of y] show ?thesis by linarith
qed

lemma half_even_error: "\<bar>real_of_int (half_even x) - x\<bar> \<le> 1 / 2"
proof -
  have "real_of_int \<lfloor>x\<rfloor> \<le> x" "x < real_of_int \<lfloor>x\<rfloor> + 1" by linarith+
  then show ?thesis by (auto simp: half_even_def Let_def abs_le_iff)
qed

lemma half_even_div:
  assumes "0 < d"
  shows "half_even (real_of_int n / real_of_int d) = div_half_even n d"
proof -
  have q: "\<lfloor>real_of_int n / real_of_int d\<rfloor> = n div d"
    by (rule floor_divide_of_int_eq)
  have "real_of_int n = real_of_int d * real_of_int (n div d) + real_of_int (n mod d)"
    by (metis mult_div_mod_eq of_int_add of_int_mult)
  with assms have r: "real_of_int n / real_of_int d - real_of_int (n div d)
      = real_of_int (n mod d) / real_of_int d"
    by (simp add: field_simps)
  have "2 * (real_of_int (n mod d) / real_of_int d) < 1 \<longleftrightarrow> 2 * (n mod d) < d"
    and "1 < 2 * (real_of_int (n mod d) / real_of_int d) \<longleftrightarrow> d < 2 * (n mod d)"
    using assms by (simp_all add: field_simps) linarith+
  then show ?thesis
    by (simp only: half_even_def div_half_even_def Let_def q r)
qed

subsection \<open>The binade of a quotient\<close>

lemma two_powr_split: "2 powr real_of_int e = 2 ^ nat e / 2 ^ nat (- e)"
proof (cases "0 \<le> e")
  case True
  then show ?thesis by (simp add: powr_real_of_int)
next
  case False
  then show ?thesis by (simp add: powr_real_of_int divide_inverse)
qed

lemma ilog2_bounds:
  "0 < n \<Longrightarrow> 0 \<le> ilog2 n \<and> 2 ^ nat (ilog2 n) \<le> n \<and> n < 2 * 2 ^ nat (ilog2 n)"
proof (induction n rule: ilog2.induct)
  case (1 n)
  show ?case
  proof (cases "n < 2")
    case True
    with "1.prems" show ?thesis by (simp add: ilog2.simps [of n])
  next
    case False
    then have "0 < n div 2" by simp
    with "1.IH" False have IH: "0 \<le> ilog2 (n div 2)" "2 ^ nat (ilog2 (n div 2)) \<le> n div 2"
      "n div 2 < 2 * 2 ^ nat (ilog2 (n div 2))"
      by auto
    have "nat (ilog2 n) = Suc (nat (ilog2 (n div 2)))" and "0 \<le> ilog2 n"
      using False IH(1) by (simp_all add: ilog2.simps [of n] nat_add_distrib)
    moreover have "2 * (n div 2) \<le> n" "n < 2 * (n div 2) + 2" by linarith+
    ultimately show ?thesis using IH by simp
  qed
qed

lemma ilog2_powr:
  assumes "0 < n"
  shows "2 powr real_of_int (ilog2 n) \<le> real_of_int n"
    and "real_of_int n < 2 powr real_of_int (ilog2 n + 1)"
proof -
  note b = ilog2_bounds [OF assms]
  have p: "2 powr real_of_int (ilog2 n) = real_of_int (2 ^ nat (ilog2 n))"
    using b by (simp add: two_powr_split)
  show "2 powr real_of_int (ilog2 n) \<le> real_of_int n"
    unfolding p using b by (simp only: of_int_le_iff)
  have "real_of_int n < real_of_int (2 * 2 ^ nat (ilog2 n))"
    using b by (simp only: of_int_less_iff)
  then show "real_of_int n < 2 powr real_of_int (ilog2 n + 1)"
    using p by (simp add: powr_add)
qed

lemma ratio_exp_bounds:
  assumes "0 < n" "0 < d"
  shows "2 powr real_of_int (ratio_exp n d) \<le> real_of_int n / real_of_int d"
    and "real_of_int n / real_of_int d < 2 powr real_of_int (ratio_exp n d + 1)"
proof -
  let ?k = "ilog2 n - ilog2 d" and ?x = "real_of_int n / real_of_int d"
  note N = ilog2_powr [OF assms(1)] and D = ilog2_powr [OF assms(2)]
  have up: "?x < 2 powr real_of_int (?k + 1)"
  proof -
    have "?x < 2 powr real_of_int (ilog2 n + 1) / 2 powr real_of_int (ilog2 d)"
      using N D assms by (intro frac_less) auto
    then show ?thesis by (simp add: powr_diff [symmetric] algebra_simps)
  qed
  have low: "2 powr real_of_int (?k - 1) \<le> ?x"
  proof -
    have "2 powr real_of_int (ilog2 n) / 2 powr real_of_int (ilog2 d + 1) \<le> ?x"
      using N D assms by (intro frac_le) auto
    then show ?thesis by (simp add: powr_diff [symmetric] algebra_simps)
  qed
  have test: "d * 2 ^ nat ?k \<le> n * 2 ^ nat (- ?k) \<longleftrightarrow> 2 powr real_of_int ?k \<le> ?x"
  proof -
    have "d * 2 ^ nat ?k \<le> n * 2 ^ nat (- ?k) \<longleftrightarrow>
        real_of_int (d * 2 ^ nat ?k) \<le> real_of_int (n * 2 ^ nat (- ?k))"
      by (rule of_int_le_iff [symmetric])
    also have "\<dots> \<longleftrightarrow> 2 powr real_of_int ?k \<le> ?x"
      unfolding two_powr_split using assms by (simp add: field_simps)
    finally show ?thesis .
  qed
  show "2 powr real_of_int (ratio_exp n d) \<le> ?x"
    using low test by (auto simp: ratio_exp_def Let_def)
  show "?x < 2 powr real_of_int (ratio_exp n d + 1)"
    using up test by (auto simp: ratio_exp_def Let_def)
qed

lemma floor_log_binade:
  assumes "2 powr real_of_int e \<le> x" "x < 2 powr real_of_int (e + 1)"
  shows "\<lfloor>log 2 x\<rfloor> = e"
proof -
  have "0 < x" using assms(1) powr_gt_zero [of 2 "real_of_int e"] by linarith
  then have "real_of_int e \<le> log 2 x" "log 2 x < real_of_int e + 1"
    using assms by (simp_all add: le_log_iff log_less_iff)
  then show ?thesis by linarith
qed

lemma log_binade:
  assumes "0 < x"
  shows "2 powr real_of_int \<lfloor>log 2 x\<rfloor> \<le> x" and "x < 2 powr (real_of_int \<lfloor>log 2 x\<rfloor> + 1)"
proof -
  show "2 powr real_of_int \<lfloor>log 2 x\<rfloor> \<le> x"
    using assms by (simp add: le_log_iff [symmetric])
  have "log 2 x < real_of_int \<lfloor>log 2 x\<rfloor> + 1" by linarith
  with assms show "x < 2 powr (real_of_int \<lfloor>log 2 x\<rfloor> + 1)"
    using log_less_iff [of 2 x "real_of_int \<lfloor>log 2 x\<rfloor> + 1"] by simp
qed

subsection \<open>The executable operations compute the rounded exact result\<close>

lemma float_value_PyFloat [simp]:
  "float_value (PyFloat m e) = real_of_int m * 2 powr real_of_int e"
  by (simp add: float_value_def)

lemma float_value_neg [simp]: "float_value (float_neg x) = - float_value x"
  by (cases x) simp

lemma value_round_pos:
  assumes "0 < n" "0 < d"
  shows "float_value (round_pos n d) = rnd_pos (real_of_int n / real_of_int d)"
proof -
  let ?e = "ratio_exp n d - 52"
  have e: "\<lfloor>log 2 (real_of_int n / real_of_int d)\<rfloor> = ratio_exp n d"
    using ratio_exp_bounds [OF assms] by (rule floor_log_binade)
  have "real_of_int n / real_of_int d / 2 powr real_of_int ?e
      = real_of_int (n * 2 ^ nat (- ?e)) / real_of_int (d * 2 ^ nat ?e)"
    unfolding two_powr_split by (simp add: field_simps)
  moreover have "0 < d * 2 ^ nat ?e" using assms by simp
  ultimately have "half_even (real_of_int n / real_of_int d / 2 powr real_of_int ?e)
      = div_half_even (n * 2 ^ nat (- ?e)) (d * 2 ^ nat ?e)"
    using half_even_div [of "d * 2 ^ nat ?e" "n * 2 ^ nat (- ?e)"] by (simp only:)
  then show ?thesis
    by (simp only: round_pos_def rnd_pos_def Let_def e float_value_PyFloat)
qed

lemma value_round_ratio:
  assumes "0 < d"
  shows "float_value (round_ratio n d) = rnd (real_of_int n / real_of_int d)"
proof -
  have "n < 0 \<Longrightarrow> rnd (real_of_int n / real_of_int d)
      = - rnd_pos (real_of_int (- n) / real_of_int d)"
    using assms by (simp add: rnd_def field_simps)
  moreover have "0 < n \<Longrightarrow> rnd (real_of_int n / real_of_int d)
      = rnd_pos (real_of_int n / real_of_int d)"
    using assms by (simp add: rnd_def field_simps)
  moreover have "n = 0 \<Longrightarrow> rnd (real_of_int n / real_of_int d) = 0"
    by (simp add: rnd_def)
  moreover consider "n = 0" | "0 < n" | "n < 0" by linarith
  ultimately show ?thesis
    using assms by cases (simp_all add: round_ratio_def value_round_pos del: of_int_minus)
qed

lemma value_float_of_int: "float_value (float_of_int n) = rnd (real_of_int n)"
  by (simp add: float_of_int_def value_round_ratio)

lemma value_float_mult: "float_value (float_mult x y) = rnd (float_value x * float_value y)"
proof (cases x; cases y)
  fix m e m' e' assume "x = PyFloat m e" "y = PyFloat m' e'"
  moreover have "real_of_int (m * m' * 2 ^ nat (e + e')) / real_of_int (2 ^ nat (- (e + e')))
      = real_of_int m * real_of_int m' * 2 powr real_of_int (e + e')"
    unfolding two_powr_split by simp
  ultimately show ?thesis
    by (simp add: value_round_ratio powr_add ac_simps del: of_int_mult of_int_power)
qed

lemma float_le_iff: "float_le x y \<longleftrightarrow> float_value x \<le> float_value y"
proof (cases x; cases y)
  fix m e m' e' assume xy: "x = PyFloat m e" "y = PyFloat m' e'"
  have d: "2 powr real_of_int e = 2 powr real_of_int e' * 2 powr real_of_int (e - e')"
    by (simp add: powr_diff)
  have "real_of_int m * 2 powr real_of_int (e - e') \<le> real_of_int m' \<longleftrightarrow>
      real_of_int (m * 2 ^ nat (e - e')) \<le> real_of_int (m' * 2 ^ nat (e' - e))"
    unfolding two_powr_split by (simp add: field_simps)
  also have "\<dots> \<longleftrightarrow> float_le x y"
    using xy by (simp only: of_int_le_iff float_le.simps)
  finally show ?thesis
    by (simp add: xy d mult.assoc [symmetric] mult.commute [of _ "2 powr real_of_int e'"])
qed

lemma value_float_divide:
  assumes "0 < mantissa y"
  shows "float_value (float_divide x y) = rnd (float_value x / float_value y)"
proof (cases x; cases y)
  fix m e m' e'
  assume xy: "x = PyFloat m e" "y = PyFloat m' e'"
  have "2 powr real_of_int e / 2 powr real_of_int e' = 2 powr real_of_int (e - e')"
    by (simp add: powr_diff)
  then have "real_of_int m * 2 powr real_of_int e / (real_of_int m' * 2 powr real_of_int e')
      = real_of_int m * 2 powr real_of_int (e - e') / real_of_int m'"
    by (simp add: field_simps)
  also have "\<dots> = real_of_int (m * 2 ^ nat (e - e')) / real_of_int (m' * 2 ^ nat (e' - e))"
    unfolding two_powr_split by (simp add: minus_diff_eq)
  finally show ?thesis
    using assms by (simp add: xy value_round_ratio)
qed

lemma float_ceil_eq: "float_ceil x = \<lceil>float_value x\<rceil>"
proof (cases x)
  case (PyFloat m e)
  have "real_of_int m * 2 powr real_of_int e
      = real_of_int (m * 2 ^ nat e) / real_of_int (2 ^ nat (- e))"
    unfolding two_powr_split by simp
  moreover have "e < 0 \<Longrightarrow> \<lceil>real_of_int m / real_of_int (2 ^ nat (- e))\<rceil> = - (- m div 2 ^ nat (- e))"
    by (simp only: ceiling_divide_eq_div)
  ultimately show ?thesis
    by (cases "0 \<le> e") (simp_all add: PyFloat del: of_int_mult of_int_power)
qed


subsection \<open>Laws of correct rounding\<close>

text \<open>What the estimator's arithmetic relies on, as an interface.\<close>

locale rounding =
  fixes rd :: "real \<Rightarrow> real"
  assumes rd_mono: "x \<le> y \<Longrightarrow> rd x \<le> rd y"
    and rd_int: "\<bar>n\<bar> \<le> 2 ^ 53 \<Longrightarrow> rd (real_of_int n) = real_of_int n"
    and rd_error: "\<bar>rd x - x\<bar> * 2 ^ 53 \<le> \<bar>x\<bar>"
begin

lemma rd_zero [simp]: "rd 0 = 0" and rd_one [simp]: "rd 1 = 1"
  using rd_int [of 0] rd_int [of 1] by simp_all

lemma rd_nonneg: "0 \<le> x \<Longrightarrow> 0 \<le> rd x"
  using rd_mono [of 0 x] by simp

text \<open>
  A byte count shared in the proportion \<open>q\<close>: never negative, never more than the total,
  and monotone in the proportion.
\<close>

lemma share_bounds:
  assumes "0 \<le> tot" "tot \<le> 2 ^ 53" "0 \<le> q" "q \<le> 1"
  shows "0 \<le> \<lceil>rd (rd (real_of_int tot) * rd q)\<rceil>"
    and "\<lceil>rd (rd (real_of_int tot) * rd q)\<rceil> \<le> tot"
proof -
  have t: "rd (real_of_int tot) = real_of_int tot" using assms by (intro rd_int) simp
  have q: "0 \<le> rd q" "rd q \<le> 1" using assms rd_nonneg rd_mono [of q 1] by simp_all
  have "0 \<le> rd (real_of_int tot * rd q)"
    using assms q by (intro rd_nonneg) simp
  then show "0 \<le> \<lceil>rd (rd (real_of_int tot) * rd q)\<rceil>" by (simp add: t)
  have "rd (real_of_int tot * rd q) \<le> rd (real_of_int tot)"
    using assms q by (intro rd_mono mult_left_le) auto
  then show "\<lceil>rd (rd (real_of_int tot) * rd q)\<rceil> \<le> tot" by (simp add: t ceiling_le_iff)
qed

lemma share_mono:
  assumes "0 \<le> tot" "q \<le> q'"
  shows "\<lceil>rd (rd (real_of_int tot) * rd q)\<rceil> \<le> \<lceil>rd (rd (real_of_int tot) * rd q')\<rceil>"
  using assms by (intro ceiling_mono rd_mono mult_left_mono rd_nonneg) auto

text \<open>The two roundings of a share lose at most three parts in \<open>2 ^ 53\<close>.\<close>

lemma product_error:
  assumes "0 \<le> tot" "tot \<le> 2 ^ 53" "0 \<le> q"
  shows "\<bar>rd (rd (real_of_int tot) * rd q) - real_of_int tot * q\<bar> * 2 ^ 53
    \<le> 3 * (real_of_int tot * q)"
proof -
  let ?t = "real_of_int tot" and ?u = "(1 :: real) / 2 ^ 53"
  have t: "rd ?t = ?t" using assms by (intro rd_int) simp
  have T: "0 \<le> ?t" using assms by simp
  have q: "\<bar>rd q - q\<bar> \<le> ?u * q" using rd_error [of q] assms by (simp add: field_simps)
  then have "?t * \<bar>rd q - q\<bar> \<le> ?t * (?u * q)" using T by (rule mult_left_mono)
  moreover have "\<bar>?t * rd q - ?t * q\<bar> = ?t * \<bar>rd q - q\<bar>"
    using T by (simp add: abs_mult flip: right_diff_distrib)
  ultimately have a: "\<bar>?t * rd q - ?t * q\<bar> \<le> ?u * (?t * q)" by simp
  have p: "0 \<le> ?t * rd q" using T rd_nonneg assms by simp
  have b: "\<bar>rd (?t * rd q) - ?t * rd q\<bar> \<le> ?u * (?t * rd q)"
    using rd_error [of "?t * rd q"] p by (simp add: field_simps)
  have "?u * (?t * q) \<le> 1 * (?t * q)"
    using mult_nonneg_nonneg [OF T assms(3)] by (rule mult_right_mono [rotated]) simp
  with a have c: "?t * rd q \<le> 2 * (?t * q)" by linarith
  have "\<bar>rd (?t * rd q) - ?t * q\<bar>
      \<le> \<bar>rd (?t * rd q) - ?t * rd q\<bar> + \<bar>?t * rd q - ?t * q\<bar>"
    by linarith
  also have "\<dots> \<le> ?u * (?t * rd q) + ?u * (?t * q)" using b a by (rule add_mono)
  also have "\<dots> \<le> ?u * (2 * (?t * q)) + ?u * (?t * q)"
    using c by (intro add_right_mono mult_left_mono) auto
  finally have "\<bar>rd (?t * rd q) - ?t * q\<bar> \<le> ?u * (2 * (?t * q)) + ?u * (?t * q)" .
  then show ?thesis by (simp add: t field_simps)
qed

text \<open>
  The share of \<open>g\<close> parts in \<open>b\<close>, rounded up: at least the exact share and at most one
  more than its ceiling, as long as \<open>tot * b\<close> stays below \<open>2 ^ 51\<close>.
\<close>

lemma share_exact:
  assumes "0 \<le> tot" "tot \<le> 2 ^ 53" "0 \<le> g" "g \<le> b" "0 < b" "tot * b \<le> 2 ^ 51"
  shows "tot * g \<le> \<lceil>rd (rd (real_of_int tot) * rd (real_of_int g / real_of_int b))\<rceil> * b"
    and "\<lceil>rd (rd (real_of_int tot) * rd (real_of_int g / real_of_int b))\<rceil> * b < tot * g + 2 * b"
proof -
  let ?q = "real_of_int g / real_of_int b" and ?t = "real_of_int tot" and ?b = "real_of_int b"
  let ?p = "rd (rd ?t * rd ?q)"
  have "0 \<le> ?q" "?q \<le> 1" using assms by (simp_all add: field_simps)
  then have "?t * ?q \<le> ?t" using assms by (intro mult_left_le) auto
  then have "\<bar>?p - ?t * ?q\<bar> * 2 ^ 53 \<le> 3 * ?t"
    using product_error [of tot ?q] assms \<open>0 \<le> ?q\<close> by linarith
  then have "\<bar>?p - ?t * ?q\<bar> * 2 ^ 53 * ?b \<le> 3 * ?t * ?b"
    using assms by (intro mult_right_mono) auto
  moreover have "?t * ?b \<le> 2 ^ 51"
    using assms(6) by (simp only: of_int_le_iff [where 'a = real, symmetric]) simp
  ultimately have e: "\<bar>?p - ?t * ?q\<bar> * ?b < 1" by simp
  have tq: "?t * ?q * ?b = real_of_int (tot * g)" using assms by simp
  have d: "\<bar>?p * ?b - real_of_int (tot * g)\<bar> < 1"
    using e assms tq by (simp add: abs_mult [symmetric] left_diff_distrib abs_mult_pos)
  have "?p * ?b \<le> real_of_int \<lceil>?p\<rceil> * ?b" using assms by (intro mult_right_mono) auto
  with d have "real_of_int (tot * g) - 1 < real_of_int (\<lceil>?p\<rceil> * b)" by simp
  then show "tot * g \<le> \<lceil>?p\<rceil> * b" by linarith
  have "real_of_int \<lceil>?p\<rceil> * ?b < (?p + 1) * ?b"
    using assms by (intro mult_strict_right_mono) linarith+
  then have "real_of_int (\<lceil>?p\<rceil> * b) < real_of_int (tot * g) + 1 + ?b"
    using d by (simp add: distrib_right)
  then have "\<lceil>?p\<rceil> * b < tot * g + 1 + b" by linarith
  then show "\<lceil>?p\<rceil> * b < tot * g + 2 * b" using assms by linarith
qed

end

subsection \<open>Binary64 rounding satisfies the laws\<close>

lemma rnd_pos_binade:
  assumes "0 < x"
  shows "2 powr real_of_int \<lfloor>log 2 x\<rfloor> \<le> rnd_pos x" and "rnd_pos x \<le> 2 powr (real_of_int \<lfloor>log 2 x\<rfloor> + 1)"
proof -
  let ?f = "\<lfloor>log 2 x\<rfloor>"
  let ?s = "2 powr real_of_int (?f - 52)"
  have s: "0 < ?s" by simp
  have f: "2 powr real_of_int ?f = real_of_int (2 ^ 52) * ?s"
    and f1: "2 powr (real_of_int ?f + 1) = real_of_int (2 ^ 53) * ?s"
    by (simp_all add: powr_diff powr_add)
  note b = log_binade [OF assms]
  have "real_of_int (2 ^ 52) \<le> x / ?s" "x / ?s \<le> real_of_int (2 ^ 53)"
    using b unfolding f f1 using s by (simp_all only: pos_le_divide_eq pos_divide_le_eq less_imp_le)
  then have "2 ^ 52 \<le> half_even (x / ?s)" "half_even (x / ?s) \<le> 2 ^ 53"
    using half_even_mono half_even_of_int by metis+
  then have "real_of_int (2 ^ 52) * ?s \<le> real_of_int (half_even (x / ?s)) * ?s"
    "real_of_int (half_even (x / ?s)) * ?s \<le> real_of_int (2 ^ 53) * ?s"
    by (simp_all only: of_int_le_iff mult_le_cancel_right_pos [OF s])
  then show "2 powr real_of_int ?f \<le> rnd_pos x" and "rnd_pos x \<le> 2 powr (real_of_int ?f + 1)"
    unfolding f f1 rnd_pos_def Let_def by simp_all
qed

lemma rnd_pos_positive: "0 < x \<Longrightarrow> 0 < rnd_pos x"
  using rnd_pos_binade(1) [of x] powr_gt_zero [of 2 "real_of_int \<lfloor>log 2 x\<rfloor>"] by linarith

lemma rnd_pos_mono:
  assumes "0 < x" "x \<le> y"
  shows "rnd_pos x \<le> rnd_pos y"
proof (cases "\<lfloor>log 2 x\<rfloor> = \<lfloor>log 2 y\<rfloor>")
  case True
  with assms show ?thesis
    by (auto simp: rnd_pos_def Let_def intro!: mult_right_mono half_even_mono divide_right_mono)
next
  case False
  have "log 2 x \<le> log 2 y" using assms by simp
  then have "\<lfloor>log 2 x\<rfloor> \<le> \<lfloor>log 2 y\<rfloor>" by (rule floor_mono)
  with False have "real_of_int \<lfloor>log 2 x\<rfloor> + 1 \<le> real_of_int \<lfloor>log 2 y\<rfloor>" by linarith
  then have "2 powr (real_of_int \<lfloor>log 2 x\<rfloor> + 1) \<le> 2 powr real_of_int \<lfloor>log 2 y\<rfloor>" by simp
  with rnd_pos_binade(2) [OF assms(1)] rnd_pos_binade(1) [of y] assms show ?thesis by linarith
qed

lemma rnd_mono: "x \<le> y \<Longrightarrow> rnd x \<le> rnd y"
  using rnd_pos_mono [of x y] rnd_pos_mono [of "- y" "- x"]
    rnd_pos_positive [of y] rnd_pos_positive [of "- x"]
  by (auto simp: rnd_def)

lemma rnd_pos_error:
  assumes "0 < x"
  shows "\<bar>rnd_pos x - x\<bar> * 2 ^ 53 \<le> x"
proof -
  let ?f = "\<lfloor>log 2 x\<rfloor>"
  let ?s = "2 powr real_of_int (?f - 52)"
  have "rnd_pos x - x = (real_of_int (half_even (x / ?s)) - x / ?s) * ?s"
    by (simp add: rnd_pos_def Let_def left_diff_distrib)
  then have "\<bar>rnd_pos x - x\<bar> \<le> 1 / 2 * ?s"
    using half_even_error [of "x / ?s"] by (simp add: abs_mult mult_right_mono)
  moreover have "2 powr real_of_int ?f = 2 ^ 52 * ?s" by (simp add: powr_diff)
  ultimately show ?thesis using log_binade(1) [OF assms] by simp
qed

lemma rnd_error: "\<bar>rnd x - x\<bar> * 2 ^ 53 \<le> \<bar>x\<bar>"
proof -
  have "x < 0 \<Longrightarrow> \<bar>rnd x - x\<bar> = \<bar>rnd_pos (- x) - (- x)\<bar>" by (simp add: rnd_def)
  then show ?thesis
    using rnd_pos_error [of x] rnd_pos_error [of "- x"] by (cases "0 < x"; cases "x = 0") (auto simp: rnd_def)
qed

lemma rnd_pos_int:
  assumes "0 < n" "n \<le> 2 ^ 53"
  shows "rnd_pos (real_of_int n) = real_of_int n"
proof -
  let ?f = "\<lfloor>log 2 (real_of_int n)\<rfloor>"
  have "0 \<le> log 2 (real_of_int n)" using assms by simp
  then have f0: "0 \<le> ?f" by simp
  have "real_of_int n \<le> 2 powr 53" using assms(2) by simp
  with assms have "log 2 (real_of_int n) \<le> 53" by (simp add: log_le_iff)
  then have "?f \<le> 53" by linarith
  show ?thesis
  proof (cases "?f = 53")
    case True
    then have "real_of_int n = 2 ^ 53"
      using log_binade(1) [of "real_of_int n"] assms by (simp add: powr_realpow)
    moreover have "half_even (2 ^ 53 / 2) = 2 ^ 52" using half_even_of_int [of "2 ^ 52"] by simp
    ultimately show ?thesis using True by (simp add: rnd_pos_def Let_def)
  next
    case False
    with \<open>?f \<le> 53\<close> have le: "?f - 52 \<le> 0" by linarith
    have "real_of_int n / 2 powr real_of_int (?f - 52) = real_of_int (n * 2 ^ nat (52 - ?f))"
      using le unfolding two_powr_split by simp
    then have "half_even (real_of_int n / 2 powr real_of_int (?f - 52)) = n * 2 ^ nat (52 - ?f)"
      by (simp only: half_even_of_int)
    then show ?thesis
      using le unfolding rnd_pos_def Let_def two_powr_split by simp
  qed
qed

lemma rnd_int: "\<bar>n\<bar> \<le> 2 ^ 53 \<Longrightarrow> rnd (real_of_int n) = real_of_int n"
  using rnd_pos_int [of n] rnd_pos_int [of "- n"] by (auto simp: rnd_def)

text \<open>Scaling by a power of two commutes with rounding, so such products are exact.\<close>

lemma rnd_pos_scale:
  assumes "0 < x"
  shows "rnd_pos (x * 2 powr real_of_int e) = rnd_pos x * 2 powr real_of_int e"
proof -
  have l: "log 2 (x * 2 powr real_of_int e) = log 2 x + real_of_int e"
    using assms by (simp add: log_mult)
  have f: "\<lfloor>log 2 x + real_of_int e\<rfloor> = \<lfloor>log 2 x\<rfloor> + e" by simp
  have s: "2 powr real_of_int (\<lfloor>log 2 x\<rfloor> + e - 52)
      = 2 powr real_of_int (\<lfloor>log 2 x\<rfloor> - 52) * 2 powr real_of_int e"
    by (simp add: powr_add [symmetric] algebra_simps)
  show ?thesis unfolding rnd_pos_def Let_def l f s by simp
qed

lemma rnd_scale: "rnd (x * 2 powr real_of_int e) = rnd x * 2 powr real_of_int e"
  using rnd_pos_scale [of x e] rnd_pos_scale [of "- x" e]
  by (auto simp: rnd_def zero_less_mult_iff)

lemma rnd_power: "rnd (2 powr real_of_int e) = 2 powr real_of_int e"
  using rnd_scale [of 1 e] rnd_int [of 1] by simp

interpretation binary64: rounding rnd
  by unfold_locales (rule rnd_mono rnd_int rnd_error; assumption?)+

end
