(* ===== verification/Py_Prelude.thy ===== *)
theory Py_Prelude
  imports Py_Float "HOL-Library.AList" "HOL-Library.Sublist" "HOL-Library.Multiset"
begin

text \<open>
  The part of Python the modelled code uses, shared by every component: text and its formatting,
  dictionaries with insertion order, \<^verbatim>\<open>min\<close>/\<^verbatim>\<open>max\<close> with a key, the truthiness of
  optional values, errors as values of a sum, and dynamically typed objects.  Text is a list of
  characters; \<^verbatim>\<open>lower\<close> and \<^verbatim>\<open>upper\<close> act on the ASCII letters.

  Collections: \<open>py_simps\<close> holds the unfolding equations of the small Python helpers,
  \<open>dict_simps\<close> the laws of dictionaries.
\<close>

named_theorems py_simps \<open>unfolding equations of the Python helpers\<close>
named_theorems dict_simps \<open>laws of insertion-ordered dictionaries\<close>

section \<open>Text\<close>

definition digit_char :: "int \<Rightarrow> char" where
  "digit_char d = char_of (48 + nat d)"

text \<open>\<^verbatim>\<open>str(n)\<close> of an integer.\<close>

function show_digits :: "int \<Rightarrow> string" where
  "show_digits n = (if n < 10 then [digit_char n] else show_digits (n div 10) @ [digit_char (n mod 10)])"
  by pat_completeness auto
termination
  by (relation "measure nat") auto

declare show_digits.simps [simp del]

definition show_int :: "int \<Rightarrow> string" where
  "show_int n = (if n < 0 then ''-'' @ show_digits (- n) else show_digits n)"

text \<open>\<^verbatim>\<open>f"{n:,}"\<close>: groups of three digits from the right.\<close>

fun group_rev :: "string \<Rightarrow> string" where
  "group_rev (a # b # c # d # cs) = a # b # c # CHR '','' # group_rev (d # cs)"
| "group_rev cs = cs"

definition show_grouped :: "int \<Rightarrow> string" where
  "show_grouped n =
     (if n < 0 then ''-'' @ rev (group_rev (rev (show_digits (- n))))
      else rev (group_rev (rev (show_digits n))))"

definition pad_zeros :: "nat \<Rightarrow> string \<Rightarrow> string" where
  "pad_zeros w s = replicate (w - length s) CHR ''0'' @ s"

text \<open>
  The decimal value of a float, scaled by \<open>10 ^ k\<close> and rounded half to even: the digits
  that \<^verbatim>\<open>f"{x:.kf}"\<close> prints.
\<close>

fun scaled_decimal :: "nat \<Rightarrow> py_float \<Rightarrow> int" where
  "scaled_decimal k (PyFloat m e) = div_half_even (\<bar>m\<bar> * 10 ^ k * 2 ^ nat e) (2 ^ nat (- e))"

definition show_fixed :: "nat \<Rightarrow> py_float \<Rightarrow> string" where
  "show_fixed k x =
     (let v = scaled_decimal k x; s = (if mantissa x < 0 then ''-'' else '''') in
      if k = 0 then s @ show_digits v
      else s @ show_digits (v div 10 ^ k) @ ''.'' @ pad_zeros k (show_digits (v mod 10 ^ k)))"

text \<open>\<^verbatim>\<open>f"{x:g}"\<close>: six significant digits, without trailing zeros.\<close>

function ilog10 :: "int \<Rightarrow> int" where
  "ilog10 n = (if n < 10 then 0 else 1 + ilog10 (n div 10))"
  by pat_completeness auto
termination
  by (relation "measure nat") auto

declare ilog10.simps [simp del]

definition ratio_exp10 :: "int \<Rightarrow> int \<Rightarrow> int" where
  "ratio_exp10 n d =
     (let k = ilog10 n - ilog10 d in
      if d * 10 ^ nat k \<le> n * 10 ^ nat (- k) then k else k - 1)"

definition strip_zeros :: "string \<Rightarrow> string" where
  "strip_zeros s = rev (dropWhile (\<lambda>c. c = CHR ''0'') (rev s))"

definition show_exp :: "int \<Rightarrow> string" where
  "show_exp e = (if e < 0 then ''e-'' else ''e+'') @ pad_zeros 2 (show_digits \<bar>e\<bar>)"

definition general_pos :: "int \<Rightarrow> int \<Rightarrow> string" where
  "general_pos n d =
     (let e0 = ratio_exp10 n d;
          r0 = div_half_even (n * 10 ^ nat (5 - e0)) (d * 10 ^ nat (e0 - 5));
          (e, r) = (if r0 = 1000000 then (e0 + 1, 100000) else (e0, r0));
          ds = show_digits r in
      if - 4 \<le> e \<and> e < 6 then
        (if 0 \<le> e then
           (let f = strip_zeros (drop (nat (e + 1)) ds) in
            take (nat (e + 1)) ds @ (if f = '''' then '''' else ''.'' @ f))
         else ''0.'' @ replicate (nat (- e - 1)) CHR ''0'' @ strip_zeros ds)
      else
        (let f = strip_zeros (tl ds) in
         take 1 ds @ (if f = '''' then '''' else ''.'' @ f) @ show_exp e))"

fun show_general :: "py_float \<Rightarrow> string" where
  "show_general (PyFloat m e) =
     (if m = 0 then ''0''
      else if m < 0 then ''-'' @ general_pos (- m * 2 ^ nat e) (2 ^ nat (- e))
      else general_pos (m * 2 ^ nat e) (2 ^ nat (- e)))"

definition lower_char :: "char \<Rightarrow> char" where
  "lower_char c = (let n = (of_char c :: nat) in if 65 \<le> n \<and> n \<le> 90 then char_of (n + 32) else c)"

definition upper_char :: "char \<Rightarrow> char" where
  "upper_char c = (let n = (of_char c :: nat) in if 97 \<le> n \<and> n \<le> 122 then char_of (n - 32) else c)"

definition lower :: "string \<Rightarrow> string" where
  "lower s = map lower_char s"

definition upper :: "string \<Rightarrow> string" where
  "upper s = map upper_char s"

definition startswith :: "string \<Rightarrow> string \<Rightarrow> bool" where
  "startswith s p \<longleftrightarrow> take (length p) s = p"

definition endswith :: "string \<Rightarrow> string \<Rightarrow> bool" where
  "endswith s p \<longleftrightarrow> length p \<le> length s \<and> drop (length s - length p) s = p"

text \<open>\<^verbatim>\<open>p in s\<close>.\<close>

fun contains :: "string \<Rightarrow> string \<Rightarrow> bool" where
  "contains [] p \<longleftrightarrow> p = []"
| "contains (c # cs) p \<longleftrightarrow> startswith (c # cs) p \<or> contains cs p"

fun join :: "string \<Rightarrow> string list \<Rightarrow> string" where
  "join sep [] = ''''"
| "join sep [x] = x"
| "join sep (x # y # ys) = x @ sep @ join sep (y # ys)"

text \<open>\<^verbatim>\<open>repr\<close> of a text without control characters or backslashes.\<close>

definition repr_str :: "string \<Rightarrow> string" where
  "repr_str s =
     (if CHR 0x27 \<in> set s \<and> CHR 0x22 \<notin> set s then [CHR 0x22] @ s @ [CHR 0x22]
      else [CHR 0x27] @ concat (map (\<lambda>c. if c = CHR 0x27 then [CHR 0x5C, c] else [c]) s) @ [CHR 0x27])"

lemma startswith_iff: "startswith s p \<longleftrightarrow> prefix p s"
  by (metis append_eq_conv_conj append_take_drop_id prefix_def startswith_def)

lemma contains_iff: "contains s p \<longleftrightarrow> sublist p s"
proof (induction s)
  case (Cons c cs)
  then show ?case by (auto simp: startswith_iff sublist_Cons_right)
qed auto

lemma lower_char_idem [simp]: "lower_char (lower_char c) = lower_char c"
  by (simp add: lower_char_def Let_def)

lemma lower_idem [simp]: "lower (lower s) = lower s"
  by (simp add: lower_def)

lemma length_lower [simp]: "length (lower s) = length s"
  by (simp add: lower_def)

section \<open>Errors as values\<close>

text \<open>A computation that may raise: \<open>Inl\<close> carries the exception.\<close>

type_synonym ('e, 'a) result = "'e + 'a"

definition bind_result :: "'e + 'a \<Rightarrow> ('a \<Rightarrow> 'e + 'b) \<Rightarrow> 'e + 'b" where
  "bind_result r f = (case r of Inl e \<Rightarrow> Inl e | Inr x \<Rightarrow> f x)"

lemma bind_result_simps [simp]:
  "bind_result (Inl e) f = Inl e" "bind_result (Inr x) f = f x"
  by (simp_all add: bind_result_def)

lemma bind_result_Inr:
  "bind_result r f = Inr y \<longleftrightarrow> (\<exists>x. r = Inr x \<and> f x = Inr y)"
  by (cases r) auto

lemma bind_result_Inl:
  "bind_result r f = Inl e \<longleftrightarrow> r = Inl e \<or> (\<exists>x. r = Inr x \<and> f x = Inl e)"
  by (cases r) auto

section \<open>Optional values\<close>

text \<open>\<^verbatim>\<open>x or d\<close> for an optional integer: \<^verbatim>\<open>None\<close> and \<^verbatim>\<open>0\<close> are false.\<close>

definition int_or :: "int option \<Rightarrow> int \<Rightarrow> int" where
  "int_or x d = (case x of None \<Rightarrow> d | Some n \<Rightarrow> if n = 0 then d else n)"

definition opt_or :: "'a option \<Rightarrow> 'a option \<Rightarrow> 'a option" where
  "opt_or x y = (case x of None \<Rightarrow> y | Some v \<Rightarrow> Some v)"

definition opt_default :: "'a option \<Rightarrow> 'a \<Rightarrow> 'a" where
  "opt_default x d = (case x of None \<Rightarrow> d | Some v \<Rightarrow> v)"

lemma int_or_simps [simp]:
  "int_or None d = d" "int_or (Some 0) d = d" "n \<noteq> 0 \<Longrightarrow> int_or (Some n) d = n"
  by (simp_all add: int_or_def)

lemma opt_simps [simp]:
  "opt_or None y = y" "opt_or (Some v) y = Some v"
  "opt_default None d = d" "opt_default (Some v) d = v"
  by (simp_all add: opt_or_def opt_default_def)

section \<open>Lists\<close>

text \<open>\<^verbatim>\<open>dict.fromkeys(xs)\<close>: each element once, at its first position.\<close>

fun dedup :: "'a list \<Rightarrow> 'a list" where
  "dedup [] = []"
| "dedup (x # xs) = x # dedup (filter (\<lambda>y. y \<noteq> x) xs)"

lemma set_dedup [simp]: "set (dedup xs) = set xs"
  by (induction xs rule: dedup.induct) auto

lemma distinct_dedup [simp]: "distinct (dedup xs)"
  by (induction xs rule: dedup.induct) auto

text \<open>\<^verbatim>\<open>min(xs, key=f)\<close> and \<^verbatim>\<open>max(xs, key=f)\<close>: the first extremal element.\<close>

fun min_by :: "('a \<Rightarrow> 'b::linorder) \<Rightarrow> 'a \<Rightarrow> 'a list \<Rightarrow> 'a" where
  "min_by f x [] = x"
| "min_by f x (y # ys) = min_by f (if f y < f x then y else x) ys"

fun max_by :: "('a \<Rightarrow> 'b::linorder) \<Rightarrow> 'a \<Rightarrow> 'a list \<Rightarrow> 'a" where
  "max_by f x [] = x"
| "max_by f x (y # ys) = max_by f (if f x < f y then y else x) ys"

lemma min_by_in: "min_by f x ys \<in> set (x # ys)"
  by (induction ys arbitrary: x) force+

lemma max_by_in: "max_by f x ys \<in> set (x # ys)"
  by (induction ys arbitrary: x) force+

lemma min_by_le: "y \<in> set (x # ys) \<Longrightarrow> f (min_by f x ys) \<le> f y"
proof (induction ys arbitrary: x y)
  case (Cons z zs)
  let ?w = "if f z < f x then z else x"
  have "f (min_by f ?w zs) \<le> f ?w" by (rule Cons.IH) simp
  moreover have "y \<in> set zs \<Longrightarrow> f (min_by f ?w zs) \<le> f y" by (rule Cons.IH) simp
  ultimately show ?case using Cons.prems by (auto split: if_splits)
qed simp

lemma max_by_ge: "y \<in> set (x # ys) \<Longrightarrow> f y \<le> f (max_by f x ys)"
proof (induction ys arbitrary: x y)
  case (Cons z zs)
  let ?w = "if f x < f z then z else x"
  have "f ?w \<le> f (max_by f ?w zs)" by (rule Cons.IH) simp
  moreover have "y \<in> set zs \<Longrightarrow> f y \<le> f (max_by f ?w zs)" by (rule Cons.IH) simp
  ultimately show ?case using Cons.prems by (auto split: if_splits)
qed simp

text \<open>\<^verbatim>\<open>max(xs, default=None)\<close>.\<close>

fun max_default :: "int list \<Rightarrow> int option" where
  "max_default [] = None"
| "max_default (x # xs) = Some (max_by id x xs)"

lemma max_default_Some:
  "max_default xs = Some m \<longleftrightarrow> m \<in> set xs \<and> (\<forall>x \<in> set xs. x \<le> m)"
proof (cases xs)
  case (Cons y ys)
  have "max_by id y ys \<in> set (y # ys)" by (rule max_by_in)
  moreover have "\<forall>x \<in> set (y # ys). x \<le> max_by id y ys" using max_by_ge [of _ y ys id] by simp
  ultimately show ?thesis using Cons by (auto intro: antisym)
qed simp

lemma max_default_None [simp]: "max_default xs = None \<longleftrightarrow> xs = []"
  by (cases xs) auto

section \<open>Dictionaries\<close>

text \<open>
  A \<^verbatim>\<open>dict\<close> is an association list in insertion order; storing a value for a present key
  keeps the key's position, as in Python.
\<close>

type_synonym ('k, 'v) dict = "('k \<times> 'v) list"

definition dict_get :: "('k, 'v) dict \<Rightarrow> 'k \<Rightarrow> 'v option" where
  "dict_get d k = map_of d k"

definition dict_set :: "('k, 'v) dict \<Rightarrow> 'k \<Rightarrow> 'v \<Rightarrow> ('k, 'v) dict" where
  "dict_set d k v = AList.update k v d"

definition dict_has :: "('k, 'v) dict \<Rightarrow> 'k \<Rightarrow> bool" where
  "dict_has d k \<longleftrightarrow> k \<in> set (map fst d)"

lemma dict_get_set [dict_simps]: "dict_get (dict_set d k v) k' = (if k' = k then Some v else dict_get d k')"
  by (simp add: dict_get_def dict_set_def update_conv')

lemma dict_get_empty [dict_simps]: "dict_get [] k = None"
  by (simp add: dict_get_def)

lemma dict_has_get [dict_simps]: "dict_has d k \<longleftrightarrow> dict_get d k \<noteq> None"
  by (simp add: dict_has_def dict_get_def map_of_eq_None_iff)

lemma distinct_dict_set: "distinct (map fst d) \<Longrightarrow> distinct (map fst (dict_set d k v))"
  by (simp add: dict_set_def distinct_update)

lemma keys_dict_set: "set (map fst (dict_set d k v)) = insert k (set (map fst d))"
  by (simp add: dict_set_def dom_update)

section \<open>Dynamically typed objects\<close>

text \<open>What \<^verbatim>\<open>json\<close> and the header readers produce where the code declares \<^verbatim>\<open>object\<close>.\<close>

datatype py_obj =
    PyNone
  | PyBool bool
  | PyInt int
  | PyNum py_float
  | PyStr string
  | PyList "py_obj list"
  | PyDict "(string \<times> py_obj) list"

text \<open>\<^verbatim>\<open>bool(x)\<close>.\<close>

fun truthy :: "py_obj \<Rightarrow> bool" where
  "truthy PyNone = False"
| "truthy (PyBool b) = b"
| "truthy (PyInt n) = (n \<noteq> 0)"
| "truthy (PyNum x) = (mantissa x \<noteq> 0)"
| "truthy (PyStr s) = (s \<noteq> '''')"
| "truthy (PyList xs) = (xs \<noteq> [])"
| "truthy (PyDict d) = (d \<noteq> [])"

end
