(* ===== verification/Hardware.thy ===== *)
theory Hardware
  imports Py_Prelude
begin

text \<open>
  The hardware profile (\<^verbatim>\<open>domain/hardware.py\<close>) and the technical support rules that
  read it (\<^verbatim>\<open>domain/runtime_support.py\<close>, \<^verbatim>\<open>available_compute_backends\<close> and
  \<^verbatim>\<open>quantized_transformers_supported\<close>).  The lemmas say which devices count as a memory
  budget and that pools are never added up.
\<close>

section \<open>Data\<close>

record cpu_info =
  cpu_model :: "string option"
  physical_cores :: "int option"
  logical_cores :: "int option"

record memory_info =
  mem_total_bytes :: int
  mem_available_bytes :: int

record storage_info =
  mountpoint :: string
  storage_total_bytes :: int
  storage_available_bytes :: int

datatype accelerator_vendor = NVIDIA | AMD | INTEL | VENDOR_OTHER | VENDOR_UNKNOWN

datatype accelerator_type = DEDICATED | INTEGRATED | SOFTWARE | TYPE_UNKNOWN

datatype compute_backend = CPU | CUDA | VULKAN | HIP

datatype backend_availability = AVAILABLE | UNAVAILABLE | AVAILABILITY_UNKNOWN

datatype backend_availability_reason =
    PROBE_AVAILABLE | PROBE_FAILED | NOT_CHECKED | VENDOR_NOT_SUPPORTED | SOFTWARE_RENDERER_ONLY
  | RUNTIME_NOT_INSTALLED | DEVICE_NOT_VISIBLE | NOT_IMPLEMENTED

fun backend_value :: "compute_backend \<Rightarrow> string" where
  "backend_value CPU = ''cpu''"
| "backend_value CUDA = ''cuda''"
| "backend_value VULKAN = ''vulkan''"
| "backend_value HIP = ''hip''"

record compute_backend_info =
  backend :: compute_backend
  availability :: backend_availability
  availability_reason :: "backend_availability_reason option"
  probe_source :: "string option"
  probe_detail :: "string option"
  api_version :: "string option"
  device_name :: "string option"
  driver_name :: "string option"
  backend_driver_version :: "string option"
  software_renderer :: bool

record accelerator_profile =
  acc_name :: string
  acc_vendor :: accelerator_vendor
  acc_type :: accelerator_type
  vendor_id :: "string option"
  device_id :: "string option"
  pci_bus_id :: "string option"
  acc_uuid :: "string option"
  dedicated_memory_bytes :: "int option"
  available_memory_bytes :: "int option"
  shared_memory :: bool
  detection_sources :: "string list"
  backends :: "compute_backend_info list"

record gpu_info =
  gpu_name :: string
  vram_total_bytes :: int
  vram_available_bytes :: int
  gpu_driver_version :: "string option"
  cuda_version :: "string option"

record hardware_profile =
  os_name :: string
  os_version :: "string option"
  arch :: string
  cpu :: cpu_info
  memory :: memory_info
  storage :: "storage_info list"
  gpus :: "gpu_info list"
  accelerators :: "accelerator_profile list"
  hw_warnings :: "string list"

section \<open>Memory budgets\<close>

text \<open>A dedicated device that does not borrow system memory.\<close>

definition is_discrete :: "accelerator_profile \<Rightarrow> bool" where
  "is_discrete a \<longleftrightarrow> acc_type a = DEDICATED \<and> \<not> shared_memory a"

definition planning_accelerator_memory_bytes :: "hardware_profile \<Rightarrow> int option" where
  "planning_accelerator_memory_bytes hw =
     max_default (map vram_total_bytes (gpus hw) @
       List.map_filter (\<lambda>a. if is_discrete a then dedicated_memory_bytes a else None)
         (accelerators hw))"

definition available_accelerator_memory_bytes :: "hardware_profile \<Rightarrow> int option" where
  "available_accelerator_memory_bytes hw =
     max_default (map vram_available_bytes (gpus hw) @
       List.map_filter (\<lambda>a. if is_discrete a then available_memory_bytes a else None)
         (accelerators hw))"

definition has_usable_accelerator :: "hardware_profile \<Rightarrow> bool" where
  "has_usable_accelerator hw \<longleftrightarrow>
     gpus hw \<noteq> [] \<or>
     list_ex (\<lambda>a. acc_type a \<noteq> SOFTWARE \<and> list_ex (\<lambda>b. availability b = AVAILABLE) (backends a))
       (accelerators hw)"

section \<open>Compute backends\<close>

definition usable_backends :: "accelerator_profile \<Rightarrow> compute_backend list" where
  "usable_backends a =
     (if acc_type a = SOFTWARE then []
      else map backend (filter (\<lambda>i. availability i = AVAILABLE \<and> \<not> software_renderer i) (backends a)))"

definition available_compute_backends :: "hardware_profile \<Rightarrow> compute_backend set" where
  "available_compute_backends hw =
     set (CPU # concat (map usable_backends (accelerators hw)) @
       (if gpus hw \<noteq> [] \<and> accelerators hw = [] then [CUDA] else []))"

definition quantized_transformers_supported :: "hardware_profile \<Rightarrow> bool" where
  "quantized_transformers_supported hw \<longleftrightarrow> available_compute_backends hw \<inter> {CUDA, HIP} \<noteq> {}"

definition QUANTIZED_CPU_LIMITATION :: string where
  "QUANTIZED_CPU_LIMITATION =
     ''This quantized Transformers configuration is not supported on CPU by '' @
     ''Jaull's current loader; it requires an available CUDA/HIP backend.''"

section \<open>Lemmas\<close>

lemma set_map_filter: "y \<in> set (List.map_filter f xs) \<longleftrightarrow> (\<exists>x \<in> set xs. f x = Some y)"
  by (force simp: List.map_filter_def)

lemma available_accelerator_memory_Some:
  "available_accelerator_memory_bytes hw = Some v \<Longrightarrow>
     (\<exists>g \<in> set (gpus hw). vram_available_bytes g = v) \<or>
     (\<exists>a \<in> set (accelerators hw). is_discrete a \<and> available_memory_bytes a = Some v)"
  by (auto simp: available_accelerator_memory_bytes_def max_default_Some set_map_filter
      split: if_splits)

lemma available_accelerator_memory_upper:
  assumes "available_accelerator_memory_bytes hw = Some v"
  shows "g \<in> set (gpus hw) \<Longrightarrow> vram_available_bytes g \<le> v"
    and "a \<in> set (accelerators hw) \<Longrightarrow> is_discrete a \<Longrightarrow> available_memory_bytes a = Some m \<Longrightarrow> m \<le> v"
  using assms by (force simp: available_accelerator_memory_bytes_def max_default_Some set_map_filter)+

lemma available_accelerator_memory_None:
  "available_accelerator_memory_bytes hw = None \<longleftrightarrow>
     gpus hw = [] \<and> (\<forall>a \<in> set (accelerators hw). is_discrete a \<longrightarrow> available_memory_bytes a = None)"
proof -
  have "List.map_filter f xs = [] \<longleftrightarrow> (\<forall>x \<in> set xs. f x = None)"
    for f :: "accelerator_profile \<Rightarrow> int option" and xs
    by (auto simp: List.map_filter_def filter_empty_conv)
  then show ?thesis by (auto simp: available_accelerator_memory_bytes_def)
qed

text \<open>Dropping every device that is shared or not dedicated leaves the budget as it is.\<close>

lemma budget_ignores_shared:
  "available_accelerator_memory_bytes (hw\<lparr>accelerators := filter is_discrete (accelerators hw)\<rparr>)
     = available_accelerator_memory_bytes hw"
proof -
  have "List.map_filter (\<lambda>a. if is_discrete a then available_memory_bytes a else None)
      (filter is_discrete as) =
    List.map_filter (\<lambda>a. if is_discrete a then available_memory_bytes a else None) as" for as
    by (induction as) (auto simp: List.map_filter_simps split: option.splits)
  then show ?thesis by (simp add: available_accelerator_memory_bytes_def)
qed

lemma cpu_backend_available [simp]: "CPU \<in> available_compute_backends hw"
  by (simp add: available_compute_backends_def)

end
