(* ===== verification/Model_Data.thy ===== *)
theory Model_Data
  imports Py_Prelude
begin

text \<open>
  What Jaull knows of a model repository (\<^verbatim>\<open>domain/model.py\<close>, \<^verbatim>\<open>domain/enums.py\<close>),
  the knobs of one estimate (\<^verbatim>\<open>domain/inference.py\<close>), and the parameter counts derived from a
  \<^verbatim>\<open>config.json\<close> (\<^verbatim>\<open>domain/parameters.py\<close>), with the lemmas that the derived split is
  exact and abstains outside the supported architectures.
\<close>

section \<open>Enumerations\<close>

datatype repository_type =
    REPO_TRANSFORMERS | REPO_GGUF | REPO_DIFFUSERS | REPO_ONNX | REPO_ADAPTER | REPO_UNKNOWN

fun repository_value :: "repository_type \<Rightarrow> string" where
  "repository_value REPO_TRANSFORMERS = ''transformers''"
| "repository_value REPO_GGUF = ''gguf''"
| "repository_value REPO_DIFFUSERS = ''diffusers''"
| "repository_value REPO_ONNX = ''onnx''"
| "repository_value REPO_ADAPTER = ''adapter''"
| "repository_value REPO_UNKNOWN = ''unknown''"

datatype file_format = FMT_SAFETENSORS | FMT_PYTORCH_BIN | FMT_GGUF | FMT_ONNX | FMT_TFLITE | FMT_OPENVINO

datatype target_device = AUTO | GPU_DEVICE | CPU_DEVICE

fun device_value :: "target_device \<Rightarrow> string" where
  "device_value AUTO = ''auto''"
| "device_value GPU_DEVICE = ''gpu''"
| "device_value CPU_DEVICE = ''cpu''"

datatype weight_precision = FLOAT32 | FLOAT16 | BFLOAT16 | INT8 | INT4

fun precision_value :: "weight_precision \<Rightarrow> string" where
  "precision_value FLOAT32 = ''float32''"
| "precision_value FLOAT16 = ''float16''"
| "precision_value BFLOAT16 = ''bfloat16''"
| "precision_value INT8 = ''int8''"
| "precision_value INT4 = ''int4''"

section \<open>Records\<close>

record inference_configuration =
  cfg_context_length :: int
  cfg_batch_size :: int
  cfg_target_device :: target_device
  cfg_precision :: "weight_precision option"
  cfg_quantization :: "string option"
  cfg_kv_cache_dtype :: weight_precision
  cfg_safety_margin_percent :: py_float
  cfg_device_reserve_bytes :: int
  cfg_concurrent_users :: int

text \<open>The constraints the declared fields carry.\<close>

definition valid_inference_configuration :: "inference_configuration \<Rightarrow> bool" where
  "valid_inference_configuration c \<longleftrightarrow>
     0 < cfg_context_length c \<and> 0 < cfg_batch_size c \<and>
     float_le (PyFloat 0 0) (cfg_safety_margin_percent c) \<and>
     float_le (cfg_safety_margin_percent c) (float_of_int 100) \<and>
     0 \<le> cfg_device_reserve_bytes c \<and> 1 \<le> cfg_concurrent_users c"

record model_file =
  file_path :: string
  file_size_bytes :: "int option"
  file_lfs :: bool
  file_sha256 :: "string option"

record model_repository_info =
  repo_id :: string
  repo_author :: "string option"
  repo_private :: bool
  repo_gated :: bool
  repo_downloads :: "int option"
  repo_likes :: "int option"
  repo_last_modified :: "string option"
  repo_license :: "string option"
  repo_tags :: "string list"
  repo_pipeline_tag :: "string option"
  repo_library_name :: "string option"

record model_config =
  architectures :: "string list"
  model_type :: "string option"
  torch_dtype :: "string option"
  max_position_embeddings :: "int option"
  hidden_size :: "int option"
  num_hidden_layers :: "int option"
  num_attention_heads :: "int option"
  num_key_value_heads :: "int option"
  head_dim :: "int option"
  intermediate_size :: "int option"
  sliding_window :: "int option"
  use_sliding_window :: "bool option"
  rope_scaling :: "(string, py_obj) dict option"
  tie_word_embeddings :: "bool option"
  vocab_size :: "int option"
  quantization_config :: "(string, py_obj) dict option"
  raw_flags :: "(string, py_obj) dict"

record gguf_variant =
  var_quantization :: string
  var_files :: "model_file list"
  var_total_bytes :: "int option"
  var_is_complete :: bool
  var_is_split :: bool

definition gguf_variant_sha256 :: "gguf_variant \<Rightarrow> string option" where
  "gguf_variant_sha256 v = (case var_files v of [f] \<Rightarrow> file_sha256 f | _ \<Rightarrow> None)"

record safetensors_summary =
  total_parameters :: int
  parameters_by_dtype :: "(string, int) dict"

record repository_classification =
  primary_type :: repository_type
  detected_types :: "repository_type set"
  formats :: "file_format set"
  gguf_variants :: "gguf_variant list"

record model_analysis =
  an_repo :: model_repository_info
  an_files :: "model_file list"
  an_classification :: repository_classification
  an_config :: "model_config option"
  an_relevant_files :: "string list"
  an_total_size_bytes :: "int option"
  an_warnings :: "string list"
  an_safetensors_summary :: "safetensors_summary option"
  an_declared_size_label :: "string option"

section \<open>Parameter counts from a configuration\<close>

record config_parameter_decomposition =
  cpd_total_parameters :: int
  cpd_transformer_block_parameters :: int
  cpd_non_block_parameters :: int
  cpd_embedding_parameters :: int
  cpd_output_head_parameters :: int
  cpd_total_transformer_blocks :: int

definition SUPPORTED_GATED_MLP_MODEL_TYPES :: "string list" where
  "SUPPORTED_GATED_MLP_MODEL_TYPES =
     [''gemma'', ''gemma2'', ''gemma3'', ''llama'', ''mistral'', ''phi3'', ''qwen2'', ''qwen3'']"

definition UNSUPPORTED_DECOMPOSITION_FLAG_NAMES :: "string list" where
  "UNSUPPORTED_DECOMPOSITION_FLAG_NAMES =
     [''audio_config'', ''auto_map'', ''kv_lora_rank'', ''moe_intermediate_size'', ''num_experts'',
      ''num_experts_per_tok'', ''num_local_experts'', ''q_lora_rank'', ''qk_nope_head_dim'',
      ''qk_rope_head_dim'', ''text_config'', ''v_head_dim'', ''vision_config'']"

text \<open>A flag counts when it is \<^verbatim>\<open>True\<close>, a positive number, or any other object.\<close>

fun unsupported_flag_value :: "py_obj \<Rightarrow> bool" where
  "unsupported_flag_value PyNone = False"
| "unsupported_flag_value (PyBool b) = b"
| "unsupported_flag_value (PyInt n) = (0 < n)"
| "unsupported_flag_value (PyNum x) = (0 < mantissa x)"
| "unsupported_flag_value _ = True"

definition has_unsupported_decomposition_flags :: "model_config \<Rightarrow> bool" where
  "has_unsupported_decomposition_flags c \<longleftrightarrow>
     list_ex (\<lambda>n. case dict_get (raw_flags c) n of None \<Rightarrow> False | Some v \<Rightarrow> unsupported_flag_value v)
       UNSUPPORTED_DECOMPOSITION_FLAG_NAMES"

text \<open>\<^verbatim>\<open>not x\<close> for an optional integer.\<close>

definition int_falsy :: "int option \<Rightarrow> bool" where
  "int_falsy x \<longleftrightarrow> x = None \<or> x = Some 0"

definition parameter_components ::
  "model_config \<Rightarrow> int \<Rightarrow> bool \<Rightarrow> config_parameter_decomposition option" where
  "parameter_components c intermediate tied =
     (if int_falsy (num_hidden_layers c) \<or> int_falsy (hidden_size c) \<or>
         int_falsy (num_attention_heads c) \<or> int_falsy (vocab_size c) \<or> intermediate \<le> 0 then None
      else
        let layers = the (num_hidden_layers c); hidden = the (hidden_size c);
            heads = the (num_attention_heads c); vocab = the (vocab_size c);
            hd = int_or (head_dim c) (hidden div heads);
            kv_heads = int_or (num_key_value_heads c) heads in
        if hd \<le> 0 \<or> kv_heads \<le> 0 then None
        else
          let attention = hidden * heads * hd + 2 * hidden * kv_heads * hd + hidden * hidden;
              ffn = 3 * hidden * intermediate;
              block = layers * (attention + ffn);
              embedding = vocab * hidden;
              head = (if tied then 0 else vocab * hidden);
              non_block = embedding + head;
              tot = block + non_block in
          if tot \<le> 0 then None
          else Some \<lparr>cpd_total_parameters = tot,
                     cpd_transformer_block_parameters = block,
                     cpd_non_block_parameters = non_block,
                     cpd_embedding_parameters = embedding,
                     cpd_output_head_parameters = head,
                     cpd_total_transformer_blocks = layers\<rparr>)"

text \<open>
  \<^verbatim>\<open>hidden_size % num_attention_heads\<close> raises on zero heads; that is the \<open>Inl\<close> here.
\<close>

datatype param_error = ZeroDivisionError

definition estimate_config_parameter_decomposition ::
  "model_config option \<Rightarrow> param_error + config_parameter_decomposition option" where
  "estimate_config_parameter_decomposition mc =
     (case mc of None \<Rightarrow> Inr None
      | Some c \<Rightarrow>
        if lower (opt_default (model_type c) '''') \<notin> set SUPPORTED_GATED_MLP_MODEL_TYPES then Inr None
        else if tie_word_embeddings c = None \<or> intermediate_size c = None then Inr None
        else if has_unsupported_decomposition_flags c then Inr None
        else if head_dim c = None \<and> hidden_size c \<noteq> None \<and> num_attention_heads c = Some 0
        then Inl ZeroDivisionError
        else if head_dim c = None \<and> hidden_size c \<noteq> None \<and> num_attention_heads c \<noteq> None \<and>
          the (hidden_size c) mod the (num_attention_heads c) \<noteq> 0 then Inr None
        else
          let kv_heads = (if int_falsy (num_key_value_heads c) then num_attention_heads c
                          else num_key_value_heads c) in
          if kv_heads \<noteq> None \<and> num_attention_heads c \<noteq> None \<and>
             the kv_heads > the (num_attention_heads c) then Inr None
          else Inr (parameter_components c (the (intermediate_size c)) (the (tie_word_embeddings c))))"

definition estimate_total_parameters_from_config :: "model_config option \<Rightarrow> int option" where
  "estimate_total_parameters_from_config mc =
     (case mc of None \<Rightarrow> None
      | Some c \<Rightarrow>
        (case hidden_size c of None \<Rightarrow> None
         | Some hidden \<Rightarrow>
           map_option cpd_total_parameters
             (parameter_components c (int_or (intermediate_size c) (4 * hidden))
               (opt_default (tie_word_embeddings c) False))))"

section \<open>Lemmas\<close>

lemma parameter_components_exact:
  assumes "parameter_components c i t = Some d"
  shows "cpd_total_parameters d = cpd_transformer_block_parameters d + cpd_non_block_parameters d"
    and "cpd_non_block_parameters d = cpd_embedding_parameters d + cpd_output_head_parameters d"
    and "0 < cpd_total_parameters d"
    and "num_hidden_layers c = Some (cpd_total_transformer_blocks d)"
    and "t \<Longrightarrow> cpd_output_head_parameters d = 0"
    and "\<not> t \<Longrightarrow> cpd_output_head_parameters d = cpd_embedding_parameters d"
  using assms
  by (auto simp: parameter_components_def Let_def int_falsy_def split: if_splits)

text \<open>The dimensions a real configuration has.\<close>

definition positive_dimensions :: "model_config \<Rightarrow> bool" where
  "positive_dimensions c \<longleftrightarrow>
     (\<forall>n \<in> {num_hidden_layers c, hidden_size c, num_attention_heads c, vocab_size c}.
        case n of None \<Rightarrow> True | Some v \<Rightarrow> 0 < v)"

lemma parameter_components_nonneg:
  assumes "parameter_components c i t = Some d" and "positive_dimensions c"
  shows "0 < cpd_transformer_block_parameters d" and "0 < cpd_embedding_parameters d"
    and "0 \<le> cpd_output_head_parameters d" and "0 < cpd_total_transformer_blocks d"
proof -
  from assms obtain l h a v where
    dims: "num_hidden_layers c = Some l" "hidden_size c = Some h" "num_attention_heads c = Some a"
      "vocab_size c = Some v"
    and pos: "0 < l" "0 < h" "0 < a" "0 < v" "0 < i"
    by (auto simp: parameter_components_def positive_dimensions_def int_falsy_def Let_def
        split: if_splits option.splits)
  let ?d = "int_or (head_dim c) (h div a)" and ?k = "int_or (num_key_value_heads c) a"
  have hk: "0 < ?d" "0 < ?k"
    using assms(1) dims pos
    by (auto simp: parameter_components_def int_falsy_def Let_def not_le split: if_splits)
  have "0 < h * a * ?d" "0 < 2 * h * ?k * ?d" "0 < h * h" "0 < 3 * h * i" "0 < v * h"
    using pos hk by (simp_all add: mult_pos_pos)
  then have "0 < h * a * ?d + 2 * h * ?k * ?d + h * h + 3 * h * i" by linarith
  then have "0 < l * (h * a * ?d + 2 * h * ?k * ?d + h * h + 3 * h * i)" "0 < v * h"
    using pos by (simp_all only: mult_pos_pos)
  then show "0 < cpd_transformer_block_parameters d" and "0 < cpd_embedding_parameters d"
    and "0 \<le> cpd_output_head_parameters d" and "0 < cpd_total_transformer_blocks d"
    using assms(1) dims pos
    by (auto simp: parameter_components_def int_falsy_def Let_def split: if_splits)
qed

lemma decomposition_unsupported_type:
  "lower (opt_default (model_type c) '''') \<notin> set SUPPORTED_GATED_MLP_MODEL_TYPES \<Longrightarrow>
     estimate_config_parameter_decomposition (Some c) = Inr None"
  by (simp add: estimate_config_parameter_decomposition_def)

lemma decomposition_components:
  assumes "estimate_config_parameter_decomposition (Some c) = Inr (Some d)"
  obtains i t where "intermediate_size c = Some i" "tie_word_embeddings c = Some t"
    "parameter_components c i t = Some d" "\<not> has_unsupported_decomposition_flags c"
  using assms
  by (auto simp: estimate_config_parameter_decomposition_def Let_def split: if_splits)

text \<open>Where the strict split exists, the best-effort total agrees with it.\<close>

lemma strict_total_agrees:
  assumes "estimate_config_parameter_decomposition (Some c) = Inr (Some d)"
  shows "estimate_total_parameters_from_config (Some c) = Some (cpd_total_parameters d)"
proof -
  obtain i t where it: "intermediate_size c = Some i" "tie_word_embeddings c = Some t"
    and pc: "parameter_components c i t = Some d"
    using decomposition_components [OF assms] by metis
  have "i \<noteq> 0" "hidden_size c \<noteq> None"
    using pc by (auto simp: parameter_components_def int_falsy_def split: if_splits)
  with it pc show ?thesis
    by (auto simp: estimate_total_parameters_from_config_def)
qed

text \<open>The configuration of a seven-billion-parameter Qwen2 model, for concrete instances.\<close>

definition example_config :: model_config where
  "example_config =
     \<lparr>architectures = [''Qwen2ForCausalLM''], model_type = Some ''qwen2'', torch_dtype = None,
      max_position_embeddings = Some 32768, hidden_size = Some 3584, num_hidden_layers = Some 28,
      num_attention_heads = Some 28, num_key_value_heads = Some 4, head_dim = None,
      intermediate_size = Some 18944, sliding_window = Some 4096, use_sliding_window = Some False,
      rope_scaling = None, tie_word_embeddings = Some False, vocab_size = Some 152064,
      quantization_config = None, raw_flags = []\<rparr>"

end
