(* ===== verification/Estimation.thy ===== *)
theory Estimation
  imports Model_Data
begin

text \<open>
  The results of the memory estimator (\<^verbatim>\<open>domain/estimation.py\<close>): provenance and confidence
  enumerations, memory components, the weight decomposition with its validator, and the records of
  the hardware-fit placement with the properties that read them.  Fields keep the source's names
  with a short prefix per record.
\<close>

section \<open>Enumerations\<close>

datatype estimate_source =
    SRC_EXACT | SRC_METADATA | SRC_GGUF_HEADER | SRC_BASE_MODEL_CONFIG | SRC_DERIVED | SRC_ASSUMED
  | SRC_UNKNOWN

datatype estimation_confidence = CONF_HIGH | CONF_MEDIUM | CONF_LOW | CONF_UNKNOWN

datatype decomposition_method = CONFIG_PARAMETER_DECOMPOSITION | UNIFORM_WEIGHT_FALLBACK

datatype compatibility_status =
    COMFORTABLE | COMPATIBLE | TIGHT | OFFLOADING_REQUIRED | INSUFFICIENT | STATUS_UNKNOWN

fun status_value :: "compatibility_status \<Rightarrow> string" where
  "status_value COMFORTABLE = ''comfortable''"
| "status_value COMPATIBLE = ''compatible''"
| "status_value TIGHT = ''tight''"
| "status_value OFFLOADING_REQUIRED = ''offloading_required''"
| "status_value INSUFFICIENT = ''insufficient''"
| "status_value STATUS_UNKNOWN = ''unknown''"

datatype hardware_fit_mode = GPU_RESIDENT | GPU_OFFLOAD | CPU_RAM | TOO_LARGE

datatype memory_topology = DISCRETE_MEMORY | UNIFIED_MEMORY

datatype placement_method = TRANSFORMER_BLOCKS | ESTIMATED_BYTES | PLACEMENT_NONE

text \<open>\<^verbatim>\<open>HardwareFitPlacementMethod(value)\<close>, with the \<^verbatim>\<open>_missing_\<close> alias \<^verbatim>\<open>layers\<close>.\<close>

definition placement_method_of_value :: "string \<Rightarrow> placement_method option" where
  "placement_method_of_value s =
     (if s = ''transformer_blocks'' then Some TRANSFORMER_BLOCKS
      else if s = ''estimated_bytes'' then Some ESTIMATED_BYTES
      else if s = ''none'' then Some PLACEMENT_NONE
      else if s = ''layers'' then Some TRANSFORMER_BLOCKS
      else None)"

datatype metadata_source =
    MODEL_CARD_METADATA | GGUF_METADATA | EXPLICIT_REPOSITORY_REFERENCE | UNRESOLVED

fun metadata_source_value :: "metadata_source \<Rightarrow> string" where
  "metadata_source_value MODEL_CARD_METADATA = ''model_card_metadata''"
| "metadata_source_value GGUF_METADATA = ''gguf_metadata''"
| "metadata_source_value EXPLICIT_REPOSITORY_REFERENCE = ''explicit_repository_reference''"
| "metadata_source_value UNRESOLVED = ''unresolved''"

datatype configuration_source =
    CS_EXACT_FILE_METADATA | CS_GGUF_HEADER | CS_BASE_MODEL_CONFIG | CS_MODEL_CARD | CS_DERIVED
  | CS_ASSUMED | CS_UNKNOWN

section \<open>Memory components\<close>

record memory_component =
  mc_name :: string
  mc_bytes :: "int option"
  mc_source :: estimate_source
  mc_confidence :: estimation_confidence
  mc_explanation :: string

record base_model_resolution =
  bmr_repo_id :: "string option"
  bmr_source :: metadata_source
  bmr_confidence :: estimation_confidence
  bmr_evidence :: "string list"
  bmr_warnings :: "string list"
  bmr_candidates :: "string list"

record weight_decomposition =
  wd_total :: int
  wd_block :: int
  wd_non_block :: int
  wd_embedding :: "int option"
  wd_output_head :: "int option"
  wd_bytes_per_block :: int
  wd_blocks :: int
  wd_method :: decomposition_method

text \<open>The field constraints and the model validator \<^verbatim>\<open>_weights_are_conserved\<close>.\<close>

definition weights_are_conserved :: "weight_decomposition \<Rightarrow> bool" where
  "weights_are_conserved d \<longleftrightarrow>
     0 \<le> wd_total d \<and> 0 \<le> wd_block d \<and> 0 \<le> wd_non_block d \<and>
     (case wd_embedding d of None \<Rightarrow> True | Some b \<Rightarrow> 0 \<le> b) \<and>
     (case wd_output_head d of None \<Rightarrow> True | Some b \<Rightarrow> 0 \<le> b) \<and>
     0 \<le> wd_bytes_per_block d \<and> 0 < wd_blocks d \<and>
     wd_block d + wd_non_block d = wd_total d \<and>
     (case (wd_embedding d, wd_output_head d) of
        (None, None) \<Rightarrow> True
      | (Some e, Some h) \<Rightarrow> e + h = wd_non_block d
      | _ \<Rightarrow> False)"

record weight_estimate =
  we_component :: memory_component
  we_num_parameters :: "int option"
  we_bits_per_parameter :: "py_float option"
  we_precision :: "weight_precision option"
  we_gguf_variant :: "string option"
  we_decomposition :: "weight_decomposition option"

record kv_cache_estimate =
  kv_component :: memory_component
  kv_layers :: "int option"
  kv_kv_heads :: "int option"
  kv_head_dim :: "int option"
  kv_context_length :: int
  kv_batch_size :: int
  kv_dtype_bytes :: int
  kv_formula :: string
  kv_notes :: "string list"

record runtime_overhead_estimate =
  ro_component :: memory_component
  ro_base_bytes :: int
  ro_weight_fraction :: py_float
  ro_minimum_bytes :: int

record compatibility_assessment =
  ca_status :: compatibility_status
  ca_confidence :: estimation_confidence
  ca_target_device :: target_device
  ca_effective_device :: target_device
  ca_available_vram_bytes :: "int option"
  ca_available_ram_bytes :: "int option"
  ca_ratio :: "py_float option"
  ca_reasons :: "string list"
  ca_warnings :: "string list"

section \<open>Hardware fit\<close>

record non_block_placement_bounds =
  nb_gpu_block_weight :: int
  nb_ram_block_weight :: int
  nb_non_block_weight :: int
  nb_gpu_required_min :: int
  nb_ram_required_max :: int
  nb_ram_overhead_max :: int
  nb_ram_safety_margin_max :: int

record offload_candidate =
  oc_gpu_blocks :: int
  oc_gpu_required :: int
  oc_ram_required :: int
  oc_available_vram :: int
  oc_excess :: int
  oc_headroom :: int
  oc_gpu_weight :: int
  oc_ram_weight :: int
  oc_kv_cache :: int
  oc_gpu_kv_cache :: int
  oc_ram_kv_cache :: int
  oc_device_reserve :: int
  oc_gpu_overhead :: int
  oc_gpu_safety_margin :: int
  oc_ram_overhead :: int
  oc_ram_safety_margin :: int
  oc_bounds :: "non_block_placement_bounds option"

record offload_diagnostics =
  od_search_ceiling :: int
  od_selected :: offload_candidate
  od_first_rejected_higher :: "offload_candidate option"

record hardware_fit_result =
  hf_mode :: hardware_fit_mode
  hf_topology :: memory_topology
  hf_weights :: int
  hf_kv_cache :: int
  hf_overhead :: int
  hf_device_reserve :: int
  hf_safety_margin :: int
  hf_available_vram :: "int option"
  hf_available_ram :: "int option"
  hf_gpu_required :: "int option"
  hf_gpu_weight :: int
  hf_gpu_overhead :: int
  hf_gpu_safety_margin :: int
  hf_ram_required :: "int option"
  hf_ram_weight :: int
  hf_ram_overhead :: int
  hf_ram_safety_margin :: int
  hf_gpu_kv_cache :: int
  hf_ram_kv_cache :: int
  hf_gpu_blocks :: "int option"
  hf_total_blocks :: "int option"
  hf_placement_method :: placement_method
  hf_diagnostics :: "offload_diagnostics option"
  hf_bounds :: "non_block_placement_bounds option"
  hf_reason :: string
  hf_warnings :: "string list"

definition places_weights_on_gpu :: "hardware_fit_result \<Rightarrow> bool" where
  "places_weights_on_gpu r \<longleftrightarrow> hf_mode r \<in> {GPU_RESIDENT, GPU_OFFLOAD}"

definition unknown_split :: "hardware_fit_result \<Rightarrow> bool" where
  "unknown_split r \<longleftrightarrow> (case hf_bounds r of None \<Rightarrow> False | Some b \<Rightarrow> 0 < nb_non_block_weight b)"

definition gpu_physical_bytes :: "hardware_fit_result \<Rightarrow> int option" where
  "gpu_physical_bytes r =
     (if unknown_split r then None
      else if \<not> places_weights_on_gpu r then None
      else (case hf_gpu_required r of None \<Rightarrow> None
            | Some g \<Rightarrow> Some (g - hf_device_reserve r - hf_gpu_safety_margin r)))"

definition ram_physical_bytes :: "hardware_fit_result \<Rightarrow> int option" where
  "ram_physical_bytes r =
     (if unknown_split r then None
      else (case hf_ram_required r of None \<Rightarrow> None
            | Some m \<Rightarrow>
              let physical = m - hf_ram_safety_margin r in
              Some (if hf_topology r = UNIFIED_MEMORY then physical - hf_device_reserve r
                    else physical)))"

end
