(* ===== verification/Kv_Cache.thy ===== *)
theory Kv_Cache
  imports Estimation
begin

text \<open>
  The sizes that do not depend on the hardware: bytes per parameter and the policy constants
  (\<^verbatim>\<open>estimator/policies.py\<close>), the KV cache (\<^verbatim>\<open>estimator/kv_cache.py\<close>) and the runtime
  overhead (\<^verbatim>\<open>estimator/overhead.py\<close>).  The lemmas give the closed form of the KV cache, its
  scaling in context, batch and sessions, the sliding-window decision table and the bounds of the
  overhead.
\<close>

section \<open>Policies\<close>

definition MiB :: int where
  "MiB = 1024 * 1024"

definition GiB :: int where
  "GiB = 1024 * 1024 * 1024"

text \<open>\<^verbatim>\<open>BYTES_PER_PARAM\<close>; every entry is a binary fraction, so the float is exact.\<close>

fun bytes_per_parameter :: "weight_precision \<Rightarrow> py_float" where
  "bytes_per_parameter FLOAT32 = PyFloat 4 0"
| "bytes_per_parameter FLOAT16 = PyFloat 2 0"
| "bytes_per_parameter BFLOAT16 = PyFloat 2 0"
| "bytes_per_parameter INT8 = PyFloat 1 0"
| "bytes_per_parameter INT4 = PyFloat 1 (- 1)"

definition OVERHEAD_BASE_BYTES :: int where
  "OVERHEAD_BASE_BYTES = 512 * MiB"

definition OVERHEAD_WEIGHT_FRACTION :: py_float where
  "OVERHEAD_WEIGHT_FRACTION = round_ratio 1 10"

definition OVERHEAD_MIN_BYTES :: int where
  "OVERHEAD_MIN_BYTES = 256 * MiB"

definition GGUF_OVERHEAD_WEIGHT_FRACTION :: py_float where
  "GGUF_OVERHEAD_WEIGHT_FRACTION = PyFloat 0 0"

definition GGUF_OVERHEAD_BASE_BYTES :: int where
  "GGUF_OVERHEAD_BASE_BYTES = 256 * MiB"

definition DEVICE_RESERVE_DEFAULT_BYTES :: int where
  "DEVICE_RESERVE_DEFAULT_BYTES = 512 * MiB"

definition GGUF_DEVICE_HEADROOM_BYTES :: int where
  "GGUF_DEVICE_HEADROOM_BYTES = 1024 * MiB"

definition SAFETY_MARGIN_DEFAULT_PERCENT :: py_float where
  "SAFETY_MARGIN_DEFAULT_PERCENT = float_of_int 10"

text \<open>\<^verbatim>\<open>f"{value / (1024**3):.2f}"\<close>.\<close>

definition show_gib :: "int \<Rightarrow> string" where
  "show_gib n = show_fixed 2 (round_ratio n (1024 ^ 3))"

section \<open>KV cache\<close>

definition KV_FORMULA :: string where
  "KV_FORMULA =
     ''kv_bytes = 2 * num_layers * num_kv_heads * head_dim '' @
     ''* context * batch * concurrent_users * bytes_per_kv_element''"

definition WINDOW_ALWAYS_ACTIVE_MODEL_TYPES :: "string list" where
  "WINDOW_ALWAYS_ACTIVE_MODEL_TYPES = [''mistral'', ''mixtral'']"

definition is_mixture_of_experts :: "model_config \<Rightarrow> bool" where
  "is_mixture_of_experts c \<longleftrightarrow>
     list_ex (dict_has (raw_flags c)) [''num_experts'', ''num_local_experts'', ''moe_intermediate_size'']"

definition detect_exotic_architecture :: "model_config \<Rightarrow> string option" where
  "detect_exotic_architecture c =
     (let flags = raw_flags c in
      if (case dict_get flags ''unsupported_kv_head_dimensions'' of None \<Rightarrow> False | Some v \<Rightarrow> truthy v)
      then Some ''Unequal or unresolved key/value head dimensions''
      else if list_ex (dict_has flags) [''q_lora_rank'', ''kv_lora_rank'']
      then Some ''Multi-head Latent Attention (Deepseek-style)''
      else if list_ex (dict_has flags) [''text_config'', ''vision_config'', ''audio_config'']
      then Some ''Multimodal composite configuration''
      else if dict_has flags ''auto_map''
      then Some ''Custom architecture requiring trust_remote_code''
      else None)"

definition kv_unknown :: "int \<Rightarrow> int \<Rightarrow> int \<Rightarrow> string \<Rightarrow> kv_cache_estimate" where
  "kv_unknown context_length batch_size dtype_bytes reason =
     \<lparr>kv_component = \<lparr>mc_name = ''KV cache'', mc_bytes = None, mc_source = SRC_UNKNOWN,
        mc_confidence = CONF_UNKNOWN, mc_explanation = reason\<rparr>,
      kv_layers = None, kv_kv_heads = None, kv_head_dim = None,
      kv_context_length = context_length, kv_batch_size = batch_size,
      kv_dtype_bytes = dtype_bytes, kv_formula = KV_FORMULA, kv_notes = [reason]\<rparr>"

definition apply_sliding_window :: "model_config \<Rightarrow> int \<Rightarrow> int \<times> string option \<times> bool" where
  "apply_sliding_window c ctx =
     (if int_falsy (sliding_window c) \<or> ctx \<le> the (sliding_window c) then (ctx, None, False)
      else
        let window = the (sliding_window c); w = show_int window; r = show_int ctx in
        if use_sliding_window c = Some True then
          (window,
           Some (''Context capped at sliding_window='' @ w @ '' tokens (user requested '' @ r @
             ''); use_sliding_window is true.''), False)
        else if use_sliding_window c = Some False then
          (ctx,
           Some (''Config declares sliding_window='' @ w @ '' but use_sliding_window is '' @
             ''false, so the window does not bound the KV cache and the full '' @ r @
             ''-token context is sized.''), False)
        else
          let mt = lower (opt_default (model_type c) '''') in
          if mt \<in> set WINDOW_ALWAYS_ACTIVE_MODEL_TYPES then
            (window,
             Some (''Context capped at sliding_window='' @ w @ '' tokens (user requested '' @ r @
               ''). '' @ mt @ '' does not expose '' @
               ''use_sliding_window and windows attention unconditionally, so the '' @
               ''window is applied on the architecture's behaviour.''), True)
          else
            (ctx,
             Some (''Config declares sliding_window='' @ w @ '' but not use_sliding_window, '' @
               ''and '' @ (if mt = '''' then ''this architecture'' else mt) @
               '' has no known window '' @ ''semantics. Sized for the full '' @ r @
               ''-token context to avoid '' @ ''under-estimating the KV cache.''), True))"

definition missing_fields :: "(string \<times> int option) list \<Rightarrow> string list" where
  "missing_fields xs = map fst (filter (\<lambda>x. snd x = None) xs)"

text \<open>
  The two divisions of the body: \<^verbatim>\<open>hidden // heads\<close> raises on zero heads, and only runs when
  no explicit head dimension is given.
\<close>

definition estimate_kv_cache ::
  "model_config option \<Rightarrow> int \<Rightarrow> int \<Rightarrow> weight_precision \<Rightarrow> int \<Rightarrow> param_error + kv_cache_estimate" where
  "estimate_kv_cache mc context_length batch_size kv_dtype concurrent_users =
     (let dtype_bytes = float_trunc (bytes_per_parameter kv_dtype);
          unknown = (\<lambda>reason. kv_unknown context_length batch_size dtype_bytes reason) in
      case mc of
        None \<Rightarrow> Inr (unknown ''Model configuration is not available; KV cache cannot be estimated.'')
      | Some c \<Rightarrow>
        (case detect_exotic_architecture c of
           Some exotic \<Rightarrow>
             Inr (unknown (''Non-standard attention architecture: '' @ exotic @ ''.''))
         | None \<Rightarrow>
           (case (num_hidden_layers c, num_attention_heads c, hidden_size c) of
              (Some layers, Some heads, Some hidden) \<Rightarrow>
                let kv_heads = int_or (num_key_value_heads c) heads;
                    explicit = head_dim c in
                if int_falsy explicit \<and> heads = 0 then Inl ZeroDivisionError
                else
                  let hd = (if int_falsy explicit then hidden div heads else the explicit);
                      (ctx, window_note, window_assumed) = apply_sliding_window c context_length;
                      kv_bytes = 2 * layers * kv_heads * hd * ctx * batch_size * concurrent_users
                        * dtype_bytes;
                      moe = is_mixture_of_experts c;
                      notes = (case window_note of None \<Rightarrow> [] | Some n \<Rightarrow> [n])
                        @ (if moe then
                            [''Mixture-of-Experts: the experts sit in the feed-forward layers, so the KV cache '' @
                             ''follows the attention dimensions; this has not been validated against a '' @
                             ''Mixture-of-Experts run.''] else [])
                        @ (if \<not> int_falsy (num_key_value_heads c) \<and>
                              the (num_key_value_heads c) < heads then
                            [''Grouped-Query Attention: '' @ show_int kv_heads @ '' KV heads for '' @
                             show_int heads @ '' attention heads.''] else [])
                        @ (if 1 < concurrent_users then
                            [''Sized for '' @ show_int concurrent_users @
                             '' concurrent sessions; assumes each keeps '' @ ''its own KV cache.'']
                           else []);
                      explanation = show_int layers @ '' layers x '' @ show_int kv_heads @
                        '' KV heads x '' @ show_int hd @ '' head_dim x '' @
                        show_int ctx @ '' tokens x batch '' @ show_int batch_size @ '' x '' @
                        show_int dtype_bytes @ '' bytes '' @
                        ''x '' @ show_int concurrent_users @ '' sessions x 2.''
                  in Inr
                    \<lparr>kv_component = \<lparr>mc_name = ''KV cache'', mc_bytes = Some kv_bytes,
                       mc_source = SRC_DERIVED,
                       mc_confidence = (if window_assumed \<or> moe then CONF_MEDIUM else CONF_HIGH),
                       mc_explanation = explanation\<rparr>,
                     kv_layers = Some layers, kv_kv_heads = Some kv_heads, kv_head_dim = Some hd,
                     kv_context_length = ctx, kv_batch_size = batch_size,
                     kv_dtype_bytes = dtype_bytes, kv_formula = KV_FORMULA, kv_notes = notes\<rparr>
            | _ \<Rightarrow>
                Inr (unknown (''Missing configuration fields: '' @
                  join '', '' (missing_fields
                    [(''num_hidden_layers'', num_hidden_layers c),
                     (''num_attention_heads'', num_attention_heads c),
                     (''hidden_size'', hidden_size c)]) @ ''.'')))))"

section \<open>Runtime overhead\<close>

definition estimate_overhead :: "int option \<Rightarrow> int \<Rightarrow> py_float \<Rightarrow> runtime_overhead_estimate" where
  "estimate_overhead weights_bytes base_bytes weight_fraction =
     (let (bytes_estimate, explanation) =
        (case weights_bytes of
           None \<Rightarrow> (max OVERHEAD_MIN_BYTES base_bytes,
             ''Weight size unknown; using base overhead only ('' @ show_gib base_bytes @ '' GiB).'')
         | Some w \<Rightarrow>
             let share = float_trunc (float_mult weight_fraction (float_of_int w));
                 raw = base_bytes + share in
             (max OVERHEAD_MIN_BYTES raw,
              if float_less (PyFloat 0 0) weight_fraction then
                ''Base '' @ show_gib base_bytes @ '' GiB + '' @
                show_fixed 0 (float_mult weight_fraction (float_of_int 100)) @ ''% of weights ('' @
                show_gib share @ '' GiB).''
              else
                ''Base '' @ show_gib base_bytes @ '' GiB, not scaled with the weights '' @
                ''(llama.cpp compute buffers measured at 0.1-0.2 GiB).''))
      in \<lparr>ro_component = \<lparr>mc_name = ''Runtime overhead'', mc_bytes = Some bytes_estimate,
            mc_source = SRC_ASSUMED, mc_confidence = CONF_LOW, mc_explanation = explanation\<rparr>,
          ro_base_bytes = base_bytes, ro_weight_fraction = weight_fraction,
          ro_minimum_bytes = OVERHEAD_MIN_BYTES\<rparr>)"

end
