(* ===== verification/Hardware_Fit.thy ===== *)
theory Hardware_Fit
  imports Hardware Kv_Cache
begin

text \<open>
  The placement analysis of \<^verbatim>\<open>estimator/hardware_fit.py\<close>: given the byte counts of an
  estimate and a hardware profile, decide between a resident GPU placement, a partial offload, a
  CPU placement and no placement, without adding VRAM and RAM up.  One definition per function of
  the module, in the module's order from the helpers up; the two searches for an offload
  placement are recursions over the candidate.  The theorems about them are in
  \<^verbatim>\<open>Hardware_Fit_Props\<close>.
\<close>

section \<open>Inputs\<close>

text \<open>The byte counts every function of the module passes on, as one record.\<close>

record fit_components =
  fc_weights :: int
  fc_kv_cache :: int
  fc_overhead :: int
  fc_device_reserve :: int
  fc_safety_margin :: int

record offload_placement =
  pl_total_blocks :: "int option"
  pl_gpu_blocks :: "int option"
  pl_gpu_required :: int
  pl_ram_required :: int
  pl_gpu_weight :: int
  pl_ram_weight :: int
  pl_gpu_kv_cache :: int
  pl_ram_kv_cache :: int
  pl_gpu_overhead :: int
  pl_ram_overhead :: int
  pl_gpu_safety_margin :: int
  pl_ram_safety_margin :: int
  pl_bounds :: "non_block_placement_bounds option"

text \<open>
  \<^verbatim>\<open>ValueError\<close> for contradictory arguments; \<^verbatim>\<open>ZeroDivisionError\<close> for the search bound,
  which needs a negative cache to happen.
\<close>

datatype fit_error = AliasConflict | WeightsMismatch | BlockCountMismatch | FitZeroDivision

section \<open>Splitting bytes between the pools\<close>

text \<open>\<^verbatim>\<open>math.ceil(total * (part / whole))\<close>, the rounded-up share of \<open>part\<close> in \<open>whole\<close>.\<close>

definition ceil_share :: "int \<Rightarrow> int \<Rightarrow> int \<Rightarrow> int" where
  "ceil_share tot part whole =
     float_ceil (float_mult (float_of_int tot) (round_ratio part whole))"

definition split_kv_cache_by_transformer_blocks :: "int \<Rightarrow> int \<Rightarrow> int \<Rightarrow> int \<times> int" where
  "split_kv_cache_by_transformer_blocks kv gpu_blocks total_blocks =
     (if kv \<le> 0 \<or> total_blocks \<le> 0 then (0, max 0 kv)
      else if gpu_blocks \<le> 0 then (0, kv)
      else if total_blocks \<le> gpu_blocks then (kv, 0)
      else let gpu = ceil_share kv gpu_blocks total_blocks in (gpu, kv - gpu))"

definition split_heuristic_bytes :: "int \<Rightarrow> int \<Rightarrow> int \<Rightarrow> int \<times> int" where
  "split_heuristic_bytes tot gpu_basis ram_basis =
     (if tot \<le> 0 then (0, 0)
      else if gpu_basis \<le> 0 then (0, tot)
      else if ram_basis \<le> 0 then (tot, 0)
      else let gpu = ceil_share tot gpu_basis (gpu_basis + ram_basis) in (gpu, tot - gpu))"

definition valid_transformer_block_count :: "int option \<Rightarrow> bool" where
  "valid_transformer_block_count t \<longleftrightarrow> (case t of None \<Rightarrow> False | Some n \<Rightarrow> 0 < n)"

definition gpu_transformer_blocks_when_unused :: "int option \<Rightarrow> int option" where
  "gpu_transformer_blocks_when_unused vram = (case vram of None \<Rightarrow> None | Some _ \<Rightarrow> Some 0)"

definition calculate_offload_placement ::
  "fit_components \<Rightarrow> int option \<Rightarrow> int option \<Rightarrow> int \<Rightarrow> offload_placement option" where
  "calculate_offload_placement c total_blocks gpu_blocks gpu_weight =
     (if gpu_weight \<le> 0 \<or> fc_weights c \<le> gpu_weight then None
      else
        let ram_weight = fc_weights c - gpu_weight;
            (gpu_kv, ram_kv) =
              (if gpu_blocks \<noteq> None \<and> valid_transformer_block_count total_blocks then
                 split_kv_cache_by_transformer_blocks (fc_kv_cache c) (the gpu_blocks) (the total_blocks)
               else (fc_kv_cache c, 0));
            gpu_physical = gpu_weight + gpu_kv + fc_device_reserve c;
            ram_physical = ram_weight + ram_kv;
            (gpu_overhead, ram_overhead) =
              split_heuristic_bytes (fc_overhead c) (gpu_weight + gpu_kv) (ram_weight + ram_kv);
            gpu_margin_basis = gpu_physical + gpu_overhead;
            ram_margin_basis = ram_physical + ram_overhead;
            (gpu_margin, ram_margin) =
              split_heuristic_bytes (fc_safety_margin c) gpu_margin_basis ram_margin_basis
        in Some
          \<lparr>pl_total_blocks = total_blocks,
           pl_gpu_blocks = gpu_blocks,
           pl_gpu_required = gpu_physical + gpu_overhead + gpu_margin,
           pl_ram_required = ram_physical + ram_overhead + ram_margin,
           pl_gpu_weight = gpu_weight,
           pl_ram_weight = ram_weight,
           pl_gpu_kv_cache = gpu_kv,
           pl_ram_kv_cache = ram_kv,
           pl_gpu_overhead = gpu_overhead,
           pl_ram_overhead = ram_overhead,
           pl_gpu_safety_margin = gpu_margin,
           pl_ram_safety_margin = ram_margin,
           pl_bounds = None\<rparr>)"

section \<open>Results\<close>

definition offload_candidate_of :: "fit_components \<Rightarrow> int \<Rightarrow> offload_placement \<Rightarrow> offload_candidate" where
  "offload_candidate_of c vram p =
     \<lparr>oc_gpu_blocks = the (pl_gpu_blocks p),
      oc_gpu_required = pl_gpu_required p,
      oc_ram_required = pl_ram_required p,
      oc_available_vram = vram,
      oc_excess = max 0 (pl_gpu_required p - vram),
      oc_headroom = max 0 (vram - pl_gpu_required p),
      oc_gpu_weight = pl_gpu_weight p,
      oc_ram_weight = pl_ram_weight p,
      oc_kv_cache = fc_kv_cache c,
      oc_gpu_kv_cache = pl_gpu_kv_cache p,
      oc_ram_kv_cache = pl_ram_kv_cache p,
      oc_device_reserve = fc_device_reserve c,
      oc_gpu_overhead = pl_gpu_overhead p,
      oc_gpu_safety_margin = pl_gpu_safety_margin p,
      oc_ram_overhead = pl_ram_overhead p,
      oc_ram_safety_margin = pl_ram_safety_margin p,
      oc_bounds = pl_bounds p\<rparr>"

definition offload_result_from_placement ::
  "fit_components \<Rightarrow> int \<Rightarrow> int \<Rightarrow> memory_topology \<Rightarrow> placement_method \<Rightarrow> string list \<Rightarrow>
   offload_diagnostics option \<Rightarrow> offload_placement \<Rightarrow> hardware_fit_result" where
  "offload_result_from_placement c vram ram topo method warns diag p =
     \<lparr>hf_mode = GPU_OFFLOAD,
      hf_topology = topo,
      hf_weights = fc_weights c,
      hf_kv_cache = fc_kv_cache c,
      hf_overhead = fc_overhead c,
      hf_device_reserve = fc_device_reserve c,
      hf_safety_margin = fc_safety_margin c,
      hf_available_vram = Some vram,
      hf_available_ram = Some ram,
      hf_gpu_required = Some (pl_gpu_required p),
      hf_gpu_weight = pl_gpu_weight p,
      hf_gpu_overhead = pl_gpu_overhead p,
      hf_gpu_safety_margin = pl_gpu_safety_margin p,
      hf_ram_required = Some (pl_ram_required p),
      hf_ram_weight = pl_ram_weight p,
      hf_ram_overhead = pl_ram_overhead p,
      hf_ram_safety_margin = pl_ram_safety_margin p,
      hf_gpu_kv_cache = pl_gpu_kv_cache p,
      hf_ram_kv_cache = pl_ram_kv_cache p,
      hf_gpu_blocks = pl_gpu_blocks p,
      hf_total_blocks = pl_total_blocks p,
      hf_placement_method = method,
      hf_diagnostics = diag,
      hf_bounds = pl_bounds p,
      hf_reason = ''Model does not fit fully in VRAM, but a valid GPU/RAM weight '' @
        ''placement fits without treating RAM and VRAM as one pool.'',
      hf_warnings = warns\<rparr>"

section \<open>The transformer-block search\<close>

text \<open>
  What the loop over block counts reads: the components, the two budgets, the number of blocks,
  the bytes per block and, for a decomposed model, the block and non-block bytes.
\<close>

record block_search =
  bs_components :: fit_components
  bs_vram :: int
  bs_ram :: int
  bs_blocks :: int
  bs_bytes_per_block :: int
  bs_decomposition :: "(int \<times> int) option"

text \<open>The GPU share of the block bytes, and with it the non-block bytes at the GPU-heavy end.\<close>

definition gpu_block_bytes :: "block_search \<Rightarrow> int \<Rightarrow> int \<Rightarrow> int" where
  "gpu_block_bytes s block_bytes n = (block_bytes * n + bs_blocks s - 1) div bs_blocks s"

definition gpu_weight_for_blocks :: "block_search \<Rightarrow> int \<Rightarrow> int" where
  "gpu_weight_for_blocks s n =
     (case bs_decomposition s of
        None \<Rightarrow> min (fc_weights (bs_components s)) (n * bs_bytes_per_block s)
      | Some (block_bytes, non_block_bytes) \<Rightarrow> gpu_block_bytes s block_bytes n + non_block_bytes)"

text \<open>The body of the loop up to the two budget checks; \<^verbatim>\<open>None\<close> is its \<^verbatim>\<open>continue\<close>.\<close>

definition placement_for_blocks :: "block_search \<Rightarrow> int \<Rightarrow> offload_placement option" where
  "placement_for_blocks s n =
     (case calculate_offload_placement (bs_components s) (Some (bs_blocks s)) (Some n)
             (gpu_weight_for_blocks s n) of
        None \<Rightarrow> None
      | Some p \<Rightarrow>
        (case bs_decomposition s of
           None \<Rightarrow> Some p
         | Some (block_bytes, non_block_bytes) \<Rightarrow>
           let gb = gpu_block_bytes s block_bytes n in
           (case calculate_offload_placement (bs_components s) (Some (bs_blocks s)) (Some n) gb of
              None \<Rightarrow> None
            | Some host \<Rightarrow>
              Some (p\<lparr>pl_bounds := Some
                \<lparr>nb_gpu_block_weight = gb,
                 nb_ram_block_weight = block_bytes - gb,
                 nb_non_block_weight = non_block_bytes,
                 nb_gpu_required_min = pl_gpu_required host,
                 nb_ram_required_max = pl_ram_required host,
                 nb_ram_overhead_max = pl_ram_overhead host,
                 nb_ram_safety_margin_max = pl_ram_safety_margin host\<rparr>\<rparr>))))"

definition ram_budget :: "offload_placement \<Rightarrow> int" where
  "ram_budget p = (case pl_bounds p of None \<Rightarrow> pl_ram_required p | Some b \<Rightarrow> nb_ram_required_max b)"

definition fits_budgets :: "block_search \<Rightarrow> offload_placement \<Rightarrow> bool" where
  "fits_budgets s p \<longleftrightarrow> pl_gpu_required p \<le> bs_vram s \<and> ram_budget p \<le> bs_ram s"

text \<open>
  \<^verbatim>\<open>for gpu_transformer_blocks in range(ceiling, 0, -1)\<close>: the first candidate that fits both
  budgets, with the last rejected one above it.
\<close>

primrec search_blocks ::
  "block_search \<Rightarrow> nat \<Rightarrow> offload_candidate option \<Rightarrow> (offload_placement \<times> offload_candidate option) option" where
  "search_blocks s 0 last_rejected = None"
| "search_blocks s (Suc n) last_rejected =
     (case placement_for_blocks s (int (Suc n)) of
        None \<Rightarrow> search_blocks s n last_rejected
      | Some p \<Rightarrow>
        if fits_budgets s p then Some (p, last_rejected)
        else search_blocks s n (Some (offload_candidate_of (bs_components s) (bs_vram s) p)))"

section \<open>The search by bytes\<close>

text \<open>The binary search for the largest GPU weight share whose requirement fits VRAM.\<close>

function byte_search ::
  "fit_components \<Rightarrow> int option \<Rightarrow> int \<Rightarrow> int \<Rightarrow> int \<Rightarrow> offload_placement option \<Rightarrow> offload_placement option" where
  "byte_search c total_blocks vram low high best =
     (if high < low then best
      else
        let mid = (low + high) div 2 in
        case calculate_offload_placement c total_blocks None mid of
          Some p \<Rightarrow>
            if pl_gpu_required p \<le> vram then byte_search c total_blocks vram (mid + 1) high (Some p)
            else byte_search c total_blocks vram low (mid - 1) best
        | None \<Rightarrow> byte_search c total_blocks vram low (mid - 1) best)"
  by pat_completeness auto
termination
  by (relation "measure (\<lambda>(c, t, v, low, high, b). nat (high - low + 1))") auto

declare byte_search.simps [simp del]

section \<open>Partial offload\<close>

definition BLOCK_WARNING :: string where
  "BLOCK_WARNING =
     ''Non-block placement is unknown. Both GPU-heavy and host-heavy '' @
     ''endpoint budgets fit; neither endpoint is a runtime prediction.''"

definition BYTES_WARNING :: string where
  "BYTES_WARNING =
     ''Transformer block count unavailable; GPU offload placement is '' @ ''estimated by bytes.''"

definition config_decomposition :: "weight_decomposition option \<Rightarrow> (int \<times> int) option" where
  "config_decomposition wd =
     (case wd of None \<Rightarrow> None
      | Some d \<Rightarrow>
        if wd_method d = CONFIG_PARAMETER_DECOMPOSITION then Some (wd_block d, wd_non_block d) else None)"

text \<open>
  Where the search starts: an upper bound on the blocks that can fit.  \<^verbatim>\<open>Inr None\<close> is the
  early \<^verbatim>\<open>return None\<close>.
\<close>

definition search_ceiling ::
  "fit_components \<Rightarrow> int \<Rightarrow> int \<Rightarrow> int \<Rightarrow> (int \<times> int) option \<Rightarrow> fit_error + int option" where
  "search_ceiling c vram T bytes_per_block decomposition =
     (let budget = vram - fc_device_reserve c in
      if bytes_per_block \<le> 0 then Inr None
      else if budget \<le> 0 then Inr None
      else if bytes_per_block * T + fc_kv_cache c = 0 then Inl FitZeroDivision
      else
        (case decomposition of
           None \<Rightarrow> Inr (Some (min T ((budget * T) div (bytes_per_block * T + fc_kv_cache c))))
         | Some (block_bytes, non_block_bytes) \<Rightarrow>
           let denominator = block_bytes + fc_kv_cache c in
           if denominator \<le> 0 \<or> budget \<le> non_block_bytes then Inr None
           else Inr (Some (min (T - 1) (T * (budget - non_block_bytes) div denominator)))))"

definition try_gpu_offload_blocks ::
  "fit_components \<Rightarrow> int \<Rightarrow> int \<Rightarrow> int \<Rightarrow> memory_topology \<Rightarrow> weight_decomposition option \<Rightarrow>
   fit_error + hardware_fit_result option" where
  "try_gpu_offload_blocks c vram ram T topo wd =
     (let bytes_per_block = float_ceil (round_ratio (fc_weights c) T);
          decomposition = config_decomposition wd in
      case search_ceiling c vram T bytes_per_block decomposition of
        Inl e \<Rightarrow> Inl e
      | Inr None \<Rightarrow> Inr None
      | Inr (Some highest) \<Rightarrow>
        let s = \<lparr>bs_components = c, bs_vram = vram, bs_ram = ram, bs_blocks = T,
                 bs_bytes_per_block = bytes_per_block, bs_decomposition = decomposition\<rparr> in
        (case search_blocks s (nat highest) None of
           None \<Rightarrow> Inr None
         | Some (p, last_rejected) \<Rightarrow>
           Inr (Some (offload_result_from_placement c vram ram topo TRANSFORMER_BLOCKS
             (if pl_bounds p = None then [] else [BLOCK_WARNING])
             (Some \<lparr>od_search_ceiling = highest,
                    od_selected = offload_candidate_of c vram p,
                    od_first_rejected_higher = last_rejected\<rparr>) p))))"

definition try_gpu_offload_bytes ::
  "fit_components \<Rightarrow> int \<Rightarrow> int \<Rightarrow> int option \<Rightarrow> memory_topology \<Rightarrow> hardware_fit_result option" where
  "try_gpu_offload_bytes c vram ram total_blocks topo =
     (let available = vram - fc_kv_cache c - fc_device_reserve c in
      if available \<le> 0 then None
      else
        (case byte_search c total_blocks vram 1 (min (fc_weights c - 1) available) None of
           None \<Rightarrow> None
         | Some best \<Rightarrow>
           if ram < pl_ram_required best then None
           else Some (offload_result_from_placement c vram ram topo ESTIMATED_BYTES [BYTES_WARNING]
             None best)))"

definition try_gpu_offload ::
  "fit_components \<Rightarrow> int \<Rightarrow> int \<Rightarrow> int option \<Rightarrow> memory_topology \<Rightarrow> weight_decomposition option \<Rightarrow>
   fit_error + hardware_fit_result option" where
  "try_gpu_offload c vram ram total_blocks topo wd =
     (if valid_transformer_block_count total_blocks
      then try_gpu_offload_blocks c vram ram (the total_blocks) topo wd
      else Inr (try_gpu_offload_bytes c vram ram total_blocks topo))"

section \<open>One pool and two pools\<close>

definition memory_topology_of :: "hardware_profile \<Rightarrow> memory_topology" where
  "memory_topology_of hw =
     (if available_accelerator_memory_bytes hw \<noteq> None then DISCRETE_MEMORY
      else if list_ex shared_memory (accelerators hw) then UNIFIED_MEMORY
      else DISCRETE_MEMORY)"

definition analyze_unified_memory :: "fit_components \<Rightarrow> int \<Rightarrow> int option \<Rightarrow> hardware_fit_result" where
  "analyze_unified_memory c ram total_blocks =
     (let required = fc_weights c + fc_kv_cache c + fc_overhead c + fc_device_reserve c
            + fc_safety_margin c;
          fits = required \<le> ram in
      \<lparr>hf_mode = (if fits then CPU_RAM else TOO_LARGE),
       hf_topology = UNIFIED_MEMORY,
       hf_weights = fc_weights c,
       hf_kv_cache = fc_kv_cache c,
       hf_overhead = fc_overhead c,
       hf_device_reserve = fc_device_reserve c,
       hf_safety_margin = fc_safety_margin c,
       hf_available_vram = None,
       hf_available_ram = Some ram,
       hf_gpu_required = None,
       hf_gpu_weight = 0,
       hf_gpu_overhead = 0,
       hf_gpu_safety_margin = 0,
       hf_ram_required = Some required,
       hf_ram_weight = fc_weights c,
       hf_ram_overhead = fc_overhead c,
       hf_ram_safety_margin = fc_safety_margin c,
       hf_gpu_kv_cache = 0,
       hf_ram_kv_cache = fc_kv_cache c,
       hf_gpu_blocks = None,
       hf_total_blocks = total_blocks,
       hf_placement_method = PLACEMENT_NONE,
       hf_diagnostics = None,
       hf_bounds = None,
       hf_reason =
         (if fits then ''Unified-memory hardware uses one shared pool; fit was checked '' @
            ''against available system memory without summing VRAM and RAM. '' @
            ''The device reserve is charged to that shared pool.''
          else ''Unified-memory pool is insufficient for the estimated requirement.''),
       hf_warnings = []\<rparr>)"

definition gpu_resident_result ::
  "fit_components \<Rightarrow> memory_topology \<Rightarrow> int \<Rightarrow> int \<Rightarrow> int option \<Rightarrow> int \<Rightarrow> hardware_fit_result" where
  "gpu_resident_result c topo vram ram total_blocks required =
     \<lparr>hf_mode = GPU_RESIDENT,
      hf_topology = topo,
      hf_weights = fc_weights c,
      hf_kv_cache = fc_kv_cache c,
      hf_overhead = fc_overhead c,
      hf_device_reserve = fc_device_reserve c,
      hf_safety_margin = fc_safety_margin c,
      hf_available_vram = Some vram,
      hf_available_ram = Some ram,
      hf_gpu_required = Some required,
      hf_gpu_weight = fc_weights c,
      hf_gpu_overhead = fc_overhead c,
      hf_gpu_safety_margin = fc_safety_margin c,
      hf_ram_required = Some 0,
      hf_ram_weight = 0,
      hf_ram_overhead = 0,
      hf_ram_safety_margin = 0,
      hf_gpu_kv_cache = fc_kv_cache c,
      hf_ram_kv_cache = 0,
      hf_gpu_blocks = total_blocks,
      hf_total_blocks = total_blocks,
      hf_placement_method =
        (if valid_transformer_block_count total_blocks then TRANSFORMER_BLOCKS else ESTIMATED_BYTES),
      hf_diagnostics = None,
      hf_bounds = None,
      hf_reason = ''Weights, KV cache, overhead, reserve, and margin fit in VRAM.'',
      hf_warnings = []\<rparr>"

text \<open>The last two results of \<^verbatim>\<open>analyze_components\<close>: everything in RAM, or nowhere.\<close>

definition cpu_or_too_large_result ::
  "fit_components \<Rightarrow> memory_topology \<Rightarrow> int option \<Rightarrow> int \<Rightarrow> int option \<Rightarrow> int \<Rightarrow> string list \<Rightarrow>
   hardware_fit_result" where
  "cpu_or_too_large_result c topo vram ram total_blocks gpu_required warns =
     (let cpu_required = fc_weights c + fc_kv_cache c + fc_overhead c + fc_safety_margin c;
          fits = cpu_required \<le> ram in
      \<lparr>hf_mode = (if fits then CPU_RAM else TOO_LARGE),
       hf_topology = topo,
       hf_weights = fc_weights c,
       hf_kv_cache = fc_kv_cache c,
       hf_overhead = fc_overhead c,
       hf_device_reserve = fc_device_reserve c,
       hf_safety_margin = fc_safety_margin c,
       hf_available_vram = vram,
       hf_available_ram = Some ram,
       hf_gpu_required = (if vram \<noteq> None then Some gpu_required else None),
       hf_gpu_weight = 0,
       hf_gpu_overhead = 0,
       hf_gpu_safety_margin = 0,
       hf_ram_required = Some cpu_required,
       hf_ram_weight = fc_weights c,
       hf_ram_overhead = fc_overhead c,
       hf_ram_safety_margin = fc_safety_margin c,
       hf_gpu_kv_cache = 0,
       hf_ram_kv_cache = fc_kv_cache c,
       hf_gpu_blocks = gpu_transformer_blocks_when_unused vram,
       hf_total_blocks = total_blocks,
       hf_placement_method = PLACEMENT_NONE,
       hf_diagnostics = None,
       hf_bounds = None,
       hf_reason =
         (if fits then
            (if vram \<noteq> None then ''No viable GPU placement found'' else ''No GPU detected'') @
            ''; full model fits in system RAM.''
          else ''No supported placement fits: VRAM cannot hold a viable GPU placement '' @
            ''and system RAM is insufficient for CPU execution.''),
       hf_warnings = warns\<rparr>)"

definition PLANNING_WARNING :: string where
  "PLANNING_WARNING =
     ''Partial offload could not be guaranteed across the unknown non-block split. '' @
     ''A backend-specific placement may still be viable.''"

definition planning_warnings :: "int option \<Rightarrow> weight_decomposition option \<Rightarrow> string list" where
  "planning_warnings vram wd =
     (case (vram, wd) of
        (Some _, Some d) \<Rightarrow>
          (if wd_method d = CONFIG_PARAMETER_DECOMPOSITION \<and> 0 < wd_non_block d
           then [PLANNING_WARNING] else [])
      | _ \<Rightarrow> [])"

section \<open>Entry points\<close>

text \<open>The argument checks: the block count the analysis goes on with, or the error.\<close>

definition resolve_block_count ::
  "int \<Rightarrow> int option \<Rightarrow> int option \<Rightarrow> weight_decomposition option \<Rightarrow> fit_error + int option" where
  "resolve_block_count weights total_blocks total_layers wd =
     (if total_blocks \<noteq> None \<and> total_layers \<noteq> None \<and> total_blocks \<noteq> total_layers
      then Inl AliasConflict
      else
        let blocks = opt_or total_blocks total_layers in
        (case wd of
           None \<Rightarrow> Inr blocks
         | Some d \<Rightarrow>
           if wd_total d \<noteq> weights then Inl WeightsMismatch
           else (case blocks of
                   None \<Rightarrow> Inr (Some (wd_blocks d))
                 | Some n \<Rightarrow> if n \<noteq> wd_blocks d then Inl BlockCountMismatch else Inr blocks)))"

definition analyze_discrete ::
  "fit_components \<Rightarrow> hardware_profile \<Rightarrow> int option \<Rightarrow> weight_decomposition option \<Rightarrow>
   fit_error + hardware_fit_result" where
  "analyze_discrete c hw blocks wd =
     (let topo = memory_topology_of hw;
          ram = mem_available_bytes (memory hw);
          resident = fc_kv_cache c + fc_overhead c + fc_device_reserve c + fc_weights c
            + fc_safety_margin c in
      case available_accelerator_memory_bytes hw of
        None \<Rightarrow> Inr (cpu_or_too_large_result c topo None ram blocks resident (planning_warnings None wd))
      | Some vram \<Rightarrow>
        if resident \<le> vram then Inr (gpu_resident_result c topo vram ram blocks resident)
        else
          (case try_gpu_offload c vram ram blocks topo wd of
             Inl e \<Rightarrow> Inl e
           | Inr (Some offload) \<Rightarrow> Inr offload
           | Inr None \<Rightarrow>
             Inr (cpu_or_too_large_result c topo (Some vram) ram blocks resident
               (planning_warnings (Some vram) wd))))"

definition analyze_components ::
  "fit_components \<Rightarrow> hardware_profile \<Rightarrow> int option \<Rightarrow> int option \<Rightarrow> weight_decomposition option \<Rightarrow>
   fit_error + hardware_fit_result" where
  "analyze_components c hw total_blocks total_layers wd =
     (case resolve_block_count (fc_weights c) total_blocks total_layers wd of
        Inl e \<Rightarrow> Inl e
      | Inr blocks \<Rightarrow>
        (if memory_topology_of hw = UNIFIED_MEMORY
         then Inr (analyze_unified_memory c (mem_available_bytes (memory hw)) blocks)
         else analyze_discrete c hw blocks wd))"

end
