(* ===== verification/Hardware_Fit_Props.thy ===== *)
theory Hardware_Fit_Props
  imports Hardware_Fit
begin

text \<open>
  Correctness of the placement analysis.  The interface \<open>proportional_share\<close> lists what the
  analysis needs of the rounded share of a byte count; the requirement of a placement is studied
  under it, and \<open>ceil_share\<close>, the model's float computation, is shown to provide it.  On top:
  conservation and monotonicity of a placement, the specification and maximality of both
  searches, and what each mode of the final result promises.
\<close>

section \<open>Proportional shares\<close>

locale proportional_share =
  fixes share :: "int \<Rightarrow> int \<Rightarrow> int \<Rightarrow> int"
  assumes share_bounds:
      "0 \<le> tot \<Longrightarrow> tot \<le> 2 ^ 53 \<Longrightarrow> 0 \<le> part \<Longrightarrow> part \<le> whole \<Longrightarrow> 0 < whole \<Longrightarrow>
        0 \<le> share tot part whole \<and> share tot part whole \<le> tot"
    and share_mono:
      "0 \<le> tot \<Longrightarrow> 0 < whole \<Longrightarrow> part \<le> part' \<Longrightarrow> share tot part whole \<le> share tot part' whole"
begin

text \<open>
  The GPU requirement of a placement that puts \<open>x\<close> of \<open>b\<close> bytes on the GPU: the bytes, the
  reserve \<open>r\<close>, the share of the overhead and the share of the margin, whose base includes the
  other three.
\<close>

definition overhead_part :: "int \<Rightarrow> int \<Rightarrow> int \<Rightarrow> int" where
  "overhead_part ov b x = share ov x b"

definition margin_part :: "int \<Rightarrow> int \<Rightarrow> int \<Rightarrow> int \<Rightarrow> int \<Rightarrow> int" where
  "margin_part mg ov r b x = share mg (x + r + overhead_part ov b x) (b + r + ov)"

definition requirement :: "int \<Rightarrow> int \<Rightarrow> int \<Rightarrow> int \<Rightarrow> int \<Rightarrow> int" where
  "requirement mg ov r b x = x + r + overhead_part ov b x + margin_part mg ov r b x"

lemma share_zero: "0 \<le> part \<Longrightarrow> part \<le> whole \<Longrightarrow> 0 < whole \<Longrightarrow> share 0 part whole = 0"
  using share_bounds [of 0 part whole] by simp

lemma overhead_part_bounds:
  "0 \<le> ov \<Longrightarrow> ov \<le> 2 ^ 53 \<Longrightarrow> 0 \<le> x \<Longrightarrow> x \<le> b \<Longrightarrow> 0 < b \<Longrightarrow>
     0 \<le> overhead_part ov b x \<and> overhead_part ov b x \<le> ov"
  unfolding overhead_part_def by (rule share_bounds)

lemma margin_part_bounds:
  assumes "0 \<le> ov" "ov \<le> 2 ^ 53" "0 \<le> mg" "mg \<le> 2 ^ 53" "0 \<le> r" "0 \<le> x" "x \<le> b" "0 < b"
  shows "0 \<le> margin_part mg ov r b x \<and> margin_part mg ov r b x \<le> mg"
  using overhead_part_bounds [of ov x b] assms
  unfolding margin_part_def by (intro share_bounds) linarith+

lemma requirement_mono:
  assumes "0 \<le> ov" "0 \<le> mg" "0 \<le> r" "0 < b" "x \<le> y"
  shows "requirement mg ov r b x + (y - x) \<le> requirement mg ov r b y"
proof -
  have "overhead_part ov b x \<le> overhead_part ov b y"
    using assms unfolding overhead_part_def by (intro share_mono)
  moreover from this have "margin_part mg ov r b x \<le> margin_part mg ov r b y"
    using assms unfolding margin_part_def by (intro share_mono) linarith+
  ultimately show ?thesis by (simp add: requirement_def)
qed

lemma requirement_lower:
  assumes "0 \<le> ov" "ov \<le> 2 ^ 53" "0 \<le> mg" "mg \<le> 2 ^ 53" "0 \<le> r" "0 \<le> x" "x \<le> b" "0 < b"
  shows "x + r \<le> requirement mg ov r b x"
  using overhead_part_bounds [of ov x b] margin_part_bounds [of ov mg r x b] assms
  by (simp add: requirement_def)

end

subsection \<open>The float computation is a proportional share\<close>

lemma ceil_share_eq:
  assumes "0 < whole"
  shows "ceil_share tot part whole =
    \<lceil>rnd (rnd (real_of_int tot) * rnd (real_of_int part / real_of_int whole))\<rceil>"
  using assms
  by (simp add: ceil_share_def float_ceil_eq value_float_mult value_float_of_int value_round_ratio)

lemma ceil_share_exact:
  assumes "0 \<le> tot" "tot \<le> 2 ^ 53" "0 \<le> part" "part \<le> whole" "0 < whole" "tot * whole \<le> 2 ^ 51"
  shows "tot * part \<le> ceil_share tot part whole * whole"
    and "ceil_share tot part whole * whole < tot * part + 2 * whole"
  using binary64.share_exact [OF assms] by (simp_all add: ceil_share_eq [OF assms(5)])

interpretation ceil_share: proportional_share ceil_share
proof unfold_locales
  fix tot part whole :: int
  assume "0 \<le> tot" "tot \<le> 2 ^ 53" "0 \<le> part" "part \<le> whole" "0 < whole"
  then show "0 \<le> ceil_share tot part whole \<and> ceil_share tot part whole \<le> tot"
    using binary64.share_bounds [of tot "real_of_int part / real_of_int whole"]
    by (simp add: ceil_share_eq)
next
  fix tot part part' whole :: int
  assume "0 \<le> tot" "0 < whole" "part \<le> part'"
  then show "ceil_share tot part whole \<le> ceil_share tot part' whole"
    by (simp add: ceil_share_eq binary64.share_mono divide_right_mono)
qed

text \<open>The bytes of one block, \<^verbatim>\<open>math.ceil(weights / T)\<close>, cover the weights.\<close>

lemma bytes_per_block_covers:
  assumes "0 \<le> w" "w < 2 ^ 53" "0 < T"
  shows "w \<le> float_ceil (round_ratio w T) * T"
proof (rule ccontr)
  let ?q = "real_of_int w / real_of_int T" and ?s = "float_ceil (round_ratio w T)"
  assume "\<not> w \<le> ?s * T"
  then have "?s * T + 1 \<le> w" by simp
  then have "real_of_int (?s * T + 1) \<le> real_of_int w" by (simp only: of_int_le_iff)
  then have "real_of_int ?s * real_of_int T + 1 \<le> real_of_int w" by simp
  then have gap: "1 / real_of_int T \<le> ?q - real_of_int ?s"
    using assms by (simp add: field_simps)
  have "rnd ?q \<le> real_of_int ?s"
    using assms by (simp add: float_ceil_eq value_round_ratio)
  with gap have "1 / real_of_int T \<le> \<bar>rnd ?q - ?q\<bar>" by linarith
  then have "1 / real_of_int T * 2 ^ 53 \<le> \<bar>rnd ?q - ?q\<bar> * 2 ^ 53"
    by (rule mult_right_mono) simp
  also have "\<dots> \<le> ?q" using rnd_error [of ?q] assms by simp
  finally have "1 / real_of_int T * 2 ^ 53 \<le> ?q" .
  then have "2 ^ 53 \<le> real_of_int w" using assms by (simp add: field_simps)
  with assms show False by simp
qed

section \<open>One placement\<close>

text \<open>Byte counts as the estimator produces them: non-negative and exact as floats.\<close>

definition in_range :: "fit_components \<Rightarrow> bool" where
  "in_range c \<longleftrightarrow>
     0 \<le> fc_weights c \<and> fc_weights c < 2 ^ 53 \<and> 0 \<le> fc_kv_cache c \<and> fc_kv_cache c \<le> 2 ^ 53 \<and>
     0 \<le> fc_overhead c \<and> fc_overhead c \<le> 2 ^ 53 \<and> 0 \<le> fc_device_reserve c \<and>
     0 \<le> fc_safety_margin c \<and> fc_safety_margin c \<le> 2 ^ 53"

text \<open>The GPU share of the KV cache a placement works with.\<close>

definition kv_part :: "fit_components \<Rightarrow> int option \<Rightarrow> int option \<Rightarrow> int" where
  "kv_part c total_blocks gpu_blocks =
     (if gpu_blocks \<noteq> None \<and> valid_transformer_block_count total_blocks then
        fst (split_kv_cache_by_transformer_blocks (fc_kv_cache c) (the gpu_blocks) (the total_blocks))
      else fc_kv_cache c)"

lemma split_kv_sum: "0 \<le> kv \<Longrightarrow> fst (split_kv_cache_by_transformer_blocks kv n T)
    + snd (split_kv_cache_by_transformer_blocks kv n T) = kv"
  by (auto simp: split_kv_cache_by_transformer_blocks_def Let_def)

lemma split_kv_bounds:
  assumes "0 \<le> kv" "kv \<le> 2 ^ 53"
  shows "0 \<le> fst (split_kv_cache_by_transformer_blocks kv n T)"
    and "fst (split_kv_cache_by_transformer_blocks kv n T) \<le> kv"
  using assms ceil_share.share_bounds [of kv n T]
  by (auto simp: split_kv_cache_by_transformer_blocks_def Let_def)

lemma split_kv_mono:
  assumes "0 \<le> kv" "kv \<le> 2 ^ 53" "n \<le> m"
  shows "fst (split_kv_cache_by_transformer_blocks kv n T)
    \<le> fst (split_kv_cache_by_transformer_blocks kv m T)"
  using assms ceil_share.share_bounds [of kv n T] ceil_share.share_bounds [of kv m T]
    ceil_share.share_mono [of kv T n m]
  by (auto simp: split_kv_cache_by_transformer_blocks_def Let_def)

lemma split_kv_lower:
  assumes "0 \<le> kv" "0 \<le> n" "0 < T" "n \<le> T" "kv * T \<le> 2 ^ 51"
  shows "kv * n \<le> fst (split_kv_cache_by_transformer_blocks kv n T) * T"
proof -
  have "kv \<le> kv * T" using assms mult_left_mono [of 1 T kv] by simp
  then have "kv \<le> 2 ^ 53" using assms by simp
  then show ?thesis
    using assms ceil_share_exact(1) [of kv n T]
    by (auto simp: split_kv_cache_by_transformer_blocks_def Let_def)
qed

lemma split_heuristic_eq:
  assumes "0 \<le> tot" "0 < g" "0 < r"
  shows "split_heuristic_bytes tot g r
    = (ceil_share tot g (g + r), tot - ceil_share tot g (g + r))"
  using assms ceil_share.share_zero [of g "g + r"]
  by (auto simp: split_heuristic_bytes_def Let_def)

lemma kv_part_bounds: "in_range c \<Longrightarrow> 0 \<le> kv_part c T n \<and> kv_part c T n \<le> fc_kv_cache c"
  by (auto simp: kv_part_def in_range_def split_kv_bounds)

text \<open>A placement, written with the requirement of the share interface.\<close>

lemma placement_eq:
  assumes c: "in_range c" and p: "calculate_offload_placement c T n gw = Some p"
  defines "x \<equiv> gw + kv_part c T n" and "b \<equiv> fc_weights c + fc_kv_cache c"
  shows "0 < gw" "gw < fc_weights c" "0 < x" "x < b"
    "pl_gpu_weight p = gw" "pl_ram_weight p = fc_weights c - gw"
    "pl_gpu_kv_cache p = kv_part c T n" "pl_ram_kv_cache p = fc_kv_cache c - kv_part c T n"
    "pl_gpu_overhead p = ceil_share.overhead_part (fc_overhead c) b x"
    "pl_ram_overhead p = fc_overhead c - ceil_share.overhead_part (fc_overhead c) b x"
    "pl_gpu_safety_margin p =
       ceil_share.margin_part (fc_safety_margin c) (fc_overhead c) (fc_device_reserve c) b x"
    "pl_ram_safety_margin p = fc_safety_margin c -
       ceil_share.margin_part (fc_safety_margin c) (fc_overhead c) (fc_device_reserve c) b x"
    "pl_gpu_required p =
       ceil_share.requirement (fc_safety_margin c) (fc_overhead c) (fc_device_reserve c) b x"
    "pl_ram_required p = b + fc_overhead c + fc_device_reserve c + fc_safety_margin c -
       ceil_share.requirement (fc_safety_margin c) (fc_overhead c) (fc_device_reserve c) b x"
    "pl_total_blocks p = T" "pl_gpu_blocks p = n" "pl_bounds p = None"
proof -
  let ?k = "kv_part c T n" and ?O = "fc_overhead c" and ?M = "fc_safety_margin c"
  let ?r = "fc_device_reserve c"
  show gw: "0 < gw" "gw < fc_weights c"
    using p by (auto simp: calculate_offload_placement_def split: if_splits)
  have k: "0 \<le> ?k" "?k \<le> fc_kv_cache c" using kv_part_bounds [OF c] by auto
  show x: "0 < x" "x < b" using gw k by (simp_all add: x_def b_def)
  have kv: "(if n \<noteq> None \<and> valid_transformer_block_count T
      then split_kv_cache_by_transformer_blocks (fc_kv_cache c) (the n) (the T)
      else (fc_kv_cache c, 0)) = (?k, fc_kv_cache c - ?k)"
    using split_kv_sum [of "fc_kv_cache c" "the n" "the T"] c
    by (auto simp: kv_part_def in_range_def prod_eq_iff)
  have O: "0 \<le> ?O" "?O \<le> 2 ^ 53" "0 \<le> ?M" "0 \<le> ?r" using c by (simp_all add: in_range_def)
  have rest: "fc_weights c - gw + (fc_kv_cache c - ?k) = b - x" by (simp add: x_def b_def)
  have so: "split_heuristic_bytes ?O (gw + ?k) (fc_weights c - gw + (fc_kv_cache c - ?k))
      = (ceil_share.overhead_part ?O b x, ?O - ceil_share.overhead_part ?O b x)"
    using O x unfolding rest x_def [symmetric]
    by (subst split_heuristic_eq) (simp_all add: ceil_share.overhead_part_def)
  have ob: "0 \<le> ceil_share.overhead_part ?O b x" "ceil_share.overhead_part ?O b x \<le> ?O"
    using ceil_share.overhead_part_bounds [of ?O x b] O x by simp_all
  have sm: "split_heuristic_bytes ?M (gw + ?k + ?r + ceil_share.overhead_part ?O b x)
      (fc_weights c - gw + (fc_kv_cache c - ?k) + (?O - ceil_share.overhead_part ?O b x))
      = (ceil_share.margin_part ?M ?O ?r b x, ?M - ceil_share.margin_part ?M ?O ?r b x)"
    using O x ob unfolding rest x_def [symmetric]
    by (subst split_heuristic_eq) (simp_all add: ceil_share.margin_part_def algebra_simps)
  note pp = p [unfolded calculate_offload_placement_def Let_def, simplified kv prod.case, simplified so prod.case, simplified sm prod.case]
  from pp gw show
    "pl_gpu_weight p = gw" "pl_ram_weight p = fc_weights c - gw"
    "pl_gpu_kv_cache p = ?k" "pl_ram_kv_cache p = fc_kv_cache c - ?k"
    "pl_gpu_overhead p = ceil_share.overhead_part ?O b x"
    "pl_ram_overhead p = ?O - ceil_share.overhead_part ?O b x"
    "pl_gpu_safety_margin p = ceil_share.margin_part ?M ?O ?r b x"
    "pl_ram_safety_margin p = ?M - ceil_share.margin_part ?M ?O ?r b x"
    "pl_gpu_required p = ceil_share.requirement ?M ?O ?r b x"
    "pl_ram_required p = b + ?O + ?r + ?M - ceil_share.requirement ?M ?O ?r b x"
    "pl_total_blocks p = T" "pl_gpu_blocks p = n" "pl_bounds p = None"
    by (auto simp: ceil_share.requirement_def x_def b_def)
qed

lemma placement_defined:
  "calculate_offload_placement c T n gw \<noteq> None \<longleftrightarrow> 0 < gw \<and> gw < fc_weights c"
  by (auto simp: calculate_offload_placement_def Let_def split: prod.split)


lemma placement_parts_nonneg:
  assumes c: "in_range c" and p: "calculate_offload_placement c T n gw = Some p"
  shows "0 \<le> pl_gpu_overhead p" "0 \<le> pl_ram_overhead p" "0 \<le> pl_gpu_safety_margin p"
    "0 \<le> pl_ram_safety_margin p" "0 \<le> pl_gpu_kv_cache p" "0 \<le> pl_ram_kv_cache p"
    "0 < pl_gpu_weight p" "0 < pl_ram_weight p"
proof -
  note e = placement_eq [OF c p]
  let ?b = "fc_weights c + fc_kv_cache c" and ?x = "gw + kv_part c T n"
  have r: "0 \<le> fc_overhead c" "fc_overhead c \<le> 2 ^ 53" "0 \<le> fc_safety_margin c"
    "fc_safety_margin c \<le> 2 ^ 53" "0 \<le> fc_device_reserve c"
    using c by (simp_all add: in_range_def)
  have x: "0 \<le> ?x" "?x \<le> ?b" "0 < ?b" using e(1-4) by simp_all
  note o = ceil_share.overhead_part_bounds [OF r(1,2) x]
  note m = ceil_share.margin_part_bounds [OF r(1-5) x]
  show "0 \<le> pl_gpu_overhead p" "0 \<le> pl_ram_overhead p" "0 \<le> pl_gpu_safety_margin p"
    "0 \<le> pl_ram_safety_margin p" "0 \<le> pl_gpu_kv_cache p" "0 \<le> pl_ram_kv_cache p"
    "0 < pl_gpu_weight p" "0 < pl_ram_weight p"
    using o m kv_part_bounds [OF c, of T n] e(1,2) by (simp_all add: e)
qed

lemma placement_conserves_bytes_parts:
  assumes "in_range c" and "calculate_offload_placement c T n gw = Some p"
  shows "pl_ram_required p = pl_ram_weight p + pl_ram_kv_cache p + pl_ram_overhead p
      + pl_ram_safety_margin p"
    and "pl_gpu_required p + pl_ram_required p = fc_weights c + fc_kv_cache c + fc_overhead c
      + fc_device_reserve c + fc_safety_margin c"
  by (simp_all add: placement_eq [OF assms] ceil_share.requirement_def)

text \<open>
  C2. A placement conserves bytes: weights, KV cache, overhead and safety margin are each split
  into two non-negative parts that add up again, and each pool is charged exactly its parts
  (the reserve is charged to the GPU).
\<close>

theorem placement_conserves_bytes:
  assumes "in_range c" and "calculate_offload_placement c T n gw = Some p"
  shows "pl_gpu_weight p + pl_ram_weight p = fc_weights c \<and>
    pl_gpu_kv_cache p + pl_ram_kv_cache p = fc_kv_cache c \<and>
    pl_gpu_overhead p + pl_ram_overhead p = fc_overhead c \<and>
    pl_gpu_safety_margin p + pl_ram_safety_margin p = fc_safety_margin c \<and>
    pl_gpu_required p = pl_gpu_weight p + pl_gpu_kv_cache p + fc_device_reserve c
      + pl_gpu_overhead p + pl_gpu_safety_margin p \<and>
    pl_ram_required p = pl_ram_weight p + pl_ram_kv_cache p + pl_ram_overhead p
      + pl_ram_safety_margin p \<and>
    0 < pl_gpu_weight p \<and> 0 < pl_ram_weight p \<and> 0 \<le> pl_gpu_kv_cache p \<and> 0 \<le> pl_ram_kv_cache p \<and>
    0 \<le> pl_gpu_overhead p \<and> 0 \<le> pl_ram_overhead p \<and>
    0 \<le> pl_gpu_safety_margin p \<and> 0 \<le> pl_ram_safety_margin p"
  using placement_parts_nonneg [OF assms]
  by (simp add: placement_eq [OF assms] ceil_share.requirement_def)

definition example_components :: fit_components where
  "example_components =
     \<lparr>fc_weights = 4683074240, fc_kv_cache = 234881024, fc_overhead = 1005178336,
      fc_device_reserve = 536870912, fc_safety_margin = 646000452\<rparr>"

lemma example_in_range: "in_range example_components"
  by (simp add: in_range_def example_components_def)

lemma example_placement_defined:
  "\<exists>p. calculate_offload_placement example_components (Some 28) (Some 17) 3106627322 = Some p"
  by (simp add: placement_defined example_components_def flip: not_None_eq)

theorem placement_conserves_bytes_witness:
  "\<exists>p. calculate_offload_placement example_components (Some 28) (Some 17) 3106627322 = Some p \<and>
    pl_gpu_weight p + pl_ram_weight p = 4683074240 \<and>
    pl_gpu_kv_cache p + pl_ram_kv_cache p = 234881024"
  using placement_conserves_bytes [OF example_in_range] example_placement_defined
  by (auto simp: example_components_def)

lemma placement_mono:
  assumes c: "in_range c" and p: "calculate_offload_placement c T n gw = Some p"
    and q: "calculate_offload_placement c T' m gw' = Some q"
    and le: "gw \<le> gw'" "kv_part c T n \<le> kv_part c T' m"
  shows "pl_gpu_required p + (gw' - gw) \<le> pl_gpu_required q" and "pl_ram_required q \<le> pl_ram_required p"
proof -
  note ep = placement_eq [OF c p] and eq = placement_eq [OF c q]
  have "0 \<le> fc_overhead c" "0 \<le> fc_safety_margin c" "0 \<le> fc_device_reserve c"
    "0 < fc_weights c + fc_kv_cache c" "gw + kv_part c T n \<le> gw' + kv_part c T' m"
    using c ep(1,2) le by (simp_all add: in_range_def)
  note ceil_share.requirement_mono [OF this]
  then show "pl_gpu_required p + (gw' - gw) \<le> pl_gpu_required q"
    and "pl_ram_required q \<le> pl_ram_required p"
    using le by (simp_all add: ep eq)
qed

section \<open>The search over block counts\<close>

lemma kv_part_blocks_mono: "in_range c \<Longrightarrow> n \<le> m \<Longrightarrow> kv_part c T (Some n) \<le> kv_part c T (Some m)"
  by (auto simp: kv_part_def in_range_def split_kv_mono)

text \<open>A search over a sensible problem: at least one block, and non-negative parts.\<close>

definition search_wf :: "block_search \<Rightarrow> bool" where
  "search_wf s \<longleftrightarrow>
     in_range (bs_components s) \<and> 0 < bs_blocks s \<and> 0 \<le> bs_bytes_per_block s \<and>
     (case bs_decomposition s of None \<Rightarrow> True
      | Some (block, non_block) \<Rightarrow> 0 \<le> block \<and> 0 \<le> non_block \<and>
          block + non_block = fc_weights (bs_components s))"

lemma gpu_block_bytes_mono:
  "0 < bs_blocks s \<Longrightarrow> 0 \<le> block \<Longrightarrow> n \<le> m \<Longrightarrow> gpu_block_bytes s block n \<le> gpu_block_bytes s block m"
  unfolding gpu_block_bytes_def
  by (intro zdiv_mono1 diff_right_mono add_right_mono mult_left_mono)

text \<open>The bounds of a candidate are those of the host-heavy endpoint.\<close>

definition bounds_of_host :: "int \<Rightarrow> int \<Rightarrow> int \<Rightarrow> offload_placement \<Rightarrow> non_block_placement_bounds" where
  "bounds_of_host gb block_bytes non_block_bytes host =
     \<lparr>nb_gpu_block_weight = gb, nb_ram_block_weight = block_bytes - gb,
      nb_non_block_weight = non_block_bytes, nb_gpu_required_min = pl_gpu_required host,
      nb_ram_required_max = pl_ram_required host, nb_ram_overhead_max = pl_ram_overhead host,
      nb_ram_safety_margin_max = pl_ram_safety_margin host\<rparr>"

lemma placement_for_blocks_uniform:
  "bs_decomposition s = None \<Longrightarrow> placement_for_blocks s n =
     calculate_offload_placement (bs_components s) (Some (bs_blocks s)) (Some n)
       (min (fc_weights (bs_components s)) (n * bs_bytes_per_block s))"
  by (simp add: placement_for_blocks_def gpu_weight_for_blocks_def split: option.split)

lemma placement_for_blocks_decomposed:
  "bs_decomposition s = Some (block, non_block) \<Longrightarrow> placement_for_blocks s n = Some p \<longleftrightarrow>
     (\<exists>q host. calculate_offload_placement (bs_components s) (Some (bs_blocks s)) (Some n)
         (gpu_block_bytes s block n + non_block) = Some q \<and>
       calculate_offload_placement (bs_components s) (Some (bs_blocks s)) (Some n)
         (gpu_block_bytes s block n) = Some host \<and>
       p = q\<lparr>pl_bounds := Some (bounds_of_host (gpu_block_bytes s block n) block non_block host)\<rparr>)"
  by (auto simp: placement_for_blocks_def gpu_weight_for_blocks_def bounds_of_host_def Let_def
      split: option.splits)

lemma ram_budget_uniform:
  assumes "search_wf s" "bs_decomposition s = None" "placement_for_blocks s n = Some p"
  shows "ram_budget p = pl_ram_required p"
  using assms placement_eq(17)
  by (auto simp: ram_budget_def placement_for_blocks_uniform search_wf_def)

text \<open>More blocks on the GPU never need less VRAM and never need more RAM.\<close>

lemma candidates_mono:
  assumes wf: "search_wf s" and p: "placement_for_blocks s n = Some p"
    and q: "placement_for_blocks s m = Some q" and le: "n \<le> m"
  shows "pl_gpu_required p \<le> pl_gpu_required q" and "ram_budget q \<le> ram_budget p"
proof -
  let ?c = "bs_components s" and ?T = "Some (bs_blocks s)"
  have c: "in_range ?c" and T: "0 < bs_blocks s" using wf by (simp_all add: search_wf_def)
  note kv = kv_part_blocks_mono [OF c le, of ?T]
  have "pl_gpu_required p \<le> pl_gpu_required q \<and> ram_budget q \<le> ram_budget p"
  proof (cases "bs_decomposition s")
    case None
    have gw: "min (fc_weights ?c) (n * bs_bytes_per_block s)
        \<le> min (fc_weights ?c) (m * bs_bytes_per_block s)"
      using wf le by (intro min.mono mult_right_mono) (simp_all add: search_wf_def)
    note mono = placement_mono [OF c p [unfolded placement_for_blocks_uniform [OF None]]
        q [unfolded placement_for_blocks_uniform [OF None]] gw kv]
    then show ?thesis
      using gw by (simp add: ram_budget_uniform [OF wf None p] ram_budget_uniform [OF wf None q])
  next
    case (Some d)
    then obtain block non_block where d: "bs_decomposition s = Some (block, non_block)"
      by (cases d) auto
    have "0 \<le> block" using wf d by (simp add: search_wf_def)
    then have gb: "gpu_block_bytes s block n \<le> gpu_block_bytes s block m"
      using gpu_block_bytes_mono T le by simp
    from p q obtain p' ph q' qh where
      p': "calculate_offload_placement ?c ?T (Some n) (gpu_block_bytes s block n + non_block) = Some p'"
        "calculate_offload_placement ?c ?T (Some n) (gpu_block_bytes s block n) = Some ph"
        "p = p'\<lparr>pl_bounds := Some (bounds_of_host (gpu_block_bytes s block n) block non_block ph)\<rparr>"
      and q': "calculate_offload_placement ?c ?T (Some m) (gpu_block_bytes s block m + non_block) = Some q'"
        "calculate_offload_placement ?c ?T (Some m) (gpu_block_bytes s block m) = Some qh"
        "q = q'\<lparr>pl_bounds := Some (bounds_of_host (gpu_block_bytes s block m) block non_block qh)\<rparr>"
      unfolding placement_for_blocks_decomposed [OF d] by blast
    have gb': "gpu_block_bytes s block n + non_block \<le> gpu_block_bytes s block m + non_block"
      using gb by simp
    show ?thesis
      using placement_mono(1) [OF c p'(1) q'(1) gb' kv] placement_mono(2) [OF c p'(2) q'(2) gb kv] gb
      by (simp add: p'(3) q'(3) ram_budget_def bounds_of_host_def)
  qed
  then show "pl_gpu_required p \<le> pl_gpu_required q" and "ram_budget q \<le> ram_budget p" by simp_all
qed


subsection \<open>What the downward search returns\<close>

text \<open>A block count the loop would accept.\<close>

definition feasible :: "block_search \<Rightarrow> int \<Rightarrow> bool" where
  "feasible s n \<longleftrightarrow> (case placement_for_blocks s n of None \<Rightarrow> False | Some p \<Rightarrow> fits_budgets s p)"

text \<open>What the loop remembers after rejecting a candidate above \<open>n\<close>.\<close>

definition rejected_above :: "block_search \<Rightarrow> int \<Rightarrow> int \<Rightarrow> offload_candidate option \<Rightarrow> bool" where
  "rejected_above s n hi l \<longleftrightarrow>
     (case l of None \<Rightarrow> (\<forall>m. n < m \<and> m \<le> hi \<longrightarrow> placement_for_blocks s m = None)
      | Some cand \<Rightarrow>
        (\<exists>m q. n < m \<and> m \<le> hi \<and> placement_for_blocks s m = Some q \<and> \<not> fits_budgets s q \<and>
           cand = offload_candidate_of (bs_components s) (bs_vram s) q \<and>
           (\<forall>k. n < k \<and> k < m \<longrightarrow> placement_for_blocks s k = None)))"

lemma rejected_above_step:
  assumes "rejected_above s (n + 1) hi l" "n + 1 \<le> hi"
  shows "placement_for_blocks s (n + 1) = None \<Longrightarrow> rejected_above s n hi l"
    and "placement_for_blocks s (n + 1) = Some q \<Longrightarrow> \<not> fits_budgets s q \<Longrightarrow>
      rejected_above s n hi (Some (offload_candidate_of (bs_components s) (bs_vram s) q))"
proof -
  have split: "n < m \<longleftrightarrow> m = n + 1 \<or> n + 1 < m" for m by linarith
  show "rejected_above s n hi l" if "placement_for_blocks s (n + 1) = None"
    using assms that unfolding rejected_above_def by (auto simp: split split: option.splits)
  show "rejected_above s n hi (Some (offload_candidate_of (bs_components s) (bs_vram s) q))"
    if "placement_for_blocks s (n + 1) = Some q" "\<not> fits_budgets s q"
    using assms that unfolding rejected_above_def by (auto intro!: exI [of _ "n + 1"] exI [of _ q])
qed

lemma search_blocks_Some:
  assumes "search_blocks s n l = Some (p, l')" "rejected_above s (int n) hi l" "int n \<le> hi"
  shows "\<exists>k. 1 \<le> k \<and> k \<le> int n \<and> placement_for_blocks s k = Some p \<and> fits_budgets s p \<and>
    (\<forall>m. k < m \<and> m \<le> int n \<longrightarrow> \<not> feasible s m) \<and> rejected_above s k hi l'"
  using assms
proof (induction n arbitrary: l)
  case (Suc n)
  have i: "int (Suc n) = int n + 1" by simp
  note step = rejected_above_step [OF Suc.prems(2,3) [unfolded i]]
  have lift: ?case if "\<not> feasible s (int n + 1)"
    and "\<exists>k. 1 \<le> k \<and> k \<le> int n \<and> placement_for_blocks s k = Some p \<and> fits_budgets s p \<and>
      (\<forall>m. k < m \<and> m \<le> int n \<longrightarrow> \<not> feasible s m) \<and> rejected_above s k hi l'"
  proof -
    from that obtain k where "1 \<le> k" "k \<le> int n" "placement_for_blocks s k = Some p"
      "fits_budgets s p" "rejected_above s k hi l'" and k: "\<forall>m. k < m \<and> m \<le> int n \<longrightarrow> \<not> feasible s m"
      by blast
    moreover have "\<forall>m. k < m \<and> m \<le> int (Suc n) \<longrightarrow> \<not> feasible s m"
    proof (intro allI impI)
      fix m assume "k < m \<and> m \<le> int (Suc n)"
      then consider "m = int n + 1" | "k < m \<and> m \<le> int n" by linarith
      then show "\<not> feasible s m" using that(1) k by cases auto
    qed
    ultimately show ?thesis by (intro exI [of _ k]) simp
  qed
  have le: "int n \<le> hi" using Suc.prems(3) by simp
  show ?case
  proof (cases "placement_for_blocks s (int n + 1)")
    case None
    then have "search_blocks s n l = Some (p, l')" using Suc.prems(1) by (simp add: add.commute)
    from Suc.IH [OF this step(1) [OF None] le] lift None show ?thesis by (simp add: feasible_def)
  next
    case (Some q)
    let ?l = "Some (offload_candidate_of (bs_components s) (bs_vram s) q)"
    show ?thesis
    proof (cases "fits_budgets s q")
      case True
      with Some Suc.prems show ?thesis by (auto simp: add.commute intro!: exI [of _ "int n + 1"])
    next
      case False
      with Some Suc.prems(1) have "search_blocks s n ?l = Some (p, l')" by (simp add: add.commute)
      from Suc.IH [OF this step(2) [OF Some False] le] lift Some False show ?thesis
        by (simp add: feasible_def)
    qed
  qed
qed simp

lemma search_blocks_None:
  "search_blocks s n l = None \<longleftrightarrow> (\<forall>k. 1 \<le> k \<and> k \<le> int n \<longrightarrow> \<not> feasible s k)"
proof (induction n arbitrary: l)
  case (Suc n)
  have "(\<forall>k. 1 \<le> k \<and> k \<le> int (Suc n) \<longrightarrow> \<not> feasible s k) \<longleftrightarrow>
      \<not> feasible s (int (Suc n)) \<and> (\<forall>k. 1 \<le> k \<and> k \<le> int n \<longrightarrow> \<not> feasible s k)"
    by (smt (verit) of_nat_0_le_iff of_nat_Suc)
  then show ?case using Suc.IH by (auto simp: feasible_def split: option.splits)
qed auto

text \<open>The search computes the largest feasible block count below its start.\<close>

definition largest_feasible :: "block_search \<Rightarrow> int \<Rightarrow> int \<Rightarrow> bool" where
  "largest_feasible s hi k \<longleftrightarrow>
     1 \<le> k \<and> k \<le> hi \<and> feasible s k \<and> (\<forall>m. k < m \<and> m \<le> hi \<longrightarrow> \<not> feasible s m)"

lemma search_blocks_largest:
  assumes "search_blocks s (nat hi) None = Some (p, l)"
  obtains k where "largest_feasible s hi k" "placement_for_blocks s k = Some p" "fits_budgets s p"
    "rejected_above s k hi l"
proof -
  have "0 < hi" using assms by (cases "0 < hi") auto
  moreover have "rejected_above s hi hi None" by (auto simp: rejected_above_def)
  ultimately show ?thesis
    using search_blocks_Some [OF assms, of hi] that
    by (auto simp: largest_feasible_def feasible_def)
qed

text \<open>
  The candidate reported as rejected above the selected one failed the VRAM budget: fewer
  blocks on the GPU cannot rescue a placement that does not fit system memory.
\<close>

theorem rejected_candidate_exceeds_vram:
  assumes "search_wf s" and "search_blocks s n None = Some (p, Some cand)"
  shows "bs_vram s < oc_gpu_required cand \<and> 0 < oc_excess cand \<and> oc_headroom cand = 0 \<and>
    pl_gpu_required p \<le> bs_vram s"
proof -
  have "search_blocks s (nat (int n)) None = Some (p, Some cand)" using assms(2) by simp
  then obtain k where k: "placement_for_blocks s k = Some p" "fits_budgets s p"
    and r: "rejected_above s k (int n) (Some cand)"
    by (rule search_blocks_largest)
  from r obtain m q where m: "k < m" "placement_for_blocks s m = Some q" "\<not> fits_budgets s q"
    "cand = offload_candidate_of (bs_components s) (bs_vram s) q"
    by (auto simp: rejected_above_def)
  have "ram_budget q \<le> ram_budget p" using candidates_mono(2) [OF assms(1) k(1) m(2)] m(1) by simp
  with k(2) m(3) have "bs_vram s < pl_gpu_required q" by (auto simp: fits_budgets_def)
  with m(4) k(2) show ?thesis by (simp add: offload_candidate_of_def fits_budgets_def)
qed

definition example_search :: block_search where
  "example_search =
     \<lparr>bs_components = example_components, bs_vram = 4985380864, bs_ram = 7593828352, bs_blocks = 28,
      bs_bytes_per_block = 167252652, bs_decomposition = Some (4012773975, 670300265)\<rparr>"

lemma example_search_wf: "search_wf example_search"
  using example_in_range by (simp add: search_wf_def example_search_def) (simp add: example_components_def)

lemma example_search_result:
  "map_option (\<lambda>(p, l). (pl_gpu_blocks p, map_option oc_gpu_blocks l))
     (search_blocks example_search 24 None) = Some (Some 17, Some 18)"
  by code_simp

theorem rejected_candidate_exceeds_vram_witness:
  "\<exists>p cand. search_blocks example_search 24 None = Some (p, Some cand) \<and>
     oc_gpu_blocks cand = 18 \<and> 4985380864 < oc_gpu_required cand"
proof -
  obtain p cand where r: "search_blocks example_search 24 None = Some (p, Some cand)"
    and b: "oc_gpu_blocks cand = 18"
    using example_search_result by auto
  from rejected_candidate_exceeds_vram [OF example_search_wf r] r b
  show ?thesis by (simp add: example_search_def)
qed


subsection \<open>The search start skips no feasible count\<close>

lemma int_le_div:
  fixes n a b :: int
  assumes "0 < b" "n * b \<le> a"
  shows "n \<le> a div b"
  using zdiv_mono1 [OF assms(2,1)] assms(1) by simp

lemma placement_requirement_lower:
  assumes c: "in_range c" and p: "calculate_offload_placement c T n gw = Some p"
  shows "gw + kv_part c T n + fc_device_reserve c \<le> pl_gpu_required p"
proof -
  note e = placement_eq [OF c p]
  show ?thesis
    using ceil_share.requirement_lower [of "fc_overhead c" "fc_safety_margin c" "fc_device_reserve c"
        "gw + kv_part c T n" "fc_weights c + fc_kv_cache c"] c e(1-4)
    by (simp add: e(13) in_range_def)
qed

lemma kv_part_lower:
  assumes "in_range c" "0 \<le> n" "n \<le> T" "0 < T" "fc_kv_cache c * T \<le> 2 ^ 51"
  shows "fc_kv_cache c * n \<le> kv_part c (Some T) (Some n) * T"
  using assms split_kv_lower [of "fc_kv_cache c" n T]
  by (simp add: kv_part_def valid_transformer_block_count_def in_range_def)

lemma gpu_block_bytes_bounds:
  assumes "0 < bs_blocks s" "0 \<le> block" "0 \<le> n"
  shows "block * n \<le> gpu_block_bytes s block n * bs_blocks s"
    and "0 \<le> gpu_block_bytes s block n"
    and "n \<le> bs_blocks s \<Longrightarrow> gpu_block_bytes s block n \<le> block"
proof -
  let ?T = "bs_blocks s" and ?m = "block * n + bs_blocks s - 1"
  have d: "?T * (?m div ?T) + ?m mod ?T = ?m" "0 \<le> ?m mod ?T" "?m mod ?T < ?T"
    using assms by simp_all
  then show "block * n \<le> gpu_block_bytes s block n * ?T"
    unfolding gpu_block_bytes_def mult.commute [of _ ?T] using d by linarith
  have "0 \<le> block * n" using assms by simp
  then show "0 \<le> gpu_block_bytes s block n"
    unfolding gpu_block_bytes_def using assms by (intro pos_imp_zdiv_nonneg_iff [THEN iffD2]) linarith+
  assume "n \<le> ?T"
  then have "block * n \<le> block * ?T" using assms by (intro mult_left_mono) auto
  then have "?m \<le> block * ?T + (?T - 1)" by simp
  then have "?m div ?T \<le> (block * ?T + (?T - 1)) div ?T" using assms by (intro zdiv_mono1)
  also have "\<dots> = block" using assms by simp
  finally show "gpu_block_bytes s block n \<le> block" unfolding gpu_block_bytes_def .
qed

text \<open>The search that \<open>try_gpu_offload_blocks\<close> sets up.\<close>

definition block_search_of ::
  "fit_components \<Rightarrow> int \<Rightarrow> int \<Rightarrow> int \<Rightarrow> weight_decomposition option \<Rightarrow> block_search" where
  "block_search_of c vram ram T wd =
     \<lparr>bs_components = c, bs_vram = vram, bs_ram = ram, bs_blocks = T,
      bs_bytes_per_block = float_ceil (round_ratio (fc_weights c) T),
      bs_decomposition = config_decomposition wd\<rparr>"

text \<open>
  The inputs of a block search: byte counts in range, a cache whose product with the block count
  is below \<open>2 ^ 51\<close> (two pebibytes), and a decomposition of exactly these weights.
\<close>

definition offload_inputs :: "fit_components \<Rightarrow> int \<Rightarrow> weight_decomposition option \<Rightarrow> bool" where
  "offload_inputs c T wd \<longleftrightarrow>
     in_range c \<and> 0 < T \<and> fc_kv_cache c * T \<le> 2 ^ 51 \<and>
     (case wd of None \<Rightarrow> True | Some d \<Rightarrow> weights_are_conserved d \<and> wd_total d = fc_weights c)"

lemma block_search_of_wf:
  assumes "offload_inputs c T wd"
  shows "search_wf (block_search_of c vram ram T wd)"
proof -
  have c: "in_range c" "0 < T" using assms by (simp_all add: offload_inputs_def)
  have "0 \<le> float_ceil (round_ratio (fc_weights c) T) * T"
    using bytes_per_block_covers [of "fc_weights c" T] c by (simp add: in_range_def)
  then have "0 \<le> float_ceil (round_ratio (fc_weights c) T)"
    using c by (simp add: zero_le_mult_iff)
  then show ?thesis
    using assms
    by (auto simp: search_wf_def block_search_of_def offload_inputs_def config_decomposition_def
        weights_are_conserved_def split: option.splits)
qed

lemma feasible_uniform_bound:
  assumes inp: "offload_inputs c T wd" and none: "config_decomposition wd = None"
    and f: "feasible (block_search_of c vram ram T wd) n" and n: "1 \<le> n" "n \<le> T"
  defines "b \<equiv> float_ceil (round_ratio (fc_weights c) T)"
  shows "0 < b" "0 < vram - fc_device_reserve c" "n < T"
    "n * (b * T + fc_kv_cache c) \<le> (vram - fc_device_reserve c) * T"
proof -
  let ?s = "block_search_of c vram ram T wd" and ?gw = "min (fc_weights c) (n * b)"
  have c: "in_range c" "0 < T" "fc_kv_cache c * T \<le> 2 ^ 51"
    using inp by (simp_all add: offload_inputs_def)
  have cov: "fc_weights c \<le> b * T"
    unfolding b_def using bytes_per_block_covers c by (simp add: in_range_def)
  have dec: "bs_decomposition ?s = None" using none by (simp add: block_search_of_def)
  from f obtain p where p: "calculate_offload_placement c (Some T) (Some n) ?gw = Some p"
    and v: "pl_gpu_required p \<le> vram"
    unfolding feasible_def placement_for_blocks_uniform [OF dec]
    by (auto simp: block_search_of_def b_def fits_budgets_def split: option.splits)
  note e = placement_eq [OF c(1) p]
  then have gw: "?gw = n * b" "0 < n * b" "n * b < fc_weights c" by (auto simp: min_def split: if_splits)
  show "0 < b" using gw n by (simp add: zero_less_mult_iff)
  show "n < T"
  proof (rule ccontr)
    assume "\<not> n < T"
    then have "b * T \<le> n * b" using n \<open>0 < b\<close> by simp
    with gw cov show False by simp
  qed
  have low: "n * b + kv_part c (Some T) (Some n) + fc_device_reserve c \<le> vram"
    using placement_requirement_lower [OF c(1) p] v gw by simp
  with gw kv_part_bounds [OF c(1), of "Some T" "Some n"] show "0 < vram - fc_device_reserve c" by simp
  have "(n * b + kv_part c (Some T) (Some n)) * T \<le> (vram - fc_device_reserve c) * T"
    using low c by (intro mult_right_mono) auto
  moreover have "fc_kv_cache c * n \<le> kv_part c (Some T) (Some n) * T"
    using kv_part_lower c n by simp
  ultimately show "n * (b * T + fc_kv_cache c) \<le> (vram - fc_device_reserve c) * T"
    by (simp add: algebra_simps)
qed

lemma feasible_decomposed_bound:
  assumes inp: "offload_inputs c T wd" and dec: "config_decomposition wd = Some (block, non_block)"
    and f: "feasible (block_search_of c vram ram T wd) n" and n: "1 \<le> n" "n \<le> T"
  shows "0 < block + fc_kv_cache c" "non_block < vram - fc_device_reserve c" "n < T"
    "0 < fc_weights c"
    "n * (block + fc_kv_cache c) \<le> T * (vram - fc_device_reserve c - non_block)"
proof -
  let ?s = "block_search_of c vram ram T wd"
  let ?g = "gpu_block_bytes ?s block n" and ?kv = "kv_part c (Some T) (Some n)"
  have c: "in_range c" "0 < T" "fc_kv_cache c * T \<le> 2 ^ 51"
    using inp by (simp_all add: offload_inputs_def)
  have d: "bs_decomposition ?s = Some (block, non_block)" using dec by (simp add: block_search_of_def)
  have parts: "0 \<le> block" "0 \<le> non_block" "block + non_block = fc_weights c"
    using block_search_of_wf [OF inp, of vram ram] d
    by (auto simp: search_wf_def block_search_of_def)
  have sT: "bs_blocks ?s = T" by (simp add: block_search_of_def)
  from f obtain p' ph where
    p': "calculate_offload_placement c (Some T) (Some n) (?g + non_block) = Some p'"
    and ph: "calculate_offload_placement c (Some T) (Some n) ?g = Some ph"
    and v: "pl_gpu_required p' \<le> vram"
    unfolding feasible_def
    by (auto simp: placement_for_blocks_decomposed [OF d] fits_budgets_def split: option.splits)
      (auto simp: block_search_of_def)
  note e = placement_eq [OF c(1) p'] and h = placement_eq [OF c(1) ph]
  have g: "block * n \<le> ?g * T" "0 \<le> ?g"
    using gpu_block_bytes_bounds [of ?s block n] c parts n by (simp_all add: sT)
  show "0 < fc_weights c" using e(1,2) by simp
  have low: "?g + non_block + ?kv + fc_device_reserve c \<le> vram"
    using placement_requirement_lower [OF c(1) p'] v by simp
  have kv: "fc_kv_cache c * n \<le> ?kv * T" "0 \<le> ?kv"
    using kv_part_lower c n kv_part_bounds by simp_all
  show "non_block < vram - fc_device_reserve c" using low h(1) kv by simp
  show "n < T"
  proof (rule ccontr)
    assume "\<not> n < T"
    then have nT: "n = T" using n by simp
    have "block \<le> ?g"
      using g(1) c unfolding nT by simp
    with e(2) parts show False by simp
  qed
  show "0 < block + fc_kv_cache c"
  proof (rule ccontr)
    assume "\<not> 0 < block + fc_kv_cache c"
    with parts c have "block = 0" by (simp add: in_range_def)
    then have "?g = 0" using gpu_block_bytes_bounds(3) [of ?s block n] g(2) c parts n by (simp add: sT)
    with h(1) show False by simp
  qed
  have "(?g + ?kv) * T \<le> (vram - fc_device_reserve c - non_block) * T"
    using low c by (intro mult_right_mono) auto
  then show "n * (block + fc_kv_cache c) \<le> T * (vram - fc_device_reserve c - non_block)"
    using g kv by (simp add: algebra_simps)
qed

text \<open>The search start is an upper bound on every feasible count, and the search never fails.\<close>

lemma search_ceiling_upper:
  assumes inp: "offload_inputs c T wd"
    and f: "feasible (block_search_of c vram ram T wd) n" and n: "1 \<le> n" "n \<le> T"
  shows "\<exists>hi. search_ceiling c vram T (float_ceil (round_ratio (fc_weights c) T))
      (config_decomposition wd) = Inr (Some hi) \<and> n \<le> hi"
proof -
  let ?b = "float_ceil (round_ratio (fc_weights c) T)" and ?kv = "fc_kv_cache c"
  have c: "in_range c" "0 < T" using inp by (simp_all add: offload_inputs_def)
  then have kv: "0 \<le> ?kv" by (simp add: in_range_def)
  have cov: "fc_weights c \<le> ?b * T" using bytes_per_block_covers c by (simp add: in_range_def)
  show ?thesis
  proof (cases "config_decomposition wd")
    case None
    note u = feasible_uniform_bound [OF inp None f n]
    have den: "0 < ?b * T + ?kv" using u(1) c kv by (simp add: add_pos_nonneg)
    have "n \<le> (vram - fc_device_reserve c) * T div (?b * T + ?kv)"
      using u(4) den by (intro int_le_div)
    with None u den n show ?thesis by (simp add: search_ceiling_def Let_def)
  next
    case (Some d)
    then obtain block non_block where d: "config_decomposition wd = Some (block, non_block)"
      by (cases d) auto
    note u = feasible_decomposed_bound [OF inp d f n]
    have "0 < ?b * T" using u(4) cov by linarith
    then have "0 < ?b" using c by (simp add: zero_less_mult_iff)
    then have den: "0 < ?b * T + ?kv" using c kv by (simp add: add_pos_nonneg)
    have "n \<le> T * (vram - fc_device_reserve c - non_block) div (block + ?kv)"
      using u(5) u(1) by (intro int_le_div)
    moreover have "\<not> ?b * T + ?kv = 0" using den by simp
    moreover have "0 \<le> non_block"
      using block_search_of_wf [OF inp, of vram ram] d by (simp add: search_wf_def block_search_of_def)
    ultimately show ?thesis using d u \<open>0 < ?b\<close> by (simp add: search_ceiling_def Let_def)
  qed
qed

lemma search_ceiling_le_blocks:
  "search_ceiling c vram T b d = Inr (Some hi) \<Longrightarrow> hi \<le> T"
  by (auto simp: search_ceiling_def Let_def split: if_splits option.splits)

lemma search_ceiling_no_error:
  assumes "offload_inputs c T wd"
  shows "search_ceiling c vram T (float_ceil (round_ratio (fc_weights c) T)) d \<noteq> Inl e"
proof -
  have "0 < T" "0 \<le> fc_kv_cache c" using assms by (simp_all add: offload_inputs_def in_range_def)
  then have "0 < b \<Longrightarrow> b * T + fc_kv_cache c \<noteq> 0" for b :: int
    by (simp add: add_pos_nonneg less_imp_neq [symmetric])
  then show ?thesis
    by (auto simp: search_ceiling_def Let_def not_le split: if_splits option.splits)
qed


lemma placement_for_blocks_counts:
  assumes "placement_for_blocks s n = Some p"
  shows "pl_gpu_blocks p = Some n" and "pl_total_blocks p = Some (bs_blocks s)"
proof -
  have "calculate_offload_placement c T m gw = Some q \<Longrightarrow> pl_gpu_blocks q = m \<and> pl_total_blocks q = T"
    for c T m gw q
    by (auto simp: calculate_offload_placement_def Let_def split: if_splits prod.splits)
  then show "pl_gpu_blocks p = Some n" and "pl_total_blocks p = Some (bs_blocks s)"
    using assms by (auto simp: placement_for_blocks_def Let_def split: option.splits)
qed

lemma block_search_result:
  assumes "offload_inputs c T wd" and s_def: "s = block_search_of c vram ram T wd"
  shows "case try_gpu_offload_blocks c vram ram T topo wd of
      Inl e \<Rightarrow> False
    | Inr None \<Rightarrow> \<forall>n. 1 \<le> n \<and> n \<le> T \<longrightarrow> \<not> feasible s n
    | Inr (Some r) \<Rightarrow> \<exists>n p. hf_gpu_blocks r = Some n \<and>
        largest_feasible s T n \<and>
        placement_for_blocks s n = Some p \<and>
        (\<exists>ws dg. r = offload_result_from_placement c vram ram topo TRANSFORMER_BLOCKS ws dg p) \<and>
        pl_gpu_required p \<le> vram \<and> ram_budget p \<le> ram"
proof -
  let ?b = "float_ceil (round_ratio (fc_weights c) T)"
  let ?ceil = "search_ceiling c vram T ?b (config_decomposition wd)"
  have upper: "feasible s n \<Longrightarrow> 1 \<le> n \<Longrightarrow> n \<le> T \<Longrightarrow> \<exists>hi. ?ceil = Inr (Some hi) \<and> n \<le> hi" for n
    unfolding s_def by (rule search_ceiling_upper [OF assms(1)])
  have s: "\<lparr>bs_components = c, bs_vram = vram, bs_ram = ram, bs_blocks = T,
      bs_bytes_per_block = ?b, bs_decomposition = config_decomposition wd\<rparr> = s"
    by (simp add: s_def block_search_of_def)
  note eq = try_gpu_offload_blocks_def [of c vram ram T topo wd, unfolded Let_def s]
  show ?thesis
  proof (cases ?ceil)
    case (Inl e)
    with search_ceiling_no_error [OF assms(1)] show ?thesis by simp
  next
    case (Inr h)
    show ?thesis
    proof (cases h)
      case None
      with Inr upper show ?thesis by (auto simp: eq)
    next
      case (Some hi)
      with Inr have hiT: "hi \<le> T" using search_ceiling_le_blocks by blast
      have hi: "feasible s n \<Longrightarrow> 1 \<le> n \<Longrightarrow> n \<le> T \<Longrightarrow> n \<le> hi" for n
        using upper [of n] Inr Some by simp
      show ?thesis
      proof (cases "search_blocks s (nat hi) None")
        case None
        then have "\<forall>n. 1 \<le> n \<and> n \<le> T \<longrightarrow> \<not> feasible s n"
          using hi by (force simp: search_blocks_None)
        with None Inr Some show ?thesis by (simp add: eq)
      next
        case (Some pl)
        then obtain p l where pl: "search_blocks s (nat hi) None = Some (p, l)" by (cases pl) auto
        then obtain k where k: "largest_feasible s hi k" "placement_for_blocks s k = Some p"
          "fits_budgets s p"
          by (rule search_blocks_largest)
        have lf: "largest_feasible s T k"
          using k(1) hiT hi by (fastforce simp: largest_feasible_def)
        have "pl_gpu_blocks p = Some k" using k(2) by (rule placement_for_blocks_counts)
        with pl k(2,3) lf Inr \<open>h = Some hi\<close> show ?thesis
          by (auto simp: eq offload_result_from_placement_def fits_budgets_def s_def block_search_of_def)
      qed
    qed
  qed
qed

text \<open>
  C1. The block search is complete and optimal: whatever the start value computed from the
  budgets, the placement returned is the one with the most transformer blocks on the GPU among
  all block counts that fit both budgets, and no placement is returned only when no block count
  fits.  It never raises.
\<close>

theorem try_gpu_offload_blocks_optimal:
  assumes "offload_inputs c T wd"
  shows "case try_gpu_offload_blocks c vram ram T topo wd of
      Inl e \<Rightarrow> False
    | Inr None \<Rightarrow> \<forall>n. 1 \<le> n \<and> n \<le> T \<longrightarrow> \<not> feasible (block_search_of c vram ram T wd) n
    | Inr (Some r) \<Rightarrow> \<exists>n p. hf_gpu_blocks r = Some n \<and>
        largest_feasible (block_search_of c vram ram T wd) T n \<and>
        placement_for_blocks (block_search_of c vram ram T wd) n = Some p \<and>
        hf_gpu_required r = Some (pl_gpu_required p) \<and>
        hf_ram_required r = Some (pl_ram_required p) \<and> hf_mode r = GPU_OFFLOAD \<and>
        pl_gpu_required p \<le> vram \<and> ram_budget p \<le> ram"
  using block_search_result [OF assms refl, of vram ram topo]
  by (auto simp: offload_result_from_placement_def split: sum.splits option.splits)

definition example_decomposition :: weight_decomposition where
  "example_decomposition =
     \<lparr>wd_total = 4683074240, wd_block = 4012773975, wd_non_block = 670300265, wd_embedding = None,
      wd_output_head = None, wd_bytes_per_block = 143313357, wd_blocks = 28,
      wd_method = CONFIG_PARAMETER_DECOMPOSITION\<rparr>"

lemma example_offload_inputs: "offload_inputs example_components 28 (Some example_decomposition)"
  using example_in_range
  by (simp add: offload_inputs_def example_components_def example_decomposition_def
      weights_are_conserved_def)

lemma example_offload_result:
  "map_sum id (map_option (\<lambda>r. (hf_gpu_blocks r, hf_gpu_required r)))
     (try_gpu_offload_blocks example_components 4985380864 7593828352 28 DISCRETE_MEMORY
       (Some example_decomposition)) = Inr (Some (Some 17, Some 4895235136))"
  by code_simp

theorem try_gpu_offload_blocks_optimal_witness:
  "largest_feasible (block_search_of example_components 4985380864 7593828352 28
     (Some example_decomposition)) 28 17"
proof -
  obtain r where r: "try_gpu_offload_blocks example_components 4985380864 7593828352 28
      DISCRETE_MEMORY (Some example_decomposition) = Inr (Some r)" "hf_gpu_blocks r = Some 17"
    using example_offload_result
    by (cases "try_gpu_offload_blocks example_components 4985380864 7593828352 28
      DISCRETE_MEMORY (Some example_decomposition)") auto
  show ?thesis
    using try_gpu_offload_blocks_optimal [OF example_offload_inputs, of 4985380864 7593828352
        DISCRETE_MEMORY] r
    by simp
qed


subsection \<open>The two endpoints bound every split of the non-block weights\<close>

text \<open>
  For a decomposed model the placement of the non-block weights is unknown.  The recorded
  bounds are right for every possible split: however many of the non-block bytes sit on the GPU,
  its requirement lies between the recorded minimum and the selected placement's requirement, and
  the RAM requirement between the selected placement's and the recorded maximum.  The bounds
  satisfy the non-negativity their record declares.
\<close>

theorem non_block_bounds_cover_every_split:
  assumes "search_wf s" and "placement_for_blocks s n = Some p" and "pl_bounds p = Some b"
    and "0 \<le> share" and "share \<le> nb_non_block_weight b" and "0 \<le> n" and "n \<le> bs_blocks s"
    and "calculate_offload_placement (bs_components s) (Some (bs_blocks s)) (Some n)
           (nb_gpu_block_weight b + share) = Some q"
  shows "nb_gpu_required_min b \<le> pl_gpu_required q \<and> pl_gpu_required q \<le> pl_gpu_required p \<and>
    pl_ram_required p \<le> pl_ram_required q \<and> pl_ram_required q \<le> nb_ram_required_max b \<and>
    0 \<le> nb_gpu_block_weight b \<and> 0 \<le> nb_ram_block_weight b \<and> 0 \<le> nb_non_block_weight b \<and>
    0 \<le> nb_gpu_required_min b \<and> 0 \<le> nb_ram_required_max b \<and>
    0 \<le> nb_ram_overhead_max b \<and> 0 \<le> nb_ram_safety_margin_max b"
proof -
  let ?c = "bs_components s" and ?T = "Some (bs_blocks s)"
  have c: "in_range ?c" and T: "0 < bs_blocks s" using assms(1) by (simp_all add: search_wf_def)
  obtain block non_block where d: "bs_decomposition s = Some (block, non_block)"
  proof (cases "bs_decomposition s")
    case None
    with assms(2,3) placement_eq(17) [OF c] show ?thesis by (auto simp: placement_for_blocks_uniform)
  next
    case (Some bn)
    with that show ?thesis by (cases bn) auto
  qed
  have parts: "0 \<le> block" "0 \<le> non_block" using assms(1) d by (simp_all add: search_wf_def)
  let ?g = "gpu_block_bytes s block n"
  from assms(2) obtain p' ph where
    p': "calculate_offload_placement ?c ?T (Some n) (?g + non_block) = Some p'"
    and ph: "calculate_offload_placement ?c ?T (Some n) ?g = Some ph"
    and p: "p = p'\<lparr>pl_bounds := Some (bounds_of_host ?g block non_block ph)\<rparr>"
    unfolding placement_for_blocks_decomposed [OF d] by blast
  have b: "b = bounds_of_host ?g block non_block ph" using assms(3) p by simp
  have q: "calculate_offload_placement ?c ?T (Some n) (?g + share) = Some q"
    using assms(8) by (simp add: b bounds_of_host_def)
  have "?g \<le> ?g + share" "?g + share \<le> ?g + non_block"
    using assms(4,5) by (simp_all add: b bounds_of_host_def)
  note lo = placement_mono [OF c ph q this(1) order_refl] and hi = placement_mono [OF c q p' this(2) order_refl]
  have "?g \<le> block" using gpu_block_bytes_bounds(3) [OF T parts(1) assms(6,7)] .
  moreover have "0 \<le> ?g" using gpu_block_bytes_bounds(2) [OF T parts(1) assms(6)] .
  moreover note placement_parts_nonneg [OF c ph]
  moreover have "0 \<le> fc_device_reserve ?c" using c by (simp add: in_range_def)
  ultimately show ?thesis
    using lo hi assms(4,5) parts placement_requirement_lower [OF c ph] kv_part_bounds [OF c, of ?T "Some n"]
      placement_conserves_bytes_parts [OF c ph]
    by (simp add: p b bounds_of_host_def)
qed

lemma example_bounds:
  "(case placement_for_blocks example_search 17 of None \<Rightarrow> False
    | Some p \<Rightarrow> (case pl_bounds p of None \<Rightarrow> False
      | Some b \<Rightarrow> nb_non_block_weight b = 670300265 \<and> nb_gpu_block_weight b = 2436327057))"
  by code_simp

theorem non_block_bounds_cover_every_split_witness:
  "\<exists>p b q. placement_for_blocks example_search 17 = Some p \<and> pl_bounds p = Some b \<and>
     calculate_offload_placement example_components (Some 28) (Some 17) (2436327057 + 1000000)
       = Some q \<and>
     nb_gpu_required_min b \<le> pl_gpu_required q \<and> pl_gpu_required q \<le> pl_gpu_required p"
proof -
  from example_bounds obtain p b where p: "placement_for_blocks example_search 17 = Some p"
    "pl_bounds p = Some b" "nb_non_block_weight b = 670300265" "nb_gpu_block_weight b = 2436327057"
    by (auto split: option.splits)
  have "\<exists>q. calculate_offload_placement example_components (Some 28) (Some 17) (2436327057 + 1000000)
      = Some q"
    by (simp add: placement_defined example_components_def flip: not_None_eq)
  then obtain q where
    q: "calculate_offload_placement example_components (Some 28) (Some 17) (2436327057 + 1000000) = Some q"
    by blast
  have s: "bs_components example_search = example_components" "bs_blocks example_search = 28"
    by (simp_all add: example_search_def)
  from non_block_bounds_cover_every_split [OF example_search_wf p(1,2), of 1000000 q] p q
  show ?thesis by (auto simp: s)
qed


section \<open>The search by bytes\<close>

text \<open>A GPU weight share whose requirement fits VRAM, without a block count.\<close>

definition share_fits :: "fit_components \<Rightarrow> int option \<Rightarrow> int \<Rightarrow> int \<Rightarrow> bool" where
  "share_fits c T vram gw \<longleftrightarrow>
     (case calculate_offload_placement c T None gw of None \<Rightarrow> False | Some p \<Rightarrow> pl_gpu_required p \<le> vram)"

lemma share_fits_downward:
  assumes c: "in_range c" and f: "share_fits c T vram gw" and le: "0 < gw'" "gw' \<le> gw"
  shows "share_fits c T vram gw'"
proof -
  from f obtain p where p: "calculate_offload_placement c T None gw = Some p" "pl_gpu_required p \<le> vram"
    by (auto simp: share_fits_def split: option.splits)
  then have "gw < fc_weights c" using placement_eq(2) [OF c] by blast
  then obtain q where q: "calculate_offload_placement c T None gw' = Some q"
    using placement_defined [of c T None gw'] le by auto
  have "pl_gpu_required q + (gw - gw') \<le> pl_gpu_required p"
    by (rule placement_mono(1) [OF c q p(1) le(2)]) (simp add: kv_part_def)
  with q p le show ?thesis by (simp add: share_fits_def)
qed

lemma share_fits_upper:
  assumes "in_range c" "share_fits c T vram gw"
  shows "0 < gw" "gw < fc_weights c" "gw \<le> vram - fc_kv_cache c - fc_device_reserve c"
proof -
  from assms(2) obtain p where p: "calculate_offload_placement c T None gw = Some p"
    "pl_gpu_required p \<le> vram"
    by (auto simp: share_fits_def split: option.splits)
  show "0 < gw" "gw < fc_weights c" using placement_eq(1,2) [OF assms(1) p(1)] .
  show "gw \<le> vram - fc_kv_cache c - fc_device_reserve c"
    using placement_requirement_lower [OF assms(1) p(1)] p(2) by (simp add: kv_part_def)
qed

text \<open>
  The invariant of the binary search: nothing above \<open>high\<close> fits, and \<open>best\<close> is the placement of
  \<open>low - 1\<close>, which fits, or \<^verbatim>\<open>None\<close> while \<open>low\<close> is still 1.
\<close>

definition byte_inv ::
  "fit_components \<Rightarrow> int option \<Rightarrow> int \<Rightarrow> int \<Rightarrow> int \<Rightarrow> offload_placement option \<Rightarrow> bool" where
  "byte_inv c T vram low high best \<longleftrightarrow>
     1 \<le> low \<and> low \<le> high + 1 \<and> (\<forall>gw. high < gw \<longrightarrow> \<not> share_fits c T vram gw) \<and>
     (if low = 1 then best = None
      else best = calculate_offload_placement c T None (low - 1) \<and> share_fits c T vram (low - 1))"

lemma byte_search_inv:
  assumes "in_range c" and "byte_inv c T vram low high best"
  shows "\<exists>l. byte_inv c T vram l (l - 1) (byte_search c T vram low high best)"
  using assms
proof (induction c T vram low high best rule: byte_search.induct)
  case (1 c T vram low high best)
  let ?mid = "(low + high) div 2"
  note unfold = byte_search.simps [of c T vram low high best]
  show ?case
  proof (cases "high < low")
    case True
    with "1.prems" have "high = low - 1" by (simp add: byte_inv_def)
    moreover have "byte_search c T vram low high best = best" using True by (simp add: unfold)
    ultimately show ?thesis using "1.prems"(2) by auto
  next
    case False
    then have mid: "low \<le> ?mid" "?mid \<le> high" by linarith+
    from "1.prems" have low: "1 \<le> low" by (simp add: byte_inv_def)
    show ?thesis
    proof (cases "share_fits c T vram ?mid")
      case True
      then obtain p where p: "calculate_offload_placement c T None ?mid = Some p"
        "pl_gpu_required p \<le> vram"
        by (auto simp: share_fits_def split: option.splits)
      have "byte_inv c T vram (?mid + 1) high (Some p)"
        using "1.prems" mid low p(1) True by (simp add: byte_inv_def)
      from "1.IH"(2) [OF False refl p "1.prems"(1) this] show ?thesis
        using False p by (simp add: unfold Let_def)
    next
      case no: False
      have "\<not> share_fits c T vram gw" if "?mid - 1 < gw" for gw
        using share_fits_downward [OF "1.prems"(1), of T vram gw ?mid] no that mid low by linarith
      then have inv: "byte_inv c T vram low (?mid - 1) best"
        using "1.prems" mid low by (auto simp: byte_inv_def)
      show ?thesis
      proof (cases "calculate_offload_placement c T None ?mid")
        case None
        from "1.IH"(1) [OF False refl None "1.prems"(1) inv] show ?thesis
          using False None by (simp add: unfold Let_def)
      next
        case (Some p)
        with no have "\<not> pl_gpu_required p \<le> vram" by (simp add: share_fits_def)
        from "1.IH"(3) [OF False refl Some this "1.prems"(1) inv] show ?thesis
          using False Some \<open>\<not> pl_gpu_required p \<le> vram\<close> by (simp add: unfold Let_def)
      qed
    qed
  qed
qed

lemma byte_search_start:
  assumes "in_range c" "0 < vram - fc_kv_cache c - fc_device_reserve c" "0 < fc_weights c"
  shows "byte_inv c T vram 1 (min (fc_weights c - 1) (vram - fc_kv_cache c - fc_device_reserve c)) None"
  using assms share_fits_upper [OF assms(1), of T vram] by (fastforce simp: byte_inv_def)

text \<open>The search returns the largest share that fits VRAM, or nothing if none does.\<close>

lemma byte_search_result:
  assumes c: "in_range c" and pos: "0 < vram - fc_kv_cache c - fc_device_reserve c"
    and r_def: "r = byte_search c T vram 1 (min (fc_weights c - 1) (vram - fc_kv_cache c - fc_device_reserve c)) None"
  shows "case r of None \<Rightarrow> \<forall>gw. \<not> share_fits c T vram gw
    | Some p \<Rightarrow> \<exists>gw. calculate_offload_placement c T None gw = Some p \<and> share_fits c T vram gw \<and>
        (\<forall>gw'. gw < gw' \<longrightarrow> \<not> share_fits c T vram gw')"
proof (cases "0 < fc_weights c")
  case True
  obtain l where "byte_inv c T vram l (l - 1) r"
    using byte_search_inv [OF c byte_search_start [OF c pos True]] unfolding r_def by blast
  then have inv: "1 \<le> l" "\<forall>gw. l - 1 < gw \<longrightarrow> \<not> share_fits c T vram gw"
    and b: "if l = 1 then r = None
      else r = calculate_offload_placement c T None (l - 1) \<and> share_fits c T vram (l - 1)"
    by (simp_all add: byte_inv_def)
  show ?thesis
  proof (cases "l = 1")
    case True
    have "\<not> share_fits c T vram gw" for gw
      using share_fits_upper(1) [OF c, of T vram gw] inv True by fastforce
    with True b show ?thesis by simp
  next
    case False
    with b obtain p where "r = Some p" "calculate_offload_placement c T None (l - 1) = Some p"
      by (auto simp: share_fits_def split: option.splits)
    with False b inv show ?thesis by auto
  qed
next
  case False
  then have "r = None" using pos unfolding r_def by (subst byte_search.simps) simp
  moreover have "\<not> share_fits c T vram gw" for gw using share_fits_upper(1,2) [OF c, of T vram gw] False by auto
  ultimately show ?thesis by simp
qed

lemma try_gpu_offload_bytes_result:
  assumes "in_range c"
  shows "case try_gpu_offload_bytes c vram ram T topo of
      None \<Rightarrow> \<not> (\<exists>gw p. calculate_offload_placement c T None gw = Some p \<and>
        pl_gpu_required p \<le> vram \<and> pl_ram_required p \<le> ram)
    | Some r \<Rightarrow> \<exists>gw p. calculate_offload_placement c T None gw = Some p \<and>
        pl_gpu_required p \<le> vram \<and> pl_ram_required p \<le> ram \<and>
        r = offload_result_from_placement c vram ram topo ESTIMATED_BYTES [BYTES_WARNING] None p \<and>
        (\<forall>gw' q. calculate_offload_placement c T None gw' = Some q \<and> pl_gpu_required q \<le> vram
           \<longrightarrow> gw' \<le> gw)"
proof -
  let ?avail = "vram - fc_kv_cache c - fc_device_reserve c"
  have fits: "share_fits c T vram gw \<longleftrightarrow>
      (\<exists>p. calculate_offload_placement c T None gw = Some p \<and> pl_gpu_required p \<le> vram)" for gw
    by (auto simp: share_fits_def split: option.splits)
  show ?thesis
  proof (cases "0 < ?avail")
    case False
    then have "\<not> share_fits c T vram gw" for gw using share_fits_upper(1,3) [OF assms, of T vram gw] by auto
    with False show ?thesis by (auto simp: try_gpu_offload_bytes_def Let_def fits)
  next
    case True
    note res = byte_search_result [OF assms True refl, of T]
    show ?thesis
    proof (cases "byte_search c T vram 1 (min (fc_weights c - 1) ?avail) None")
      case None
      with res have "\<not> share_fits c T vram gw" for gw by simp
      with None True show ?thesis by (auto simp: try_gpu_offload_bytes_def Let_def fits)
    next
      case (Some p)
      with res obtain gw where gw: "calculate_offload_placement c T None gw = Some p"
        "share_fits c T vram gw" and max: "\<And>gw'. gw < gw' \<Longrightarrow> \<not> share_fits c T vram gw'"
        by auto
      have v: "pl_gpu_required p \<le> vram" using gw by (simp add: share_fits_def)
      have above: "gw' \<le> gw \<and> pl_ram_required p \<le> pl_ram_required q"
        if q: "calculate_offload_placement c T None gw' = Some q" "pl_gpu_required q \<le> vram" for gw' q
      proof
        show le: "gw' \<le> gw" using max [of gw'] q fits [of gw'] by fastforce
        show "pl_ram_required p \<le> pl_ram_required q"
          by (rule placement_mono(2) [OF assms q(1) gw(1) le]) (simp add: kv_part_def)
      qed
      show ?thesis
      proof (cases "ram < pl_ram_required p")
        case True
        with Some \<open>0 < ?avail\<close> above show ?thesis
          by (fastforce simp: try_gpu_offload_bytes_def Let_def)
      next
        case False
        with Some \<open>0 < ?avail\<close> above gw(1) v placement_eq(5) [OF assms gw(1)] show ?thesis
          by (auto simp: try_gpu_offload_bytes_def Let_def intro!: exI [of _ p])
      qed
    qed
  qed
qed

text \<open>
  C3. Without a block count the placement is searched by bytes.  The result is the largest GPU
  weight share whose requirement fits VRAM; a placement is returned exactly when some share fits
  both VRAM and RAM, so the search never misses one, although it looks at the RAM budget only
  once, after the VRAM search.
\<close>

theorem try_gpu_offload_bytes_complete:
  assumes "in_range c"
  shows "case try_gpu_offload_bytes c vram ram T topo of
      None \<Rightarrow> \<not> (\<exists>gw p. calculate_offload_placement c T None gw = Some p \<and>
        pl_gpu_required p \<le> vram \<and> pl_ram_required p \<le> ram)
    | Some r \<Rightarrow> \<exists>gw p. calculate_offload_placement c T None gw = Some p \<and>
        pl_gpu_required p \<le> vram \<and> pl_ram_required p \<le> ram \<and>
        hf_gpu_weight r = gw \<and> hf_gpu_required r = Some (pl_gpu_required p) \<and>
        hf_ram_required r = Some (pl_ram_required p) \<and>
        (\<forall>gw' q. calculate_offload_placement c T None gw' = Some q \<and> pl_gpu_required q \<le> vram
           \<longrightarrow> gw' \<le> gw)"
  using try_gpu_offload_bytes_result [OF assms, where vram = vram and ram = ram and T = T and topo = topo] placement_eq(5) [OF assms]
  by (fastforce simp: offload_result_from_placement_def split: option.splits)

theorem try_gpu_offload_bytes_complete_witness:
  "\<exists>r. try_gpu_offload_bytes example_components 4985380864 7593828352 None DISCRETE_MEMORY = Some r \<and>
     hf_gpu_weight r = 3082395956 \<and>
     (\<forall>gw q. calculate_offload_placement example_components None None gw = Some q \<and>
        pl_gpu_required q \<le> 4985380864 \<longrightarrow> gw \<le> 3082395956)"
proof -
  have "map_option hf_gpu_weight
      (try_gpu_offload_bytes example_components 4985380864 7593828352 None DISCRETE_MEMORY)
      = Some 3082395956"
    by code_simp
  then obtain r where r: "hf_gpu_weight r = 3082395956"
    "try_gpu_offload_bytes example_components 4985380864 7593828352 None DISCRETE_MEMORY = Some r"
    by auto
  with try_gpu_offload_bytes_complete
    [OF example_in_range, where vram = 4985380864 and ram = 7593828352 and T = None
      and topo = DISCRETE_MEMORY]
  show ?thesis by auto
qed

end
