(* ===== verification/Hardware_Fit_Analysis.thy ===== *)
theory Hardware_Fit_Analysis
  imports Hardware_Fit_Props
begin

text \<open>
  What \<open>analyze_components\<close> promises as a whole, on top of the two searches: which argument
  errors it raises, that every result accounts for every byte and stays within the budgets its
  mode claims, that a placement further down the order is chosen only when the ones above are
  impossible, and that more memory never makes the verdict worse.
\<close>

section \<open>The order of the modes\<close>

fun mode_rank :: "hardware_fit_mode \<Rightarrow> nat" where
  "mode_rank TOO_LARGE = 0"
| "mode_rank CPU_RAM = 1"
| "mode_rank GPU_OFFLOAD = 2"
| "mode_rank GPU_RESIDENT = 3"

instantiation hardware_fit_mode :: linorder
begin

definition less_eq_hardware_fit_mode :: "hardware_fit_mode \<Rightarrow> hardware_fit_mode \<Rightarrow> bool" where
  "less_eq_hardware_fit_mode a b \<longleftrightarrow> mode_rank a \<le> mode_rank b"

definition less_hardware_fit_mode :: "hardware_fit_mode \<Rightarrow> hardware_fit_mode \<Rightarrow> bool" where
  "less_hardware_fit_mode a b \<longleftrightarrow> mode_rank a < mode_rank b"

instance
proof
  fix a b :: hardware_fit_mode
  assume "a \<le> b" "b \<le> a"
  then show "a = b" by (cases a; cases b) (simp_all add: less_eq_hardware_fit_mode_def)
qed (auto simp: less_eq_hardware_fit_mode_def less_hardware_fit_mode_def)

end

lemmas mode_order = less_eq_hardware_fit_mode_def less_hardware_fit_mode_def

section \<open>Accounting\<close>

text \<open>Every component is split exactly between the two pools of a result.\<close>

definition accounts_for :: "fit_components \<Rightarrow> hardware_fit_result \<Rightarrow> bool" where
  "accounts_for c r \<longleftrightarrow>
     hf_gpu_weight r + hf_ram_weight r = fc_weights c \<and>
     hf_gpu_kv_cache r + hf_ram_kv_cache r = fc_kv_cache c \<and>
     hf_gpu_overhead r + hf_ram_overhead r = fc_overhead c \<and>
     hf_gpu_safety_margin r + hf_ram_safety_margin r = fc_safety_margin c \<and>
     hf_device_reserve r = fc_device_reserve c"

text \<open>
  Each pool is charged exactly its parts; the reserve goes to the GPU, or to the shared pool.  A
  placement that uses no GPU puts nothing there.
\<close>

definition charges_parts :: "hardware_fit_result \<Rightarrow> bool" where
  "charges_parts r \<longleftrightarrow>
     (places_weights_on_gpu r \<longrightarrow>
        hf_gpu_required r = Some (hf_gpu_weight r + hf_gpu_kv_cache r + hf_gpu_overhead r
          + hf_gpu_safety_margin r + hf_device_reserve r)) \<and>
     (\<not> places_weights_on_gpu r \<longrightarrow> hf_gpu_weight r = 0 \<and> hf_gpu_kv_cache r = 0 \<and> hf_gpu_overhead r = 0) \<and>
     (places_weights_on_gpu r \<longrightarrow> hf_topology r = DISCRETE_MEMORY) \<and>
     hf_ram_required r = Some (hf_ram_weight r + hf_ram_kv_cache r + hf_ram_overhead r
       + hf_ram_safety_margin r
       + (if hf_topology r = UNIFIED_MEMORY then hf_device_reserve r else 0))"

text \<open>The budgets each mode claims to respect.\<close>

definition within_budgets :: "int option \<Rightarrow> int \<Rightarrow> hardware_fit_result \<Rightarrow> bool" where
  "within_budgets vram ram r \<longleftrightarrow>
     (case hf_mode r of
        GPU_RESIDENT \<Rightarrow> (\<exists>v g. vram = Some v \<and> hf_gpu_required r = Some g \<and> g \<le> v) \<and>
          hf_ram_required r = Some 0
      | GPU_OFFLOAD \<Rightarrow> (\<exists>v g m. vram = Some v \<and> hf_gpu_required r = Some g \<and> g \<le> v \<and>
          hf_ram_required r = Some m \<and> m \<le> ram)
      | CPU_RAM \<Rightarrow> (\<exists>m. hf_ram_required r = Some m \<and> m \<le> ram) \<and> hf_gpu_weight r = 0
      | TOO_LARGE \<Rightarrow> (\<exists>m. hf_ram_required r = Some m \<and> ram < m) \<and> hf_gpu_weight r = 0)"

lemmas accounting = accounts_for_def charges_parts_def within_budgets_def places_weights_on_gpu_def

lemma unified_accounting:
  "r = analyze_unified_memory c ram T \<Longrightarrow>
     accounts_for c r \<and> charges_parts r \<and> within_budgets None ram r"
  by (simp add: accounting analyze_unified_memory_def Let_def split: if_splits)

lemma resident_accounting:
  assumes "r = gpu_resident_result c DISCRETE_MEMORY vram ram T
      (fc_kv_cache c + fc_overhead c + fc_device_reserve c + fc_weights c + fc_safety_margin c)"
    and "fc_kv_cache c + fc_overhead c + fc_device_reserve c + fc_weights c + fc_safety_margin c \<le> vram"
  shows "accounts_for c r \<and> charges_parts r \<and> within_budgets (Some vram) ram r"
  using assms by (simp add: accounting gpu_resident_result_def)

lemma cpu_accounting:
  "r = cpu_or_too_large_result c DISCRETE_MEMORY vram ram T required ws \<Longrightarrow>
     accounts_for c r \<and> charges_parts r \<and> within_budgets vram ram r"
  by (simp add: accounting cpu_or_too_large_result_def Let_def split: if_splits)

text \<open>The RAM need of the selected end is covered by the RAM budget that was checked.\<close>

lemma ram_required_le_budget:
  assumes wf: "search_wf s" and p: "placement_for_blocks s n = Some p"
  shows "pl_ram_required p \<le> ram_budget p"
proof (cases "bs_decomposition s")
  case None
  then show ?thesis using ram_budget_uniform [OF wf None p] by simp
next
  case (Some d)
  then obtain block non_block where d: "bs_decomposition s = Some (block, non_block)" by (cases d) auto
  from p obtain p' ph where
    p': "calculate_offload_placement (bs_components s) (Some (bs_blocks s)) (Some n)
        (gpu_block_bytes s block n + non_block) = Some p'"
    and ph: "calculate_offload_placement (bs_components s) (Some (bs_blocks s)) (Some n)
        (gpu_block_bytes s block n) = Some ph"
    and eq: "p = p'\<lparr>pl_bounds := Some (bounds_of_host (gpu_block_bytes s block n) block non_block ph)\<rparr>"
    unfolding placement_for_blocks_decomposed [OF d] by blast
  have c: "in_range (bs_components s)" "0 \<le> non_block"
    using wf d by (simp_all add: search_wf_def)
  then have "pl_ram_required p' \<le> pl_ram_required ph"
    using placement_mono(2) [OF c(1) ph p'] by simp
  then show ?thesis by (simp add: eq ram_budget_def bounds_of_host_def)
qed

text \<open>A candidate of the block search, up to its bounds, is a placement.\<close>

lemma candidate_is_placement:
  assumes "placement_for_blocks s n = Some p"
  obtains gw q where "calculate_offload_placement (bs_components s) (Some (bs_blocks s)) (Some n) gw = Some q"
    and "p = q\<lparr>pl_bounds := pl_bounds p\<rparr>"
proof (cases "bs_decomposition s")
  case None
  then show ?thesis using assms that by (auto simp: placement_for_blocks_uniform)
next
  case (Some d)
  then show ?thesis
    using assms that by (cases d) (auto simp: placement_for_blocks_decomposed)
qed

lemma offload_result_accounting:
  assumes c: "in_range c" and q: "calculate_offload_placement c T n gw = Some q"
    and p: "p = q\<lparr>pl_bounds := b\<rparr>" and fits: "pl_gpu_required p \<le> vram" "pl_ram_required p \<le> ram"
    and r: "r = offload_result_from_placement c vram ram DISCRETE_MEMORY m ws dg p"
  shows "accounts_for c r \<and> charges_parts r \<and> within_budgets (Some vram) ram r"
  using fits placement_eq [OF c q]
  by (simp add: r p accounting offload_result_from_placement_def ceil_share.requirement_def)

section \<open>Arguments\<close>

text \<open>
  Inputs in range: the byte counts, a cache whose product with each block count in play stays
  below \<open>2 ^ 51\<close>, and a decomposition that satisfies its validator.
\<close>

definition analysis_inputs :: "fit_components \<Rightarrow> int option \<Rightarrow> int option \<Rightarrow> weight_decomposition option \<Rightarrow> bool" where
  "analysis_inputs c T L wd \<longleftrightarrow>
     in_range c \<and> (\<forall>n. Some n \<in> {T, L, map_option wd_blocks wd} \<longrightarrow> fc_kv_cache c * n \<le> 2 ^ 51) \<and>
     (case wd of None \<Rightarrow> True | Some d \<Rightarrow> weights_are_conserved d)"

lemma resolve_block_count_Inr:
  assumes "resolve_block_count w T L wd = Inr blocks"
  shows "blocks \<in> {T, L, map_option wd_blocks wd}"
    and "wd = Some d \<Longrightarrow> wd_total d = w \<and> blocks = Some (wd_blocks d)"
  using assms
  by (auto simp: resolve_block_count_def opt_or_def Let_def split: if_splits option.splits)

lemma resolved_offload_inputs:
  assumes "analysis_inputs c T L wd" "resolve_block_count (fc_weights c) T L wd = Inr (Some n)" "0 < n"
  shows "offload_inputs c n wd"
  using assms resolve_block_count_Inr [OF assms(2)]
  by (auto simp: analysis_inputs_def offload_inputs_def split: option.splits)

text \<open>The outcome of the partial offload, whichever search runs.\<close>

definition offload_possible :: "fit_components \<Rightarrow> int \<Rightarrow> int \<Rightarrow> int option \<Rightarrow> weight_decomposition option \<Rightarrow> bool" where
  "offload_possible c vram ram blocks wd \<longleftrightarrow>
     (if valid_transformer_block_count blocks
      then \<exists>n. 1 \<le> n \<and> n \<le> the blocks \<and> feasible (block_search_of c vram ram (the blocks) wd) n
      else \<exists>gw p. calculate_offload_placement c blocks None gw = Some p \<and>
        pl_gpu_required p \<le> vram \<and> pl_ram_required p \<le> ram)"

lemma try_gpu_offload_result:
  assumes inp: "analysis_inputs c T L wd" and res: "resolve_block_count (fc_weights c) T L wd = Inr blocks"
  shows "case try_gpu_offload c vram ram blocks DISCRETE_MEMORY wd of
      Inl e \<Rightarrow> False
    | Inr None \<Rightarrow> \<not> offload_possible c vram ram blocks wd
    | Inr (Some r) \<Rightarrow> offload_possible c vram ram blocks wd \<and> hf_mode r = GPU_OFFLOAD \<and>
        accounts_for c r \<and> charges_parts r \<and> within_budgets (Some vram) ram r"
proof (cases "valid_transformer_block_count blocks")
  case True
  then obtain n where n: "blocks = Some n" "0 < n"
    by (auto simp: valid_transformer_block_count_def split: option.splits)
  have oi: "offload_inputs c n wd" using resolved_offload_inputs [OF inp] res n by simp
  note wf = block_search_of_wf [OF oi, of vram ram]
  have c: "in_range c" using inp by (simp add: analysis_inputs_def)
  have sc: "bs_components (block_search_of c vram ram n wd) = c" by (simp add: block_search_of_def)
  show ?thesis
  proof (cases "try_gpu_offload_blocks c vram ram n DISCRETE_MEMORY wd")
    case (Inl e)
    with block_search_result [OF oi refl, of vram ram DISCRETE_MEMORY] show ?thesis by simp
  next
    case (Inr o')
    show ?thesis
    proof (cases o')
      case None
      with Inr block_search_result [OF oi refl, of vram ram DISCRETE_MEMORY] True n show ?thesis
        by (auto simp: try_gpu_offload_def offload_possible_def)
    next
      case (Some r)
      with Inr block_search_result [OF oi refl, of vram ram DISCRETE_MEMORY]
      obtain k p dg ws where k: "1 \<le> k" "k \<le> n" "feasible (block_search_of c vram ram n wd) k"
        and p: "placement_for_blocks (block_search_of c vram ram n wd) k = Some p"
        and fits: "pl_gpu_required p \<le> vram" "ram_budget p \<le> ram"
        and r: "r = offload_result_from_placement c vram ram DISCRETE_MEMORY TRANSFORMER_BLOCKS ws dg p"
        by (auto simp: largest_feasible_def)
      obtain gw q where q: "calculate_offload_placement c (Some (bs_blocks (block_search_of c vram ram n wd)))
          (Some k) gw = Some q" and pq: "p = q\<lparr>pl_bounds := pl_bounds p\<rparr>"
        using candidate_is_placement [OF p] unfolding sc by blast
      have "pl_ram_required p \<le> ram" using ram_required_le_budget [OF wf p] fits(2) by simp
      from offload_result_accounting [OF c q pq fits(1) this r] k True n Inr Some r
      show ?thesis by (auto simp: try_gpu_offload_def offload_possible_def offload_result_from_placement_def)
    qed
  qed
next
  case False
  have c: "in_range c" using inp by (simp add: analysis_inputs_def)
  note b = try_gpu_offload_bytes_result [OF c, where vram = vram and ram = ram and T = blocks and topo = DISCRETE_MEMORY]
  show ?thesis
  proof (cases "try_gpu_offload_bytes c vram ram blocks DISCRETE_MEMORY")
    case None
    with b False show ?thesis by (simp add: try_gpu_offload_def offload_possible_def)
  next
    case (Some r)
    with b obtain gw p where p: "calculate_offload_placement c blocks None gw = Some p"
      "pl_gpu_required p \<le> vram" "pl_ram_required p \<le> ram"
      "r = offload_result_from_placement c vram ram DISCRETE_MEMORY ESTIMATED_BYTES [BYTES_WARNING] None p"
      by auto
    have "p = p\<lparr>pl_bounds := pl_bounds p\<rparr>" by simp
    from offload_result_accounting [OF c p(1) this p(2,3,4)] p Some False show ?thesis
      by (auto simp: try_gpu_offload_def offload_possible_def offload_result_from_placement_def)
  qed
qed

section \<open>A concrete machine\<close>

text \<open>A machine with one NVIDIA card; its two budgets are the arguments.\<close>

definition example_hardware :: "int \<Rightarrow> int \<Rightarrow> hardware_profile" where
  "example_hardware vram ram =
     \<lparr>os_name = ''Linux'', os_version = None, arch = ''x86_64'',
      cpu = \<lparr>cpu_model = None, physical_cores = None, logical_cores = Some 8\<rparr>,
      memory = \<lparr>mem_total_bytes = ram, mem_available_bytes = ram\<rparr>, storage = [],
      gpus = [\<lparr>gpu_name = ''GPU'', vram_total_bytes = vram, vram_available_bytes = vram,
        gpu_driver_version = None, cuda_version = None\<rparr>],
      accelerators = [], hw_warnings = []\<rparr>"

lemma example_hardware_budgets [simp]:
  "available_accelerator_memory_bytes (example_hardware v m) = Some v"
  "mem_available_bytes (memory (example_hardware v m)) = m"
  "memory_topology_of (example_hardware v m) = DISCRETE_MEMORY"
  by (simp_all add: example_hardware_def available_accelerator_memory_bytes_def memory_topology_of_def
      List.map_filter_simps)

lemma example_analysis_inputs:
  "analysis_inputs example_components (Some 28) None (Some example_decomposition)"
  "analysis_inputs example_components (Some 28) None None"
  using example_in_range
  by (auto simp: analysis_inputs_def example_components_def example_decomposition_def
      weights_are_conserved_def)

lemma example_analysis:
  "map_sum id (\<lambda>r. (hf_mode r, hf_gpu_blocks r))
     (analyze_components example_components (example_hardware 4985380864 7593828352) (Some 28) None
       (Some example_decomposition)) = Inr (GPU_OFFLOAD, Some 17)"
  "map_sum id (\<lambda>r. (hf_mode r, hf_gpu_blocks r))
     (analyze_components example_components (example_hardware 8000000000 7593828352) (Some 28) None
       (Some example_decomposition)) = Inr (GPU_RESIDENT, Some 28)"
  "map_sum id (\<lambda>r. (hf_mode r, gpu_physical_bytes r = None))
     (analyze_components example_components (example_hardware 4985380864 7593828352) (Some 28) None
       None) = Inr (GPU_OFFLOAD, False)"
  by code_simp+

lemma map_sum_Inr: "map_sum f g x = Inr y \<Longrightarrow> \<exists>z. x = Inr z \<and> g z = y"
  by (cases x) auto

section \<open>The analysis\<close>

text \<open>Bytes a fully resident placement, and a CPU placement, need.\<close>

definition resident_bytes :: "fit_components \<Rightarrow> int" where
  "resident_bytes c =
     fc_kv_cache c + fc_overhead c + fc_device_reserve c + fc_weights c + fc_safety_margin c"

definition cpu_bytes :: "fit_components \<Rightarrow> int" where
  "cpu_bytes c = fc_weights c + fc_kv_cache c + fc_overhead c + fc_safety_margin c"

text \<open>The verdict as a decision over what is possible, independent of any search.\<close>

definition discrete_mode ::
  "fit_components \<Rightarrow> int option \<Rightarrow> int \<Rightarrow> int option \<Rightarrow> weight_decomposition option \<Rightarrow> hardware_fit_mode" where
  "discrete_mode c vram ram blocks wd =
     (if \<exists>v. vram = Some v \<and> resident_bytes c \<le> v then GPU_RESIDENT
      else if \<exists>v. vram = Some v \<and> offload_possible c v ram blocks wd then GPU_OFFLOAD
      else if cpu_bytes c \<le> ram then CPU_RAM else TOO_LARGE)"

lemma analyze_discrete_result:
  assumes inp: "analysis_inputs c T L wd" and res: "resolve_block_count (fc_weights c) T L wd = Inr blocks"
    and topo: "memory_topology_of hw = DISCRETE_MEMORY"
  shows "\<exists>r. analyze_discrete c hw blocks wd = Inr r \<and> accounts_for c r \<and> charges_parts r \<and>
    within_budgets (available_accelerator_memory_bytes hw) (mem_available_bytes (memory hw)) r \<and>
    hf_mode r = discrete_mode c (available_accelerator_memory_bytes hw)
      (mem_available_bytes (memory hw)) blocks wd"
proof -
  let ?ram = "mem_available_bytes (memory hw)"
  note def = analyze_discrete_def [of c hw blocks wd, unfolded Let_def topo]
  have cpu: "hf_mode (cpu_or_too_large_result c DISCRETE_MEMORY vram ?ram blocks g ws)
      = (if cpu_bytes c \<le> ?ram then CPU_RAM else TOO_LARGE)" for vram g ws
    by (simp add: cpu_or_too_large_result_def cpu_bytes_def Let_def)
  show ?thesis
  proof (cases "available_accelerator_memory_bytes hw")
    case None
    with cpu cpu_accounting [OF refl] show ?thesis by (simp add: def discrete_mode_def)
  next
    case (Some v)
    show ?thesis
    proof (cases "resident_bytes c \<le> v")
      case True
      with Some resident_accounting [OF refl, of c v ?ram blocks] show ?thesis
        by (simp add: def discrete_mode_def resident_bytes_def gpu_resident_result_def)
    next
      case False
      note nofit = this
      note off = try_gpu_offload_result [OF inp res, of v ?ram]
      show ?thesis
      proof (cases "try_gpu_offload c v ?ram blocks DISCRETE_MEMORY wd")
        case (Inl e)
        with off show ?thesis by simp
      next
        case (Inr o')
        then show ?thesis
          using off Some nofit cpu cpu_accounting [OF refl]
          by (cases o') (simp_all add: def discrete_mode_def resident_bytes_def)
      qed
    qed
  qed
qed

lemma analyze_components_result:
  assumes "analysis_inputs c T L wd" and res: "resolve_block_count (fc_weights c) T L wd = Inr blocks"
  shows "\<exists>r. analyze_components c hw T L wd = Inr r \<and> accounts_for c r \<and> charges_parts r \<and>
    within_budgets (available_accelerator_memory_bytes hw) (mem_available_bytes (memory hw)) r \<and>
    (memory_topology_of hw = DISCRETE_MEMORY \<longrightarrow>
       hf_mode r = discrete_mode c (available_accelerator_memory_bytes hw)
         (mem_available_bytes (memory hw)) blocks wd)"
proof (cases "memory_topology_of hw")
  case DISCRETE_MEMORY
  with analyze_discrete_result [OF assms] res show ?thesis by (simp add: analyze_components_def)
next
  case UNIFIED_MEMORY
  then have "available_accelerator_memory_bytes hw = None"
    by (simp add: memory_topology_of_def split: if_splits)
  with UNIFIED_MEMORY res unified_accounting [OF refl] show ?thesis
    by (simp add: analyze_components_def)
qed

text \<open>
  C4. The analysis either raises because its arguments contradict each other, or returns a
  placement that accounts for every byte of every component, charges each pool exactly its parts
  and respects the budgets of its mode: VRAM for a resident placement, VRAM and RAM separately
  for an offload, RAM for a CPU placement, and a RAM need above the available RAM for a model
  that is declared too large.
\<close>

theorem analyze_components_sound:
  assumes "analysis_inputs c T L wd"
  shows "case analyze_components c hw T L wd of
      Inl e \<Rightarrow> resolve_block_count (fc_weights c) T L wd = Inl e
    | Inr r \<Rightarrow> accounts_for c r \<and> charges_parts r \<and>
        within_budgets (available_accelerator_memory_bytes hw) (mem_available_bytes (memory hw)) r"
proof (cases "resolve_block_count (fc_weights c) T L wd")
  case (Inl e)
  then show ?thesis by (simp add: analyze_components_def)
next
  case (Inr blocks)
  from analyze_components_result [OF assms this, of hw] show ?thesis by auto
qed

theorem analyze_components_sound_witness:
  "\<exists>r. analyze_components example_components (example_hardware 4985380864 7593828352) (Some 28) None
     (Some example_decomposition) = Inr r \<and> hf_mode r = GPU_OFFLOAD \<and>
     accounts_for example_components r \<and> within_budgets (Some 4985380864) 7593828352 r"
  using map_sum_Inr [OF example_analysis(1)]
    analyze_components_sound [OF example_analysis_inputs(1), of "example_hardware 4985380864 7593828352"]
  by auto

text \<open>
  C5. On hardware with separate pools the mode is the best one that is possible: resident if the
  whole requirement fits VRAM, else offload if any block count (or any byte split) fits both
  budgets, else CPU if RAM holds the model, else too large.  No search heuristic changes it.
\<close>

theorem analyze_components_decides:
  assumes "analysis_inputs c T L wd" and "memory_topology_of hw = DISCRETE_MEMORY"
    and "resolve_block_count (fc_weights c) T L wd = Inr blocks"
  shows "\<exists>r. analyze_components c hw T L wd = Inr r \<and>
    hf_mode r = discrete_mode c (available_accelerator_memory_bytes hw)
      (mem_available_bytes (memory hw)) blocks wd"
  using analyze_components_result [OF assms(1,3), of hw] assms(2) by auto

theorem analyze_components_decides_witness:
  "discrete_mode example_components (Some 4985380864) 7593828352 (Some 28) (Some example_decomposition)
     = GPU_OFFLOAD"
proof -
  have "resolve_block_count (fc_weights example_components) (Some 28) None (Some example_decomposition)
      = Inr (Some 28)"
    by code_simp
  from analyze_components_decides [OF example_analysis_inputs(1) _ this,
      of "example_hardware 4985380864 7593828352"] map_sum_Inr [OF example_analysis(1)]
  show ?thesis by auto
qed

subsection \<open>More memory\<close>

lemma offload_possible_mono:
  assumes "offload_possible c v ram blocks wd" "v \<le> v'" "ram \<le> ram'"
  shows "offload_possible c v' ram' blocks wd"
proof (cases "valid_transformer_block_count blocks")
  case True
  let ?s = "block_search_of c v ram (the blocks) wd" and ?s' = "block_search_of c v' ram' (the blocks) wd"
  have "placement_for_blocks ?s n = placement_for_blocks ?s' n" for n
    by (simp add: placement_for_blocks_def gpu_weight_for_blocks_def gpu_block_bytes_def
        block_search_of_def cong: option.case_cong)
  moreover have "fits_budgets ?s p \<Longrightarrow> fits_budgets ?s' p" for p
    using assms by (simp add: fits_budgets_def block_search_of_def)
  ultimately have "feasible ?s n \<Longrightarrow> feasible ?s' n" for n
    by (auto simp: feasible_def split: option.splits)
  with True assms(1) show ?thesis by (auto simp: offload_possible_def)
next
  case False
  with assms show ?thesis by (force simp: offload_possible_def)
qed

text \<open>At least as much VRAM (if any) and RAM.\<close>

definition budgets_le :: "hardware_profile \<Rightarrow> hardware_profile \<Rightarrow> bool" where
  "budgets_le hw hw' \<longleftrightarrow>
     (\<forall>v. available_accelerator_memory_bytes hw = Some v \<longrightarrow>
        (\<exists>v'. available_accelerator_memory_bytes hw' = Some v' \<and> v \<le> v')) \<and>
     mem_available_bytes (memory hw) \<le> mem_available_bytes (memory hw')"

lemma discrete_mode_mono:
  assumes "budgets_le hw hw'"
  shows "discrete_mode c (available_accelerator_memory_bytes hw) (mem_available_bytes (memory hw)) blocks wd
    \<le> discrete_mode c (available_accelerator_memory_bytes hw') (mem_available_bytes (memory hw')) blocks wd"
  using assms offload_possible_mono
  by (fastforce simp: budgets_le_def discrete_mode_def mode_order)

text \<open>
  C6. More memory never makes the verdict worse: on hardware with separate pools, raising the
  VRAM budget, the RAM budget or both never moves the mode down the order resident, offload,
  CPU, too large.  Adding a GPU to a machine without one does not either.
\<close>

theorem more_memory_never_worse:
  assumes "analysis_inputs c T L wd" and "budgets_le hw hw'"
    and "memory_topology_of hw = DISCRETE_MEMORY" and "memory_topology_of hw' = DISCRETE_MEMORY"
    and "analyze_components c hw T L wd = Inr r" and "analyze_components c hw' T L wd = Inr r'"
  shows "hf_mode r \<le> hf_mode r'"
proof (cases "resolve_block_count (fc_weights c) T L wd")
  case (Inl e)
  with assms(5) show ?thesis by (simp add: analyze_components_def)
next
  case (Inr blocks)
  from analyze_components_result [OF assms(1) this, of hw]
    analyze_components_result [OF assms(1) this, of hw'] assms(3-6) discrete_mode_mono [OF assms(2)]
  show ?thesis by auto
qed

theorem more_memory_never_worse_witness:
  "\<exists>r r'. analyze_components example_components (example_hardware 4985380864 7593828352) (Some 28) None
      (Some example_decomposition) = Inr r \<and>
    analyze_components example_components (example_hardware 8000000000 7593828352) (Some 28) None
      (Some example_decomposition) = Inr r' \<and> hf_mode r \<le> hf_mode r' \<and> hf_mode r \<noteq> hf_mode r'"
proof -
  have "budgets_le (example_hardware 4985380864 7593828352) (example_hardware 8000000000 7593828352)"
    by (simp add: budgets_le_def)
  note mono = more_memory_never_worse [OF example_analysis_inputs(1) this example_hardware_budgets(3)
      example_hardware_budgets(3)]
  obtain r r' where r: "analyze_components example_components (example_hardware 4985380864 7593828352)
        (Some 28) None (Some example_decomposition) = Inr r" "hf_mode r = GPU_OFFLOAD"
      "analyze_components example_components (example_hardware 8000000000 7593828352)
        (Some 28) None (Some example_decomposition) = Inr r'" "hf_mode r' = GPU_RESIDENT"
    using map_sum_Inr [OF example_analysis(1)] map_sum_Inr [OF example_analysis(2)] by auto
  have "hf_mode r \<noteq> hf_mode r'" by (simp add: r)
  with mono [OF r(1,3)] r(1,3) show ?thesis by blast
qed

section \<open>Physical bytes\<close>

lemma charged_physical_bytes:
  assumes "accounts_for c r" "charges_parts r" "\<not> unknown_split r"
  shows "\<exists>m. ram_physical_bytes r = Some m \<and>
    opt_default (gpu_physical_bytes r) 0 + m = fc_weights c + fc_kv_cache c + fc_overhead c"
  using assms
  by (auto simp: accounts_for_def charges_parts_def gpu_physical_bytes_def ram_physical_bytes_def
      Let_def)

text \<open>
  The physical bytes that a measurement is compared with are exactly the allocations: unless
  the split of the non-block weights is unknown, the GPU figure (nothing for a placement without
  GPU) and the RAM figure add up to weights, KV cache and runtime overhead, without the device
  reserve and the safety margin, whatever the topology and the mode.
\<close>

theorem physical_bytes_are_allocations:
  assumes "analysis_inputs c T L wd" and "analyze_components c hw T L wd = Inr r"
    and "\<not> unknown_split r"
  shows "\<exists>m. ram_physical_bytes r = Some m \<and>
    opt_default (gpu_physical_bytes r) 0 + m = fc_weights c + fc_kv_cache c + fc_overhead c"
proof (cases "resolve_block_count (fc_weights c) T L wd")
  case (Inl e)
  with assms(2) show ?thesis by (simp add: analyze_components_def)
next
  case (Inr blocks)
  from analyze_components_result [OF assms(1) this, of hw] assms(2,3) charged_physical_bytes
  show ?thesis by auto
qed

theorem physical_bytes_are_allocations_witness:
  "\<exists>r. analyze_components example_components (example_hardware 4985380864 7593828352) (Some 28) None
     None = Inr r \<and> opt_default (gpu_physical_bytes r) 0 + the (ram_physical_bytes r) = 5923133600"
proof -
  obtain r where r: "analyze_components example_components (example_hardware 4985380864 7593828352)
      (Some 28) None None = Inr r" "gpu_physical_bytes r \<noteq> None"
    using map_sum_Inr [OF example_analysis(3)] by auto
  then have "\<not> unknown_split r" by (auto simp: gpu_physical_bytes_def)
  from physical_bytes_are_allocations [OF example_analysis_inputs(2) r(1) this] r(1) show ?thesis
    by (auto simp: example_components_def)
qed

end
