(* ===== verification/Kv_Cache_Props.thy ===== *)
theory Kv_Cache_Props
  imports Kv_Cache
begin

text \<open>
  What the KV-cache and overhead estimates promise: the sliding-window decision table, the cases
  in which no cache size is given and the closed form in all others, growth with context, batch
  and sessions, and the bounds of the overhead.
\<close>

section \<open>The sliding window\<close>

text \<open>When the code lets a declared window bound the cache.\<close>

definition window_active :: "model_config \<Rightarrow> bool" where
  "window_active c \<longleftrightarrow>
     \<not> int_falsy (sliding_window c) \<and>
     (use_sliding_window c = Some True \<or>
      use_sliding_window c = None \<and>
        lower (opt_default (model_type c) '''') \<in> set WINDOW_ALWAYS_ACTIVE_MODEL_TYPES)"

lemma effective_context:
  "fst (apply_sliding_window c ctx) =
     (if window_active c then min ctx (the (sliding_window c)) else ctx)"
proof (cases "int_falsy (sliding_window c) \<or> ctx \<le> the (sliding_window c)")
  case True
  then show ?thesis by (auto simp: apply_sliding_window_def window_active_def)
next
  case False
  then show ?thesis
    by (cases "use_sliding_window c") (simp_all add: apply_sliding_window_def window_active_def Let_def)
qed

text \<open>
  A declared window caps the context exactly when the configuration activates it, or leaves
  the question open for an architecture that always windows; in every other case the full context
  is sized.  A note is attached exactly when the window is smaller than the context, and the
  result counts as assumed exactly when the configuration did not say.
\<close>

theorem sliding_window_decision:
  "case apply_sliding_window c ctx of (effective, remark, assumed) \<Rightarrow>
     effective = (if window_active c then min ctx (the (sliding_window c)) else ctx) \<and>
     (remark = None \<longleftrightarrow> int_falsy (sliding_window c) \<or> ctx \<le> the (sliding_window c)) \<and>
     (assumed \<longleftrightarrow> remark \<noteq> None \<and> use_sliding_window c = None)"
proof (cases "int_falsy (sliding_window c) \<or> ctx \<le> the (sliding_window c)")
  case True
  then show ?thesis by (auto simp: apply_sliding_window_def window_active_def)
next
  case False
  then show ?thesis
    by (cases "use_sliding_window c") (simp_all add: apply_sliding_window_def window_active_def Let_def)
qed

section \<open>The closed form\<close>

definition kv_bytes_of :: "param_error + kv_cache_estimate \<Rightarrow> int option" where
  "kv_bytes_of r = (case r of Inl e \<Rightarrow> None | Inr k \<Rightarrow> mc_bytes (kv_component k))"

text \<open>A configuration that names the three dimensions of a standard attention block.\<close>

definition standard_attention :: "model_config \<Rightarrow> bool" where
  "standard_attention c \<longleftrightarrow>
     detect_exotic_architecture c = None \<and> num_hidden_layers c \<noteq> None \<and>
     num_attention_heads c \<noteq> None \<and> hidden_size c \<noteq> None"

definition kv_head_dimension :: "model_config \<Rightarrow> int" where
  "kv_head_dimension c =
     (if int_falsy (head_dim c) then the (hidden_size c) div the (num_attention_heads c)
      else the (head_dim c))"

text \<open>Key and value elements per token: two per layer, KV head and head dimension.\<close>

definition kv_elements_per_token :: "model_config \<Rightarrow> int" where
  "kv_elements_per_token c =
     2 * the (num_hidden_layers c) * int_or (num_key_value_heads c) (the (num_attention_heads c))
       * kv_head_dimension c"

definition head_dimension_defined :: "model_config \<Rightarrow> bool" where
  "head_dimension_defined c \<longleftrightarrow> \<not> (int_falsy (head_dim c) \<and> num_attention_heads c = Some 0)"

lemma kv_cache_standard:
  assumes "standard_attention c" "head_dimension_defined c"
  shows "kv_bytes_of (estimate_kv_cache (Some c) ctx b dt u) =
    Some (kv_elements_per_token c * fst (apply_sliding_window c ctx) * b * u
      * float_trunc (bytes_per_parameter dt))"
  using assms
  by (auto simp: standard_attention_def head_dimension_defined_def estimate_kv_cache_def kv_bytes_of_def
      kv_elements_per_token_def kv_head_dimension_def Let_def split: prod.split)

lemma kv_cache_nonstandard:
  assumes "\<not> (\<exists>c. mc = Some c \<and> standard_attention c)"
  shows "\<exists>k. estimate_kv_cache mc ctx b dt u = Inr k \<and> mc_bytes (kv_component k) = None \<and>
    mc_confidence (kv_component k) = CONF_UNKNOWN \<and> kv_context_length k = ctx"
  using assms
  by (auto simp: standard_attention_def estimate_kv_cache_def kv_unknown_def Let_def
      split: option.splits)

lemma kv_cache_no_heads:
  assumes "standard_attention c" "\<not> head_dimension_defined c"
  shows "estimate_kv_cache (Some c) ctx b dt u = Inl ZeroDivisionError"
  using assms
  by (auto simp: standard_attention_def head_dimension_defined_def estimate_kv_cache_def Let_def)

lemma kv_bytes_standard:
  assumes "kv_bytes_of (estimate_kv_cache (Some c) ctx b dt u) = Some n"
  shows "standard_attention c" and "head_dimension_defined c"
proof -
  show std: "standard_attention c"
  proof (rule ccontr)
    assume "\<not> standard_attention c"
    with kv_cache_nonstandard [of "Some c" ctx b dt u] assms show False
      by (auto simp: kv_bytes_of_def)
  qed
  show "head_dimension_defined c"
  proof (rule ccontr)
    assume "\<not> head_dimension_defined c"
    with kv_cache_no_heads [OF std this, of ctx b dt u] assms show False by (simp add: kv_bytes_of_def)
  qed
qed


section \<open>Growth\<close>

definition nonneg_attention :: "model_config \<Rightarrow> bool" where
  "nonneg_attention c \<longleftrightarrow>
     (\<forall>x \<in> {num_hidden_layers c, num_attention_heads c, num_key_value_heads c, hidden_size c,
            head_dim c, sliding_window c}. \<forall>n. x = Some n \<longrightarrow> 0 \<le> n)"

lemma kv_elements_nonneg:
  assumes "nonneg_attention c" "standard_attention c"
  shows "0 \<le> kv_elements_per_token c"
proof -
  from assms obtain l h d where
    "num_hidden_layers c = Some l" "num_attention_heads c = Some h" "hidden_size c = Some d"
    by (auto simp: standard_attention_def)
  moreover from this assms have "0 \<le> l" "0 \<le> h" "0 \<le> d" by (simp_all add: nonneg_attention_def)
  moreover from this assms have "0 \<le> int_or (num_key_value_heads c) h"
    by (auto simp: nonneg_attention_def int_or_def split: option.split)
  moreover have "0 \<le> kv_head_dimension c"
    using calculation assms
    by (cases "head_dim c")
      (auto simp: kv_head_dimension_def nonneg_attention_def int_falsy_def div_int_pos_iff)
  ultimately show ?thesis by (simp add: kv_elements_per_token_def)
qed

lemma effective_context_mono:
  assumes "nonneg_attention c" "0 \<le> ctx" "ctx \<le> ctx'"
  shows "0 \<le> fst (apply_sliding_window c ctx)"
    and "fst (apply_sliding_window c ctx) \<le> fst (apply_sliding_window c ctx')"
  using assms
  by (auto simp: effective_context nonneg_attention_def window_active_def int_falsy_def split: option.splits)

lemma dtype_bytes_nonneg: "0 \<le> float_trunc (bytes_per_parameter dt)"
  by (cases dt) (simp_all add: float_trunc_def)

text \<open>
  The cache never shrinks when the workload grows: a longer context, a larger batch or more
  concurrent sessions never give a smaller estimate, sliding window or not, and no estimate is
  negative.
\<close>

theorem kv_cache_monotone:
  assumes "nonneg_attention c"
    and "0 \<le> ctx" "ctx \<le> ctx'" and "0 \<le> b" "b \<le> b'" and "0 \<le> u" "u \<le> u'"
    and "kv_bytes_of (estimate_kv_cache (Some c) ctx b dt u) = Some n"
    and "kv_bytes_of (estimate_kv_cache (Some c) ctx' b' dt u') = Some n'"
  shows "0 \<le> n \<and> n \<le> n'"
proof -
  have std: "standard_attention c" "head_dimension_defined c"
    using assms(8) by (rule kv_bytes_standard)+
  note e = kv_elements_nonneg [OF assms(1) std(1)] and x = effective_context_mono [OF assms(1-3)]
  have n: "n = kv_elements_per_token c * fst (apply_sliding_window c ctx) * b * u
      * float_trunc (bytes_per_parameter dt)"
    and n': "n' = kv_elements_per_token c * fst (apply_sliding_window c ctx') * b' * u'
      * float_trunc (bytes_per_parameter dt)"
    using assms(8,9) kv_cache_standard [OF std] by simp_all
  show ?thesis
    unfolding n n' using e x assms(4-7) dtype_bytes_nonneg [of dt]
    by (intro conjI mult_mono mult_nonneg_nonneg) auto
qed

theorem kv_cache_monotone_witness:
  "kv_bytes_of (estimate_kv_cache (Some example_config) 4096 1 FLOAT16 1) = Some 234881024 \<and>
   kv_bytes_of (estimate_kv_cache (Some example_config) 8192 1 FLOAT16 2) = Some 939524096 \<and>
   (0 :: int) \<le> 234881024 \<and> (234881024 :: int) \<le> 939524096"
proof -
  have b: "kv_bytes_of (estimate_kv_cache (Some example_config) 4096 1 FLOAT16 1) = Some 234881024"
    "kv_bytes_of (estimate_kv_cache (Some example_config) 8192 1 FLOAT16 2) = Some 939524096"
    by code_simp+
  have "nonneg_attention example_config" by (simp add: nonneg_attention_def example_config_def)
  from kv_cache_monotone [OF this _ _ _ _ _ _ b] b show ?thesis by simp
qed

text \<open>
  With four-bit cache elements the byte width is truncated to zero, so the estimate is zero
  bytes, reported as known, for every standard model, context, batch and number of sessions.
\<close>

theorem kv_int4_is_zero:
  assumes "standard_attention c" and "head_dimension_defined c"
  shows "kv_bytes_of (estimate_kv_cache (Some c) ctx b INT4 u) = Some 0"
proof -
  have "float_trunc (bytes_per_parameter INT4) = 0" by code_simp
  then show ?thesis by (simp add: kv_cache_standard [OF assms])
qed

theorem kv_int4_is_zero_witness:
  "kv_bytes_of (estimate_kv_cache (Some example_config) 32768 1 INT4 1) = Some 0"
  by (rule kv_int4_is_zero)
    (simp_all add: standard_attention_def head_dimension_defined_def example_config_def
      detect_exotic_architecture_def dict_has_def dict_get_def)

section \<open>The overhead\<close>

lemma float_floor_eq: "float_floor x = \<lfloor>float_value x\<rfloor>"
proof (cases x)
  case (PyFloat m e)
  have "real_of_int m * 2 powr real_of_int e
      = real_of_int (m * 2 ^ nat e) / real_of_int (2 ^ nat (- e))"
    unfolding two_powr_split by simp
  moreover have "e < 0 \<Longrightarrow> \<lfloor>real_of_int m / real_of_int (2 ^ nat (- e))\<rfloor> = m div 2 ^ nat (- e)"
    by (simp only: floor_divide_of_int_eq)
  ultimately show ?thesis
    by (cases "0 \<le> e") (simp_all add: PyFloat del: of_int_mult of_int_power)
qed

lemma float_trunc_eq: "0 \<le> float_value x \<Longrightarrow> float_trunc x = \<lfloor>float_value x\<rfloor>"
  by (auto simp: float_trunc_def float_floor_eq float_ceil_eq float_value_def zero_le_mult_iff)

text \<open>The overhead that grows with the weights: a tenth of them, in floats.\<close>

definition overhead_share :: "int \<Rightarrow> int" where
  "overhead_share w = float_trunc (float_mult OVERHEAD_WEIGHT_FRACTION (float_of_int w))"

lemma overhead_share_eq:
  assumes "0 \<le> w"
  shows "overhead_share w = \<lfloor>rnd (rnd (real_of_int w) * rnd (1 / 10))\<rfloor>"
proof -
  have v: "float_value (float_mult OVERHEAD_WEIGHT_FRACTION (float_of_int w))
      = rnd (rnd (real_of_int w) * rnd (1 / 10))"
    by (simp add: value_float_mult value_float_of_int OVERHEAD_WEIGHT_FRACTION_def value_round_ratio
        mult.commute)
  have "0 \<le> rnd (rnd (real_of_int w) * rnd (1 / 10))"
    using assms by (intro binary64.rd_nonneg mult_nonneg_nonneg) auto
  then show ?thesis by (simp add: overhead_share_def float_trunc_eq v)
qed

lemma overhead_share_mono: "0 \<le> w \<Longrightarrow> w \<le> w' \<Longrightarrow> overhead_share w \<le> overhead_share w'"
  by (simp add: overhead_share_eq)
    (intro floor_mono rnd_mono mult_right_mono binary64.rd_nonneg; simp)

lemma overhead_share_tenth:
  assumes "0 \<le> w" "w \<le> 2 ^ 50"
  shows "0 \<le> overhead_share w" "10 * overhead_share w \<le> w + 10" "w \<le> 10 * overhead_share w + 20"
proof -
  let ?r = "rnd (rnd (real_of_int w) * rnd (1 / 10))"
  have "real_of_int w \<le> real_of_int (2 ^ 50)" using assms(2) by (simp only: of_int_le_iff)
  then have w: "real_of_int w \<le> 2 ^ 50" by simp
  have "\<bar>?r - real_of_int w * (1 / 10)\<bar> * 2 ^ 53 \<le> 3 * (real_of_int w * (1 / 10))"
    using assms by (intro binary64.product_error) simp_all
  also have "\<dots> \<le> 1 * 2 ^ 53" using w by simp
  finally have e: "\<bar>?r - real_of_int w / 10\<bar> \<le> 1" by simp
  have s: "overhead_share w = \<lfloor>?r\<rfloor>" using assms by (simp add: overhead_share_eq)
  show "0 \<le> overhead_share w"
    using overhead_share_mono [of 0 w] assms by (simp add: overhead_share_eq)
  show "10 * overhead_share w \<le> w + 10" "w \<le> 10 * overhead_share w + 20"
    using e unfolding s by linarith+
qed

lemma estimate_overhead_bytes:
  "mc_bytes (ro_component (estimate_overhead (Some w) base OVERHEAD_WEIGHT_FRACTION))
     = Some (max OVERHEAD_MIN_BYTES (base + overhead_share w))"
  "mc_bytes (ro_component (estimate_overhead (Some w) base GGUF_OVERHEAD_WEIGHT_FRACTION))
     = Some (max OVERHEAD_MIN_BYTES base)"
  "mc_bytes (ro_component (estimate_overhead None base fraction)) = Some (max OVERHEAD_MIN_BYTES base)"
proof -
  obtain m e where "float_of_int w = PyFloat m e" by (cases "float_of_int w")
  then have "float_trunc (float_mult GGUF_OVERHEAD_WEIGHT_FRACTION (float_of_int w)) = 0"
    by (simp add: GGUF_OVERHEAD_WEIGHT_FRACTION_def round_ratio_def float_trunc_def)
  then show "mc_bytes (ro_component (estimate_overhead (Some w) base GGUF_OVERHEAD_WEIGHT_FRACTION))
     = Some (max OVERHEAD_MIN_BYTES base)"
    by (simp add: estimate_overhead_def Let_def)
qed (simp_all add: estimate_overhead_def overhead_share_def Let_def)

text \<open>
  The runtime overhead never falls below its minimum or its base, grows with the weights, and
  is within a couple of bytes of the base plus a tenth of the weights that its explanation
  states, although the tenth is a float product truncated to an integer.
\<close>

theorem overhead_tracks_weights:
  assumes "0 \<le> w" and "w \<le> w'" and "w' \<le> 2 ^ 50"
  shows "\<exists>n n'. mc_bytes (ro_component (estimate_overhead (Some w) base OVERHEAD_WEIGHT_FRACTION)) = Some n \<and>
    mc_bytes (ro_component (estimate_overhead (Some w') base OVERHEAD_WEIGHT_FRACTION)) = Some n' \<and>
    n \<le> n' \<and> OVERHEAD_MIN_BYTES \<le> n \<and> base \<le> n \<and> 10 * base + w \<le> 10 * n + 20 \<and>
    (n = OVERHEAD_MIN_BYTES \<or> 10 * n \<le> 10 * base + w + 10)"
  using overhead_share_mono [OF assms(1,2)] overhead_share_tenth [OF assms(1)] assms
  by (auto simp: estimate_overhead_bytes max_def)

theorem overhead_tracks_weights_witness:
  "\<exists>n. mc_bytes (ro_component (estimate_overhead (Some 4683074240) OVERHEAD_BASE_BYTES
       OVERHEAD_WEIGHT_FRACTION)) = Some n \<and> 10 * OVERHEAD_BASE_BYTES + 4683074240 \<le> 10 * n + 20"
  using overhead_tracks_weights [of 4683074240 4683074240 OVERHEAD_BASE_BYTES] by auto

end
