(* ===== verification/Weights.thy ===== *)
theory Weights
  imports Kv_Cache
begin

text \<open>
  The weight estimate (\<^verbatim>\<open>estimator/weights.py\<close>): from the size of a GGUF variant, from the
  safetensors parameter count, or from the sizes of the weight files, and the split of the bytes
  into transformer blocks and the rest.  The lemmas show that the float arithmetic is exact in
  the range of real models and that the split always satisfies the validator of its record.
\<close>

section \<open>Names and formats\<close>

text \<open>
  \<^verbatim>\<open>PurePosixPath(path)\<close>: its parts that are neither empty nor a dot, and \<^verbatim>\<open>.name\<close>, the last of
  them.
\<close>

text \<open>\<^verbatim>\<open>s.split(sep)\<close> for a one-character separator.\<close>

fun split_on :: "char \<Rightarrow> string \<Rightarrow> string list" where
  "split_on sep [] = [[]]"
| "split_on sep (c # cs) =
     (if c = sep then [] # split_on sep cs
      else (case split_on sep cs of [] \<Rightarrow> [[c]] | w # ws \<Rightarrow> (c # w) # ws))"

definition path_parts :: "string \<Rightarrow> string list" where
  "path_parts p = filter (\<lambda>s. s \<noteq> [] \<and> s \<noteq> ''.'') (split_on (CHR ''/'') p)"

definition path_name :: "string \<Rightarrow> string" where
  "path_name p = (case rev (path_parts p) of [] \<Rightarrow> [] | n # _ \<Rightarrow> n)"

fun format_in_units :: "py_float \<Rightarrow> string list \<Rightarrow> string" where
  "format_in_units amount [] = show_fixed 1 amount @ '' PiB''"
| "format_in_units amount (u # us) =
     (if float_less amount (float_of_int 1024) then show_fixed 1 amount @ '' '' @ u
      else format_in_units (float_divide amount (float_of_int 1024)) us)"

definition format_bytes :: "int \<Rightarrow> string" where
  "format_bytes n = format_in_units (float_of_int n) [''B'', ''KiB'', ''MiB'', ''GiB'', ''TiB'']"

section \<open>Precisions\<close>

definition safetensors_dtype_to_precision :: "string \<Rightarrow> weight_precision option" where
  "safetensors_dtype_to_precision =
     map_of [(''F32'', FLOAT32), (''F16'', FLOAT16), (''BF16'', BFLOAT16), (''I8'', INT8), (''U8'', INT8)]"

definition torch_dtype_to_precision :: "string option \<Rightarrow> weight_precision option" where
  "torch_dtype_to_precision name =
     (case name of None \<Rightarrow> None
      | Some n \<Rightarrow>
        map_of [(''float32'', FLOAT32), (''fp32'', FLOAT32), (''float16'', FLOAT16), (''fp16'', FLOAT16),
          (''half'', FLOAT16), (''bfloat16'', BFLOAT16), (''bf16'', BFLOAT16), (''int8'', INT8),
          (''int4'', INT4)] (lower n))"

definition dominant_precision :: "safetensors_summary \<Rightarrow> weight_precision option" where
  "dominant_precision s =
     (case parameters_by_dtype s of [] \<Rightarrow> None
      | x # xs \<Rightarrow> safetensors_dtype_to_precision (fst (max_by snd x xs)))"

definition config_precision :: "model_config option \<Rightarrow> weight_precision option" where
  "config_precision mc = (case mc of None \<Rightarrow> None | Some c \<Rightarrow> torch_dtype_to_precision (torch_dtype c))"

section \<open>Estimates\<close>

definition estimate_weights_from_gguf :: "gguf_variant \<Rightarrow> weight_estimate" where
  "estimate_weights_from_gguf v =
     \<lparr>we_component = \<lparr>mc_name = ''Weights'', mc_bytes = var_total_bytes v,
        mc_source = (if var_total_bytes v \<noteq> None then SRC_EXACT else SRC_UNKNOWN),
        mc_confidence = (if var_total_bytes v \<noteq> None then CONF_HIGH else CONF_UNKNOWN),
        mc_explanation =
          (if var_total_bytes v \<noteq> None
           then ''Exact remote file size of the '' @ var_quantization v @ '' variant.''
           else ''File size is not known for the '' @ var_quantization v @ '' variant.'')\<rparr>,
      we_num_parameters = None, we_bits_per_parameter = None, we_precision = None,
      we_gguf_variant = Some (var_quantization v), we_decomposition = None\<rparr>"

definition estimate_weights_from_safetensors ::
  "safetensors_summary \<Rightarrow> weight_precision option \<Rightarrow> model_config option \<Rightarrow> weight_estimate" where
  "estimate_weights_from_safetensors s requested mc =
     (let precision = opt_default (opt_or (opt_or requested (dominant_precision s)) (config_precision mc)) FLOAT16;
          bpp = bytes_per_parameter precision;
          weight_bytes = float_ceil (float_mult (float_of_int (total_parameters s)) bpp);
          explanation = show_grouped (total_parameters s) @ '' parameters x '' @ show_general bpp @
            '' bytes ('' @ precision_value precision @ '') from safetensors metadata.'' @
            (if requested \<noteq> None \<and> requested \<noteq> dominant_precision s
             then '' Requested precision differs from the stored precision.'' else '''')
      in \<lparr>we_component = \<lparr>mc_name = ''Weights'', mc_bytes = Some weight_bytes, mc_source = SRC_METADATA,
            mc_confidence = CONF_HIGH, mc_explanation = explanation\<rparr>,
          we_num_parameters = Some (total_parameters s),
          we_bits_per_parameter = Some (float_mult bpp (float_of_int 8)),
          we_precision = Some precision, we_gguf_variant = None, we_decomposition = None\<rparr>)"

definition unknown_weights :: "string \<Rightarrow> weight_estimate" where
  "unknown_weights reason =
     \<lparr>we_component = \<lparr>mc_name = ''Weights'', mc_bytes = None, mc_source = SRC_UNKNOWN,
        mc_confidence = CONF_UNKNOWN, mc_explanation = reason\<rparr>,
      we_num_parameters = None, we_bits_per_parameter = None, we_precision = None,
      we_gguf_variant = None, we_decomposition = None\<rparr>"

definition is_weight_file :: "model_file \<Rightarrow> bool" where
  "is_weight_file f =
     (let name = lower (path_name (file_path f)) in
      \<not> int_falsy (file_size_bytes f) \<and>
      (endswith name ''.safetensors'' \<or> endswith name ''.bin'' \<and> contains name ''pytorch_model''))"

definition weight_file_bytes :: "model_analysis \<Rightarrow> int" where
  "weight_file_bytes a = sum_list (map (\<lambda>f. the (file_size_bytes f)) (filter is_weight_file (an_files a)))"

definition estimate_weights_from_files ::
  "model_analysis \<Rightarrow> weight_precision option \<Rightarrow> model_config option \<Rightarrow> weight_estimate" where
  "estimate_weights_from_files a requested mc =
     (let files_total = weight_file_bytes a in
      if files_total = 0
      then unknown_weights ''No weight files (safetensors or bin) found in the repository.''
      else
        let stored = opt_default (config_precision mc) FLOAT16;
            effective = opt_default requested stored;
            ratio = float_divide (bytes_per_parameter effective) (bytes_per_parameter stored);
            bytes_estimate =
              (if effective = stored then files_total
               else float_ceil (float_mult (float_of_int files_total) ratio));
            explanation =
              (if effective = stored then
                 ''Sum of weight file sizes ('' @ format_bytes files_total @ '') using stored '' @
                 ''precision '' @ precision_value stored @ ''.''
               else
                 ''Weight files total '' @ format_bytes files_total @ '' at '' @ precision_value stored @ ''; '' @
                 ''scaled to '' @ precision_value effective @ '' (ratio '' @ show_fixed 3 ratio @ '').'')
        in \<lparr>we_component = \<lparr>mc_name = ''Weights'', mc_bytes = Some bytes_estimate, mc_source = SRC_DERIVED,
              mc_confidence = CONF_MEDIUM, mc_explanation = explanation\<rparr>,
            we_num_parameters = None,
            we_bits_per_parameter = Some (float_mult (bytes_per_parameter effective) (float_of_int 8)),
            we_precision = Some effective, we_gguf_variant = None, we_decomposition = None\<rparr>)"

section \<open>The block split\<close>

text \<open>The byte projection for given total, block count and parameter split.\<close>

definition project_decomposition ::
  "int \<Rightarrow> int \<Rightarrow> config_parameter_decomposition option \<Rightarrow> weight_decomposition" where
  "project_decomposition tot blocks pd =
     (let (block, non_block, embedding, head, method) =
        (case pd of
           None \<Rightarrow> (tot, 0, None, None, UNIFORM_WEIGHT_FALLBACK)
         | Some d \<Rightarrow>
           let block = tot * cpd_transformer_block_parameters d div cpd_total_parameters d;
               non_block = tot - block;
               embedding =
                 (if 0 < cpd_non_block_parameters d
                  then non_block * cpd_embedding_parameters d div cpd_non_block_parameters d else 0)
           in (block, non_block, Some embedding,
               Some (if 0 < cpd_non_block_parameters d then non_block - embedding else 0),
               CONFIG_PARAMETER_DECOMPOSITION))
      in \<lparr>wd_total = tot, wd_block = block, wd_non_block = non_block, wd_embedding = embedding,
          wd_output_head = head, wd_bytes_per_block = (block + blocks - 1) div blocks,
          wd_blocks = blocks, wd_method = method\<rparr>)"

text \<open>
  \<^verbatim>\<open>InvalidDecomposition\<close> is the \<^verbatim>\<open>ValidationError\<close> the record's validator raises.
\<close>

datatype weight_error = ParamError param_error | InvalidDecomposition

definition add_transformer_block_decomposition ::
  "weight_estimate \<Rightarrow> model_config option \<Rightarrow> weight_error + weight_estimate" where
  "add_transformer_block_decomposition e mc =
     (case (mc_bytes (we_component e), mc) of
        (Some tot, Some c) \<Rightarrow>
          (case num_hidden_layers c of
             None \<Rightarrow> Inr e
           | Some blocks \<Rightarrow>
             if tot < 0 \<or> blocks \<le> 0 then Inr e
             else
               (case estimate_config_parameter_decomposition mc of
                  Inl x \<Rightarrow> Inl (ParamError x)
                | Inr pd \<Rightarrow>
                  let d = project_decomposition tot blocks pd in
                  if weights_are_conserved d then Inr (e\<lparr>we_decomposition := Some d\<rparr>)
                  else Inl InvalidDecomposition))
      | _ \<Rightarrow> Inr e)"

section \<open>The split is exact\<close>

lemma ceil_div_bounds:
  fixes b n :: int
  assumes "0 \<le> b" "0 < n"
  shows "b \<le> (b + n - 1) div n * n" "(b + n - 1) div n * n \<le> b + n - 1" "0 \<le> (b + n - 1) div n"
proof -
  have d: "(b + n - 1) div n * n + (b + n - 1) mod n = b + n - 1" by simp
  have m: "0 \<le> (b + n - 1) mod n" "(b + n - 1) mod n < n" using assms by simp_all
  show "b \<le> (b + n - 1) div n * n" "(b + n - 1) div n * n \<le> b + n - 1" using d m by linarith+
  show "0 \<le> (b + n - 1) div n" using assms by (simp add: pos_imp_zdiv_nonneg_iff)
qed

lemma share_le_total:
  fixes tot part whole :: int
  assumes "0 \<le> tot" "0 \<le> part" "part \<le> whole" "0 < whole"
  shows "0 \<le> tot * part div whole" "tot * part div whole \<le> tot"
proof -
  show "0 \<le> tot * part div whole" using assms by (simp add: pos_imp_zdiv_nonneg_iff)
  have "tot * part \<le> tot * whole" using assms by (intro mult_left_mono)
  then have "tot * part div whole \<le> tot * whole div whole" using assms by (intro zdiv_mono1)
  then show "tot * part div whole \<le> tot" using assms by simp
qed

lemma project_decomposition_uniform:
  assumes "0 \<le> tot" "0 < blocks"
  shows "weights_are_conserved (project_decomposition tot blocks None)"
  using assms ceil_div_bounds [of tot blocks]
  by (simp add: project_decomposition_def weights_are_conserved_def)

lemma project_decomposition_config:
  assumes "0 \<le> tot" "0 < blocks" and d: "parameter_components c i t = Some d" "positive_dimensions c"
  shows "weights_are_conserved (project_decomposition tot blocks (Some d))"
proof -
  note ex = parameter_components_exact [OF d(1)] and nn = parameter_components_nonneg [OF d]
  let ?block = "tot * cpd_transformer_block_parameters d div cpd_total_parameters d"
  have nb: "0 < cpd_non_block_parameters d" using ex(2) nn by linarith
  have block: "0 \<le> ?block" "?block \<le> tot"
    using share_le_total [of tot "cpd_transformer_block_parameters d" "cpd_total_parameters d"]
      assms(1) ex(1,3) nn nb by simp_all
  have "0 \<le> (tot - ?block) * cpd_embedding_parameters d div cpd_non_block_parameters d"
    "(tot - ?block) * cpd_embedding_parameters d div cpd_non_block_parameters d \<le> tot - ?block"
    using share_le_total [of "tot - ?block" "cpd_embedding_parameters d" "cpd_non_block_parameters d"]
      block ex(2) nn nb by simp_all
  with block nb ceil_div_bounds [OF block(1) assms(2)] assms(2) show ?thesis
    by (simp add: project_decomposition_def weights_are_conserved_def Let_def)
qed

lemma project_decomposition_per_block:
  assumes "weights_are_conserved (project_decomposition tot blocks pd)" "0 < blocks"
  shows "wd_block (project_decomposition tot blocks pd)
      \<le> wd_bytes_per_block (project_decomposition tot blocks pd) * blocks"
    and "wd_bytes_per_block (project_decomposition tot blocks pd) * blocks
      \<le> wd_block (project_decomposition tot blocks pd) + blocks - 1"
proof -
  let ?d = "project_decomposition tot blocks pd"
  have "wd_bytes_per_block ?d = (wd_block ?d + blocks - 1) div blocks"
    by (simp add: project_decomposition_def Let_def split: prod.split)
  moreover have "0 \<le> wd_block ?d" using assms(1) by (simp add: weights_are_conserved_def)
  ultimately show "wd_block ?d \<le> wd_bytes_per_block ?d * blocks"
    and "wd_bytes_per_block ?d * blocks \<le> wd_block ?d + blocks - 1"
    using ceil_div_bounds [of "wd_block ?d" blocks] assms(2) by simp_all
qed

lemma decomposition_no_error:
  "num_attention_heads c \<noteq> Some 0 \<Longrightarrow> \<exists>pd. estimate_config_parameter_decomposition (Some c) = Inr pd"
  by (simp add: estimate_config_parameter_decomposition_def Let_def)

lemma add_decomposition_ok:
  assumes "positive_dimensions c"
  shows "(\<exists>r. add_transformer_block_decomposition e (Some c) = Inr r \<and>
    (r = e \<or> (\<exists>tot blocks pd. r = e\<lparr>we_decomposition := Some (project_decomposition tot blocks pd)\<rparr> \<and>
       mc_bytes (we_component e) = Some tot \<and> num_hidden_layers c = Some blocks \<and>
       0 \<le> tot \<and> 0 < blocks \<and>
       estimate_config_parameter_decomposition (Some c) = Inr pd \<and>
       weights_are_conserved (project_decomposition tot blocks pd))))"
proof (cases "mc_bytes (we_component e)")
  case None
  then show ?thesis by (simp add: add_transformer_block_decomposition_def)
next
  case (Some tot)
  show ?thesis
  proof (cases "num_hidden_layers c")
    case None
    with Some show ?thesis by (simp add: add_transformer_block_decomposition_def)
  next
    case (Some blocks)
    note layers = this
    show ?thesis
    proof (cases "tot < 0 \<or> blocks \<le> 0")
      case True
      with \<open>mc_bytes (we_component e) = Some tot\<close> layers show ?thesis
        by (simp add: add_transformer_block_decomposition_def)
    next
      case False
      have "num_attention_heads c \<noteq> Some 0" using assms by (auto simp: positive_dimensions_def)
      then obtain pd where pd: "estimate_config_parameter_decomposition (Some c) = Inr pd"
        using decomposition_no_error [of c] by blast
      have ok: "weights_are_conserved (project_decomposition tot blocks pd)"
      proof (cases pd)
        case None
        with False project_decomposition_uniform [of tot blocks] show ?thesis by simp
      next
        case (Some d)
        with pd obtain i t where "parameter_components c i t = Some d"
          by (metis decomposition_components)
        from project_decomposition_config [OF _ _ this assms] False Some show ?thesis by simp
      qed
      with \<open>mc_bytes (we_component e) = Some tot\<close> layers False pd show ?thesis
        by (simp add: add_transformer_block_decomposition_def Let_def)
    qed
  qed
qed

text \<open>
  Attaching the block split never fails for a configuration with positive dimensions: the
  record it builds always satisfies its validator (blocks and the rest add up to the weights
  exactly, embedding and output head to the rest), and the per-block figure times the block count
  covers the block bytes with an excess of at most the block count minus one.
\<close>

theorem add_decomposition_valid:
  assumes "positive_dimensions c" and "we_decomposition e = None"
  shows "\<exists>r. add_transformer_block_decomposition e (Some c) = Inr r \<and>
    we_component r = we_component e \<and>
    (\<forall>d. we_decomposition r = Some d \<longrightarrow>
       weights_are_conserved d \<and> mc_bytes (we_component e) = Some (wd_total d) \<and>
       num_hidden_layers c = Some (wd_blocks d) \<and>
       wd_block d \<le> wd_bytes_per_block d * wd_blocks d \<and>
       wd_bytes_per_block d * wd_blocks d \<le> wd_block d + (wd_blocks d - 1))"
proof -
  have proj: "wd_total (project_decomposition t b pd) = t" "wd_blocks (project_decomposition t b pd) = b"
    for t b pd
    by (simp_all add: project_decomposition_def Let_def split: prod.split)
  from add_decomposition_ok [OF assms(1), of e] assms(2) show ?thesis
    using project_decomposition_per_block by (fastforce simp: proj)
qed

definition example_estimate :: weight_estimate where
  "example_estimate = estimate_weights_from_gguf
     \<lparr>var_quantization = ''Q4_K_M'', var_files = [], var_total_bytes = Some 4683074240,
      var_is_complete = True, var_is_split = False\<rparr>"

theorem add_decomposition_valid_witness:
  "\<exists>r d. add_transformer_block_decomposition example_estimate (Some example_config) = Inr r \<and>
     we_decomposition r = Some d \<and> weights_are_conserved d \<and>
     wd_block d = 4012773975 \<and> wd_non_block d = 670300265"
proof -
  have "map_sum id (\<lambda>r. map_option (\<lambda>d. (wd_block d, wd_non_block d)) (we_decomposition r))
      (add_transformer_block_decomposition example_estimate (Some example_config))
      = Inr (Some (4012773975, 670300265))"
    by code_simp
  then obtain r d where r: "add_transformer_block_decomposition example_estimate (Some example_config) = Inr r"
    "we_decomposition r = Some d" "wd_block d = 4012773975" "wd_non_block d = 670300265"
    by (cases "add_transformer_block_decomposition example_estimate (Some example_config)") auto
  have "positive_dimensions example_config" "we_decomposition example_estimate = None"
    by (simp_all add: positive_dimensions_def example_config_def example_estimate_def
        estimate_weights_from_gguf_def)
  from add_decomposition_valid [OF this] r show ?thesis by auto
qed

section \<open>Exact arithmetic on weights\<close>

text \<open>The size of one parameter in half-bytes, an integer for every precision.\<close>

fun half_bytes :: "weight_precision \<Rightarrow> int" where
  "half_bytes FLOAT32 = 8"
| "half_bytes FLOAT16 = 4"
| "half_bytes BFLOAT16 = 4"
| "half_bytes INT8 = 2"
| "half_bytes INT4 = 1"

fun half_bytes_exp :: "weight_precision \<Rightarrow> nat" where
  "half_bytes_exp FLOAT32 = 3"
| "half_bytes_exp FLOAT16 = 2"
| "half_bytes_exp BFLOAT16 = 2"
| "half_bytes_exp INT8 = 1"
| "half_bytes_exp INT4 = 0"

lemma half_bytes_pow: "half_bytes p = 2 ^ half_bytes_exp p"
  by (cases p) simp_all

lemma half_bytes_pos [simp]: "0 < half_bytes p"
  by (cases p) simp_all

lemma bytes_per_parameter_value: "float_value (bytes_per_parameter p) = real_of_int (half_bytes p) / 2"
  by (cases p) (simp_all add: powr_minus_divide)

lemma half_bytes_powr: "real_of_int (half_bytes p) = 2 powr real (half_bytes_exp p)"
  by (simp add: half_bytes_pow powr_realpow)

text \<open>Products with a ratio of two parameter sizes are exact up to the final rounding up.\<close>

lemma ceil_div_int: "0 < (b :: int) \<Longrightarrow> \<lceil>real_of_int a / real_of_int b\<rceil> = - (- a div b)"
  by (simp add: ceiling_divide_eq_div)

lemma scaled_count_exact:
  assumes "0 \<le> n" "n \<le> 2 ^ 53" and v: "float_value x = 2 powr real_of_int e"
  shows "float_ceil (float_mult (float_of_int n) x) = \<lceil>real_of_int n * 2 powr real_of_int e\<rceil>"
proof -
  have "rnd (real_of_int n) = real_of_int n" using assms by (intro rnd_int) simp
  then show ?thesis by (simp add: float_ceil_eq value_float_mult value_float_of_int v rnd_scale)
qed

lemma precision_ratio_value:
  "float_value (float_divide (bytes_per_parameter p) (bytes_per_parameter q))
     = 2 powr real_of_int (int (half_bytes_exp p) - int (half_bytes_exp q))"
proof -
  have "0 < mantissa (bytes_per_parameter q)" by (cases q) simp_all
  moreover have "real_of_int (half_bytes p) / real_of_int (half_bytes q)
      = 2 powr real_of_int (int (half_bytes_exp p) - int (half_bytes_exp q))"
    by (simp add: half_bytes_powr powr_diff)
  ultimately show ?thesis
    using rnd_power [of "int (half_bytes_exp p) - int (half_bytes_exp q)"]
    by (simp add: value_float_divide bytes_per_parameter_value)
qed

lemma precision_ratio_scaled:
  assumes "0 \<le> n" "n \<le> 2 ^ 53"
  shows "float_ceil (float_mult (float_of_int n)
      (float_divide (bytes_per_parameter p) (bytes_per_parameter q)))
    = - (- (n * half_bytes p) div half_bytes q)"
proof -
  have "real_of_int n * 2 powr real_of_int (int (half_bytes_exp p) - int (half_bytes_exp q))
      = real_of_int (n * half_bytes p) / real_of_int (half_bytes q)"
    by (simp add: half_bytes_powr powr_diff)
  then show ?thesis
    using scaled_count_exact [OF assms precision_ratio_value] by (simp only: ceil_div_int half_bytes_pos)
qed

lemma parameter_count_scaled:
  assumes "0 \<le> n" "n \<le> 2 ^ 53"
  shows "float_ceil (float_mult (float_of_int n) (bytes_per_parameter p)) = - (- (n * half_bytes p) div 2)"
proof -
  have "float_value (bytes_per_parameter p) = 2 powr real_of_int (int (half_bytes_exp p) - 1)"
    by (simp add: bytes_per_parameter_value half_bytes_powr powr_diff)
  moreover have "real_of_int n * 2 powr real_of_int (int (half_bytes_exp p) - 1)
      = real_of_int (n * half_bytes p) / real_of_int 2"
    by (simp add: half_bytes_powr powr_diff)
  ultimately show ?thesis
    using scaled_count_exact [OF assms] ceil_div_int [of 2 "n * half_bytes p"]
    by (metis zero_less_numeral)
qed

text \<open>The precision the sizes are scaled to, and the one they are stored in.\<close>

definition effective_precision :: "weight_precision option \<Rightarrow> model_config option \<Rightarrow> weight_precision" where
  "effective_precision requested mc =
     opt_default requested (opt_default (config_precision mc) FLOAT16)"

text \<open>
  Sizing from the weight files is exact integer arithmetic in disguise: the float ratio of
  two precisions is a power of two, so the estimate is the total file size scaled by the ratio of
  the parameter sizes and rounded up, and the unchanged total when the precisions agree.
\<close>

theorem weights_from_files_exact:
  assumes "0 < weight_file_bytes a" and "weight_file_bytes a \<le> 2 ^ 53"
  shows "mc_bytes (we_component (estimate_weights_from_files a requested mc)) =
    Some (- (- (weight_file_bytes a * half_bytes (effective_precision requested mc))
      div half_bytes (effective_precision None mc)))"
proof (cases "effective_precision requested mc = effective_precision None mc")
  case True
  have "- (weight_file_bytes a * h) div h = - weight_file_bytes a" if "0 < h" for h :: int
    using that by (metis mult_minus_left nonzero_mult_div_cancel_right less_irrefl)
  with True assms show ?thesis
    by (simp add: estimate_weights_from_files_def effective_precision_def Let_def)
next
  case False
  with assms precision_ratio_scaled [of "weight_file_bytes a"] show ?thesis
    by (simp add: estimate_weights_from_files_def effective_precision_def Let_def)
qed

definition example_analysis_files :: "model_file list" where
  "example_analysis_files =
     [\<lparr>file_path = ''model-00001.safetensors'', file_size_bytes = Some 9000000001, file_lfs = True, file_sha256 = None\<rparr>,
      \<lparr>file_path = ''config.json'', file_size_bytes = Some 700, file_lfs = False, file_sha256 = None\<rparr>,
      \<lparr>file_path = ''old/pytorch_model.bin'', file_size_bytes = Some 20, file_lfs = True, file_sha256 = None\<rparr>]"

definition example_repo :: model_repository_info where
  "example_repo =
     \<lparr>repo_id = ''Qwen/Qwen2.5-7B-Instruct'', repo_author = Some ''Qwen'', repo_private = False,
      repo_gated = False, repo_downloads = None, repo_likes = None, repo_last_modified = None,
      repo_license = Some ''apache-2.0'', repo_tags = [], repo_pipeline_tag = None,
      repo_library_name = Some ''transformers''\<rparr>"

definition example_model_analysis :: model_analysis where
  "example_model_analysis =
     \<lparr>an_repo = example_repo, an_files = example_analysis_files,
      an_classification = \<lparr>primary_type = REPO_TRANSFORMERS, detected_types = {REPO_TRANSFORMERS},
        formats = {FMT_SAFETENSORS}, gguf_variants = []\<rparr>,
      an_config = Some example_config, an_relevant_files = [], an_total_size_bytes = None,
      an_warnings = [], an_safetensors_summary = None, an_declared_size_label = None\<rparr>"

theorem weights_from_files_exact_witness:
  "mc_bytes (we_component (estimate_weights_from_files example_model_analysis (Some INT4)
     (Some example_config))) = Some 2250000006"
proof -
  have "weight_file_bytes example_model_analysis = 9000000021" by code_simp
  moreover have "effective_precision (Some INT4) (Some example_config) = INT4"
    "effective_precision None (Some example_config) = FLOAT16"
    by (code_simp+)
  ultimately show ?thesis using weights_from_files_exact [of example_model_analysis "Some INT4" "Some example_config"] by simp
qed

end
