(* ===== verification/Compatibility.thy ===== *)
theory Compatibility
  imports Hardware_Fit_Analysis
begin

text \<open>
  The compatibility summary (\<^verbatim>\<open>estimator/compatibility.py\<close>): one status and one ratio, from a
  total and one pool for a pinned device, from the placement analysis otherwise.  The lemmas show
  that the float thresholds are exact integer comparisons and that the summary never contradicts
  the placement it was derived from.
\<close>

section \<open>Thresholds\<close>

definition COMFORTABLE_MAX :: py_float where
  "COMFORTABLE_MAX = round_ratio 3 4"

definition COMPATIBLE_MAX :: py_float where
  "COMPATIBLE_MAX = round_ratio 9 10"

definition TIGHT_MAX :: py_float where
  "TIGHT_MAX = round_ratio 1 1"

definition status_from_ratio :: "py_float \<Rightarrow> compatibility_status" where
  "status_from_ratio ratio =
     (if float_le ratio COMFORTABLE_MAX then COMFORTABLE
      else if float_le ratio COMPATIBLE_MAX then COMPATIBLE
      else if float_le ratio TIGHT_MAX then TIGHT
      else INSUFFICIENT)"

definition capacity_ratio :: "int \<Rightarrow> int option \<Rightarrow> py_float" where
  "capacity_ratio need capacity =
     (case capacity of None \<Rightarrow> float_of_int 1
      | Some c \<Rightarrow> if c \<le> 0 then float_of_int 1 else round_ratio need c)"

definition max_known_ratio :: "(int option \<times> int option) list \<Rightarrow> py_float option" where
  "max_known_ratio pairs =
     (case List.map_filter (\<lambda>(need, capacity).
             map_option (\<lambda>n. capacity_ratio n capacity) need) pairs of
        [] \<Rightarrow> None
      | r # rs \<Rightarrow> Some (fold (\<lambda>x acc. float_max acc x) rs r))"

section \<open>One pool\<close>

definition assess_single ::
  "target_device \<Rightarrow> int option \<Rightarrow> int \<Rightarrow> string \<Rightarrow> string option \<Rightarrow> compatibility_assessment" where
  "assess_single device capacity need missing_reason reason_prefix =
     (if capacity = None \<or> the capacity \<le> 0 then
        \<lparr>ca_status = STATUS_UNKNOWN, ca_confidence = CONF_UNKNOWN, ca_target_device = device,
         ca_effective_device = device, ca_available_vram_bytes = None, ca_available_ram_bytes = None,
         ca_ratio = None, ca_reasons = [missing_reason], ca_warnings = []\<rparr>
      else
        let ratio = round_ratio need (the capacity) in
        \<lparr>ca_status = status_from_ratio ratio, ca_confidence = CONF_HIGH, ca_target_device = device,
         ca_effective_device = device,
         ca_available_vram_bytes = (if device = GPU_DEVICE then capacity else None),
         ca_available_ram_bytes = (if device = CPU_DEVICE then capacity else None),
         ca_ratio = Some ratio,
         ca_reasons =
           (case reason_prefix of None \<Rightarrow> [] | Some r \<Rightarrow> if r = '''' then [] else [r]) @
           [''Uses '' @ show_fixed 1 (float_mult ratio (float_of_int 100)) @ ''% of the available '' @
            upper (device_value device) @ ''.''],
         ca_warnings = []\<rparr>)"

text \<open>
  The combined branch divides by the sum of the two pools, which is positive there for
  non-negative budgets; the last branch replaces a zero RAM by one.
\<close>

definition assess :: "int option \<Rightarrow> hardware_profile \<Rightarrow> target_device \<Rightarrow> compatibility_assessment" where
  "assess total_bytes hw target =
     (let vram = available_accelerator_memory_bytes hw; ram = mem_available_bytes (memory hw) in
      case total_bytes of
        None \<Rightarrow>
          \<lparr>ca_status = STATUS_UNKNOWN, ca_confidence = CONF_UNKNOWN, ca_target_device = target,
           ca_effective_device = target, ca_available_vram_bytes = vram,
           ca_available_ram_bytes = Some ram, ca_ratio = None,
           ca_reasons = [''Total memory could not be estimated.''], ca_warnings = []\<rparr>
      | Some need \<Rightarrow>
        if target = CPU_DEVICE then
          assess_single CPU_DEVICE (Some ram) need ''No RAM information available.'' None
        else if target = GPU_DEVICE then
          (if vram = None then
             \<lparr>ca_status = INSUFFICIENT, ca_confidence = CONF_HIGH, ca_target_device = target,
              ca_effective_device = GPU_DEVICE, ca_available_vram_bytes = None,
              ca_available_ram_bytes = Some ram, ca_ratio = None,
              ca_reasons = [''GPU requested but no GPU memory availability was detected.''],
              ca_warnings = []\<rparr>
           else assess_single GPU_DEVICE vram need ''No VRAM information available.'' None)
        else if vram \<noteq> None \<and> need \<le> the vram then
          assess_single GPU_DEVICE vram need ''No VRAM information available.'' (Some ''Fits in VRAM'')
        else if vram \<noteq> None \<and> need \<le> the vram + ram then
          \<lparr>ca_status = OFFLOADING_REQUIRED, ca_confidence = CONF_LOW, ca_target_device = target,
           ca_effective_device = GPU_DEVICE, ca_available_vram_bytes = vram,
           ca_available_ram_bytes = Some ram, ca_ratio = Some (round_ratio need (the vram + ram)),
           ca_reasons =
             [''Model does not fit entirely in available VRAM.'',
              ''Combined RAM+VRAM would cover it, but per-layer offloading is not modelled.''],
           ca_warnings = [''CPU/GPU offloading depends on the runtime and is approximate.'']\<rparr>
        else if need \<le> ram then
          assess_single CPU_DEVICE (Some ram) need ''No RAM information available.''
            (Some (if vram \<noteq> None then ''No GPU capacity for this model'' else ''No GPU detected''))
        else
          \<lparr>ca_status = INSUFFICIENT, ca_confidence = CONF_HIGH, ca_target_device = target,
           ca_effective_device = CPU_DEVICE, ca_available_vram_bytes = vram,
           ca_available_ram_bytes = Some ram,
           ca_ratio = Some (round_ratio need (if ram = 0 then 1 else ram)),
           ca_reasons = [''Estimated memory exceeds combined available RAM and VRAM.''],
           ca_warnings = []\<rparr>)"

section \<open>From a placement\<close>

definition offload_ram_budget :: "hardware_fit_result \<Rightarrow> int option" where
  "offload_ram_budget r =
     (case hf_bounds r of None \<Rightarrow> hf_ram_required r | Some b \<Rightarrow> Some (nb_ram_required_max b))"

definition assessment_from_fit :: "hardware_fit_result \<Rightarrow> target_device \<Rightarrow> compatibility_assessment" where
  "assessment_from_fit r target =
     (let vram = hf_available_vram r; ram = hf_available_ram r;
          summary = (\<lambda>status confidence effective ratio.
            \<lparr>ca_status = status, ca_confidence = confidence, ca_target_device = target,
             ca_effective_device = effective, ca_available_vram_bytes = vram,
             ca_available_ram_bytes = ram, ca_ratio = ratio, ca_reasons = [hf_reason r],
             ca_warnings = hf_warnings r\<rparr>)
      in
      case hf_mode r of
        GPU_RESIDENT \<Rightarrow>
          let ratio = capacity_ratio (the (hf_gpu_required r)) vram in
          summary (status_from_ratio ratio) CONF_HIGH GPU_DEVICE (Some ratio)
      | GPU_OFFLOAD \<Rightarrow>
          summary OFFLOADING_REQUIRED
            (if hf_placement_method r = TRANSFORMER_BLOCKS then CONF_MEDIUM else CONF_LOW) GPU_DEVICE
            (max_known_ratio [(hf_gpu_required r, vram), (offload_ram_budget r, ram)])
      | CPU_RAM \<Rightarrow>
          let ratio = capacity_ratio (the (hf_ram_required r)) ram in
          summary (status_from_ratio ratio) CONF_HIGH CPU_DEVICE (Some ratio)
      | TOO_LARGE \<Rightarrow> summary INSUFFICIENT CONF_HIGH CPU_DEVICE None)"

text \<open>The components of an estimate as the assessment receives them.\<close>

record assessed_components =
  ac_weights :: "int option"
  ac_kv_cache :: "int option"
  ac_overhead :: "int option"
  ac_device_reserve :: int
  ac_safety_margin :: int
  ac_total :: "int option"
  ac_total_blocks :: "int option"
  ac_decomposition :: "weight_decomposition option"

definition assess_components_with_fit ::
  "assessed_components \<Rightarrow> hardware_profile \<Rightarrow> target_device \<Rightarrow>
   fit_error + compatibility_assessment \<times> hardware_fit_result option" where
  "assess_components_with_fit a hw target =
     (case (ac_weights a, ac_kv_cache a, ac_overhead a) of
        (Some w, Some kv, Some ov) \<Rightarrow>
          if target \<noteq> AUTO then Inr (assess (ac_total a) hw target, None)
          else
            (case analyze_components
                \<lparr>fc_weights = w, fc_kv_cache = kv, fc_overhead = ov,
                 fc_device_reserve = ac_device_reserve a, fc_safety_margin = ac_safety_margin a\<rparr>
                hw (ac_total_blocks a) None (ac_decomposition a) of
               Inl e \<Rightarrow> Inl e
             | Inr fit \<Rightarrow> Inr (assessment_from_fit fit target, Some fit))
      | _ \<Rightarrow>
        let missing = missing_fields
          [(''weights'', ac_weights a), (''KV cache'', ac_kv_cache a), (''runtime overhead'', ac_overhead a)]
        in Inr ((assess None hw target)
             \<lparr>ca_reasons := [''Cannot confirm compatibility: missing '' @ join '', '' missing @ ''.'']\<rparr>,
           None))"

definition assess_components ::
  "assessed_components \<Rightarrow> hardware_profile \<Rightarrow> target_device \<Rightarrow> fit_error + compatibility_assessment" where
  "assess_components a hw target = map_sum id fst (assess_components_with_fit a hw target)"

section \<open>The thresholds are exact\<close>

lemma gap_survives_rounding:
  fixes x t rx rt :: real
  assumes "\<bar>rx - x\<bar> * 2 ^ 53 \<le> x" "\<bar>rt - t\<bar> * 2 ^ 53 \<le> t" "t + 1 / (10 * 2 ^ 48) \<le> x" "0 \<le> t" "t \<le> 1"
  shows "rt < rx"
proof -
  have "(x - rx) * 2 ^ 53 \<le> \<bar>rx - x\<bar> * 2 ^ 53" "(rt - t) * 2 ^ 53 \<le> \<bar>rt - t\<bar> * 2 ^ 53"
    by (rule mult_right_mono; simp)+
  with assms(1,2) have "(x - rx) * 2 ^ 53 \<le> x" "(rt - t) * 2 ^ 53 \<le> t" by (blast intro: order_trans)+
  then have "(x - rx) * 9007199254740992 \<le> x" "(rt - t) * 9007199254740992 \<le> t" by simp_all
  moreover have "2814749767106560 * t + 1 \<le> 2814749767106560 * x" using assms(3) by simp
  ultimately show ?thesis using assms(4,5) by (simp add: left_diff_distrib)
qed

lemma ratio_above:
  assumes "0 \<le> n" "0 < c" "c \<le> 2 ^ 48" "0 \<le> a" "a \<le> b" "0 < b" "b \<le> 10" "a * c < n * b"
  shows "rnd (real_of_int a / real_of_int b) < rnd (real_of_int n / real_of_int c)"
proof -
  let ?x = "real_of_int n / real_of_int c" and ?t = "real_of_int a / real_of_int b"
  have t: "0 \<le> ?t" "?t \<le> 1" using assms by simp_all
  have "real_of_int (a * c + 1) \<le> real_of_int (n * b)" using assms(8) by (simp only: of_int_le_iff)
  then have "real_of_int (a * c + 1) / (real_of_int b * real_of_int c)
      \<le> real_of_int (n * b) / (real_of_int b * real_of_int c)"
    using assms by (intro divide_right_mono) auto
  moreover have "real_of_int (a * c + 1) / (real_of_int b * real_of_int c)
      = ?t + 1 / (real_of_int b * real_of_int c)"
    using assms by (simp add: add_divide_distrib)
  moreover have "real_of_int (n * b) / (real_of_int b * real_of_int c) = ?x" using assms by simp
  ultimately have "?t + 1 / (real_of_int b * real_of_int c) \<le> ?x" by simp
  moreover have "1 / (10 * 2 ^ 48) \<le> 1 / (real_of_int b * real_of_int c)"
  proof -
    have "real_of_int b \<le> real_of_int 10" "real_of_int c \<le> real_of_int (2 ^ 48)"
      using assms(3,7) by (simp_all only: of_int_le_iff)
    then have "real_of_int b \<le> 10" "real_of_int c \<le> 2 ^ 48" by simp_all
    then have "real_of_int b * real_of_int c \<le> 10 * 2 ^ 48" using assms by (intro mult_mono) auto
    then show ?thesis using assms by (intro divide_left_mono) auto
  qed
  ultimately have gap: "?t + 1 / (10 * 2 ^ 48) \<le> ?x" by linarith
  have e1: "\<bar>rnd ?x - ?x\<bar> * 2 ^ 53 \<le> ?x" using rnd_error [of ?x] assms by simp
  have e2: "\<bar>rnd ?t - ?t\<bar> * 2 ^ 53 \<le> ?t" using rnd_error [of ?t] t by simp
  show ?thesis by (rule gap_survives_rounding [OF e1 e2 gap t])
qed

lemma ratio_le_iff:
  assumes "0 \<le> n" "0 < c" "c \<le> 2 ^ 48" "0 \<le> a" "a \<le> b" "0 < b" "b \<le> 10"
  shows "float_le (round_ratio n c) (round_ratio a b) \<longleftrightarrow> n * b \<le> a * c"
proof
  assume "float_le (round_ratio n c) (round_ratio a b)"
  then have "\<not> rnd (real_of_int a / real_of_int b) < rnd (real_of_int n / real_of_int c)"
    using assms by (simp add: float_le_iff value_round_ratio)
  with ratio_above [OF assms] show "n * b \<le> a * c" by linarith
next
  assume "n * b \<le> a * c"
  then have "real_of_int (n * b) \<le> real_of_int (a * c)" by (simp only: of_int_le_iff)
  then have "real_of_int n / real_of_int c \<le> real_of_int a / real_of_int b"
    using assms by (simp add: field_simps)
  then show "float_le (round_ratio n c) (round_ratio a b)"
    using assms by (simp add: float_le_iff value_round_ratio rnd_mono)
qed

lemmas thresholds = COMFORTABLE_MAX_def COMPATIBLE_MAX_def TIGHT_MAX_def

text \<open>The status as integer arithmetic.\<close>

definition exact_status :: "int \<Rightarrow> int \<Rightarrow> compatibility_status" where
  "exact_status need capacity =
     (if 4 * need \<le> 3 * capacity then COMFORTABLE
      else if 10 * need \<le> 9 * capacity then COMPATIBLE
      else if need \<le> capacity then TIGHT else INSUFFICIENT)"

text \<open>
  C8. The status is an exact comparison of byte counts: although the ratio and the threshold
  0.90 are rounded floats, for pools up to 256 TiB the four bands are delimited at exactly three
  quarters, nine tenths and the whole of the pool.
\<close>

theorem status_thresholds_exact:
  assumes "0 \<le> need" and "0 < capacity" and "capacity \<le> 2 ^ 48"
  shows "status_from_ratio (round_ratio need capacity) = exact_status need capacity"
  using ratio_le_iff [OF assms, of 3 4] ratio_le_iff [OF assms, of 9 10] ratio_le_iff [OF assms, of 1 1]
  by (simp add: status_from_ratio_def exact_status_def thresholds mult.commute)

theorem status_thresholds_exact_witness:
  "status_from_ratio (round_ratio 9000000000 10000000000) = COMPATIBLE \<and>
   status_from_ratio (round_ratio 9000000001 10000000000) = TIGHT"
  by (simp add: status_thresholds_exact exact_status_def)

section \<open>The summary and the placement\<close>

text \<open>What the summary says for a placement.\<close>

fun consistent_status :: "hardware_fit_mode \<Rightarrow> compatibility_status \<Rightarrow> bool" where
  "consistent_status GPU_RESIDENT s \<longleftrightarrow> s \<in> {COMFORTABLE, COMPATIBLE, TIGHT}"
| "consistent_status GPU_OFFLOAD s \<longleftrightarrow> s = OFFLOADING_REQUIRED"
| "consistent_status CPU_RAM s \<longleftrightarrow> s \<in> {COMFORTABLE, COMPATIBLE, TIGHT}"
| "consistent_status TOO_LARGE s \<longleftrightarrow> s = INSUFFICIENT"

lemma float_one_value: "float_value (float_of_int 1) = 1" "float_value TIGHT_MAX = 1"
  by (simp_all add: value_float_of_int value_round_ratio TIGHT_MAX_def)

lemma capacity_ratio_le_one:
  assumes "need \<le> capacity"
  shows "float_le (capacity_ratio need (Some capacity)) TIGHT_MAX"
proof (cases "0 < capacity")
  case True
  then have "rnd (real_of_int need / real_of_int capacity) \<le> rnd 1"
    using assms by (intro rnd_mono) simp
  with True show ?thesis
    by (simp add: capacity_ratio_def float_le_iff value_round_ratio float_one_value)
qed (simp add: capacity_ratio_def float_le_iff float_one_value)

lemma status_within_capacity:
  "float_le ratio TIGHT_MAX \<Longrightarrow> status_from_ratio ratio \<in> {COMFORTABLE, COMPATIBLE, TIGHT}"
  by (simp add: status_from_ratio_def)

text \<open>The budgets a result reports are the ones it was computed for.\<close>

lemma analysis_reports_budgets:
  assumes "analyze_components c hw T L wd = Inr r" "places_weights_on_gpu r \<or> hf_mode r = CPU_RAM"
  shows "hf_available_ram r = Some (mem_available_bytes (memory hw))"
    and "places_weights_on_gpu r \<Longrightarrow> hf_available_vram r = available_accelerator_memory_bytes hw"
proof -
  have off: "try_gpu_offload c vram ram blocks topo wd = Inr (Some r) \<Longrightarrow>
      hf_available_ram r = Some ram \<and> hf_available_vram r = Some vram \<and> hf_mode r = GPU_OFFLOAD"
    for vram ram blocks topo
    by (auto simp: try_gpu_offload_def try_gpu_offload_blocks_def try_gpu_offload_bytes_def
        offload_result_from_placement_def Let_def split: if_splits option.splits sum.splits prod.splits)
  show "hf_available_ram r = Some (mem_available_bytes (memory hw))"
    and "places_weights_on_gpu r \<Longrightarrow> hf_available_vram r = available_accelerator_memory_bytes hw"
    using assms off
    by (auto simp: analyze_components_def analyze_discrete_def Let_def places_weights_on_gpu_def
        analyze_unified_memory_def gpu_resident_result_def cpu_or_too_large_result_def
        split: sum.splits if_splits option.splits)
qed

lemma summary_of_budgeted:
  assumes "analyze_components c hw T L wd = Inr r"
    and "within_budgets (available_accelerator_memory_bytes hw) (mem_available_bytes (memory hw)) r"
  shows "consistent_status (hf_mode r) (ca_status (assessment_from_fit r target))"
    and "ca_effective_device (assessment_from_fit r target) = GPU_DEVICE \<longleftrightarrow> places_weights_on_gpu r"
  using analysis_reports_budgets [OF assms(1)] assms(2) capacity_ratio_le_one
    status_within_capacity [OF capacity_ratio_le_one]
  by (cases "hf_mode r";
      fastforce simp: within_budgets_def assessment_from_fit_def Let_def places_weights_on_gpu_def)+

text \<open>
  C7. The compatibility summary never contradicts the placement: a resident or a CPU placement
  is at least a tight fit, an offload is reported as such, only a model that fits nowhere is
  insufficient, and the device named is the one the weights are placed on.
\<close>

theorem summary_agrees_with_placement:
  assumes "analysis_inputs c T L wd" and "analyze_components c hw T L wd = Inr r"
  shows "consistent_status (hf_mode r) (ca_status (assessment_from_fit r target)) \<and>
    (ca_effective_device (assessment_from_fit r target) = GPU_DEVICE \<longleftrightarrow> places_weights_on_gpu r)"
proof -
  have "within_budgets (available_accelerator_memory_bytes hw) (mem_available_bytes (memory hw)) r"
    using analyze_components_result [OF assms(1), of _ hw] assms(2)
    by (cases "resolve_block_count (fc_weights c) T L wd") (auto simp: analyze_components_def)
  with assms(2) show ?thesis using summary_of_budgeted by blast
qed

theorem summary_agrees_with_placement_witness:
  "\<exists>r. analyze_components example_components (example_hardware 4985380864 7593828352) (Some 28) None
     (Some example_decomposition) = Inr r \<and>
     ca_status (assessment_from_fit r AUTO) = OFFLOADING_REQUIRED"
proof -
  obtain r where r: "analyze_components example_components (example_hardware 4985380864 7593828352)
      (Some 28) None (Some example_decomposition) = Inr r" "hf_mode r = GPU_OFFLOAD"
    using map_sum_Inr [OF example_analysis(1)] by auto
  from summary_agrees_with_placement [OF example_analysis_inputs(1) r(1), of AUTO] r show ?thesis by auto
qed

text \<open>
  Nothing is called compatible without all three components: if the weights, the KV cache or
  the overhead are unknown, the status is unknown, no placement is attached, and the reason names
  what is missing; a pinned GPU that does not exist is insufficient.
\<close>

theorem missing_component_is_unknown:
  assumes "assess_components_with_fit a hw target = Inr (s, fit)"
  shows "(ac_weights a = None \<or> ac_kv_cache a = None \<or> ac_overhead a = None \<longrightarrow>
      ca_status s = STATUS_UNKNOWN \<and> ca_confidence s = CONF_UNKNOWN \<and> fit = None \<and> ca_ratio s = None) \<and>
    (fit \<noteq> None \<longrightarrow> target = AUTO) \<and>
    (target = GPU_DEVICE \<and> available_accelerator_memory_bytes hw = None \<longrightarrow>
      ca_status s \<in> {INSUFFICIENT, STATUS_UNKNOWN})"
  using assms
  by (auto simp: assess_components_with_fit_def assess_def Let_def split: option.splits if_splits sum.splits)

theorem missing_component_is_unknown_witness:
  "\<exists>s. assess_components_with_fit
     \<lparr>ac_weights = Some 4683074240, ac_kv_cache = None, ac_overhead = Some 268435456,
      ac_device_reserve = 0, ac_safety_margin = 0, ac_total = Some 4951509696, ac_total_blocks = None,
      ac_decomposition = None\<rparr> (example_hardware 8000000000 8000000000) AUTO = Inr (s, None) \<and>
     ca_status s = STATUS_UNKNOWN"
proof -
  let ?a = "\<lparr>ac_weights = Some 4683074240, ac_kv_cache = None, ac_overhead = Some 268435456,
      ac_device_reserve = 0, ac_safety_margin = 0, ac_total = Some 4951509696, ac_total_blocks = None,
      ac_decomposition = None\<rparr>"
  obtain s where s: "assess_components_with_fit ?a (example_hardware 8000000000 8000000000) AUTO = Inr (s, None)"
    by (simp add: assess_components_with_fit_def Let_def)
  from missing_component_is_unknown [OF s] s show ?thesis by simp
qed

end
