(* ===== verification/Gguf_Selection.thy ===== *)
theory Gguf_Selection
  imports Model_Data "HOL-Library.Char_ord" "HOL-Library.List_Lexorder" "HOL-Library.Product_Lexorder"
begin

text \<open>
  Which artifact of a GGUF repository an estimate is made for
  (\<^verbatim>\<open>domain/gguf_variants.py\<close>, \<^verbatim>\<open>estimator/gguf_selection.py\<close>): a quantization stands for
  one complete, unambiguous representation or for none.  The lemmas show that a selection is
  always a complete variant of the list, alone of its kind, and when the selection raises.
\<close>

section \<open>Errors\<close>

datatype estimation_error =
    QuantizationNotFound string "string list"
  | GgufVariantSelection string

section \<open>Representations\<close>

definition variant_file_names :: "gguf_variant list \<Rightarrow> string" where
  "variant_file_names vs = join '', '' (concat (map (\<lambda>v. map file_path (var_files v)) vs))"

definition whole_variants :: "gguf_variant list \<Rightarrow> gguf_variant list" where
  "whole_variants vs = filter (\<lambda>v. length (var_files v) = 1 \<and> \<not> var_is_split v) vs"

definition unique_gguf_representation :: "gguf_variant list \<Rightarrow> estimation_error + gguf_variant" where
  "unique_gguf_representation vs =
     (let complete = filter var_is_complete vs;
          whole = whole_variants complete;
          candidates = (if whole = [] then complete else whole) in
      case candidates of
        [v] \<Rightarrow> Inr v
      | _ \<Rightarrow> Inl (GgufVariantSelection
          ((if candidates \<noteq> [] then ''Multiple artifacts share this quantization''
            else ''Incomplete GGUF shard set'') @ '': '' @ variant_file_names vs @
           ''. No artifact was selected.'')))"

definition variants_of_quantization :: "gguf_variant list \<Rightarrow> string \<Rightarrow> gguf_variant list" where
  "variants_of_quantization vs q = filter (\<lambda>v. var_quantization v = q) vs"

text \<open>\<^verbatim>\<open>sorted({v.quantization for v in variants})\<close>.\<close>

definition sorted_quantizations :: "gguf_variant list \<Rightarrow> string list" where
  "sorted_quantizations vs = sort (dedup (map var_quantization vs))"

definition preferred_gguf_variants :: "gguf_variant list \<Rightarrow> gguf_variant list" where
  "preferred_gguf_variants vs =
     List.map_filter
       (\<lambda>q. case unique_gguf_representation (variants_of_quantization vs q) of Inl _ \<Rightarrow> None | Inr v \<Rightarrow> Some v)
       (sorted_quantizations vs)"

section \<open>Selection\<close>

definition DEFAULT_GGUF_QUANTIZATION :: string where
  "DEFAULT_GGUF_QUANTIZATION = ''Q4_K_M''"

record variant_choice =
  vc_variant :: gguf_variant
  vc_reason :: string

definition select_requested :: "gguf_variant list \<Rightarrow> string \<Rightarrow> estimation_error + variant_choice" where
  "select_requested vs requested =
     (let matching = filter (\<lambda>v. lower (var_quantization v) = lower requested) vs in
      if matching = [] then Inl (QuantizationNotFound requested (map var_quantization vs))
      else bind_result (unique_gguf_representation matching)
        (\<lambda>v. Inr \<lparr>vc_variant = v,
           vc_reason = ''Selected explicitly by user: '' @ var_quantization (hd matching) @ ''.''\<rparr>))"

definition variant_size_key :: "gguf_variant \<Rightarrow> bool \<times> int \<times> string" where
  "variant_size_key v =
     (var_total_bytes v = None, int_or (var_total_bytes v) 0, var_quantization v)"

definition select_median :: "gguf_variant list \<Rightarrow> estimation_error + variant_choice" where
  "select_median vs =
     (let ordered = sort_key variant_size_key (preferred_gguf_variants vs) in
      if ordered = []
      then Inl (GgufVariantSelection ''No unambiguous complete GGUF representation is available.'')
      else
        let median = ordered ! (length ordered div 2) in
        Inr \<lparr>vc_variant = median,
          vc_reason = ''Auto-selected '' @ var_quantization median @ '' as the median-sized variant '' @
            ''(no '' @ DEFAULT_GGUF_QUANTIZATION @ '' available).''\<rparr>)"

definition select_variant :: "gguf_variant list \<Rightarrow> string option \<Rightarrow> estimation_error + variant_choice" where
  "select_variant vs requested =
     (if vs = [] then Inl (QuantizationNotFound (opt_default requested '''') [])
      else if requested \<noteq> None \<and> requested \<noteq> Some '''' then select_requested vs (the requested)
      else if list_ex (\<lambda>v. upper (var_quantization v) = DEFAULT_GGUF_QUANTIZATION) vs then
        bind_result (select_requested vs DEFAULT_GGUF_QUANTIZATION)
          (\<lambda>c. Inr \<lparr>vc_variant = vc_variant c,
             vc_reason = ''Auto-selected '' @ DEFAULT_GGUF_QUANTIZATION @ '' as the default '' @
               ''quality/size trade-off.''\<rparr>)
      else select_median vs)"

section \<open>Correctness\<close>

definition is_whole :: "gguf_variant \<Rightarrow> bool" where
  "is_whole v \<longleftrightarrow> length (var_files v) = 1 \<and> \<not> var_is_split v"

text \<open>
  A variant stands for a group without competition: it is complete, and every other complete
  variant of the group is a set of shards while the chosen one is a single file.
\<close>

definition unrivalled :: "gguf_variant list \<Rightarrow> gguf_variant \<Rightarrow> bool" where
  "unrivalled vs v \<longleftrightarrow>
     v \<in> set vs \<and> var_is_complete v \<and>
     (\<forall>w \<in> set vs. var_is_complete w \<longrightarrow> w = v \<or> is_whole v \<and> \<not> is_whole w)"

lemma unique_representation_unrivalled:
  assumes "unique_gguf_representation vs = Inr v"
  shows "unrivalled vs v"
proof -
  let ?complete = "filter var_is_complete vs"
  have "(if whole_variants ?complete = [] then ?complete else whole_variants ?complete) = [v]"
    using assms by (auto simp: unique_gguf_representation_def Let_def split: list.splits if_splits)
  then consider "?complete = [v]" | "whole_variants ?complete = [v]" by (auto split: if_splits)
  then show ?thesis
  proof cases
    case 1
    then have "set ?complete = {v}" by simp
    then have "w \<in> set vs \<and> var_is_complete w \<longleftrightarrow> w = v" for w by auto
    then show ?thesis by (auto simp: unrivalled_def)
  next
    case 2
    then have "set (whole_variants ?complete) = {v}" by simp
    then have "w \<in> set vs \<and> var_is_complete w \<and> is_whole w \<longleftrightarrow> w = v" for w
      by (auto simp: whole_variants_def is_whole_def)
    then show ?thesis by (auto simp: unrivalled_def)
  qed
qed

lemma unrivalled_mono: "unrivalled vs v \<Longrightarrow> v \<in> set ws \<Longrightarrow> set ws \<subseteq> set vs \<Longrightarrow> unrivalled ws v"
  by (auto simp: unrivalled_def)

lemma preferred_unrivalled:
  assumes "v \<in> set (preferred_gguf_variants vs)"
  shows "unrivalled (variants_of_quantization vs (var_quantization v)) v"
proof -
  from assms obtain q where "unique_gguf_representation (variants_of_quantization vs q) = Inr v"
    by (auto simp: preferred_gguf_variants_def List.map_filter_def split: sum.splits)
  then have u: "unrivalled (variants_of_quantization vs q) v" by (rule unique_representation_unrivalled)
  then have "var_quantization v = q" by (simp add: unrivalled_def variants_of_quantization_def)
  with u show ?thesis by simp
qed

lemma preferred_distinct_quantizations: "distinct (map var_quantization (preferred_gguf_variants vs))"
proof -
  let ?f = "\<lambda>q. case unique_gguf_representation (variants_of_quantization vs q) of Inl _ \<Rightarrow> None | Inr v \<Rightarrow> Some v"
  have f: "?f q = Some v \<Longrightarrow> var_quantization v = q" for q v
    using unique_representation_unrivalled [of "variants_of_quantization vs q" v]
    by (auto simp: unrivalled_def variants_of_quantization_def split: sum.splits)
  have "map var_quantization (List.map_filter ?f qs) = filter (\<lambda>q. ?f q \<noteq> None) qs" for qs
    using f by (induction qs) (auto simp: List.map_filter_simps split: option.splits)
  then show ?thesis
    by (simp add: preferred_gguf_variants_def sorted_quantizations_def)
qed

lemma select_requested_Inr:
  assumes "select_requested vs q = Inr c"
  shows "unrivalled (variants_of_quantization vs (var_quantization (vc_variant c))) (vc_variant c)"
    and "lower (var_quantization (vc_variant c)) = lower q"
proof -
  from assms have u: "unrivalled (filter (\<lambda>v. lower (var_quantization v) = lower q) vs) (vc_variant c)"
    by (auto simp: select_requested_def Let_def bind_result_Inr unique_representation_unrivalled
        split: if_splits)
  show "lower (var_quantization (vc_variant c)) = lower q" using u by (simp add: unrivalled_def)
  with u show "unrivalled (variants_of_quantization vs (var_quantization (vc_variant c))) (vc_variant c)"
    by (auto intro: unrivalled_mono simp: variants_of_quantization_def unrivalled_def)
qed

lemma select_median_Inr:
  assumes "select_median vs = Inr c"
  shows "vc_variant c \<in> set (preferred_gguf_variants vs)"
proof -
  let ?o = "sort_key variant_size_key (preferred_gguf_variants vs)"
  have "?o \<noteq> []" "vc_variant c = ?o ! (length ?o div 2)"
    using assms by (auto simp: select_median_def Let_def split: if_splits)
  moreover from this have "length ?o div 2 < length ?o" by (cases ?o) simp_all
  ultimately have "vc_variant c \<in> set ?o" by (metis nth_mem)
  then show ?thesis by simp
qed

lemma select_variant_unrivalled:
  assumes "select_variant vs requested = Inr c"
  shows "unrivalled (variants_of_quantization vs (var_quantization (vc_variant c))) (vc_variant c) \<and>
    (\<forall>q. requested = Some q \<and> q \<noteq> [] \<longrightarrow> lower (var_quantization (vc_variant c)) = lower q)"
  using assms select_requested_Inr preferred_unrivalled [OF select_median_Inr]
  by (fastforce simp: select_variant_def bind_result_Inr split: if_splits)

text \<open>
  A selected variant is always one complete artifact without competition: it comes from the
  repository's list, it has the requested quantization (up to case) if one was requested, and any
  other complete artifact of the same quantization is a shard set while the selected one is a
  single file.
\<close>

theorem select_variant_unambiguous:
  assumes "select_variant vs requested = Inr c"
  shows "vc_variant c \<in> set vs \<and> var_is_complete (vc_variant c) \<and>
    (\<forall>q. requested = Some q \<and> q \<noteq> '''' \<longrightarrow> lower (var_quantization (vc_variant c)) = lower q) \<and>
    (\<forall>w \<in> set vs. var_is_complete w \<and> var_quantization w = var_quantization (vc_variant c) \<longrightarrow>
       w = vc_variant c \<or> is_whole (vc_variant c) \<and> \<not> is_whole w)"
  using select_variant_unrivalled [OF assms] by (auto simp: unrivalled_def variants_of_quantization_def)

definition example_variant :: "string \<Rightarrow> int \<Rightarrow> bool \<Rightarrow> bool \<Rightarrow> gguf_variant" where
  "example_variant q n whole shards =
     \<lparr>var_quantization = q,
      var_files = \<lparr>file_path = ''model-'' @ q @ ''.gguf'', file_size_bytes = Some n, file_lfs = True,
        file_sha256 = None\<rparr> # (if shards then [\<lparr>file_path = ''part-2.gguf'',
        file_size_bytes = Some n, file_lfs = True, file_sha256 = None\<rparr>] else []),
      var_total_bytes = Some n, var_is_complete = whole, var_is_split = shards\<rparr>"

definition example_variants :: "gguf_variant list" where
  "example_variants =
     [example_variant ''Q8_0'' 8 True False, example_variant ''Q2_K'' 2 True False,
      example_variant ''Q5_K_M'' 5 True True, example_variant ''Q5_K_M'' 5 True False,
      example_variant ''F16'' 16 False True]"

lemma example_selection: "map_sum id (var_quantization \<circ> vc_variant) (select_variant example_variants (Some ''q5_k_m''))
    = Inr ''Q5_K_M''"
  by code_simp

theorem select_variant_unambiguous_witness:
  "\<exists>c. select_variant example_variants (Some ''q5_k_m'') = Inr c \<and> is_whole (vc_variant c) \<and>
     lower (var_quantization (vc_variant c)) = ''q5_k_m''"
proof -
  obtain c where c: "select_variant example_variants (Some ''q5_k_m'') = Inr c"
      "var_quantization (vc_variant c) = ''Q5_K_M''"
    using example_selection by (cases "select_variant example_variants (Some ''q5_k_m'')") auto
  note s = select_variant_unambiguous [OF c(1)]
  have "example_variant ''Q5_K_M'' 5 True True \<in> set example_variants"
    "example_variant ''Q5_K_M'' 5 True False \<in> set example_variants"
    "var_is_complete (example_variant ''Q5_K_M'' 5 True True)"
    "var_is_complete (example_variant ''Q5_K_M'' 5 True False)"
    "is_whole (example_variant ''Q5_K_M'' 5 True False)"
    by (simp_all add: example_variants_def example_variant_def is_whole_def)
  moreover have "var_quantization (example_variant ''Q5_K_M'' 5 True False) = ''Q5_K_M''"
    by (simp add: example_variant_def)
  ultimately have "is_whole (vc_variant c)" using s c by metis
  moreover have "lower ''Q5_K_M'' = ''q5_k_m''" by code_simp
  ultimately show ?thesis using c s by auto
qed

section \<open>The automatic choice\<close>

lemma sorted_median_balanced:
  fixes f :: "'a \<Rightarrow> 'b :: linorder"
  assumes "xs \<noteq> []" and "m = sort_key f xs ! (length xs div 2)"
  shows "length xs div 2 < length (filter (\<lambda>x. f x \<le> f m) xs)"
    and "length xs - length xs div 2 \<le> length (filter (\<lambda>x. f m \<le> f x) xs)"
proof -
  let ?s = "sort_key f xs" and ?k = "length xs div 2"
  have k: "?k < length ?s" using assms(1) by (cases xs) simp_all
  have srt: "sorted (map f ?s)" by simp
  have lo: "f (?s ! i) \<le> f m" if "i \<le> ?k" for i
    using sorted_nth_mono [OF srt, of i ?k] that k assms(2) by simp
  have hi: "f m \<le> f (?s ! i)" if "?k \<le> i" "i < length ?s" for i
    using sorted_nth_mono [OF srt, of ?k i] that k assms(2) by simp
  have count: "length (filter P xs) = card {i. i < length ?s \<and> P (?s ! i)}" for P
  proof -
    have "length (filter P xs) = length (filter P ?s)"
      by (metis mset_filter mset_sort size_mset)
    then show ?thesis by (simp add: length_filter_conv_card)
  qed
  have "{..?k} \<subseteq> {i. i < length ?s \<and> f (?s ! i) \<le> f m}" using lo k by auto
  from card_mono [OF _ this] show "?k < length (filter (\<lambda>x. f x \<le> f m) xs)"
    by (simp add: count)
  have "{?k..<length ?s} \<subseteq> {i. i < length ?s \<and> f m \<le> f (?s ! i)}" using hi by auto
  from card_mono [OF _ this] show "length xs - ?k \<le> length (filter (\<lambda>x. f m \<le> f x) xs)"
    by (simp add: count)
qed

text \<open>
  Without a request and without a Q4_K_M artifact, the choice is a median of the
  unambiguous representations, one per quantization: more than half of them are no larger than
  the chosen one and at least half no smaller, unknown sizes counting as largest.
\<close>

theorem automatic_choice_is_median:
  assumes "select_variant vs None = Inr c"
    and "\<forall>v \<in> set vs. upper (var_quantization v) \<noteq> DEFAULT_GGUF_QUANTIZATION"
    and pref_def: "pref = preferred_gguf_variants vs"
  shows "distinct (map var_quantization pref) \<and> vc_variant c \<in> set pref \<and>
    length pref div 2 < length (filter (\<lambda>v. variant_size_key v \<le> variant_size_key (vc_variant c)) pref) \<and>
    length pref - length pref div 2
      \<le> length (filter (\<lambda>v. variant_size_key (vc_variant c) \<le> variant_size_key v) pref)"
proof -
  have m: "select_median vs = Inr c"
    using assms(1,2) by (auto simp: select_variant_def list_ex_iff split: if_splits)
  then have "pref \<noteq> []" "vc_variant c = sort_key variant_size_key pref ! (length pref div 2)"
    by (auto simp: select_median_def Let_def pref_def split: if_splits)
  from sorted_median_balanced [OF this] show ?thesis
    using select_median_Inr [OF m] preferred_distinct_quantizations [of vs] by (simp add: pref_def)
qed

theorem automatic_choice_is_median_witness:
  "\<exists>c. select_variant example_variants None = Inr c \<and> vc_variant c \<in> set (preferred_gguf_variants example_variants)"
proof -
  have "map_sum id (var_quantization \<circ> vc_variant) (select_variant example_variants None) = Inr ''Q5_K_M''"
    by code_simp
  then obtain c where c: "select_variant example_variants None = Inr c"
    by (cases "select_variant example_variants None") auto
  have "list_all (\<lambda>v. upper (var_quantization v) \<noteq> DEFAULT_GGUF_QUANTIZATION) example_variants"
    by code_simp
  then have "\<forall>v \<in> set example_variants. upper (var_quantization v) \<noteq> DEFAULT_GGUF_QUANTIZATION"
    by (simp add: list_all_iff)
  from automatic_choice_is_median [OF c this refl] c show ?thesis by auto
qed

end
