(* ===== verification/Gguf_Reader.thy ===== *)
theory Gguf_Reader
  imports Py_Prelude "HOL-Library.Word" "HOL-Library.Product_Lexorder"
begin

text \<open>
  The binary reader of GGUF headers (\<^verbatim>\<open>metadata/gguf_reader.py\<close>, \<^verbatim>\<open>domain/gguf.py\<close>,
  \<^verbatim>\<open>domain/artifacts.py\<close>): a cursor over bytes, the key/value table with its nested arrays,
  the partial header that is accepted when the input ends inside the tokenizer, and the tensor
  index of a local file with its validation.

  Bytes are \<open>8 word\<close>s.  A Python text is the list of its UTF-8 bytes, so decoding is a validity
  check.  Floating-point values of the table are kept as their stored bytes: the program never
  computes with them.  An exception carries its kind and, for structural errors, its cause.
\<close>

section \<open>Values and errors\<close>

datatype invalid_cause =
    StringTooLong int
  | NotUtf8
  | UnsupportedVersion int
  | ImplausibleKvCount int
  | ImplausibleArrayLength int
  | UnknownValueType int
  | UnknownArrayElementType int
  | ArrayTooDeep
  | ReadBudgetExceeded
  | ArtifactNotVerified
  | SizeDiffersFromIdentity
  | NotGguf
  | InvalidTensorCount
  | MultipartUnsupported
  | InvalidAlignment
  | BadTensorName
  | InvalidDimensionCount
  | InvalidDimensionsOrOffset
  | UnsupportedTensorType int
  | RowNotBlockAligned
  | OverlappingPayloads
  | PayloadBeyondFile
  | ChangedDuringInspection

datatype gguf_error = HeaderIncomplete | HeaderInvalid invalid_cause

datatype gguf_value =
    GInt int
  | GBool bool
  | GFloat "8 word list"
  | GStr string
  | GList "gguf_value list"

type_synonym kv_table = "(string, gguf_value) dict"

section \<open>The cursor\<close>

text \<open>
  The unread bytes and the offset; a cursor over a local file also has the budget
  \<^verbatim>\<open>MAX_HEADER_DOWNLOAD_BYTES\<close>.
\<close>

record cursor =
  cur_rest :: "8 word list"
  cur_offset :: int
  cur_budget :: "int option"

type_synonym 'a reader = "cursor \<Rightarrow> gguf_error + 'a \<times> cursor"

definition read_bytes :: "nat \<Rightarrow> 8 word list reader" where
  "read_bytes n c =
     (if (case cur_budget c of None \<Rightarrow> False | Some b \<Rightarrow> b < cur_offset c + int n)
      then Inl (HeaderInvalid ReadBudgetExceeded)
      else if length (cur_rest c) < n then Inl HeaderIncomplete
      else Inr (take n (cur_rest c),
        c\<lparr>cur_rest := drop n (cur_rest c), cur_offset := cur_offset c + int n\<rparr>))"

definition bind_reader :: "'a reader \<Rightarrow> ('a \<Rightarrow> 'b reader) \<Rightarrow> 'b reader" where
  "bind_reader m f c = (case m c of Inl e \<Rightarrow> Inl e | Inr (x, c') \<Rightarrow> f x c')"

definition return_reader :: "'a \<Rightarrow> 'a reader" where
  "return_reader x c = Inr (x, c)"

definition fail_reader :: "gguf_error \<Rightarrow> 'a reader" where
  "fail_reader e c = Inl e"

text \<open>Little-endian integers, unsigned and in two's complement.\<close>

fun le_int :: "8 word list \<Rightarrow> int" where
  "le_int [] = 0"
| "le_int (b # bs) = uint b + 256 * le_int bs"

definition signed_of :: "nat \<Rightarrow> int \<Rightarrow> int" where
  "signed_of width n = (if n < 2 ^ (8 * width - 1) then n else n - 2 ^ (8 * width))"

definition read_u32 :: "int reader" where
  "read_u32 = bind_reader (read_bytes 4) (\<lambda>bs. return_reader (le_int bs))"

definition read_u64 :: "int reader" where
  "read_u64 = bind_reader (read_bytes 8) (\<lambda>bs. return_reader (le_int bs))"

text \<open>Strict UTF-8: no overlong forms, no surrogates, nothing above U+10FFFF.\<close>

definition utf8_tail :: "int \<Rightarrow> bool" where
  "utf8_tail b \<longleftrightarrow> 128 \<le> b \<and> b \<le> 191"

fun utf8_valid :: "int list \<Rightarrow> bool" where
  "utf8_valid [] = True"
| "utf8_valid (a # rest) =
     (if a < 128 then utf8_valid rest
      else if 194 \<le> a \<and> a \<le> 223 then
        (case rest of b # r \<Rightarrow> utf8_tail b \<and> utf8_valid r | _ \<Rightarrow> False)
      else if 224 \<le> a \<and> a \<le> 239 then
        (case rest of b # c # r \<Rightarrow>
           utf8_tail b \<and> utf8_tail c \<and> (a = 224 \<longrightarrow> 160 \<le> b) \<and> (a = 237 \<longrightarrow> b \<le> 159) \<and> utf8_valid r
         | _ \<Rightarrow> False)
      else if 240 \<le> a \<and> a \<le> 244 then
        (case rest of b # c # d # r \<Rightarrow>
           utf8_tail b \<and> utf8_tail c \<and> utf8_tail d \<and> (a = 240 \<longrightarrow> 144 \<le> b) \<and> (a = 244 \<longrightarrow> b \<le> 143) \<and>
           utf8_valid r
         | _ \<Rightarrow> False)
      else False)"

definition string_of_bytes :: "8 word list \<Rightarrow> string" where
  "string_of_bytes bs = map (\<lambda>b. char_of (uint b)) bs"

definition read_string :: "string reader" where
  "read_string =
     bind_reader read_u64 (\<lambda>n.
       if 1000000 < n then fail_reader (HeaderInvalid (StringTooLong n))
       else bind_reader (read_bytes (nat n)) (\<lambda>bs.
         if utf8_valid (map uint bs) then return_reader (string_of_bytes bs)
         else fail_reader (HeaderInvalid NotUtf8)))"

section \<open>Values\<close>

definition T_STRING :: int where "T_STRING = 8"

definition T_ARRAY :: int where "T_ARRAY = 9"

text \<open>\<^verbatim>\<open>_FIXED_FORMATS\<close>: the width and how the bytes are unpacked.\<close>

datatype fixed_kind = Unsigned | Signed | Boolean | Floating

definition fixed_format :: "int \<Rightarrow> (fixed_kind \<times> nat) option" where
  "fixed_format =
     map_of [(0, Unsigned, 1), (1, Signed, 1), (2, Unsigned, 2), (3, Signed, 2), (4, Unsigned, 4),
       (5, Signed, 4), (6, Floating, 4), (7, Boolean, 1), (10, Unsigned, 8), (11, Signed, 8),
       (12, Floating, 8)]"

fun unpack_fixed :: "fixed_kind \<Rightarrow> 8 word list \<Rightarrow> gguf_value" where
  "unpack_fixed Unsigned bs = GInt (le_int bs)"
| "unpack_fixed Signed bs = GInt (signed_of (length bs) (le_int bs))"
| "unpack_fixed Boolean bs = GBool (le_int bs \<noteq> 0)"
| "unpack_fixed Floating bs = GFloat bs"

definition read_fixed :: "fixed_kind \<times> nat \<Rightarrow> gguf_value reader" where
  "read_fixed f = bind_reader (read_bytes (snd f)) (\<lambda>bs. return_reader (unpack_fixed (fst f) bs))"

primrec read_repeat :: "'a reader \<Rightarrow> nat \<Rightarrow> 'a list reader" where
  "read_repeat m 0 = return_reader []"
| "read_repeat m (Suc n) =
     bind_reader m (\<lambda>x. bind_reader (read_repeat m n) (\<lambda>xs. return_reader (x # xs)))"

text \<open>
  \<^verbatim>\<open>_read_array(cursor, depth)\<close> with the number of levels still allowed, \<open>33 - depth\<close>, as
  the recursion argument.
\<close>

primrec read_array :: "nat \<Rightarrow> gguf_value list reader" where
  "read_array 0 = fail_reader (HeaderInvalid ArrayTooDeep)"
| "read_array (Suc levels) =
     bind_reader read_u32 (\<lambda>inner. bind_reader read_u64 (\<lambda>count.
       if 10000000 < count then fail_reader (HeaderInvalid (ImplausibleArrayLength count))
       else read_repeat
         (if inner = T_STRING then bind_reader read_string (\<lambda>s. return_reader (GStr s))
          else if inner = T_ARRAY then bind_reader (read_array levels) (\<lambda>xs. return_reader (GList xs))
          else (case fixed_format inner of
            Some f \<Rightarrow> read_fixed f
          | None \<Rightarrow> fail_reader (HeaderInvalid (UnknownArrayElementType inner))))
         (nat count)))"

definition ARRAY_LEVELS :: nat where "ARRAY_LEVELS = 33"

definition read_value :: "gguf_value reader" where
  "read_value =
     bind_reader read_u32 (\<lambda>type_id.
       if type_id = T_STRING then bind_reader read_string (\<lambda>s. return_reader (GStr s))
       else if type_id = T_ARRAY then bind_reader (read_array ARRAY_LEVELS) (\<lambda>xs. return_reader (GList xs))
       else (case fixed_format type_id of
         Some f \<Rightarrow> read_fixed f
       | None \<Rightarrow> fail_reader (HeaderInvalid (UnknownValueType type_id))))"

section \<open>The key/value table\<close>

text \<open>
  The loop over the table.  On an exception the table read so far and the key being read survive,
  because the code passes both in as mutable objects.
\<close>

primrec read_entries ::
  "nat \<Rightarrow> cursor \<Rightarrow> kv_table \<Rightarrow> string list \<Rightarrow>
   (gguf_error \<times> kv_table \<times> string list) + kv_table \<times> cursor" where
  "read_entries 0 c kv reading = Inr (kv, c)"
| "read_entries (Suc n) c kv reading =
     (case read_string c of
        Inl e \<Rightarrow> Inl (e, kv, [])
      | Inr (key, c') \<Rightarrow>
        (case read_value c' of
           Inl e \<Rightarrow> Inl (e, kv, [key])
         | Inr (v, c'') \<Rightarrow> read_entries n c'' (dict_set kv key v) [key]))"

text \<open>Version, tensor count and number of entries.\<close>

definition read_preamble :: "(int \<times> int) reader" where
  "read_preamble =
     bind_reader read_u32 (\<lambda>version.
       if version \<notin> {2, 3} then fail_reader (HeaderInvalid (UnsupportedVersion version))
       else bind_reader read_u64 (\<lambda>tensor_count. bind_reader read_u64 (\<lambda>kv_count.
         if 100000 < kv_count then fail_reader (HeaderInvalid (ImplausibleKvCount kv_count))
         else return_reader (tensor_count, kv_count))))"

definition read_metadata ::
  "cursor \<Rightarrow> (gguf_error \<times> kv_table \<times> string list) + (int \<times> kv_table) \<times> cursor" where
  "read_metadata c =
     (case read_preamble c of
        Inl e \<Rightarrow> Inl (e, [], [])
      | Inr ((tensor_count, kv_count), c') \<Rightarrow>
        (case read_entries (nat kv_count) c' [] [] of
           Inl e \<Rightarrow> Inl e
         | Inr (kv, c'') \<Rightarrow> Inr ((tensor_count, kv), c'')))"

section \<open>The header\<close>

record gguf_header =
  hd_architecture :: "string option"
  hd_name :: "string option"
  hd_quantization_version :: "int option"
  hd_file_type :: "int option"
  hd_context_length :: "int option"
  hd_embedding_length :: "int option"
  hd_block_count :: "int option"
  hd_head_count :: "int option"
  hd_head_count_kv :: "int option"
  hd_rope_dim :: "int option"
  hd_size_label :: "string option"
  hd_source_repository :: "string option"
  hd_is_complete :: bool
  hd_raw_kv :: kv_table

definition str_or_none :: "gguf_value option \<Rightarrow> string option" where
  "str_or_none v = (case v of Some (GStr s) \<Rightarrow> if s = '''' then None else Some s | _ \<Rightarrow> None)"

definition int_or_none :: "gguf_value option \<Rightarrow> int option" where
  "int_or_none v = (case v of Some (GInt n) \<Rightarrow> Some n | _ \<Rightarrow> None)"

definition arch_value :: "kv_table \<Rightarrow> string \<Rightarrow> gguf_value option" where
  "arch_value kv name =
     (case str_or_none (dict_get kv ''general.architecture'') of
        None \<Rightarrow> None
      | Some arch \<Rightarrow> dict_get kv (arch @ ''.'' @ name))"

definition build_header :: "kv_table \<Rightarrow> bool \<Rightarrow> gguf_header" where
  "build_header kv is_complete =
     \<lparr>hd_architecture = str_or_none (dict_get kv ''general.architecture''),
      hd_name = str_or_none (dict_get kv ''general.name''),
      hd_quantization_version = int_or_none (dict_get kv ''general.quantization_version''),
      hd_file_type = int_or_none (dict_get kv ''general.file_type''),
      hd_context_length = int_or_none (arch_value kv ''context_length''),
      hd_embedding_length = int_or_none (arch_value kv ''embedding_length''),
      hd_block_count = int_or_none (arch_value kv ''block_count''),
      hd_head_count = int_or_none (arch_value kv ''attention.head_count''),
      hd_head_count_kv = int_or_none (arch_value kv ''attention.head_count_kv''),
      hd_rope_dim = int_or_none (arch_value kv ''rope.dimension_count''),
      hd_size_label = str_or_none (dict_get kv ''general.size_label''),
      hd_source_repository = str_or_none (dict_get kv ''general.source.huggingface.repository''),
      hd_is_complete = is_complete,
      hd_raw_kv = kv\<rparr>"

definition cut_inside_tokenizer :: "string list \<Rightarrow> bool" where
  "cut_inside_tokenizer reading \<longleftrightarrow> reading \<noteq> [] \<and> startswith (hd reading) ''tokenizer.''"

definition ESTIMATE_KEYS :: "string list" where
  "ESTIMATE_KEYS =
     [''context_length'', ''embedding_length'', ''block_count'', ''attention.head_count'',
      ''attention.head_count_kv'']"

definition has_estimate_keys :: "kv_table \<Rightarrow> bool" where
  "has_estimate_keys kv \<longleftrightarrow>
     str_or_none (dict_get kv ''general.architecture'') \<noteq> None \<and>
     list_all (\<lambda>name. int_or_none (arch_value kv name) \<noteq> None) ESTIMATE_KEYS"

definition MAGIC :: "8 word list" where
  "MAGIC = [0x47, 0x47, 0x55, 0x46]"

text \<open>\<open>Inr None\<close> for data that is not GGUF.\<close>

definition parse_header :: "8 word list \<Rightarrow> gguf_error + gguf_header option" where
  "parse_header data =
     (if length data < 4 then Inl HeaderIncomplete
      else if take 4 data \<noteq> MAGIC then Inr None
      else
        (case read_metadata \<lparr>cur_rest = drop 4 data, cur_offset = 4, cur_budget = None\<rparr> of
           Inr ((tensor_count, kv), c) \<Rightarrow> Inr (Some (build_header kv True))
         | Inl (HeaderIncomplete, kv, reading) \<Rightarrow>
           if cut_inside_tokenizer reading \<and> has_estimate_keys kv
           then Inr (Some (build_header kv False)) else Inl HeaderIncomplete
         | Inl (HeaderInvalid cause, kv, reading) \<Rightarrow> Inl (HeaderInvalid cause)))"

end
