(* ===== verification/Gguf_Reader_Props.thy ===== *)
theory Gguf_Reader_Props
  imports Gguf_Reader
begin

text \<open>
  Correctness of the header reader: more input never changes a finished or a failed read (only
  an incomplete one), and a header written in the format is read back, table and all, whatever
  follows it.
\<close>

section \<open>More input\<close>

definition extend :: "8 word list \<Rightarrow> cursor \<Rightarrow> cursor" where
  "extend extra c = c\<lparr>cur_rest := cur_rest c @ extra\<rparr>"

text \<open>A reader whose successes and structural errors survive more input.\<close>

definition stable :: "'a reader \<Rightarrow> bool" where
  "stable m \<longleftrightarrow>
     (\<forall>c extra.
        (\<forall>x c'. m c = Inr (x, c') \<longrightarrow> m (extend extra c) = Inr (x, extend extra c')) \<and>
        (\<forall>cause. m c = Inl (HeaderInvalid cause) \<longrightarrow> m (extend extra c) = Inl (HeaderInvalid cause)))"

named_theorems stable_intros

lemma stable_Inr: "stable m \<Longrightarrow> m c = Inr (x, c') \<Longrightarrow> m (extend extra c) = Inr (x, extend extra c')"
  by (simp add: stable_def)

lemma stable_Inl: "stable m \<Longrightarrow> m c = Inl (HeaderInvalid e) \<Longrightarrow> m (extend extra c) = Inl (HeaderInvalid e)"
  by (simp add: stable_def)

lemma stable_return [stable_intros]: "stable (return_reader x)"
  by (simp add: stable_def return_reader_def)

lemma stable_fail [stable_intros]: "stable (fail_reader e)"
  by (simp add: stable_def fail_reader_def)

lemma stable_bind [stable_intros]:
  assumes "stable m" "\<And>x. stable (f x)"
  shows "stable (bind_reader m f)"
  unfolding stable_def
proof (intro allI conjI impI)
  fix c extra x c'
  assume "bind_reader m f c = Inr (x, c')"
  then obtain y d where "m c = Inr (y, d)" "f y d = Inr (x, c')"
    by (auto simp: bind_reader_def split: sum.splits)
  then show "bind_reader m f (extend extra c) = Inr (x, extend extra c')"
    using stable_Inr [OF assms(1)] stable_Inr [OF assms(2)] by (simp add: bind_reader_def)
next
  fix c extra cause
  assume "bind_reader m f c = Inl (HeaderInvalid cause)"
  then consider "m c = Inl (HeaderInvalid cause)"
    | y d where "m c = Inr (y, d)" "f y d = Inl (HeaderInvalid cause)"
    by (auto simp: bind_reader_def split: sum.splits)
  then show "bind_reader m f (extend extra c) = Inl (HeaderInvalid cause)"
    by cases (simp_all add: bind_reader_def stable_Inl [OF assms(1)] stable_Inr [OF assms(1)]
        stable_Inl [OF assms(2)])
qed

lemma stable_read_bytes [stable_intros]: "stable (read_bytes n)"
  by (auto simp: stable_def read_bytes_def extend_def split: if_splits option.splits)

lemma stable_if [stable_intros]: "stable m \<Longrightarrow> stable m' \<Longrightarrow> stable (if b then m else m')"
  by simp

lemma stable_case_option [stable_intros]:
  "stable m \<Longrightarrow> (\<And>x. stable (f x)) \<Longrightarrow> stable (case v of None \<Rightarrow> m | Some x \<Rightarrow> f x)"
  by (simp split: option.split)

lemma stable_repeat [stable_intros]: "stable m \<Longrightarrow> stable (read_repeat m n)"
  by (induction n) (auto intro!: stable_intros)

lemma stable_read_u32 [stable_intros]: "stable read_u32" and stable_read_u64 [stable_intros]: "stable read_u64"
  unfolding read_u32_def read_u64_def by (intro stable_intros)+

lemma stable_read_string [stable_intros]: "stable read_string"
  unfolding read_string_def by (intro stable_intros)

lemma stable_read_fixed [stable_intros]: "stable (read_fixed f)"
  unfolding read_fixed_def by (intro stable_intros)

lemma stable_read_array [stable_intros]: "stable (read_array levels)"
proof (induction levels)
  case (Suc levels)
  then show ?case by (simp only: read_array.simps) (intro stable_intros)
qed (simp only: read_array.simps stable_fail)

lemma stable_read_value [stable_intros]: "stable read_value"
  unfolding read_value_def by (intro stable_intros)

lemma stable_read_preamble: "stable read_preamble"
  unfolding read_preamble_def by (intro stable_intros)

lemma read_entries_extend:
  "(\<forall>kv' c'. read_entries n c kv rd = Inr (kv', c') \<longrightarrow>
      read_entries n (extend extra c) kv rd = Inr (kv', extend extra c')) \<and>
   (\<forall>cause kv' rd'. read_entries n c kv rd = Inl (HeaderInvalid cause, kv', rd') \<longrightarrow>
      read_entries n (extend extra c) kv rd = Inl (HeaderInvalid cause, kv', rd'))"
proof (induction n arbitrary: c kv rd)
  case (Suc n)
  show ?case
  proof (cases "read_string c")
    case (Inl e)
    then show ?thesis
      by (cases e) (simp_all add: stable_Inl [OF stable_read_string])
  next
    case (Inr kc)
    then obtain key d where k: "read_string c = Inr (key, d)" by (cases kc) auto
    note k' = stable_Inr [OF stable_read_string k, of extra]
    show ?thesis
    proof (cases "read_value d")
      case (Inl e)
      then show ?thesis using k k'
        by (cases e) (simp_all add: stable_Inl [OF stable_read_value])
    next
      case (Inr vc)
      then obtain v d' where "read_value d = Inr (v, d')" by (cases vc) auto
      from k k' this stable_Inr [OF stable_read_value this, of extra] Suc.IH show ?thesis by simp
    qed
  qed
qed simp

lemma read_metadata_extend:
  "read_metadata c = Inr (r, c') \<Longrightarrow> read_metadata (extend extra c) = Inr (r, extend extra c')"
  "read_metadata c = Inl (HeaderInvalid cause, kv, rd) \<Longrightarrow>
     read_metadata (extend extra c) = Inl (HeaderInvalid cause, kv, rd)"
proof -
  have pre: "read_preamble c = Inr (x, d) \<Longrightarrow> read_preamble (extend extra c) = Inr (x, extend extra d)" for x d
    by (rule stable_Inr [OF stable_read_preamble])
  have bad: "read_preamble c = Inl (HeaderInvalid e) \<Longrightarrow> read_preamble (extend extra c) = Inl (HeaderInvalid e)" for e
    by (rule stable_Inl [OF stable_read_preamble])
  show "read_metadata c = Inr (r, c') \<Longrightarrow> read_metadata (extend extra c) = Inr (r, extend extra c')"
    using read_entries_extend
    by (auto simp: read_metadata_def pre split: sum.splits prod.splits dest!: pre)
  show "read_metadata c = Inl (HeaderInvalid cause, kv, rd) \<Longrightarrow>
     read_metadata (extend extra c) = Inl (HeaderInvalid cause, kv, rd)"
    using read_entries_extend
    by (auto simp: read_metadata_def split: sum.splits prod.splits dest!: pre bad)
qed

lemma parse_header_extend:
  assumes "parse_header data = r" and "r \<noteq> Inl HeaderIncomplete"
    and "\<And>h. r = Inr (Some h) \<Longrightarrow> hd_is_complete h"
  shows "parse_header (data @ extra) = r"
proof -
  let ?c = "\<lparr>cur_rest = drop 4 data, cur_offset = 4, cur_budget = None\<rparr>"
  have len: "\<not> length data < 4" using assms(1,2) by (auto simp: parse_header_def)
  have ext: "\<lparr>cur_rest = drop 4 (data @ extra), cur_offset = 4, cur_budget = None\<rparr> = extend extra ?c"
    using len by (simp add: extend_def)
  note def = parse_header_def [of "data @ extra", unfolded ext]
  show ?thesis
  proof (cases "take 4 data = MAGIC")
    case False
    then show ?thesis using assms(1) len by (simp add: parse_header_def)
  next
    case True
    show ?thesis
    proof (cases "read_metadata ?c")
      case (Inr x)
      then obtain tc kv c' where "read_metadata ?c = Inr ((tc, kv), c')" by (cases x) auto
      with read_metadata_extend(1) [OF this, of extra] assms(1) len True show ?thesis
        by (simp add: def) (simp add: parse_header_def)
    next
      case (Inl x)
      then obtain e kv rd where x: "read_metadata ?c = Inl (e, kv, rd)" by (cases x) auto
      show ?thesis
      proof (cases e)
        case HeaderIncomplete
        with x assms len True show ?thesis
          by (auto simp: parse_header_def build_header_def split: if_splits)
      next
        case (HeaderInvalid cause)
        with x read_metadata_extend(2) [of ?c cause kv rd extra] assms(1) len True show ?thesis
          by (simp add: def) (simp add: parse_header_def)
      qed
    qed
  qed
qed


section \<open>Writing a header\<close>

text \<open>
  What a file stores, with the type codes the format gives it: integers with sign and width,
  booleans, floats as bytes, texts, and arrays with one element type.
\<close>

datatype wire =
    WInt bool nat int
  | WBool bool
  | WFloat "8 word list"
  | WStr string
  | WArr int "wire list"

fun le_bytes :: "nat \<Rightarrow> int \<Rightarrow> 8 word list" where
  "le_bytes 0 n = []"
| "le_bytes (Suc k) n = word_of_int n # le_bytes k (n div 256)"

definition bytes_of_string :: "string \<Rightarrow> 8 word list" where
  "bytes_of_string s = map (\<lambda>c. word_of_int (of_char c)) s"

definition string_bytes :: "string \<Rightarrow> 8 word list" where
  "string_bytes s = le_bytes 8 (int (length s)) @ bytes_of_string s"

fun wire_type :: "wire \<Rightarrow> int" where
  "wire_type (WInt s k n) =
     (if k = 1 then 0 else if k = 2 then 2 else if k = 4 then 4 else 10) + (if s then 1 else 0)"
| "wire_type (WBool b) = 7"
| "wire_type (WFloat bs) = (if length bs = 4 then 6 else 12)"
| "wire_type (WStr s) = T_STRING"
| "wire_type (WArr t ws) = T_ARRAY"

fun wire_bytes :: "wire \<Rightarrow> 8 word list" where
  "wire_bytes (WInt s k n) = le_bytes k n"
| "wire_bytes (WBool b) = [if b then 1 else 0]"
| "wire_bytes (WFloat bs) = bs"
| "wire_bytes (WStr s) = string_bytes s"
| "wire_bytes (WArr t ws) = le_bytes 4 t @ le_bytes 8 (int (length ws)) @ concat (map wire_bytes ws)"

fun wire_value :: "wire \<Rightarrow> gguf_value" where
  "wire_value (WInt s k n) = GInt n"
| "wire_value (WBool b) = GBool b"
| "wire_value (WFloat bs) = GFloat bs"
| "wire_value (WStr s) = GStr s"
| "wire_value (WArr t ws) = GList (map wire_value ws)"

definition string_ok :: "string \<Rightarrow> bool" where
  "string_ok s \<longleftrightarrow> int (length s) \<le> 1000000 \<and> utf8_valid (map of_char s)"

text \<open>Values within the limits of the reader; \<open>levels\<close> bounds the nesting of arrays.\<close>

fun wire_ok :: "nat \<Rightarrow> wire \<Rightarrow> bool" where
  "wire_ok l (WInt s k n) \<longleftrightarrow>
     k \<in> {1, 2, 4, 8} \<and>
     (if s then - (2 ^ (8 * k - 1)) \<le> n \<and> n < 2 ^ (8 * k - 1) else 0 \<le> n \<and> n < 2 ^ (8 * k))"
| "wire_ok l (WBool b) \<longleftrightarrow> True"
| "wire_ok l (WFloat bs) \<longleftrightarrow> length bs \<in> {4, 8}"
| "wire_ok l (WStr s) \<longleftrightarrow> string_ok s"
| "wire_ok 0 (WArr t ws) \<longleftrightarrow> False"
| "wire_ok (Suc l) (WArr t ws) \<longleftrightarrow>
     0 \<le> t \<and> t < 2 ^ 32 \<and> int (length ws) \<le> 10000000 \<and> list_all (\<lambda>w. wire_type w = t \<and> wire_ok l w) ws"

definition entry_bytes :: "string \<times> wire \<Rightarrow> 8 word list" where
  "entry_bytes e = string_bytes (fst e) @ le_bytes 4 (wire_type (snd e)) @ wire_bytes (snd e)"

definition encode_header :: "int \<Rightarrow> int \<Rightarrow> (string \<times> wire) list \<Rightarrow> 8 word list" where
  "encode_header version tensor_count entries =
     MAGIC @ le_bytes 4 version @ le_bytes 8 tensor_count @ le_bytes 8 (int (length entries))
     @ concat (map entry_bytes entries)"

text \<open>The table as a dictionary: later entries overwrite earlier ones of the same key.\<close>

definition table_of :: "(string \<times> wire) list \<Rightarrow> kv_table" where
  "table_of entries = fold (\<lambda>(k, w) kv. dict_set kv k (wire_value w)) entries []"

subsection \<open>Reading it back\<close>

text \<open>\<open>m\<close> consumes exactly \<open>bs\<close>, whatever follows, and returns \<open>x\<close>.\<close>

definition reads :: "'a reader \<Rightarrow> 8 word list \<Rightarrow> 'a \<Rightarrow> bool" where
  "reads m bs x \<longleftrightarrow>
     (\<forall>rest off. m \<lparr>cur_rest = bs @ rest, cur_offset = off, cur_budget = None\<rparr> =
        Inr (x, \<lparr>cur_rest = rest, cur_offset = off + int (length bs), cur_budget = None\<rparr>))"

lemma length_MAGIC [simp]: "length MAGIC = 4"
  by (simp add: MAGIC_def)

lemma reads_bytes: "length bs = n \<Longrightarrow> reads (read_bytes n) bs bs"
  by (simp add: reads_def read_bytes_def)

lemma reads_return: "reads (return_reader x) [] x"
  by (simp add: reads_def return_reader_def)

lemma reads_bind:
  assumes "reads m bs x" "reads (f x) bs' y"
  shows "reads (bind_reader m f) (bs @ bs') y"
  using assms by (simp add: reads_def bind_reader_def add.assoc)

lemma reads_bind_return: "reads m bs x \<Longrightarrow> reads (bind_reader m (\<lambda>x. return_reader (g x))) bs (g x)"
  using reads_bind [of m bs x _ "[]"] reads_return by fastforce

lemma length_le_bytes [simp]: "length (le_bytes k n) = k"
  by (induction k arbitrary: n) simp_all

lemma le_int_le_bytes: "le_int (le_bytes k n) = n mod 2 ^ (8 * k)"
proof (induction k arbitrary: n)
  case (Suc k)
  have "uint (word_of_int n :: 8 word) = n mod 256"
    by (simp add: unsigned_of_int take_bit_eq_mod)
  moreover have "n mod (256 * 2 ^ (8 * k)) = 256 * (n div 256 mod 2 ^ (8 * k)) + n mod 256"
    by (rule zmod_zmult2_eq) simp
  ultimately show ?case using Suc.IH by (simp add: power_add)
qed simp

lemma reads_u32: "0 \<le> n \<Longrightarrow> n < 2 ^ 32 \<Longrightarrow> reads read_u32 (le_bytes 4 n) n"
  unfolding read_u32_def
  using reads_bind_return [OF reads_bytes, of "le_bytes 4 n" 4 le_int]
  by (simp add: le_int_le_bytes)

lemma reads_u64: "0 \<le> n \<Longrightarrow> n < 2 ^ 64 \<Longrightarrow> reads read_u64 (le_bytes 8 n) n"
  unfolding read_u64_def
  using reads_bind_return [OF reads_bytes, of "le_bytes 8 n" 8 le_int]
  by (simp add: le_int_le_bytes)

lemma string_bytes_inverse:
  "map uint (bytes_of_string s) = map of_char s" "string_of_bytes (bytes_of_string s) = s"
proof -
  have u: "uint (word_of_int (of_char c) :: 8 word) = of_char c" for c :: char
    by (simp add: unsigned_of_int take_bit_eq_mod of_nat_of_char)
  show "map uint (bytes_of_string s) = map of_char s" "string_of_bytes (bytes_of_string s) = s"
    by (induction s) (simp_all add: bytes_of_string_def string_of_bytes_def u)
qed

lemma reads_string:
  assumes "string_ok s"
  shows "reads read_string (string_bytes s) s"
proof -
  have n: "int (length s) \<le> 1000000" using assms by (simp add: string_ok_def)
  have len: "length (bytes_of_string s) = length s" by (simp add: bytes_of_string_def)
  have u: "reads read_u64 (le_bytes 8 (int (length s))) (int (length s))"
    using n by (intro reads_u64) simp_all
  have b: "reads (read_bytes (length s)) (bytes_of_string s) (bytes_of_string s)"
    using len by (rule reads_bytes)
  from reads_bind [OF b, of "\<lambda>bs. if utf8_valid (map uint bs) then return_reader (string_of_bytes bs)
      else fail_reader (HeaderInvalid NotUtf8)" "[]" s] n
  show ?thesis
    unfolding read_string_def string_bytes_def
    using assms by (intro reads_bind [OF u]) (simp add: string_bytes_inverse string_ok_def reads_return)
qed

lemma signed_of_mod:
  assumes "0 < k" "- (2 ^ (8 * k - 1)) \<le> n" "n < 2 ^ (8 * k - 1)"
  shows "signed_of k (n mod 2 ^ (8 * k)) = n"
proof -
  have p: "(2 :: int) ^ (8 * k) = 2 * 2 ^ (8 * k - 1)"
    using assms(1) by (simp flip: power_Suc)
  show ?thesis
  proof (cases "0 \<le> n")
    case True
    then have "n mod 2 ^ (8 * k) = n" using assms(3) p by (intro mod_pos_pos_trivial) simp_all
    then show ?thesis using assms(3) by (simp add: signed_of_def)
  next
    case False
    have "n mod 2 ^ (8 * k) = (n + 2 ^ (8 * k)) mod 2 ^ (8 * k)" by simp
    also have "\<dots> = n + 2 ^ (8 * k)"
      using False assms(2) p by (intro mod_pos_pos_trivial) simp_all
    finally have "n mod 2 ^ (8 * k) = n + 2 ^ (8 * k)" .
    then show ?thesis using assms(2) p by (simp add: signed_of_def)
  qed
qed

lemma reads_fixed:
  assumes "length bs = snd f" "unpack_fixed (fst f) bs = v"
  shows "reads (read_fixed f) bs v"
  unfolding read_fixed_def
  using reads_bind_return [OF reads_bytes [OF assms(1)], of "unpack_fixed (fst f)"] assms(2) by simp

definition is_fixed :: "wire \<Rightarrow> bool" where
  "is_fixed w \<longleftrightarrow> (case w of WStr s \<Rightarrow> False | WArr t ws \<Rightarrow> False | _ \<Rightarrow> True)"

lemma fixed_wire:
  assumes "wire_ok l w" "is_fixed w"
  shows "\<exists>f. fixed_format (wire_type w) = Some f \<and> wire_type w \<noteq> T_STRING \<and> wire_type w \<noteq> T_ARRAY \<and>
    reads (read_fixed f) (wire_bytes w) (wire_value w)"
proof (cases w)
  case (WInt s k n)
  have k: "k \<in> {1, 2, 4, 8}" and
    r: "if s then - (2 ^ (8 * k - 1)) \<le> n \<and> n < 2 ^ (8 * k - 1) else 0 \<le> n \<and> n < 2 ^ (8 * k)"
    using assms(1) unfolding WInt wire_ok.simps(1) by (rule conjunct1, rule conjunct2)
  have "fixed_format (wire_type w) = Some (if s then Signed else Unsigned, k)"
    "wire_type w \<noteq> T_STRING" "wire_type w \<noteq> T_ARRAY"
    using k by (auto simp: WInt fixed_format_def T_STRING_def T_ARRAY_def)
  moreover have "unpack_fixed (if s then Signed else Unsigned) (le_bytes k n) = GInt n"
    using k r signed_of_mod [of k n] by (auto simp: le_int_le_bytes)
  ultimately show ?thesis
    using reads_fixed [of "le_bytes k n" "(if s then Signed else Unsigned, k)"] by (simp add: WInt)
next
  case (WBool b)
  have "reads (read_fixed (Boolean, 1)) [if b then 1 else 0] (GBool b)"
    by (rule reads_fixed) simp_all
  then show ?thesis by (simp add: WBool fixed_format_def T_STRING_def T_ARRAY_def)
next
  case (WFloat bs)
  have "reads (read_fixed (Floating, length bs)) bs (GFloat bs)"
    by (rule reads_fixed) simp_all
  then show ?thesis using assms(1) by (auto simp: WFloat fixed_format_def T_STRING_def T_ARRAY_def)
qed (use assms(2) in \<open>simp_all add: is_fixed_def\<close>)

lemma reads_repeat:
  assumes "\<And>w. w \<in> set ws \<Longrightarrow> reads m (f w) (g w)"
  shows "reads (read_repeat m (length ws)) (concat (map f ws)) (map g ws)"
  using assms
proof (induction ws)
  case (Cons w ws)
  have "reads m (f w) (g w)" "reads (read_repeat m (length ws)) (concat (map f ws)) (map g ws)"
    using Cons by simp_all
  then show ?case
    by (auto intro!: reads_bind reads_bind_return)
qed (simp add: reads_return)

lemma wire_type_bounds: "wire_ok l w \<Longrightarrow> 0 \<le> wire_type w \<and> wire_type w < 2 ^ 32"
  by (cases w) (auto simp: T_STRING_def T_ARRAY_def)

text \<open>The reader of one array element of the given type.\<close>

definition element_reader :: "nat \<Rightarrow> int \<Rightarrow> gguf_value reader" where
  "element_reader levels inner =
     (if inner = T_STRING then bind_reader read_string (\<lambda>s. return_reader (GStr s))
      else if inner = T_ARRAY then bind_reader (read_array levels) (\<lambda>xs. return_reader (GList xs))
      else (case fixed_format inner of
        Some f \<Rightarrow> read_fixed f
      | None \<Rightarrow> fail_reader (HeaderInvalid (UnknownArrayElementType inner))))"

lemma element_reader_fixed_or_string:
  assumes "wire_ok l w" "\<And>t ws. w \<noteq> WArr t ws"
  shows "reads (element_reader levels (wire_type w)) (wire_bytes w) (wire_value w)"
proof (cases "is_fixed w")
  case True
  from fixed_wire [OF assms(1) this] show ?thesis by (auto simp: element_reader_def)
next
  case False
  then obtain s where "w = WStr s" using assms(2) by (cases w) (auto simp: is_fixed_def)
  then show ?thesis
    using assms(1) reads_bind_return [OF reads_string, of s GStr] by (simp add: element_reader_def)
qed

lemma reads_array:
  "wire_ok levels (WArr t ws) \<Longrightarrow> reads (read_array levels) (wire_bytes (WArr t ws)) (map wire_value ws)"
proof (induction levels arbitrary: t ws)
  case (Suc levels)
  have ok: "0 \<le> t" "t < 2 ^ 32" "int (length ws) \<le> 10000000" "\<And>w. w \<in> set ws \<Longrightarrow> wire_type w = t \<and> wire_ok levels w"
    using Suc.prems by (simp_all add: list_all_iff)
  have el: "reads (element_reader levels t) (wire_bytes w) (wire_value w)" if w: "w \<in> set ws" for w
  proof (cases "\<exists>t' ws'. w = WArr t' ws'")
    case True
    then obtain t' ws' where a: "w = WArr t' ws'" by blast
    then have "t = T_ARRAY" "wire_ok levels (WArr t' ws')" using ok(4) [OF w] by auto
    with Suc.IH [of t' ws'] a show ?thesis
      by (auto simp: element_reader_def T_ARRAY_def T_STRING_def intro: reads_bind_return)
  next
    case False
    with element_reader_fixed_or_string [of levels w levels] ok(4) [OF w] show ?thesis by auto
  qed
  have n: "int (length ws) \<le> 10000000" using ok(3) by simp
  have body: "reads (read_repeat (element_reader levels t) (length ws)) (concat (map wire_bytes ws)) (map wire_value ws)"
    using el by (rule reads_repeat)
  have c: "reads read_u64 (le_bytes 8 (int (length ws))) (int (length ws))"
    using n by (intro reads_u64) simp_all
  show ?case
    unfolding read_array.simps(2) wire_bytes.simps element_reader_def [symmetric]
    by (rule reads_bind [OF reads_u32 [OF ok(1,2)]], rule reads_bind [OF c]) (use n body in simp)
qed simp

lemma reads_value:
  assumes "wire_ok ARRAY_LEVELS w"
  shows "reads read_value (le_bytes 4 (wire_type w) @ wire_bytes w) (wire_value w)"
proof -
  have t: "reads read_u32 (le_bytes 4 (wire_type w)) (wire_type w)"
    using wire_type_bounds [OF assms] by (intro reads_u32) auto
  show ?thesis
    unfolding read_value_def
  proof (rule reads_bind [OF t])
    show "reads (if wire_type w = T_STRING then bind_reader read_string (\<lambda>s. return_reader (GStr s))
       else if wire_type w = T_ARRAY
       then bind_reader (read_array ARRAY_LEVELS) (\<lambda>xs. return_reader (GList xs))
       else (case fixed_format (wire_type w) of
         Some f \<Rightarrow> read_fixed f
       | None \<Rightarrow> fail_reader (HeaderInvalid (UnknownValueType (wire_type w)))))
      (wire_bytes w) (wire_value w)"
    proof (cases "is_fixed w")
      case True
      from fixed_wire [OF assms this] show ?thesis by auto
    next
      case False
      then consider s where "w = WStr s" | t ws where "w = WArr t ws"
        by (cases w) (auto simp: is_fixed_def)
      then show ?thesis
      proof cases
        case 1
        then show ?thesis
          using assms reads_bind_return [OF reads_string, of s GStr] by simp
      next
        case 2
        then show ?thesis
          using reads_bind_return [OF reads_array, of ARRAY_LEVELS t ws GList] assms
          by (simp add: T_ARRAY_def T_STRING_def)
      qed
    qed
  qed
qed

lemma reads_entries:
  assumes "\<forall>(k, w) \<in> set entries. string_ok k \<and> wire_ok ARRAY_LEVELS w"
  shows "\<exists>c'. read_entries (length entries)
      \<lparr>cur_rest = concat (map entry_bytes entries) @ rest, cur_offset = off, cur_budget = None\<rparr> kv rd =
    Inr (fold (\<lambda>(k, w) kv. dict_set kv k (wire_value w)) entries kv, c')"
  using assms
proof (induction entries arbitrary: off kv rd)
  case (Cons e entries)
  obtain k w where e: "e = (k, w)" by (cases e)
  have ok: "string_ok k" "wire_ok ARRAY_LEVELS w" using Cons.prems by (simp_all add: e)
  let ?rest = "concat (map entry_bytes entries) @ rest"
  have s: "read_string \<lparr>cur_rest = string_bytes k @ (le_bytes 4 (wire_type w) @ wire_bytes w) @ ?rest,
      cur_offset = off, cur_budget = None\<rparr> = Inr (k, \<lparr>cur_rest = (le_bytes 4 (wire_type w) @ wire_bytes w) @ ?rest,
        cur_offset = off + int (length (string_bytes k)), cur_budget = None\<rparr>)"
    using reads_string [OF ok(1)] by (simp only: reads_def)
  have v: "read_value \<lparr>cur_rest = (le_bytes 4 (wire_type w) @ wire_bytes w) @ ?rest, cur_offset = off', cur_budget = None\<rparr>
      = Inr (wire_value w, \<lparr>cur_rest = ?rest,
          cur_offset = off' + int (length (le_bytes 4 (wire_type w) @ wire_bytes w)), cur_budget = None\<rparr>)" for off'
    using reads_value [OF ok(2)] by (simp only: reads_def)
  have c: "concat (map entry_bytes (e # entries)) @ rest
      = string_bytes k @ (le_bytes 4 (wire_type w) @ wire_bytes w) @ ?rest"
    by (simp add: e entry_bytes_def)
  show ?case
    unfolding c length_Cons read_entries.simps s sum.case prod.case v
    using Cons.IH Cons.prems by (simp add: e)
qed simp

text \<open>
  C10. The reader inverts the format: a header written with version 2 or 3, any tensor count and
  any table within the limits (texts of valid UTF-8 up to a million bytes, integers in the range
  of their type, homogeneous arrays up to the nesting limit) parses to exactly the values that
  were written, later duplicates of a key winning, whatever bytes follow.
\<close>

theorem parse_header_inverts_encoding:
  assumes "version \<in> {2, 3}" and "0 \<le> tensor_count" and "tensor_count < 2 ^ 64"
    and "int (length entries) \<le> 100000"
    and "\<forall>(k, w) \<in> set entries. string_ok k \<and> wire_ok ARRAY_LEVELS w"
  shows "parse_header (encode_header version tensor_count entries @ rest) =
    Inr (Some (build_header (table_of entries) True))"
proof -
  let ?body = "concat (map entry_bytes entries) @ rest"
  have n: "int (length entries) \<le> 100000" using assms(4) by simp
  have c: "reads read_u64 (le_bytes 8 (int (length entries))) (int (length entries))"
    using n by (intro reads_u64) simp_all
  have "reads read_preamble (le_bytes 4 version @ le_bytes 8 tensor_count @ le_bytes 8 (int (length entries)))
      (tensor_count, int (length entries))"
    unfolding read_preamble_def
    using assms(1-3) n reads_return
    by (intro reads_bind [OF reads_u32]) (auto intro!: reads_bind [OF reads_u64] reads_bind [OF c, of _ "[]", simplified])
  then have p: "read_preamble \<lparr>cur_rest = le_bytes 4 version @ le_bytes 8 tensor_count @
      le_bytes 8 (int (length entries)) @ ?body, cur_offset = 4, cur_budget = None\<rparr> =
    Inr ((tensor_count, int (length entries)), \<lparr>cur_rest = ?body, cur_offset = 24, cur_budget = None\<rparr>)"
    by (simp add: reads_def)
  from reads_entries [OF assms(5), of rest 24 "[]" "[]"] obtain c' where
    "read_entries (length entries) \<lparr>cur_rest = ?body, cur_offset = 24, cur_budget = None\<rparr> [] [] =
      Inr (table_of entries, c')"
    by (auto simp: table_of_def)
  with p show ?thesis
    by (simp add: parse_header_def encode_header_def read_metadata_def)
qed

definition example_entries :: "(string \<times> wire) list" where
  "example_entries =
     [(''general.architecture'', WStr ''qwen2''), (''qwen2.context_length'', WInt False 4 32768),
      (''qwen2.embedding_length'', WInt False 4 3584), (''qwen2.block_count'', WInt False 4 28),
      (''qwen2.attention.head_count'', WInt False 4 28), (''qwen2.attention.head_count_kv'', WInt False 4 4),
      (''tokenizer.ggml.tokens'', WArr 8 [WStr ''a'', WStr ''b''])]"

lemma example_entries_ok: "\<forall>(k, w) \<in> set example_entries. string_ok k \<and> wire_ok ARRAY_LEVELS w"
proof -
  have "list_all (\<lambda>(k, w). string_ok k \<and> wire_ok ARRAY_LEVELS w) example_entries" by code_simp
  then show ?thesis by (simp only: list_all_iff)
qed

theorem parse_header_inverts_encoding_witness:
  "map_sum id (map_option hd_block_count) (parse_header (encode_header 3 339 example_entries @ [7, 7])) =
     Inr (Some (Some 28))"
proof -
  have "int (length example_entries) \<le> 100000" by (simp add: example_entries_def)
  moreover have "hd_block_count (build_header (table_of example_entries) True) = Some 28" by code_simp
  ultimately show ?thesis
    using parse_header_inverts_encoding [of 3 339 example_entries "[7, 7]"] example_entries_ok by simp
qed


text \<open>
  A partial header is only accepted when it is enough: if the input ended inside the
  tokenizer and a header is returned nevertheless, it is marked incomplete and every value the
  memory estimate reads (context and embedding length, blocks, both head counts) is present.
\<close>

theorem partial_header_is_sufficient:
  assumes "parse_header data = Inr (Some h)" and "\<not> hd_is_complete h"
  shows "hd_architecture h \<noteq> None \<and> hd_context_length h \<noteq> None \<and> hd_embedding_length h \<noteq> None \<and>
    hd_block_count h \<noteq> None \<and> hd_head_count h \<noteq> None \<and> hd_head_count_kv h \<noteq> None"
proof -
  obtain kv where "h = build_header kv False" "has_estimate_keys kv"
    using assms
    by (auto simp: parse_header_def build_header_def split: if_splits sum.splits gguf_error.splits prod.splits)
  then show ?thesis by (simp add: build_header_def has_estimate_keys_def ESTIMATE_KEYS_def)
qed

theorem partial_header_is_sufficient_witness:
  "\<exists>h. parse_header (take 320 (encode_header 3 339 example_entries)) = Inr (Some h) \<and>
     \<not> hd_is_complete h \<and> hd_block_count h \<noteq> None \<and> hd_head_count_kv h \<noteq> None"
proof -
  have "map_sum id (map_option hd_is_complete) (parse_header (take 320 (encode_header 3 339 example_entries)))
      = Inr (Some False)"
    by code_simp
  then obtain h where h: "parse_header (take 320 (encode_header 3 339 example_entries)) = Inr (Some h)"
    "\<not> hd_is_complete h"
    by (cases "parse_header (take 320 (encode_header 3 339 example_entries))") auto
  from partial_header_is_sufficient [OF this] h show ?thesis by auto
qed

end
