(* ===== verification/Gguf_Tensors.thy ===== *)
theory Gguf_Tensors
  imports Gguf_Reader_Props
begin

unbundle bit_operations_syntax

text \<open>
  The tensor index of a verified local GGUF file (\<^verbatim>\<open>read_local_tensor_index\<close> of
  \<^verbatim>\<open>metadata/gguf_reader.py\<close>) and the identity of artifacts (\<^verbatim>\<open>domain/artifacts.py\<close>).
  The bytes of the file and the two \<^verbatim>\<open>fstat\<close> results are arguments; opening the file is not
  modelled.  The lemmas show that an index that is returned describes payloads that are aligned,
  disjoint and inside the file.
\<close>

section \<open>Artifacts\<close>

record model_artifact =
  ma_repo_id :: string
  ma_revision :: string
  ma_filename :: string
  ma_format :: string
  ma_quantization :: "string option"
  ma_size_bytes :: "int option"
  ma_local_path :: "string option"
  ma_sha256 :: "string option"
  ma_is_downloaded :: bool
  ma_is_verified :: bool

record artifact_identity =
  ai_repo_id :: string
  ai_revision :: string
  ai_filename :: string
  ai_format :: string
  ai_quantization :: "string option"

definition identity_of :: "model_artifact \<Rightarrow> artifact_identity" where
  "identity_of a =
     \<lparr>ai_repo_id = ma_repo_id a, ai_revision = ma_revision a, ai_filename = ma_filename a,
      ai_format = ma_format a, ai_quantization = ma_quantization a\<rparr>"

definition known_equal :: "'a option \<Rightarrow> 'a option \<Rightarrow> bool" where
  "known_equal x y \<longleftrightarrow> x = None \<or> y = None \<or> x = y"

definition artifact_identity_matches :: "model_artifact \<Rightarrow> model_artifact \<Rightarrow> bool" where
  "artifact_identity_matches l r \<longleftrightarrow>
     identity_of l = identity_of r \<and> known_equal (ma_size_bytes l) (ma_size_bytes r) \<and>
     known_equal (map_option lower (ma_sha256 l)) (map_option lower (ma_sha256 r))"

section \<open>Tensor descriptors\<close>

record gguf_tensor =
  gt_name :: string
  gt_dimensions :: "int list"
  gt_type_id :: int
  gt_offset :: int
  gt_size_bytes :: int

record gguf_tensor_index =
  ti_artifact :: model_artifact
  ti_architecture :: "string option"
  ti_block_count :: "int option"
  ti_alignment :: int
  ti_data_offset :: int
  ti_file_size_bytes :: int
  ti_tensors :: "gguf_tensor list"

definition MAX_HEADER_DOWNLOAD_BYTES :: int where
  "MAX_HEADER_DOWNLOAD_BYTES = 8 * (1024 * 1024)"

text \<open>Elements per quantization block and stored bytes of one block.\<close>

definition tensor_block_layout :: "int \<Rightarrow> (int \<times> int) option" where
  "tensor_block_layout =
     map_of [(0, 1, 4), (1, 1, 2), (2, 32, 18), (3, 32, 20), (6, 32, 22), (7, 32, 24), (8, 32, 34),
       (10, 256, 84), (11, 256, 110), (12, 256, 144), (13, 256, 176), (14, 256, 210), (15, 256, 292)]"

definition read_dimensions :: "int list reader" where
  "read_dimensions =
     bind_reader read_u32 (\<lambda>n.
       if \<not> (1 \<le> n \<and> n \<le> 4) then fail_reader (HeaderInvalid InvalidDimensionCount)
       else read_repeat read_u64 (nat n))"

definition check_descriptor ::
  "int \<Rightarrow> string \<Rightarrow> int list \<Rightarrow> int \<Rightarrow> int \<Rightarrow> gguf_error + gguf_tensor" where
  "check_descriptor alignment name dims type_id offset =
     (if list_ex (\<lambda>d. d \<le> 0) dims \<or> offset mod alignment \<noteq> 0
      then Inl (HeaderInvalid InvalidDimensionsOrOffset)
      else case tensor_block_layout type_id of
        None \<Rightarrow> Inl (HeaderInvalid (UnsupportedTensorType type_id))
      | Some (elements, block_size) \<Rightarrow>
        if hd dims mod elements \<noteq> 0 then Inl (HeaderInvalid RowNotBlockAligned)
        else Inr \<lparr>gt_name = name, gt_dimensions = dims, gt_type_id = type_id, gt_offset = offset,
               gt_size_bytes = prod_list dims div elements * block_size\<rparr>)"

definition lift_result :: "gguf_error + 'a \<Rightarrow> 'a reader" where
  "lift_result r c = (case r of Inl e \<Rightarrow> Inl e | Inr x \<Rightarrow> Inr (x, c))"

definition read_descriptor :: "int \<Rightarrow> string list \<Rightarrow> gguf_tensor reader" where
  "read_descriptor alignment names =
     bind_reader read_string (\<lambda>name.
       if name = '''' \<or> name \<in> set names then fail_reader (HeaderInvalid BadTensorName)
       else bind_reader read_dimensions (\<lambda>dims. bind_reader read_u32 (\<lambda>type_id.
         bind_reader read_u64 (\<lambda>offset.
           lift_result (check_descriptor alignment name dims type_id offset)))))"

primrec read_descriptors :: "int \<Rightarrow> nat \<Rightarrow> string list \<Rightarrow> gguf_tensor list reader" where
  "read_descriptors alignment 0 names = return_reader []"
| "read_descriptors alignment (Suc n) names =
     bind_reader (read_descriptor alignment names) (\<lambda>t.
       bind_reader (read_descriptors alignment n (gt_name t # names)) (\<lambda>ts. return_reader (t # ts)))"

section \<open>Validation\<close>

text \<open>Python's \<^verbatim>\<open>==\<close> between a table value and an integer, IEEE floats included.\<close>

definition float_bytes_equal :: "8 word list \<Rightarrow> int \<Rightarrow> bool" where
  "float_bytes_equal bs n =
     (let (fraction_bits, exponent_bits, bias) =
        (if length bs = 4 then (23 :: nat, 8 :: nat, 127 :: int) else (52, 11, 1023));
        raw = le_int bs;
        fraction = raw mod 2 ^ fraction_bits;
        e = raw div 2 ^ fraction_bits mod 2 ^ exponent_bits;
        negative = 2 ^ (fraction_bits + exponent_bits) \<le> raw;
        m = (if e = 0 then fraction else fraction + 2 ^ fraction_bits);
        x = (if e = 0 then 1 else e) - bias - int fraction_bits in
      e \<noteq> 2 ^ exponent_bits - 1 \<and>
      float_eq (PyFloat (if negative then - m else m) x) (PyFloat n 0))"

fun value_equals_int :: "gguf_value \<Rightarrow> int \<Rightarrow> bool" where
  "value_equals_int (GInt m) n = (m = n)"
| "value_equals_int (GBool b) n = ((if b then 1 else 0) = n)"
| "value_equals_int (GFloat bs) n = float_bytes_equal bs n"
| "value_equals_int (GStr s) n = False"
| "value_equals_int (GList xs) n = False"

definition is_multipart :: "kv_table \<Rightarrow> bool" where
  "is_multipart kv \<longleftrightarrow>
     (case dict_get kv ''split.count'' of None \<Rightarrow> False | Some v \<Rightarrow> \<not> value_equals_int v 1) \<or>
     (case dict_get kv ''split.no'' of None \<Rightarrow> False | Some v \<Rightarrow> \<not> value_equals_int v 0)"

definition table_alignment :: "kv_table \<Rightarrow> int option" where
  "table_alignment kv =
     (case dict_get kv ''general.alignment'' of
        None \<Rightarrow> Some 32
      | Some (GInt a) \<Rightarrow> if a \<le> 0 \<or> 4096 < a \<or> a AND (a - 1) \<noteq> 0 then None else Some a
      | _ \<Rightarrow> None)"

definition align_up :: "int \<Rightarrow> int \<Rightarrow> int" where
  "align_up n alignment = (n + alignment - 1) div alignment * alignment"

text \<open>The loop over the tensors in the order of their offsets.\<close>

fun check_payloads :: "int \<Rightarrow> int \<Rightarrow> int \<Rightarrow> gguf_tensor list \<Rightarrow> gguf_error option" where
  "check_payloads data_offset file_size previous_end [] = None"
| "check_payloads data_offset file_size previous_end (t # ts) =
     (if gt_offset t < previous_end then Some (HeaderInvalid OverlappingPayloads)
      else if file_size < data_offset + (gt_offset t + gt_size_bytes t)
      then Some (HeaderInvalid PayloadBeyondFile)
      else check_payloads data_offset file_size (gt_offset t + gt_size_bytes t) ts)"

text \<open>The size and the modification time of the two \<^verbatim>\<open>fstat\<close> calls.\<close>

type_synonym file_stat = "int \<times> int"

definition artifact_readable :: "model_artifact \<Rightarrow> bool" where
  "artifact_readable a \<longleftrightarrow>
     lower (ma_format a) = ''gguf'' \<and> ma_local_path a \<noteq> None \<and> ma_is_downloaded a \<and> ma_is_verified a"

text \<open>The table with its checks, then the descriptors; the cursor stops at the end of both.\<close>

definition read_table_and_descriptors :: "((kv_table \<times> int) \<times> gguf_tensor list) reader" where
  "read_table_and_descriptors c =
     (case read_metadata c of
        Inl (e, _, _) \<Rightarrow> Inl e
      | Inr ((n_tensors, kv), c') \<Rightarrow>
        if \<not> (0 < n_tensors \<and> n_tensors \<le> 100000) then Inl (HeaderInvalid InvalidTensorCount)
        else if is_multipart kv then Inl (HeaderInvalid MultipartUnsupported)
        else (case table_alignment kv of
            None \<Rightarrow> Inl (HeaderInvalid InvalidAlignment)
          | Some alignment \<Rightarrow>
            (case read_descriptors alignment (nat n_tensors) [] c' of
               Inl e \<Rightarrow> Inl e
             | Inr (ts, c'') \<Rightarrow> Inr (((kv, alignment), ts), c''))))"

definition read_index_body :: "((kv_table \<times> int) \<times> gguf_tensor list) reader" where
  "read_index_body =
     bind_reader (read_bytes 4) (\<lambda>magic.
       if magic \<noteq> MAGIC then fail_reader (HeaderInvalid NotGguf) else read_table_and_descriptors)"

definition read_local_tensor_index ::
  "model_artifact \<Rightarrow> 8 word list \<Rightarrow> file_stat \<Rightarrow> file_stat \<Rightarrow> gguf_error + gguf_tensor_index" where
  "read_local_tensor_index a data before after =
     (if \<not> artifact_readable a then Inl (HeaderInvalid ArtifactNotVerified)
      else if ma_size_bytes a \<noteq> None \<and> ma_size_bytes a \<noteq> Some (fst before)
      then Inl (HeaderInvalid SizeDiffersFromIdentity)
      else
        (case read_index_body \<lparr>cur_rest = data, cur_offset = 0, cur_budget = Some MAX_HEADER_DOWNLOAD_BYTES\<rparr> of
           Inl e \<Rightarrow> Inl e
         | Inr (((kv, alignment), tensors), c) \<Rightarrow>
           let data_offset = align_up (cur_offset c) alignment in
           (case check_payloads data_offset (fst before) 0 (sort_key gt_offset tensors) of
              Some e \<Rightarrow> Inl e
            | None \<Rightarrow>
              if before \<noteq> after then Inl (HeaderInvalid ChangedDuringInspection)
              else
                let header = build_header kv True;
                    blocks = (case hd_architecture header of
                        None \<Rightarrow> int_or_none (dict_get kv ''None.block_count'')
                      | Some arch \<Rightarrow> int_or_none (dict_get kv (arch @ ''.block_count'')))
                in Inr \<lparr>ti_artifact = a, ti_architecture = hd_architecture header,
                     ti_block_count = (case blocks of None \<Rightarrow> None | Some n \<Rightarrow> if 0 < n then Some n else None),
                     ti_alignment = alignment, ti_data_offset = data_offset,
                     ti_file_size_bytes = fst before, ti_tensors = tensors\<rparr>)))"

section \<open>A returned index is consistent\<close>

lemma bind_reader_Inr:
  "bind_reader m f c = Inr (y, d) \<longleftrightarrow> (\<exists>x c'. m c = Inr (x, c') \<and> f x c' = Inr (y, d))"
  by (auto simp: bind_reader_def split: sum.splits)

lemma return_reader_Inr [simp]: "return_reader x c = Inr (y, d) \<longleftrightarrow> y = x \<and> d = c"
  by (auto simp: return_reader_def)

lemma fail_reader_Inr [simp]: "fail_reader e c \<noteq> Inr r"
  by (simp add: fail_reader_def)

lemma lift_result_Inr [simp]: "lift_result r c = Inr (y, d) \<longleftrightarrow> r = Inr y \<and> d = c"
  by (auto simp: lift_result_def split: sum.splits)

lemma read_index_body_Inr:
  assumes "read_index_body c = Inr (((kv, alignment), ts), d)"
  shows "\<exists>n c'. 0 < n \<and> read_descriptors alignment n [] c' = Inr (ts, d)"
proof -
  obtain c0 where t: "read_table_and_descriptors c0 = Inr (((kv, alignment), ts), d)"
    using assms by (auto simp: read_index_body_def bind_reader_Inr split: if_splits)
  then obtain n kv' c1 where m: "read_metadata c0 = Inr ((n, kv'), c1)"
    by (auto simp: read_table_and_descriptors_def split: sum.splits)
  with t have "0 < nat n \<and> read_descriptors alignment (nat n) [] c1 = Inr (ts, d)"
    by (auto simp: read_table_and_descriptors_def split: if_splits option.splits sum.splits)
  then show ?thesis by blast
qed

definition descriptor_ok :: "int \<Rightarrow> gguf_tensor \<Rightarrow> bool" where
  "descriptor_ok alignment t \<longleftrightarrow>
     gt_name t \<noteq> '''' \<and> gt_offset t mod alignment = 0 \<and> (\<forall>d \<in> set (gt_dimensions t). 0 < d) \<and>
     (\<exists>elements block_size. tensor_block_layout (gt_type_id t) = Some (elements, block_size) \<and>
        hd (gt_dimensions t) mod elements = 0 \<and>
        gt_size_bytes t = prod_list (gt_dimensions t) div elements * block_size)"

lemma read_descriptor_ok:
  assumes "read_descriptor alignment names c = Inr (t, c')"
  shows "descriptor_ok alignment t \<and> gt_name t \<notin> set names"
proof -
  obtain name dims ty off where "name \<noteq> ''''" "name \<notin> set names"
    "check_descriptor alignment name dims ty off = Inr t"
    using assms by (auto simp: read_descriptor_def bind_reader_Inr split: if_splits sum.splits)
  then show ?thesis
    by (auto simp: check_descriptor_def descriptor_ok_def list_ex_iff not_le split: if_splits option.splits)
qed

lemma read_descriptors_ok:
  "read_descriptors alignment n names c = Inr (ts, c') \<Longrightarrow>
     (\<forall>t \<in> set ts. descriptor_ok alignment t) \<and> distinct (map gt_name ts) \<and>
     set (map gt_name ts) \<inter> set names = {} \<and> length ts = n"
proof (induction n arbitrary: names c ts)
  case (Suc n)
  then obtain t us d where d: "read_descriptor alignment names c = Inr (t, d)" "ts = t # us"
    and us: "read_descriptors alignment n (gt_name t # names) d = Inr (us, c')"
    by (auto simp: bind_reader_Inr)
  from Suc.IH [OF us] read_descriptor_ok [OF d(1)] d(2) show ?case by auto
qed (simp add: return_reader_def)

text \<open>The end of a payload, relative to the data offset.\<close>

definition payload_end :: "gguf_tensor \<Rightarrow> int" where
  "payload_end t = gt_offset t + gt_size_bytes t"

lemma check_payloads_None:
  assumes "check_payloads d s e ts = None" "\<forall>t \<in> set ts. 0 \<le> gt_size_bytes t"
  shows "sorted_wrt (\<lambda>t u. payload_end t \<le> gt_offset u) ts \<and>
    (\<forall>t \<in> set ts. e \<le> gt_offset t \<and> d + payload_end t \<le> s)"
  using assms
proof (induction d s e ts rule: check_payloads.induct)
  case (2 d s e t ts)
  from 2(2) have no: "\<not> gt_offset t < e" "\<not> s < d + (gt_offset t + gt_size_bytes t)"
    and rest: "check_payloads d s (gt_offset t + gt_size_bytes t) ts = None"
    by (auto split: if_splits)
  from 2(1) [OF no rest] 2(3) no show ?case
    by (fastforce simp: payload_end_def)
qed simp

lemma layout_positive: "tensor_block_layout ty = Some (el, sz) \<Longrightarrow> 0 < el \<and> 0 < sz"
  by (auto simp: tensor_block_layout_def split: if_splits)

lemma prod_list_pos: "(\<forall>d \<in> set ds. 0 < d) \<Longrightarrow> 0 < prod_list (ds :: int list)"
  by (induction ds) simp_all

lemma descriptor_size_nonneg: "descriptor_ok alignment t \<Longrightarrow> 0 \<le> gt_size_bytes t"
  using layout_positive prod_list_pos [of "gt_dimensions t"]
  by (fastforce simp: descriptor_ok_def pos_imp_zdiv_nonneg_iff)

lemma disjoint_payloads:
  assumes "sorted_wrt (\<lambda>t u. payload_end t \<le> gt_offset u) ts" "t \<in> set ts" "u \<in> set ts" "t \<noteq> u"
  shows "payload_end t \<le> gt_offset u \<or> payload_end u \<le> gt_offset t"
  using assms by (induction ts) auto

text \<open>
  C13. A tensor index that is returned is consistent: names are distinct and not empty, every
  tensor has positive dimensions, an aligned offset and the size its block layout prescribes, the
  payloads are pairwise disjoint and end inside the file, and the file did not change meanwhile.
\<close>

theorem tensor_index_consistent:
  assumes "read_local_tensor_index a data before after = Inr ix"
  shows "distinct (map gt_name (ti_tensors ix)) \<and>
    (\<forall>t \<in> set (ti_tensors ix). descriptor_ok (ti_alignment ix) t \<and> 0 \<le> gt_offset t \<and>
       ti_data_offset ix + payload_end t \<le> ti_file_size_bytes ix) \<and>
    (\<forall>t \<in> set (ti_tensors ix). \<forall>u \<in> set (ti_tensors ix). t \<noteq> u \<longrightarrow>
       payload_end t \<le> gt_offset u \<or> payload_end u \<le> gt_offset t) \<and>
    ti_file_size_bytes ix = fst before \<and> before = after \<and> ti_tensors ix \<noteq> []"
proof -
  from assms obtain kv alignment tensors c where body: "read_index_body
      \<lparr>cur_rest = data, cur_offset = 0, cur_budget = Some MAX_HEADER_DOWNLOAD_BYTES\<rparr>
        = Inr (((kv, alignment), tensors), c)"
    and chk: "check_payloads (align_up (cur_offset c) alignment) (fst before) 0 (sort_key gt_offset tensors) = None"
    and ix: "before = after" "ti_tensors ix = tensors" "ti_alignment ix = alignment"
      "ti_data_offset ix = align_up (cur_offset c) alignment" "ti_file_size_bytes ix = fst before"
    by (auto simp: read_local_tensor_index_def Let_def split: if_splits sum.splits option.splits)
  from read_index_body_Inr [OF body] obtain n c' where
    n: "0 < n" "read_descriptors alignment n [] c' = Inr (tensors, c)"
    by blast
  from read_descriptors_ok [OF n(2)] n(1)
  have ts: "\<forall>t \<in> set tensors. descriptor_ok alignment t" "distinct (map gt_name tensors)" "tensors \<noteq> []"
    by auto
  have "sorted_wrt (\<lambda>t u. payload_end t \<le> gt_offset u) (sort_key gt_offset tensors)"
    "\<forall>t \<in> set tensors. 0 \<le> gt_offset t \<and> align_up (cur_offset c) alignment + payload_end t \<le> fst before"
    using check_payloads_None [OF chk] ts(1) descriptor_size_nonneg by auto
  with disjoint_payloads [of "sort_key gt_offset tensors"] ts ix show ?thesis by auto
qed

text \<open>A file of two tensors, 32 floats and one block of eight-bit weights.\<close>

definition descriptor_bytes :: "gguf_tensor \<Rightarrow> 8 word list" where
  "descriptor_bytes t =
     string_bytes (gt_name t) @ le_bytes 4 (int (length (gt_dimensions t))) @
     concat (map (le_bytes 8) (gt_dimensions t)) @ le_bytes 4 (gt_type_id t) @ le_bytes 8 (gt_offset t)"

definition example_tensors :: "gguf_tensor list" where
  "example_tensors =
     [\<lparr>gt_name = ''b'', gt_dimensions = [32], gt_type_id = 8, gt_offset = 128, gt_size_bytes = 34\<rparr>,
      \<lparr>gt_name = ''a'', gt_dimensions = [16, 2], gt_type_id = 0, gt_offset = 0, gt_size_bytes = 128\<rparr>]"

definition example_file :: "8 word list" where
  "example_file =
     encode_header 3 2 [(''general.architecture'', WStr ''qwen2''), (''qwen2.block_count'', WInt False 4 1)] @
     concat (map descriptor_bytes example_tensors)"

definition example_artifact :: model_artifact where
  "example_artifact =
     \<lparr>ma_repo_id = ''Qwen/Qwen2.5-7B-Instruct-GGUF'', ma_revision = ''main'', ma_filename = ''model.gguf'',
      ma_format = ''GGUF'', ma_quantization = Some ''Q8_0'', ma_size_bytes = Some 1024,
      ma_local_path = Some ''/models/model.gguf'', ma_sha256 = None, ma_is_downloaded = True,
      ma_is_verified = True\<rparr>"

theorem tensor_index_consistent_witness:
  "\<exists>ix. read_local_tensor_index example_artifact example_file (1024, 7) (1024, 7) = Inr ix \<and>
     ti_tensors ix = example_tensors \<and> ti_block_count ix = Some 1 \<and> distinct (map gt_name (ti_tensors ix))"
proof -
  have "map_sum id (\<lambda>ix. (ti_tensors ix, ti_block_count ix))
      (read_local_tensor_index example_artifact example_file (1024, 7) (1024, 7))
      = Inr (example_tensors, Some 1)"
    by code_simp
  then obtain ix where ix: "read_local_tensor_index example_artifact example_file (1024, 7) (1024, 7) = Inr ix"
    "ti_tensors ix = example_tensors" "ti_block_count ix = Some 1"
    by (cases "read_local_tensor_index example_artifact example_file (1024, 7) (1024, 7)") auto
  from tensor_index_consistent [OF ix(1)] ix show ?thesis by blast
qed

end
