(* ===== verification/Py_Text.thy ===== *)
theory Py_Text
  imports Py_Prelude
begin

text \<open>
  Scanning of text as the regular expressions and string methods of the sources do it: character
  classes, decimal numbers, stripping and line splitting.  The classes are the ASCII ones; text
  outside ASCII is a run of UTF-8 bytes that belong to none of them.
\<close>

definition is_digit :: "char \<Rightarrow> bool" where
  "is_digit c \<longleftrightarrow> (let n = (of_char c :: int) in 48 \<le> n \<and> n \<le> 57)"

definition int_of_digits :: "string \<Rightarrow> int" where
  "int_of_digits ds = foldl (\<lambda>n c. 10 * n + (of_char c - 48)) 0 ds"

definition is_blank :: "char \<Rightarrow> bool" where
  "is_blank c \<longleftrightarrow> (let n = (of_char c :: int) in n \<in> {32, 9, 10, 11, 12, 13, 28, 29, 30, 31})"

definition is_alnum :: "char \<Rightarrow> bool" where
  "is_alnum c \<longleftrightarrow> (let n = (of_char c :: int) in 97 \<le> n \<and> n \<le> 122 \<or> 48 \<le> n \<and> n \<le> 57)"

text \<open>\<^verbatim>\<open>s.strip()\<close>.\<close>

definition strip :: "string \<Rightarrow> string" where
  "strip s = rev (dropWhile is_blank (rev (dropWhile is_blank s)))"

text \<open>A number at the start of a text, as \<^verbatim>\<open>(\d+)\<close> matches it.\<close>

definition scan_digits :: "string \<Rightarrow> (int \<times> string) option" where
  "scan_digits s =
     (case takeWhile is_digit s of
        [] \<Rightarrow> None
      | d # ds \<Rightarrow> Some (int_of_digits (d # ds), dropWhile is_digit s))"

text \<open>\<^verbatim>\<open>int(s)\<close> of a text: an optional sign and digits; underscores are not modelled.\<close>

definition parse_int :: "string \<Rightarrow> int option" where
  "parse_int s =
     (let t = strip s;
          (negative, u) = (case t of
             [] \<Rightarrow> (False, [])
           | c # cs \<Rightarrow> if c = CHR ''-'' then (True, cs) else if c = CHR ''+'' then (False, cs) else (False, t)) in
      case scan_digits u of
        Some (n, []) \<Rightarrow> Some (if negative then - n else n)
      | _ \<Rightarrow> None)"

lemma int_of_digits_append [simp]:
  "int_of_digits (ds @ [c]) = 10 * int_of_digits ds + (of_char c - 48)"
  by (simp add: int_of_digits_def)

lemma digit_char_is_digit:
  assumes "0 \<le> d" and "d < 10"
  shows "is_digit (digit_char d)" and "of_char (digit_char d) = 48 + d"
proof -
  have "of_char (digit_char d) = int (of_char (char_of (48 + nat d)))"
    by (simp only: digit_char_def of_nat_of_char)
  also have "\<dots> = 48 + d"
    using assms by (simp only: of_char_of) simp
  finally show "of_char (digit_char d) = 48 + d" .
  with assms show "is_digit (digit_char d)" by (simp add: is_digit_def)
qed

text \<open>Printing and scanning a number are inverse.\<close>

lemma show_digits_digits: "0 \<le> n \<Longrightarrow> list_all is_digit (show_digits n) \<and> show_digits n \<noteq> []"
proof (induction n rule: show_digits.induct)
  case (1 n)
  then show ?case
    by (subst show_digits.simps, subst (2) show_digits.simps)
      (auto simp: digit_char_is_digit(1))
qed

lemma int_of_show_digits: "0 \<le> n \<Longrightarrow> int_of_digits (show_digits n) = n"
proof (induction n rule: show_digits.induct)
  case (1 n)
  show ?case
  proof (cases "n < 10")
    case True
    with 1 show ?thesis
      by (subst show_digits.simps) (simp add: int_of_digits_def digit_char_is_digit(2))
  next
    case False
    with 1 show ?thesis
      by (subst show_digits.simps) (simp add: digit_char_is_digit(2))
  qed
qed

lemma scan_show_digits:
  assumes "0 \<le> n" and "rest = [] \<or> \<not> is_digit (hd rest)"
  shows "scan_digits (show_digits n @ rest) = Some (n, rest)"
proof -
  note d = show_digits_digits [OF assms(1)]
  have "takeWhile is_digit rest = []" "dropWhile is_digit rest = rest"
    using assms(2) by (cases rest; simp)+
  then have "takeWhile is_digit (show_digits n @ rest) = show_digits n"
    "dropWhile is_digit (show_digits n @ rest) = rest"
    using d by (auto simp: list_all_iff takeWhile_append2 dropWhile_append2)
  moreover obtain c cs where "show_digits n = c # cs" using d by (cases "show_digits n") auto
  ultimately show ?thesis
    using int_of_show_digits [OF assms(1)] by (simp add: scan_digits_def)
qed

end
