(* ===== verification/Gguf_Fetch.thy ===== *)
theory Gguf_Fetch
  imports Gguf_Tensors Py_Text
begin

text \<open>
  Fetching a remote header (\<^verbatim>\<open>metadata/range_reader.py\<close>): a loop that doubles the requested
  range until the header parses or the budget is spent, over a client with one operation.  The
  interface is the locale \<open>range_client\<close>; \<^verbatim>\<open>HttpxRangeClient.fetch_range\<close> provides it over a
  server that answers range requests.  The server, reached through the \<^verbatim>\<open>httpx\<close> library, is a
  parameter.  Warnings are kept as the event they report.
\<close>

section \<open>The client interface\<close>

record range_response =
  rr_body :: "8 word list"
  rr_honored :: bool
  rr_status :: int

datatype fetch_outcome =
    FetchTimedOut
  | FetchOSError string
  | FetchResponse range_response

text \<open>
  A client for one file, as a function of the last byte asked for (the loop always starts at
  zero): it delivers exactly the requested prefix, and says so.
\<close>

locale range_client =
  fixes fetch :: "int \<Rightarrow> fetch_outcome"
    and contents :: "8 word list"
  assumes fetch_prefix:
    "0 \<le> e \<Longrightarrow> fetch e = FetchResponse \<lparr>rr_body = take (nat (e + 1)) contents, rr_honored = True, rr_status = 206\<rparr>"

section \<open>The loop\<close>

definition INITIAL_HEADER_RANGE_BYTES :: int where
  "INITIAL_HEADER_RANGE_BYTES = 256 * 1024"

definition RANGE_GROWTH_FACTOR :: int where
  "RANGE_GROWTH_FACTOR = 2"

datatype fetch_warning =
    TimedOut
  | NetworkError string
  | RangeNotSatisfiable int
  | UnexpectedStatus int
  | RangeIgnored
  | TruncatedAndIgnored
  | InvalidHeader invalid_cause
  | NoMagic
  | PartialHeader
  | BudgetExhausted

record fetch_result =
  fr_header :: "gguf_header option"
  fr_bytes_downloaded :: int
  fr_warnings :: "fetch_warning list"

definition no_header :: "int \<Rightarrow> fetch_warning list \<Rightarrow> fetch_result" where
  "no_header n ws = \<lparr>fr_header = None, fr_bytes_downloaded = n, fr_warnings = ws\<rparr>"

definition requested_bytes :: "nat \<Rightarrow> int" where
  "requested_bytes k = INITIAL_HEADER_RANGE_BYTES * RANGE_GROWTH_FACTOR ^ k"

lemma requested_bytes_bound: "requested_bytes k \<le> MAX_HEADER_DOWNLOAD_BYTES \<Longrightarrow> k \<le> 5"
proof (rule ccontr)
  assume le: "requested_bytes k \<le> MAX_HEADER_DOWNLOAD_BYTES" and "\<not> k \<le> 5"
  then have "(2 :: int) ^ 6 \<le> 2 ^ k" by (intro power_increasing) auto
  with le show False
    by (simp add: requested_bytes_def INITIAL_HEADER_RANGE_BYTES_def RANGE_GROWTH_FACTOR_def MAX_HEADER_DOWNLOAD_BYTES_def)
qed

text \<open>The body of the \<^verbatim>\<open>while\<close>; \<open>k\<close> counts the doublings of \<^verbatim>\<open>requested\<close>.\<close>

function fetch_loop ::
  "(int \<Rightarrow> fetch_outcome) \<Rightarrow> nat \<Rightarrow> int \<Rightarrow> fetch_warning list \<Rightarrow> fetch_result" where
  "fetch_loop fetch k last_downloaded ws =
     (if MAX_HEADER_DOWNLOAD_BYTES < requested_bytes k then no_header last_downloaded (ws @ [BudgetExhausted])
      else
        (case fetch (requested_bytes k - 1) of
           FetchTimedOut \<Rightarrow> no_header last_downloaded (ws @ [TimedOut])
         | FetchOSError msg \<Rightarrow> no_header last_downloaded (ws @ [NetworkError msg])
         | FetchResponse r \<Rightarrow>
           let downloaded = int (length (rr_body r)) in
           if rr_status r = 416 then no_header downloaded (ws @ [RangeNotSatisfiable (requested_bytes k)])
           else if rr_status r \<notin> {200, 206} then no_header downloaded (ws @ [UnexpectedStatus (rr_status r)])
           else
             let ws' = (if rr_honored r then ws else ws @ [RangeIgnored]) in
             (case parse_header (rr_body r) of
                Inl HeaderIncomplete \<Rightarrow>
                  if \<not> rr_honored r then no_header downloaded (ws' @ [TruncatedAndIgnored])
                  else fetch_loop fetch (Suc k) downloaded ws'
              | Inl (HeaderInvalid cause) \<Rightarrow> no_header downloaded (ws' @ [InvalidHeader cause])
              | Inr None \<Rightarrow> no_header downloaded (ws' @ [NoMagic])
              | Inr (Some h) \<Rightarrow>
                \<lparr>fr_header = Some h, fr_bytes_downloaded = downloaded,
                 fr_warnings = (if hd_is_complete h then ws' else ws' @ [PartialHeader])\<rparr>)))"
  by pat_completeness auto
termination
  by (relation "measure (\<lambda>(fetch, k, n, ws). 6 - k)")
    (auto simp: not_less dest!: requested_bytes_bound)

declare fetch_loop.simps [simp del]

definition fetch_gguf_header :: "(int \<Rightarrow> fetch_outcome) \<Rightarrow> fetch_result" where
  "fetch_gguf_header fetch = fetch_loop fetch 0 0 []"

subsection \<open>The client over httpx\<close>

text \<open>
  What \<^verbatim>\<open>httpx\<close> gives for one streamed request: a timeout, another transport error, or a
  response whose body arrives in chunks, possibly cut off by one of the two.
\<close>

datatype http_failure = HttpTimeout string | HttpError string

record http_response =
  hr_status :: int
  hr_content_range :: string
  hr_chunks :: "8 word list list"
  hr_broken :: "http_failure option"

type_synonym http_server = "string option \<Rightarrow> int \<Rightarrow> int \<Rightarrow> http_failure + http_response"

text \<open>\<^verbatim>\<open>_CONTENT_RANGE_RE\<close> on a latin-1 header value, giving the first number.\<close>

definition is_space :: "char \<Rightarrow> bool" where
  "is_space c \<longleftrightarrow>
     (let n = (of_char c :: int) in n \<in> {32, 9, 10, 11, 12, 13, 28, 29, 30, 31, 133, 160})"

definition content_range_start :: "string \<Rightarrow> int option" where
  "content_range_start s =
     (let s1 = dropWhile is_space s in
      if \<not> startswith s1 ''bytes'' then None
      else
        let s2 = drop 5 s1;
            s3 = dropWhile is_space s2;
            first = takeWhile is_digit s3;
            s4 = dropWhile is_digit s3 in
        if s2 = s3 \<or> first = [] \<or> \<not> startswith s4 ''-'' then None
        else
          let s5 = drop 1 s4;
              s6 = dropWhile is_digit s5 in
          if s5 = s6 \<or> \<not> startswith s6 ''/'' then None
          else
            let s7 = drop 1 s6;
                s8 = (if startswith s7 ''*'' then drop 1 s7 else dropWhile is_digit s7) in
            if s7 \<noteq> s8 \<and> dropWhile is_space s8 = [] then Some (int_of_digits first) else None)"

definition range_was_honored :: "http_response \<Rightarrow> int \<Rightarrow> bool" where
  "range_was_honored response start \<longleftrightarrow>
     content_range_start (hr_content_range response) = Some start \<or>
     hr_status response = 206 \<and> hr_content_range response = ''''"

text \<open>
  The loop of \<^verbatim>\<open>_read_capped\<close>.  A failure of the transport is met only if the loop asks for a
  chunk beyond the last one.
\<close>

fun read_chunks ::
  "int \<Rightarrow> 8 word list \<Rightarrow> 8 word list list \<Rightarrow> http_failure option \<Rightarrow> http_failure + 8 word list" where
  "read_chunks limit buffer [] broken = (case broken of None \<Rightarrow> Inr buffer | Some e \<Rightarrow> Inl e)"
| "read_chunks limit buffer (chunk # chunks) broken =
     (if chunk = [] then read_chunks limit buffer chunks broken
      else
        let remaining = limit - int (length buffer) in
        if remaining \<le> 0 then Inr buffer
        else
          let buffer' = buffer @ take (nat remaining) chunk in
          if limit \<le> int (length buffer') then Inr buffer'
          else read_chunks limit buffer' chunks broken)"

definition read_capped :: "http_response \<Rightarrow> int \<Rightarrow> http_failure + 8 word list" where
  "read_capped response limit =
     (if limit \<le> 0 then Inr [] else read_chunks limit [] (hr_chunks response) (hr_broken response))"

fun fetch_failure :: "http_failure \<Rightarrow> fetch_outcome" where
  "fetch_failure (HttpTimeout msg) = FetchTimedOut"
| "fetch_failure (HttpError msg) = FetchOSError msg"

definition http_error_message :: "int \<Rightarrow> string \<Rightarrow> string" where
  "http_error_message status url = ''HTTP '' @ show_int status @ '' while fetching range from '' @ url"

definition fetch_range :: "http_server \<Rightarrow> string option \<Rightarrow> string \<Rightarrow> int \<Rightarrow> int \<Rightarrow> fetch_outcome" where
  "fetch_range server token url start end' =
     (case server token start end' of
        Inl e \<Rightarrow> fetch_failure e
      | Inr response \<Rightarrow>
        if hr_status response = 416 then
          FetchResponse \<lparr>rr_body = [], rr_honored = False, rr_status = 416\<rparr>
        else if 400 \<le> hr_status response then
          FetchOSError (http_error_message (hr_status response) url)
        else
          (case read_capped response (end' - start + 1) of
             Inl e \<Rightarrow> fetch_failure e
           | Inr body \<Rightarrow>
             FetchResponse
               \<lparr>rr_body = body, rr_honored = range_was_honored response start,
                rr_status = hr_status response\<rparr>))"

section \<open>Against a client that keeps to the range\<close>

text \<open>The weaker contract: a response never has more bytes than were asked for.\<close>

locale capped_client =
  fixes fetch :: "int \<Rightarrow> fetch_outcome"
  assumes fetch_capped: "0 \<le> e \<Longrightarrow> fetch e = FetchResponse r \<Longrightarrow> int (length (rr_body r)) \<le> e + 1"

lemma requested_bytes_pos: "0 \<le> requested_bytes k - 1"
  using zero_less_power [of "2 :: int" k]
  by (simp add: requested_bytes_def INITIAL_HEADER_RANGE_BYTES_def RANGE_GROWTH_FACTOR_def)

context capped_client
begin

lemma loop_downloads:
  "n \<le> MAX_HEADER_DOWNLOAD_BYTES \<Longrightarrow>
     fr_bytes_downloaded (fetch_loop fetch k n ws) \<le> MAX_HEADER_DOWNLOAD_BYTES"
proof (induction "6 - k" arbitrary: k n ws rule: less_induct)
  case less
  show ?case
  proof (cases "MAX_HEADER_DOWNLOAD_BYTES < requested_bytes k")
    case True
    with less.prems show ?thesis by (subst fetch_loop.simps) (simp add: no_header_def)
  next
    case False
    then have "6 - Suc k < 6 - k" using requested_bytes_bound [of k] by simp
    note IH = less.hyps [OF this]
    have "int (length (rr_body r)) \<le> MAX_HEADER_DOWNLOAD_BYTES"
      if "fetch (requested_bytes k - 1) = FetchResponse r" for r
      using fetch_capped [OF requested_bytes_pos that] False by simp
    with less.prems False IH show ?thesis
      by (subst fetch_loop.simps)
        (auto simp: Let_def no_header_def
          split: fetch_outcome.splits sum.splits gguf_error.splits option.splits)
  qed
qed

end

sublocale range_client \<subseteq> capped_client fetch
  by unfold_locales (auto simp: fetch_prefix)

section \<open>Against an honest client\<close>

context range_client
begin

lemma fetch_requested:
  "fetch (requested_bytes k - 1) = FetchResponse
     \<lparr>rr_body = take (nat (requested_bytes k)) contents, rr_honored = True, rr_status = 206\<rparr>"
  using fetch_prefix [OF requested_bytes_pos, of k] by simp

lemma loop_step:
  "fetch_loop fetch k n ws =
     (if MAX_HEADER_DOWNLOAD_BYTES < requested_bytes k then no_header n (ws @ [BudgetExhausted])
      else
        let body = take (nat (requested_bytes k)) contents in
        (case parse_header body of
           Inl HeaderIncomplete \<Rightarrow> fetch_loop fetch (Suc k) (int (length body)) ws
         | Inl (HeaderInvalid cause) \<Rightarrow> no_header (int (length body)) (ws @ [InvalidHeader cause])
         | Inr None \<Rightarrow> no_header (int (length body)) (ws @ [NoMagic])
         | Inr (Some h) \<Rightarrow>
           \<lparr>fr_header = Some h, fr_bytes_downloaded = int (length body),
            fr_warnings = (if hd_is_complete h then ws else ws @ [PartialHeader])\<rparr>))"
  by (subst fetch_loop.simps) (simp add: fetch_requested Let_def del: length_take)

text \<open>A header that is found is the parse of some prefix within the budget.\<close>

lemma loop_header_of_prefix:
  "fr_header (fetch_loop fetch k n ws) = Some h \<Longrightarrow>
     \<exists>j. parse_header (take j contents) = Inr (Some h)"
proof (induction "6 - k" arbitrary: k n ws rule: less_induct)
  case less
  show ?case
  proof (cases "MAX_HEADER_DOWNLOAD_BYTES < requested_bytes k")
    case True
    with less.prems show ?thesis by (simp add: loop_step no_header_def)
  next
    case False
    then have "6 - Suc k < 6 - k" using requested_bytes_bound [of k] by simp
    note IH = less.hyps [OF this]
    from less.prems False show ?thesis
      by (subst (asm) loop_step)
        (auto simp: Let_def no_header_def split: sum.splits gguf_error.splits option.splits intro: IH)
  qed
qed

text \<open>The loop ends with a header as soon as the prefix of the whole budget has one.\<close>

lemma loop_finds_header:
  assumes "parse_header (take (nat MAX_HEADER_DOWNLOAD_BYTES) contents) = Inr (Some h)" and "k \<le> 5"
  shows "\<exists>h'. fr_header (fetch_loop fetch k n ws) = Some h'"
  using assms(2)
proof (induction "6 - k" arbitrary: k n ws rule: less_induct)
  case less
  let ?r = "take (nat (requested_bytes k)) contents"
  let ?all = "take (nat MAX_HEADER_DOWNLOAD_BYTES) contents"
  have "(2 :: int) ^ k \<le> 2 ^ 5" using less.prems by (intro power_increasing) auto
  then have fits: "requested_bytes k \<le> MAX_HEADER_DOWNLOAD_BYTES"
    by (simp add: requested_bytes_def INITIAL_HEADER_RANGE_BYTES_def RANGE_GROWTH_FACTOR_def
        MAX_HEADER_DOWNLOAD_BYTES_def)
  then have "?all = ?r @ take (nat MAX_HEADER_DOWNLOAD_BYTES - nat (requested_bytes k)) (drop (nat (requested_bytes k)) contents)"
    by (metis add_diff_inverse_nat nat_mono not_less take_add)
  then obtain extra where all: "?all = ?r @ extra" by blast
  have prefix: "parse_header ?r = r \<Longrightarrow> r \<noteq> Inl HeaderIncomplete \<Longrightarrow>
      (\<And>h'. r = Inr (Some h') \<Longrightarrow> hd_is_complete h') \<Longrightarrow> r = Inr (Some h)" for r
    using parse_header_extend [of ?r r extra] assms(1) all by simp
  consider (incomplete) "parse_header ?r = Inl HeaderIncomplete" | (header) h' where "parse_header ?r = Inr (Some h')"
    using prefix by (metis (no_types, lifting) Inr_not_Inl gguf_error.exhaust option.inject old.sum.exhaust option.exhaust sum.inject(2))
  then show ?case
  proof cases
    case incomplete
    have "k \<noteq> 5"
    proof
      assume "k = 5"
      then have "?r = ?all"
        by (simp add: requested_bytes_def INITIAL_HEADER_RANGE_BYTES_def RANGE_GROWTH_FACTOR_def
            MAX_HEADER_DOWNLOAD_BYTES_def)
      with incomplete assms(1) show False by simp
    qed
    with less.prems have "6 - Suc k < 6 - k" "Suc k \<le> 5" by auto
    from less.hyps [OF this] incomplete fits show ?thesis
      by (subst loop_step) (simp add: Let_def)
  next
    case header
    with fits show ?thesis by (subst loop_step) (simp add: Let_def)
  qed
qed

lemma fetched_complete_header:
  assumes "fr_header (fetch_gguf_header fetch) = Some h" and "hd_is_complete h"
  shows "parse_header contents = Inr (Some h)"
proof -
  obtain j where j: "parse_header (take j contents) = Inr (Some h)"
    using loop_header_of_prefix assms(1) unfolding fetch_gguf_header_def by blast
  from parse_header_extend [OF j, of "drop j contents"] assms(2) show ?thesis by simp
qed

end

section \<open>The client is honest when the server is\<close>

text \<open>
  What the code relies on in a server of a file: a range request is answered with status 206 (and
  a content range that starts at the first byte, or none) and with the bytes of the range, in
  whatever chunks.
\<close>

definition serves_range :: "8 word list \<Rightarrow> int \<Rightarrow> http_failure + http_response \<Rightarrow> bool" where
  "serves_range contents e answer \<longleftrightarrow>
     (case answer of
        Inl _ \<Rightarrow> False
      | Inr r \<Rightarrow>
        hr_status r = 206 \<and> range_was_honored r 0 \<and> hr_broken r = None \<and>
        concat (hr_chunks r) = take (nat (e + 1)) contents)"

locale range_server =
  fixes server :: http_server and token :: "string option" and contents :: "8 word list"
  assumes serves: "0 \<le> e \<Longrightarrow> serves_range contents e (server token 0 e)"

lemma read_chunks_concat:
  "int (length buffer) + int (length (concat chunks)) \<le> limit \<Longrightarrow>
     read_chunks limit buffer chunks None = Inr (buffer @ concat chunks)"
proof (induction limit buffer chunks "None :: http_failure option" rule: read_chunks.induct)
  case (2 limit buffer chunk chunks)
  show ?case
  proof (cases "chunk = []")
    case True
    with 2 show ?thesis by simp
  next
    case False
    then have "0 < length chunk" by simp
    moreover have "length (concat (chunk # chunks)) = length chunk + length (concat chunks)" by simp
    ultimately have room: "\<not> limit \<le> int (length buffer)"
      using "2.prems" by linarith
    have last: "concat chunks = []" if "limit \<le> int (length buffer) + int (length chunk)"
    proof -
      have "length (concat chunks) = 0"
        using that "2.prems" by (simp del: length_concat concat_eq_Nil_conv length_0_conv)
      then show ?thesis by blast
    qed
    show ?thesis
    proof (cases "limit \<le> int (length buffer) + int (length chunk)")
      case True
      with room last False "2.prems" show ?thesis by (simp add: Let_def)
    next
      case close: False
      with "2.hyps"(2) [OF False refl] room False "2.prems" show ?thesis by (simp add: Let_def)
    qed
  qed
qed simp

lemma read_chunks_length:
  "read_chunks limit buffer chunks broken = Inr body \<Longrightarrow> int (length buffer) \<le> limit \<Longrightarrow>
     int (length body) \<le> limit"
  by (induction limit buffer chunks broken rule: read_chunks.induct)
    (auto simp: Let_def split: if_splits option.splits)

context range_server
begin

lemma honest_fetch:
  assumes "0 \<le> e"
  shows "fetch_range server token url 0 e =
    FetchResponse \<lparr>rr_body = take (nat (e + 1)) contents, rr_honored = True, rr_status = 206\<rparr>"
proof -
  obtain r where r: "server token 0 e = Inr r" "hr_status r = 206" "range_was_honored r 0"
    "hr_broken r = None" "concat (hr_chunks r) = take (nat (e + 1)) contents"
    using serves [OF assms] by (auto simp: serves_range_def split: sum.splits)
  have "read_capped r (e + 1) = Inr (take (nat (e + 1)) contents)"
    using assms read_chunks_concat [of "[]" "hr_chunks r" "e + 1"]
    by (simp add: read_capped_def r)
  with r show ?thesis by (simp add: fetch_range_def)
qed

end

sublocale range_server \<subseteq> httpx: range_client "fetch_range server token url 0" contents for url
  by unfold_locales (rule honest_fetch)

context range_server
begin

lemmas complete_header_of_server = httpx.fetched_complete_header
  and header_of_server = httpx.loop_finds_header

end

text \<open>A server that sends the range of a file in chunks of \<open>Suc n\<close> bytes.\<close>

function chunks_of :: "nat \<Rightarrow> 'a list \<Rightarrow> 'a list list" where
  "chunks_of n xs = (if xs = [] then [] else take (Suc n) xs # chunks_of n (drop (Suc n) xs))"
  by pat_completeness auto
termination by (relation "measure (length \<circ> snd)") auto

declare chunks_of.simps [simp del]

lemma concat_chunks_of [simp]: "concat (chunks_of n xs) = xs"
  by (induction n xs rule: chunks_of.induct) (simp add: chunks_of.simps)

definition file_server :: "nat \<Rightarrow> 8 word list \<Rightarrow> http_server" where
  "file_server n contents token start e =
     Inr \<lparr>hr_status = 206, hr_content_range = '''',
       hr_chunks = chunks_of n (take (nat (e - start + 1)) (drop (nat start) contents)), hr_broken = None\<rparr>"

lemma file_server_serves: "0 \<le> e \<Longrightarrow> serves_range contents e (file_server n contents token 0 e)"
  by (simp add: serves_range_def file_server_def range_was_honored_def)

interpretation served: range_server "file_server n contents" token contents for n token contents
  by unfold_locales (rule file_server_serves)

lemma fetch_range_capped:
  assumes "0 \<le> e" and "fetch_range server token url 0 e = FetchResponse r"
  shows "int (length (rr_body r)) \<le> e + 1"
proof -
  have failed: "fetch_failure f \<noteq> FetchResponse r" for f by (cases f) auto
  have capped: "int (length body) \<le> e + 1" if "read_capped x (e + 1) = Inr body" for x body
    using that assms(1) read_chunks_length [of "e + 1" "[]" "hr_chunks x" "hr_broken x" body]
    by (simp add: read_capped_def)
  show ?thesis
    using assms failed by (auto simp: fetch_range_def capped split: sum.splits if_splits)
qed

interpretation any_server: capped_client "fetch_range server token url 0" for server token url
  by unfold_locales (rule fetch_range_capped)

section \<open>Properties\<close>

text \<open>
  C11. Over a server that answers range requests with the bytes of a file, in whatever chunks, a
  complete header that the loop returns is the header of the whole file, although the loop read
  only a prefix of it.
\<close>

theorem fetched_header_is_the_files:
  assumes "\<And>e. 0 \<le> e \<Longrightarrow> serves_range contents e (server token 0 e)"
    and "fr_header (fetch_gguf_header (fetch_range server token url 0)) = Some h"
    and "hd_is_complete h"
  shows "parse_header contents = Inr (Some h)"
  using range_server.complete_header_of_server [OF range_server.intro] assms by blast

text \<open>
  C12. Growing the range misses nothing: over such a server, if the first 8 MiB of the file hold a
  readable header, the loop returns a header instead of giving up or failing.
\<close>

theorem fetch_finds_header:
  assumes "\<And>e. 0 \<le> e \<Longrightarrow> serves_range contents e (server token 0 e)"
    and "parse_header (take (nat MAX_HEADER_DOWNLOAD_BYTES) contents) = Inr (Some h)"
  shows "\<exists>h'. fr_header (fetch_gguf_header (fetch_range server token url 0)) = Some h'"
  unfolding fetch_gguf_header_def
  by (rule range_server.header_of_server [OF range_server.intro]) (use assms in auto)

text \<open>
  Whatever the server does (ignores the range, resends the whole file, breaks off), the
  loop ends having buffered at most 8 MiB.
\<close>

theorem fetch_within_budget:
  "fr_bytes_downloaded (fetch_gguf_header (fetch_range server token url 0)) \<le> MAX_HEADER_DOWNLOAD_BYTES"
  unfolding fetch_gguf_header_def
  by (rule any_server.loop_downloads) (simp add: MAX_HEADER_DOWNLOAD_BYTES_def)

definition small_file :: "8 word list" where
  "small_file = encode_header 3 339 example_entries @ [1, 2, 3]"

lemma small_file_facts:
  "map_sum id (map_option hd_is_complete) (parse_header small_file) = Inr (Some True)"
  "length small_file \<le> 1000"
proof -
  show "map_sum id (map_option hd_is_complete) (parse_header small_file) = Inr (Some True)" by code_simp
  have "int (length small_file) \<le> 1000" by code_simp
  then show "length small_file \<le> 1000" by simp
qed

lemma small_file_header:
  obtains h where "parse_header small_file = Inr (Some h)" and "hd_is_complete h"
  using small_file_facts(1)
  by (cases "parse_header small_file") (auto split: option.splits)

theorem fetched_header_is_the_files_witness:
  "\<exists>h. fr_header (fetch_gguf_header (fetch_range (file_server 99 small_file) None ''u'' 0)) = Some h \<and>
     hd_is_complete h \<and> parse_header small_file = Inr (Some h)"
proof -
  obtain h where h: "parse_header small_file = Inr (Some h)" "hd_is_complete h"
    by (rule small_file_header)
  have "requested_bytes 0 = 262144"
    by (simp add: requested_bytes_def INITIAL_HEADER_RANGE_BYTES_def)
  then have "fr_header (fetch_gguf_header (fetch_range (file_server 99 small_file) None ''u'' 0)) = Some h"
    unfolding fetch_gguf_header_def using small_file_facts(2) h
    by (subst served.httpx.loop_step) (simp add: MAX_HEADER_DOWNLOAD_BYTES_def)
  with h(2) fetched_header_is_the_files [OF file_server_serves this] show ?thesis by blast
qed

theorem fetch_finds_header_witness:
  "fr_header (fetch_gguf_header (fetch_range (file_server 0 small_file) (Some ''t'') ''u'' 0)) \<noteq> None"
proof -
  obtain h where h: "parse_header small_file = Inr (Some h)" "hd_is_complete h"
    by (rule small_file_header)
  have "take (nat MAX_HEADER_DOWNLOAD_BYTES) small_file = small_file"
    using small_file_facts(2) by (simp add: MAX_HEADER_DOWNLOAD_BYTES_def)
  with h have "parse_header (take (nat MAX_HEADER_DOWNLOAD_BYTES) small_file) = Inr (Some h)" by simp
  from fetch_finds_header [of small_file "file_server 0 small_file" "Some ''t''", OF file_server_serves this]
  show ?thesis by auto
qed

end
