(* ===== verification/Backend_Selection.thy ===== *)
theory Backend_Selection
  imports Hardware Py_Text "HOL-Library.Product_Lexorder"
begin

text \<open>
  The choice of a compute backend (\<^verbatim>\<open>runtime/backend_selection.py\<close>) and the identification of
  the selected accelerator among the devices a runtime reports (\<^verbatim>\<open>runtime/device_matching.py\<close>),
  with the records of \<^verbatim>\<open>domain/runtime.py\<close> they exchange.  The properties: the selected backend
  is the best eligible one, and a runtime device is only returned when it is identified.
\<close>

section \<open>Data\<close>

datatype backend_selection_reason =
    NATIVE_BACKEND_AVAILABLE | VULKAN_BACKEND_AVAILABLE | CPU_FALLBACK | NO_USABLE_ACCELERATOR
  | SOFTWARE_RENDERER_IGNORED

record selected_accelerator_ref =
  sa_name :: string
  sa_vendor :: accelerator_vendor
  sa_type :: accelerator_type
  sa_vendor_id :: "string option"
  sa_device_id :: "string option"
  sa_pci_bus_id :: "string option"
  sa_uuid :: "string option"
  sa_dedicated_memory_bytes :: "int option"
  sa_shared_memory :: bool
  sa_detection_sources :: "string list"

record runtime_backend_candidate =
  bc_backend :: compute_backend
  bc_accelerator :: "selected_accelerator_ref option"
  bc_backend_info :: "compute_backend_info option"
  bc_reason :: backend_selection_reason

record runtime_backend_selection =
  sel_backend :: compute_backend
  sel_accelerator :: "selected_accelerator_ref option"
  sel_reason :: backend_selection_reason
  sel_backend_info :: "compute_backend_info option"
  sel_alternatives :: "runtime_backend_candidate list"
  sel_notes :: "string list"

datatype capability_state = CAP_CONFIRMED | CAP_NOT_OBSERVED | CAP_UNKNOWN

datatype capability_reason =
    CR_RUNTIME_AVAILABLE | CR_RUNTIME_MISSING | CR_RUNTIME_NOT_EXECUTABLE | CR_PROBE_FAILED
  | CR_BACKEND_EXPOSED | CR_BACKEND_NOT_OBSERVED | CR_CAPABILITY_UNKNOWN

record llama_cpp_runtime_device =
  rd_backend :: compute_backend
  rd_runtime_id :: string
  rd_name :: "string option"
  rd_memory_total_bytes :: "int option"
  rd_memory_free_bytes :: "int option"

record llama_cpp_backend_capability =
  cb_backend :: compute_backend
  cb_state :: capability_state
  cb_devices :: "llama_cpp_runtime_device list"
  cb_reason :: capability_reason
  cb_source :: "string option"
  cb_detail :: "string option"

section \<open>Selecting a backend\<close>

fun BACKEND_POLICY :: "accelerator_vendor \<Rightarrow> compute_backend list" where
  "BACKEND_POLICY NVIDIA = [CUDA, VULKAN]"
| "BACKEND_POLICY AMD = [HIP, VULKAN]"
| "BACKEND_POLICY INTEL = [VULKAN]"
| "BACKEND_POLICY VENDOR_OTHER = [VULKAN]"
| "BACKEND_POLICY VENDOR_UNKNOWN = [VULKAN]"

definition CPU_NOTE :: string where
  "CPU_NOTE =
     ''Backend selection is based on observed hardware/backend availability only; '' @
     ''runtime binary support is validated in a later phase.''"

record ranked_candidate =
  rc_candidate :: runtime_backend_candidate
  rc_discovery_index :: nat
  rc_backend_rank :: nat
  rc_accelerator_rank :: nat
  rc_dedicated_memory_bytes :: int

fun index_of :: "'a list \<Rightarrow> 'a \<Rightarrow> nat" where
  "index_of [] x = 0"
| "index_of (y # ys) x = (if y = x then 0 else Suc (index_of ys x))"

definition available_backends :: "accelerator_profile \<Rightarrow> compute_backend_info list" where
  "available_backends a = filter (\<lambda>b. availability b = AVAILABLE) (backends a)"

definition accelerator_ref :: "accelerator_profile \<Rightarrow> selected_accelerator_ref" where
  "accelerator_ref a =
     \<lparr>sa_name = acc_name a, sa_vendor = acc_vendor a, sa_type = acc_type a,
      sa_vendor_id = vendor_id a, sa_device_id = device_id a, sa_pci_bus_id = pci_bus_id a,
      sa_uuid = acc_uuid a, sa_dedicated_memory_bytes = dedicated_memory_bytes a,
      sa_shared_memory = shared_memory a, sa_detection_sources = detection_sources a\<rparr>"

definition selection_reason :: "compute_backend \<Rightarrow> backend_selection_reason" where
  "selection_reason b = (if b = VULKAN then VULKAN_BACKEND_AVAILABLE else NATIVE_BACKEND_AVAILABLE)"

definition accelerator_rank :: "accelerator_type \<Rightarrow> nat" where
  "accelerator_rank t = (if t = DEDICATED then 0 else if t = INTEGRATED then 1 else 2)"

definition cpu_candidate :: "backend_selection_reason \<Rightarrow> runtime_backend_candidate" where
  "cpu_candidate r = \<lparr>bc_backend = CPU, bc_accelerator = None, bc_backend_info = None, bc_reason = r\<rparr>"

definition has_software_renderer :: "hardware_profile \<Rightarrow> bool" where
  "has_software_renderer hw \<longleftrightarrow> list_ex (\<lambda>a. acc_type a = SOFTWARE) (accelerators hw)"

definition ranked_candidate_of :: "nat \<Rightarrow> accelerator_profile \<Rightarrow> compute_backend_info \<Rightarrow> ranked_candidate" where
  "ranked_candidate_of i a b =
     \<lparr>rc_candidate =
        \<lparr>bc_backend = backend b, bc_accelerator = Some (accelerator_ref a),
         bc_backend_info = Some b, bc_reason = selection_reason (backend b)\<rparr>,
      rc_discovery_index = i,
      rc_backend_rank = index_of (BACKEND_POLICY (acc_vendor a)) (backend b),
      rc_accelerator_rank = accelerator_rank (acc_type a),
      rc_dedicated_memory_bytes = int_or (dedicated_memory_bytes a) (- 1)\<rparr>"

definition candidates_of :: "nat \<times> accelerator_profile \<Rightarrow> ranked_candidate list" where
  "candidates_of ia =
     (let (i, a) = ia in
      if acc_type a = SOFTWARE then []
      else map (ranked_candidate_of i a)
        (filter (\<lambda>b. backend b \<in> set (BACKEND_POLICY (acc_vendor a))) (available_backends a)))"

definition candidate_key :: "ranked_candidate \<Rightarrow> nat \<times> nat \<times> int \<times> nat" where
  "candidate_key r =
     (rc_backend_rank r, rc_accelerator_rank r, - rc_dedicated_memory_bytes r, rc_discovery_index r)"

definition ranked_candidates :: "hardware_profile \<Rightarrow> ranked_candidate list" where
  "ranked_candidates hw =
     sort_key candidate_key (concat (map candidates_of (enumerate 0 (accelerators hw))))"

definition select_runtime_backend :: "hardware_profile \<Rightarrow> runtime_backend_selection" where
  "select_runtime_backend hw =
     (case ranked_candidates hw of
        [] \<Rightarrow>
          \<lparr>sel_backend = CPU, sel_accelerator = None,
           sel_reason =
             (if has_software_renderer hw then SOFTWARE_RENDERER_IGNORED else NO_USABLE_ACCELERATOR),
           sel_backend_info = None, sel_alternatives = [], sel_notes = [CPU_NOTE]\<rparr>
      | r # rs \<Rightarrow>
          let selected = rc_candidate r in
          \<lparr>sel_backend = bc_backend selected, sel_accelerator = bc_accelerator selected,
           sel_reason = bc_reason selected, sel_backend_info = bc_backend_info selected,
           sel_alternatives = map rc_candidate rs @ [cpu_candidate CPU_FALLBACK],
           sel_notes = [CPU_NOTE]\<rparr>)"

section \<open>Device names\<close>

definition SOFTWARE_DEVICE_MARKERS :: "string list" where
  "SOFTWARE_DEVICE_MARKERS = [''llvmpipe'', ''lavapipe'', ''swiftshader'', ''microsoft basic render'']"

definition is_software_device :: "llama_cpp_runtime_device \<Rightarrow> bool" where
  "is_software_device d \<longleftrightarrow>
     list_ex (contains (lower (opt_default (rd_name d) ''''))) SOFTWARE_DEVICE_MARKERS"

text \<open>The three regular expressions of the module, on ASCII names.\<close>

fun remove_trademarks :: "string \<Rightarrow> string" where
  "remove_trademarks [] = []"
| "remove_trademarks (c # cs) =
     (if startswith (lower (c # cs)) ''(r)'' then remove_trademarks (drop 2 cs)
      else if startswith (lower (c # cs)) ''(tm)'' then remove_trademarks (drop 3 cs)
      else c # remove_trademarks cs)"

text \<open>The text before a trailing annotation, if there is one.\<close>

definition before_annotation :: "string \<Rightarrow> string option" where
  "before_annotation s =
     (case dropWhile is_blank (rev s) of
        [] \<Rightarrow> None
      | c # r \<Rightarrow>
        if c \<noteq> CHR '')'' then None
        else
          (case dropWhile (\<lambda>x. x \<noteq> CHR ''('' \<and> x \<noteq> CHR '')'') r of
             [] \<Rightarrow> None
           | x # r' \<Rightarrow> if x = CHR ''('' then Some (rev (dropWhile is_blank r')) else None))"

text \<open>Runs of other characters become one space, none at either end.\<close>

function squeeze :: "string \<Rightarrow> string" where
  "squeeze [] = []"
| "squeeze (c # cs) =
     (if is_alnum c then c # squeeze cs
      else
        (case squeeze (dropWhile (\<lambda>x. \<not> is_alnum x) cs) of
           [] \<Rightarrow> []
         | d # ds \<Rightarrow> CHR '' '' # d # ds))"
  by pat_completeness auto
termination by (relation "measure length") (auto simp: less_Suc_eq_le length_dropWhile_le)

definition full_name :: "string \<Rightarrow> string" where
  "full_name s = squeeze (dropWhile (\<lambda>x. \<not> is_alnum x) (lower (remove_trademarks s)))"

definition without_annotation :: "string \<Rightarrow> string" where
  "without_annotation s =
     (let t = remove_trademarks s in full_name (opt_default (before_annotation t) t))"

definition has_annotation :: "string \<Rightarrow> bool" where
  "has_annotation s \<longleftrightarrow> before_annotation (remove_trademarks s) \<noteq> None"

definition names_agree :: "string \<Rightarrow> string \<Rightarrow> bool" where
  "names_agree left right \<longleftrightarrow>
     full_name left \<noteq> '''' \<and>
     (full_name left = full_name right \<or>
      has_annotation left \<noteq> has_annotation right \<and> without_annotation left = without_annotation right)"

section \<open>Matching a runtime device\<close>

datatype device_match_reason =
    MATCHED_BY_NAME | ONLY_HARDWARE_DEVICE | NO_HARDWARE_DEVICE | NAME_MISMATCH | AMBIGUOUS

record runtime_device_match =
  dm_device :: "llama_cpp_runtime_device option"
  dm_reason :: device_match_reason

definition device_match :: "llama_cpp_runtime_device option \<Rightarrow> device_match_reason \<Rightarrow> runtime_device_match" where
  "device_match d r = \<lparr>dm_device = d, dm_reason = r\<rparr>"

definition hardware_devices :: "llama_cpp_backend_capability \<Rightarrow> llama_cpp_runtime_device list" where
  "hardware_devices capability = filter (\<lambda>d. \<not> is_software_device d) (cb_devices capability)"

definition devices_named :: "string \<Rightarrow> llama_cpp_runtime_device list \<Rightarrow> llama_cpp_runtime_device list" where
  "devices_named name = filter (\<lambda>d. case rd_name d of None \<Rightarrow> False | Some n \<Rightarrow> names_agree n name)"

definition match_runtime_device ::
  "runtime_backend_selection \<Rightarrow> llama_cpp_backend_capability \<Rightarrow> runtime_device_match" where
  "match_runtime_device selection capability =
     (let candidates = hardware_devices capability;
          named = (case sel_accelerator selection of
            None \<Rightarrow> []
          | Some a \<Rightarrow> if full_name (sa_name a) = '''' then [] else devices_named (sa_name a) candidates) in
      case candidates of
        [] \<Rightarrow> device_match None NO_HARDWARE_DEVICE
      | only # others \<Rightarrow>
        (case named of
           [d] \<Rightarrow> device_match (Some d) MATCHED_BY_NAME
         | d # e # ds \<Rightarrow> device_match None AMBIGUOUS
         | [] \<Rightarrow>
           if others \<noteq> [] then device_match None AMBIGUOUS
           else if sel_backend selection = VULKAN then device_match None NAME_MISMATCH
           else device_match (Some only) ONLY_HARDWARE_DEVICE))"

definition agrees_where_known :: "'a option \<Rightarrow> 'a option \<Rightarrow> bool" where
  "agrees_where_known expected observed \<longleftrightarrow> expected = None \<or> observed = expected"

definition selected_accelerator_matches ::
  "selected_accelerator_ref option \<Rightarrow> selected_accelerator_ref option \<Rightarrow> bool" where
  "selected_accelerator_matches expected observed \<longleftrightarrow>
     (case (expected, observed) of
        (Some e, Some r) \<Rightarrow>
          sa_vendor e = sa_vendor r \<and> names_agree (sa_name e) (sa_name r) \<and>
          agrees_where_known (sa_uuid e) (sa_uuid r) \<and>
          agrees_where_known (sa_pci_bus_id e) (sa_pci_bus_id r) \<and>
          agrees_where_known (sa_vendor_id e) (sa_vendor_id r) \<and>
          agrees_where_known (sa_device_id e) (sa_device_id r)
      | _ \<Rightarrow> False)"

section \<open>The selected backend\<close>

text \<open>What the code may select: an available backend of a real accelerator, allowed by policy.\<close>

definition eligible :: "hardware_profile \<Rightarrow> nat \<Rightarrow> accelerator_profile \<Rightarrow> compute_backend_info \<Rightarrow> bool" where
  "eligible hw i a b \<longleftrightarrow>
     i < length (accelerators hw) \<and> a = accelerators hw ! i \<and> acc_type a \<noteq> SOFTWARE \<and>
     b \<in> set (backends a) \<and> availability b = AVAILABLE \<and> backend b \<in> set (BACKEND_POLICY (acc_vendor a))"

definition preference :: "nat \<Rightarrow> accelerator_profile \<Rightarrow> compute_backend_info \<Rightarrow> nat \<times> nat \<times> int \<times> nat" where
  "preference i a b =
     (index_of (BACKEND_POLICY (acc_vendor a)) (backend b), accelerator_rank (acc_type a),
      - int_or (dedicated_memory_bytes a) (- 1), i)"

lemma candidate_key_of [simp]: "candidate_key (ranked_candidate_of i a b) = preference i a b"
  by (simp add: candidate_key_def ranked_candidate_of_def preference_def)

lemma set_ranked_candidates:
  "set (ranked_candidates hw) = {ranked_candidate_of i a b |i a b. eligible hw i a b}"
proof -
  have mem: "x \<in> set (candidates_of (i, a)) \<longleftrightarrow>
      acc_type a \<noteq> SOFTWARE \<and>
      (\<exists>b \<in> set (backends a). availability b = AVAILABLE \<and> backend b \<in> set (BACKEND_POLICY (acc_vendor a)) \<and>
        x = ranked_candidate_of i a b)" for x i a
    by (auto simp: candidates_of_def available_backends_def)
  have "x \<in> set (ranked_candidates hw) \<longleftrightarrow>
      (\<exists>i < length (accelerators hw). x \<in> set (candidates_of (i, accelerators hw ! i)))" for x
    by (auto simp: ranked_candidates_def in_set_enumerate_eq)
  then show ?thesis
    unfolding set_eq_iff mem eligible_def mem_Collect_eq by blast
qed

lemma ranked_candidates_minimum:
  assumes "ranked_candidates hw = r # rs" and "x \<in> set (r # rs)"
  shows "candidate_key r \<le> candidate_key x"
proof -
  have "sorted (map candidate_key (ranked_candidates hw))"
    by (simp add: ranked_candidates_def)
  with assms show ?thesis by auto
qed

text \<open>
  C15. The selected backend is the best eligible one: among the available backends of real
  accelerators that the vendor's policy allows, none is earlier in its policy, or equally early on
  a better kind of device, or on an equal device with more dedicated memory, or found earlier.
  The CPU is selected exactly when there is no eligible backend at all.
\<close>

theorem select_backend_best:
  shows "if \<exists>i a b. eligible hw i a b
    then \<exists>i a b. eligible hw i a b \<and>
      sel_backend (select_runtime_backend hw) = backend b \<and>
      sel_accelerator (select_runtime_backend hw) = Some (accelerator_ref a) \<and>
      sel_backend_info (select_runtime_backend hw) = Some b \<and>
      (\<forall>i' a' b'. eligible hw i' a' b' \<longrightarrow> preference i a b \<le> preference i' a' b')
    else sel_backend (select_runtime_backend hw) = CPU \<and> sel_accelerator (select_runtime_backend hw) = None"
proof (cases "ranked_candidates hw")
  case Nil
  then have none: "\<not> (\<exists>i a b. eligible hw i a b)"
    using set_ranked_candidates [of hw] by auto
  with Nil show ?thesis by (simp add: select_runtime_backend_def)
next
  case (Cons r rs)
  then have "r \<in> set (ranked_candidates hw)" by simp
  then obtain i a b where e: "eligible hw i a b" and r: "r = ranked_candidate_of i a b"
    by (auto simp: set_ranked_candidates)
  have least: "preference i a b \<le> preference i' a' b'" if "eligible hw i' a' b'" for i' a' b'
  proof -
    have "ranked_candidate_of i' a' b' \<in> set (r # rs)"
      using that Cons set_ranked_candidates [of hw] by auto
    from ranked_candidates_minimum [OF Cons this] show ?thesis by (simp add: r)
  qed
  have "sel_backend (select_runtime_backend hw) = backend b \<and>
      sel_accelerator (select_runtime_backend hw) = Some (accelerator_ref a) \<and>
      sel_backend_info (select_runtime_backend hw) = Some b"
    by (simp add: select_runtime_backend_def Cons r ranked_candidate_of_def)
  with e least show ?thesis by (metis (no_types, lifting))
qed

text \<open>
  If no available backend of a real accelerator is flagged as a software renderer, the
  selected backend is one of the backends that the hardware support rules count as available; the
  selection itself never looks at the flag.
\<close>

theorem selected_backend_available:
  assumes "\<forall>a \<in> set (accelerators hw). acc_type a \<noteq> SOFTWARE \<longrightarrow>
    (\<forall>b \<in> set (backends a). availability b = AVAILABLE \<longrightarrow> \<not> software_renderer b)"
  shows "sel_backend (select_runtime_backend hw) \<in> available_compute_backends hw"
proof (cases "ranked_candidates hw")
  case Nil
  then show ?thesis by (simp add: select_runtime_backend_def)
next
  case (Cons r rs)
  then have "r \<in> set (ranked_candidates hw)" by simp
  then obtain i a b where e: "eligible hw i a b" and r: "r = ranked_candidate_of i a b"
    by (auto simp: set_ranked_candidates)
  have "a \<in> set (accelerators hw)" using e by (simp add: eligible_def)
  moreover have "backend b \<in> set (usable_backends a)"
    using e assms \<open>a \<in> set (accelerators hw)\<close> by (auto simp: usable_backends_def eligible_def)
  ultimately have "backend b \<in> available_compute_backends hw"
    by (auto simp: available_compute_backends_def)
  then show ?thesis
    by (simp add: select_runtime_backend_def Cons r ranked_candidate_of_def)
qed

section \<open>The matched device\<close>

text \<open>
  A runtime device is only returned when it is identified: it is one of the reported
  devices, it is not a software renderer, and either its name agrees with the selected
  accelerator and no other device's does, or it is the only device left, for a backend other than
  Vulkan.
\<close>

theorem matched_device_identified:
  assumes "dm_device (match_runtime_device selection capability) = Some d"
  shows "d \<in> set (cb_devices capability) \<and> \<not> is_software_device d \<and>
    ((\<exists>a n. sel_accelerator selection = Some a \<and> rd_name d = Some n \<and> names_agree n (sa_name a) \<and>
        (\<forall>e \<in> set (hardware_devices capability). \<forall>m.
           rd_name e = Some m \<and> names_agree m (sa_name a) \<longrightarrow> e = d)) \<or>
     hardware_devices capability = [d] \<and> sel_backend selection \<noteq> VULKAN)"
proof -
  let ?hw = "hardware_devices capability"
  have in_hw: "e \<in> set (cb_devices capability) \<and> \<not> is_software_device e" if "e \<in> set ?hw" for e
    using that by (auto simp: hardware_devices_def)
  have named: ?thesis if a: "sel_accelerator selection = Some a" and d: "devices_named (sa_name a) ?hw = [d]" for a
  proof -
    have "d \<in> set (devices_named (sa_name a) ?hw)" by (simp add: d)
    then have "d \<in> set ?hw" and "\<exists>n. rd_name d = Some n \<and> names_agree n (sa_name a)"
      by (auto simp: devices_named_def split: option.splits)
    moreover have "e = d" if "e \<in> set ?hw" "rd_name e = Some m" "names_agree m (sa_name a)" for e m
    proof -
      have "e \<in> set (devices_named (sa_name a) ?hw)" using that by (simp add: devices_named_def)
      then show ?thesis by (simp add: d)
    qed
    ultimately show ?thesis using a in_hw by blast
  qed
  have single: ?thesis if "?hw = [d]" "sel_backend selection \<noteq> VULKAN"
    using that in_hw [of d] by simp
  show ?thesis
    using assms named single
    by (auto simp: match_runtime_device_def device_match_def Let_def split: list.splits option.splits if_splits)
qed

section \<open>Examples\<close>

definition example_backend :: "compute_backend \<Rightarrow> backend_availability \<Rightarrow> compute_backend_info" where
  "example_backend b av =
     \<lparr>backend = b, availability = av, availability_reason = None, probe_source = None,
      probe_detail = None, api_version = None, device_name = None, driver_name = None,
      backend_driver_version = None, software_renderer = False\<rparr>"

definition example_accelerator ::
  "string \<Rightarrow> accelerator_vendor \<Rightarrow> accelerator_type \<Rightarrow> compute_backend_info list \<Rightarrow> accelerator_profile" where
  "example_accelerator name vendor t bs =
     \<lparr>acc_name = name, acc_vendor = vendor, acc_type = t, vendor_id = None, device_id = None,
      pci_bus_id = None, acc_uuid = None, dedicated_memory_bytes = Some 8, available_memory_bytes = None,
      shared_memory = False, detection_sources = [], backends = bs\<rparr>"

definition example_machine :: hardware_profile where
  "example_machine =
     \<lparr>os_name = ''linux'', os_version = None, arch = ''x86_64'',
      cpu = \<lparr>cpu_model = None, physical_cores = None, logical_cores = None\<rparr>,
      memory = \<lparr>mem_total_bytes = 64, mem_available_bytes = 32\<rparr>, storage = [], gpus = [],
      accelerators =
        [example_accelerator ''Intel Graphics'' INTEL INTEGRATED [example_backend VULKAN AVAILABLE],
         example_accelerator ''RTX 2060'' NVIDIA DEDICATED
           [example_backend VULKAN AVAILABLE, example_backend CUDA AVAILABLE]],
      hw_warnings = []\<rparr>"

theorem select_backend_best_witness:
  "eligible example_machine 0 (accelerators example_machine ! 0) (example_backend VULKAN AVAILABLE) \<and>
   sel_backend (select_runtime_backend example_machine) = CUDA \<and>
   (\<exists>i a b. eligible example_machine i a b \<and> backend b = CUDA \<and>
      preference i a b \<le> preference 0 (accelerators example_machine ! 0) (example_backend VULKAN AVAILABLE))"
proof -
  have e: "eligible example_machine 0 (accelerators example_machine ! 0) (example_backend VULKAN AVAILABLE)"
    by (simp add: eligible_def example_machine_def example_accelerator_def example_backend_def)
  have s: "sel_backend (select_runtime_backend example_machine) = CUDA" by code_simp
  from e have "\<exists>i a b. eligible example_machine i a b" by blast
  with select_backend_best [of example_machine]
  obtain i a b where "eligible example_machine i a b" "backend b = CUDA"
    "\<forall>i' a' b'. eligible example_machine i' a' b' \<longrightarrow> preference i a b \<le> preference i' a' b'"
    unfolding s by auto
  with e s show ?thesis by blast
qed

theorem selected_backend_available_witness:
  "sel_backend (select_runtime_backend example_machine) \<in> available_compute_backends example_machine"
  by (rule selected_backend_available)
    (simp add: example_machine_def example_accelerator_def example_backend_def)

definition example_device :: "string \<Rightarrow> string \<Rightarrow> llama_cpp_runtime_device" where
  "example_device i name =
     \<lparr>rd_backend = VULKAN, rd_runtime_id = i, rd_name = Some name, rd_memory_total_bytes = None,
      rd_memory_free_bytes = None\<rparr>"

definition example_capability :: llama_cpp_backend_capability where
  "example_capability =
     \<lparr>cb_backend = VULKAN, cb_state = CAP_CONFIRMED,
      cb_devices =
        [example_device ''Vulkan0'' ''llvmpipe (256)'',
         example_device ''Vulkan1'' ''Arc(TM) A7'',
         example_device ''Vulkan2'' ''RTX 2060''],
      cb_reason = CR_BACKEND_EXPOSED, cb_source = None, cb_detail = None\<rparr>"

definition example_selection :: runtime_backend_selection where
  "example_selection =
     \<lparr>sel_backend = VULKAN,
      sel_accelerator = Some (accelerator_ref (example_accelerator ''RTX 2060'' NVIDIA DEDICATED [])),
      sel_reason = VULKAN_BACKEND_AVAILABLE, sel_backend_info = None, sel_alternatives = [], sel_notes = []\<rparr>"

lemma example_names:
  "full_name ''RTX 2060'' = ''rtx 2060''" "names_agree ''RTX 2060'' ''RTX 2060''"
  "\<not> names_agree ''Arc(TM) A7'' ''RTX 2060''"
  "is_software_device (example_device ''Vulkan0'' ''llvmpipe (256)'')"
  "\<not> is_software_device (example_device ''Vulkan1'' ''Arc(TM) A7'')"
  "\<not> is_software_device (example_device ''Vulkan2'' ''RTX 2060'')"
  by code_simp+

theorem matched_device_identified_witness:
  "\<exists>d. dm_device (match_runtime_device example_selection example_capability) = Some d \<and>
     rd_runtime_id d = ''Vulkan2'' \<and> \<not> is_software_device d"
proof -
  have "dm_device (match_runtime_device example_selection example_capability) =
      Some (example_device ''Vulkan2'' ''RTX 2060'')"
    using example_names
    by (simp add: match_runtime_device_def hardware_devices_def devices_named_def device_match_def
        example_selection_def example_capability_def accelerator_ref_def example_accelerator_def)
      (simp add: example_device_def)
  from matched_device_identified [OF this] this show ?thesis by (auto simp: example_device_def)
qed

end
