(* ===== verification/Launch_Policy.thy ===== *)
theory Launch_Policy
  imports Kv_Cache Weights Compatibility Gguf_Tensors Py_Text
begin

text \<open>
  The llama.cpp launch policy (\<^verbatim>\<open>runtime/llama_cpp_launch_policy.py\<close>,
  \<^verbatim>\<open>runtime/llama_cpp_tensor_policy.py\<close>): how many layers to put on the GPU, from the estimate
  alone or from the tensor table of the local artifact.  The records of an estimate and of a
  runtime recommendation (\<^verbatim>\<open>MemoryEstimate\<close>, \<^verbatim>\<open>domain/runtime.py\<close>) come first.  The
  properties: the requested number of units is the largest that the budget allows.
\<close>

section \<open>Data\<close>

datatype runtime_name = LLAMA_CPP | TRANSFORMERS | VLLM | RUNTIME_UNKNOWN

fun runtime_value :: "runtime_name \<Rightarrow> string" where
  "runtime_value LLAMA_CPP = ''llama.cpp''"
| "runtime_value TRANSFORMERS = ''transformers''"
| "runtime_value VLLM = ''vllm''"
| "runtime_value RUNTIME_UNKNOWN = ''unknown''"

datatype flag_source = FROM_HARDWARE | FROM_ESTIMATE | FROM_POLICY | FROM_USER_INPUT

record runtime_flag =
  flag_name :: string
  flag_value :: string
  flag_source :: flag_source
  flag_explanation :: string

record runtime_recommendation =
  rr_runtime :: runtime_name
  rr_command_preview :: "string option"
  rr_python_snippet :: "string option"
  rr_flags :: "runtime_flag list"
  rr_reasons :: "string list"
  rr_warnings :: "string list"
  rr_confidence :: estimation_confidence
  rr_alternatives :: "runtime_name list"

record memory_estimate =
  me_repository :: model_repository_info
  me_repository_type :: repository_type
  me_configuration :: inference_configuration
  me_weights :: weight_estimate
  me_kv_cache :: kv_cache_estimate
  me_overhead :: runtime_overhead_estimate
  me_device_reserve :: memory_component
  me_safety_margin :: "memory_component option"
  me_total_bytes :: "int option"
  me_assessment :: compatibility_assessment
  me_hardware_fit :: "hardware_fit_result option"
  me_assumptions :: "string list"
  me_warnings :: "string list"
  me_base_model_resolution :: "base_model_resolution option"
  me_configuration_sources :: "(string, configuration_source) dict"
  me_architecture :: "string option"
  me_runtime_recommendation :: "runtime_recommendation option"

section \<open>The budget from the estimate\<close>

definition LLAMA_CPP_HEADROOM_BYTES :: int where
  "LLAMA_CPP_HEADROOM_BYTES = 256 * MiB"

definition LLAMA_CPP_DEFAULT_LAYERS_WHEN_UNKNOWN :: int where
  "LLAMA_CPP_DEFAULT_LAYERS_WHEN_UNKNOWN = 20"

record layer_plan =
  lp_n_gpu_layers :: int
  lp_reasons :: "string list"
  lp_warnings :: "string list"
  lp_confidence :: estimation_confidence

datatype launch_error = LaunchZeroDivision

record weight_split =
  ws_block_count :: int
  ws_bytes_per_block :: int
  ws_fixed_gpu_weight_bytes :: int

definition weight_split_of :: "memory_estimate \<Rightarrow> weight_split option" where
  "weight_split_of e =
     (let blocks = int_or (kv_layers (me_kv_cache e)) 0 in
      if blocks \<le> 0 then None
      else
        (case we_decomposition (me_weights e) of
           Some d \<Rightarrow>
             Some \<lparr>ws_block_count = blocks, ws_bytes_per_block = wd_bytes_per_block d,
               ws_fixed_gpu_weight_bytes = wd_non_block d\<rparr>
         | None \<Rightarrow>
           let weights = int_or (mc_bytes (we_component (me_weights e))) 0 in
           if weights = 0 then None
           else Some \<lparr>ws_block_count = blocks, ws_bytes_per_block = weights div blocks,
             ws_fixed_gpu_weight_bytes = 0\<rparr>))"

definition launch_budget :: "memory_estimate \<Rightarrow> weight_split \<Rightarrow> int" where
  "launch_budget e s =
     int_or (ca_available_vram_bytes (me_assessment e)) 0 -
     cfg_device_reserve_bytes (me_configuration e) -
     LLAMA_CPP_HEADROOM_BYTES - ws_fixed_gpu_weight_bytes s"

definition budget_layers :: "memory_estimate \<Rightarrow> weight_split \<Rightarrow> launch_error + int" where
  "budget_layers e s =
     (let budget = launch_budget e s;
          kv = int_or (mc_bytes (kv_component (me_kv_cache e))) 0;
          denominator = ws_block_count s * ws_bytes_per_block s + kv in
      if budget \<le> 0 \<or> ws_bytes_per_block s \<le> 0 then Inr 0
      else if denominator = 0 then Inl LaunchZeroDivision
      else Inr (min (ws_block_count s) (ws_block_count s * budget div denominator)))"

definition pick_aggregate_gpu_layers :: "memory_estimate \<Rightarrow> launch_error + layer_plan" where
  "pick_aggregate_gpu_layers e =
     (let status = ca_status (me_assessment e) in
      if ca_effective_device (me_assessment e) = CPU_DEVICE then
        Inr \<lparr>lp_n_gpu_layers = 0,
          lp_reasons = [''Effective device is CPU, so no layers are offloaded to GPU.''],
          lp_warnings = [], lp_confidence = CONF_HIGH\<rparr>
      else if status \<in> {COMFORTABLE, COMPATIBLE, TIGHT} then
        Inr \<lparr>lp_n_gpu_layers = - 1,
          lp_reasons = [''Model fits in VRAM ('' @ status_value status @ ''); using --n-gpu-layers -1 (all).''],
          lp_warnings = [], lp_confidence = CONF_HIGH\<rparr>
      else
        (case weight_split_of e of
           Some s \<Rightarrow>
             bind_result (budget_layers e s) (\<lambda>n. Inr
               \<lparr>lp_n_gpu_layers = n,
                lp_reasons =
                  [''Offloading required: requesting '' @ show_int n @
                   '' llama.cpp GPU units from a conservative '' @ show_int (ws_block_count s) @
                   ''-transformer-block budget ('' @ show_gib (ws_bytes_per_block s) @ '' GiB/block).''] @
                  (if 0 < ws_fixed_gpu_weight_bytes s then
                     [''The '' @ show_gib (ws_fixed_gpu_weight_bytes s) @ '' GiB non-block '' @
                      ''weight aggregate is charged to GPU as a conservative bound; '' @
                      ''config-derived embedding/output estimates do not establish '' @
                      ''llama.cpp placement.'']
                   else []),
                lp_warnings = [], lp_confidence = CONF_MEDIUM\<rparr>)
         | None \<Rightarrow>
             Inr \<lparr>lp_n_gpu_layers = LLAMA_CPP_DEFAULT_LAYERS_WHEN_UNKNOWN,
               lp_reasons = [''Offloading required but layer count is unknown.''],
               lp_warnings =
                 [''Block count unavailable; using a conservative fallback of '' @
                  show_int LLAMA_CPP_DEFAULT_LAYERS_WHEN_UNKNOWN @
                  '' layers. Increase manually if VRAM allows.''],
               lp_confidence = CONF_LOW\<rparr>))"

section \<open>The budget from the tensor table\<close>

record tensor_context =
  tc_index :: "gguf_tensor_index option"
  tc_unavailable_reason :: "string option"

record tensor_budget =
  tb_requested_units :: int
  tb_gpu_blocks :: int
  tb_total_blocks :: int
  tb_gpu_block_bytes :: int
  tb_gpu_output_bytes :: int
  tb_host_input_bytes :: int
  tb_gpu_kv_bytes :: int
  tb_reserve_bytes :: int
  tb_headroom_bytes :: int
  tb_available_vram_bytes :: int

definition required_bytes :: "tensor_budget \<Rightarrow> int" where
  "required_bytes b =
     tb_gpu_block_bytes b + tb_gpu_output_bytes b + tb_gpu_kv_bytes b + tb_reserve_bytes b +
     tb_headroom_bytes b"

definition REQUIRED_TENSORS :: "string list" where
  "REQUIRED_TENSORS =
     [''attn_norm.weight'', ''attn_q.weight'', ''attn_k.weight'', ''attn_v.weight'',
      ''attn_output.weight'', ''ffn_norm.weight'', ''ffn_gate.weight'', ''ffn_down.weight'',
      ''ffn_up.weight'']"

definition OPTIONAL_TENSORS :: "string list" where
  "OPTIONAL_TENSORS = [''attn_q.bias'', ''attn_k.bias'', ''attn_v.bias'']"

text \<open>\<^verbatim>\<open>re.fullmatch(r"blk\.(\d+)\.(.+)", name)\<close>.\<close>

definition block_tensor :: "string \<Rightarrow> (int \<times> string) option" where
  "block_tensor name =
     (if \<not> startswith name ''blk.'' then None
      else
        (case scan_digits (drop 4 name) of
           Some (n, c # d # rest) \<Rightarrow> if c = CHR ''.'' then Some (n, d # rest) else None
         | _ \<Rightarrow> None))"

text \<open>The reader only builds indices with a positive alignment.\<close>

definition aligned_size :: "gguf_tensor_index \<Rightarrow> gguf_tensor \<Rightarrow> int" where
  "aligned_size ix t = (gt_size_bytes t + ti_alignment ix - 1) div ti_alignment ix * ti_alignment ix"

text \<open>The accumulators of the classification loop.\<close>

record tensor_sums =
  ts_blocks :: "int list"
  ts_names :: "string list list"
  ts_output :: int
  ts_input :: int

definition add_tensor :: "gguf_tensor_index \<Rightarrow> gguf_tensor \<Rightarrow> tensor_sums \<Rightarrow> string + tensor_sums" where
  "add_tensor ix t s =
     (if gt_name t = ''token_embd.weight'' then Inr (s\<lparr>ts_input := ts_input s + aligned_size ix t\<rparr>)
      else if gt_name t \<in> {''output.weight'', ''output_norm.weight''} then
        Inr (s\<lparr>ts_output := ts_output s + aligned_size ix t\<rparr>)
      else
        (case block_tensor (gt_name t) of
           None \<Rightarrow> Inl (''Unclassified tensor: '' @ gt_name t @ ''.'')
         | Some (block, part) \<Rightarrow>
           if int (length (ts_blocks s)) \<le> block \<or> part \<notin> set (REQUIRED_TENSORS @ OPTIONAL_TENSORS)
           then Inl (''Unclassified tensor: '' @ gt_name t @ ''.'')
           else
             Inr (s\<lparr>ts_blocks := (ts_blocks s)[nat block := ts_blocks s ! nat block + aligned_size ix t],
                    ts_names := (ts_names s)[nat block := part # ts_names s ! nat block]\<rparr>)))"

primrec add_tensors :: "gguf_tensor_index \<Rightarrow> gguf_tensor list \<Rightarrow> tensor_sums \<Rightarrow> string + tensor_sums" where
  "add_tensors ix [] s = Inr s"
| "add_tensors ix (t # ts) s = bind_result (add_tensor ix t s) (add_tensors ix ts)"

definition classify_tensors :: "gguf_tensor_index \<Rightarrow> int \<Rightarrow> string + tensor_sums" where
  "classify_tensors ix total_blocks =
     bind_result
       (add_tensors ix (ti_tensors ix)
          \<lparr>ts_blocks = replicate (nat total_blocks) 0, ts_names = replicate (nat total_blocks) [],
           ts_output = 0, ts_input = 0\<rparr>)
       (\<lambda>s.
          if list_ex (\<lambda>names. \<not> set REQUIRED_TENSORS \<subseteq> set names) (ts_names s)
          then Inl ''Incomplete repeating-block tensor layout.'' else Inr s)"

text \<open>The checks before the loop; the result is the block count.\<close>

definition tensor_inputs_agree :: "memory_estimate \<Rightarrow> gguf_tensor_index \<Rightarrow> int \<Rightarrow> bool" where
  "tensor_inputs_agree e ix total_blocks \<longleftrightarrow>
     kv_layers (me_kv_cache e) = Some total_blocks \<and>
     (case mc_bytes (kv_component (me_kv_cache e)) of None \<Rightarrow> False | Some kv \<Rightarrow> 0 \<le> kv) \<and>
     mc_bytes (we_component (me_weights e)) = Some (ti_file_size_bytes ix) \<and>
     repo_id (me_repository e) = ma_repo_id (ti_artifact ix) \<and>
     known_equal (we_gguf_variant (me_weights e)) (ma_quantization (ti_artifact ix))"

definition tensor_named :: "gguf_tensor_index \<Rightarrow> string \<Rightarrow> gguf_tensor option" where
  "tensor_named ix name = map_of (rev (map (\<lambda>t. (gt_name t, t)) (ti_tensors ix))) name"

definition check_tensor_context :: "memory_estimate \<Rightarrow> tensor_context \<Rightarrow> string + gguf_tensor_index \<times> int" where
  "check_tensor_context e context =
     (case tc_index context of
        None \<Rightarrow>
          (case tc_unavailable_reason context of
             None \<Rightarrow> Inl ''Local tensor descriptors unavailable.''
           | Some r \<Rightarrow> Inl (if r = '''' then ''Local tensor descriptors unavailable.'' else r))
      | Some ix \<Rightarrow>
        (case ti_block_count ix of
           None \<Rightarrow> Inl ''Local tensor placement supports only dense qwen2 with a block count.''
         | Some total_blocks \<Rightarrow>
           if ti_architecture ix \<noteq> Some ''qwen2''
           then Inl ''Local tensor placement supports only dense qwen2 with a block count.''
           else if int (length (ti_tensors ix)) < total_blocks
           then Inl ''Block count exceeds the tensor descriptor count.''
           else if \<not> tensor_inputs_agree e ix total_blocks
           then Inl ''Tensor artifact and estimate inputs do not agree or KV is unknown.''
           else
             (case (tensor_named ix ''token_embd.weight'', tensor_named ix ''output.weight'',
                 tensor_named ix ''output_norm.weight'') of
                (Some embd, Some out, Some out_norm) \<Rightarrow>
                  if gt_dimensions out \<noteq> gt_dimensions embd then Inl ''Input/output tensor shapes disagree.''
                  else if length (gt_dimensions out) \<noteq> 2 \<or> gt_dimensions out_norm \<noteq> take 1 (gt_dimensions out)
                  then Inl ''Unsupported input/output tensor dimensions.''
                  else Inr (ix, total_blocks)
              | _ \<Rightarrow> Inl ''Separate input/output tensors are required; shared weights are unsupported.'')))"

definition tensor_budget_for ::
  "memory_estimate \<Rightarrow> tensor_sums \<Rightarrow> int \<Rightarrow> int \<Rightarrow> int \<Rightarrow> int \<Rightarrow> tensor_budget" where
  "tensor_budget_for e s total_blocks kv vram n =
     \<lparr>tb_requested_units = n + 1, tb_gpu_blocks = n, tb_total_blocks = total_blocks,
      tb_gpu_block_bytes = sum_list (drop (nat (total_blocks - n)) (ts_blocks s)),
      tb_gpu_output_bytes = ts_output s, tb_host_input_bytes = ts_input s,
      tb_gpu_kv_bytes = (kv * n + total_blocks - 1) div total_blocks,
      tb_reserve_bytes = cfg_device_reserve_bytes (me_configuration e),
      tb_headroom_bytes = LLAMA_CPP_HEADROOM_BYTES, tb_available_vram_bytes = vram\<rparr>"

definition no_offload_budget :: "tensor_sums \<Rightarrow> int \<Rightarrow> int \<Rightarrow> tensor_budget" where
  "no_offload_budget s total_blocks vram =
     \<lparr>tb_requested_units = 0, tb_gpu_blocks = 0, tb_total_blocks = total_blocks, tb_gpu_block_bytes = 0,
      tb_gpu_output_bytes = 0, tb_host_input_bytes = ts_input s, tb_gpu_kv_bytes = 0,
      tb_reserve_bytes = 0, tb_headroom_bytes = 0, tb_available_vram_bytes = vram\<rparr>"

text \<open>The loop counts down from the whole model; \<open>n\<close> is its counter plus one.\<close>

primrec largest_budget ::
  "memory_estimate \<Rightarrow> tensor_sums \<Rightarrow> int \<Rightarrow> int \<Rightarrow> int \<Rightarrow> nat \<Rightarrow> tensor_budget" where
  "largest_budget e s total_blocks kv vram 0 = no_offload_budget s total_blocks vram"
| "largest_budget e s total_blocks kv vram (Suc n) =
     (let b = tensor_budget_for e s total_blocks kv vram (int n) in
      if required_bytes b \<le> vram then b else largest_budget e s total_blocks kv vram n)"

definition select_tensor_budget ::
  "memory_estimate \<Rightarrow> tensor_context \<Rightarrow> launch_error + (string + tensor_budget)" where
  "select_tensor_budget e context =
     (case check_tensor_context e context of
        Inl reason \<Rightarrow> Inr (Inl reason)
      | Inr (ix, total_blocks) \<Rightarrow>
        (case classify_tensors ix total_blocks of
           Inl reason \<Rightarrow> Inr (Inl reason)
         | Inr s \<Rightarrow>
           (case ca_available_vram_bytes (me_assessment e) of
              None \<Rightarrow> Inr (Inl ''VRAM budget unavailable.'')
            | Some vram \<Rightarrow>
              if total_blocks = 0 then Inl LaunchZeroDivision
              else Inr (Inr (largest_budget e s total_blocks
                (int_or (mc_bytes (kv_component (me_kv_cache e))) 0) vram (nat (total_blocks + 1)))))))"

section \<open>The choice\<close>

definition VERIFIED_BUILD :: string where
  "VERIFIED_BUILD = ''689e227db''"

definition tensor_plan :: "gguf_tensor_index \<Rightarrow> tensor_budget \<Rightarrow> layer_plan" where
  "tensor_plan ix b =
     \<lparr>lp_n_gpu_layers = tb_requested_units b,
      lp_reasons =
        [''Local GGUF tensor budget; llama.cpp build '' @ VERIFIED_BUILD @ '': '' @
         show_int (tb_requested_units b) @ '' runtime units, '' @ show_int (tb_gpu_blocks b) @ ''/'' @
         show_int (tb_total_blocks b) @ '' repeating blocks plus output when enabled.'',
         ''GPU planning bytes: blocks='' @ show_int (tb_gpu_block_bytes b) @ '', output='' @
         show_int (tb_gpu_output_bytes b) @ '', KV='' @ show_int (tb_gpu_kv_bytes b) @ '', reserve='' @
         show_int (tb_reserve_bytes b) @ '', headroom='' @ show_int (tb_headroom_bytes b) @
         ''; required='' @ show_int (required_bytes b) @ '', available='' @
         show_int (tb_available_vram_bytes b) @ ''. Input tensor budget on host='' @
         show_int (tb_host_input_bytes b) @ ''.'',
         ''Artifact: '' @ ma_repo_id (ti_artifact ix) @ ''@'' @ ma_revision (ti_artifact ix) @ ''/'' @
         ma_filename (ti_artifact ix) @ ''; sha256='' @
         (case ma_sha256 (ti_artifact ix) of None \<Rightarrow> ''unrecorded''
          | Some h \<Rightarrow> if h = '''' then ''unrecorded'' else h) @
         ''. Stored tensor bytes and estimated KV are not measured CUDA allocations.''],
      lp_warnings = [], lp_confidence = CONF_MEDIUM\<rparr>"

definition pick_gpu_layers :: "memory_estimate \<Rightarrow> tensor_context option \<Rightarrow> launch_error + layer_plan" where
  "pick_gpu_layers e tensors =
     (case tensors of
        None \<Rightarrow> pick_aggregate_gpu_layers e
      | Some context \<Rightarrow>
        if ca_effective_device (me_assessment e) = CPU_DEVICE then pick_aggregate_gpu_layers e
        else
          bind_result (select_tensor_budget e context) (\<lambda>choice.
            case (choice, tc_index context) of
              (Inr b, Some ix) \<Rightarrow> Inr (tensor_plan ix b)
            | (Inl reason, _) \<Rightarrow>
              bind_result (pick_aggregate_gpu_layers e) (\<lambda>p.
                Inr (p\<lparr>lp_warnings := lp_warnings p @ [''Local tensor refinement not applied: '' @ reason]\<rparr>))
            | (Inr b, None) \<Rightarrow> pick_aggregate_gpu_layers e))"

section \<open>The budget from the estimate is used up\<close>

lemma int_le_div_iff:
  fixes m n d :: int
  assumes "0 < d"
  shows "m \<le> n div d \<longleftrightarrow> m * d \<le> n"
proof
  assume "m \<le> n div d"
  then have "m * d \<le> n div d * d" using assms by (simp add: mult_right_mono)
  also have "\<dots> \<le> n" using assms div_mult_mod_eq [of n d] pos_mod_sign [OF assms, of n] by linarith
  finally show "m * d \<le> n" .
next
  assume "m * d \<le> n"
  from zdiv_mono1 [OF this assms] assms show "m \<le> n div d" by simp
qed

definition kv_bytes_known :: "memory_estimate \<Rightarrow> int" where
  "kv_bytes_known e = int_or (mc_bytes (kv_component (me_kv_cache e))) 0"

text \<open>
  \<open>m\<close> blocks with their share \<open>m / T\<close> of the cache fit the launch budget, multiplied by \<open>T\<close>.
\<close>

definition layers_fit :: "memory_estimate \<Rightarrow> weight_split \<Rightarrow> int \<Rightarrow> bool" where
  "layers_fit e s m \<longleftrightarrow>
     m * (ws_block_count s * ws_bytes_per_block s + kv_bytes_known e) \<le> ws_block_count s * launch_budget e s"

lemma weight_split_positive: "weight_split_of e = Some s \<Longrightarrow> 0 < ws_block_count s"
  by (auto simp: weight_split_of_def Let_def split: if_splits option.splits)

lemma budget_layers_maximal:
  assumes split: "weight_split_of e = Some s" and kv: "0 \<le> kv_bytes_known e"
  shows "\<exists>n. budget_layers e s = Inr n \<and> 0 \<le> n \<and> n \<le> ws_block_count s \<and>
    (0 < ws_bytes_per_block s \<longrightarrow>
      (\<forall>m. 0 < m \<and> m \<le> ws_block_count s \<longrightarrow> (m \<le> n \<longleftrightarrow> layers_fit e s m)))"
proof -
  let ?T = "ws_block_count s" and ?b = "launch_budget e s"
  let ?d = "?T * ws_bytes_per_block s + kv_bytes_known e"
  have T: "0 < ?T" by (rule weight_split_positive [OF split])
  show ?thesis
  proof (cases "?b \<le> 0 \<or> ws_bytes_per_block s \<le> 0")
    case True
    have "\<not> layers_fit e s m" if "0 < m" "0 < ws_bytes_per_block s" for m
    proof -
      have "?b \<le> 0" using True that by simp
      then have "?T * ?b \<le> 0" using T by (simp add: mult_le_0_iff)
      moreover have "0 < m * ?d" using that T kv by (simp add: zero_less_mult_iff add_pos_nonneg)
      ultimately show ?thesis by (simp add: layers_fit_def)
    qed
    moreover have "budget_layers e s = Inr 0"
      using True by (simp add: budget_layers_def Let_def)
    ultimately show ?thesis using T by (auto simp: not_le)
  next
    case False
    then have d: "0 < ?d" and b: "0 < ?b" using T kv by (simp_all add: add_pos_nonneg)
    define n where "n = min ?T (?T * ?b div ?d)"
    have "budget_layers e s = Inr n"
      using False d by (simp add: budget_layers_def Let_def kv_bytes_known_def n_def)
    moreover have "0 \<le> n" using T b d by (simp add: n_def pos_imp_zdiv_nonneg_iff)
    moreover have "m \<le> n \<longleftrightarrow> layers_fit e s m" if "m \<le> ?T" for m
      using that int_le_div_iff [OF d, of m "?T * ?b"] by (simp add: n_def layers_fit_def)
    ultimately show ?thesis by (auto simp: n_def)
  qed
qed

text \<open>
  When the model does not fit VRAM and its blocks are known, the requested number of layers
  is the largest one whose blocks, with their share of the cache, fit the VRAM that is left after
  the reserve, the headroom and the non-block weights; the request is always between zero and the
  block count and the computation never fails.
\<close>

theorem requested_layers_maximal:
  assumes "ca_effective_device (me_assessment e) \<noteq> CPU_DEVICE"
    and "ca_status (me_assessment e) \<notin> {COMFORTABLE, COMPATIBLE, TIGHT}"
    and "weight_split_of e = Some s" and "0 \<le> kv_bytes_known e"
  shows "\<exists>p. pick_gpu_layers e None = Inr p \<and>
    0 \<le> lp_n_gpu_layers p \<and> lp_n_gpu_layers p \<le> ws_block_count s \<and>
    (0 < ws_bytes_per_block s \<longrightarrow>
      (\<forall>m. 0 < m \<and> m \<le> ws_block_count s \<longrightarrow> (m \<le> lp_n_gpu_layers p \<longleftrightarrow> layers_fit e s m)))"
proof -
  obtain n where "budget_layers e s = Inr n" and n: "0 \<le> n \<and> n \<le> ws_block_count s \<and>
    (0 < ws_bytes_per_block s \<longrightarrow>
      (\<forall>m. 0 < m \<and> m \<le> ws_block_count s \<longrightarrow> (m \<le> n \<longleftrightarrow> layers_fit e s m)))"
    using budget_layers_maximal [OF assms(3,4)] by blast
  then obtain p where "pick_gpu_layers e None = Inr p" and "lp_n_gpu_layers p = n"
    using assms by (simp add: pick_gpu_layers_def pick_aggregate_gpu_layers_def Let_def)
  with n show ?thesis by auto
qed

text \<open>
  Without a decomposition the per-block figure is rounded down, so the blocks together are
  charged less than the weights whenever the division leaves a remainder.
\<close>

lemma split_without_decomposition_undercharges:
  assumes "weight_split_of e = Some s" and "we_decomposition (me_weights e) = None"
    and "mc_bytes (we_component (me_weights e)) = Some w" and "w mod ws_block_count s \<noteq> 0"
  shows "ws_block_count s * ws_bytes_per_block s + ws_fixed_gpu_weight_bytes s < w"
proof -
  have "ws_bytes_per_block s = w div ws_block_count s" "ws_fixed_gpu_weight_bytes s = 0" "0 < ws_block_count s"
    using assms weight_split_positive [OF assms(1)]
    by (auto simp: weight_split_of_def Let_def int_or_def split: if_splits option.splits)
  moreover have "0 < w mod ws_block_count s"
    using assms(4) pos_mod_sign [of "ws_block_count s" w] \<open>0 < ws_block_count s\<close> by linarith
  ultimately show ?thesis
    using mult_div_mod_eq [of "ws_block_count s" w] by (metis add.right_neutral less_add_same_cancel1)
qed

section \<open>The budget from the tensor table is the largest\<close>

lemma scan_digits_nonneg: "scan_digits s = Some (n, r) \<Longrightarrow> 0 \<le> n"
proof -
  have "list_all is_digit ds \<Longrightarrow> 0 \<le> int_of_digits ds" for ds
    by (induction ds rule: rev_induct) (simp_all add: int_of_digits_def is_digit_def Let_def)
  moreover have "list_all is_digit (takeWhile is_digit s)"
    by (metis list_all_iff set_takeWhileD)
  ultimately show "scan_digits s = Some (n, r) \<Longrightarrow> 0 \<le> n"
    by (auto simp: scan_digits_def split: list.splits)
qed

lemma block_tensor_nonneg: "block_tensor name = Some (n, part) \<Longrightarrow> 0 \<le> n"
  by (auto simp: block_tensor_def split: if_splits option.splits list.splits dest: scan_digits_nonneg)

lemma sum_list_add_at: "k < length xs \<Longrightarrow> sum_list (xs[k := xs ! k + x]) = sum_list xs + (x :: int)"
  by (induction xs arbitrary: k) (auto split: nat.splits)

definition sums_total :: "tensor_sums \<Rightarrow> int" where
  "sums_total s = sum_list (ts_blocks s) + ts_output s + ts_input s"

lemma add_tensor_total:
  assumes "add_tensor ix t s = Inr s'"
  shows "sums_total s' = sums_total s + aligned_size ix t"
proof (cases "block_tensor (gt_name t)")
  case None
  with assms show ?thesis by (auto simp: add_tensor_def sums_total_def split: if_splits)
next
  case (Some bp)
  then obtain block part where "block_tensor (gt_name t) = Some (block, part)" by (cases bp) auto
  with assms block_tensor_nonneg [OF this] show ?thesis
    by (auto simp: add_tensor_def sums_total_def sum_list_add_at nat_less_iff split: if_splits)
qed

lemma add_tensors_total:
  "add_tensors ix ts s = Inr s' \<Longrightarrow> sums_total s' = sums_total s + sum_list (map (aligned_size ix) ts)"
proof (induction ts arbitrary: s)
  case (Cons t ts)
  then obtain s1 where "add_tensor ix t s = Inr s1" "add_tensors ix ts s1 = Inr s'"
    by (auto simp: bind_result_Inr)
  with Cons.IH [OF this(2)] add_tensor_total [OF this(1)] show ?case by simp
qed simp

lemma classify_tensors_total:
  assumes "classify_tensors ix T = Inr s"
  shows "sums_total s = sum_list (map (aligned_size ix) (ti_tensors ix))"
  using assms
  by (auto simp: classify_tensors_def bind_result_Inr sums_total_def [of "\<lparr>ts_blocks = _, ts_names = _, ts_output = _, ts_input = _\<rparr>"]
      sum_list_replicate split: if_splits dest!: add_tensors_total)

lemma largest_budget_spec:
  fixes e s T kv vram
  defines "fits \<equiv> \<lambda>i. required_bytes (tensor_budget_for e s T kv vram i) \<le> vram"
  shows "(\<exists>i < n. largest_budget e s T kv vram n = tensor_budget_for e s T kv vram (int i) \<and> fits (int i) \<and>
      (\<forall>j < n. fits (int j) \<longrightarrow> j \<le> i)) \<or>
    largest_budget e s T kv vram n = no_offload_budget s T vram \<and> (\<forall>j < n. \<not> fits (int j))"
proof (induction n)
  case (Suc n)
  show ?case
  proof (cases "fits (int n)")
    case True
    then show ?thesis by (auto simp: fits_def Let_def less_Suc_eq_le)
  next
    case False
    with Suc show ?thesis by (auto simp: fits_def Let_def less_Suc_eq)
  qed
qed simp

text \<open>
  The placement from the tensor table charges every stored byte exactly once (blocks, output
  and host input add up to the aligned sizes of all tensors) and is the largest one: the blocks
  put on the GPU are the last ones, their requirement fits VRAM, and no larger number of blocks
  would fit; nothing is offloaded only when not even the output layer fits.
\<close>

theorem tensor_budget_largest:
  assumes "select_tensor_budget e context = Inr (Inr b)"
  shows "\<exists>ix T s. check_tensor_context e context = Inr (ix, T) \<and> classify_tensors ix T = Inr s \<and>
    sum_list (ts_blocks s) + ts_output s + ts_input s = sum_list (map (aligned_size ix) (ti_tensors ix)) \<and>
    (tb_requested_units b = 0 \<or>
      (\<exists>n. 0 \<le> n \<and> n \<le> T \<and> required_bytes b \<le> tb_available_vram_bytes b \<and>
        b = tensor_budget_for e s T (kv_bytes_known e) (tb_available_vram_bytes b) n)) \<and>
    (\<forall>n. tb_requested_units b \<le> n \<and> 0 \<le> n \<and> n \<le> T \<longrightarrow>
      tb_available_vram_bytes b
        < required_bytes (tensor_budget_for e s T (kv_bytes_known e) (tb_available_vram_bytes b) n))"
proof -
  obtain ix T s vram where c: "check_tensor_context e context = Inr (ix, T)"
    and s: "classify_tensors ix T = Inr s"
    and b: "b = largest_budget e s T (kv_bytes_known e) vram (nat (T + 1))"
    using assms
    by (auto simp: select_tensor_budget_def kv_bytes_known_def split: sum.splits prod.splits option.splits if_splits)
  let ?f = "\<lambda>n. tensor_budget_for e s T (kv_bytes_known e) vram n"
  have total: "sum_list (ts_blocks s) + ts_output s + ts_input s = sum_list (map (aligned_size ix) (ti_tensors ix))"
    using classify_tensors_total [OF s] by (simp add: sums_total_def)
  consider (some) i where "i < nat (T + 1)" "b = ?f (int i)" "required_bytes (?f (int i)) \<le> vram"
      "\<forall>j < nat (T + 1). required_bytes (?f (int j)) \<le> vram \<longrightarrow> j \<le> i"
    | (none) "b = no_offload_budget s T vram" "\<forall>j < nat (T + 1). \<not> required_bytes (?f (int j)) \<le> vram"
    using largest_budget_spec [where e = e and s = s and T = T and kv = "kv_bytes_known e" and vram = vram
        and n = "nat (T + 1)"] b by auto
  then show ?thesis
  proof cases
    case some
    then have v: "tb_available_vram_bytes b = vram" and u: "tb_requested_units b = int i + 1"
      by (simp_all add: tensor_budget_for_def)
    have "vram < required_bytes (?f n)" if "int i + 1 \<le> n" "n \<le> T" for n
      using some(4)[rule_format, of "nat n"] that by (fastforce simp: not_le [symmetric] nat_less_iff nat_le_iff)
    with some c s total show ?thesis
      unfolding v u by (intro exI [of _ ix] exI [of _ T] exI [of _ s]) (auto intro!: exI [of _ "int i"])
  next
    case none
    then have v: "tb_available_vram_bytes b = vram" and u: "tb_requested_units b = 0"
      by (simp_all add: no_offload_budget_def)
    have "vram < required_bytes (?f n)" if "0 \<le> n" "n \<le> T" for n
      using none(2)[rule_format, of "nat n"] that by (simp add: not_le [symmetric])
    with c s total show ?thesis unfolding v u by blast
  qed
qed

section \<open>Examples\<close>

definition example_component :: "int option \<Rightarrow> memory_component" where
  "example_component n =
     \<lparr>mc_name = ''component'', mc_bytes = n, mc_source = SRC_EXACT, mc_confidence = CONF_HIGH,
      mc_explanation = ''''\<rparr>"

definition example_kv :: "int \<Rightarrow> int \<Rightarrow> kv_cache_estimate" where
  "example_kv layers n =
     \<lparr>kv_component = example_component (Some n), kv_layers = Some layers, kv_kv_heads = Some 4,
      kv_head_dim = Some 128, kv_context_length = 4096, kv_batch_size = 1, kv_dtype_bytes = 2,
      kv_formula = '''', kv_notes = []\<rparr>"

definition example_configuration :: inference_configuration where
  "example_configuration =
     \<lparr>cfg_context_length = 4096, cfg_batch_size = 1, cfg_target_device = AUTO, cfg_precision = None,
      cfg_quantization = Some ''Q4_K_M'', cfg_kv_cache_dtype = FLOAT16,
      cfg_safety_margin_percent = float_of_int 10, cfg_device_reserve_bytes = 512 * MiB,
      cfg_concurrent_users = 1\<rparr>"

definition example_assessment :: "compatibility_status \<Rightarrow> int option \<Rightarrow> compatibility_assessment" where
  "example_assessment status vram =
     \<lparr>ca_status = status, ca_confidence = CONF_MEDIUM, ca_target_device = AUTO,
      ca_effective_device = GPU_DEVICE, ca_available_vram_bytes = vram, ca_available_ram_bytes = None,
      ca_ratio = None, ca_reasons = [], ca_warnings = []\<rparr>"

definition example_memory_estimate ::
  "weight_estimate \<Rightarrow> kv_cache_estimate \<Rightarrow> compatibility_assessment \<Rightarrow> memory_estimate" where
  "example_memory_estimate w kv a =
     \<lparr>me_repository = example_repo, me_repository_type = REPO_GGUF,
      me_configuration = example_configuration, me_weights = w, me_kv_cache = kv,
      me_overhead = \<lparr>ro_component = example_component None, ro_base_bytes = 0,
        ro_weight_fraction = PyFloat 0 0, ro_minimum_bytes = 0\<rparr>,
      me_device_reserve = example_component None, me_safety_margin = None, me_total_bytes = None,
      me_assessment = a, me_hardware_fit = None, me_assumptions = [], me_warnings = [],
      me_base_model_resolution = None, me_configuration_sources = [], me_architecture = Some ''qwen2'',
      me_runtime_recommendation = None\<rparr>"

definition example_offload :: memory_estimate where
  "example_offload =
     example_memory_estimate example_estimate (example_kv 28 234881024)
       (example_assessment OFFLOADING_REQUIRED (Some (4 * GiB)))"

lemma example_offload_split:
  "weight_split_of example_offload =
     Some \<lparr>ws_block_count = 28, ws_bytes_per_block = 167252651, ws_fixed_gpu_weight_bytes = 0\<rparr>"
  by code_simp

theorem requested_layers_maximal_witness:
  "\<exists>p s. weight_split_of example_offload = Some s \<and> pick_gpu_layers example_offload None = Inr p \<and>
     lp_n_gpu_layers p = 19 \<and> layers_fit example_offload s 19 \<and> \<not> layers_fit example_offload s 20"
proof -
  have pre: "ca_effective_device (me_assessment example_offload) \<noteq> CPU_DEVICE"
    "ca_status (me_assessment example_offload) \<notin> {COMFORTABLE, COMPATIBLE, TIGHT}"
    "0 \<le> kv_bytes_known example_offload"
    by (simp_all add: example_offload_def example_memory_estimate_def example_assessment_def
        example_kv_def example_component_def kv_bytes_known_def)
  from requested_layers_maximal [OF pre(1,2) example_offload_split pre(3)]
  obtain p where p: "pick_gpu_layers example_offload None = Inr p" and
    m: "\<forall>m. 0 < m \<and> m \<le> 28 \<longrightarrow> (m \<le> lp_n_gpu_layers p \<longleftrightarrow>
      layers_fit example_offload \<lparr>ws_block_count = 28, ws_bytes_per_block = 167252651, ws_fixed_gpu_weight_bytes = 0\<rparr> m)"
    by auto
  have fit: "layers_fit example_offload \<lparr>ws_block_count = 28, ws_bytes_per_block = 167252651, ws_fixed_gpu_weight_bytes = 0\<rparr> 19"
    "\<not> layers_fit example_offload \<lparr>ws_block_count = 28, ws_bytes_per_block = 167252651, ws_fixed_gpu_weight_bytes = 0\<rparr> 20"
    by code_simp+
  with m [rule_format, of 19] m [rule_format, of 20] have "lp_n_gpu_layers p = 19" by simp
  with p fit example_offload_split show ?thesis by blast
qed

definition example_index :: gguf_tensor_index where
  "example_index =
     \<lparr>ti_artifact = example_artifact\<lparr>ma_repo_id := ''Qwen/Qwen2.5-7B-Instruct'', ma_quantization := Some ''Q4_K_M''\<rparr>,
      ti_architecture = Some ''qwen2'', ti_block_count = Some 1, ti_alignment = 32, ti_data_offset = 0,
      ti_file_size_bytes = 4683074240,
      ti_tensors =
        [\<lparr>gt_name = ''token_embd.weight'', gt_dimensions = [8, 4], gt_type_id = 0, gt_offset = 0, gt_size_bytes = 100\<rparr>,
         \<lparr>gt_name = ''output.weight'', gt_dimensions = [8, 4], gt_type_id = 0, gt_offset = 0, gt_size_bytes = 100\<rparr>,
         \<lparr>gt_name = ''output_norm.weight'', gt_dimensions = [8], gt_type_id = 0, gt_offset = 0, gt_size_bytes = 10\<rparr>] @
        map (\<lambda>part. \<lparr>gt_name = ''blk.0.'' @ part, gt_dimensions = [8], gt_type_id = 0, gt_offset = 0,
               gt_size_bytes = 5 * GiB\<rparr>) REQUIRED_TENSORS\<rparr>"

definition example_tensor_estimate :: memory_estimate where
  "example_tensor_estimate =
     example_memory_estimate example_estimate (example_kv 1 64)
       (example_assessment OFFLOADING_REQUIRED (Some (4 * GiB)))"

definition example_context :: tensor_context where
  "example_context = \<lparr>tc_index = Some example_index, tc_unavailable_reason = None\<rparr>"

theorem tensor_budget_largest_witness:
  "\<exists>b. select_tensor_budget example_tensor_estimate example_context = Inr (Inr b) \<and>
     tb_requested_units b = 1 \<and>
     (\<exists>ix T s. check_tensor_context example_tensor_estimate example_context = Inr (ix, T) \<and>
        classify_tensors ix T = Inr s)"
proof -
  have "map_sum id (map_sum id tb_requested_units) (select_tensor_budget example_tensor_estimate example_context) =
      Inr (Inr 1)"
    by code_simp
  then obtain b where b: "select_tensor_budget example_tensor_estimate example_context = Inr (Inr b)"
    and "tb_requested_units b = 1"
    by (cases "select_tensor_budget example_tensor_estimate example_context")
      (auto simp: map_sum_def split: sum.splits)
  moreover from tensor_budget_largest [OF b]
  obtain ix T s where "check_tensor_context example_tensor_estimate example_context = Inr (ix, T)"
    "classify_tensors ix T = Inr s" by blast
  ultimately show ?thesis by blast
qed

end
