(* ===== verification/Runtime_Advice.thy ===== *)
theory Runtime_Advice
  imports Launch_Policy Backend_Selection
begin

text \<open>
  From an estimate to a runtime: the recommendation builders (\<^verbatim>\<open>runtime/llama_cpp.py\<close>,
  \<^verbatim>\<open>runtime/transformers.py\<close>, \<^verbatim>\<open>runtime/vllm.py\<close>, \<^verbatim>\<open>runtime/service.py\<close>), the rules on
  whether the recommended runtime can load the artifact (\<^verbatim>\<open>runtime/executability.py\<close>,
  \<^verbatim>\<open>domain/artifact_profile.py\<close>) and the technical blockers of
  \<^verbatim>\<open>domain/runtime_support.py\<close>.  The properties tie the recommendation to the verdict it is built
  from and the executability rules to the technical blockers.
\<close>

section \<open>llama.cpp\<close>

definition runtime_flag_of :: "string \<Rightarrow> string \<Rightarrow> flag_source \<Rightarrow> string \<Rightarrow> runtime_flag" where
  "runtime_flag_of n v s x =
     \<lparr>flag_name = n, flag_value = v, flag_source = s, flag_explanation = x\<rparr>"

definition gguf_file_hint :: "memory_estimate \<Rightarrow> string" where
  "gguf_file_hint e =
     (case we_gguf_variant (me_weights e) of
        None \<Rightarrow> ''model.gguf''
      | Some v \<Rightarrow> path_name (repo_id (me_repository e)) @ ''.'' @ v @ ''.gguf'')"

definition build_llama_cpp ::
  "memory_estimate \<Rightarrow> tensor_context option \<Rightarrow> launch_error + runtime_recommendation" where
  "build_llama_cpp e tensors =
     bind_result (pick_gpu_layers e tensors) (\<lambda>plan.
       let ctx = show_int (cfg_context_length (me_configuration e));
           layers = show_int (lp_n_gpu_layers plan);
           hint = gguf_file_hint e in
       Inr \<lparr>rr_runtime = LLAMA_CPP,
         rr_command_preview =
           Some (''llama-server --model '' @ hint @ '' --ctx-size '' @ ctx @ '' --n-gpu-layers '' @ layers),
         rr_python_snippet = None,
         rr_flags =
           [runtime_flag_of ''--model'' hint FROM_USER_INPUT
              (''Path to the .gguf file. Download it first with '' @
               ''`huggingface-cli download` and pass the resulting local path.''),
            runtime_flag_of ''--ctx-size'' ctx FROM_ESTIMATE ''Context length used for the memory estimate.'',
            runtime_flag_of ''--n-gpu-layers'' layers FROM_HARDWARE
              ''llama.cpp offload units requested by the launch policy. -1 means all.''],
         rr_reasons = lp_reasons plan @
           [''Prompt-token batching uses the llama.cpp runtime default. '' @
            ''The estimate's sequence batch size is not a --batch-size token limit.''],
         rr_warnings = lp_warnings plan, rr_confidence = lp_confidence plan, rr_alternatives = []\<rparr>)"

section \<open>Transformers\<close>

record device_map_plan =
  dp_device_map :: string
  dp_reasons :: "string list"
  dp_warnings :: "string list"

definition pick_device_map :: "memory_estimate \<Rightarrow> device_map_plan" where
  "pick_device_map e =
     (let status = ca_status (me_assessment e) in
      if ca_effective_device (me_assessment e) = CPU_DEVICE then
        \<lparr>dp_device_map = ''cpu'',
         dp_reasons = [''Effective device is CPU; loading the whole model into RAM.''], dp_warnings = []\<rparr>
      else if status \<in> {COMFORTABLE, COMPATIBLE, TIGHT} then
        \<lparr>dp_device_map = ''cuda'',
         dp_reasons =
           [''Model fits in VRAM ('' @ status_value status @ ''); placing everything on the GPU.''],
         dp_warnings = []\<rparr>
      else
        \<lparr>dp_device_map = ''auto'',
         dp_reasons = [''Model does not fit fully in VRAM; letting Accelerate split layers.''],
         dp_warnings =
           [''device_map='auto' requires the `accelerate` package. Actual placement '' @
            ''depends on Accelerate's heuristics and available disk swap.'']\<rparr>)"

definition COMPUTE_DTYPE :: string where
  "COMPUTE_DTYPE = ''torch.float16''"

definition quantization_mode :: "string option \<Rightarrow> string option" where
  "quantization_mode precision =
     (case precision of None \<Rightarrow> None
      | Some p \<Rightarrow> map_of [(''int4'', ''4bit''), (''int8'', ''8bit'')] p)"

definition requires_bitsandbytes :: "string option \<Rightarrow> bool" where
  "requires_bitsandbytes v \<longleftrightarrow> v \<in> {Some ''int4'', Some ''int8'', Some ''4bit'', Some ''8bit''}"

text \<open>\<^verbatim>\<open>_torch_dtype_expr\<close>; the quantized precisions never reach it.\<close>

fun torch_dtype_expr :: "weight_precision \<Rightarrow> string" where
  "torch_dtype_expr FLOAT32 = ''torch.float32''"
| "torch_dtype_expr FLOAT16 = ''torch.float16''"
| "torch_dtype_expr BFLOAT16 = ''torch.bfloat16''"
| "torch_dtype_expr INT8 = []"
| "torch_dtype_expr INT4 = []"

definition NL :: string where "NL = [CHR 0x0A]"

definition quoted :: "string \<Rightarrow> string" where "quoted s = [CHR 0x22] @ s @ [CHR 0x22]"

definition quantized_snippet :: "string \<Rightarrow> string \<Rightarrow> string \<Rightarrow> string" where
  "quantized_snippet repo mode device_map =
     ''from transformers import ('' @ NL @ ''    AutoModelForCausalLM,'' @ NL @
     ''    AutoTokenizer,'' @ NL @ ''    BitsAndBytesConfig,'' @ NL @ '')'' @ NL @
     ''import torch'' @ NL @ NL @
     ''tokenizer = AutoTokenizer.from_pretrained('' @ quoted repo @ '')'' @ NL @
     ''model = AutoModelForCausalLM.from_pretrained('' @ NL @
     ''    '' @ quoted repo @ '','' @ NL @
     ''    quantization_config=BitsAndBytesConfig('' @ NL @
     ''        load_in_'' @ mode @ ''=True,'' @ NL @
     (if mode = ''4bit'' then ''        bnb_4bit_compute_dtype='' @ COMPUTE_DTYPE @ '','' @ NL else []) @
     ''    ),'' @ NL @ ''    device_map='' @ quoted device_map @ '','' @ NL @ '')''"

definition dtype_snippet :: "string \<Rightarrow> string \<Rightarrow> string \<Rightarrow> string" where
  "dtype_snippet repo dtype device_map =
     ''from transformers import AutoModelForCausalLM, AutoTokenizer'' @ NL @
     ''import torch'' @ NL @ NL @
     ''tokenizer = AutoTokenizer.from_pretrained('' @ quoted repo @ '')'' @ NL @
     ''model = AutoModelForCausalLM.from_pretrained('' @ NL @
     ''    '' @ quoted repo @ '','' @ NL @ ''    torch_dtype='' @ dtype @ '','' @ NL @
     ''    device_map='' @ quoted device_map @ '','' @ NL @ '')''"

text \<open>
  An estimate without a precision is treated as half precision, so the confidence is always high.
\<close>

definition build_transformers :: "memory_estimate \<Rightarrow> runtime_recommendation" where
  "build_transformers e =
     (let precision = opt_default (we_precision (me_weights e)) FLOAT16;
          plan = pick_device_map e;
          repo = repo_id (me_repository e);
          mode = quantization_mode (Some (precision_value precision));
          (snippet, flag, more_warnings) = (case mode of
             Some m \<Rightarrow>
               (quantized_snippet repo m (dp_device_map plan),
                runtime_flag_of ''quantization'' m FROM_ESTIMATE
                  (''The estimate is '' @ precision_value precision @ '', which Transformers loads '' @
                   ''through BitsAndBytesConfig(load_in_'' @ m @ ''=True), not through a torch dtype.''),
                [''Running this configuration requires 'bitsandbytes' in the selected '' @
                 ''Transformers Python environment.'',
                 ''The estimate assumes every weight is quantized. bitsandbytes keeps '' @
                 ''some modules at a higher precision, so the loaded footprint is '' @
                 ''larger than parameters x bits/8.''])
           | None \<Rightarrow>
               (dtype_snippet repo (torch_dtype_expr precision) (dp_device_map plan),
                runtime_flag_of ''torch_dtype'' (torch_dtype_expr precision) FROM_ESTIMATE
                  (''Weight precision derived from the estimate ('' @ precision_value precision @ '').''),
                []))
      in
      \<lparr>rr_runtime = TRANSFORMERS, rr_command_preview = None, rr_python_snippet = Some snippet,
       rr_flags =
         [flag,
          runtime_flag_of ''device_map'' (dp_device_map plan) FROM_HARDWARE
            ''How Accelerate should place the layers across devices.''],
       rr_reasons = dp_reasons plan, rr_warnings = dp_warnings plan @ more_warnings,
       rr_confidence = CONF_HIGH, rr_alternatives = []\<rparr>)"

section \<open>vLLM\<close>

definition VLLM_SUPPORTED_ARCHITECTURES :: "string list" where
  "VLLM_SUPPORTED_ARCHITECTURES =
     [''llama'', ''qwen2'', ''mistral'', ''phi3'', ''gemma'', ''gemma2'', ''gemma3'']"

definition architecture_hint :: "memory_estimate \<Rightarrow> string option" where
  "architecture_hint e =
     (case me_architecture e of None \<Rightarrow> None | Some a \<Rightarrow> if a = [] then None else Some (lower a))"

definition vllm_viable :: "memory_estimate \<Rightarrow> bool" where
  "vllm_viable e \<longleftrightarrow>
     repo_pipeline_tag (me_repository e) \<in> {Some ''text-generation'', Some ''conversational'', None} \<and>
     (case architecture_hint e of None \<Rightarrow> False | Some a \<Rightarrow> a \<in> set VLLM_SUPPORTED_ARCHITECTURES) \<and>
     ca_effective_device (me_assessment e) = GPU_DEVICE \<and>
     ca_status (me_assessment e) \<in> {COMFORTABLE, COMPATIBLE, TIGHT}"

fun cli_dtype :: "weight_precision \<Rightarrow> string" where
  "cli_dtype FLOAT32 = ''float32''"
| "cli_dtype FLOAT16 = ''float16''"
| "cli_dtype BFLOAT16 = ''bfloat16''"
| "cli_dtype INT8 = ''int8''"
| "cli_dtype INT4 = ''int8''"

definition build_vllm :: "memory_estimate \<Rightarrow> runtime_recommendation" where
  "build_vllm e =
     (let precision = opt_default (we_precision (me_weights e)) BFLOAT16;
          dtype = cli_dtype precision;
          ctx = show_int (cfg_context_length (me_configuration e)) in
      \<lparr>rr_runtime = VLLM,
       rr_command_preview =
         Some (''vllm serve '' @ repo_id (me_repository e) @ '' --dtype '' @ dtype @
           '' --max-model-len '' @ ctx @ '' --gpu-memory-utilization 0.9''),
       rr_python_snippet = None,
       rr_flags =
         [runtime_flag_of ''--dtype'' dtype FROM_ESTIMATE
            (''Derived from the estimated weight precision ('' @ precision_value precision @ '').''),
          runtime_flag_of ''--max-model-len'' ctx FROM_ESTIMATE ''Context length from the estimate.'',
          runtime_flag_of ''--gpu-memory-utilization'' ''0.9'' FROM_POLICY
            ''Leaves ~10 % of VRAM as headroom for the KV cache growth.''],
       rr_reasons = [''Architecture is in vLLM's supported list and the model fits in VRAM.''],
       rr_warnings =
         [''vLLM's real support matrix is broader; consult its docs for architectures '' @
          ''not in the shortlist.''],
       rr_confidence = CONF_MEDIUM, rr_alternatives = []\<rparr>)"

section \<open>Dispatch\<close>

definition no_runtime :: "estimation_confidence \<Rightarrow> string \<Rightarrow> runtime_recommendation" where
  "no_runtime confidence warning =
     \<lparr>rr_runtime = RUNTIME_UNKNOWN, rr_command_preview = None, rr_python_snippet = None, rr_flags = [],
      rr_reasons = [], rr_warnings = [warning], rr_confidence = confidence, rr_alternatives = []\<rparr>"

definition recommend_runtime ::
  "memory_estimate \<Rightarrow> repository_type \<Rightarrow> launch_error + runtime_recommendation" where
  "recommend_runtime e repository_type =
     (if ca_status (me_assessment e) = INSUFFICIENT then
        Inr (no_runtime CONF_HIGH
          ''No runtime can run this model on the current hardware: memory is insufficient.'')
      else if ca_status (me_assessment e) = STATUS_UNKNOWN then
        Inr (no_runtime CONF_UNKNOWN
          (''Not enough information to pick a runtime '' @ ''(memory estimate is incomplete).''))
      else if repository_type = REPO_GGUF then build_llama_cpp e None
      else if repository_type = REPO_TRANSFORMERS then
        Inr (let primary = build_transformers e in
             if vllm_viable e then primary\<lparr>rr_alternatives := [VLLM]\<rparr> else primary)
      else
        Inr (no_runtime CONF_UNKNOWN
          (''Runtime recommendations for repository type '' @ repr_str (repository_value repository_type) @
           '' are out of scope in the current iteration.'')))"

section \<open>Artifact profiles\<close>

datatype artifact_format =
    ART_GGUF | ART_AWQ | ART_GPTQ | ART_BITSANDBYTES | ART_COMPRESSED_TENSORS | ART_NATIVE | ART_UNKNOWN

fun artifact_format_value :: "artifact_format \<Rightarrow> string" where
  "artifact_format_value ART_GGUF = ''gguf''"
| "artifact_format_value ART_AWQ = ''awq''"
| "artifact_format_value ART_GPTQ = ''gptq''"
| "artifact_format_value ART_BITSANDBYTES = ''bitsandbytes''"
| "artifact_format_value ART_COMPRESSED_TENSORS = ''compressed_tensors''"
| "artifact_format_value ART_NATIVE = ''native''"
| "artifact_format_value ART_UNKNOWN = ''unknown''"

datatype artifact_confirmation = ART_CONFIRMED | ART_INFERRED | ART_THEORETICAL | ART_CONFIRMATION_UNKNOWN

record artifact_profile =
  ap_format :: artifact_format
  ap_quantization :: "string option"
  ap_confirmation :: artifact_confirmation
  ap_reasons :: "string list"

definition PACKED_QUANTIZATION_LABELS :: "(string \<times> string) list" where
  "PACKED_QUANTIZATION_LABELS =
     [(''awq'', ''AWQ''), (''gptq'', ''GPTQ''), (''compressed-tensors'', ''Compressed Tensors''),
      (''compressed_tensors'', ''Compressed Tensors'')]"

text \<open>
  \<^verbatim>\<open>str(x)\<close> as far as the two readers below look at it: a float prints neither a label nor an
  integer, so its text is left empty.
\<close>

fun text_of_obj :: "py_obj \<Rightarrow> string" where
  "text_of_obj PyNone = ''None''"
| "text_of_obj (PyBool b) = (if b then ''True'' else ''False'')"
| "text_of_obj (PyInt n) = show_int n"
| "text_of_obj (PyNum x) = []"
| "text_of_obj (PyStr s) = s"
| "text_of_obj (PyList xs) =
     ''['' @ join '', '' (map (\<lambda>x. case x of PyStr s \<Rightarrow> repr_str s | _ \<Rightarrow> text_of_obj x) xs) @ '']''"
| "text_of_obj (PyDict d) =
     ''{'' @ join '', '' (map (\<lambda>(k, x). repr_str k @ '': '' @
       (case x of PyStr s \<Rightarrow> repr_str s | _ \<Rightarrow> text_of_obj x)) d) @ ''}''"

text \<open>\<^verbatim>\<open>d.get(k1) or d.get(k2) or ...\<close>.\<close>

fun first_truthy :: "(string, py_obj) dict \<Rightarrow> string list \<Rightarrow> py_obj option" where
  "first_truthy d [] = None"
| "first_truthy d [k] = dict_get d k"
| "first_truthy d (k # ks) =
     (case dict_get d k of
        Some v \<Rightarrow> if truthy v then Some v else first_truthy d ks
      | None \<Rightarrow> first_truthy d ks)"

definition coerce_positive_int :: "py_obj option \<Rightarrow> int option" where
  "coerce_positive_int v =
     (case v of
        None \<Rightarrow> None
      | Some PyNone \<Rightarrow> None
      | Some (PyBool b) \<Rightarrow> None
      | Some x \<Rightarrow>
        (case parse_int (text_of_obj x) of None \<Rightarrow> None | Some n \<Rightarrow> if 0 < n then Some n else None))"

text \<open>The bits of the first group that declares them.\<close>

primrec group_bits :: "(string \<times> py_obj) list \<Rightarrow> int option" where
  "group_bits [] = None"
| "group_bits (g # gs) =
     (case snd g of
        PyDict grp \<Rightarrow>
          (case dict_get grp ''weights'' of
             Some (PyDict weights) \<Rightarrow>
               (case coerce_positive_int (first_truthy weights [''num_bits'', ''bits'', ''w_bit'']) of
                  Some n \<Rightarrow> Some n
                | None \<Rightarrow> group_bits gs)
           | _ \<Rightarrow> group_bits gs)
      | _ \<Rightarrow> group_bits gs)"

definition packed_quantization_bits :: "model_config option \<Rightarrow> int option" where
  "packed_quantization_bits mc =
     (case Option.bind mc quantization_config of
        None \<Rightarrow> None
      | Some q \<Rightarrow>
        (case coerce_positive_int (first_truthy q [''bits'', ''w_bit'', ''load_in_bits'']) of
           Some n \<Rightarrow> Some n
         | None \<Rightarrow>
           (case dict_get q ''config_groups'' of Some (PyDict groups) \<Rightarrow> group_bits groups | _ \<Rightarrow> None)))"

definition packed_quantization_label :: "model_config option \<Rightarrow> string option" where
  "packed_quantization_label mc =
     (case Option.bind mc quantization_config of
        None \<Rightarrow> None
      | Some q \<Rightarrow>
        let raw = first_truthy q [''quant_method'', ''quantization_method''];
            meth = (case raw of None \<Rightarrow> [] | Some PyNone \<Rightarrow> []
              | Some x \<Rightarrow> lower (strip (text_of_obj x))) in
        (case List.find (\<lambda>(token, label). contains meth token) PACKED_QUANTIZATION_LABELS of
           None \<Rightarrow> None
         | Some (token, label) \<Rightarrow>
           (case packed_quantization_bits mc of
              None \<Rightarrow> Some label
            | Some bits \<Rightarrow> Some (label @ '' '' @ show_int bits @ ''-bit''))))"

definition is_packed_quantization_config :: "model_config option \<Rightarrow> bool" where
  "is_packed_quantization_config mc \<longleftrightarrow> packed_quantization_label mc \<noteq> None"

section \<open>Executability\<close>

datatype runtime_executability = EXECUTABLE | POTENTIALLY_EXECUTABLE | UNSUPPORTED | EXECUTABILITY_UNKNOWN

record runtime_assessment =
  ra_runtime :: runtime_name
  ra_executability :: runtime_executability
  ra_reasons :: "string list"
  ra_warnings :: "string list"

definition graded ::
  "runtime_name \<Rightarrow> runtime_executability \<Rightarrow> string list \<Rightarrow> string list \<Rightarrow> runtime_assessment" where
  "graded n x rs ws = \<lparr>ra_runtime = n, ra_executability = x, ra_reasons = rs, ra_warnings = ws\<rparr>"

definition assess_llama_cpp :: "bool \<Rightarrow> artifact_profile option \<Rightarrow> runtime_assessment" where
  "assess_llama_cpp has_gpu artifact =
     (case artifact of
        Some a \<Rightarrow>
          if ap_format a = ART_GGUF then
            graded LLAMA_CPP POTENTIALLY_EXECUTABLE
              [(if has_gpu then ''GGUF + GPU'' else ''GGUF + CPU'') @ '': llama.cpp is designed for this pairing.'',
               ''Binary installation is not verified by this tool.''] []
          else graded LLAMA_CPP EXECUTABILITY_UNKNOWN
              [''Runtime is llama.cpp but no GGUF artifact was confirmed.''] []
      | None \<Rightarrow> graded LLAMA_CPP EXECUTABILITY_UNKNOWN
          [''Runtime is llama.cpp but no GGUF artifact was confirmed.''] [])"

definition assess_transformers :: "bool \<Rightarrow> artifact_profile option \<Rightarrow> bool \<Rightarrow> runtime_assessment" where
  "assess_transformers has_gpu artifact has_cuda =
     (case artifact of
        None \<Rightarrow> graded TRANSFORMERS EXECUTABILITY_UNKNOWN [''Artifact profile is unavailable.''] []
      | Some a \<Rightarrow>
        let name = upper (artifact_format_value (ap_format a)) in
        if ap_format a \<in> {ART_AWQ, ART_GPTQ} then
          (if \<not> has_cuda then
             graded TRANSFORMERS UNSUPPORTED
               [name @ '' kernels require a CUDA GPU; the detected hardware has no NVIDIA GPU.''] []
           else
             graded TRANSFORMERS POTENTIALLY_EXECUTABLE
               [name @ '' loads via Transformers on the detected NVIDIA GPU.'']
               [''Requires the matching AWQ/GPTQ Python extras installed.''])
        else if ap_format a = ART_BITSANDBYTES then
          (if \<not> has_gpu then graded TRANSFORMERS UNSUPPORTED [QUANTIZED_CPU_LIMITATION] []
           else graded TRANSFORMERS POTENTIALLY_EXECUTABLE
             [''bitsandbytes 4/8-bit loading available on the detected GPU.''] [])
        else if ap_confirmation a = ART_THEORETICAL then
          (if \<not> has_gpu then graded TRANSFORMERS UNSUPPORTED [QUANTIZED_CPU_LIMITATION] []
           else graded TRANSFORMERS POTENTIALLY_EXECUTABLE
             [''Runnable via Transformers with in-flight quantization on GPU.'']
             [''Theoretical quantization: requires in-flight quantization on load.''])
        else if has_gpu then
          graded TRANSFORMERS POTENTIALLY_EXECUTABLE
            [''Native precision on an available CUDA/HIP GPU backend.''] []
        else
          graded TRANSFORMERS POTENTIALLY_EXECUTABLE
            [''Native precision on CPU only '' @ [CHR 0xE2, CHR 0x80, CHR 0x94] @
             '' Transformers can load it but throughput will be significantly lower.'']
            [''No GPU detected; consider a llama.cpp GGUF conversion.''])"

definition assess_vllm :: "bool \<Rightarrow> runtime_assessment" where
  "assess_vllm has_gpu =
     (if \<not> has_gpu then graded VLLM UNSUPPORTED [''vLLM requires a CUDA GPU; none was detected.''] []
      else graded VLLM POTENTIALLY_EXECUTABLE [''vLLM available on the detected NVIDIA GPU.''] [])"

definition assess_runtime ::
  "runtime_recommendation option \<Rightarrow> hardware_profile \<Rightarrow> artifact_profile option \<Rightarrow>
   memory_estimate option \<Rightarrow> runtime_assessment" where
  "assess_runtime recommendation hw artifact estimate =
     (let has_cuda = CUDA \<in> available_compute_backends hw;
          runtime = (case recommendation of None \<Rightarrow> RUNTIME_UNKNOWN | Some r \<Rightarrow> rr_runtime r) in
      if runtime = RUNTIME_UNKNOWN then
        graded runtime EXECUTABILITY_UNKNOWN [''No runtime recommendation was produced.''] []
      else if map_option (\<lambda>e. ca_status (me_assessment e)) estimate = Some INSUFFICIENT then
        graded runtime UNSUPPORTED [''Insufficient memory to load the model at all.''] []
      else if runtime = LLAMA_CPP then assess_llama_cpp (has_usable_accelerator hw) artifact
      else if runtime = TRANSFORMERS then
        assess_transformers (quantized_transformers_supported hw) artifact has_cuda
      else assess_vllm has_cuda)"

section \<open>Technical blockers\<close>

definition flag_lookup :: "runtime_recommendation \<Rightarrow> string \<Rightarrow> string option" where
  "flag_lookup r name = map_of (rev (map (\<lambda>f. (flag_name f, flag_value f)) (rr_flags r))) name"

definition technical_support_issue ::
  "runtime_recommendation \<Rightarrow> compute_backend \<Rightarrow> hardware_profile \<Rightarrow> string option \<Rightarrow>
   weight_precision option \<Rightarrow> string option" where
  "technical_support_issue r b hw quantization precision =
     (if b \<notin> available_compute_backends hw then
        Some (''The '' @ backend_value b @ '' backend is not observed as available in this environment.'')
      else if rr_runtime r = TRANSFORMERS then
        (if b = VULKAN then Some ''Jaull's Transformers loader does not support the Vulkan backend.''
         else if (quantization \<noteq> None \<or> precision \<in> {Some INT4, Some INT8} \<or>
             flag_lookup r ''quantization'' \<in> {Some ''4bit'', Some ''8bit'', Some ''int4'', Some ''int8''}) \<and>
             b \<notin> {CUDA, HIP}
         then Some QUANTIZED_CPU_LIMITATION
         else if (case quantization of None \<Rightarrow> False
             | Some q \<Rightarrow> startswith (upper q) ''AWQ'' \<or> startswith (upper q) ''GPTQ'') \<and> b \<noteq> CUDA
         then Some ''Jaull's AWQ/GPTQ loader requires an available CUDA backend.''
         else None)
      else None)"

section \<open>The recommendation follows the verdict\<close>

text \<open>A command line written from the flags.\<close>

definition command_of :: "string \<Rightarrow> runtime_flag list \<Rightarrow> string" where
  "command_of program flags =
     program @ concat (map (\<lambda>f. '' '' @ flag_name f @ '' '' @ flag_value f) flags)"

lemmas recommendation_defs =
  recommend_runtime_def no_runtime_def build_llama_cpp_def build_transformers_def bind_result_Inr Let_def

text \<open>
  A runtime is recommended exactly for a GGUF or Transformers repository with a known,
  sufficient verdict; the llama.cpp command line shown is the one its flags describe; vLLM is only
  offered as an alternative for a model that fits the GPU; and a CPU verdict never requests the
  GPU: no layers for llama.cpp, the cpu device map for Transformers.
\<close>

theorem recommendation_follows_verdict:
  assumes "recommend_runtime e t = Inr r"
  shows "(rr_runtime r = RUNTIME_UNKNOWN \<longleftrightarrow>
      ca_status (me_assessment e) \<in> {INSUFFICIENT, STATUS_UNKNOWN} \<or> t \<notin> {REPO_GGUF, REPO_TRANSFORMERS}) \<and>
    (rr_runtime r = LLAMA_CPP \<longrightarrow> rr_command_preview r = Some (command_of ''llama-server'' (rr_flags r))) \<and>
    (VLLM \<in> set (rr_alternatives r) \<longrightarrow>
      ca_effective_device (me_assessment e) = GPU_DEVICE \<and>
      ca_status (me_assessment e) \<in> {COMFORTABLE, COMPATIBLE, TIGHT}) \<and>
    (ca_effective_device (me_assessment e) = CPU_DEVICE \<longrightarrow>
      (rr_runtime r = LLAMA_CPP \<longrightarrow> flag_lookup r ''--n-gpu-layers'' = Some ''0'') \<and>
      (rr_runtime r = TRANSFORMERS \<longrightarrow> flag_lookup r ''device_map'' = Some ''cpu''))"
proof -
  have zero: "show_int 0 = ''0''" by code_simp
  consider (none) "rr_runtime r = RUNTIME_UNKNOWN" "rr_alternatives r = []"
      "ca_status (me_assessment e) \<in> {INSUFFICIENT, STATUS_UNKNOWN} \<or> t \<notin> {REPO_GGUF, REPO_TRANSFORMERS}"
    | (gguf) "ca_status (me_assessment e) \<notin> {INSUFFICIENT, STATUS_UNKNOWN}" "t = REPO_GGUF"
      "build_llama_cpp e None = Inr r"
    | (hf) "ca_status (me_assessment e) \<notin> {INSUFFICIENT, STATUS_UNKNOWN}" "t = REPO_TRANSFORMERS"
      "r = build_transformers e \<or> vllm_viable e \<and> r = (build_transformers e)\<lparr>rr_alternatives := [VLLM]\<rparr>"
    using assms by (auto simp: recommend_runtime_def no_runtime_def Let_def split: if_splits)
  then show ?thesis
  proof cases
    case none
    then show ?thesis by simp
  next
    case gguf
    then obtain p where "pick_gpu_layers e None = Inr p" and
      r: "rr_runtime r = LLAMA_CPP" "rr_alternatives r = []"
        "rr_command_preview r = Some (command_of ''llama-server'' (rr_flags r))"
        "flag_lookup r ''--n-gpu-layers'' = Some (show_int (lp_n_gpu_layers p))"
      by (auto simp: build_llama_cpp_def bind_result_Inr Let_def command_of_def runtime_flag_of_def flag_lookup_def)
    then show ?thesis using gguf
      by (auto simp: pick_gpu_layers_def pick_aggregate_gpu_layers_def zero)
  next
    case hf
    have "rr_runtime (build_transformers e) = TRANSFORMERS" "rr_alternatives (build_transformers e) = []"
      "flag_lookup (build_transformers e) ''device_map'' = Some (dp_device_map (pick_device_map e))"
      "flag_lookup ((build_transformers e)\<lparr>rr_alternatives := [VLLM]\<rparr>) ''device_map'' = Some (dp_device_map (pick_device_map e))"
      by (simp_all add: build_transformers_def Let_def flag_lookup_def runtime_flag_of_def split: option.splits)
    with hf show ?thesis by (auto simp: vllm_viable_def pick_device_map_def Let_def)
  qed
qed

section \<open>The executability rules agree with the technical blockers\<close>

definition asks_quantized :: "runtime_recommendation \<Rightarrow> string option \<Rightarrow> weight_precision option \<Rightarrow> bool" where
  "asks_quantized r q p \<longleftrightarrow>
     q \<noteq> None \<or> p \<in> {Some INT4, Some INT8} \<or>
     flag_lookup r ''quantization'' \<in> {Some ''4bit'', Some ''8bit'', Some ''int4'', Some ''int8''}"

definition names_cuda_format :: "string option \<Rightarrow> bool" where
  "names_cuda_format q \<longleftrightarrow>
     (case q of None \<Rightarrow> False | Some s \<Rightarrow> startswith (upper s) ''AWQ'' \<or> startswith (upper s) ''GPTQ'')"

text \<open>The two descriptions of one artifact, as a profile and as launch arguments, say the same.\<close>

definition describes_artifact ::
  "artifact_profile \<Rightarrow> runtime_recommendation \<Rightarrow> string option \<Rightarrow> weight_precision option \<Rightarrow> bool" where
  "describes_artifact a r q p \<longleftrightarrow>
     (names_cuda_format q \<longleftrightarrow> ap_format a \<in> {ART_AWQ, ART_GPTQ}) \<and>
     (asks_quantized r q p \<longleftrightarrow>
        ap_format a \<in> {ART_AWQ, ART_GPTQ, ART_BITSANDBYTES} \<or> ap_confirmation a = ART_THEORETICAL)"

lemma issue_transformers:
  assumes "rr_runtime r = TRANSFORMERS"
  shows "technical_support_issue r b hw q p = None \<longleftrightarrow>
    b \<in> available_compute_backends hw \<and> b \<noteq> VULKAN \<and>
    (asks_quantized r q p \<longrightarrow> b \<in> {CUDA, HIP}) \<and> (names_cuda_format q \<longrightarrow> b = CUDA)"
  using assms
  by (auto simp: technical_support_issue_def asks_quantized_def names_cuda_format_def split: option.splits)

text \<open>
  For a Transformers recommendation that memory does not rule out, the two independent rule
  sets agree: the artifact is graded potentially executable exactly when some backend of the
  machine has no technical blocker, and unsupported exactly when every backend has one.
\<close>

theorem executability_matches_blockers:
  assumes "rr_runtime r = TRANSFORMERS" and "describes_artifact a r q p"
    and "\<forall>e. estimate = Some e \<longrightarrow> ca_status (me_assessment e) \<noteq> INSUFFICIENT"
  shows "ra_executability (assess_runtime (Some r) hw (Some a) estimate) =
    (if \<exists>b. technical_support_issue r b hw q p = None then POTENTIALLY_EXECUTABLE else UNSUPPORTED)"
proof -
  have gpu: "quantized_transformers_supported hw \<longleftrightarrow>
      CUDA \<in> available_compute_backends hw \<or> HIP \<in> available_compute_backends hw"
    by (auto simp: quantized_transformers_supported_def)
  have exec: "ra_executability (assess_runtime (Some r) hw (Some a) estimate) =
      (if ap_format a \<in> {ART_AWQ, ART_GPTQ} then
         if CUDA \<in> available_compute_backends hw then POTENTIALLY_EXECUTABLE else UNSUPPORTED
       else if ap_format a = ART_BITSANDBYTES \<or> ap_confirmation a = ART_THEORETICAL then
         if quantized_transformers_supported hw then POTENTIALLY_EXECUTABLE else UNSUPPORTED
       else POTENTIALLY_EXECUTABLE)"
    using assms(1,3)
    by (cases estimate) (auto simp: assess_runtime_def assess_transformers_def graded_def Let_def)
  have "(\<exists>b. technical_support_issue r b hw q p = None) \<longleftrightarrow>
      (if ap_format a \<in> {ART_AWQ, ART_GPTQ} then CUDA \<in> available_compute_backends hw
       else if ap_format a = ART_BITSANDBYTES \<or> ap_confirmation a = ART_THEORETICAL
       then quantized_transformers_supported hw else True)"
    using assms(2) cpu_backend_available [of hw] compute_backend.distinct
    unfolding issue_transformers [OF assms(1)] describes_artifact_def gpu
    by (metis (full_types) insert_iff empty_iff)
  with exec show ?thesis by auto
qed

section \<open>Examples\<close>

theorem recommendation_follows_verdict_witness:
  "\<exists>r. recommend_runtime example_offload REPO_GGUF = Inr r \<and> rr_runtime r = LLAMA_CPP \<and>
     rr_command_preview r = Some (command_of ''llama-server'' (rr_flags r))"
proof -
  have "\<exists>p. pick_gpu_layers example_offload None = Inr p"
    using example_offload_split
    by (simp add: pick_gpu_layers_def pick_aggregate_gpu_layers_def budget_layers_def Let_def)
      (simp add: example_offload_def example_memory_estimate_def example_kv_def example_component_def
        example_assessment_def)
  then obtain r where r: "recommend_runtime example_offload REPO_GGUF = Inr r" and n: "rr_runtime r = LLAMA_CPP"
    by (auto simp: recommend_runtime_def build_llama_cpp_def example_offload_def example_memory_estimate_def
        example_assessment_def Let_def)
  from recommendation_follows_verdict [OF r] r n show ?thesis by blast
qed

definition example_awq :: artifact_profile where
  "example_awq = \<lparr>ap_format = ART_AWQ, ap_quantization = Some ''AWQ 4-bit'', ap_confirmation = ART_CONFIRMED, ap_reasons = []\<rparr>"

theorem executability_matches_blockers_witness:
  "ra_executability (assess_runtime (Some (build_transformers example_offload)) (example_hardware 8 16)
     (Some example_awq) None) =
   (if \<exists>b. technical_support_issue (build_transformers example_offload) b (example_hardware 8 16)
      (Some ''awq-4bit'') None = None then POTENTIALLY_EXECUTABLE else UNSUPPORTED)"
proof (rule executability_matches_blockers)
  show "rr_runtime (build_transformers example_offload) = TRANSFORMERS"
    by (simp add: build_transformers_def Let_def split: option.splits)
  have "names_cuda_format (Some ''awq-4bit'')" by code_simp
  then show "describes_artifact example_awq (build_transformers example_offload) (Some ''awq-4bit'') None"
    by (simp add: describes_artifact_def example_awq_def asks_quantized_def)
qed simp

end
