(* ===== verification/Configuration.thy ===== *)
theory Configuration
  imports Gguf_Selection Runtime_Advice
begin

text \<open>
  The automatic choice of a configuration (\<^verbatim>\<open>estimator/configuration.py\<close>, the ladders of
  \<^verbatim>\<open>estimator/policies.py\<close>, the requirements of \<^verbatim>\<open>domain/requirements.py\<close>): a walk down a
  ladder of quantizations or precisions that estimates each rung and keeps the first acceptable
  one, with the two fallbacks.  The estimator is a parameter that may raise.  The properties say
  which rung is returned, and that a rung that fits is never passed over for one that does not.
\<close>

section \<open>Requirements\<close>

datatype use_case =
    GENERAL_CHAT | CODING | DOCUMENT_QA | SUMMARIZATION_EXTRACTION | REASONING | BATCH_PROCESSING
  | WRITING_TRANSLATION

datatype recommendation_priority = QUALITY | BALANCED | SPEED | MEMORY

fun priority_value :: "recommendation_priority \<Rightarrow> string" where
  "priority_value QUALITY = ''quality''"
| "priority_value BALANCED = ''balanced''"
| "priority_value SPEED = ''speed''"
| "priority_value MEMORY = ''memory''"

datatype workload_mode = INTERACTIVE | BATCH | SERVICE

record user_requirements =
  ur_use_case :: use_case
  ur_workload_mode :: workload_mode
  ur_priority :: recommendation_priority
  ur_languages :: "string list"
  ur_concurrent_users :: int
  ur_concurrency_range :: string
  ur_desired_context :: int
  ur_expected_input_tokens :: "int option"
  ur_expected_output_tokens :: "int option"
  ur_min_generation_tps :: "py_float option"
  ur_max_ttft_ms :: "py_float option"
  ur_commercial_use_required :: "bool option"
  ur_pipeline_tag :: string
  ur_preferred_formats :: "string list"
  ur_assumptions :: "string list"

section \<open>Ladders\<close>

fun QUANTIZATION_LADDERS :: "recommendation_priority \<Rightarrow> string list" where
  "QUANTIZATION_LADDERS QUALITY = [''Q6_K'', ''Q5_K_M'', ''Q4_K_M'', ''Q4_K_S'', ''Q3_K_M'']"
| "QUANTIZATION_LADDERS BALANCED = [''Q5_K_M'', ''Q4_K_M'', ''Q4_K_S'', ''Q3_K_M'']"
| "QUANTIZATION_LADDERS SPEED = [''Q4_K_M'', ''Q4_K_S'', ''Q3_K_M'', ''Q3_K_S'']"
| "QUANTIZATION_LADDERS MEMORY = [''Q4_K_S'', ''Q3_K_M'', ''Q3_K_S'', ''Q2_K'']"

definition AGGRESSIVE_QUANTIZATIONS :: "string list" where
  "AGGRESSIVE_QUANTIZATIONS =
     [''Q1_0'', ''IQ1_S'', ''IQ1_M'', ''IQ2_XXS'', ''IQ2_XS'', ''IQ2_S'', ''IQ2_M'', ''Q2_K'', ''Q2_K_L'',
      ''Q2_K_XL'', ''IQ3_XXS'', ''IQ3_XS'', ''Q3_K_S'']"

definition TRANSFORMERS_DTYPE_LADDER :: "weight_precision list" where
  "TRANSFORMERS_DTYPE_LADDER = [FLOAT16, INT8, INT4]"

definition THEORETICAL_DTYPES :: "weight_precision set" where
  "THEORETICAL_DTYPES = {INT8, INT4}"

definition ACCEPTABLE :: "compatibility_status set" where
  "ACCEPTABLE = {COMFORTABLE, COMPATIBLE, TIGHT}"

section \<open>Configurations\<close>

record configuration_choice =
  cc_configuration :: "inference_configuration option"
  cc_estimate :: "memory_estimate option"
  cc_reason :: string
  cc_considered :: "string list"
  cc_warnings :: "string list"

type_synonym 'e estimate_fn = "inference_configuration \<Rightarrow> 'e + memory_estimate"

definition build_config ::
  "user_requirements \<Rightarrow> string option \<Rightarrow> weight_precision option \<Rightarrow> inference_configuration" where
  "build_config req quantization precision =
     \<lparr>cfg_context_length = ur_desired_context req, cfg_batch_size = 1, cfg_target_device = AUTO,
      cfg_precision = precision, cfg_quantization = quantization, cfg_kv_cache_dtype = FLOAT16,
      cfg_safety_margin_percent = SAFETY_MARGIN_DEFAULT_PERCENT,
      cfg_device_reserve_bytes = DEVICE_RESERVE_DEFAULT_BYTES,
      cfg_concurrent_users = ur_concurrent_users req\<rparr>"

definition lower_theoretical_confidence :: "memory_estimate \<Rightarrow> memory_estimate" where
  "lower_theoretical_confidence e =
     (let a = me_assessment e in
      case ca_confidence a of
        CONF_UNKNOWN \<Rightarrow> e
      | CONF_HIGH \<Rightarrow> e\<lparr>me_assessment := a\<lparr>ca_confidence := CONF_MEDIUM\<rparr>\<rparr>
      | _ \<Rightarrow> e\<lparr>me_assessment := a\<lparr>ca_confidence := CONF_LOW\<rparr>\<rparr>)"

text \<open>One rung that was estimated, in the order of the walk.\<close>

record 'r rung_result =
  rg_rung :: 'r
  rg_configuration :: inference_configuration
  rg_estimate :: memory_estimate

definition rung_status :: "'r rung_result \<Rightarrow> compatibility_status" where
  "rung_status g = ca_status (me_assessment (rg_estimate g))"

subsection \<open>When nothing fits\<close>

definition fallback_option :: "'r rung_result list \<Rightarrow> 'r rung_result" where
  "fallback_option options =
     (case List.find (\<lambda>g. rung_status g = OFFLOADING_REQUIRED) options of
        Some g \<Rightarrow> g
      | None \<Rightarrow>
        (case List.find (\<lambda>g. rung_status g = STATUS_UNKNOWN) options of
           Some g \<Rightarrow> g
         | None \<Rightarrow>
           (case List.find (\<lambda>g. rung_status g = INSUFFICIENT) options of
              Some g \<Rightarrow> g
            | None \<Rightarrow> hd options)))"

definition fallback_status :: "'r rung_result list \<Rightarrow> compatibility_status option" where
  "fallback_status options = (if options = [] then None else Some (rung_status (fallback_option options)))"

definition exhausted_ladder_message ::
  "compatibility_status list \<Rightarrow> compatibility_status option \<Rightarrow> string \<Rightarrow> string \<Rightarrow> string" where
  "exhausted_ladder_message seen chosen unit aggressive =
     (let others = filter (\<lambda>s. Some s \<noteq> chosen) seen in
      if chosen = Some OFFLOADING_REQUIRED then
        ''No '' @ unit @ '' fits in VRAM alone. The reported option is estimated to '' @
        ''fit with CPU/GPU offloading, which is significantly slower; that is '' @
        ''a placement estimate, not a verified run.''
      else if chosen = Some STATUS_UNKNOWN then
        ''No '' @ unit @ '' could be confirmed to fit: the memory model could not '' @
        ''produce an estimate for the reported option. This is an unconfirmed '' @
        ''result, not a demonstration that it does not fit.''
      else
        let suffix =
          (if OFFLOADING_REQUIRED \<in> set others then
             '' Other options on the ladder are estimated to fit with CPU/GPU offloading.''
           else if STATUS_UNKNOWN \<in> set others then
             '' Other options could not be confirmed either way.''
           else []) in
        if chosen = None then ''No '' @ unit @ '' was evaluated for the detected memory.'' @ suffix
        else if list_all (\<lambda>s. s = INSUFFICIENT) seen then
          ''No '' @ unit @ '' fits the detected memory'' @ aggressive @ ''.''
        else ''The reported configuration is estimated not to fit the detected memory.'' @ suffix)"

definition exhausted_choice ::
  "'r rung_result list \<Rightarrow> string list \<Rightarrow> string list \<Rightarrow> string \<Rightarrow> string \<Rightarrow> configuration_choice" where
  "exhausted_choice options considered warnings message reason =
     \<lparr>cc_configuration = (if options = [] then None else Some (rg_configuration (fallback_option options))),
      cc_estimate = (if options = [] then None else Some (rg_estimate (fallback_option options))),
      cc_reason = reason, cc_considered = considered, cc_warnings = warnings @ [message]\<rparr>"

section \<open>GGUF\<close>

definition available_quantizations :: "gguf_variant list \<Rightarrow> (string, string) dict" where
  "available_quantizations vs =
     fold (\<lambda>v d. dict_set d (upper (var_quantization v)) (var_quantization v)) (preferred_gguf_variants vs) []"

definition ordered_rungs :: "recommendation_priority \<Rightarrow> (string, string) dict \<Rightarrow> string list" where
  "ordered_rungs priority available =
     (let ladder = QUANTIZATION_LADDERS priority in
      filter (dict_has available) ladder @
      sort_key (\<lambda>r. (r \<in> set AGGRESSIVE_QUANTIZATIONS, r))
        (filter (\<lambda>r. r \<notin> set ladder) (map fst available)))"

definition gguf_config ::
  "user_requirements \<Rightarrow> hardware_profile option \<Rightarrow> string \<Rightarrow> inference_configuration" where
  "gguf_config req hw quantization =
     (let c = build_config req (Some quantization) None in
      if (case hw of None \<Rightarrow> False | Some h \<Rightarrow> available_compute_backends h = {CPU})
      then c\<lparr>cfg_target_device := CPU_DEVICE\<rparr> else c)"

text \<open>
  The loop: either it returns a rung, or it ends with the tight rung it remembered.  The options
  seen so far and the lines of the report come with both.
\<close>

fun gguf_walk ::
  "user_requirements \<Rightarrow> hardware_profile option \<Rightarrow> 'e estimate_fn \<Rightarrow> (string, string) dict \<Rightarrow> string list \<Rightarrow>
   string rung_result option \<Rightarrow> string rung_result list \<Rightarrow> string list \<Rightarrow>
   'e + string rung_result option \<times> string rung_result option \<times> string rung_result list \<times> string list" where
  "gguf_walk req hw estimate available [] tight options considered = Inr (None, tight, options, considered)"
| "gguf_walk req hw estimate available (rung # rungs) tight options considered =
     (let quantization = the (dict_get available rung);
          config = gguf_config req hw quantization in
      case estimate config of
        Inl err \<Rightarrow> Inl err
      | Inr e \<Rightarrow>
        let g = \<lparr>rg_rung = rung, rg_configuration = config, rg_estimate = e\<rparr>;
            options' = options @ [g];
            considered' = considered @ [quantization @ '': '' @ status_value (rung_status g)] in
        if rung_status g \<notin> ACCEPTABLE then
          gguf_walk req hw estimate available rungs tight options' considered'
        else if rung_status g = TIGHT \<and> ur_priority req = BALANCED \<and> rung \<notin> set AGGRESSIVE_QUANTIZATIONS then
          gguf_walk req hw estimate available rungs (opt_or tight (Some g)) options' considered'
        else if tight \<noteq> None \<and> rung_status g = TIGHT then
          gguf_walk req hw estimate available rungs tight options' considered'
        else Inr (Some g, tight, options', considered'))"

definition gguf_choice ::
  "user_requirements \<Rightarrow> string rung_result \<Rightarrow> string list \<Rightarrow> string list \<Rightarrow> configuration_choice" where
  "gguf_choice req g considered warnings =
     (let quantization = opt_default (cfg_quantization (rg_configuration g)) ''None'' in
      \<lparr>cc_configuration = Some (rg_configuration g), cc_estimate = Some (rg_estimate g),
       cc_reason = quantization @ '' is the first variant on the '' @ priority_value (ur_priority req) @
         '' ladder that fits the detected memory.'',
       cc_considered = considered,
       cc_warnings = warnings @
         (if rg_rung g \<in> set AGGRESSIVE_QUANTIZATIONS then
            [quantization @ '' is an aggressive quantization; it was chosen '' @
             ''because nothing larger fits, and quality loss may be noticeable.'']
          else [])\<rparr>)"

text \<open>After the loop: the returned rung, else the remembered tight one, else the fallback.\<close>

definition conclude_gguf ::
  "user_requirements \<Rightarrow> (string, string) dict \<Rightarrow>
   string rung_result option \<times> string rung_result option \<times> string rung_result list \<times> string list \<Rightarrow>
   configuration_choice" where
  "conclude_gguf req available w =
     (case w of (returned, tight, options, considered) \<Rightarrow>
        (case returned of
           Some g \<Rightarrow> gguf_choice req g considered []
         | None \<Rightarrow>
           (case tight of
              Some g \<Rightarrow>
                gguf_choice req g considered
                  [the (dict_get available (rg_rung g)) @ '' is a tight fit; no reasonable smaller variant fits '' @
                   ''with more headroom.'']
            | None \<Rightarrow>
                let message = exhausted_ladder_message (map rung_status options) (fallback_status options)
                  ''GGUF variant'' '', even the most aggressive variant'' in
                exhausted_choice options considered [] message
                  (message @ '' Reporting the closest option.''))))"

definition select_gguf ::
  "gguf_variant list \<Rightarrow> user_requirements \<Rightarrow> 'e estimate_fn \<Rightarrow> hardware_profile option \<Rightarrow>
   'e + configuration_choice" where
  "select_gguf variants req estimate hw =
     (let available = available_quantizations variants in
      if available = [] then
        Inr \<lparr>cc_configuration = None, cc_estimate = None,
          cc_reason = ''No unambiguous complete GGUF representation could be selected.'',
          cc_considered = [],
          cc_warnings = [''GGUF representations are missing, incomplete or ambiguous.'']\<rparr>
      else
        bind_result (gguf_walk req hw estimate available (ordered_rungs (ur_priority req) available) None [] [])
          (\<lambda>w. Inr (conclude_gguf req available w)))"

section \<open>Transformers\<close>

definition native_precision :: "string option \<Rightarrow> weight_precision option" where
  "native_precision declared =
     (let d = opt_default declared [];
          name = (if startswith d ''torch.'' then drop 6 d else d) in
      map_of [(''float32'', FLOAT32), (''float16'', FLOAT16), (''bfloat16'', BFLOAT16)] name)"

definition transformers_precision_options :: "model_config option \<Rightarrow> weight_precision list" where
  "transformers_precision_options mc =
     (let native = native_precision (Option.bind mc torch_dtype);
          ladder = dedup ((case native of None \<Rightarrow> [] | Some p \<Rightarrow> [p]) @ TRANSFORMERS_DTYPE_LADDER) in
      if packed_quantization_label mc \<noteq> None then take 1 ladder else ladder)"

definition without_quantized_backend :: "hardware_profile option \<Rightarrow> bool" where
  "without_quantized_backend hw \<longleftrightarrow>
     (case hw of None \<Rightarrow> False | Some h \<Rightarrow> \<not> quantized_transformers_supported h)"

definition transformers_config ::
  "user_requirements \<Rightarrow> hardware_profile option \<Rightarrow> weight_precision \<Rightarrow> inference_configuration" where
  "transformers_config req hw precision =
     (let c = build_config req None (Some precision) in
      if without_quantized_backend hw then c\<lparr>cfg_target_device := CPU_DEVICE\<rparr> else c)"

definition precision_choice ::
  "weight_precision rung_result \<Rightarrow> string list \<Rightarrow> string list \<Rightarrow> configuration_choice" where
  "precision_choice g considered warnings =
     (let name = precision_value (rg_rung g); theoretical = (rg_rung g \<in> THEORETICAL_DTYPES) in
      \<lparr>cc_configuration = Some (rg_configuration g),
       cc_estimate = Some (if theoretical then lower_theoretical_confidence (rg_estimate g) else rg_estimate g),
       cc_reason = name @ '' is the highest precision that fits the detected memory.'',
       cc_considered = considered,
       cc_warnings = warnings @
         (if theoretical then
            [name @ '' is a theoretical estimate: this repository '' @
             ''ships no confirmed quantized artifact, so loading it at that '' @
             ''precision requires a runtime that quantizes on the fly.'']
          else [])\<rparr>)"

fun transformers_walk ::
  "user_requirements \<Rightarrow> hardware_profile option \<Rightarrow> 'e estimate_fn \<Rightarrow> bool \<Rightarrow> weight_precision list \<Rightarrow>
   weight_precision rung_result list \<Rightarrow> string list \<Rightarrow> string list \<Rightarrow>
   'e + configuration_choice option \<times> weight_precision rung_result list \<times> string list \<times> string list" where
  "transformers_walk req hw estimate packed [] options considered warnings =
     Inr (None, options, considered, warnings)"
| "transformers_walk req hw estimate packed (p # ps) options considered warnings =
     (if p \<in> THEORETICAL_DTYPES \<and> without_quantized_backend hw then
        transformers_walk req hw estimate packed ps options
          (considered @ [precision_value p @ '': unsupported configuration''])
          (if QUANTIZED_CPU_LIMITATION \<in> set warnings then warnings else warnings @ [QUANTIZED_CPU_LIMITATION])
      else
        let config = transformers_config req hw p in
        (case estimate config of
           Inl err \<Rightarrow> Inl err
         | Inr e \<Rightarrow>
           let g = \<lparr>rg_rung = p, rg_configuration = config, rg_estimate = e\<rparr>;
               options' = options @ [g];
               considered' = considered @ [precision_value p @ '': '' @ status_value (rung_status g)] in
           if packed \<and> without_quantized_backend hw then
             Inr (Some
               \<lparr>cc_configuration = Some config, cc_estimate = Some e, cc_reason = QUANTIZED_CPU_LIMITATION,
                cc_considered = considered', cc_warnings = [QUANTIZED_CPU_LIMITATION]\<rparr>,
               options', considered', warnings)
           else if rung_status g \<in> ACCEPTABLE then
             Inr (Some (precision_choice g considered' warnings), options', considered', warnings)
           else transformers_walk req hw estimate packed ps options' considered' warnings))"

definition select_transformers ::
  "model_config option \<Rightarrow> user_requirements \<Rightarrow> 'e estimate_fn \<Rightarrow> hardware_profile option \<Rightarrow>
   'e + configuration_choice" where
  "select_transformers mc req estimate hw =
     bind_result
       (transformers_walk req hw estimate (packed_quantization_label mc \<noteq> None)
          (transformers_precision_options mc) [] [] [])
       (\<lambda>(choice, options, considered, warnings). Inr
         (case choice of
            Some c \<Rightarrow> c
          | None \<Rightarrow>
            let message = exhausted_ladder_message (map rung_status options) (fallback_status options)
              (if without_quantized_backend hw then ''technically supported precision'' else ''precision'')
              (if without_quantized_backend hw then [] else '', including int4'') in
            exhausted_choice options considered warnings message message))"

definition select_configuration ::
  "model_analysis \<Rightarrow> user_requirements \<Rightarrow> 'e estimate_fn \<Rightarrow> hardware_profile option \<Rightarrow>
   'e + configuration_choice" where
  "select_configuration a req estimate hw =
     (if primary_type (an_classification a) = REPO_GGUF
      then select_gguf (gguf_variants (an_classification a)) req estimate hw
      else select_transformers (an_config a) req estimate hw)"

section \<open>What the GGUF walk returns\<close>

text \<open>The rungs the walk passes over without returning or remembering, as it goes.\<close>

definition remembers :: "user_requirements \<Rightarrow> string rung_result \<Rightarrow> bool" where
  "remembers req g \<longleftrightarrow>
     rung_status g = TIGHT \<and> ur_priority req = BALANCED \<and> rg_rung g \<notin> set AGGRESSIVE_QUANTIZATIONS"

definition estimated ::
  "user_requirements \<Rightarrow> hardware_profile option \<Rightarrow> 'e estimate_fn \<Rightarrow> (string, string) dict \<Rightarrow> string rung_result \<Rightarrow> bool" where
  "estimated req hw estimate available g \<longleftrightarrow>
     rg_configuration g = gguf_config req hw (the (dict_get available (rg_rung g))) \<and>
     estimate (rg_configuration g) = Inr (rg_estimate g)"

text \<open>The rungs are tried in order, each estimated once; all of them unless one is returned.\<close>

lemma gguf_walk_tried:
  "gguf_walk req hw estimate available rungs tight options considered = Inr (returned, tight', options', considered') \<Longrightarrow>
    \<exists>new. options' = options @ new \<and> list_all (estimated req hw estimate available) new \<and>
      prefix (map rg_rung new) rungs \<and> (returned = None \<longrightarrow> map rg_rung new = rungs)"
proof (induction rungs arbitrary: tight options considered)
  case (Cons rung rungs)
  define q where "q = the (dict_get available rung)"
  obtain e where e: "estimate (gguf_config req hw q) = Inr e"
    using Cons.prems by (auto simp: Let_def q_def split: sum.splits)
  define g where "g = \<lparr>rg_rung = rung, rg_configuration = gguf_config req hw q, rg_estimate = e\<rparr>"
  have g: "rg_rung g = rung" "estimated req hw estimate available g"
    by (simp_all add: g_def estimated_def e [unfolded q_def] q_def)
  from Cons.prems consider
      (rec) t line where "gguf_walk req hw estimate available rungs t (options @ [g]) line =
        Inr (returned, tight', options', considered')"
    | (ret) "options' = options @ [g]" "returned = Some g"
    by (auto simp: Let_def e q_def [symmetric] g_def [symmetric] split: if_splits)
  then show ?case
  proof cases
    case rec
    from Cons.IH [OF this] obtain new where "options' = (options @ [g]) @ new"
      "list_all (estimated req hw estimate available) new" "prefix (map rg_rung new) rungs"
      "returned = None \<longrightarrow> map rg_rung new = rungs" by blast
    with g show ?thesis by (intro exI [of _ "g # new"]) simp
  next
    case ret
    with g show ?thesis by (intro exI [of _ "[g]"]) simp
  qed
qed simp

text \<open>Every acceptable rung passed over is tight, and then a tight one is remembered.\<close>

definition passed_over :: "string rung_result list \<Rightarrow> string rung_result option \<Rightarrow> bool" where
  "passed_over options tight \<longleftrightarrow>
     (\<forall>g \<in> set options. rung_status g \<in> ACCEPTABLE \<longrightarrow> rung_status g = TIGHT \<and> tight \<noteq> None)"

definition remembered :: "user_requirements \<Rightarrow> string rung_result list \<Rightarrow> string rung_result option \<Rightarrow> bool" where
  "remembered req options tight \<longleftrightarrow>
     (case tight of None \<Rightarrow> \<forall>g \<in> set options. \<not> remembers req g
      | Some g \<Rightarrow> g \<in> set options \<and> remembers req g)"

lemma passed_over_balanced:
  assumes "passed_over options tight" and "remembered req options' tight" and "h \<in> set options"
    and "rung_status h \<in> ACCEPTABLE"
  shows "rung_status h = TIGHT \<and> ur_priority req = BALANCED"
  using assms by (auto simp: passed_over_def remembered_def remembers_def)

lemma gguf_walk_outcome:
  assumes "gguf_walk req hw estimate available rungs tight options considered = Inr (returned, tight', options', considered')"
    and "passed_over options tight" and "remembered req options tight"
  shows "case returned of
      None \<Rightarrow> passed_over options' tight' \<and> remembered req options' tight'
    | Some g \<Rightarrow> \<exists>before. options' = before @ [g] \<and> passed_over before tight' \<and> remembered req before tight' \<and>
        rung_status g \<in> ACCEPTABLE \<and> \<not> remembers req g \<and> (tight' \<noteq> None \<longrightarrow> rung_status g \<noteq> TIGHT)"
  using assms
proof (induction rungs arbitrary: tight options considered)
  case (Cons rung rungs)
  define q where "q = the (dict_get available rung)"
  obtain e where e: "estimate (gguf_config req hw q) = Inr e"
    using Cons.prems by (auto simp: Let_def q_def split: sum.splits)
  define g where "g = \<lparr>rg_rung = rung, rg_configuration = gguf_config req hw q, rg_estimate = e\<rparr>"
  have rem: "remembers req g \<longleftrightarrow>
      rung_status g = TIGHT \<and> ur_priority req = BALANCED \<and> rung \<notin> set AGGRESSIVE_QUANTIZATIONS"
    by (simp add: remembers_def g_def)
  from Cons.prems consider
      (bad) line where "rung_status g \<notin> ACCEPTABLE"
        "gguf_walk req hw estimate available rungs tight (options @ [g]) line = Inr (returned, tight', options', considered')"
    | (keep) line where "remembers req g"
        "gguf_walk req hw estimate available rungs (opt_or tight (Some g)) (options @ [g]) line =
          Inr (returned, tight', options', considered')"
    | (skip) line where "rung_status g = TIGHT" "tight \<noteq> None" "\<not> remembers req g"
        "gguf_walk req hw estimate available rungs tight (options @ [g]) line = Inr (returned, tight', options', considered')"
    | (ret) "options' = options @ [g]" "returned = Some g" "tight' = tight" "rung_status g \<in> ACCEPTABLE"
        "\<not> remembers req g" "tight \<noteq> None \<longrightarrow> rung_status g \<noteq> TIGHT"
    by (auto simp: Let_def e q_def [symmetric] g_def [symmetric] rem split: if_splits)
  then show ?case
  proof cases
    case bad
    have "\<not> remembers req g" using bad(1) by (auto simp: remembers_def ACCEPTABLE_def)
    with bad Cons.prems(2,3) show ?thesis
      by (intro Cons.IH [OF bad(2)]) (auto simp: passed_over_def remembered_def split: option.splits)
  next
    case keep
    with Cons.prems(2,3) show ?thesis
      by (intro Cons.IH [OF keep(2)])
        (auto simp: passed_over_def remembered_def remembers_def opt_or_def split: option.splits)
  next
    case skip
    with Cons.prems(2,3) show ?thesis
      by (intro Cons.IH [OF skip(4)]) (auto simp: passed_over_def remembered_def split: option.splits)
  next
    case ret
    with Cons.prems(2,3) show ?thesis by auto
  qed
qed auto

lemma find_Some_iff: "List.find P xs = Some x \<Longrightarrow> x \<in> set xs \<and> P x"
  by (induction xs) (auto split: if_splits)

lemma fallback_option_best:
  assumes "options \<noteq> []" and "\<forall>g \<in> set options. rung_status g \<notin> ACCEPTABLE"
  shows "fallback_option options \<in> set options \<and>
    rung_status (fallback_option options) =
      (if OFFLOADING_REQUIRED \<in> rung_status ` set options then OFFLOADING_REQUIRED
       else if STATUS_UNKNOWN \<in> rung_status ` set options then STATUS_UNKNOWN else INSUFFICIENT)"
proof -
  have "\<forall>g \<in> set options. rung_status g \<in> {OFFLOADING_REQUIRED, STATUS_UNKNOWN, INSUFFICIENT}"
    using assms(2) compatibility_status.exhaust unfolding ACCEPTABLE_def by blast
  with assms(1) show ?thesis
    by (auto simp: fallback_option_def find_None_iff image_iff split: option.splits dest!: find_Some_iff)
qed

text \<open>
  C16. The choice over a GGUF ladder never reports less than what was found: the rungs are tried
  in the order of the ladder, the reported configuration is one of those estimated, it fits
  whenever any estimated one fits, and a rung that fits is passed over only if it is a tight one
  under the balanced priority.  When nothing fits, all rungs were tried and the reported one is
  the first that needs offloading, else the first unknown one.
\<close>

theorem gguf_choice_fits:
  assumes "select_gguf variants req estimate hw = Inr c" and "cc_estimate c = Some e"
  defines "available \<equiv> available_quantizations variants"
  shows "\<exists>options g. list_all (estimated req hw estimate available) options \<and>
    prefix (map rg_rung options) (ordered_rungs (ur_priority req) available) \<and>
    g \<in> set options \<and> rg_estimate g = e \<and> cc_configuration c = Some (rg_configuration g) \<and>
    (\<forall>h \<in> set options. rung_status h \<in> ACCEPTABLE \<longrightarrow>
      rung_status g \<in> ACCEPTABLE \<and> (h = g \<or> rung_status h = TIGHT \<and> ur_priority req = BALANCED)) \<and>
    (rung_status g \<notin> ACCEPTABLE \<longrightarrow>
      map rg_rung options = ordered_rungs (ur_priority req) available \<and>
      rung_status g =
        (if OFFLOADING_REQUIRED \<in> rung_status ` set options then OFFLOADING_REQUIRED
         else if STATUS_UNKNOWN \<in> rung_status ` set options then STATUS_UNKNOWN else INSUFFICIENT))"
proof -
  obtain returned tight options considered where
    w: "gguf_walk req hw estimate available (ordered_rungs (ur_priority req) available) None [] [] =
      Inr (returned, tight, options, considered)"
    and c: "c = conclude_gguf req available (returned, tight, options, considered)"
    using assms(1,2) unfolding available_def select_gguf_def Let_def
    by (auto simp: bind_result_Inr split: if_splits)
  have tried: "list_all (estimated req hw estimate available) options"
    "prefix (map rg_rung options) (ordered_rungs (ur_priority req) available)"
    "returned = None \<longrightarrow> map rg_rung options = ordered_rungs (ur_priority req) available"
    using gguf_walk_tried [OF w] by auto
  have outcome: "case returned of
      None \<Rightarrow> passed_over options tight \<and> remembered req options tight
    | Some g \<Rightarrow> \<exists>before. options = before @ [g] \<and> passed_over before tight \<and> remembered req before tight \<and>
        rung_status g \<in> ACCEPTABLE \<and> \<not> remembers req g \<and> (tight \<noteq> None \<longrightarrow> rung_status g \<noteq> TIGHT)"
    by (rule gguf_walk_outcome [OF w]) (simp_all add: passed_over_def remembered_def)
  consider (returned) g before where "returned = Some g" "options = before @ [g]" "rung_status g \<in> ACCEPTABLE"
      "\<forall>h \<in> set before. rung_status h \<in> ACCEPTABLE \<longrightarrow> rung_status h = TIGHT \<and> ur_priority req = BALANCED"
    | (tight) g where "returned = None" "tight = Some g" "g \<in> set options" "rung_status g \<in> ACCEPTABLE"
      "\<forall>h \<in> set options. rung_status h \<in> ACCEPTABLE \<longrightarrow> rung_status h = TIGHT \<and> ur_priority req = BALANCED"
    | (none) "returned = None" "tight = None" "\<forall>h \<in> set options. rung_status h \<notin> ACCEPTABLE"
  proof (cases returned)
    case None
    with outcome have o: "passed_over options tight" "remembered req options tight" by auto
    show thesis
    proof (cases tight)
      case None
      with o \<open>returned = None\<close> that(3) show thesis by (auto simp: passed_over_def)
    next
      case (Some g)
      with o(2) have "g \<in> set options" "rung_status g \<in> ACCEPTABLE"
        by (auto simp: remembered_def remembers_def ACCEPTABLE_def)
      with Some \<open>returned = None\<close> passed_over_balanced [OF o] show thesis by (intro that(2)) auto
    qed
  next
    case (Some g)
    with outcome obtain before where "options = before @ [g]" "rung_status g \<in> ACCEPTABLE"
      and o: "passed_over before tight" "remembered req before tight" by auto
    with Some passed_over_balanced [OF o] show thesis by (intro that(1)) auto
  qed
  then show ?thesis
  proof cases
    case returned
    with tried c assms(2) show ?thesis
      by (intro exI [of _ options] exI [of _ g]) (auto simp: conclude_gguf_def gguf_choice_def Let_def)
  next
    case tight
    with tried c assms(2) show ?thesis
      by (intro exI [of _ options] exI [of _ g]) (auto simp: conclude_gguf_def gguf_choice_def Let_def)
  next
    case none
    with c assms(2) have "options \<noteq> []" "e = rg_estimate (fallback_option options)"
      "cc_configuration c = Some (rg_configuration (fallback_option options))"
      by (auto simp: conclude_gguf_def exhausted_choice_def Let_def split: if_splits)
    moreover note fallback_option_best [OF this(1) none(3)]
    ultimately show ?thesis using none tried
      by (intro exI [of _ options] exI [of _ "fallback_option options"]) auto
  qed
qed

text \<open>
  The message of an exhausted ladder is true of the whole ladder: it speaks of offloading
  exactly when some rung fits with offloading, of an unconfirmed result exactly when none does and
  some is unknown, and says that nothing fits exactly when every rung was found insufficient; the
  two sentences about other options are never needed.
\<close>

theorem exhausted_message_true:
  assumes "options \<noteq> []" and "\<forall>g \<in> set options. rung_status g \<notin> ACCEPTABLE"
  shows "exhausted_ladder_message (map rung_status options) (fallback_status options) unit aggressive =
    (if OFFLOADING_REQUIRED \<in> rung_status ` set options then
       ''No '' @ unit @ '' fits in VRAM alone. The reported option is estimated to '' @
       ''fit with CPU/GPU offloading, which is significantly slower; that is '' @
       ''a placement estimate, not a verified run.''
     else if STATUS_UNKNOWN \<in> rung_status ` set options then
       ''No '' @ unit @ '' could be confirmed to fit: the memory model could not '' @
       ''produce an estimate for the reported option. This is an unconfirmed '' @
       ''result, not a demonstration that it does not fit.''
     else ''No '' @ unit @ '' fits the detected memory'' @ aggressive @ ''.'')"
proof -
  have s: "fallback_status options = Some (rung_status (fallback_option options))"
    using assms(1) by (simp add: fallback_status_def)
  note best = fallback_option_best [OF assms]
  have "\<forall>g \<in> set options. rung_status g \<in> {OFFLOADING_REQUIRED, STATUS_UNKNOWN, INSUFFICIENT}"
    using assms(2) compatibility_status.exhaust unfolding ACCEPTABLE_def by blast
  then have "OFFLOADING_REQUIRED \<notin> rung_status ` set options \<Longrightarrow> STATUS_UNKNOWN \<notin> rung_status ` set options \<Longrightarrow>
      list_all (\<lambda>s. s = INSUFFICIENT) (map rung_status options)"
    by (force simp: list_all_iff image_iff)
  with best show ?thesis
    unfolding exhausted_ladder_message_def s Let_def by (simp split: if_splits)
qed

section \<open>Examples\<close>

definition example_requirements :: "recommendation_priority \<Rightarrow> user_requirements" where
  "example_requirements priority =
     \<lparr>ur_use_case = CODING, ur_workload_mode = INTERACTIVE, ur_priority = priority, ur_languages = [],
      ur_concurrent_users = 1, ur_concurrency_range = ''One user'', ur_desired_context = 4096,
      ur_expected_input_tokens = None, ur_expected_output_tokens = None, ur_min_generation_tps = None,
      ur_max_ttft_ms = None, ur_commercial_use_required = None, ur_pipeline_tag = ''text-generation'',
      ur_preferred_formats = [], ur_assumptions = []\<rparr>"

text \<open>An estimator that gives each quantization the status of a table.\<close>

definition table_estimator :: "(string \<times> compatibility_status) list \<Rightarrow> unit estimate_fn" where
  "table_estimator table config =
     Inr (example_memory_estimate example_estimate (example_kv 28 64)
       (example_assessment (opt_default (map_of table (opt_default (cfg_quantization config) [])) INSUFFICIENT) None))"

definition two_variants :: "gguf_variant list" where
  "two_variants = [example_variant ''Q4_K_M'' 4 True False, example_variant ''Q2_K'' 2 True False]"

definition example_choice :: "recommendation_priority \<Rightarrow> configuration_choice option" where
  "example_choice priority =
     (case select_gguf two_variants (example_requirements priority)
         (table_estimator [(''Q4_K_M'', TIGHT), (''Q2_K'', COMFORTABLE)]) None of
        Inl _ \<Rightarrow> None | Inr c \<Rightarrow> Some c)"

text \<open>
  Under the balanced priority a tight but reasonable rung is passed over even for an aggressive
  one, which is then reported as chosen because nothing larger fits.
\<close>

lemma balanced_prefers_aggressive:
  "map_option (\<lambda>c. (map_option cfg_quantization (cc_configuration c), cc_considered c, cc_warnings c))
     (example_choice BALANCED) =
   Some (Some (Some ''Q2_K''), [''Q4_K_M: tight'', ''Q2_K: comfortable''],
     [''Q2_K is an aggressive quantization; it was chosen because nothing larger fits, and quality loss may be noticeable.''])"
  by code_simp

theorem gguf_choice_fits_witness:
  "\<exists>c e (options :: string rung_result list) g. select_gguf two_variants (example_requirements QUALITY)
      (table_estimator [(''Q4_K_M'', TIGHT), (''Q2_K'', COMFORTABLE)]) None = Inr c \<and>
     cc_estimate c = Some e \<and> g \<in> set options \<and> rg_estimate g = e \<and>
     prefix (map rg_rung options) (ordered_rungs QUALITY (available_quantizations two_variants))"
proof -
  have "map_option (\<lambda>c. map_option cfg_quantization (cc_configuration c)) (example_choice QUALITY) = Some (Some (Some ''Q4_K_M''))"
    and "map_option (\<lambda>c. cc_estimate c \<noteq> None) (example_choice QUALITY) = Some True"
    by code_simp+
  then obtain c e where c: "select_gguf two_variants (example_requirements QUALITY)
      (table_estimator [(''Q4_K_M'', TIGHT), (''Q2_K'', COMFORTABLE)]) None = Inr c" and e: "cc_estimate c = Some e"
    by (auto simp: example_choice_def split: sum.splits)
  have q: "ur_priority (example_requirements QUALITY) = QUALITY" by (simp add: example_requirements_def)
  from gguf_choice_fits [OF c e, unfolded q] obtain options :: "string rung_result list" and g where
    "g \<in> set options" "rg_estimate g = e"
    "prefix (map rg_rung options) (ordered_rungs QUALITY (available_quantizations two_variants))"
    by blast
  with c e show ?thesis by blast
qed

definition example_rungs :: "string rung_result list" where
  "example_rungs =
     map (\<lambda>s. \<lparr>rg_rung = ''Q4_K_M'', rg_configuration = example_configuration,
       rg_estimate = example_memory_estimate example_estimate (example_kv 28 64) (example_assessment s None)\<rparr>)
     [INSUFFICIENT, STATUS_UNKNOWN]"

theorem exhausted_message_true_witness:
  "exhausted_ladder_message (map rung_status example_rungs) (fallback_status example_rungs) ''GGUF variant'' [] =
    ''No GGUF variant could be confirmed to fit: the memory model could not '' @
    ''produce an estimate for the reported option. This is an unconfirmed '' @
    ''result, not a demonstration that it does not fit.''"
  by (subst exhausted_message_true)
    (auto simp: example_rungs_def rung_status_def example_memory_estimate_def example_assessment_def ACCEPTABLE_def)

end
