(* ===== verification/Hub_Client.thy ===== *)
theory Hub_Client
  imports Model_Data
begin

text \<open>
  The client of the model hub (\<^verbatim>\<open>huggingface/client.py\<close>).  The library that talks to the network
  is a parameter: a record of functions whose results are the answers and the exceptions the
  client names.  The lemmas show that every library exception the client names becomes an
  application error, and that the summary of the weights counts every element once.
\<close>

section \<open>The library\<close>

text \<open>
  The exceptions of the library and of the operating system, as the client tells them apart;
  an HTTP error carries its status, if it has one.
\<close>

datatype sdk_error =
    SdkEntryNotFound | SdkGatedRepo | SdkRepositoryNotFound | SdkHttp "int option" | SdkOsError
  | SdkNotSafetensors | SdkSafetensorsParsing

text \<open>What the code reads of one file of the listing and of the repository information.\<close>

record hub_sibling =
  sib_rfilename :: "string option"
  sib_size :: "int option"
  sib_lfs_sha256 :: "py_obj option option"

record model_info =
  mi_siblings :: "hub_sibling list"
  mi_sha :: "py_obj option"
  mi_card_data :: "(string, py_obj) dict option"
  mi_tags :: "string list"
  mi_author :: "string option"
  mi_private :: bool
  mi_gated :: bool
  mi_downloads :: "int option"
  mi_likes :: "int option"
  mi_last_modified :: "string option"
  mi_pipeline_tag :: "string option"
  mi_library_name :: "string option"

text \<open>A downloaded file, read and decoded: the text of the exception, or the JSON value.\<close>

type_synonym json_file = "string + py_obj"

text \<open>The tensors of one file of weights: data type and shape.\<close>

type_synonym tensor_header = "string \<times> int list"

record hub_sdk =
  sdk_model_info :: "string \<Rightarrow> string option \<Rightarrow> sdk_error + model_info"
  sdk_download :: "string \<Rightarrow> string \<Rightarrow> sdk_error + json_file"
  sdk_safetensors :: "string \<Rightarrow> sdk_error + tensor_header list list"

section \<open>Application errors\<close>

text \<open>The last constructor is an exception that the client lets through.\<close>

datatype hub_error =
    ModelNotFound string
  | ModelAccessDenied string
  | HuggingFaceUnavailable string
  | ConfigurationNotFound string
  | SdkUncaught sdk_error

fun is_jaull_error :: "hub_error \<Rightarrow> bool" where
  "is_jaull_error (SdkUncaught _) = False"
| "is_jaull_error _ = True"

fun hub_error_text :: "hub_error \<Rightarrow> string" where
  "hub_error_text (ModelNotFound m) = m"
| "hub_error_text (ModelAccessDenied m) = m"
| "hub_error_text (HuggingFaceUnavailable m) = m"
| "hub_error_text (ConfigurationNotFound m) = m"
| "hub_error_text (SdkUncaught _) = []"

definition show_status :: "int option \<Rightarrow> string" where
  "show_status s = (case s of None \<Rightarrow> ''None'' | Some n \<Rightarrow> show_int n)"

definition denied_status :: "int option \<Rightarrow> bool" where
  "denied_status s \<longleftrightarrow> s = Some 401 \<or> s = Some 403"

text \<open>Every repository-level exception is also an HTTP error of the library, tested after them.\<close>

definition gated_message :: "string \<Rightarrow> string" where
  "gated_message r = ''Model '' @ r @ '' is gated and requires access approval or an HF_TOKEN.''"

definition denied_message :: "string \<Rightarrow> int option \<Rightarrow> string" where
  "denied_message r s = ''Access to '' @ r @ '' was denied (HTTP '' @ show_status s @ '').''"

definition map_sdk_result :: "('e \<Rightarrow> 'f) \<Rightarrow> 'e + 'a \<Rightarrow> 'f + 'a" where
  "map_sdk_result f r = (case r of Inl e \<Rightarrow> Inl (f e) | Inr x \<Rightarrow> Inr x)"

fun model_info_error :: "string \<Rightarrow> sdk_error \<Rightarrow> hub_error" where
  "model_info_error r SdkGatedRepo = ModelAccessDenied (gated_message r)"
| "model_info_error r SdkRepositoryNotFound = ModelNotFound (''Model not found: '' @ r)"
| "model_info_error r (SdkHttp s) =
     (if denied_status s then ModelAccessDenied (denied_message r s)
      else if s = Some 404 then ModelNotFound (''Model not found: '' @ r)
      else HuggingFaceUnavailable
        (''Hugging Face returned HTTP '' @ show_status s @ '' while fetching '' @ r @ ''.''))"
| "model_info_error r SdkOsError =
     HuggingFaceUnavailable ''Unable to connect to Hugging Face. Check your network connection.''"
| "model_info_error r e = SdkUncaught e"

definition hub_model_info :: "hub_sdk \<Rightarrow> string \<Rightarrow> string option \<Rightarrow> hub_error + model_info" where
  "hub_model_info sdk r revision = map_sdk_result (model_info_error r) (sdk_model_info sdk r revision)"

fun download_error :: "string \<Rightarrow> string \<Rightarrow> sdk_error \<Rightarrow> hub_error" where
  "download_error r name SdkEntryNotFound =
     ConfigurationNotFound (''File '' @ repr_str name @ '' was not found in repository '' @ r @ ''.'')"
| "download_error r name SdkGatedRepo = ModelAccessDenied (gated_message r)"
| "download_error r name SdkRepositoryNotFound = ModelNotFound (''Model not found: '' @ r)"
| "download_error r name (SdkHttp s) =
     (if denied_status s then ModelAccessDenied (denied_message r s)
      else HuggingFaceUnavailable
        (''Hugging Face returned HTTP '' @ show_status s @ '' while downloading '' @ name @ ''.''))"
| "download_error r name SdkOsError = HuggingFaceUnavailable
     ''Unable to download file from Hugging Face. Check your network connection.''"
| "download_error r name e = SdkUncaught e"

definition hub_download_small_file :: "hub_sdk \<Rightarrow> string \<Rightarrow> string \<Rightarrow> hub_error + json_file" where
  "hub_download_small_file sdk r name = map_sdk_result (download_error r name) (sdk_download sdk r name)"

text \<open>
  In the library a gated repository is a special case of one that is not found.  The clause for
  the latter comes first in this operation, so the one for gated repositories is never reached.
\<close>

fun safetensors_error :: "string \<Rightarrow> sdk_error \<Rightarrow> hub_error" where
  "safetensors_error r SdkRepositoryNotFound = ModelNotFound (''Model not found: '' @ r)"
| "safetensors_error r SdkGatedRepo = ModelNotFound (''Model not found: '' @ r)"
| "safetensors_error r (SdkHttp s) =
     (if denied_status s then ModelAccessDenied (denied_message r s)
      else HuggingFaceUnavailable
        (''Hugging Face returned HTTP '' @ show_status s @ '' while reading safetensors metadata.''))"
| "safetensors_error r SdkOsError =
     HuggingFaceUnavailable ''Unable to read safetensors metadata from Hugging Face.''"
| "safetensors_error r e = SdkUncaught e"

definition tensor_elements :: "tensor_header \<Rightarrow> int" where
  "tensor_elements t = foldl (*) 1 (snd t)"

definition count_tensor :: "tensor_header \<Rightarrow> (string, int) dict \<times> int \<Rightarrow> (string, int) dict \<times> int" where
  "count_tensor t acc =
     (case acc of (by_dtype, n) \<Rightarrow>
        (dict_set by_dtype (fst t) (opt_default (dict_get by_dtype (fst t)) 0 + tensor_elements t),
         n + tensor_elements t))"

definition summarise_tensors :: "tensor_header list list \<Rightarrow> safetensors_summary option" where
  "summarise_tensors files =
     (case fold count_tensor (concat files) ([], 0) of (by_dtype, n) \<Rightarrow>
        if n = 0 then None else Some \<lparr>total_parameters = n, parameters_by_dtype = by_dtype\<rparr>)"

definition hub_safetensors_summary :: "hub_sdk \<Rightarrow> string \<Rightarrow> hub_error + safetensors_summary option" where
  "hub_safetensors_summary sdk r =
     (case sdk_safetensors sdk r of
        Inl SdkNotSafetensors \<Rightarrow> Inr None
      | Inl SdkSafetensorsParsing \<Rightarrow> Inr None
      | Inl e \<Rightarrow> Inl (safetensors_error r e)
      | Inr files \<Rightarrow> Inr (summarise_tensors files))"

section \<open>Lemmas\<close>

lemma gated_repository_errors:
  "is_jaull_error (model_info_error r SdkGatedRepo) \<and> is_jaull_error (download_error r n SdkGatedRepo) \<and>
   model_info_error r SdkGatedRepo = download_error r n SdkGatedRepo \<and>
   safetensors_error r SdkGatedRepo \<noteq> model_info_error r SdkGatedRepo"
  by simp

lemma dict_sum_set:
  assumes "distinct (map fst d)"
  shows "(\<Sum>p \<leftarrow> dict_set d k (v :: int). snd p) =
    (\<Sum>p \<leftarrow> d. snd p) - opt_default (dict_get d k) 0 + v"
  using assms
proof (induction d)
  case (Cons p d)
  obtain k' v' where p: "p = (k', v')" by force
  show ?case
  proof (cases "k' = k")
    case True
    with Cons.prems p show ?thesis by (simp add: dict_set_def dict_get_def)
  next
    case False
    with Cons p show ?thesis by (simp add: dict_set_def dict_get_def)
  qed
qed (simp add: dict_set_def dict_get_def)

lemma count_tensors_invariant:
  assumes "fold count_tensor ts (d, n) = (d', n')" and "distinct (map fst d)" and "(\<Sum>p \<leftarrow> d. snd p) = n"
  shows "distinct (map fst d') \<and> (\<Sum>p \<leftarrow> d'. snd p) = n' \<and>
    n' = n + (\<Sum>t \<leftarrow> ts. tensor_elements t) \<and>
    opt_default (dict_get d' k) 0 =
      opt_default (dict_get d k) 0 + (\<Sum>t \<leftarrow> filter (\<lambda>t. fst t = k) ts. tensor_elements t)"
  using assms
proof (induction ts arbitrary: d n)
  case (Cons t ts)
  let ?d = "dict_set d (fst t) (opt_default (dict_get d (fst t)) 0 + tensor_elements t)"
  have "count_tensor t (d, n) = (?d, n + tensor_elements t)" by (simp add: count_tensor_def)
  with Cons.prems(1) have "fold count_tensor ts (?d, n + tensor_elements t) = (d', n')" by simp
  from Cons.IH [OF this] Cons.prems show ?case
    by (simp add: dict_sum_set distinct_dict_set dict_get_set)
qed auto

text \<open>
  A summary counts every element of every tensor once, in the total and under its data type.
\<close>

lemma summarise_tensors_counts:
  assumes "summarise_tensors files = Some s"
  shows "total_parameters s = (\<Sum>t \<leftarrow> concat files. tensor_elements t)"
    and "(\<Sum>p \<leftarrow> parameters_by_dtype s. snd p) = total_parameters s"
    and "opt_default (dict_get (parameters_by_dtype s) k) 0 =
      (\<Sum>t \<leftarrow> filter (\<lambda>t. fst t = k) (concat files). tensor_elements t)"
proof -
  obtain d n where f: "fold count_tensor (concat files) ([], 0) = (d, n)" by force
  with assms have s: "s = \<lparr>total_parameters = n, parameters_by_dtype = d\<rparr>"
    by (simp add: summarise_tensors_def split: if_splits)
  note c = count_tensors_invariant [OF f]
  show "total_parameters s = (\<Sum>t \<leftarrow> concat files. tensor_elements t)"
    and "(\<Sum>p \<leftarrow> parameters_by_dtype s. snd p) = total_parameters s"
    using c s by simp_all
  show "opt_default (dict_get (parameters_by_dtype s) k) 0 =
      (\<Sum>t \<leftarrow> filter (\<lambda>t. fst t = k) (concat files). tensor_elements t)"
    using c [of k] s by (simp add: dict_get_empty)
qed

end
