(* ===== verification/Repository_Files.thy ===== *)
theory Repository_Files
  imports Weights Gguf_Selection Gguf_Tensors Hub_Client Py_Text
begin

text \<open>
  The classification of a repository from its file listing (\<^verbatim>\<open>huggingface/classifiers.py\<close>) and
  the resolution of one downloadable artifact (\<^verbatim>\<open>huggingface/artifact_resolver.py\<close>).  The lemmas
  show that the GGUF variants partition the model files of the listing, which groups are
  complete and sized, and that a resolved artifact is one whole file of the listing.
\<close>

section \<open>Paths\<close>

text \<open>\<^verbatim>\<open>PurePosixPath\<close>: the root, the parent as text, and the stem of the name.\<close>

definition path_root :: "string \<Rightarrow> string" where
  "path_root p =
     (if startswith p ''//'' \<and> \<not> startswith p ''///'' then ''//''
      else if startswith p ''/'' then ''/'' else [])"

definition path_parent :: "string \<Rightarrow> string" where
  "path_parent p =
     (let s = path_root p @ join ''/'' (butlast (path_parts p)) in if s = [] then ''.'' else s)"

definition name_stem :: "string \<Rightarrow> string" where
  "name_stem n =
     (let ext = takeWhile (\<lambda>c. c \<noteq> CHR ''.'') (rev n); i = length n - length ext - 1 in
      if CHR ''.'' \<in> set n \<and> 0 < i \<and> ext \<noteq> [] then take i n else n)"

definition path_stem :: "string \<Rightarrow> string" where
  "path_stem p = name_stem (path_name p)"

section \<open>Names of GGUF files\<close>

text \<open>
  The multipart suffix \<^verbatim>\<open>-00001-of-00003\<close> at the end of a stem (before a final newline, as the
  regular expression allows): the shard index, the shard count, and the stem without the suffix.
\<close>

definition shard_suffix :: "string \<Rightarrow> (int \<times> int) option" where
  "shard_suffix s =
     (let index = take 5 (drop 1 s); shards = drop 10 s in
      if length s = 15 \<and> take 1 s = ''-'' \<and> list_all is_digit index \<and> take 4 (drop 6 s) = ''-of-'' \<and>
         list_all is_digit shards
      then Some (int_of_digits index, int_of_digits shards) else None)"

definition split_body :: "string \<Rightarrow> string \<Rightarrow> (int \<times> int \<times> string) option" where
  "split_body body rest =
     (case shard_suffix (drop (length body - 15) body) of
        None \<Rightarrow> None
      | Some (index, shards) \<Rightarrow> Some (index, shards, take (length body - 15) body @ rest))"

definition split_shard :: "string \<Rightarrow> (int \<times> int \<times> string) option" where
  "split_shard stem =
     (if stem \<noteq> [] \<and> last stem = CHR 0x0A then split_body (butlast stem) [CHR 0x0A]
      else split_body stem [])"

definition without_shard :: "string \<Rightarrow> string" where
  "without_shard stem = (case split_shard stem of None \<Rightarrow> stem | Some (_, _, base) \<Rightarrow> base)"

text \<open>The quantization label, on the upper-case text: the first position where one starts.\<close>

definition is_quant_char :: "char \<Rightarrow> bool" where
  "is_quant_char c \<longleftrightarrow> is_digit c \<or> c = CHR ''_'' \<or> (let n = (of_char c :: int) in 65 \<le> n \<and> n \<le> 90)"

definition numbered_label :: "string \<Rightarrow> string \<Rightarrow> string option" where
  "numbered_label pre u =
     (let r = drop (length pre) u; ds = takeWhile is_digit r in
      if startswith u pre \<and> ds \<noteq> [] then Some (pre @ ds @ takeWhile is_quant_char (dropWhile is_digit r))
      else None)"

definition fixed_label :: "string \<Rightarrow> string \<Rightarrow> string option" where
  "fixed_label l u = (if startswith u l then Some l else None)"

definition label_at :: "string \<Rightarrow> string option" where
  "label_at u =
     opt_or (numbered_label ''IQ'' u) (opt_or (numbered_label ''Q'' u)
       (opt_or (fixed_label ''F16'' u) (opt_or (fixed_label ''F32'' u) (fixed_label ''BF16'' u))))"

fun find_label :: "string \<Rightarrow> string option" where
  "find_label [] = None"
| "find_label (c # cs) = opt_or (label_at (c # cs)) (find_label cs)"

definition gguf_stem :: "string \<Rightarrow> string" where
  "gguf_stem name = take (length name - 5) name"

definition detect_quantization :: "string \<Rightarrow> string" where
  "detect_quantization name = opt_default (find_label (upper (without_shard (gguf_stem name)))) ''unknown''"

text \<open>Companion files that are not loadable text models.\<close>

definition AUXILIARY_GGUF_TOKENS :: "string list" where
  "AUXILIARY_GGUF_TOKENS = [''mmproj'', ''imatrix'', ''mtp'', ''draft'']"

text \<open>\<^verbatim>\<open>re.split(r"[^a-z0-9]+", s)\<close>, without the empty strings at the ends.\<close>

function alnum_words :: "string \<Rightarrow> string list" where
  "alnum_words [] = []"
| "alnum_words (c # cs) =
     (if is_alnum c then (c # takeWhile is_alnum cs) # alnum_words (dropWhile is_alnum cs)
      else alnum_words cs)"
  by pat_completeness auto
termination
  by (relation "measure length") (auto simp: le_imp_less_Suc length_dropWhile_le)

definition is_auxiliary_gguf :: "string \<Rightarrow> bool" where
  "is_auxiliary_gguf path \<longleftrightarrow>
     list_ex (\<lambda>w. w \<in> set AUXILIARY_GGUF_TOKENS) (alnum_words (lower (path_name path))) \<or>
     ''mtp'' \<in> set (map lower (butlast (path_parts path)))"

section \<open>Grouping into variants\<close>

definition is_model_gguf :: "model_file \<Rightarrow> bool" where
  "is_model_gguf f \<longleftrightarrow>
     endswith (lower (path_name (file_path f))) ''.gguf'' \<and> \<not> is_auxiliary_gguf (file_path f)"

text \<open>Files of one bucket share quantization, folder, base name and shard count.\<close>

type_synonym bucket_key = "string \<times> string \<times> string \<times> int"

definition bucket_key_of :: "model_file \<Rightarrow> bucket_key" where
  "bucket_key_of f =
     (let name = path_name (file_path f); stem = gguf_stem name in
      (detect_quantization name, path_parent (file_path f), without_shard stem,
       (case split_shard stem of None \<Rightarrow> - 1 | Some (_, shards, _) \<Rightarrow> shards)))"

definition bucket_add ::
  "model_file \<Rightarrow> (bucket_key, model_file list) dict \<Rightarrow> (bucket_key, model_file list) dict" where
  "bucket_add f d =
     (let k = bucket_key_of f in dict_set d k (opt_default (dict_get d k) [] @ [f]))"

definition gguf_buckets :: "model_file list \<Rightarrow> (bucket_key, model_file list) dict" where
  "gguf_buckets files = fold bucket_add (filter is_model_gguf files) []"

definition shard_indexes :: "model_file list \<Rightarrow> int list" where
  "shard_indexes fs =
     List.map_filter (\<lambda>f. map_option fst (split_shard (path_stem (file_path f)))) fs"

definition known_sizes :: "model_file list \<Rightarrow> bool" where
  "known_sizes fs \<longleftrightarrow> list_all (\<lambda>f. case file_size_bytes f of None \<Rightarrow> False | Some n \<Rightarrow> 0 < n) fs"

definition shards_complete :: "int \<Rightarrow> int list \<Rightarrow> bool" where
  "shards_complete shards indexes \<longleftrightarrow>
     indexes = [] \<or> 0 < shards \<and> int (length indexes) = shards \<and> sort indexes = [1..shards]"

definition make_variant :: "string \<Rightarrow> model_file list \<Rightarrow> bool \<Rightarrow> bool \<Rightarrow> gguf_variant" where
  "make_variant quant fs is_split whole =
     \<lparr>var_quantization = quant,
      var_files = sort_key file_path fs,
      var_total_bytes =
        (if whole \<and> known_sizes fs then Some (\<Sum>f \<leftarrow> fs. opt_default (file_size_bytes f) 0) else None),
      var_is_complete = whole,
      var_is_split = is_split\<rparr>"

definition variant_of_bucket :: "bucket_key \<times> model_file list \<Rightarrow> gguf_variant" where
  "variant_of_bucket b =
     (case b of ((quant, _, _, shards), fs) \<Rightarrow>
        let indexes = shard_indexes fs in
        make_variant quant fs (indexes \<noteq> []) (shards_complete shards indexes))"

definition group_gguf_variants :: "model_file list \<Rightarrow> gguf_variant list" where
  "group_gguf_variants files = map variant_of_bucket (sort_key fst (gguf_buckets files))"

section \<open>Classification\<close>

definition strip_slashes :: "string \<Rightarrow> string" where
  "strip_slashes p =
     rev (dropWhile (\<lambda>c. c = CHR ''/'') (rev (dropWhile (\<lambda>c. c = CHR ''/'') p)))"

definition at_top_level :: "model_file list \<Rightarrow> string \<Rightarrow> bool" where
  "at_top_level files name \<longleftrightarrow>
     list_ex (\<lambda>f. CHR ''/'' \<notin> set (strip_slashes (file_path f)) \<and> path_name (file_path f) = name) files"

definition some_name :: "model_file list \<Rightarrow> (string \<Rightarrow> bool) \<Rightarrow> bool" where
  "some_name files P \<longleftrightarrow> list_ex (\<lambda>f. P (lower (path_name (file_path f)))) files"

definition has_suffix_file :: "model_file list \<Rightarrow> string \<Rightarrow> bool" where
  "has_suffix_file files ending \<longleftrightarrow> some_name files (\<lambda>n. endswith n ending)"

definition has_pytorch_bin :: "model_file list \<Rightarrow> bool" where
  "has_pytorch_bin files \<longleftrightarrow>
     some_name files (\<lambda>n. endswith n ''.bin'' \<and> contains n ''pytorch_model'') \<or>
     some_name files (\<lambda>n. n = ''pytorch_model.bin'')"

definition detected_repository_types :: "model_file list \<Rightarrow> repository_type set" where
  "detected_repository_types files =
     (if at_top_level files ''config.json'' \<and> (has_suffix_file files ''.safetensors'' \<or> has_pytorch_bin files)
      then {REPO_TRANSFORMERS} else {}) \<union>
     (if has_suffix_file files ''.gguf'' then {REPO_GGUF} else {}) \<union>
     (if at_top_level files ''model_index.json'' then {REPO_DIFFUSERS} else {}) \<union>
     (if has_suffix_file files ''.onnx'' then {REPO_ONNX} else {}) \<union>
     (if at_top_level files ''adapter_config.json'' then {REPO_ADAPTER} else {})"

definition detected_formats :: "model_file list \<Rightarrow> file_format set" where
  "detected_formats files =
     (if has_suffix_file files ''.safetensors'' then {FMT_SAFETENSORS} else {}) \<union>
     (if has_pytorch_bin files then {FMT_PYTORCH_BIN} else {}) \<union>
     (if has_suffix_file files ''.gguf'' then {FMT_GGUF} else {}) \<union>
     (if has_suffix_file files ''.onnx'' then {FMT_ONNX} else {})"

definition PRIMARY_PRIORITY :: "repository_type list" where
  "PRIMARY_PRIORITY = [REPO_ADAPTER, REPO_TRANSFORMERS, REPO_DIFFUSERS, REPO_GGUF, REPO_ONNX]"

definition pick_primary :: "repository_type set \<Rightarrow> repository_type" where
  "pick_primary detected =
     (case filter (\<lambda>t. t \<in> detected) PRIMARY_PRIORITY of [] \<Rightarrow> REPO_UNKNOWN | t # _ \<Rightarrow> t)"

definition classify_repository :: "model_file list \<Rightarrow> repository_classification" where
  "classify_repository files =
     (let detected = detected_repository_types files in
      \<lparr>primary_type = pick_primary detected,
       detected_types = (if detected = {} then {REPO_UNKNOWN} else detected),
       formats = detected_formats files,
       gguf_variants = (if has_suffix_file files ''.gguf'' then group_gguf_variants files else [])\<rparr>)"

section \<open>The listing and one artifact of it\<close>

definition is_sha256 :: "string \<Rightarrow> bool" where
  "is_sha256 s \<longleftrightarrow>
     length s = 64 \<and> list_all (\<lambda>c. is_digit c \<or> (let n = (of_char c :: int) in 97 \<le> n \<and> n \<le> 102)) s"

definition checked_sha256 :: "py_obj option \<Rightarrow> string option" where
  "checked_sha256 x = (case x of Some (PyStr s) \<Rightarrow> if is_sha256 s then Some s else None | _ \<Rightarrow> None)"

definition file_of_sibling :: "hub_sibling \<Rightarrow> model_file option" where
  "file_of_sibling s =
     (case sib_rfilename s of
        None \<Rightarrow> None
      | Some path \<Rightarrow>
        if path = [] then None
        else Some \<lparr>file_path = path, file_size_bytes = sib_size s,
          file_lfs = (sib_lfs_sha256 s \<noteq> None),
          file_sha256 = checked_sha256 (opt_default (sib_lfs_sha256 s) None)\<rparr>)"

definition files_from_metadata :: "model_info \<Rightarrow> model_file list" where
  "files_from_metadata info = List.map_filter file_of_sibling (mi_siblings info)"

datatype resolve_error =
    ResolveHub hub_error
  | ArtifactNotFound string
  | ArtifactFormatNotSupported string
  | ResolveSelection estimation_error

definition extract_sha :: "model_info \<Rightarrow> string option" where
  "extract_sha info = (case mi_sha info of Some (PyStr s) \<Rightarrow> if s = [] then None else Some s | _ \<Rightarrow> None)"

definition resolved_revision :: "model_info \<Rightarrow> string option \<Rightarrow> string" where
  "resolved_revision info revision =
     (case extract_sha info of
        Some s \<Rightarrow> s
      | None \<Rightarrow> (case revision of Some r \<Rightarrow> if r = [] then ''main'' else r | None \<Rightarrow> ''main''))"

definition artifact_of_choice ::
  "string \<Rightarrow> model_info \<Rightarrow> string option \<Rightarrow> gguf_variant \<Rightarrow> resolve_error + model_artifact" where
  "artifact_of_choice r info revision v =
     (case var_files v of
        [f] \<Rightarrow> Inr \<lparr>ma_repo_id = r, ma_revision = resolved_revision info revision,
          ma_filename = file_path f, ma_format = ''gguf'',
          ma_quantization = Some (var_quantization v), ma_size_bytes = file_size_bytes f,
          ma_local_path = None, ma_sha256 = file_sha256 f, ma_is_downloaded = False,
          ma_is_verified = False\<rparr>
      | fs \<Rightarrow> Inl (ArtifactFormatNotSupported
          (''GGUF variant '' @ repr_str (var_quantization v) @ '' in '' @ repr_str r @ '' is '' @
           ''multipart ('' @ show_int (int (length fs)) @ '' files). Multipart GGUF is '' @
           ''not supported in this phase.'')))"

definition resolve_artifact ::
  "hub_sdk \<Rightarrow> string \<Rightarrow> string option \<Rightarrow> string option \<Rightarrow> resolve_error + model_artifact" where
  "resolve_artifact sdk r quantization revision =
     (case hub_model_info sdk r revision of
        Inl e \<Rightarrow> Inl (ResolveHub e)
      | Inr info \<Rightarrow>
        let files = files_from_metadata info; classification = classify_repository files in
        if files = [] then Inl (ArtifactNotFound (''Repository '' @ repr_str r @ '' has no listed files.''))
        else if REPO_GGUF \<notin> detected_types classification then
          Inl (ArtifactFormatNotSupported (''Repository '' @ repr_str r @ '' is not a GGUF repository. '' @
            ''Only GGUF is supported in this phase.''))
        else
          (case select_variant (gguf_variants classification) quantization of
             Inl e \<Rightarrow> Inl (ResolveSelection e)
           | Inr c \<Rightarrow> artifact_of_choice r info revision (vc_variant c)))"

section \<open>Names and shards\<close>

lemma lower_char_dot: "lower_char c = CHR ''.'' \<longleftrightarrow> c = CHR ''.''"
proof
  assume l: "lower_char c = CHR ''.''"
  show "c = CHR ''.''"
  proof (cases "65 \<le> (of_char c :: nat) \<and> (of_char c :: nat) \<le> 90")
    case True
    then have "(of_char (lower_char c) :: nat) = of_char c + 32"
      by (simp add: lower_char_def Let_def)
    with l have "of_char c + 32 = (46 :: nat)" by simp
    with True show ?thesis by simp
  next
    case False
    with l show ?thesis by (simp add: lower_char_def Let_def)
  qed
qed (simp add: lower_char_def)

lemma split_gguf_name:
  assumes "endswith (lower n) ''.gguf''"
  obtains e where "n = gguf_stem n @ CHR ''.'' # e" and "length e = 4" and "CHR ''.'' \<notin> set e"
proof -
  let ?k = "length n - 5"
  have len: "5 \<le> length n" and d: "drop ?k (lower n) = ''.gguf''"
    using assms by (simp_all add: endswith_def eval_nat_numeral)
  then have l: "lower (drop ?k n) = ''.gguf''" by (simp add: lower_def drop_map)
  obtain c e where ce: "drop ?k n = c # e" using len by (cases "drop ?k n") auto
  have "lower_char c = CHR ''.''" "lower e = ''gguf''" using l ce by (simp_all add: lower_def)
  then have "c = CHR ''.''" and e: "map lower_char e = ''gguf''"
    by (simp_all add: lower_char_dot lower_def)
  moreover have "CHR ''.'' \<notin> set e"
  proof
    assume "CHR ''.'' \<in> set e"
    then have "lower_char (CHR ''.'') \<in> set (map lower_char e)" by auto
    then show False using e by (simp add: lower_char_def)
  qed
  moreover have "length e = 4"
    using arg_cong [OF e, of length] by simp
  moreover have "n = take ?k n @ drop ?k n" by simp
  ultimately show ?thesis using that ce by (simp add: gguf_stem_def)
qed

definition shard_of :: "model_file \<Rightarrow> (int \<times> int \<times> string) option" where
  "shard_of f = split_shard (gguf_stem (path_name (file_path f)))"

lemma split_shard_short: "length s < 15 \<Longrightarrow> split_shard s = None"
  by (auto simp: split_shard_def split_body_def shard_suffix_def Let_def)

text \<open>The stem that is tested for shards and the stem that names the bucket see the same suffix.\<close>

lemma path_stem_shard:
  assumes "is_model_gguf f"
  shows "split_shard (path_stem (file_path f)) = shard_of f"
proof -
  let ?n = "path_name (file_path f)"
  obtain e where n: "?n = gguf_stem ?n @ CHR ''.'' # e" and e: "length e = 4" "CHR ''.'' \<notin> set e"
    using assms split_gguf_name [of ?n] by (auto simp: is_model_gguf_def)
  have "rev ?n = rev e @ CHR ''.'' # rev (gguf_stem ?n)" by (subst n) simp
  moreover have "takeWhile (\<lambda>c. c \<noteq> CHR ''.'') (rev e @ CHR ''.'' # rev (gguf_stem ?n)) = rev e"
    using e by (subst takeWhile_append2) auto
  ultimately have ext: "takeWhile (\<lambda>c. c \<noteq> CHR ''.'') (rev ?n) = rev e" by simp
  have len: "length ?n = length (gguf_stem ?n) + 5" by (subst n) (simp add: e)
  show ?thesis
  proof (cases "gguf_stem ?n = []")
    case True
    with len have l: "length ?n = 5" by simp
    have "path_stem (file_path f) = ?n"
      using ext e by (simp add: path_stem_def name_stem_def Let_def l)
    with l True show ?thesis by (simp add: shard_of_def split_shard_short)
  next
    case False
    have dot: "CHR ''.'' \<in> set ?n" by (subst n) simp
    have "rev e \<noteq> []" using e by auto
    moreover have "length ?n - length (rev e) - 1 = length (gguf_stem ?n)" using len e by simp
    moreover have "0 < length (gguf_stem ?n)" using False by simp
    ultimately have "path_stem (file_path f) = take (length (gguf_stem ?n)) ?n"
      using ext dot by (simp only: path_stem_def name_stem_def Let_def) simp
    also have "\<dots> = gguf_stem ?n" by (metis n append_eq_conv_conj)
    finally show ?thesis by (simp add: shard_of_def)
  qed
qed

section \<open>Buckets\<close>

lemma set_dict_set: "set (dict_set d k v) \<subseteq> insert (k, v) (set d)"
  unfolding dict_set_def by (induction d) auto

lemma dict_get_in: "dict_get d k = Some v \<Longrightarrow> (k, v) \<in> set d"
  by (simp add: dict_get_def map_of_SomeD)

lemma bucket_add_files:
  assumes "distinct (map fst d)"
  shows "mset (concat (map snd (bucket_add f d))) = add_mset f (mset (concat (map snd d)))"
proof -
  have "mset (concat (map snd (dict_set d k (opt_default (dict_get d k) [] @ [f])))) =
      add_mset f (mset (concat (map snd d)))" for k
    using assms
  proof (induction d)
    case (Cons p d)
    obtain k' v' where p: "p = (k', v')" by (rule prod.exhaust)
    from Cons p show ?case by (simp add: dict_set_def dict_get_def)
  qed (simp add: dict_set_def dict_get_def)
  then show ?thesis by (simp add: bucket_add_def Let_def)
qed

definition bucket_wf :: "(bucket_key, model_file list) dict \<Rightarrow> bool" where
  "bucket_wf d \<longleftrightarrow> distinct (map fst d) \<and>
     (\<forall>b \<in> set d. snd b \<noteq> [] \<and> (\<forall>f \<in> set (snd b). bucket_key_of f = fst b))"

lemma bucket_add_wf:
  assumes "bucket_wf d"
  shows "bucket_wf (bucket_add f d)"
proof -
  let ?k = "bucket_key_of f"
  let ?v = "opt_default (dict_get d ?k) [] @ [f]"
  have dist: "distinct (map fst d)" using assms by (simp add: bucket_wf_def)
  have old: "snd b \<noteq> [] \<and> (\<forall>g \<in> set (snd b). bucket_key_of g = fst b)" if "b \<in> set d" for b
    using assms that unfolding bucket_wf_def by blast
  have new: "\<forall>g \<in> set ?v. bucket_key_of g = ?k"
  proof (cases "dict_get d ?k")
    case (Some fs)
    with old [OF dict_get_in [OF Some]] show ?thesis by simp
  qed simp
  have "snd b \<noteq> [] \<and> (\<forall>g \<in> set (snd b). bucket_key_of g = fst b)" if "b \<in> set (dict_set d ?k ?v)" for b
  proof (cases "b = (?k, ?v)")
    case True
    with new show ?thesis by simp
  next
    case False
    with that set_dict_set have "b \<in> set d" by fast
    then show ?thesis by (rule old)
  qed
  then show ?thesis
    using dist unfolding bucket_add_def Let_def bucket_wf_def by (blast intro: distinct_dict_set)
qed

lemma gguf_buckets_partition:
  "bucket_wf (gguf_buckets files) \<and>
   mset (concat (map snd (gguf_buckets files))) = mset (filter is_model_gguf files)"
proof -
  have "bucket_wf d \<Longrightarrow> bucket_wf (fold bucket_add fs d) \<and>
      mset (concat (map snd (fold bucket_add fs d))) = mset (concat (map snd d)) + mset fs" for fs d
  proof (induction fs arbitrary: d)
    case (Cons f fs)
    have w: "bucket_wf (bucket_add f d)" by (rule bucket_add_wf [OF Cons.prems])
    have "distinct (map fst d)" using Cons.prems unfolding bucket_wf_def by blast
    from bucket_add_files [OF this, of f] Cons.IH [OF w] show ?case by (simp only: fold.simps o_apply) simp
  qed simp
  moreover have "bucket_wf []" unfolding bucket_wf_def by simp
  ultimately show ?thesis unfolding gguf_buckets_def by fastforce
qed

section \<open>Variants\<close>

lemmas variant_defs = variant_of_bucket_def make_variant_def shards_complete_def Let_def

text \<open>A group is whole: none of its files is a shard, or they are the shards 1 to n of n, each once.\<close>

definition whole_group :: "model_file list \<Rightarrow> bool" where
  "whole_group fs \<longleftrightarrow>
     (\<forall>f \<in> set fs. shard_of f = None) \<or>
     (\<exists>n base. 0 < n \<and> mset (map shard_of fs) = mset (map (\<lambda>i. Some (i, n, base)) [1..n]))"

lemma bucket_key_shard:
  "shard_of f = Some (i, n, base) \<Longrightarrow> bucket_key_of f = (q, parent, b, c) \<Longrightarrow> c = n \<and> b = base"
  "shard_of f = None \<Longrightarrow> bucket_key_of f = (q, parent, b, c) \<Longrightarrow> c = - 1"
  "bucket_key_of f = (q, parent, b, c) \<Longrightarrow> q = detect_quantization (path_name (file_path f))"
  by (auto simp: bucket_key_of_def shard_of_def without_shard_def Let_def)

lemma int_of_digits_nonneg: "list_all is_digit ds \<Longrightarrow> 0 \<le> int_of_digits ds"
proof (induction ds rule: rev_induct)
  case (snoc c ds)
  then show ?case by (auto simp: is_digit_def Let_def)
qed (simp add: int_of_digits_def)

lemma shard_count_nonneg: "shard_of f = Some (i, n, base) \<Longrightarrow> 0 \<le> n"
  by (auto simp: shard_of_def split_shard_def split_body_def shard_suffix_def Let_def int_of_digits_nonneg
      split: if_splits)

lemma shard_indexes_none:
  assumes "\<forall>f \<in> set fs. is_model_gguf f" and "\<forall>f \<in> set fs. shard_of f = None"
  shows "shard_indexes fs = []"
  using assms by (induction fs) (simp_all add: shard_indexes_def List.map_filter_simps path_stem_shard)

lemma shard_indexes_all:
  assumes "\<forall>f \<in> set fs. is_model_gguf f" and "\<forall>f \<in> set fs. \<exists>i. shard_of f = Some (i, n, base)"
  shows "map shard_of fs = map (\<lambda>i. Some (i, n, base)) (shard_indexes fs)"
  using assms by (induction fs) (auto simp: shard_indexes_def List.map_filter_simps path_stem_shard)

lemma sort_eq_iff: "sorted ys \<Longrightarrow> sort xs = ys \<longleftrightarrow> mset xs = mset ys"
  by (metis mset_sort properties_for_sort)

lemma bucket_shards:
  assumes nonempty: "fs \<noteq> []"
    and key: "\<forall>f \<in> set fs. bucket_key_of f = (q, parent, base, c)"
    and model: "\<forall>f \<in> set fs. is_model_gguf f"
  shows "(\<forall>f \<in> set fs. shard_of f = None) \<and> shard_indexes fs = [] \<or>
   0 \<le> c \<and> map shard_of fs = map (\<lambda>i. Some (i, c, base)) (shard_indexes fs) \<and> shard_indexes fs \<noteq> []"
proof (cases "\<forall>f \<in> set fs. shard_of f = None")
  case True
  then show ?thesis using shard_indexes_none model by blast
next
  case False
  then obtain g i n b where g: "g \<in> set fs" "shard_of g = Some (i, n, b)" by auto
  then have c: "0 \<le> c" using bucket_key_shard(1) shard_count_nonneg key by blast
  have "\<exists>i. shard_of f = Some (i, c, base)" if "f \<in> set fs" for f
  proof (cases "shard_of f")
    case None
    with that key c bucket_key_shard(2) [of f] show ?thesis by fastforce
  next
    case (Some t)
    with that key bucket_key_shard(1) [of f] show ?thesis by (cases t) blast
  qed
  then have m: "map shard_of fs = map (\<lambda>i. Some (i, c, base)) (shard_indexes fs)"
    using model by (intro shard_indexes_all) auto
  then have "shard_indexes fs \<noteq> []" using nonempty by auto
  with c m show ?thesis by blast
qed

lemma variant_of_bucket_complete:
  assumes "fs \<noteq> []" and "\<forall>f \<in> set fs. bucket_key_of f = (q, parent, base, c)"
    and "\<forall>f \<in> set fs. is_model_gguf f"
  shows "var_is_split (variant_of_bucket ((q, parent, base, c), fs)) \<longleftrightarrow> (\<exists>f \<in> set fs. shard_of f \<noteq> None)"
    and "var_is_complete (variant_of_bucket ((q, parent, base, c), fs)) \<longleftrightarrow> whole_group fs"
proof -
  let ?v = "variant_of_bucket ((q, parent, base, c), fs)"
  from bucket_shards [OF assms] consider
      (whole) "\<forall>f \<in> set fs. shard_of f = None" "shard_indexes fs = []"
    | (shards) "0 \<le> c" "map shard_of fs = map (\<lambda>i. Some (i, c, base)) (shard_indexes fs)" "shard_indexes fs \<noteq> []"
    by blast
  then have "(var_is_split ?v \<longleftrightarrow> (\<exists>f \<in> set fs. shard_of f \<noteq> None)) \<and> (var_is_complete ?v \<longleftrightarrow> whole_group fs)"
  proof cases
    case whole
    then show ?thesis by (simp add: variant_defs whole_group_def)
  next
    case shards
    let ?I = "shard_indexes fs"
    have some: "\<exists>f \<in> set fs. shard_of f \<noteq> None"
    proof -
      obtain f where f: "f \<in> set fs" using assms(1) by (cases fs) auto
      then have "shard_of f \<in> set (map (\<lambda>i. Some (i, c, base)) ?I)" using shards(2) by (metis image_eqI set_map)
      with f show ?thesis by auto
    qed
    have inj: "mset (map (\<lambda>i. Some (i, c, base)) xs) = mset (map (\<lambda>i. Some (i, c, base)) ys) \<longleftrightarrow> mset xs = mset ys"
      for xs ys :: "int list"
    proof -
      have "inj (image_mset (\<lambda>i :: int. Some (i, c, base)))" by (intro multiset.inj_map) (simp add: inj_def)
      then show ?thesis by (simp add: inj_eq)
    qed
    have "whole_group fs \<longleftrightarrow> 0 < c \<and> mset ?I = mset [1..c]"
    proof
      assume "whole_group fs"
      with some obtain n b where n: "0 < n"
        "mset (map shard_of fs) = mset (map (\<lambda>i. Some (i, n, b)) [1..n])" by (auto simp: whole_group_def)
      then have "Some (1, n, b) \<in> set (map shard_of fs)"
        by (metis (no_types, lifting) atLeastAtMost_iff image_eqI order_refl set_map set_mset_mset set_upto
            zless_imp_add1_zle add_0)
      then have "c = n" "base = b" unfolding shards(2) by auto
      with n shards(2) inj show "0 < c \<and> mset ?I = mset [1..c]" by simp
    next
      assume c: "0 < c \<and> mset ?I = mset [1..c]"
      then have "mset (map shard_of fs) = mset (map (\<lambda>i. Some (i, c, base)) [1..c])"
        unfolding shards(2) using inj by blast
      with c show "whole_group fs" by (auto simp: whole_group_def)
    qed
    moreover have "var_is_complete ?v \<longleftrightarrow> 0 < c \<and> mset ?I = mset [1..c]"
    proof -
      have "mset ?I = mset [1..c] \<Longrightarrow> int (length ?I) = c" if "0 < c"
        using that by (metis length_upto mset_eq_length diff_add_cancel int_nat_eq order_less_imp_le)
      then show ?thesis
        using shards(3) by (auto simp: variant_defs sort_eq_iff)
    qed
    ultimately show ?thesis
      using some shards(3) by (simp add: variant_defs)
  qed
  then show "var_is_split ?v \<longleftrightarrow> (\<exists>f \<in> set fs. shard_of f \<noteq> None)"
    and "var_is_complete ?v \<longleftrightarrow> whole_group fs" by blast+
qed

lemma variants_of_buckets:
  assumes "v \<in> set (gguf_variants (classify_repository files))"
  obtains q parent base c fs where "v = variant_of_bucket ((q, parent, base, c), fs)"
    and "((q, parent, base, c), fs) \<in> set (gguf_buckets files)"
proof -
  from assms obtain b where b: "b \<in> set (gguf_buckets files)" "v = variant_of_bucket b"
    by (auto simp: classify_repository_def group_gguf_variants_def Let_def split: if_splits)
  obtain k fs where kf: "b = (k, fs)" by (rule prod.exhaust)
  obtain q parent base c where "k = (q, parent, base, c)" by (rule prod_cases4)
  with b kf that show ?thesis by simp
qed

lemma bucket_in:
  assumes "b \<in> set (gguf_buckets files)"
  shows "snd b \<noteq> []" and "\<forall>f \<in> set (snd b). bucket_key_of f = fst b"
    and "\<forall>f \<in> set (snd b). is_model_gguf f \<and> f \<in> set files"
proof -
  have p: "bucket_wf (gguf_buckets files)"
    "mset (concat (map snd (gguf_buckets files))) = mset (filter is_model_gguf files)"
    using gguf_buckets_partition by blast+
  then show "snd b \<noteq> []" and "\<forall>f \<in> set (snd b). bucket_key_of f = fst b"
    using assms unfolding bucket_wf_def by blast+
  have "set (concat (map snd (gguf_buckets files))) = set (filter is_model_gguf files)"
    using p(2) by (rule mset_eq_setD)
  then show "\<forall>f \<in> set (snd b). is_model_gguf f \<and> f \<in> set files"
    using assms by auto
qed

lemma var_files_of_bucket: "var_files (variant_of_bucket b) = sort_key file_path (snd b)"
  unfolding variant_defs split_def by (rule gguf_variant.select_convs)

lemma mset_var_files_of_bucket [simp]: "mset (var_files (variant_of_bucket b)) = mset (snd b)"
  by (simp add: var_files_of_bucket)

lemma set_var_files_of_bucket [simp]: "set (var_files (variant_of_bucket b)) = set (snd b)"
  by (simp add: var_files_of_bucket)

lemma whole_group_mset: "mset xs = mset ys \<Longrightarrow> whole_group xs = whole_group ys"
  using mset_eq_setD [of xs ys] unfolding whole_group_def mset_map by simp

lemma known_sizes_mset: "mset xs = mset ys \<Longrightarrow> known_sizes xs = known_sizes ys"
  using mset_eq_setD [of xs ys] unfolding known_sizes_def list_all_iff by simp

lemma sum_list_mset_eq:
  assumes "mset xs = mset ys"
  shows "(\<Sum>x \<leftarrow> xs. f x :: int) = (\<Sum>y \<leftarrow> ys. f y)"
proof -
  from assms have "mset (map f xs) = mset (map f ys)" by simp
  then show ?thesis by (metis sum_mset_sum_list)
qed

lemma mset_concat_perm:
  assumes "mset xs = mset ys"
  shows "mset (concat (map g xs)) = mset (concat (map g ys))"
proof -
  from assms have "mset (map (\<lambda>x. mset (g x)) xs) = mset (map (\<lambda>x. mset (g x)) ys)" by simp
  then have "(\<Sum>x \<leftarrow> xs. mset (g x)) = (\<Sum>x \<leftarrow> ys. mset (g x))" by (metis sum_mset_sum_list)
  then show ?thesis by (simp add: mset_concat comp_def)
qed

lemma variant_facts:
  assumes "v \<in> set (gguf_variants (classify_repository files))"
  shows "var_files v \<noteq> []"
    and "\<forall>f \<in> set (var_files v). f \<in> set files \<and> is_model_gguf f \<and>
      var_quantization v = detect_quantization (path_name (file_path f))"
    and "var_is_split v \<longleftrightarrow> (\<exists>f \<in> set (var_files v). shard_of f \<noteq> None)"
    and "var_is_complete v \<longleftrightarrow> whole_group (var_files v)"
    and "var_total_bytes v = (if var_is_complete v \<and> known_sizes (var_files v)
      then Some (\<Sum>f \<leftarrow> var_files v. opt_default (file_size_bytes f) 0) else None)"
proof -
  obtain q parent base c fs where v: "v = variant_of_bucket ((q, parent, base, c), fs)"
    and b: "((q, parent, base, c), fs) \<in> set (gguf_buckets files)"
    by (rule variants_of_buckets [OF assms])
  note bk = bucket_in [OF b, simplified]
  have m: "mset (var_files v) = mset fs" "set (var_files v) = set fs" using v by simp_all
  have model: "\<forall>f \<in> set fs. is_model_gguf f" using bk(3) by blast
  note c = variant_of_bucket_complete [OF bk(1,2) model]
  show "var_files v \<noteq> []" using m(2) bk(1) by auto
  have "var_quantization v = q" by (simp add: v variant_defs)
  then show "\<forall>f \<in> set (var_files v). f \<in> set files \<and> is_model_gguf f \<and>
      var_quantization v = detect_quantization (path_name (file_path f))"
    using m(2) bk(2,3) bucket_key_shard(3) by auto
  show "var_is_split v \<longleftrightarrow> (\<exists>f \<in> set (var_files v). shard_of f \<noteq> None)"
    using c(1) m(2) v by simp
  show "var_is_complete v \<longleftrightarrow> whole_group (var_files v)"
    using c(2) whole_group_mset [OF m(1)] v by simp
  have "var_total_bytes v = (if var_is_complete v \<and> known_sizes fs
      then Some (\<Sum>f \<leftarrow> fs. opt_default (file_size_bytes f) 0) else None)"
    by (simp add: v variant_defs)
  then show "var_total_bytes v = (if var_is_complete v \<and> known_sizes (var_files v)
      then Some (\<Sum>f \<leftarrow> var_files v. opt_default (file_size_bytes f) 0) else None)"
    by (simp only: known_sizes_mset [OF m(1)] sum_list_mset_eq [OF m(1)])
qed

lemma variants_files:
  "mset (concat (map var_files (gguf_variants (classify_repository files)))) =
   mset (filter is_model_gguf files)"
proof (cases "has_suffix_file files ''.gguf''")
  case True
  have "mset (concat (map var_files (map variant_of_bucket bs))) = mset (concat (map snd bs))" for bs
    by (induction bs) simp_all
  moreover have "mset (concat (map snd (sort_key fst bs))) = mset (concat (map snd bs))"
    for bs :: "(bucket_key, model_file list) dict"
    by (rule mset_concat_perm) simp
  moreover have "gguf_variants (classify_repository files) =
      map variant_of_bucket (sort_key fst (gguf_buckets files))"
    using True by (simp add: classify_repository_def group_gguf_variants_def Let_def)
  ultimately show ?thesis using gguf_buckets_partition by simp
next
  case False
  then have "filter is_model_gguf files = []"
    by (auto simp: has_suffix_file_def some_name_def is_model_gguf_def filter_empty_conv list_ex_iff)
  with False show ?thesis by (simp add: classify_repository_def Let_def)
qed

lemma variants_keys:
  assumes "i < length vs" and "j < length vs" and "vs = gguf_variants (classify_repository files)"
    and "f \<in> set (var_files (vs ! i))" and "g \<in> set (var_files (vs ! j))"
  shows "bucket_key_of f = bucket_key_of g \<longleftrightarrow> i = j"
proof -
  let ?bs = "sort_key fst (gguf_buckets files)"
  have vs: "vs = map variant_of_bucket ?bs"
    using assms(1,3) by (simp add: classify_repository_def group_gguf_variants_def Let_def split: if_splits)
  have "distinct (map fst (gguf_buckets files))"
    using gguf_buckets_partition unfolding bucket_wf_def by blast
  then have d: "distinct (map fst ?bs)" by (metis mset_eq_imp_distinct_iff mset_map mset_sort)
  have len: "i < length ?bs" "j < length ?bs" using assms(1,2) vs by simp_all
  have "?bs ! i \<in> set (gguf_buckets files)" "?bs ! j \<in> set (gguf_buckets files)"
    using len by (metis nth_mem set_sort)+
  then have "bucket_key_of f = fst (?bs ! i)" "bucket_key_of g = fst (?bs ! j)"
    using assms(4,5) len vs bucket_in(2) by auto
  then show ?thesis
    using d len nth_eq_iff_index_eq [of "map fst ?bs" i j] by simp
qed

section \<open>Correctness\<close>


definition listed :: "string \<Rightarrow> int \<Rightarrow> model_file" where
  "listed path n = \<lparr>file_path = path, file_size_bytes = Some n, file_lfs = True, file_sha256 = None\<rparr>"

definition example_listing :: "model_file list" where
  "example_listing =
     [listed ''Q8-00002-of-00002.gguf'' 210, listed ''Q4.gguf'' 100, listed ''mmproj.gguf'' 50,
      listed ''Q8-00001-of-00002.gguf'' 200, listed ''Q6-00001-of-00002.gguf'' 150]"

lemma example_listing_variants:
  "gguf_variants (classify_repository example_listing) = group_gguf_variants example_listing"
proof -
  have "has_suffix_file [listed ''Q4.gguf'' 100] ''.gguf''" by code_simp
  then have "has_suffix_file example_listing ''.gguf''"
    by (simp add: has_suffix_file_def some_name_def example_listing_def)
  then show ?thesis by (simp add: classify_repository_def Let_def)
qed

lemma example_listing_groups:
  "map (\<lambda>v. (var_quantization v, var_total_bytes v, var_is_complete v)) (group_gguf_variants example_listing) =
   [(''Q4'', Some 100, True), (''Q6'', None, False), (''Q8'', Some 410, True)]"
  by code_simp


text \<open>
  Two listed names that differ only in the case of the extension share one bucket, so one variant
  that claims to be whole counts both files.
\<close>

lemma case_twins_are_summed:
  "map (\<lambda>v. (var_is_complete v, var_is_split v, var_total_bytes v))
     (group_gguf_variants [listed ''Q4.gguf'' 1, listed ''Q4.GGUF'' 2]) = [(True, False, Some 3)]"
  by code_simp

lemma chosen_single_file:
  assumes "select_variant (gguf_variants (classify_repository files)) q = Inr c"
    and "var_files (vc_variant c) = [f]"
  shows "f \<in> set files \<and> is_model_gguf f \<and>
    var_quantization (vc_variant c) = detect_quantization (path_name (file_path f)) \<and>
    (shard_of f = None \<or> (\<exists>base. shard_of f = Some (1, 1, base))) \<and>
    (\<forall>x. q = Some x \<and> x \<noteq> [] \<longrightarrow> lower (detect_quantization (path_name (file_path f))) = lower x) \<and>
    (\<forall>w \<in> set (gguf_variants (classify_repository files)).
       is_whole w \<and> var_quantization w = var_quantization (vc_variant c) \<longrightarrow> var_files w = [f])"
proof -
  let ?vs = "gguf_variants (classify_repository files)" and ?v = "vc_variant c"
  have u: "unrivalled (variants_of_quantization ?vs (var_quantization ?v)) ?v"
    and q: "\<forall>x. q = Some x \<and> x \<noteq> [] \<longrightarrow> lower (var_quantization ?v) = lower x"
    using select_variant_unrivalled [OF assms(1)] by blast+
  have v: "?v \<in> set ?vs" "var_is_complete ?v"
    using u by (auto simp: unrivalled_def variants_of_quantization_def)
  have f: "f \<in> set files \<and> is_model_gguf f \<and> var_quantization ?v = detect_quantization (path_name (file_path f))"
    using variant_facts(2) [OF v(1)] assms(2) by simp
  have shard: "shard_of f = None \<or> (\<exists>base. shard_of f = Some (1, 1, base))"
  proof -
    have "whole_group [f]" using variant_facts(4) [OF v(1)] v(2) assms(2) by simp
    then consider "shard_of f = None" | n base where "0 < n"
      "mset [shard_of f] = mset (map (\<lambda>i. Some (i, n, base)) [1..n])" by (auto simp: whole_group_def)
    then show ?thesis
    proof cases
      case 2
      then have "int (length (map (\<lambda>i. Some (i, n, base)) [1..n])) = 1"
        by (metis One_nat_def int_ops(2) length_Cons list.size(3) mset_eq_length)
      then have "n = 1" using \<open>0 < n\<close> by simp
      with 2 show ?thesis by simp
    qed blast
  qed
  have rival: "var_files w = [f]" if "w \<in> set ?vs" "is_whole w" "var_quantization w = var_quantization ?v" for w
  proof -
    have "\<forall>g \<in> set (var_files w). shard_of g = None"
      using variant_facts(3) [OF that(1)] that(2) unfolding is_whole_def by blast
    then have "var_is_complete w" using variant_facts(4) [OF that(1)] by (simp add: whole_group_def)
    then have "w = ?v" using u that by (auto simp: unrivalled_def variants_of_quantization_def)
    then show ?thesis using assms(2) by simp
  qed
  show ?thesis using f q shard rival by auto
qed

text \<open>
  A resolved artifact is one whole model file of the repository's listing: its name, size and
  digest are those of the listed file (a digest is 64 hexadecimal digits or absent), its
  quantization is read from that name and is the requested one up to case, the file is not a
  shard of several, and no other unsplit single file of the same quantization is listed.
\<close>

theorem resolved_artifact_is_whole:
  assumes "resolve_artifact sdk r q revision = Inr a"
  shows "\<exists>info f. hub_model_info sdk r revision = Inr info \<and> f \<in> set (files_from_metadata info) \<and>
    is_model_gguf f \<and> ma_repo_id a = r \<and> ma_filename a = file_path f \<and>
    ma_size_bytes a = file_size_bytes f \<and> ma_sha256 a = file_sha256 f \<and>
    (\<forall>s. ma_sha256 a = Some s \<longrightarrow> is_sha256 s) \<and>
    ma_quantization a = Some (detect_quantization (path_name (file_path f))) \<and>
    (\<forall>x. q = Some x \<and> x \<noteq> [] \<longrightarrow> lower (detect_quantization (path_name (file_path f))) = lower x) \<and>
    (shard_of f = None \<or> (\<exists>base. shard_of f = Some (1, 1, base))) \<and>
    (\<forall>w \<in> set (gguf_variants (classify_repository (files_from_metadata info))).
       is_whole w \<and> Some (var_quantization w) = ma_quantization a \<longrightarrow> var_files w = [f])"
proof -
  obtain info c where i: "hub_model_info sdk r revision = Inr info"
    and c: "select_variant (gguf_variants (classify_repository (files_from_metadata info))) q = Inr c"
    and a: "artifact_of_choice r info revision (vc_variant c) = Inr a"
    using assms by (auto simp: resolve_artifact_def Let_def split: sum.splits if_splits)
  then obtain f where f: "var_files (vc_variant c) = [f]"
    by (auto simp: artifact_of_choice_def split: list.splits)
  note s = chosen_single_file [OF c f]
  have "\<forall>s. file_sha256 f = Some s \<longrightarrow> is_sha256 s"
    using s by (auto simp: files_from_metadata_def List.map_filter_def file_of_sibling_def checked_sha256_def
        split: option.splits if_splits py_obj.splits)
  with i a f s show ?thesis by (auto simp: artifact_of_choice_def)
qed

definition example_hub :: hub_sdk where
  "example_hub =
     \<lparr>sdk_model_info = (\<lambda>r revision. Inr
        \<lparr>mi_siblings = map (\<lambda>(n, k). \<lparr>sib_rfilename = Some n, sib_size = Some k, sib_lfs_sha256 = None\<rparr>)
           [(''Q4.gguf'', 100), (''Q8-00001-of-00002.gguf'', 200), (''mmproj.gguf'', 50)],
         mi_sha = Some (PyStr ''abc''), mi_card_data = None, mi_tags = [], mi_author = None, mi_private = False,
         mi_gated = False, mi_downloads = None, mi_likes = None, mi_last_modified = None,
         mi_pipeline_tag = None, mi_library_name = None\<rparr>),
      sdk_download = (\<lambda>r n. Inl SdkEntryNotFound), sdk_safetensors = (\<lambda>r. Inl SdkNotSafetensors)\<rparr>"

lemma resolved_artifact_is_whole_witness:
  "\<exists>a f. resolve_artifact example_hub ''org/m'' (Some ''q4'') None = Inr a \<and> ma_filename a = ''Q4.gguf'' \<and>
     is_model_gguf f \<and> file_path f = ''Q4.gguf'' \<and> ma_size_bytes a = file_size_bytes f"
proof -
  have e: "map_sum id ma_filename (resolve_artifact example_hub ''org/m'' (Some ''q4'') None) = Inr ''Q4.gguf''"
    by code_simp
  then obtain a where "resolve_artifact example_hub ''org/m'' (Some ''q4'') None = Inr a" "ma_filename a = ''Q4.gguf''"
    by (cases "resolve_artifact example_hub ''org/m'' (Some ''q4'') None") auto
  with resolved_artifact_is_whole [OF this(1)] show ?thesis by metis
qed

end
