(* ===== verification/Repository_Analysis.thy ===== *)
theory Repository_Analysis
  imports Repository_Files Runtime_Advice
begin

text \<open>
  The inspection of a repository (\<^verbatim>\<open>huggingface/repository.py\<close>) and the analyzers it dispatches to
  (\<^verbatim>\<open>analyzers/\<close>): repository information, configuration, relevant files and warnings.  The lemmas
  tie the warnings of the GGUF analyzer to the variants a selection can return, and the parsed
  configuration to the file it was read from.
\<close>

section \<open>Configuration files\<close>

definition RAW_FLAG_KEYS :: "string list" where
  "RAW_FLAG_KEYS =
     [''num_experts'', ''num_local_experts'', ''num_experts_per_tok'', ''moe_intermediate_size'',
      ''q_lora_rank'', ''kv_lora_rank'', ''qk_rope_head_dim'', ''qk_nope_head_dim'', ''v_head_dim'',
      ''auto_map'', ''text_config'', ''vision_config'', ''audio_config'']"

fun config_int :: "(string, py_obj) dict \<Rightarrow> string list \<Rightarrow> int option" where
  "config_int d [] = None"
| "config_int d (k # ks) = (case dict_get d k of Some (PyInt n) \<Rightarrow> Some n | _ \<Rightarrow> config_int d ks)"

definition config_str :: "(string, py_obj) dict \<Rightarrow> string \<Rightarrow> string option" where
  "config_str d k = (case dict_get d k of Some (PyStr s) \<Rightarrow> Some s | _ \<Rightarrow> None)"

definition config_bool :: "(string, py_obj) dict \<Rightarrow> string \<Rightarrow> bool option" where
  "config_bool d k = (case dict_get d k of Some (PyBool b) \<Rightarrow> Some b | _ \<Rightarrow> None)"

definition config_dict :: "(string, py_obj) dict \<Rightarrow> string \<Rightarrow> (string, py_obj) dict option" where
  "config_dict d k = (case dict_get d k of Some (PyDict x) \<Rightarrow> Some x | _ \<Rightarrow> None)"

definition model_config_from_dict :: "(string, py_obj) dict \<Rightarrow> model_config" where
  "model_config_from_dict d =
     \<lparr>architectures = (case dict_get d ''architectures'' of Some (PyList xs) \<Rightarrow> map text_of_obj xs | _ \<Rightarrow> []),
      model_type = config_str d ''model_type'',
      torch_dtype = config_str d ''torch_dtype'',
      max_position_embeddings = config_int d [''max_position_embeddings''],
      hidden_size = config_int d [''hidden_size'', ''n_embd''],
      num_hidden_layers = config_int d [''num_hidden_layers'', ''n_layer''],
      num_attention_heads = config_int d [''num_attention_heads'', ''n_head''],
      num_key_value_heads = config_int d [''num_key_value_heads''],
      head_dim = config_int d [''head_dim''],
      intermediate_size = config_int d [''intermediate_size''],
      sliding_window = config_int d [''sliding_window''],
      use_sliding_window = config_bool d ''use_sliding_window'',
      rope_scaling = config_dict d ''rope_scaling'',
      tie_word_embeddings = config_bool d ''tie_word_embeddings'',
      vocab_size = config_int d [''vocab_size''],
      quantization_config = config_dict d ''quantization_config'',
      raw_flags = List.map_filter (\<lambda>k. map_option (Pair k) (dict_get d k)) RAW_FLAG_KEYS\<rparr>"

section \<open>Analyzers\<close>

text \<open>
  What leaves an inspection as an exception: an error of the client, or the \<^verbatim>\<open>AttributeError\<close> of
  reading a key of a JSON value that is not an object.
\<close>

datatype analysis_error = AnalysisHub hub_error | AttributeError

record analyzer_result =
  ar_config :: "model_config option"
  ar_relevant_files :: "string list"
  ar_warnings :: "string list"

definition ALWAYS_RELEVANT :: "string list" where
  "ALWAYS_RELEVANT =
     [''config.json'', ''generation_config.json'', ''tokenizer.json'', ''tokenizer_config.json'',
      ''special_tokens_map.json'', ''model_index.json'', ''adapter_config.json'', ''README.md'']"

definition RELEVANT_SUFFIXES :: "string list" where
  "RELEVANT_SUFFIXES =
     [''.safetensors'', ''.safetensors.index.json'', ''.bin.index.json'', ''.gguf'', ''.onnx'']"

definition collect_relevant_files :: "model_file list \<Rightarrow> string list" where
  "collect_relevant_files files =
     (let names = map file_path files;
          relevant = sort (filter (\<lambda>p. path_name p \<in> set ALWAYS_RELEVANT \<and> CHR ''/'' \<notin> set p) names);
          others = sort (filter (\<lambda>p. p \<notin> set relevant \<and>
            list_ex (endswith (lower (path_name p))) RELEVANT_SUFFIXES) names) in
      if files = [] then [] else relevant @ others)"

definition analyze_transformers ::
  "hub_sdk \<Rightarrow> string \<Rightarrow> model_file list \<Rightarrow> analysis_error + analyzer_result" where
  "analyze_transformers sdk r files =
     (let done = (\<lambda>c ws. Inr \<lparr>ar_config = c, ar_relevant_files = collect_relevant_files files,
            ar_warnings = ws\<rparr>) in
      case hub_download_small_file sdk r ''config.json'' of
        Inl (ConfigurationNotFound _) \<Rightarrow>
          done None [''config.json is missing; transformer metadata is unavailable.'']
      | Inl e \<Rightarrow>
          if is_jaull_error e then done None [''Could not fetch config.json: '' @ hub_error_text e]
          else Inl (AnalysisHub e)
      | Inr (Inl _) \<Rightarrow> done None [''config.json is present but could not be parsed.'']
      | Inr (Inr (PyDict d)) \<Rightarrow> done (Some (model_config_from_dict d)) []
      | Inr (Inr _) \<Rightarrow> Inl AttributeError)"

definition selection_error_text :: "estimation_error \<Rightarrow> string" where
  "selection_error_text e =
     (case e of
        GgufVariantSelection m \<Rightarrow> m
      | QuantizationNotFound requested available \<Rightarrow>
          ''Quantization '' @ repr_str requested @ '' not found. Available variants: '' @
          (if available = [] then ''none'' else join '', '' available) @ ''.'')"

definition quantization_warning :: "gguf_variant list \<Rightarrow> string \<Rightarrow> string option" where
  "quantization_warning vs q =
     (case unique_gguf_representation (variants_of_quantization vs q) of
        Inl e \<Rightarrow> Some (q @ '': '' @ selection_error_text e)
      | Inr v \<Rightarrow>
          if var_total_bytes v = None
          then Some (q @ '': artifact size is unknown; memory fit is unconfirmed.'') else None)"

definition analyze_gguf :: "model_file list \<Rightarrow> gguf_variant list \<Rightarrow> analyzer_result" where
  "analyze_gguf files vs =
     \<lparr>ar_config = None,
      ar_relevant_files = collect_relevant_files files,
      ar_warnings = List.map_filter (quantization_warning vs) (sorted_quantizations vs) @
        (if 1 < length vs then
           [''Repository contains '' @ show_int (int (length vs)) @ '' GGUF artifact representations ('' @
            join '', '' (map var_quantization vs) @ ''); only one is loaded at a time.'']
         else [])\<rparr>"

definition analyze_minimal :: "model_file list \<Rightarrow> string \<Rightarrow> analyzer_result" where
  "analyze_minimal files warning =
     \<lparr>ar_config = None, ar_relevant_files = collect_relevant_files files, ar_warnings = [warning]\<rparr>"

definition analyze_generic ::
  "hub_sdk \<Rightarrow> string \<Rightarrow> model_file list \<Rightarrow> repository_type set \<Rightarrow> analysis_error + analyzer_result" where
  "analyze_generic sdk r files detected =
     (let done = (\<lambda>ws. Inr \<lparr>ar_config = None, ar_relevant_files = collect_relevant_files files,
            ar_warnings = ws\<rparr>) in
      if REPO_ADAPTER \<notin> detected then done []
      else
        (case hub_download_small_file sdk r ''adapter_config.json'' of
           Inl (ConfigurationNotFound _) \<Rightarrow>
             done [''adapter_config.json declared but could not be downloaded.'']
         | Inl e \<Rightarrow>
             if is_jaull_error e then done [''Could not read adapter_config.json: '' @ hub_error_text e]
             else Inl (AnalysisHub e)
         | Inr (Inl _) \<Rightarrow> done [''adapter_config.json could not be parsed.'']
         | Inr (Inr (PyDict d)) \<Rightarrow>
             done (case dict_get d ''base_model_name_or_path'' of
               Some b \<Rightarrow> if truthy b then [''Adapter targets base model: '' @ text_of_obj b] else []
             | None \<Rightarrow> [])
         | Inr (Inr _) \<Rightarrow> Inl AttributeError))"

definition run_analyzer ::
  "hub_sdk \<Rightarrow> string \<Rightarrow> model_file list \<Rightarrow> repository_classification \<Rightarrow> analysis_error + analyzer_result" where
  "run_analyzer sdk r files c =
     (case primary_type c of
        REPO_TRANSFORMERS \<Rightarrow> analyze_transformers sdk r files
      | REPO_GGUF \<Rightarrow> Inr (analyze_gguf files (gguf_variants c))
      | REPO_DIFFUSERS \<Rightarrow> Inr (analyze_minimal files
          ''Diffusers analyzer is minimal in this iteration; sub-component configs are not parsed.'')
      | REPO_ONNX \<Rightarrow> Inr (analyze_minimal files
          ''ONNX analyzer is minimal in this iteration; opsets and IR version are not inspected.'')
      | REPO_ADAPTER \<Rightarrow> analyze_generic sdk r files (detected_types c)
      | REPO_UNKNOWN \<Rightarrow> analyze_generic sdk r files (detected_types c))"

section \<open>Inspection\<close>

definition license_of :: "(string, py_obj) dict \<Rightarrow> string option" where
  "license_of cd =
     (let v = (case dict_get cd ''license'' of
                 Some (PyList xs) \<Rightarrow> (case xs of [] \<Rightarrow> None | x # _ \<Rightarrow> Some x)
               | x \<Rightarrow> x) in
      case v of Some x \<Rightarrow> if truthy x then Some (text_of_obj x) else None | None \<Rightarrow> None)"

text \<open>
  The time of the last change is the text of the instant that the library returns; parsing it from
  text, for old versions of the library, is not modelled.
\<close>

definition build_repository_info :: "model_info \<Rightarrow> string \<Rightarrow> model_repository_info" where
  "build_repository_info info r =
     \<lparr>repo_id = r, repo_author = mi_author info, repo_private = mi_private info, repo_gated = mi_gated info,
      repo_downloads = mi_downloads info, repo_likes = mi_likes info,
      repo_last_modified = mi_last_modified info,
      repo_license = license_of (opt_default (mi_card_data info) []),
      repo_tags = mi_tags info, repo_pipeline_tag = mi_pipeline_tag info,
      repo_library_name = mi_library_name info\<rparr>"

definition compute_total_size :: "model_file list \<Rightarrow> int option" where
  "compute_total_size files =
     (let n = (\<Sum>f \<leftarrow> files. opt_default (file_size_bytes f) 0) in if n = 0 then None else Some n)"

definition inspect_model :: "hub_sdk \<Rightarrow> string \<Rightarrow> analysis_error + model_analysis" where
  "inspect_model sdk r =
     (case hub_model_info sdk r None of
        Inl e \<Rightarrow> Inl (AnalysisHub e)
      | Inr info \<Rightarrow>
        let files = files_from_metadata info; c = classify_repository files in
        (case run_analyzer sdk r files c of
           Inl e \<Rightarrow> Inl e
         | Inr result \<Rightarrow>
           Inr \<lparr>an_repo = build_repository_info info r, an_files = files, an_classification = c,
             an_config = ar_config result, an_relevant_files = ar_relevant_files result,
             an_total_size_bytes = compute_total_size files, an_warnings = ar_warnings result,
             an_safetensors_summary = None, an_declared_size_label = None\<rparr>))"

section \<open>Lemmas\<close>

text \<open>
  The GGUF analyzer is silent about a quantization exactly when a selection by that label can
  return an artifact of known size.
\<close>

lemma quantization_warning_silent:
  "quantization_warning vs q = None \<longleftrightarrow>
   (\<exists>v. unique_gguf_representation (variants_of_quantization vs q) = Inr v \<and> var_total_bytes v \<noteq> None)"
  by (auto simp: quantization_warning_def split: sum.splits)

lemma preferred_known_sizes:
  assumes "ar_warnings (analyze_gguf files vs) = []" and "vs \<noteq> []"
  shows "length (preferred_gguf_variants vs) = length (sorted_quantizations vs) \<and>
    (\<forall>v \<in> set (preferred_gguf_variants vs). var_total_bytes v \<noteq> None)"
proof -
  have silent: "quantization_warning vs q = None" if "q \<in> set (sorted_quantizations vs)" for q
    using assms(1) that by (auto simp: analyze_gguf_def List.map_filter_def filter_empty_conv)
  let ?f = "\<lambda>q. case unique_gguf_representation (variants_of_quantization vs q) of Inl _ \<Rightarrow> None | Inr v \<Rightarrow> Some v"
  have some: "\<exists>v. ?f q = Some v \<and> var_total_bytes v \<noteq> None" if "q \<in> set (sorted_quantizations vs)" for q
    using silent [OF that] by (auto simp: quantization_warning_silent)
  have "length (List.map_filter ?f qs) = length qs \<and> (\<forall>v \<in> set (List.map_filter ?f qs). var_total_bytes v \<noteq> None)"
    if "set qs \<subseteq> set (sorted_quantizations vs)" for qs
    using that some by (induction qs) (fastforce simp: List.map_filter_simps)+
  from this [OF order_refl] show ?thesis by (simp add: preferred_gguf_variants_def)
qed

text \<open>An inspection of a GGUF repository never reads a file, and never raises once the listing is read.\<close>

lemma inspect_gguf:
  assumes "hub_model_info sdk r None = Inr info"
    and "primary_type (classify_repository (files_from_metadata info)) = REPO_GGUF"
  shows "\<exists>a. inspect_model sdk r = Inr a \<and> an_config a = None \<and> an_files a = files_from_metadata info"
  using assms by (simp add: inspect_model_def run_analyzer_def analyze_gguf_def Let_def)

lemma analyze_transformers_config:
  assumes "analyze_transformers sdk r files = Inr a" and "ar_config a = Some c"
  shows "\<exists>d. hub_download_small_file sdk r ''config.json'' = Inr (Inr (PyDict d)) \<and>
    c = model_config_from_dict d \<and> ar_warnings a = []"
  using assms
  by (auto simp: analyze_transformers_def Let_def split: sum.splits hub_error.splits py_obj.splits if_splits)

end
