(* ===== verification/Base_Model.thy ===== *)
theory Base_Model
  imports Estimation Gguf_Reader Py_Text
begin

text \<open>
  The resolution of the base model behind a GGUF repository (\<^verbatim>\<open>metadata/base_model_resolver.py\<close>):
  the model card, the GGUF header and links in the card, in this order.  The lemmas show that an
  answer always comes from one explicit reference, and that names and ambiguous references never
  become an answer.
\<close>

section \<open>References\<close>

text \<open>The link pattern: two path segments after the host, matched at the start of a text.\<close>

definition is_segment_char :: "char \<Rightarrow> bool" where
  "is_segment_char c \<longleftrightarrow> c \<noteq> CHR ''/'' \<and> c \<noteq> CHR ''#'' \<and> c \<noteq> CHR ''?'' \<and> \<not> is_blank c"

definition two_segments :: "string \<Rightarrow> string option" where
  "two_segments s =
     (let owner = takeWhile is_segment_char s; rest = dropWhile is_segment_char s;
          name = takeWhile is_segment_char (drop 1 rest) in
      if owner \<noteq> [] \<and> take 1 rest = ''/'' \<and> name \<noteq> [] then Some (owner @ ''/'' @ name) else None)"

definition hub_link_at :: "string \<Rightarrow> string option" where
  "hub_link_at s =
     (if startswith (lower s) ''https://huggingface.co/'' then two_segments (drop 23 s)
      else if startswith (lower s) ''http://huggingface.co/'' then two_segments (drop 22 s)
      else None)"

fun find_hub_link :: "string \<Rightarrow> string option" where
  "find_hub_link [] = None"
| "find_hub_link (c # cs) = opt_or (hub_link_at (c # cs)) (find_hub_link cs)"

definition normalise_ref :: "string \<Rightarrow> string option" where
  "normalise_ref v =
     (let ref = strip v in
      if ref = [] then None
      else (case hub_link_at ref of
          Some r \<Rightarrow> Some r
        | None \<Rightarrow>
            if CHR ''/'' \<in> set ref \<and> \<not> startswith ref ''http'' \<and> \<not> startswith ref ''www''
            then Some ref else None))"

text \<open>The references among the texts of a list.\<close>

definition refs_of_list :: "py_obj list \<Rightarrow> string list" where
  "refs_of_list xs = List.map_filter (\<lambda>x. case x of PyStr s \<Rightarrow> normalise_ref s | _ \<Rightarrow> None) xs"

definition RELATION_KEYS :: "string list" where
  "RELATION_KEYS = [''finetune'', ''quantized_by'', ''merge'', ''adapter'', ''base_model'']"

definition refs_of_relation :: "py_obj option \<Rightarrow> string list" where
  "refs_of_relation x =
     (case x of
        Some (PyStr s) \<Rightarrow> (case normalise_ref s of None \<Rightarrow> [] | Some r \<Rightarrow> [r])
      | Some (PyList xs) \<Rightarrow> refs_of_list xs
      | _ \<Rightarrow> [])"

section \<open>Sources\<close>

definition resolved :: "string \<Rightarrow> metadata_source \<Rightarrow> estimation_confidence \<Rightarrow> string \<Rightarrow> base_model_resolution" where
  "resolved r source confidence evidence =
     \<lparr>bmr_repo_id = Some r, bmr_source = source, bmr_confidence = confidence, bmr_evidence = [evidence],
      bmr_warnings = [], bmr_candidates = []\<rparr>"

definition ambiguous :: "string list \<Rightarrow> string list \<Rightarrow> string \<Rightarrow> base_model_resolution" where
  "ambiguous candidates evidence warning =
     \<lparr>bmr_repo_id = None, bmr_source = UNRESOLVED, bmr_confidence = CONF_LOW, bmr_evidence = evidence,
      bmr_warnings = [warning], bmr_candidates = candidates\<rparr>"

definition from_card_list :: "py_obj list \<Rightarrow> base_model_resolution option" where
  "from_card_list xs =
     (case refs_of_list xs of
        [] \<Rightarrow> None
      | [r] \<Rightarrow> Some (resolved r MODEL_CARD_METADATA CONF_HIGH
          (''Model card `base_model` list with one entry: '' @ r @ ''.''))
      | rs \<Rightarrow> Some (ambiguous rs [''Candidates: '' @ join '', '' rs @ ''.'']
          ''Model card lists multiple base models; refusing to pick one automatically.''))"

definition from_card_dict :: "(string, py_obj) dict \<Rightarrow> base_model_resolution option" where
  "from_card_dict d =
     (case dedup (concat (map (\<lambda>k. refs_of_relation (dict_get d k)) RELATION_KEYS)) of
        [] \<Rightarrow> None
      | [r] \<Rightarrow> Some (resolved r MODEL_CARD_METADATA CONF_HIGH
          (''Model card relation entry resolved to '' @ r @ ''.''))
      | rs \<Rightarrow> Some (ambiguous rs []
          ''Model card relations point to multiple base models; ambiguous.''))"

definition from_card_data :: "(string, py_obj) dict \<Rightarrow> base_model_resolution option" where
  "from_card_data cd =
     (case dict_get cd ''base_model'' of
        Some (PyStr s) \<Rightarrow>
          map_option (\<lambda>r. resolved r MODEL_CARD_METADATA CONF_HIGH (''Model card `base_model: '' @ r @ ''`.''))
            (normalise_ref s)
      | Some (PyList xs) \<Rightarrow> from_card_list xs
      | Some (PyDict d) \<Rightarrow> from_card_dict d
      | _ \<Rightarrow> None)"

definition from_gguf_header :: "gguf_header option \<Rightarrow> base_model_resolution option" where
  "from_gguf_header h =
     (case h of
        None \<Rightarrow> None
      | Some x \<Rightarrow>
        (case hd_source_repository x of
           None \<Rightarrow> None
         | Some s \<Rightarrow>
           map_option (\<lambda>r. resolved r GGUF_METADATA CONF_HIGH
             (''GGUF header `general.source.huggingface.repository` = '' @ r @ ''.'')) (normalise_ref s)))"

definition LINK_FIELDS :: "string list" where
  "LINK_FIELDS = [''source'', ''source_url'', ''homepage'', ''url'']"

definition link_field :: "(string, py_obj) dict \<Rightarrow> string \<Rightarrow> (string \<times> string) option" where
  "link_field cd k =
     (case dict_get cd k of Some (PyStr s) \<Rightarrow> map_option (Pair k) (find_hub_link s) | _ \<Rightarrow> None)"

definition from_url :: "(string, py_obj) dict \<Rightarrow> base_model_resolution option" where
  "from_url cd =
     (case List.map_filter (link_field cd) LINK_FIELDS of
        [] \<Rightarrow> None
      | (k, r) # _ \<Rightarrow> Some (resolved r EXPLICIT_REPOSITORY_REFERENCE CONF_MEDIUM
          (''Model card field '' @ repr_str k @ '' references '' @ r @ ''.'')))"

definition GGUF_SUFFIX_HINTS :: "string list" where
  "GGUF_SUFFIX_HINTS = [''-GGUF'', ''-gguf'', ''.gguf'']"

definition name_hint :: "string \<Rightarrow> string option" where
  "name_hint r =
     (case filter (\<lambda>b. CHR ''/'' \<in> set b)
         (map (\<lambda>s. take (length r - length s) r) (filter (endswith r) GGUF_SUFFIX_HINTS)) of
        [] \<Rightarrow> None
      | b # _ \<Rightarrow> Some b)"

definition unresolved :: "string \<Rightarrow> base_model_resolution" where
  "unresolved r =
     \<lparr>bmr_repo_id = None, bmr_source = UNRESOLVED, bmr_confidence = CONF_LOW,
      bmr_evidence = (case name_hint r of
          None \<Rightarrow> []
        | Some h \<Rightarrow> [''Repository name suggests conversion of '' @ repr_str h @ '' but this is only a hint.'']),
      bmr_warnings = [''Base model could not be resolved from model card, GGUF header or URLs.''],
      bmr_candidates = []\<rparr>"

text \<open>The card is empty when there is no repository information.\<close>

definition resolve_base_model ::
  "(string, py_obj) dict \<Rightarrow> gguf_header option \<Rightarrow> string \<Rightarrow> base_model_resolution" where
  "resolve_base_model cd h r =
     (case from_card_data cd of
        Some x \<Rightarrow> x
      | None \<Rightarrow>
        (case from_gguf_header h of
           Some x \<Rightarrow> x
         | None \<Rightarrow> (case from_url cd of Some x \<Rightarrow> x | None \<Rightarrow> unresolved r)))"

section \<open>Correctness\<close>

text \<open>The references a card makes under \<^verbatim>\<open>base_model\<close>, each once.\<close>

definition card_references :: "(string, py_obj) dict \<Rightarrow> string list" where
  "card_references cd =
     (case dict_get cd ''base_model'' of
        Some (PyStr s) \<Rightarrow> (case normalise_ref s of None \<Rightarrow> [] | Some r \<Rightarrow> [r])
      | Some (PyList xs) \<Rightarrow> refs_of_list xs
      | Some (PyDict d) \<Rightarrow> dedup (concat (map (\<lambda>k. refs_of_relation (dict_get d k)) RELATION_KEYS))
      | _ \<Rightarrow> [])"

definition header_reference :: "gguf_header option \<Rightarrow> string option" where
  "header_reference h =
     Option.bind h (\<lambda>x. Option.bind (hd_source_repository x) normalise_ref)"

definition link_reference :: "(string, py_obj) dict \<Rightarrow> string option" where
  "link_reference cd =
     (case List.map_filter (link_field cd) LINK_FIELDS of [] \<Rightarrow> None | p # _ \<Rightarrow> Some (snd p))"

lemma from_card_data_cases:
  "from_card_data cd = None \<longleftrightarrow> card_references cd = []"
  "from_card_data cd = Some x \<Longrightarrow>
     (\<exists>r. card_references cd = [r] \<and> bmr_repo_id x = Some r \<and> bmr_source x = MODEL_CARD_METADATA \<and>
        bmr_confidence x = CONF_HIGH) \<or>
     (2 \<le> length (card_references cd) \<and> bmr_repo_id x = None \<and> bmr_source x = UNRESOLVED \<and>
        bmr_candidates x = card_references cd \<and> bmr_warnings x \<noteq> [])"
  by (auto simp: from_card_data_def card_references_def from_card_list_def from_card_dict_def resolved_def
      ambiguous_def Suc_le_eq split: option.splits py_obj.splits list.splits)

lemma from_gguf_header_cases:
  "from_gguf_header h = None \<longleftrightarrow> header_reference h = None"
  "from_gguf_header h = Some x \<Longrightarrow>
     header_reference h = bmr_repo_id x \<and> bmr_repo_id x \<noteq> None \<and> bmr_source x = GGUF_METADATA \<and>
     bmr_confidence x = CONF_HIGH"
  by (auto simp: from_gguf_header_def header_reference_def resolved_def split: option.splits)

lemma from_url_cases:
  "from_url cd = None \<longleftrightarrow> link_reference cd = None"
  "from_url cd = Some x \<Longrightarrow>
     link_reference cd = bmr_repo_id x \<and> bmr_repo_id x \<noteq> None \<and>
     bmr_source x = EXPLICIT_REPOSITORY_REFERENCE \<and> bmr_confidence x = CONF_MEDIUM"
  by (auto simp: from_url_def link_reference_def resolved_def split: list.splits)

text \<open>
  A base model is resolved exactly from one explicit reference, the first of: the only
  reference of the card's base model entry, the source the GGUF header names, a hub link in the
  card.  Several references in the entry stop the search without an answer, the name of the
  repository never gives one, and the recorded source and confidence say where it came from;
  no answer always comes with a warning, an answer never does.
\<close>

theorem base_model_is_explicit:
  "let x = resolve_base_model cd h r in
   bmr_repo_id x =
     (case card_references cd of
        [b] \<Rightarrow> Some b
      | [] \<Rightarrow> opt_or (header_reference h) (link_reference cd)
      | _ \<Rightarrow> None) \<and>
   bmr_source x =
     (case card_references cd of
        [b] \<Rightarrow> MODEL_CARD_METADATA
      | [] \<Rightarrow> if header_reference h \<noteq> None then GGUF_METADATA
              else if link_reference cd \<noteq> None then EXPLICIT_REPOSITORY_REFERENCE else UNRESOLVED
      | _ \<Rightarrow> UNRESOLVED) \<and>
   bmr_confidence x =
     (if bmr_source x \<in> {MODEL_CARD_METADATA, GGUF_METADATA} then CONF_HIGH
      else if bmr_source x = EXPLICIT_REPOSITORY_REFERENCE then CONF_MEDIUM else CONF_LOW) \<and>
   (bmr_warnings x = [] \<longleftrightarrow> bmr_repo_id x \<noteq> None) \<and>
   bmr_repo_id x = bmr_repo_id (resolve_base_model cd h other_name)"
proof (cases "from_card_data cd")
  case (Some x)
  then have x: "resolve_base_model cd h s = x" for s by (simp add: resolve_base_model_def)
  have w: "(bmr_warnings x = [] \<longleftrightarrow> bmr_repo_id x \<noteq> None) \<and> bmr_confidence x =
      (if bmr_source x = MODEL_CARD_METADATA then CONF_HIGH else CONF_LOW)"
    using Some by (auto simp: from_card_data_def from_card_list_def from_card_dict_def resolved_def
        ambiguous_def split: option.splits py_obj.splits list.splits)
  from from_card_data_cases(2) [OF Some] consider
      (one) r where "card_references cd = [r]" "bmr_repo_id x = Some r" "bmr_source x = MODEL_CARD_METADATA"
    | (many) r s rs where "card_references cd = r # s # rs" "bmr_repo_id x = None" "bmr_source x = UNRESOLVED"
    by (auto simp: Suc_le_length_iff numeral_2_eq_2)
  then show ?thesis using w by cases (simp_all add: x Let_def)
next
  case None
  then have c: "card_references cd = []" using from_card_data_cases(1) by blast
  show ?thesis
  proof (cases "from_gguf_header h")
    case (Some x)
    then have x: "resolve_base_model cd h s = x" for s by (simp add: resolve_base_model_def None)
    have "bmr_warnings x = []"
      using Some by (auto simp: from_gguf_header_def resolved_def split: option.splits)
    with from_gguf_header_cases(2) [OF Some] c show ?thesis by (auto simp: x Let_def)
  next
    case header: None
    then have hr: "header_reference h = None" using from_gguf_header_cases(1) by blast
    show ?thesis
    proof (cases "from_url cd")
      case (Some x)
      then have x: "resolve_base_model cd h s = x" for s by (simp add: resolve_base_model_def None header)
      have "bmr_warnings x = []" using Some by (auto simp: from_url_def resolved_def split: list.splits)
      with from_url_cases(2) [OF Some] c hr show ?thesis by (auto simp: x Let_def)
    next
      case url: None
      then have "link_reference cd = None" using from_url_cases(1) by blast
      with c hr None header url show ?thesis by (simp add: resolve_base_model_def unresolved_def Let_def)
    qed
  qed
qed

end
