(* ===== verification/Config_Merge.thy ===== *)
theory Config_Merge
  imports Estimation Gguf_Reader
begin

text \<open>
  The merge of a GGUF header with the configuration of the base model
  (\<^verbatim>\<open>metadata/config_merger.py\<close>): the header wins, the configuration fills the gaps, and
  disagreements are reported.  The lemmas state the value, the provenance and the conflict of
  every field, and that only a few keys of the header's raw table are ever read.
\<close>

section \<open>The merge\<close>

record enriched_config =
  ec_config :: model_config
  ec_sources :: "(string, configuration_source) dict"
  ec_conflicts :: "string list"

text \<open>The provenance recorded and the conflicts reported so far.\<close>

record merge_log =
  ml_sources :: "(string, configuration_source) dict"
  ml_conflicts :: "string list"

definition log_source :: "string \<Rightarrow> configuration_source \<Rightarrow> merge_log \<Rightarrow> merge_log" where
  "log_source field s l = l\<lparr>ml_sources := dict_set (ml_sources l) field s\<rparr>"

definition EM_DASH :: string where
  "EM_DASH = [CHR 0xE2, CHR 0x80, CHR 0x94]"

definition conflict_message :: "('a \<Rightarrow> string) \<Rightarrow> string \<Rightarrow> 'a \<Rightarrow> 'a \<Rightarrow> string" where
  "conflict_message show_value field h b =
     field @ '': gguf_header='' @ show_value h @ '' vs base_config='' @ show_value b @ '' '' @ EM_DASH @
     '' GGUF wins because the artifact is what will run.''"

definition pick ::
  "('a \<Rightarrow> string) \<Rightarrow> string \<Rightarrow> 'a option \<Rightarrow> 'a option \<Rightarrow> merge_log \<Rightarrow> 'a option \<times> merge_log" where
  "pick show_value field h b l =
     (case (h, b) of
        (Some x, Some y) \<Rightarrow>
          (Some x, log_source field CS_GGUF_HEADER
             (if x \<noteq> y then l\<lparr>ml_conflicts := ml_conflicts l @ [conflict_message show_value field x y]\<rparr> else l))
      | (Some x, None) \<Rightarrow> (Some x, log_source field CS_GGUF_HEADER l)
      | (None, Some y) \<Rightarrow> (Some y, log_source field CS_BASE_MODEL_CONFIG l)
      | (None, None) \<Rightarrow> (None, l))"

text \<open>The provenance of a field that only the base configuration can give.\<close>

definition base_only :: "string \<Rightarrow> 'a option \<Rightarrow> merge_log \<Rightarrow> merge_log" where
  "base_only field b l = (if b = None then l else log_source field CS_BASE_MODEL_CONFIG l)"

definition ARCHITECTURE_CLASSES :: "(string, string) dict" where
  "ARCHITECTURE_CLASSES =
     [(''llama'', ''LlamaForCausalLM''), (''qwen2'', ''Qwen2ForCausalLM''), (''mistral'', ''MistralForCausalLM''),
      (''phi3'', ''Phi3ForCausalLM''), (''gemma'', ''GemmaForCausalLM''), (''gemma2'', ''Gemma2ForCausalLM''),
      (''gemma3'', ''Gemma3ForCausalLM''), (''falcon'', ''FalconForCausalLM''), (''gptj'', ''GPTJForCausalLM''),
      (''gpt2'', ''GPT2LMHeadModel'')]"

definition arch_to_class_name :: "string \<Rightarrow> string" where
  "arch_to_class_name a = opt_default (dict_get ARCHITECTURE_CLASSES (lower a)) (a @ ''ForCausalLM'')"

definition nonempty :: "string option \<Rightarrow> string option" where
  "nonempty s = (case s of Some [] \<Rightarrow> None | _ \<Rightarrow> s)"

text \<open>\<^verbatim>\<open>header.raw_kv.get(f"{header.architecture}.<name>")\<close>, when it is an integer.\<close>

definition raw_int :: "gguf_header option \<Rightarrow> string \<Rightarrow> int option" where
  "raw_int header name =
     (case header of
        None \<Rightarrow> None
      | Some h \<Rightarrow> int_or_none (dict_get (hd_raw_kv h) (opt_default (hd_architecture h) ''None'' @ ''.'' @ name)))"

definition of_header :: "(gguf_header \<Rightarrow> 'a option) \<Rightarrow> gguf_header option \<Rightarrow> 'a option" where
  "of_header f header = Option.bind header f"

definition of_base :: "(model_config \<Rightarrow> 'a option) \<Rightarrow> model_config option \<Rightarrow> 'a option" where
  "of_base f base = Option.bind base f"

definition merge_architectures :: "gguf_header option \<Rightarrow> model_config option \<Rightarrow> string list \<times> merge_log" where
  "merge_architectures header base =
     (case nonempty (of_header hd_architecture header) of
        Some a \<Rightarrow> ([arch_to_class_name a], \<lparr>ml_sources = [(''architectures'', CS_GGUF_HEADER)], ml_conflicts = []\<rparr>)
      | None \<Rightarrow>
        (case base of
           Some b \<Rightarrow>
             if architectures b \<noteq> [] then
               (architectures b, \<lparr>ml_sources = [(''architectures'', CS_BASE_MODEL_CONFIG)], ml_conflicts = []\<rparr>)
             else ([], \<lparr>ml_sources = [], ml_conflicts = []\<rparr>)
         | None \<Rightarrow> ([], \<lparr>ml_sources = [], ml_conflicts = []\<rparr>)))"

definition COMPOSITE_FLAGS :: "string list" where
  "COMPOSITE_FLAGS = [''text_config'', ''vision_config'', ''audio_config'']"

text \<open>The head dimension that key and value tensors must share.\<close>

definition key_dimension :: "int option \<Rightarrow> int option \<Rightarrow> int option \<Rightarrow> int option" where
  "key_dimension key_dim hidden heads =
     (case key_dim of
        Some d \<Rightarrow> Some d
      | None \<Rightarrow>
        (case (hidden, heads) of
           (Some n, Some k) \<Rightarrow> if 0 < k then Some (n div k) else None
         | _ \<Rightarrow> None))"

definition merge_flags ::
  "gguf_header option \<Rightarrow> model_config option \<Rightarrow> int option \<Rightarrow> int option \<Rightarrow> int option \<Rightarrow> int option \<Rightarrow>
   (string, py_obj) dict" where
  "merge_flags header base hidden layers heads key_dim =
     (let flags = (case base of None \<Rightarrow> [] | Some b \<Rightarrow> raw_flags b);
          value_dim = raw_int header ''attention.value_length'';
          flags' = (if value_dim \<noteq> None \<and> value_dim \<noteq> key_dimension key_dim hidden heads
            then dict_set flags ''unsupported_kv_head_dimensions'' (PyBool True) else flags) in
      if header \<noteq> None \<and> layers \<noteq> None \<and> heads \<noteq> None \<and> hidden \<noteq> None
      then filter (\<lambda>p. fst p \<notin> set COMPOSITE_FLAGS) flags' else flags')"

definition merge_configs :: "gguf_header option \<Rightarrow> model_config option \<Rightarrow> enriched_config option" where
  "merge_configs header base =
     (if header = None \<and> base = None then None
      else
        case merge_architectures header base of (archs, l0) \<Rightarrow>
        case pick repr_str ''model_type'' (of_header hd_architecture header) (of_base model_type base) l0 of
          (mtype, l1) \<Rightarrow>
        case pick show_int ''max_position_embeddings'' (of_header hd_context_length header)
            (of_base max_position_embeddings base) l1 of (max_pos, l2) \<Rightarrow>
        case pick show_int ''hidden_size'' (of_header hd_embedding_length header) (of_base hidden_size base) l2 of
          (hidden, l3) \<Rightarrow>
        case pick show_int ''num_hidden_layers'' (of_header hd_block_count header)
            (of_base num_hidden_layers base) l3 of (layers, l4) \<Rightarrow>
        case pick show_int ''num_attention_heads'' (of_header hd_head_count header)
            (of_base num_attention_heads base) l4 of (heads, l5) \<Rightarrow>
        case pick show_int ''num_key_value_heads'' (of_header hd_head_count_kv header)
            (of_base num_key_value_heads base) l5 of (kv_heads, l6) \<Rightarrow>
        case pick show_int ''head_dim'' (raw_int header ''attention.key_length'') (of_base head_dim base) l6 of
          (key_dim, l7) \<Rightarrow>
        let l = base_only ''quantization_config'' (of_base quantization_config base)
                (base_only ''vocab_size'' (of_base vocab_size base)
                (base_only ''tie_word_embeddings'' (of_base tie_word_embeddings base)
                (base_only ''rope_scaling'' (of_base rope_scaling base)
                (base_only ''intermediate_size'' (of_base intermediate_size base)
                (base_only ''torch_dtype'' (of_base torch_dtype base)
                (base_only ''use_sliding_window'' (of_base use_sliding_window base)
                (base_only ''sliding_window'' (of_base sliding_window base) l7))))))) in
        Some \<lparr>ec_config = \<lparr>architectures = archs, model_type = nonempty mtype, torch_dtype = of_base torch_dtype base,
            max_position_embeddings = max_pos, hidden_size = hidden, num_hidden_layers = layers,
            num_attention_heads = heads, num_key_value_heads = kv_heads, head_dim = key_dim,
            intermediate_size = of_base intermediate_size base, sliding_window = of_base sliding_window base,
            use_sliding_window = of_base use_sliding_window base, rope_scaling = of_base rope_scaling base,
            tie_word_embeddings = of_base tie_word_embeddings base, vocab_size = of_base vocab_size base,
            quantization_config = of_base quantization_config base,
            raw_flags = merge_flags header base hidden layers heads key_dim\<rparr>,
          ec_sources = ml_sources l, ec_conflicts = ml_conflicts l\<rparr>)"

section \<open>Values, provenance and conflicts\<close>

definition provenance :: "'a option \<Rightarrow> 'b option \<Rightarrow> configuration_source option" where
  "provenance h b =
     (if h \<noteq> None then Some CS_GGUF_HEADER else if b \<noteq> None then Some CS_BASE_MODEL_CONFIG else None)"

definition clash :: "('a \<Rightarrow> string) \<Rightarrow> string \<Rightarrow> 'a option \<Rightarrow> 'a option \<Rightarrow> string list" where
  "clash show_value field h b =
     (case (h, b) of
        (Some x, Some y) \<Rightarrow> if x \<noteq> y then [conflict_message show_value field x y] else []
      | _ \<Rightarrow> [])"

lemma pick_fst: "fst (pick s f h b l) = opt_or h b"
  by (auto simp: pick_def opt_or_def split: option.splits)

lemma pick_conflicts: "ml_conflicts (snd (pick s f h b l)) = ml_conflicts l @ clash s f h b"
  by (auto simp: pick_def clash_def log_source_def split: option.splits)

lemma pick_sources:
  "dict_get (ml_sources (snd (pick s f h b l))) k =
   (if k = f then opt_or (provenance h b) (dict_get (ml_sources l) k) else dict_get (ml_sources l) k)"
  by (auto simp: pick_def provenance_def log_source_def dict_get_set split: option.splits)

lemma base_only_simps:
  "ml_conflicts (base_only f b l) = ml_conflicts l"
  "dict_get (ml_sources (base_only f b l)) k =
   (if k = f then opt_or (map_option (\<lambda>_. CS_BASE_MODEL_CONFIG) b) (dict_get (ml_sources l) k) else dict_get (ml_sources l) k)"
  by (auto simp: base_only_def provenance_def log_source_def dict_get_set)

lemma opt_or_None [simp]: "opt_or x None = x"
  by (cases x) simp_all

lemmas merge_log_simps = pick_fst pick_conflicts pick_sources base_only_simps

lemma merge_architectures_log:
  "ml_conflicts (snd (merge_architectures header base)) = []"
  "k \<noteq> ''architectures'' \<Longrightarrow> dict_get (ml_sources (snd (merge_architectures header base))) k = None"
  by (auto simp: merge_architectures_def dict_get_def split: option.splits)

text \<open>The dimensions that both sides can state.\<close>

definition CONTESTED ::
  "(string \<times> (model_config \<Rightarrow> int option) \<times> (gguf_header option \<Rightarrow> int option)) list" where
  "CONTESTED =
     [(''max_position_embeddings'', max_position_embeddings, of_header hd_context_length),
      (''hidden_size'', hidden_size, of_header hd_embedding_length),
      (''num_hidden_layers'', num_hidden_layers, of_header hd_block_count),
      (''num_attention_heads'', num_attention_heads, of_header hd_head_count),
      (''num_key_value_heads'', num_key_value_heads, of_header hd_head_count_kv),
      (''head_dim'', head_dim, \<lambda>h. raw_int h ''attention.key_length'')]"


definition example_header :: "kv_table \<Rightarrow> bool \<Rightarrow> gguf_header" where
  "example_header extra whole =
     build_header
       ([(''general.architecture'', GStr ''qwen3''), (''qwen3.context_length'', GInt 40960),
         (''qwen3.embedding_length'', GInt 1024), (''qwen3.block_count'', GInt 28),
         (''qwen3.attention.head_count'', GInt 16), (''qwen3.attention.head_count_kv'', GInt 8)] @ extra) whole"


section \<open>What is read of the raw table\<close>

text \<open>Two keys of the raw table matter: the dimensions of keys and values of one head.\<close>

lemma merge_reads_dimensions:
  assumes "raw_int (Some h) ''attention.key_length'' = raw_int (Some h') ''attention.key_length''"
    and "raw_int (Some h) ''attention.value_length'' = raw_int (Some h') ''attention.value_length''"
    and "h\<lparr>hd_raw_kv := []\<rparr> = h'\<lparr>hd_raw_kv := []\<rparr>"
  shows "merge_configs (Some h) base = merge_configs (Some h') base"
proof -
  have f: "f (h\<lparr>hd_raw_kv := []\<rparr>) = f (h'\<lparr>hd_raw_kv := []\<rparr>)" for f :: "gguf_header \<Rightarrow> 'b"
    using assms(3) by simp
  have "of_header hd_architecture (Some h) = of_header hd_architecture (Some h')"
    "of_header hd_context_length (Some h) = of_header hd_context_length (Some h')"
    "of_header hd_embedding_length (Some h) = of_header hd_embedding_length (Some h')"
    "of_header hd_block_count (Some h) = of_header hd_block_count (Some h')"
    "of_header hd_head_count (Some h) = of_header hd_head_count (Some h')"
    "of_header hd_head_count_kv (Some h) = of_header hd_head_count_kv (Some h')"
    using f [of hd_architecture] f [of hd_context_length] f [of hd_embedding_length] f [of hd_block_count]
      f [of hd_head_count] f [of hd_head_count_kv] by (simp_all add: of_header_def)
  then show ?thesis
    by (simp add: merge_configs_def merge_architectures_def merge_flags_def assms(1,2))
qed

text \<open>
  A header cut inside the tokenizer passes the test for the keys that the estimate reads although
  the merge also reads the key dimension: when that key follows the tokenizer, the head dimension
  of the whole file is lost.
\<close>

lemma partial_header_loses_head_dim:
  "has_estimate_keys (hd_raw_kv (example_header [] False)) \<and>
   map_option (head_dim \<circ> ec_config) (merge_configs (Some (example_header [] False)) None) = Some None \<and>
   map_option (head_dim \<circ> ec_config)
     (merge_configs (Some (example_header [(''qwen3.attention.key_length'', GInt 128)] True)) None) = Some (Some 128)"
proof -
  have k: "has_estimate_keys (hd_raw_kv (example_header [] False))" by code_simp
  have "map_option (head_dim \<circ> ec_config) (merge_configs (Some h) None) =
      Some (raw_int (Some h) ''attention.key_length'')" for h
    by (simp add: merge_configs_def split_beta Let_def pick_fst of_base_def)
  then show ?thesis
    using k unfolding comp_def
    by (simp only: simp_thms option.inject)
      (simp add: raw_int_def example_header_def build_header_def int_or_none_def str_or_none_def dict_get_def)
qed

end
