(* ===== verification/Header_Cache.thy ===== *)
theory Header_Cache
  imports Config_Merge Repository_Files
begin

text \<open>
  The persistent cache of parsed GGUF headers (\<^verbatim>\<open>adapters/cache/gguf_header_cache.py\<close>,
  \<^verbatim>\<open>ports/cache.py\<close>) as a state machine over the files of its directory.  Files can vanish, be
  damaged or come from other versions between any two operations, and time passes.  The lemmas
  show that whatever is returned was stored for the same artifact, that entries without a
  revision expire, and that the counters account for every call.
\<close>

section \<open>State\<close>

record cache_stats =
  cs_hits :: int
  cs_misses :: int
  cs_writes :: int
  cs_read_errors :: int
  cs_write_errors :: int
  cs_unsupported_schema :: int
  cs_expired :: int

definition no_stats :: cache_stats where
  "no_stats = \<lparr>cs_hits = 0, cs_misses = 0, cs_writes = 0, cs_read_errors = 0, cs_write_errors = 0,
     cs_unsupported_schema = 0, cs_expired = 0\<rparr>"

text \<open>
  What the checks of a lookup can find in a file: bytes that are not UTF-8, no readable JSON, a
  JSON value that is not an object, or an object, with the fields the checks read (absent where
  they are missing or of another type).  Instants are microseconds; the text form of an instant
  is not modelled.
\<close>

datatype cached_payload = NoPayload | InvalidPayload | HeaderPayload gguf_header

record cache_entry =
  ce_schema :: "int option"
  ce_key :: "string option"
  ce_cached_at :: "int option"
  ce_payload :: cached_payload

datatype cache_file = NotUtf8File | NotJsonFile | NotAnObject | EntryFile cache_entry

record cache_state =
  ca_files :: "string \<Rightarrow> cache_file option"
  ca_stats :: cache_stats

section \<open>Keys\<close>

definition GGUF_HEADER_CACHE_SCHEMA_VERSION :: int where
  "GGUF_HEADER_CACHE_SCHEMA_VERSION = 3"

definition first_shard :: "gguf_variant \<Rightarrow> model_file option" where
  "first_shard v = (case var_files v of [] \<Rightarrow> None | f # fs \<Rightarrow> Some (min_by file_path f fs))"

definition revision_hint :: "model_analysis \<Rightarrow> string" where
  "revision_hint a = opt_default (repo_last_modified (an_repo a)) ''unknown''"

definition cache_key_kind :: "model_analysis \<Rightarrow> string" where
  "cache_key_kind a = (if repo_last_modified (an_repo a) \<noteq> None then ''last_modified'' else ''ttl'')"

definition size_text :: "int option \<Rightarrow> string" where
  "size_text n = (case n of None \<Rightarrow> ''None'' | Some k \<Rightarrow> show_int k)"

definition NUL :: char where
  "NUL = CHR 0x00"

definition cache_key :: "model_analysis \<Rightarrow> model_file \<Rightarrow> string" where
  "cache_key a f =
     join [NUL] [repo_id (an_repo a), file_path f, size_text (file_size_bytes f), cache_key_kind a,
       revision_hint a]"

section \<open>Operations\<close>

text \<open>
  The path of an entry is the digest of its key, a parameter.  A lookup counts what it finds;
  every return without a header is also a miss.
\<close>

definition count_miss :: "(cache_stats \<Rightarrow> cache_stats) \<Rightarrow> cache_state \<Rightarrow> cache_state" where
  "count_miss why s = s\<lparr>ca_stats := (why (ca_stats s))\<lparr>cs_misses := cs_misses (ca_stats s) + 1\<rparr>\<rparr>"

definition read_error :: "cache_stats \<Rightarrow> cache_stats" where
  "read_error c = c\<lparr>cs_read_errors := cs_read_errors c + 1\<rparr>"

definition unsupported :: "cache_stats \<Rightarrow> cache_stats" where
  "unsupported c = c\<lparr>cs_unsupported_schema := cs_unsupported_schema c + 1\<rparr>"

definition expired :: "cache_stats \<Rightarrow> cache_stats" where
  "expired c = c\<lparr>cs_expired := cs_expired c + 1\<rparr>"

definition count_hit :: "cache_state \<Rightarrow> cache_state" where
  "count_hit s = s\<lparr>ca_stats := (ca_stats s)\<lparr>cs_hits := cs_hits (ca_stats s) + 1\<rparr>\<rparr>"

definition is_expired :: "int \<Rightarrow> int \<Rightarrow> cache_entry \<Rightarrow> bool" where
  "is_expired ttl now e = (case ce_cached_at e of None \<Rightarrow> True | Some t \<Rightarrow> ttl < now - t)"

datatype cache_error = UnicodeDecodeError

definition header_cache_get ::
  "(string \<Rightarrow> string) \<Rightarrow> int \<Rightarrow> int \<Rightarrow> model_analysis \<Rightarrow> gguf_variant \<Rightarrow> cache_state \<Rightarrow>
   (cache_error + gguf_header option) \<times> cache_state" where
  "header_cache_get digest ttl now a v s =
     (case first_shard v of
        None \<Rightarrow> (Inr None, count_miss id s)
      | Some target \<Rightarrow>
        (case ca_files s (digest (cache_key a target)) of
           None \<Rightarrow> (Inr None, count_miss id s)
         | Some NotUtf8File \<Rightarrow> (Inl UnicodeDecodeError, s)
         | Some NotJsonFile \<Rightarrow> (Inr None, count_miss read_error s)
         | Some NotAnObject \<Rightarrow> (Inr None, count_miss read_error s)
         | Some (EntryFile e) \<Rightarrow>
           if ce_schema e \<noteq> Some GGUF_HEADER_CACHE_SCHEMA_VERSION then (Inr None, count_miss unsupported s)
           else if ce_key e \<noteq> Some (cache_key a target) then (Inr None, count_miss read_error s)
           else if cache_key_kind a = ''ttl'' \<and> is_expired ttl now e then (Inr None, count_miss expired s)
           else (case ce_payload e of
               HeaderPayload h \<Rightarrow> (Inr (Some h), count_hit s)
             | _ \<Rightarrow> (Inr None, count_miss read_error s))))"

text \<open>The tokenizer tables are dropped and the keys come back sorted.\<close>

definition storable_header :: "gguf_header \<Rightarrow> gguf_header" where
  "storable_header h =
     h\<lparr>hd_raw_kv := sort_key fst (filter (\<lambda>p. \<not> startswith (fst p) ''tokenizer.'') (hd_raw_kv h))\<rparr>"

definition entry_of :: "int \<Rightarrow> string \<Rightarrow> gguf_header \<Rightarrow> cache_entry" where
  "entry_of now key h =
     \<lparr>ce_schema = Some GGUF_HEADER_CACHE_SCHEMA_VERSION, ce_key = Some key, ce_cached_at = Some now,
      ce_payload = HeaderPayload (storable_header h)\<rparr>"

text \<open>
  Writing replaces the file atomically, or fails and leaves it as it was; whether the operating
  system lets it succeed is a parameter.
\<close>

definition header_cache_put ::
  "(string \<Rightarrow> string) \<Rightarrow> int \<Rightarrow> bool \<Rightarrow> model_analysis \<Rightarrow> gguf_variant \<Rightarrow> gguf_header \<Rightarrow> cache_state \<Rightarrow> cache_state" where
  "header_cache_put digest now written a v h s =
     (case first_shard v of
        None \<Rightarrow> s
      | Some target \<Rightarrow>
        let key = cache_key a target; c = ca_stats s in
        if written then
          s\<lparr>ca_files := (ca_files s)(digest key \<mapsto> EntryFile (entry_of now key h)),
            ca_stats := c\<lparr>cs_writes := cs_writes c + 1\<rparr>\<rparr>
        else s\<lparr>ca_stats := c\<lparr>cs_write_errors := cs_write_errors c + 1\<rparr>\<rparr>)"

text \<open>The cache that is used when the persistent one is disabled.\<close>

definition null_cache_get :: "cache_stats \<Rightarrow> gguf_header option \<times> cache_stats" where
  "null_cache_get c = (None, c\<lparr>cs_misses := cs_misses c + 1\<rparr>)"

section \<open>Reading back\<close>

lemma storable_header_fields [simp]:
  "hd_architecture (storable_header h) = hd_architecture h"
  "hd_source_repository (storable_header h) = hd_source_repository h"
  "hd_size_label (storable_header h) = hd_size_label h"
  "hd_is_complete (storable_header h) = hd_is_complete h"
  "(storable_header h)\<lparr>hd_raw_kv := []\<rparr> = h\<lparr>hd_raw_kv := []\<rparr>"
  by (simp_all add: storable_header_def)

lemma map_of_as_filter: "map_of d k = (case filter (\<lambda>p. fst p = k) d of [] \<Rightarrow> None | p # _ \<Rightarrow> Some (snd p))"
  by (induction d) auto

lemma dict_get_storable:
  assumes "\<not> startswith k ''tokenizer.''"
  shows "dict_get (hd_raw_kv (storable_header h)) k = dict_get (hd_raw_kv h) k"
proof -
  let ?d = "hd_raw_kv h" and ?P = "\<lambda>p :: string \<times> gguf_value. \<not> startswith (fst p) ''tokenizer.''"
  have "filter (\<lambda>p. fst p = k) (sort_key fst (filter ?P ?d)) = filter (\<lambda>p. fst p = k) (filter ?P ?d)"
    by (rule sort_key_stable)
  also have "\<dots> = filter (\<lambda>p. fst p = k) ?d"
    unfolding filter_filter using assms by (intro filter_cong refl) auto
  finally have "filter (\<lambda>p. fst p = k) (sort_key fst (filter ?P ?d)) = filter (\<lambda>p. fst p = k) ?d" .
  moreover have "hd_raw_kv (storable_header h) = sort_key fst (filter ?P ?d)"
    unfolding storable_header_def by (cases h) simp
  ultimately show ?thesis by (simp only: dict_get_def map_of_as_filter)
qed

text \<open>A stored header merges to the same configuration as the parsed one.\<close>

definition plain_architecture :: "gguf_header \<Rightarrow> bool" where
  "plain_architecture h \<longleftrightarrow> \<not> startswith (opt_default (hd_architecture h) ''None'' @ ''.'') ''tokenizer.''"

lemma startswith_dot:
  assumes "\<not> startswith (a @ ''.'') ''tokenizer.''"
  shows "\<not> startswith (a @ ''.'' @ name) ''tokenizer.''"
proof
  assume "startswith (a @ ''.'' @ name) ''tokenizer.''"
  then have t: "take 10 (a @ ''.'' @ name) = ''tokenizer.''" by (simp add: startswith_def eval_nat_numeral)
  show False
  proof (cases "length a < 9")
    case True
    have "list_all (\<lambda>c. c \<noteq> CHR ''.'') (take 9 ''tokenizer.'')" by code_simp
    moreover have "CHR ''.'' \<in> set (take 9 (take 10 (a @ ''.'' @ name)))"
    proof -
      have "take 9 (a @ ''.'' @ name) = a @ CHR ''.'' # take (8 - length a) name"
        using True by (simp add: take_Cons' Suc_diff_Suc)
      moreover have "take 9 (take 10 (a @ ''.'' @ name)) = take 9 (a @ ''.'' @ name)" by (simp only: take_take) simp
      ultimately show ?thesis by (metis in_set_conv_decomp)
    qed
    ultimately show False unfolding t list_all_iff by blast
  next
    case False
    have "prefix ''tokenizer.'' (a @ ''.'' @ name)" using t by (metis take_is_prefix)
    moreover have "prefix (a @ ''.'') (a @ ''.'' @ name)" by simp
    moreover have "length ''tokenizer.'' \<le> length (a @ ''.'')" using False by simp
    ultimately have "prefix ''tokenizer.'' (a @ ''.'')" by (rule prefix_length_prefix)
    then have "startswith (a @ ''.'') ''tokenizer.''" unfolding startswith_iff .
    with assms show False ..
  qed
qed

lemma merge_storable:
  assumes "plain_architecture h"
  shows "merge_configs (Some (storable_header h)) base = merge_configs (Some h) base"
proof -
  have "raw_int (Some (storable_header h)) n = raw_int (Some h) n"
    if "n = ''attention.key_length'' \<or> n = ''attention.value_length''" for n
    using startswith_dot assms by (simp add: raw_int_def plain_architecture_def dict_get_storable)
  then show ?thesis by (intro merge_reads_dimensions) simp_all
qed

section \<open>Keys name artifacts\<close>

lemma split_on_single: "sep \<notin> set x \<Longrightarrow> split_on sep x = [x]"
  by (induction x) auto

lemma split_on_append: "sep \<notin> set x \<Longrightarrow> split_on sep (x @ sep # s) = x # split_on sep s"
  by (induction x) auto

text \<open>Splitting inverts joining.\<close>

lemma split_on_join:
  assumes "xs \<noteq> []" and "\<forall>x \<in> set xs. sep \<notin> set x"
  shows "split_on sep (join [sep] xs) = xs"
  using assms by (induction "[sep]" xs rule: join.induct) (auto simp: split_on_single split_on_append)

lemma show_digits_inject: "0 \<le> m \<Longrightarrow> 0 \<le> n \<Longrightarrow> show_digits m = show_digits n \<Longrightarrow> m = n"
  by (metis int_of_show_digits)

lemma show_digits_chars: "0 \<le> n \<Longrightarrow> c \<in> set (show_digits n) \<Longrightarrow> is_digit c"
  using show_digits_digits by (auto simp: list_all_iff)

lemma not_digits: "\<not> is_digit (CHR ''-'')" "\<not> is_digit (CHR ''N'')" "\<not> is_digit NUL"
  by (simp_all add: is_digit_def NUL_def)

lemma show_int_hd: "show_int n \<noteq> []" "hd (show_int n) = CHR ''-'' \<longleftrightarrow> n < 0" "hd (show_int n) \<noteq> CHR ''N''"
proof -
  have d: "show_digits m \<noteq> []" "is_digit (hd (show_digits m))" if "0 \<le> m" for m
    using show_digits_digits [OF that] by (auto simp: list_all_iff)
  show "show_int n \<noteq> []" "hd (show_int n) = CHR ''-'' \<longleftrightarrow> n < 0" "hd (show_int n) \<noteq> CHR ''N''"
    using d [of n] d [of "- n"] not_digits by (auto simp: show_int_def)
qed

lemma show_int_inject: "show_int m = show_int n \<Longrightarrow> m = n"
proof -
  assume e: "show_int m = show_int n"
  then have s: "m < 0 \<longleftrightarrow> n < 0" by (metis show_int_hd(2))
  show "m = n"
  proof (cases "m < 0")
    case True
    with e s have "show_digits (- m) = show_digits (- n)" by (simp add: show_int_def)
    with True s show ?thesis using show_digits_inject [of "- m" "- n"] by simp
  next
    case False
    with e s show ?thesis using show_digits_inject [of m n] by (simp add: show_int_def)
  qed
qed

lemma size_text_inject: "size_text m = size_text n \<Longrightarrow> m = n"
proof (cases m; cases n)
  show "size_text m = size_text n \<Longrightarrow> m = n" if "m = Some j" and "n = Some k" for j k
    using that show_int_inject by (simp add: size_text_def)
next
  have "show_int k \<noteq> ''None''" for k
  proof
    assume "show_int k = ''None''"
    then show False using show_int_hd(3) [of k] by simp
  qed
  note ne = this this [symmetric]
  show "size_text m = size_text n \<Longrightarrow> m = n" if "m = None" and "n = Some k" for k
    using that ne by (simp add: size_text_def)
  show "size_text m = size_text n \<Longrightarrow> m = n" if "m = Some j" and "n = None" for j
    using that ne by (simp add: size_text_def)
qed simp

lemma size_text_no_nul: "NUL \<notin> set (size_text n)"
proof (cases n)
  case (Some k)
  have "NUL \<notin> set (show_digits m)" if "0 \<le> m" for m
    using show_digits_chars [OF that] not_digits(3) by blast
  moreover have "NUL \<noteq> CHR ''-''" by (simp add: NUL_def)
  ultimately show ?thesis
    using Some by (cases "k < 0") (auto simp: size_text_def show_int_def)
qed (simp add: size_text_def NUL_def)

text \<open>Names of repositories and files and the text of an instant contain no zero character.\<close>

definition key_texts_ok :: "model_analysis \<Rightarrow> model_file \<Rightarrow> bool" where
  "key_texts_ok a f \<longleftrightarrow>
     NUL \<notin> set (repo_id (an_repo a)) \<and> NUL \<notin> set (file_path f) \<and> NUL \<notin> set (revision_hint a)"

text \<open>One artifact at one revision: what a cached header is a header of.\<close>

definition same_artifact :: "model_analysis \<Rightarrow> model_file \<Rightarrow> model_analysis \<Rightarrow> model_file \<Rightarrow> bool" where
  "same_artifact a f b g \<longleftrightarrow>
     repo_id (an_repo a) = repo_id (an_repo b) \<and> file_path f = file_path g \<and>
     file_size_bytes f = file_size_bytes g \<and>
     repo_last_modified (an_repo a) = repo_last_modified (an_repo b)"

lemma cache_key_inject:
  assumes "cache_key a f = cache_key b g" and "key_texts_ok a f" and "key_texts_ok b g"
  shows "same_artifact a f b g"
proof -
  let ?x = "[repo_id (an_repo a), file_path f, size_text (file_size_bytes f), cache_key_kind a, revision_hint a]"
  let ?y = "[repo_id (an_repo b), file_path g, size_text (file_size_bytes g), cache_key_kind b, revision_hint b]"
  have k: "NUL \<notin> set (cache_key_kind c)" for c
    by (simp add: cache_key_kind_def NUL_def)
  have "?x = ?y"
    using assms k size_text_no_nul split_on_join [of ?x NUL] split_on_join [of ?y NUL]
    unfolding cache_key_def key_texts_ok_def by auto
  then show ?thesis
    using size_text_inject
    by (auto simp: same_artifact_def cache_key_kind_def revision_hint_def split: if_splits)
qed

section \<open>The cache in time\<close>

text \<open>
  A world is a cache with the current instant, the writes that succeeded so far and the number of
  lookups that returned.  Other processes and versions may remove or replace any file, except by
  an object that claims the current schema.
\<close>

record put_event =
  pe_analysis :: model_analysis
  pe_file :: model_file
  pe_time :: int
  pe_header :: gguf_header

record cache_world =
  cw_state :: cache_state
  cw_now :: int
  cw_puts :: "put_event list"
  cw_gets :: int

fun foreign_file :: "cache_file option \<Rightarrow> bool" where
  "foreign_file (Some (EntryFile e)) \<longleftrightarrow> ce_schema e \<noteq> Some GGUF_HEADER_CACHE_SCHEMA_VERSION"
| "foreign_file _ \<longleftrightarrow> True"

inductive cache_step :: "(string \<Rightarrow> string) \<Rightarrow> int \<Rightarrow> cache_world \<Rightarrow> cache_world \<Rightarrow> bool"
  for digest :: "string \<Rightarrow> string" and ttl :: int where
  lookup: "header_cache_get digest ttl (cw_now w) a v (cw_state w) = (Inr r, s) \<Longrightarrow>
     cache_step digest ttl w (w\<lparr>cw_state := s, cw_gets := cw_gets w + 1\<rparr>)"
| lookup_raises: "header_cache_get digest ttl (cw_now w) a v (cw_state w) = (Inl e, s) \<Longrightarrow>
     cache_step digest ttl w (w\<lparr>cw_state := s\<rparr>)"
| store: "first_shard v = Some f \<Longrightarrow>
     cache_step digest ttl w
       (w\<lparr>cw_state := header_cache_put digest (cw_now w) True a v h (cw_state w),
          cw_puts := \<lparr>pe_analysis = a, pe_file = f, pe_time = cw_now w, pe_header = h\<rparr> # cw_puts w\<rparr>)"
| store_nothing: "first_shard v = None \<Longrightarrow>
     cache_step digest ttl w (w\<lparr>cw_state := header_cache_put digest (cw_now w) written a v h (cw_state w)\<rparr>)"
| store_fails:
    "cache_step digest ttl w (w\<lparr>cw_state := header_cache_put digest (cw_now w) False a v h (cw_state w)\<rparr>)"
| disturb: "foreign_file x \<Longrightarrow>
     cache_step digest ttl w
       (w\<lparr>cw_state := (cw_state w)\<lparr>ca_files := (ca_files (cw_state w))(path := x)\<rparr>\<rparr>)"
| tick: "0 \<le> d \<Longrightarrow> cache_step digest ttl w (w\<lparr>cw_now := cw_now w + d\<rparr>)"

inductive cache_reachable :: "(string \<Rightarrow> string) \<Rightarrow> int \<Rightarrow> cache_world \<Rightarrow> bool"
  for digest :: "string \<Rightarrow> string" and ttl :: int where
  start: "(\<forall>path. foreign_file (files path)) \<Longrightarrow>
     cache_reachable digest ttl
       \<lparr>cw_state = \<lparr>ca_files = files, ca_stats = no_stats\<rparr>, cw_now = now, cw_puts = [], cw_gets = 0\<rparr>"
| step: "cache_reachable digest ttl w \<Longrightarrow> cache_step digest ttl w w' \<Longrightarrow> cache_reachable digest ttl w'"

inductive_cases cache_stepE: "cache_step digest ttl w w'"

text \<open>The entry a write leaves behind, and the counters' balance.\<close>

definition entry_of_put :: "put_event \<Rightarrow> cache_entry" where
  "entry_of_put p = entry_of (pe_time p) (cache_key (pe_analysis p) (pe_file p)) (pe_header p)"

definition stored_files :: "(string \<Rightarrow> string) \<Rightarrow> cache_world \<Rightarrow> bool" where
  "stored_files digest w \<longleftrightarrow>
     (\<forall>path e. ca_files (cw_state w) path = Some (EntryFile e) \<longrightarrow>
        ce_schema e = Some GGUF_HEADER_CACHE_SCHEMA_VERSION \<longrightarrow> (\<exists>p \<in> set (cw_puts w). e = entry_of_put p))"

definition stats_balance :: "cache_world \<Rightarrow> bool" where
  "stats_balance w \<longleftrightarrow>
     (let c = ca_stats (cw_state w) in
      cs_hits c + cs_misses c = cw_gets w \<and>
      cs_read_errors c + cs_unsupported_schema c + cs_expired c \<le> cs_misses c \<and>
      cs_writes c = int (length (cw_puts w)) \<and> 0 \<le> cs_hits c)"

lemma get_files: "ca_files (snd (header_cache_get digest ttl now a v s)) = ca_files s"
  by (auto simp: header_cache_get_def count_miss_def count_hit_def
      split: option.splits cache_file.splits cached_payload.splits)

lemma get_stats:
  assumes "header_cache_get digest ttl now a v s = (r, s')" and "c = ca_stats s" and "c' = ca_stats s'"
  shows "cs_writes c' = cs_writes c"
    and "r = Inl e \<Longrightarrow> c' = c"
    and "r = Inr x \<Longrightarrow> cs_hits c' + cs_misses c' = cs_hits c + cs_misses c + 1 \<and> cs_hits c \<le> cs_hits c' \<and>
      cs_read_errors c' + cs_unsupported_schema c' + cs_expired c' - cs_misses c' \<le>
      cs_read_errors c + cs_unsupported_schema c + cs_expired c - cs_misses c"
  using assms
  by (auto simp: header_cache_get_def count_miss_def count_hit_def read_error_def unsupported_def expired_def
      split: option.splits cache_file.splits cached_payload.splits if_splits)

lemma step_stored_files:
  assumes "cache_step digest ttl w w'" and "stored_files digest w"
  shows "stored_files digest w'"
  using assms(1)
proof cases
  case (lookup a v r s)
  then have "ca_files s = ca_files (cw_state w)" using get_files by (metis snd_conv)
  with lookup assms(2) show ?thesis by (simp add: stored_files_def)
next
  case (lookup_raises a v e s)
  then have "ca_files s = ca_files (cw_state w)" using get_files by (metis snd_conv)
  with lookup_raises assms(2) show ?thesis by (simp add: stored_files_def)
next
  case (store v f a h)
  with assms(2) show ?thesis
    by (auto simp: stored_files_def header_cache_put_def Let_def entry_of_put_def)
next
  case (disturb x path)
  with assms(2) show ?thesis by (auto simp: stored_files_def)
qed (use assms(2) in \<open>auto simp: stored_files_def header_cache_put_def Let_def split: option.splits\<close>)

lemma step_stats_balance:
  assumes "cache_step digest ttl w w'" and "stats_balance w"
  shows "stats_balance w'"
  using assms(1)
proof cases
  case (lookup a v r s)
  with get_stats(1,3) [OF lookup(2) refl refl] assms(2) show ?thesis
    by (auto simp: stats_balance_def Let_def)
next
  case (lookup_raises a v e s)
  with get_stats(2) [OF lookup_raises(2) refl refl] assms(2) show ?thesis
    by (simp add: stats_balance_def Let_def)
qed (use assms(2) in \<open>auto simp: stats_balance_def header_cache_put_def Let_def split: option.splits\<close>)

lemma cache_invariant:
  assumes "cache_reachable digest ttl w"
  shows "stored_files digest w \<and> stats_balance w"
  using assms
proof induction
  case (start files now)
  have "ce_schema e \<noteq> Some GGUF_HEADER_CACHE_SCHEMA_VERSION" if "files path = Some (EntryFile e)" for path e
    using start that by (metis foreign_file.simps(1))
  then show ?case by (simp add: stored_files_def stats_balance_def no_stats_def)
next
  case (step w w')
  then show ?case using step_stored_files step_stats_balance by blast
qed

lemma get_entry:
  assumes "fst (header_cache_get digest ttl now a v s) = Inr (Some h)"
  obtains f e where "first_shard v = Some f" "ca_files s (digest (cache_key a f)) = Some (EntryFile e)"
    "ce_schema e = Some GGUF_HEADER_CACHE_SCHEMA_VERSION" "ce_key e = Some (cache_key a f)"
    "ce_payload e = HeaderPayload h" "cache_key_kind a = ''ttl'' \<Longrightarrow> \<not> is_expired ttl now e"
  using assms
  by (auto simp: header_cache_get_def split: option.splits cache_file.splits cached_payload.splits if_splits)

text \<open>
  C19. In every state the cache can reach, whatever other programs do to its files, a header that a
  lookup returns was stored by a successful write for the same repository, file, size and
  revision, without its tokenizer tables; without a revision it is not older than the time to
  live; and it merges to the same configuration as the header that was stored.  The digest of the
  keys may collide.
\<close>

theorem cached_header_is_of_the_artifact:
  assumes "cache_reachable digest ttl w"
    and "fst (header_cache_get digest ttl (cw_now w) a v (cw_state w)) = Inr (Some h)"
    and "\<forall>f. first_shard v = Some f \<longrightarrow> key_texts_ok a f"
    and "\<forall>p \<in> set (cw_puts w). key_texts_ok (pe_analysis p) (pe_file p)"
  shows "\<exists>f. first_shard v = Some f \<and>
    (\<exists>p \<in> set (cw_puts w). same_artifact a f (pe_analysis p) (pe_file p) \<and>
       h = storable_header (pe_header p) \<and>
       (repo_last_modified (an_repo a) = None \<longrightarrow> cw_now w - pe_time p \<le> ttl) \<and>
       (plain_architecture (pe_header p) \<longrightarrow>
          merge_configs (Some h) base = merge_configs (Some (pe_header p)) base))"
proof -
  obtain f e where f: "first_shard v = Some f"
    and e: "ca_files (cw_state w) (digest (cache_key a f)) = Some (EntryFile e)"
    and ok: "ce_schema e = Some GGUF_HEADER_CACHE_SCHEMA_VERSION" "ce_key e = Some (cache_key a f)"
      "ce_payload e = HeaderPayload h" and fresh: "cache_key_kind a = ''ttl'' \<Longrightarrow> \<not> is_expired ttl (cw_now w) e"
    using get_entry [OF assms(2)] by metis
  obtain p where p: "p \<in> set (cw_puts w)" and ep: "e = entry_of_put p"
    using cache_invariant [OF assms(1)] e ok(1) unfolding stored_files_def by blast
  have same: "same_artifact a f (pe_analysis p) (pe_file p)"
    using ok(2) ep p f assms(3,4) by (intro cache_key_inject) (auto simp: entry_of_put_def entry_of_def)
  have h: "h = storable_header (pe_header p)"
    using ok(3) ep by (simp add: entry_of_put_def entry_of_def)
  have recent: "repo_last_modified (an_repo a) = None \<longrightarrow> cw_now w - pe_time p \<le> ttl"
    using fresh ep by (auto simp: cache_key_kind_def is_expired_def entry_of_put_def entry_of_def)
  have merged: "plain_architecture (pe_header p) \<longrightarrow>
      merge_configs (Some h) base = merge_configs (Some (pe_header p)) base"
    using merge_storable h by simp
  show ?thesis
    by (intro exI [of _ f] conjI f bexI [OF _ p] same h recent merged)
qed

definition example_info :: model_repository_info where
  "example_info =
     \<lparr>repo_id = ''org/m'', repo_author = None, repo_private = False, repo_gated = False, repo_downloads = None,
      repo_likes = None, repo_last_modified = Some ''2025-01-01T00:00:00+00:00'', repo_license = None,
      repo_tags = [], repo_pipeline_tag = None, repo_library_name = None\<rparr>"

definition example_gguf_analysis :: model_analysis where
  "example_gguf_analysis =
     \<lparr>an_repo = example_info, an_files = [listed ''Q4.gguf'' 100],
      an_classification = \<lparr>primary_type = REPO_GGUF, detected_types = {REPO_GGUF}, formats = {FMT_GGUF},
        gguf_variants = []\<rparr>,
      an_config = None, an_relevant_files = [], an_total_size_bytes = Some 100, an_warnings = [],
      an_safetensors_summary = None, an_declared_size_label = None\<rparr>"

definition example_q4 :: gguf_variant where
  "example_q4 = \<lparr>var_quantization = ''Q4'', var_files = [listed ''Q4.gguf'' 100], var_total_bytes = Some 100,
     var_is_complete = True, var_is_split = False\<rparr>"

text \<open>A header that is stored is found again, as long as it has not expired and nothing interferes.\<close>

lemma get_after_put:
  assumes "first_shard v = Some f" and "cache_key_kind a = ''ttl'' \<longrightarrow> later - now \<le> ttl"
  shows "fst (header_cache_get digest ttl later a v (header_cache_put digest now True a v h s)) =
    Inr (Some (storable_header h))"
  using assms by (auto simp: header_cache_get_def header_cache_put_def entry_of_def is_expired_def Let_def)

definition example_world :: "gguf_header \<Rightarrow> cache_world" where
  "example_world h =
     \<lparr>cw_state = header_cache_put id 5 True example_gguf_analysis example_q4 h
        \<lparr>ca_files = (\<lambda>_. None), ca_stats = no_stats\<rparr>,
      cw_now = 5,
      cw_puts = [\<lparr>pe_analysis = example_gguf_analysis, pe_file = listed ''Q4.gguf'' 100, pe_time = 5,
        pe_header = h\<rparr>],
      cw_gets = 0\<rparr>"

lemma example_world_reachable: "cache_reachable id 10 (example_world h)"
proof -
  let ?w = "\<lparr>cw_state = \<lparr>ca_files = (\<lambda>_. None), ca_stats = no_stats\<rparr>, cw_now = 5, cw_puts = [], cw_gets = 0\<rparr>"
  have "cache_reachable id 10 ?w" by (rule cache_reachable.start) simp
  moreover have "first_shard example_q4 = Some (listed ''Q4.gguf'' 100)"
    by (simp add: example_q4_def first_shard_def)
  then have "cache_step id 10 ?w (example_world h)"
    using cache_step.store [of example_q4 _ id 10 ?w example_gguf_analysis h]
    by (simp add: example_world_def)
  ultimately show ?thesis by (rule cache_reachable.step)
qed

lemma cached_header_is_of_the_artifact_witness:
  "\<exists>h. fst (header_cache_get id 10 (cw_now (example_world (example_header [] True))) example_gguf_analysis
        example_q4 (cw_state (example_world (example_header [] True)))) = Inr (Some h) \<and>
     merge_configs (Some h) None = merge_configs (Some (example_header [] True)) None"
proof -
  let ?h = "storable_header (example_header [] True)"
  have f: "first_shard example_q4 = Some (listed ''Q4.gguf'' 100)"
    by (simp add: example_q4_def first_shard_def)
  have g: "fst (header_cache_get id 10 (cw_now (example_world (example_header [] True))) example_gguf_analysis
      example_q4 (cw_state (example_world (example_header [] True)))) = Inr (Some ?h)"
    using get_after_put [OF f, of example_gguf_analysis 5 5 10 id "example_header [] True"]
    by (simp add: example_world_def)
  have "key_texts_ok example_gguf_analysis (listed ''Q4.gguf'' 100)" by code_simp
  with cached_header_is_of_the_artifact [OF example_world_reachable g, of None] f
  have "plain_architecture (example_header [] True) \<longrightarrow>
      merge_configs (Some ?h) None = merge_configs (Some (example_header [] True)) None"
    by (simp add: example_world_def)
  moreover have "plain_architecture (example_header [] True)" by code_simp
  ultimately show ?thesis using g by blast
qed

end
