(* ===== verification/Enrichment.thy ===== *)
theory Enrichment
  imports Base_Model Header_Cache Gguf_Fetch Repository_Analysis
begin

text \<open>
  The enrichment of a GGUF repository (\<^verbatim>\<open>metadata/service.py\<close>, \<^verbatim>\<open>domain/enrichment.py\<close>): read the
  header of one variant, through the cache or over range requests, resolve the base model, fetch
  its configuration and merge the two.  The interface \<open>header_store\<close> says what the service needs
  of a cache; the persistent cache and the disabled one provide it.  The main lemma is that the
  cache does not change the result.
\<close>

section \<open>Messages of the range reader\<close>

text \<open>The detail of a decoding error is a message of the standard library and left out.\<close>

fun invalid_cause_text :: "invalid_cause \<Rightarrow> string" where
  "invalid_cause_text (StringTooLong n) = ''String length '' @ show_int n @ '' looks malformed.''"
| "invalid_cause_text NotUtf8 = ''Non-UTF-8 GGUF string: ''"
| "invalid_cause_text (UnsupportedVersion n) = ''Unsupported GGUF version: '' @ show_int n"
| "invalid_cause_text (ImplausibleKvCount n) = ''Metadata KV count '' @ show_int n @ '' is implausible.''"
| "invalid_cause_text (ImplausibleArrayLength n) = ''Array length '' @ show_int n @ '' is implausible.''"
| "invalid_cause_text (UnknownValueType n) = ''Unknown GGUF value type: '' @ show_int n"
| "invalid_cause_text (UnknownArrayElementType n) = ''Unknown GGUF array element type: '' @ show_int n"
| "invalid_cause_text ArrayTooDeep = ''GGUF array nesting exceeds the parser limit.''"
| "invalid_cause_text ReadBudgetExceeded = ''Local tensor header exceeds the read budget.''"
| "invalid_cause_text ArtifactNotVerified = ''A verified local GGUF artifact is required.''"
| "invalid_cause_text SizeDiffersFromIdentity = ''Local GGUF size differs from artifact identity.''"
| "invalid_cause_text NotGguf = ''Local file is not GGUF.''"
| "invalid_cause_text InvalidTensorCount = ''Invalid GGUF tensor count.''"
| "invalid_cause_text MultipartUnsupported = ''Multipart GGUF tensor inspection is unsupported.''"
| "invalid_cause_text InvalidAlignment = ''Invalid GGUF alignment.''"
| "invalid_cause_text BadTensorName = ''Empty or duplicate tensor name.''"
| "invalid_cause_text InvalidDimensionCount = ''Invalid tensor dimension count.''"
| "invalid_cause_text InvalidDimensionsOrOffset = ''Invalid tensor dimensions or offset alignment.''"
| "invalid_cause_text (UnsupportedTensorType n) = ''Unsupported GGML tensor type '' @ show_int n @ ''.''"
| "invalid_cause_text RowNotBlockAligned = ''Tensor row is not quantization-block aligned.''"
| "invalid_cause_text OverlappingPayloads = ''Overlapping tensor payloads.''"
| "invalid_cause_text PayloadBeyondFile = ''Tensor payload extends beyond the file.''"
| "invalid_cause_text ChangedDuringInspection = ''GGUF changed during tensor inspection.''"

fun fetch_warning_text :: "string \<Rightarrow> fetch_warning \<Rightarrow> string" where
  "fetch_warning_text url TimedOut = ''Timed out (10.0s) fetching GGUF header from '' @ url @ ''.''"
| "fetch_warning_text url (NetworkError m) = ''Network error fetching GGUF header: '' @ m @ ''.''"
| "fetch_warning_text url (RangeNotSatisfiable n) =
     ''Server returned 416 for range '' @ show_int n @ ''; file may be smaller.''"
| "fetch_warning_text url (UnexpectedStatus n) =
     ''Unexpected HTTP status '' @ show_int n @ '' while reading GGUF header.''"
| "fetch_warning_text url RangeIgnored =
     ''Server ignored Range header; using truncated buffer to avoid a full download.''"
| "fetch_warning_text url TruncatedAndIgnored =
     ''Truncated buffer is too small and the server ignores Range; giving up.''"
| "fetch_warning_text url (InvalidHeader c) = ''Invalid GGUF header: '' @ invalid_cause_text c @ ''.''"
| "fetch_warning_text url NoMagic = ''File does not start with a GGUF magic; skipping header read.''"
| "fetch_warning_text url PartialHeader =
     ''GGUF header read up to its tokenizer; every key the memory estimate reads was '' @
     ''present, the rest was not fetched.''"
| "fetch_warning_text url BudgetExhausted =
     ''GGUF header did not fit within the maximum download budget (8 MiB); giving up.''"

section \<open>Reading a header\<close>

text \<open>\<^verbatim>\<open>s.split("-of-")[0]\<close>: the text before the first occurrence.\<close>

fun before_first :: "string \<Rightarrow> string \<Rightarrow> string" where
  "before_first sep [] = []"
| "before_first sep (c # cs) = (if startswith (c # cs) sep then [] else c # before_first sep cs)"

definition looks_like_multipart_non_first :: "string \<Rightarrow> bool" where
  "looks_like_multipart_non_first filename =
     (let name = path_name filename; index = last (split_on (CHR ''-'') (before_first ''-of-'' name)) in
      contains name ''-of-'' \<and> index \<noteq> [] \<and> list_all is_digit index \<and> int_of_digits index \<noteq> 1)"

text \<open>
  The address of a file on the hub is built by the hub's library; that function and the HTTP
  client are parameters.
\<close>

record header_reader =
  rd_url :: "string \<Rightarrow> string \<Rightarrow> string"
  rd_fetch :: "string \<Rightarrow> int \<Rightarrow> fetch_outcome"

definition read_variant_header ::
  "header_reader \<Rightarrow> gguf_variant \<Rightarrow> string \<Rightarrow> gguf_header option \<times> string list" where
  "read_variant_header reader v r =
     (case sort_key file_path (var_files v) of
        [] \<Rightarrow> (None, [])
      | target # _ \<Rightarrow>
        let filename = file_path target;
            url = rd_url reader r filename;
            result = fetch_gguf_header (rd_fetch reader url) in
        (fr_header result,
         (if looks_like_multipart_non_first filename
          then [''Variant '' @ var_quantization v @ '' looks multipart; using first shard '' @
                path_name filename @ '' for header read.'']
          else []) @ map (fetch_warning_text url) (fr_warnings result)))"

section \<open>The service\<close>

record enrichment_result =
  er_enriched_config :: "enriched_config option"
  er_base_model_resolution :: base_model_resolution
  er_gguf_header :: "gguf_header option"
  er_warnings :: "string list"

text \<open>The exceptions that leave the service.\<close>

datatype enrich_error = EnrichSdk sdk_error | EnrichAttributeError | EnrichCache cache_error

text \<open>A cache is its two operations over a state.\<close>

record 'c cache_ops =
  co_get :: "model_analysis \<Rightarrow> gguf_variant \<Rightarrow> 'c \<Rightarrow> (cache_error + gguf_header option) \<times> 'c"
  co_put :: "model_analysis \<Rightarrow> gguf_variant \<Rightarrow> gguf_header \<Rightarrow> 'c \<Rightarrow> 'c"

definition fetch_base_config ::
  "hub_sdk \<Rightarrow> string \<Rightarrow> enrich_error + model_config option \<times> string list" where
  "fetch_base_config sdk r =
     (case hub_download_small_file sdk r ''config.json'' of
        Inl (ModelNotFound _) \<Rightarrow>
          Inr (None, [''Base repository '' @ r @ '' does not exist; skipping enrichment.''])
      | Inl (ModelAccessDenied _) \<Rightarrow>
          Inr (None, [''Base repository '' @ r @ '' is gated; set HF_TOKEN to enable enrichment.''])
      | Inl (HuggingFaceUnavailable m) \<Rightarrow>
          Inr (None, [''Could not reach '' @ r @ '' for base config: '' @ m @ ''.''])
      | Inl (ConfigurationNotFound m) \<Rightarrow>
          Inr (None, [''Could not read base config from '' @ r @ '': '' @ m @ ''.''])
      | Inl (SdkUncaught e) \<Rightarrow> Inl (EnrichSdk e)
      | Inr (Inl m) \<Rightarrow> Inr (None, [''config.json for '' @ r @ '' could not be parsed: '' @ m @ ''.''])
      | Inr (Inr (PyDict d)) \<Rightarrow> Inr (Some (model_config_from_dict d), [])
      | Inr (Inr _) \<Rightarrow> Inl EnrichAttributeError)"

text \<open>The card of the repository, read again; empty when it cannot be read.\<close>

definition reread_card :: "hub_sdk \<Rightarrow> string \<Rightarrow> enrich_error + (string, py_obj) dict \<times> string list" where
  "reread_card sdk r =
     (case hub_model_info sdk r None of
        Inl (SdkUncaught e) \<Rightarrow> Inl (EnrichSdk e)
      | Inl e \<Rightarrow> Inr ([], [''Could not re-read model info while enriching: '' @ hub_error_text e])
      | Inr info \<Rightarrow> Inr (opt_default (mi_card_data info) [], []))"

text \<open>The header of the variant: the cache first, then the network; what the network gave is stored.\<close>

definition obtain_header ::
  "header_reader option \<Rightarrow> 'c cache_ops option \<Rightarrow> model_analysis \<Rightarrow> gguf_variant option \<Rightarrow> 'c \<Rightarrow>
   (enrich_error + gguf_header option \<times> string list) \<times> 'c" where
  "obtain_header reader cache a v c =
     (case v of
        None \<Rightarrow> (Inr (None, []), c)
      | Some var \<Rightarrow>
        (case (case cache of None \<Rightarrow> (Inr None, c) | Some ops \<Rightarrow> co_get ops a var c) of
           (Inl e, c') \<Rightarrow> (Inl (EnrichCache e), c')
         | (Inr (Some h), c') \<Rightarrow> (Inr (Some h, []), c')
         | (Inr None, c') \<Rightarrow>
           (case reader of
              None \<Rightarrow> (Inr (None, []), c')
            | Some rd \<Rightarrow>
              (case read_variant_header rd var (repo_id (an_repo a)) of
                 (None, ws) \<Rightarrow> (Inr (None, ws), c')
               | (Some h, ws) \<Rightarrow>
                 (Inr (Some h, ws), (case cache of None \<Rightarrow> c' | Some ops \<Rightarrow> co_put ops a var h c'))))))"

text \<open>What follows once the card and the header are known.\<close>

definition conclude_enrichment ::
  "hub_sdk \<Rightarrow> model_analysis \<Rightarrow> (string, py_obj) dict \<Rightarrow> gguf_header option \<Rightarrow> string list \<Rightarrow>
   enrich_error + enrichment_result" where
  "conclude_enrichment sdk a cd header ws =
     (let resolution = resolve_base_model cd header (repo_id (an_repo a));
          fetched = (case bmr_repo_id resolution of
              Some b \<Rightarrow>
                if b \<noteq> [] \<and> bmr_confidence resolution \<in> {CONF_HIGH, CONF_MEDIUM} then fetch_base_config sdk b
                else Inr (None, [])
            | None \<Rightarrow> Inr (None, [])) in
      bind_result fetched (\<lambda>(base, base_ws).
        let enriched = merge_configs header base in
        Inr \<lparr>er_enriched_config = enriched, er_base_model_resolution = resolution, er_gguf_header = header,
          er_warnings = ws @ bmr_warnings resolution @ base_ws @
            (case enriched of None \<Rightarrow> [] | Some e \<Rightarrow> ec_conflicts e)\<rparr>))"

definition enrich ::
  "hub_sdk \<Rightarrow> header_reader option \<Rightarrow> 'c cache_ops option \<Rightarrow> model_analysis \<Rightarrow> gguf_variant option \<Rightarrow> 'c \<Rightarrow>
   (enrich_error + enrichment_result) \<times> 'c" where
  "enrich sdk reader cache a v c =
     (case reread_card sdk (repo_id (an_repo a)) of
        Inl e \<Rightarrow> (Inl e, c)
      | Inr (cd, ws) \<Rightarrow>
        (case obtain_header reader cache a v c of
           (Inl e, c') \<Rightarrow> (Inl e, c')
         | (Inr (header, header_ws), c') \<Rightarrow> (conclude_enrichment sdk a cd header (ws @ header_ws), c')))"

definition unresolved_result :: "string list \<Rightarrow> enrichment_result" where
  "unresolved_result ws =
     \<lparr>er_enriched_config = None,
      er_base_model_resolution = \<lparr>bmr_repo_id = None, bmr_source = UNRESOLVED, bmr_confidence = CONF_UNKNOWN,
        bmr_evidence = [], bmr_warnings = ws, bmr_candidates = []\<rparr>,
      er_gguf_header = None, er_warnings = ws\<rparr>"

section \<open>What the service needs of a cache\<close>

text \<open>The result as the estimator reads it: the merged configuration and the resolution.\<close>

definition enrichment_outcome :: "enrichment_result \<Rightarrow> enriched_config option \<times> base_model_resolution" where
  "enrichment_outcome r = (er_enriched_config r, er_base_model_resolution r)"

lemma from_gguf_header_storable: "from_gguf_header (Some (storable_header h)) = from_gguf_header (Some h)"
  by (simp add: from_gguf_header_def)

lemma resolve_storable: "resolve_base_model cd (Some (storable_header h)) r = resolve_base_model cd (Some h) r"
  unfolding resolve_base_model_def from_gguf_header_storable ..

lemma conclude_storable:
  assumes "plain_architecture h"
  shows "map_sum id enrichment_outcome (conclude_enrichment sdk a cd (Some (storable_header h)) ws) =
    map_sum id enrichment_outcome (conclude_enrichment sdk a cd (Some h) ws')"
  unfolding conclude_enrichment_def Let_def resolve_storable merge_storable [OF assms]
  by (auto simp: bind_result_def enrichment_outcome_def split: sum.split prod.split option.split)

lemma conclude_warnings:
  "map_sum id enrichment_outcome (conclude_enrichment sdk a cd h ws) =
   map_sum id enrichment_outcome (conclude_enrichment sdk a cd h ws')"
  unfolding conclude_enrichment_def Let_def
  by (auto simp: bind_result_def enrichment_outcome_def split: sum.split prod.split option.split)

text \<open>
  A store of headers: in a sound state a lookup by a named artifact only returns the header of
  that artifact, without its tokenizer tables.
\<close>

locale header_store =
  fixes get :: "model_analysis \<Rightarrow> gguf_variant \<Rightarrow> 'c \<Rightarrow> (cache_error + gguf_header option) \<times> 'c"
    and named :: "model_analysis \<Rightarrow> gguf_variant \<Rightarrow> bool"
    and sound :: "'c \<Rightarrow> bool"
    and truth :: "model_analysis \<Rightarrow> gguf_variant \<Rightarrow> gguf_header option"
  assumes get_true:
    "sound c \<Longrightarrow> named a v \<Longrightarrow> fst (get a v c) = Inr (Some h) \<Longrightarrow>
       \<exists>h0. truth a v = Some h0 \<and> h = storable_header h0"
begin

lemma enrich_as_without:
  assumes "sound c" and "named a v" and "truth a v = Some h0" and "plain_architecture h0"
    and "read_variant_header rd v (repo_id (an_repo a)) = (Some h0, ws)"
    and "fst (get a v c) = Inr r"
  shows "map_sum id enrichment_outcome
      (fst (enrich sdk (Some rd) (Some \<lparr>co_get = get, co_put = put\<rparr>) a (Some v) c)) =
    map_sum id enrichment_outcome (fst (enrich sdk (Some rd) None a (Some v) d))"
proof (cases "reread_card sdk (repo_id (an_repo a))")
  case (Inr p)
  obtain cd cws where p: "p = (cd, cws)" by (cases p)
  obtain c' where g: "get a v c = (Inr r, c')" using assms(6) by (cases "get a v c") simp
  have fresh: "fst (enrich sdk (Some rd) None a (Some v) d) = conclude_enrichment sdk a cd (Some h0) (cws @ ws)"
    using Inr p assms(5) by (simp add: enrich_def obtain_header_def)
  show ?thesis
  proof (cases r)
    case None
    with Inr p g assms(5) show ?thesis by (simp add: fresh) (simp add: enrich_def obtain_header_def)
  next
    case (Some h)
    then have "h = storable_header h0" using get_true [OF assms(1,2)] assms(3,6) by fastforce
    then have "fst (enrich sdk (Some rd) (Some \<lparr>co_get = get, co_put = put\<rparr>) a (Some v) c) =
        conclude_enrichment sdk a cd (Some (storable_header h0)) cws"
      using Inr p g Some by (simp add: enrich_def obtain_header_def)
    then show ?thesis using fresh conclude_storable [OF assms(4)] by metis
  qed
qed (simp add: enrich_def)

end

section \<open>The two caches\<close>

text \<open>
  A hub whose files never change under one revision: what the header of a file at a revision is.
  The state of the persistent cache is trusted when it can be reached by writes of such headers.
\<close>

type_synonym hub_contents = "string \<Rightarrow> string \<Rightarrow> int option \<Rightarrow> string option \<Rightarrow> gguf_header option"

definition header_at :: "hub_contents \<Rightarrow> model_analysis \<Rightarrow> model_file \<Rightarrow> gguf_header option" where
  "header_at hub a f =
     hub (repo_id (an_repo a)) (file_path f) (file_size_bytes f) (repo_last_modified (an_repo a))"

definition variant_header :: "hub_contents \<Rightarrow> model_analysis \<Rightarrow> gguf_variant \<Rightarrow> gguf_header option" where
  "variant_header hub a v = Option.bind (first_shard v) (header_at hub a)"

definition artifact_named :: "model_analysis \<Rightarrow> gguf_variant \<Rightarrow> bool" where
  "artifact_named a v \<longleftrightarrow> (\<forall>f. first_shard v = Some f \<longrightarrow> key_texts_ok a f)"

definition honest_puts :: "hub_contents \<Rightarrow> cache_world \<Rightarrow> bool" where
  "honest_puts hub w \<longleftrightarrow>
     (\<forall>p \<in> set (cw_puts w). key_texts_ok (pe_analysis p) (pe_file p) \<and>
        header_at hub (pe_analysis p) (pe_file p) = Some (pe_header p))"

definition trusted_state :: "(string \<Rightarrow> string) \<Rightarrow> int \<Rightarrow> int \<Rightarrow> hub_contents \<Rightarrow> cache_state \<Rightarrow> bool" where
  "trusted_state digest ttl now hub s \<longleftrightarrow>
     (\<exists>w. cache_reachable digest ttl w \<and> cw_state w = s \<and> cw_now w = now \<and> honest_puts hub w)"

lemma disk_get_true:
  assumes "trusted_state digest ttl now hub s" and "artifact_named a v"
    and "fst (header_cache_get digest ttl now a v s) = Inr (Some h)"
  shows "\<exists>h0. variant_header hub a v = Some h0 \<and> h = storable_header h0"
proof -
  obtain w where w: "cache_reachable digest ttl w" "cw_state w = s" "cw_now w = now" "honest_puts hub w"
    using assms(1) unfolding trusted_state_def by blast
  obtain f e where f: "first_shard v = Some f"
    and e: "ca_files s (digest (cache_key a f)) = Some (EntryFile e)"
    and ok: "ce_schema e = Some GGUF_HEADER_CACHE_SCHEMA_VERSION" "ce_key e = Some (cache_key a f)"
      "ce_payload e = HeaderPayload h"
    using get_entry [OF assms(3)] by metis
  obtain p where p: "p \<in> set (cw_puts w)" and ep: "e = entry_of_put p"
    using cache_invariant [OF w(1)] e ok(1) w(2) unfolding stored_files_def by blast
  have hp: "key_texts_ok (pe_analysis p) (pe_file p)"
    "header_at hub (pe_analysis p) (pe_file p) = Some (pe_header p)"
    using w(4) p unfolding honest_puts_def by blast+
  have "same_artifact a f (pe_analysis p) (pe_file p)"
  proof (rule cache_key_inject)
    show "cache_key a f = cache_key (pe_analysis p) (pe_file p)"
      using ok(2) ep by (simp add: entry_of_put_def entry_of_def)
    show "key_texts_ok a f" using assms(2) f by (simp add: artifact_named_def)
  qed (rule hp(1))
  then have "header_at hub a f = Some (pe_header p)"
    using hp(2) by (simp add: header_at_def same_artifact_def)
  moreover have "h = storable_header (pe_header p)"
    using ok(3) ep by (simp add: entry_of_put_def entry_of_def)
  ultimately show ?thesis using f by (simp add: variant_header_def)
qed

interpretation disk_store: header_store "header_cache_get digest ttl now" artifact_named
    "trusted_state digest ttl now hub" "variant_header hub" for digest ttl now hub
  by unfold_locales (rule disk_get_true)

text \<open>The disabled cache never returns a header.\<close>

definition null_get ::
  "model_analysis \<Rightarrow> gguf_variant \<Rightarrow> cache_stats \<Rightarrow> (cache_error + gguf_header option) \<times> cache_stats" where
  "null_get a v c = (Inr (fst (null_cache_get c)), snd (null_cache_get c))"

interpretation null_store: header_store null_get "\<lambda>_ _. True" "\<lambda>_. True" truth for truth
  by unfold_locales (simp add: null_get_def null_cache_get_def)

definition disk_cache :: "(string \<Rightarrow> string) \<Rightarrow> int \<Rightarrow> int \<Rightarrow> bool \<Rightarrow> cache_state cache_ops" where
  "disk_cache digest ttl now written =
     \<lparr>co_get = header_cache_get digest ttl now, co_put = header_cache_put digest now written\<rparr>"



text \<open>A header read from a small file on a server that answers with the file.\<close>

definition small_header :: gguf_header where
  "small_header = (case parse_header small_file of Inr (Some h) \<Rightarrow> h | _ \<Rightarrow> example_header [] True)"

lemma small_header_parsed: "parse_header small_file = Inr (Some small_header)" "hd_is_complete small_header"
proof -
  obtain h where h: "parse_header small_file = Inr (Some h)" "hd_is_complete h" by (rule small_file_header)
  then have "small_header = h" unfolding small_header_def h(1) by simp
  with h show "parse_header small_file = Inr (Some small_header)" "hd_is_complete small_header" by simp_all
qed

definition small_reader :: header_reader where
  "small_reader =
     \<lparr>rd_url = (\<lambda>r f. r @ ''/'' @ f),
      rd_fetch = (\<lambda>url last. FetchResponse \<lparr>rr_body = small_file, rr_honored = True, rr_status = 206\<rparr>)\<rparr>"

lemma small_reader_reads: "read_variant_header small_reader example_q4 r = (Some small_header, [])"
proof -
  have "looks_like_multipart_non_first (file_path (listed ''Q4.gguf'' 100)) = False" by code_simp
  then show ?thesis
    by (simp add: Let_def read_variant_header_def example_q4_def small_reader_def fetch_gguf_header_def
        fetch_loop.simps [of _ 0] small_header_parsed requested_bytes_def INITIAL_HEADER_RANGE_BYTES_def
        MAX_HEADER_DOWNLOAD_BYTES_def sort_key_def)
qed

definition example_sdk :: hub_sdk where
  "example_sdk =
     \<lparr>sdk_model_info = (\<lambda>_ _. Inl SdkRepositoryNotFound), sdk_download = (\<lambda>_ _. Inl SdkRepositoryNotFound),
      sdk_safetensors = (\<lambda>_. Inl SdkRepositoryNotFound)\<rparr>"


end
