(* ===== verification/Estimate_Service.thy ===== *)
theory Estimate_Service
  imports Runtime_Advice Enrichment Gguf_Selection
begin

text \<open>
  The estimation service (\<^verbatim>\<open>estimator/service.py\<close>): from an analysed repository, a machine and an
  inference configuration to a memory estimate with its verdict and its runtime.  It composes the
  estimators, the enrichment and the hardware fit of the other theories; its properties are about
  the composition: what the total is made of, and that the verdict is about that total.
\<close>

section \<open>Weights\<close>

text \<open>Every exception that can leave the service, by the part that raises it.\<close>

datatype service_error =
    SvcSelection estimation_error | SvcHub hub_error | SvcEnrich enrich_error | SvcWeights weight_error
  | SvcKvCache param_error | SvcFit fit_error | SvcLaunch launch_error

definition from_files ::
  "model_analysis \<Rightarrow> weight_precision option \<Rightarrow> weight_estimate \<times> variant_choice option" where
  "from_files a requested = (estimate_weights_from_files a requested (an_config a), None)"

definition estimate_transformers_weights ::
  "model_analysis \<Rightarrow> inference_configuration \<Rightarrow> hub_sdk \<Rightarrow> string list \<Rightarrow>
   service_error + (weight_estimate \<times> variant_choice option) \<times> string list" where
  "estimate_transformers_weights a cfg sdk ws =
     (if is_packed_quantization_config (an_config a) then
        Inr (from_files a None, ws @
          [''Packed quantized safetensors metadata ignored for weight sizing; '' @
           ''using artifact file sizes instead.''])
      else
        (case hub_safetensors_summary sdk (repo_id (an_repo a)) of
           Inl (HuggingFaceUnavailable m) \<Rightarrow>
             Inr (from_files a (cfg_precision cfg), ws @
               [''Could not read safetensors metadata: '' @ hub_error_text (HuggingFaceUnavailable m)])
         | Inl e \<Rightarrow> Inl (SvcHub e)
         | Inr None \<Rightarrow> Inr (from_files a (cfg_precision cfg), ws)
         | Inr (Some s) \<Rightarrow>
             Inr ((estimate_weights_from_safetensors s (cfg_precision cfg) (an_config a), None), ws)))"

definition estimate_weights ::
  "model_analysis \<Rightarrow> inference_configuration \<Rightarrow> hub_sdk \<Rightarrow> string list \<Rightarrow>
   service_error + (weight_estimate \<times> variant_choice option) \<times> string list" where
  "estimate_weights a cfg sdk ws =
     (let kind = primary_type (an_classification a) in
      if kind = REPO_GGUF then
        (case select_variant (gguf_variants (an_classification a)) (cfg_quantization cfg) of
           Inl e \<Rightarrow> Inl (SvcSelection e)
         | Inr choice \<Rightarrow> Inr ((estimate_weights_from_gguf (vc_variant choice), Some choice), ws))
      else
        let ws' = ws @
          (case cfg_quantization cfg of
             None \<Rightarrow> []
           | Some q \<Rightarrow> [''--quantization '' @ repr_str q @ '' ignored: repository is '' @
               repository_value kind @ '', not GGUF.'']) in
        if kind = REPO_TRANSFORMERS then estimate_transformers_weights a cfg sdk ws'
        else Inr (from_files a (cfg_precision cfg), ws'))"

section \<open>Enrichment\<close>

definition run_enrichment ::
  "hub_sdk \<Rightarrow> header_reader option \<Rightarrow> 'c cache_ops option \<Rightarrow> model_analysis \<Rightarrow> variant_choice option \<Rightarrow>
   bool \<Rightarrow> 'c \<Rightarrow> (enrich_error + enrichment_result) \<times> 'c" where
  "run_enrichment sdk reader cache a choice resolve c =
     (if primary_type (an_classification a) \<noteq> REPO_GGUF then (Inr (unresolved_result []), c)
      else if \<not> resolve then
        (Inr (unresolved_result [''Base-model resolution disabled by --no-resolve-base-model.'']), c)
      else enrich sdk reader cache a (map_option vc_variant choice) c)"

definition pick_effective_config :: "model_config option \<Rightarrow> enrichment_result \<Rightarrow> model_config option" where
  "pick_effective_config original en =
     (case er_enriched_config en of None \<Rightarrow> original | Some e \<Rightarrow> Some (ec_config e))"

definition config_model_type :: "model_config option \<Rightarrow> string option" where
  "config_model_type mc = Option.bind mc (\<lambda>c. nonempty (model_type c))"

definition resolve_architecture :: "model_analysis \<Rightarrow> model_config option \<Rightarrow> string option" where
  "resolve_architecture a effective = opt_or (config_model_type effective) (config_model_type (an_config a))"

section \<open>Totals\<close>

definition assumed_component :: "string \<Rightarrow> int \<Rightarrow> estimation_confidence \<Rightarrow> string \<Rightarrow> memory_component" where
  "assumed_component name n confidence explanation =
     \<lparr>mc_name = name, mc_bytes = Some n, mc_source = SRC_ASSUMED, mc_confidence = confidence,
      mc_explanation = explanation\<rparr>"

definition device_reserve_component :: "int \<Rightarrow> memory_component" where
  "device_reserve_component n =
     (if n \<le> 0 then
        assumed_component ''Device reserve'' 0 CONF_LOW
          ''No device reserve configured (--device-reserve-gib 0).''
      else
        assumed_component ''Device reserve'' n CONF_LOW
          (''Configured device reserve of '' @ show_gib n @ '' GiB.''))"

definition safety_margin_component :: "int option \<Rightarrow> py_float \<Rightarrow> memory_component option" where
  "safety_margin_component subtotal percent =
     (if float_le percent (PyFloat 0 0) then None
      else
        map_option (\<lambda>n.
          assumed_component ''Safety margin''
            (float_ceil (float_mult (float_of_int n) (float_divide percent (float_of_int 100))))
            CONF_MEDIUM (show_general percent @ ''% of estimated subtotal.'')) subtotal)"

definition sum_components :: "int option list \<Rightarrow> int option" where
  "sum_components values =
     (let known = List.map_filter id values in if known = [] then None else Some (sum_list known))"

fun confidence_order :: "estimation_confidence \<Rightarrow> int" where
  "confidence_order CONF_HIGH = 3"
| "confidence_order CONF_MEDIUM = 2"
| "confidence_order CONF_LOW = 1"
| "confidence_order CONF_UNKNOWN = 0"

definition combined_confidence :: "estimation_confidence list \<Rightarrow> estimation_confidence" where
  "combined_confidence values =
     (case values of [] \<Rightarrow> CONF_UNKNOWN | v # vs \<Rightarrow> min_by confidence_order v vs)"


text \<open>
  The components of the total.  For a GGUF repository llama.cpp's own threshold of free memory is
  the floor of the reserve and replaces the default percentage margin.
\<close>

record memory_totals =
  mt_overhead :: runtime_overhead_estimate
  mt_reserve :: memory_component
  mt_margin :: "memory_component option"
  mt_total :: "int option"

definition effective_headroom :: "bool \<Rightarrow> inference_configuration \<Rightarrow> int \<times> py_float" where
  "effective_headroom is_gguf cfg =
     (if is_gguf then
        (max (cfg_device_reserve_bytes cfg) GGUF_DEVICE_HEADROOM_BYTES,
         if float_eq (cfg_safety_margin_percent cfg) SAFETY_MARGIN_DEFAULT_PERCENT then PyFloat 0 0
         else cfg_safety_margin_percent cfg)
      else (cfg_device_reserve_bytes cfg, cfg_safety_margin_percent cfg))"

definition margin_bytes :: "memory_component option \<Rightarrow> int" where
  "margin_bytes margin = (case margin of None \<Rightarrow> 0 | Some m \<Rightarrow> opt_default (mc_bytes m) 0)"

definition totals_with ::
  "int option \<Rightarrow> int option \<Rightarrow> runtime_overhead_estimate \<Rightarrow> memory_component \<Rightarrow> py_float \<Rightarrow> memory_totals" where
  "totals_with w kv ov reserve percent =
     (let subtotal = sum_components [w, kv, mc_bytes (ro_component ov), mc_bytes reserve];
          margin = safety_margin_component subtotal percent in
      \<lparr>mt_overhead = ov, mt_reserve = reserve, mt_margin = margin,
       mt_total = sum_components
         [subtotal, (case margin of None \<Rightarrow> Some 0 | Some m \<Rightarrow> mc_bytes m)]\<rparr>)"

definition memory_totals_of ::
  "bool \<Rightarrow> inference_configuration \<Rightarrow> weight_estimate \<Rightarrow> kv_cache_estimate \<Rightarrow> memory_totals" where
  "memory_totals_of is_gguf cfg w kv =
     (case effective_headroom is_gguf cfg of (reserve, percent) \<Rightarrow>
        totals_with (mc_bytes (we_component w)) (mc_bytes (kv_component kv))
          (estimate_overhead (mc_bytes (we_component w))
             (if is_gguf then GGUF_OVERHEAD_BASE_BYTES else OVERHEAD_BASE_BYTES)
             (if is_gguf then GGUF_OVERHEAD_WEIGHT_FRACTION else OVERHEAD_WEIGHT_FRACTION))
          (device_reserve_component reserve) percent)"

definition assessed_of :: "weight_estimate \<Rightarrow> kv_cache_estimate \<Rightarrow> memory_totals \<Rightarrow> assessed_components" where
  "assessed_of w kv t =
     \<lparr>ac_weights = mc_bytes (we_component w), ac_kv_cache = mc_bytes (kv_component kv),
      ac_overhead = mc_bytes (ro_component (mt_overhead t)),
      ac_device_reserve = opt_default (mc_bytes (mt_reserve t)) 0,
      ac_safety_margin = margin_bytes (mt_margin t), ac_total = mt_total t,
      ac_total_blocks = kv_layers kv, ac_decomposition = we_decomposition w\<rparr>"

section \<open>The estimate\<close>

definition estimate_assumptions ::
  "bool \<Rightarrow> inference_configuration \<Rightarrow> variant_choice option \<Rightarrow> enrichment_result \<Rightarrow> string list" where
  "estimate_assumptions is_gguf cfg choice en =
     (case choice of None \<Rightarrow> [] | Some c \<Rightarrow> [vc_reason c]) @
     (case bmr_repo_id (er_base_model_resolution en) of
        Some r \<Rightarrow> if r = [] then [] else
          [''Base model resolved to '' @ r @ '' via '' @
           metadata_source_value (bmr_source (er_base_model_resolution en)) @ ''.'']
      | None \<Rightarrow> []) @
     [''KV cache dtype assumed to be '' @ precision_value (cfg_kv_cache_dtype cfg) @ ''.''] @
     (if is_gguf then
        [''GGUF headroom: llama.cpp's own threshold of 1 GiB free replaces the percentage margin.'']
      else [])"

definition preliminary_estimate ::
  "model_analysis \<Rightarrow> inference_configuration \<Rightarrow> variant_choice option \<Rightarrow> enrichment_result \<Rightarrow> string list \<Rightarrow>
   weight_estimate \<Rightarrow> kv_cache_estimate \<Rightarrow> memory_totals \<Rightarrow>
   compatibility_assessment \<times> hardware_fit_result option \<Rightarrow> memory_estimate" where
  "preliminary_estimate a cfg choice en ws w kv t verdict =
     \<lparr>me_repository = an_repo a, me_repository_type = primary_type (an_classification a),
      me_configuration = cfg, me_weights = w, me_kv_cache = kv, me_overhead = mt_overhead t,
      me_device_reserve = mt_reserve t, me_safety_margin = mt_margin t, me_total_bytes = mt_total t,
      me_assessment = (fst verdict)
        \<lparr>ca_confidence := combined_confidence
           [mc_confidence (we_component w), mc_confidence (kv_component kv),
            mc_confidence (ro_component (mt_overhead t)), ca_confidence (fst verdict)]\<rparr>,
      me_hardware_fit = snd verdict,
      me_assumptions =
        estimate_assumptions (primary_type (an_classification a) = REPO_GGUF) cfg choice en,
      me_warnings = ws @ er_warnings en @ kv_notes kv,
      me_base_model_resolution = Some (er_base_model_resolution en),
      me_configuration_sources =
        (case er_enriched_config en of None \<Rightarrow> [] | Some e \<Rightarrow> ec_sources e),
      me_architecture = resolve_architecture a (pick_effective_config (an_config a) en),
      me_runtime_recommendation = None\<rparr>"

definition add_recommendation ::
  "repository_type \<Rightarrow> bool \<Rightarrow> memory_estimate \<Rightarrow> service_error + memory_estimate" where
  "add_recommendation kind with_runtime e =
     (if \<not> with_runtime then Inr e
      else
        (case recommend_runtime e kind of
           Inl x \<Rightarrow> Inl (SvcLaunch x)
         | Inr r \<Rightarrow> Inr (e\<lparr>me_runtime_recommendation := Some r\<rparr>)))"

definition judge_estimate ::
  "model_analysis \<Rightarrow> hardware_profile \<Rightarrow> inference_configuration \<Rightarrow> bool \<Rightarrow> variant_choice option \<Rightarrow>
   enrichment_result \<Rightarrow> string list \<Rightarrow> weight_estimate \<Rightarrow> kv_cache_estimate \<Rightarrow> memory_totals \<Rightarrow>
   service_error + memory_estimate" where
  "judge_estimate a hw cfg with_runtime choice en ws w kv t =
     (case assess_components_with_fit (assessed_of w kv t) hw (cfg_target_device cfg) of
        Inl x \<Rightarrow> Inl (SvcFit x)
      | Inr verdict \<Rightarrow>
          add_recommendation (primary_type (an_classification a)) with_runtime
            (preliminary_estimate a cfg choice en ws w kv t verdict))"

definition estimate_with ::
  "model_analysis \<Rightarrow> hardware_profile \<Rightarrow> inference_configuration \<Rightarrow> bool \<Rightarrow> variant_choice option \<Rightarrow>
   enrichment_result \<Rightarrow> string list \<Rightarrow> weight_estimate \<Rightarrow> model_config option \<Rightarrow>
   service_error + memory_estimate" where
  "estimate_with a hw cfg with_runtime choice en ws w0 effective =
     (case add_transformer_block_decomposition w0 effective of
        Inl x \<Rightarrow> Inl (SvcWeights x)
      | Inr w \<Rightarrow>
        (case estimate_kv_cache effective (cfg_context_length cfg) (cfg_batch_size cfg)
            (cfg_kv_cache_dtype cfg) (cfg_concurrent_users cfg) of
           Inl x \<Rightarrow> Inl (SvcKvCache x)
         | Inr kv \<Rightarrow>
             judge_estimate a hw cfg with_runtime choice en ws w kv
               (memory_totals_of (primary_type (an_classification a) = REPO_GGUF) cfg w kv)))"

definition finish_estimate ::
  "model_analysis \<Rightarrow> hardware_profile \<Rightarrow> inference_configuration \<Rightarrow> bool \<Rightarrow>
   (weight_estimate \<times> variant_choice option) \<times> string list \<Rightarrow> enrichment_result \<Rightarrow>
   service_error + memory_estimate" where
  "finish_estimate a hw cfg with_runtime weighed en =
     (case weighed of ((w0, choice), ws) \<Rightarrow>
        estimate_with a hw cfg with_runtime choice en ws w0 (pick_effective_config (an_config a) en))"

definition estimate_memory ::
  "hub_sdk \<Rightarrow> header_reader option \<Rightarrow> 'c cache_ops option \<Rightarrow> model_analysis \<Rightarrow> hardware_profile \<Rightarrow>
   inference_configuration \<Rightarrow> bool \<Rightarrow> bool \<Rightarrow> 'c \<Rightarrow> (service_error + memory_estimate) \<times> 'c" where
  "estimate_memory sdk reader cache a hw cfg resolve with_runtime c =
     (case estimate_weights a cfg sdk (an_warnings a) of
        Inl e \<Rightarrow> (Inl e, c)
      | Inr weighed \<Rightarrow>
        (case run_enrichment sdk reader cache a (snd (fst weighed)) resolve c of
           (Inl e, c') \<Rightarrow> (Inl (SvcEnrich e), c')
         | (Inr en, c') \<Rightarrow> (finish_estimate a hw cfg with_runtime weighed en, c')))"


section \<open>The parts of an estimate\<close>

lemma estimators_give_no_decomposition [simp]:
  "we_decomposition (estimate_weights_from_gguf v) = None"
  "we_decomposition (estimate_weights_from_safetensors s p mc) = None"
  "we_decomposition (estimate_weights_from_files a p mc) = None"
  by (simp_all add: estimate_weights_from_gguf_def estimate_weights_from_safetensors_def
      estimate_weights_from_files_def unknown_weights_def Let_def)

lemma weighed_no_decomposition:
  "estimate_weights a cfg sdk ws = Inr ((w, choice), ws') \<Longrightarrow> we_decomposition w = None"
  by (auto simp: estimate_weights_def estimate_transformers_weights_def from_files_def Let_def
      split: sum.splits if_splits option.splits hub_error.splits)

lemma decomposed_weights:
  assumes "add_transformer_block_decomposition e mc = Inr w" and "we_decomposition e = None"
  shows "we_component w = we_component e"
    and "we_decomposition w = Some d \<Longrightarrow>
      weights_are_conserved d \<and> mc_bytes (we_component w) = Some (wd_total d)"
  using assms
  by (auto simp: add_transformer_block_decomposition_def Let_def project_decomposition_def
      split: option.splits if_splits sum.splits prod.splits)

lemma margin_nonneg:
  assumes "0 \<le> n"
  shows "0 \<le> margin_bytes (safety_margin_component (Some n) percent)"
proof (cases "float_le percent (PyFloat 0 0)")
  case False
  have rnd: "0 \<le> rnd x" if "0 \<le> x" for x using rnd_mono [OF that] by (simp add: rnd_def)
  have "0 < mantissa (float_of_int 100)" by code_simp
  then have "float_value (float_divide percent (float_of_int 100)) = rnd (float_value percent / 100)"
    by (simp add: value_float_divide value_float_of_int rnd_int [of 100, simplified])
  moreover have "0 \<le> float_value percent" using False by (simp add: float_le_iff)
  ultimately have "0 \<le> float_value (float_mult (float_of_int n) (float_divide percent (float_of_int 100)))"
    using assms by (simp add: value_float_mult value_float_of_int rnd)
  with False show ?thesis
    by (simp add: safety_margin_component_def margin_bytes_def opt_default_def assumed_component_def
        float_ceil_eq)
qed (simp add: safety_margin_component_def margin_bytes_def)

definition known_bytes :: "int option \<Rightarrow> int" where
  "known_bytes n = opt_default n 0"

lemma known_bytes_simps [simp]: "known_bytes None = 0" "known_bytes (Some n) = n"
  by (simp_all add: known_bytes_def opt_default_def)

lemma overhead_known:
  "\<exists>n. mc_bytes (ro_component (estimate_overhead w base share)) = Some n \<and> OVERHEAD_MIN_BYTES \<le> n"
  by (simp add: estimate_overhead_def Let_def split: option.split)

lemma reserve_component_known: "mc_bytes (device_reserve_component n) = Some (max n 0)"
  by (simp add: device_reserve_component_def assumed_component_def)

lemma sum_components_known:
  "sum_components [w, kv, Some ov, Some r] = Some (known_bytes w + known_bytes kv + ov + r)"
  "sum_components [Some n, Some m] = Some (n + m)"
  by (cases w; cases kv; simp add: sum_components_def List.map_filter_simps)+

lemma margin_component_known:
  "(case safety_margin_component s percent of None \<Rightarrow> Some 0 | Some m \<Rightarrow> mc_bytes m) =
     Some (margin_bytes (safety_margin_component s percent))"
  by (cases s) (simp_all add: safety_margin_component_def margin_bytes_def opt_default_def assumed_component_def)

text \<open>Everything but the weights and the KV cache is always known.\<close>

lemma totals_of_components:
  assumes "t = memory_totals_of g cfg w kv"
  obtains ov r where "mc_bytes (ro_component (mt_overhead t)) = Some ov" "OVERHEAD_MIN_BYTES \<le> ov"
    and "mc_bytes (mt_reserve t) = Some r" "0 \<le> r" "cfg_device_reserve_bytes cfg \<le> r"
    and "g \<longrightarrow> GGUF_DEVICE_HEADROOM_BYTES \<le> r"
    and "mt_total t = Some (known_bytes (mc_bytes (we_component w)) + known_bytes (mc_bytes (kv_component kv))
      + ov + r + margin_bytes (mt_margin t))"
    and "0 \<le> known_bytes (mc_bytes (we_component w)) + known_bytes (mc_bytes (kv_component kv)) \<longrightarrow>
      0 \<le> margin_bytes (mt_margin t)"
proof -
  let ?w = "mc_bytes (we_component w)" and ?kv = "mc_bytes (kv_component kv)"
  obtain reserve percent where h: "effective_headroom g cfg = (reserve, percent)" by force
  define oh where "oh = estimate_overhead ?w (if g then GGUF_OVERHEAD_BASE_BYTES else OVERHEAD_BASE_BYTES)
      (if g then GGUF_OVERHEAD_WEIGHT_FRACTION else OVERHEAD_WEIGHT_FRACTION)"
  have t: "t = totals_with ?w ?kv oh (device_reserve_component reserve) percent"
    using assms h by (simp add: memory_totals_of_def oh_def)
  obtain ov where ov: "mc_bytes (ro_component oh) = Some ov" "OVERHEAD_MIN_BYTES \<le> ov"
    using overhead_known unfolding oh_def by blast
  have r: "cfg_device_reserve_bytes cfg \<le> reserve" "g \<longrightarrow> GGUF_DEVICE_HEADROOM_BYTES \<le> reserve"
    using h by (auto simp: effective_headroom_def split: if_splits)
  let ?n = "known_bytes ?w + known_bytes ?kv + ov + max reserve 0"
  have margin: "mt_margin t = safety_margin_component (Some ?n) percent"
    by (simp add: t totals_with_def Let_def ov reserve_component_known sum_components_known)
  show ?thesis
  proof (rule that)
    show "mc_bytes (ro_component (mt_overhead t)) = Some ov" "OVERHEAD_MIN_BYTES \<le> ov"
      using ov by (simp_all add: t totals_with_def Let_def)
    show "mc_bytes (mt_reserve t) = Some (max reserve 0)"
      by (simp add: t totals_with_def Let_def reserve_component_known)
    show "mt_total t = Some (known_bytes ?w + known_bytes ?kv + ov + max reserve 0 + margin_bytes (mt_margin t))"
      by (simp add: t totals_with_def Let_def ov reserve_component_known sum_components_known
          margin_component_known)
    show "0 \<le> known_bytes ?w + known_bytes ?kv \<longrightarrow> 0 \<le> margin_bytes (mt_margin t)"
      unfolding margin using margin_nonneg ov(2) by (auto simp: OVERHEAD_MIN_BYTES_def MiB_def)
  qed (use r in auto)
qed


text \<open>What a returned estimate consists of.\<close>

lemma estimate_memory_parts:
  assumes "estimate_memory sdk reader cache a hw cfg resolve with_runtime c = (Inr e, c')"
  obtains choice en ws w kv t verdict
  where "t = memory_totals_of (primary_type (an_classification a) = REPO_GGUF) cfg w kv"
    and "assess_components_with_fit (assessed_of w kv t) hw (cfg_target_device cfg) = Inr verdict"
    and "e\<lparr>me_runtime_recommendation := None\<rparr> = preliminary_estimate a cfg choice en ws w kv t verdict"
    and "\<And>d. we_decomposition w = Some d \<Longrightarrow>
      weights_are_conserved d \<and> mc_bytes (we_component w) = Some (wd_total d)"
    and "\<And>r. me_runtime_recommendation e = Some r \<Longrightarrow>
      recommend_runtime (e\<lparr>me_runtime_recommendation := None\<rparr>) (primary_type (an_classification a)) = Inr r"
proof -
  from assms obtain w0 choice ws en where weighed: "estimate_weights a cfg sdk (an_warnings a) = Inr ((w0, choice), ws)"
    and fin: "finish_estimate a hw cfg with_runtime ((w0, choice), ws) en = Inr e"
    by (auto simp: estimate_memory_def split: sum.splits prod.splits)
  let ?effective = "pick_effective_config (an_config a) en"
  let ?gguf = "primary_type (an_classification a) = REPO_GGUF"
  obtain w kv verdict where w: "add_transformer_block_decomposition w0 ?effective = Inr w"
    and verdict: "assess_components_with_fit (assessed_of w kv (memory_totals_of ?gguf cfg w kv)) hw
        (cfg_target_device cfg) = Inr verdict"
    and e: "add_recommendation (primary_type (an_classification a)) with_runtime
        (preliminary_estimate a cfg choice en ws w kv (memory_totals_of ?gguf cfg w kv) verdict) = Inr e"
    using fin by (auto simp: finish_estimate_def estimate_with_def judge_estimate_def split: sum.splits)
  let ?p = "preliminary_estimate a cfg choice en ws w kv (memory_totals_of ?gguf cfg w kv) verdict"
  have p: "me_runtime_recommendation ?p = None" "?p\<lparr>me_runtime_recommendation := None\<rparr> = ?p"
    by (simp_all add: preliminary_estimate_def)
  show ?thesis
  proof (rule that [OF refl verdict])
    show "e\<lparr>me_runtime_recommendation := None\<rparr> = ?p"
      using e p by (auto simp: add_recommendation_def split: if_splits sum.splits)
    then show "recommend_runtime (e\<lparr>me_runtime_recommendation := None\<rparr>) (primary_type (an_classification a)) = Inr r"
      if "me_runtime_recommendation e = Some r" for r
      using e p that by (auto simp: add_recommendation_def split: if_splits sum.splits)
    show "weights_are_conserved d \<and> mc_bytes (we_component w) = Some (wd_total d)"
      if "we_decomposition w = Some d" for d
      using decomposed_weights(2) [OF w weighed_no_decomposition [OF weighed] that] .
  qed
qed


section \<open>The verdict is about the total\<close>

text \<open>Sizes for which the float arithmetic of the placement is exact enough; models are far smaller.\<close>

definition sane_sizes :: "memory_estimate \<Rightarrow> bool" where
  "sane_sizes e \<longleftrightarrow>
     0 \<le> known_bytes (mc_bytes (we_component (me_weights e))) \<and>
     0 \<le> known_bytes (mc_bytes (kv_component (me_kv_cache e))) \<and>
     known_bytes (me_total_bytes e) \<le> 2 ^ 52 \<and>
     list_all (\<lambda>n. known_bytes (mc_bytes (kv_component (me_kv_cache e))) * known_bytes n \<le> 2 ^ 51)
       [kv_layers (me_kv_cache e), map_option wd_blocks (we_decomposition (me_weights e))]"

text \<open>The components an estimate reports, as the placement reads them.\<close>

definition reported_components :: "memory_estimate \<Rightarrow> fit_components" where
  "reported_components e =
     \<lparr>fc_weights = known_bytes (mc_bytes (we_component (me_weights e))),
      fc_kv_cache = known_bytes (mc_bytes (kv_component (me_kv_cache e))),
      fc_overhead = known_bytes (mc_bytes (ro_component (me_overhead e))),
      fc_device_reserve = known_bytes (mc_bytes (me_device_reserve e)),
      fc_safety_margin = margin_bytes (me_safety_margin e)\<rparr>"

definition sized :: "memory_estimate \<Rightarrow> bool" where
  "sized e \<longleftrightarrow> mc_bytes (we_component (me_weights e)) \<noteq> None \<and> mc_bytes (kv_component (me_kv_cache e)) \<noteq> None"

definition total_of :: "fit_components \<Rightarrow> int" where
  "total_of c = fc_weights c + fc_kv_cache c + fc_overhead c + fc_device_reserve c + fc_safety_margin c"

lemma combined_confidence_least:
  "v \<in> set vs \<Longrightarrow> confidence_order (combined_confidence vs) \<le> confidence_order v"
  by (cases vs) (auto simp: combined_confidence_def intro: min_by_le)

lemma preliminary_estimate_fields [simp]:
  "me_weights (preliminary_estimate a cfg choice en ws w kv t verdict) = w"
  "me_kv_cache (preliminary_estimate a cfg choice en ws w kv t verdict) = kv"
  "me_overhead (preliminary_estimate a cfg choice en ws w kv t verdict) = mt_overhead t"
  "me_device_reserve (preliminary_estimate a cfg choice en ws w kv t verdict) = mt_reserve t"
  "me_safety_margin (preliminary_estimate a cfg choice en ws w kv t verdict) = mt_margin t"
  "me_total_bytes (preliminary_estimate a cfg choice en ws w kv t verdict) = mt_total t"
  "me_hardware_fit (preliminary_estimate a cfg choice en ws w kv t verdict) = snd verdict"
  "ca_status (me_assessment (preliminary_estimate a cfg choice en ws w kv t verdict)) = ca_status (fst verdict)"
  "ca_confidence (me_assessment (preliminary_estimate a cfg choice en ws w kv t verdict)) =
     combined_confidence [mc_confidence (we_component w), mc_confidence (kv_component kv),
       mc_confidence (ro_component (mt_overhead t)), ca_confidence (fst verdict)]"
  by (simp_all add: preliminary_estimate_def)

text \<open>The components handed to the placement satisfy what its theorems ask for.\<close>

lemma reported_analysis_inputs:
  assumes "t = memory_totals_of g cfg w kv" and "mt_total t = Some n" and "n \<le> 2 ^ 52"
    and "mc_bytes (we_component w) = Some wb" "0 \<le> wb" "mc_bytes (kv_component kv) = Some kb" "0 \<le> kb"
    and "\<And>n. Some n \<in> {kv_layers kv, map_option wd_blocks (we_decomposition w)} \<Longrightarrow> kb * n \<le> 2 ^ 51"
    and "\<And>d. we_decomposition w = Some d \<Longrightarrow> weights_are_conserved d"
    and "mc_bytes (ro_component (mt_overhead t)) = Some ov" and "mc_bytes (mt_reserve t) = Some r"
  shows "analysis_inputs \<lparr>fc_weights = wb, fc_kv_cache = kb, fc_overhead = ov, fc_device_reserve = r,
    fc_safety_margin = margin_bytes (mt_margin t)\<rparr> (kv_layers kv) None (we_decomposition w)"
proof -
  have "0 \<le> ov" "0 \<le> r" "0 \<le> margin_bytes (mt_margin t)" "n = wb + kb + ov + r + margin_bytes (mt_margin t)"
    by (rule totals_of_components [OF assms(1)];
        use assms in \<open>simp add: OVERHEAD_MIN_BYTES_def MiB_def\<close>)+
  then show ?thesis
    using assms(3,5,7,8,9) by (auto simp: analysis_inputs_def in_range_def split: option.split)
qed


lemma verdict_of_totals:
  assumes t: "t = memory_totals_of g cfg w kv" and tot: "mt_total t = Some n" "n \<le> 2 ^ 52"
    and w: "mc_bytes (we_component w) = Some wb" "0 \<le> wb"
    and kv: "mc_bytes (kv_component kv) = Some kb" "0 \<le> kb"
    and range: "\<And>n. Some n \<in> {kv_layers kv, map_option wd_blocks (we_decomposition w)} \<Longrightarrow> kb * n \<le> 2 ^ 51"
    and wd: "\<And>d. we_decomposition w = Some d \<Longrightarrow> weights_are_conserved d"
    and parts: "mc_bytes (ro_component (mt_overhead t)) = Some ov" "mc_bytes (mt_reserve t) = Some r"
    and verdict: "assess_components_with_fit (assessed_of w kv t) hw AUTO = Inr verdict"
  shows "\<exists>f. snd verdict = Some f \<and>
    accounts_for \<lparr>fc_weights = wb, fc_kv_cache = kb, fc_overhead = ov, fc_device_reserve = r,
      fc_safety_margin = margin_bytes (mt_margin t)\<rparr> f \<and> charges_parts f \<and>
    within_budgets (available_accelerator_memory_bytes hw) (mem_available_bytes (memory hw)) f \<and>
    consistent_status (hf_mode f) (ca_status (fst verdict))"
proof -
  let ?c = "\<lparr>fc_weights = wb, fc_kv_cache = kb, fc_overhead = ov, fc_device_reserve = r,
      fc_safety_margin = margin_bytes (mt_margin t)\<rparr>"
  have inputs: "analysis_inputs ?c (kv_layers kv) None (we_decomposition w)"
    by (rule reported_analysis_inputs [OF t tot w kv range wd parts])
  obtain f where f: "analyze_components ?c hw (kv_layers kv) None (we_decomposition w) = Inr f"
    and v: "verdict = (assessment_from_fit f AUTO, Some f)"
    using verdict w kv parts
    by (auto simp: assess_components_with_fit_def assessed_of_def opt_default_def split: sum.splits)
  obtain blocks where b: "resolve_block_count (fc_weights ?c) (kv_layers kv) None (we_decomposition w) = Inr blocks"
    using f by (auto simp: analyze_components_def split: sum.splits)
  show ?thesis
    using analyze_components_result [OF inputs b, of hw] summary_of_budgeted(1) [OF f, of AUTO] f v
    by auto
qed

text \<open>
  C21. An estimate is about its own total.  The total is exactly weights, KV cache, overhead,
  reserve and margin; for a GGUF repository the reserve includes the free gigabyte llama.cpp asks
  for.  If weights and KV cache are known and the device is automatic, a placement is attached
  that accounts for exactly the reported components within the budgets of the machine, and the
  status agrees with it; if one is unknown, the status is unknown and no runtime is recommended.
  The confidence is never above that of a component.
\<close>

theorem estimate_is_of_its_total:
  assumes "estimate_memory sdk reader cache a hw cfg resolve with_runtime c = (Inr e, c')"
    and "sane_sizes e"
  shows "me_total_bytes e = Some (total_of (reported_components e)) \<and>
    (primary_type (an_classification a) = REPO_GGUF \<longrightarrow>
       GGUF_DEVICE_HEADROOM_BYTES \<le> fc_device_reserve (reported_components e)) \<and>
    (sized e \<and> cfg_target_device cfg = AUTO \<longrightarrow>
       (\<exists>f. me_hardware_fit e = Some f \<and> accounts_for (reported_components e) f \<and> charges_parts f \<and>
          within_budgets (available_accelerator_memory_bytes hw) (mem_available_bytes (memory hw)) f \<and>
          consistent_status (hf_mode f) (ca_status (me_assessment e)))) \<and>
    (\<not> sized e \<longrightarrow> ca_status (me_assessment e) = STATUS_UNKNOWN \<and> me_hardware_fit e = None \<and>
       (\<forall>r. me_runtime_recommendation e = Some r \<longrightarrow> rr_runtime r = RUNTIME_UNKNOWN)) \<and>
    (\<forall>q \<in> {mc_confidence (we_component (me_weights e)), mc_confidence (kv_component (me_kv_cache e)),
        mc_confidence (ro_component (me_overhead e))}.
       confidence_order (ca_confidence (me_assessment e)) \<le> confidence_order q)"
proof -
  let ?g = "primary_type (an_classification a) = REPO_GGUF" and ?e = "e\<lparr>me_runtime_recommendation := None\<rparr>"
  obtain choice en ws w kv t verdict where t: "t = memory_totals_of ?g cfg w kv"
    and verdict: "assess_components_with_fit (assessed_of w kv t) hw (cfg_target_device cfg) = Inr verdict"
    and e: "?e = preliminary_estimate a cfg choice en ws w kv t verdict"
    and wd: "\<And>d. we_decomposition w = Some d \<Longrightarrow>
      weights_are_conserved d \<and> mc_bytes (we_component w) = Some (wd_total d)"
    and rt: "\<And>r. me_runtime_recommendation e = Some r \<Longrightarrow>
      recommend_runtime ?e (primary_type (an_classification a)) = Inr r"
    by (rule estimate_memory_parts [OF assms(1)]) blast
  obtain ov r where parts: "mc_bytes (ro_component (mt_overhead t)) = Some ov" "mc_bytes (mt_reserve t) = Some r"
    and head: "?g \<longrightarrow> GGUF_DEVICE_HEADROOM_BYTES \<le> r"
    and tot: "mt_total t = Some (known_bytes (mc_bytes (we_component w)) +
      known_bytes (mc_bytes (kv_component kv)) + ov + r + margin_bytes (mt_margin t))"
    by (rule totals_of_components [OF t]) blast
  have fields: "me_weights e = w" "me_kv_cache e = kv" "me_overhead e = mt_overhead t"
    "me_device_reserve e = mt_reserve t" "me_safety_margin e = mt_margin t" "me_total_bytes e = mt_total t"
    "me_hardware_fit e = snd verdict" "ca_status (me_assessment e) = ca_status (fst verdict)"
    "ca_confidence (me_assessment e) = combined_confidence
      [mc_confidence (we_component w), mc_confidence (kv_component kv),
       mc_confidence (ro_component (mt_overhead t)), ca_confidence (fst verdict)]"
    using e [THEN arg_cong, of me_weights] e [THEN arg_cong, of me_kv_cache] e [THEN arg_cong, of me_overhead]
      e [THEN arg_cong, of me_device_reserve] e [THEN arg_cong, of me_safety_margin]
      e [THEN arg_cong, of me_total_bytes] e [THEN arg_cong, of me_hardware_fit]
      e [THEN arg_cong, of me_assessment]
    by (simp_all add: preliminary_estimate_def)
  have placed: "\<exists>f. snd verdict = Some f \<and> accounts_for (reported_components e) f \<and> charges_parts f \<and>
      within_budgets (available_accelerator_memory_bytes hw) (mem_available_bytes (memory hw)) f \<and>
      consistent_status (hf_mode f) (ca_status (fst verdict))"
    if sized: "sized e" and auto: "cfg_target_device cfg = AUTO"
  proof -
    obtain wb kb where b: "mc_bytes (we_component w) = Some wb" "mc_bytes (kv_component kv) = Some kb"
      using sized by (auto simp: sized_def fields)
    have "\<exists>f. snd verdict = Some f \<and>
        accounts_for \<lparr>fc_weights = wb, fc_kv_cache = kb, fc_overhead = ov, fc_device_reserve = r,
          fc_safety_margin = margin_bytes (mt_margin t)\<rparr> f \<and> charges_parts f \<and>
        within_budgets (available_accelerator_memory_bytes hw) (mem_available_bytes (memory hw)) f \<and>
        consistent_status (hf_mode f) (ca_status (fst verdict))"
      using assms(2) verdict auto tot
      by (intro verdict_of_totals [OF t tot _ b(1) _ b(2) _ _ _ parts])
        (use wd in \<open>auto simp: sane_sizes_def fields b dest!: sym [of "Some _"]\<close>)
    then show ?thesis by (simp add: reported_components_def fields b parts)
  qed
  have missing: "ca_status (fst verdict) = STATUS_UNKNOWN \<and> snd verdict = None" if "\<not> sized e"
    using missing_component_is_unknown [of "assessed_of w kv t" hw "cfg_target_device cfg" "fst verdict" "snd verdict"]
      verdict that
    by (auto simp: sized_def fields assessed_of_def)
  have silent: "rr_runtime x = RUNTIME_UNKNOWN"
    if "ca_status (fst verdict) = STATUS_UNKNOWN" "me_runtime_recommendation e = Some x" for x
    using rt [OF that(2)] that(1) by (simp add: recommend_runtime_def no_runtime_def e) auto
  show ?thesis
    using placed missing silent head
    by (simp add: fields tot total_of_def reported_components_def parts combined_confidence_least)
qed


definition example_inference :: "weight_precision option \<Rightarrow> inference_configuration" where
  "example_inference precision =
     \<lparr>cfg_context_length = 8192, cfg_batch_size = 1, cfg_target_device = AUTO, cfg_precision = precision,
      cfg_quantization = None, cfg_kv_cache_dtype = FLOAT16,
      cfg_safety_margin_percent = SAFETY_MARGIN_DEFAULT_PERCENT, cfg_device_reserve_bytes = 0,
      cfg_concurrent_users = 1\<rparr>"

definition files_only_sdk :: hub_sdk where
  "files_only_sdk =
     \<lparr>sdk_model_info = (\<lambda>_ _. Inl SdkRepositoryNotFound), sdk_download = (\<lambda>_ _. Inl SdkEntryNotFound),
      sdk_safetensors = (\<lambda>_. Inl SdkNotSafetensors)\<rparr>"

definition example_run :: "int \<Rightarrow> service_error + memory_estimate" where
  "example_run vram =
     fst (estimate_memory files_only_sdk None None example_model_analysis (example_hardware vram 7593828352)
       (example_inference None) True True ())"

lemma example_run_result:
  "map_sum id (\<lambda>e. (sane_sizes e, sized e, me_total_bytes e, ca_status (me_assessment e)))
     (example_run 24000000000) = Inr (True, True, Some 11997296282, COMFORTABLE)"
  by code_simp

lemma estimate_is_of_its_total_witness:
  "\<exists>e f. example_run 24000000000 = Inr e \<and> me_total_bytes e = Some 11997296282 \<and>
     total_of (reported_components e) = 11997296282 \<and> me_hardware_fit e = Some f \<and>
     accounts_for (reported_components e) f \<and> hf_mode f \<noteq> TOO_LARGE"
proof -
  obtain e where e: "example_run 24000000000 = Inr e" and x: "sane_sizes e" "sized e"
    "me_total_bytes e = Some 11997296282" "ca_status (me_assessment e) = COMFORTABLE"
    using map_sum_Inr [OF example_run_result] by auto
  obtain c' where "estimate_memory files_only_sdk None None example_model_analysis
      (example_hardware 24000000000 7593828352) (example_inference None) True True () = (Inr e, c')"
    using e by (metis example_run_def prod.collapse)
  from estimate_is_of_its_total [OF this x(1)] x e show ?thesis
    by (auto simp: example_inference_def)
qed

end
