(* ===== verification/Py_Arith.thy ===== *)
theory Py_Arith
  imports Py_Text "HOL-Library.Product_Lexorder"
begin

text \<open>
  Addition of floats and what the sources build on it: the built-in \<^verbatim>\<open>sum\<close> of floats (compensated
  since Python 3.12, the oldest version the program supports), \<^verbatim>\<open>round(x, k)\<close>, and clamping to the
  unit interval.  Each operation is the exact result rounded once, as in \<open>Py_Float\<close>.
\<close>

section \<open>Addition\<close>

fun float_add :: "py_float \<Rightarrow> py_float \<Rightarrow> py_float" where
  "float_add (PyFloat m e) (PyFloat m' e') =
     (let l = min e e' in
      round_ratio ((m * 2 ^ nat (e - l) + m' * 2 ^ nat (e' - l)) * 2 ^ nat l) (2 ^ nat (- l)))"

definition float_minus :: "py_float \<Rightarrow> py_float \<Rightarrow> py_float" where
  "float_minus x y = float_add x (float_neg y)"

definition float_abs :: "py_float \<Rightarrow> py_float" where
  "float_abs x = PyFloat \<bar>mantissa x\<bar> (exponent x)"

definition float_zero :: py_float where
  "float_zero = PyFloat 0 0"

definition float_one :: py_float where
  "float_one = PyFloat 1 0"

text \<open>\<^verbatim>\<open>min(x, y)\<close>: the first of two equal arguments is returned.\<close>

definition float_min :: "py_float \<Rightarrow> py_float \<Rightarrow> py_float" where
  "float_min x y = (if float_less y x then y else x)"

definition float_clamp :: "py_float \<Rightarrow> py_float" where
  "float_clamp x = float_max float_zero (float_min float_one x)"

text \<open>\<^verbatim>\<open>sum\<close> of floats: Neumaier's compensated summation.\<close>

definition compensated_add :: "py_float \<times> py_float \<Rightarrow> py_float \<Rightarrow> py_float \<times> py_float" where
  "compensated_add acc x =
     (case acc of (hi, lo) \<Rightarrow>
        let t = float_add hi x in
        (t, float_add lo
          (if float_le (float_abs x) (float_abs hi) then float_add (float_minus hi t) x
           else float_add (float_minus x t) hi)))"

definition float_sum :: "py_float list \<Rightarrow> py_float" where
  "float_sum xs =
     (case xs of
        [] \<Rightarrow> float_zero
      | y # ys \<Rightarrow>
        (case foldl compensated_add (y, float_zero) ys of
           (hi, lo) \<Rightarrow> if mantissa lo = 0 then hi else float_add hi lo))"

text \<open>\<^verbatim>\<open>round(x, k)\<close>: the nearest decimal with \<open>k\<close> digits, ties to even, read back as a float.\<close>

definition float_round :: "nat \<Rightarrow> py_float \<Rightarrow> py_float" where
  "float_round k x =
     round_ratio ((if mantissa x < 0 then -1 else 1) * scaled_decimal k x) (10 ^ k)"

text \<open>A float as a rational number, for comparisons inside sort keys.\<close>

definition float_rat :: "py_float \<Rightarrow> rat" where
  "float_rat x = Fract (mantissa x * 2 ^ nat (exponent x)) (2 ^ nat (- exponent x))"

section \<open>Values\<close>

lemma float_value_zero [simp]: "float_value float_zero = 0" and float_value_one [simp]: "float_value float_one = 1"
  by (simp_all add: float_zero_def float_one_def)

lemma value_float_add: "float_value (float_add x y) = rnd (float_value x + float_value y)"
proof (cases x; cases y)
  fix m e m' e' assume xy: "x = PyFloat m e" "y = PyFloat m' e'"
  let ?l = "min e e'"
  have up: "real_of_int m * 2 powr real_of_int e = real_of_int (m * 2 ^ nat (e - l)) * 2 powr real_of_int l"
    if "l \<le> e" for m e l
  proof -
    have "2 powr real_of_int e = 2 powr real_of_int (e - l) * 2 powr real_of_int l"
      by (simp flip: powr_add)
    also have "2 powr real_of_int (e - l) = 2 ^ nat (e - l)"
      using that two_powr_split [of "e - l"] by (simp del: of_int_diff)
    finally show ?thesis by simp
  qed
  have "float_value x + float_value y =
      real_of_int (m * 2 ^ nat (e - ?l) + m' * 2 ^ nat (e' - ?l)) * 2 powr real_of_int ?l"
    unfolding xy float_value_PyFloat of_int_add distrib_right
    by (rule arg_cong2 [where f = "(+)"]; rule up; simp)
  also have "\<dots> = real_of_int ((m * 2 ^ nat (e - ?l) + m' * 2 ^ nat (e' - ?l)) * 2 ^ nat ?l)
      / real_of_int (2 ^ nat (- ?l))"
    unfolding two_powr_split by (simp add: field_simps)
  finally show ?thesis
    by (simp add: xy Let_def value_round_ratio del: of_int_add of_int_mult of_int_power)
qed

lemma float_value_abs [simp]: "float_value (float_abs x) = \<bar>float_value x\<bar>"
  by (cases x) (simp add: float_abs_def abs_mult)

lemma float_less_iff: "float_less x y \<longleftrightarrow> float_value x < float_value y"
  by (auto simp: float_less_def float_le_iff)

lemma float_value_max: "float_value (float_max x y) = max (float_value x) (float_value y)"
  by (auto simp: float_max_def float_less_iff)

lemma float_value_min: "float_value (float_min x y) = min (float_value x) (float_value y)"
  by (auto simp: float_min_def float_less_iff)

lemma float_value_clamp: "float_value (float_clamp x) = max 0 (min 1 (float_value x))"
  by (simp add: float_clamp_def float_value_max float_value_min)

lemma float_clamp_bounds: "0 \<le> float_value (float_clamp x)" "float_value (float_clamp x) \<le> 1"
  by (simp_all add: float_value_clamp)

lemma of_rat_float: "of_rat (float_rat x) = float_value x"
proof -
  have "of_rat (float_rat x) = real_of_int (mantissa x * 2 ^ nat (exponent x)) / real_of_int (2 ^ nat (- exponent x))"
    by (simp add: float_rat_def of_rat_rat)
  also have "\<dots> = real_of_int (mantissa x) * 2 powr real_of_int (exponent x)"
    unfolding two_powr_split by simp
  finally show ?thesis by (simp add: float_value_def)
qed

lemma float_rat_le: "float_rat x \<le> float_rat y \<longleftrightarrow> float_value x \<le> float_value y"
  by (metis of_rat_float of_rat_less_eq)

lemma rnd_nonneg: "0 \<le> x \<Longrightarrow> 0 \<le> rnd x"
  using rnd_mono [of 0 x] by (simp add: rnd_def)

lemma rnd_le_one: "x \<le> 1 \<Longrightarrow> rnd x \<le> 1"
  using rnd_mono [of x 1] rnd_int [of 1] by simp

lemma float_mult_zero: "float_value x = 0 \<or> float_value y = 0 \<Longrightarrow> float_value (float_mult x y) = 0"
  by (auto simp: value_float_mult rnd_def)

end
