(* ===== verification/Candidates.thy ===== *)
theory Candidates
  imports Py_Arith Runtime_Advice Configuration
begin

text \<open>
  The candidates of a recommendation: their records (\<^verbatim>\<open>domain/candidates.py\<close>,
  \<^verbatim>\<open>domain/parameters.py\<close>), the licence categories (\<^verbatim>\<open>domain/licenses.py\<close>), the tables of the ranking
  (\<^verbatim>\<open>domain/policies.py\<close>, \<^verbatim>\<open>recommendation/policies.py\<close>), and the classification of the artifact behind
  a candidate (\<^verbatim>\<open>estimator/artifact_analysis.py\<close>).
\<close>

section \<open>Records\<close>

datatype parameter_count_source =
    SAFETENSORS_METADATA | MODEL_CONFIG_SOURCE | GGUF_METADATA_SOURCE | NAME_INFERENCE | COUNT_SOURCE_UNKNOWN

record parameter_count =
  pc_count :: "int option"
  pc_source :: parameter_count_source
  pc_confidence :: estimation_confidence

definition count_is_known :: "parameter_count \<Rightarrow> bool" where
  "count_is_known p \<longleftrightarrow> (case pc_count p of None \<Rightarrow> False | Some n \<Rightarrow> 0 < n)"

datatype gated_value = GatedBool bool | GatedText string

record model_candidate =
  cd_repo_id :: string
  cd_pipeline_tag :: "string option"
  cd_library_name :: "string option"
  cd_license :: "string option"
  cd_languages :: "string list"
  cd_tags :: "string list"
  cd_downloads :: int
  cd_likes :: int
  cd_gated :: gated_value
  cd_private :: bool
  cd_repository_type :: "repository_type option"
  cd_base_model_repo_id :: "string option"
  cd_revision_hint :: "string option"
  cd_last_modified :: "string option"
  cd_source_queries :: "string list"
  cd_metadata_confidence :: estimation_confidence
  cd_penalties :: "string list"

text \<open>\<^verbatim>\<open>a or b\<close> on an optional text and on a list.\<close>

definition text_or :: "string option \<Rightarrow> string option \<Rightarrow> string option" where
  "text_or a b = (case a of Some s \<Rightarrow> if s = [] then b else Some s | None \<Rightarrow> b)"

definition list_or :: "'a list \<Rightarrow> 'a list \<Rightarrow> 'a list" where
  "list_or a b = (if a = [] then b else a)"

definition merged_with :: "model_candidate \<Rightarrow> model_candidate \<Rightarrow> model_candidate" where
  "merged_with a b =
     a\<lparr>cd_source_queries :=
          foldl (\<lambda>qs q. if q \<in> set qs then qs else qs @ [q]) (cd_source_queries a) (cd_source_queries b),
       cd_license := text_or (cd_license a) (cd_license b),
       cd_pipeline_tag := text_or (cd_pipeline_tag a) (cd_pipeline_tag b),
       cd_library_name := text_or (cd_library_name a) (cd_library_name b),
       cd_languages := list_or (cd_languages a) (cd_languages b),
       cd_tags := list_or (cd_tags a) (cd_tags b),
       cd_downloads := max (cd_downloads a) (cd_downloads b),
       cd_likes := max (cd_likes a) (cd_likes b),
       cd_revision_hint := text_or (cd_revision_hint a) (cd_revision_hint b),
       cd_last_modified := opt_or (cd_last_modified a) (cd_last_modified b)\<rparr>"

record evaluated_candidate =
  ev_candidate :: model_candidate
  ev_analysis :: "model_analysis option"
  ev_configuration :: "inference_configuration option"
  ev_memory_estimate :: "memory_estimate option"
  ev_compatibility :: "compatibility_assessment option"
  ev_configuration_reason :: "string option"
  ev_alternatives :: "string list"
  ev_task_match :: py_float
  ev_language_match :: py_float
  ev_hardware_fit :: py_float
  ev_memory_fit :: py_float
  ev_concurrency_fit :: py_float
  ev_capability :: py_float
  ev_artifact_realism :: py_float
  ev_license_score :: py_float
  ev_metadata_quality :: py_float
  ev_popularity :: py_float
  ev_warnings :: "string list"
  ev_failed :: bool
  ev_requirement_penalty :: py_float
  ev_unmet_labels :: "string list"
  ev_parameter_count :: "parameter_count option"
  ev_artifact :: "artifact_profile option"
  ev_runtime :: "runtime_assessment option"

definition ev_repo_id :: "evaluated_candidate \<Rightarrow> string" where
  "ev_repo_id e = cd_repo_id (ev_candidate e)"

section \<open>Licences\<close>

datatype license_category = COMMERCIAL_ALLOWED | COMMERCIAL_RESTRICTED | LICENSE_UNKNOWN

definition PERMISSIVE_LICENSES :: "string list" where
  "PERMISSIVE_LICENSES =
     [''apache-2.0'', ''mit'', ''bsd'', ''bsd-2-clause'', ''bsd-3-clause'', ''cc-by-4.0'', ''cc0-1.0'', ''gemma'',
      ''isc'', ''mpl-2.0'', ''openrail'', ''unlicense'', ''zlib'']"

definition RESTRICTED_LICENSES :: "string list" where
  "RESTRICTED_LICENSES =
     [''cc-by-nc-2.0'', ''cc-by-nc-3.0'', ''cc-by-nc-4.0'', ''cc-by-nc-nd-4.0'', ''cc-by-nc-sa-4.0'',
      ''creativeml-openrail-m'', ''gpl-3.0'', ''agpl-3.0'']"

definition classify_license :: "string option \<Rightarrow> license_category" where
  "classify_license license =
     (case license of
        None \<Rightarrow> LICENSE_UNKNOWN
      | Some s \<Rightarrow>
        if s = [] then LICENSE_UNKNOWN
        else
          let n = lower (strip s) in
          if n \<in> set PERMISSIVE_LICENSES then COMMERCIAL_ALLOWED
          else if n \<in> set RESTRICTED_LICENSES then COMMERCIAL_RESTRICTED
          else if startswith n ''cc-by-nc'' then COMMERCIAL_RESTRICTED
          else LICENSE_UNKNOWN)"

section \<open>Tables of the ranking\<close>

fun STATUS_RANK :: "compatibility_status \<Rightarrow> int" where
  "STATUS_RANK COMFORTABLE = 0"
| "STATUS_RANK COMPATIBLE = 1"
| "STATUS_RANK TIGHT = 2"
| "STATUS_RANK OFFLOADING_REQUIRED = 3"
| "STATUS_RANK STATUS_UNKNOWN = 4"
| "STATUS_RANK INSUFFICIENT = 5"

text \<open>Decimal literals are rounded to floats when the program is read.\<close>

definition hundredths :: "int \<Rightarrow> py_float" where
  "hundredths n = round_ratio n 100"

fun STATUS_FIT_SCORE :: "compatibility_status \<Rightarrow> py_float" where
  "STATUS_FIT_SCORE COMFORTABLE = hundredths 100"
| "STATUS_FIT_SCORE COMPATIBLE = hundredths 85"
| "STATUS_FIT_SCORE TIGHT = hundredths 55"
| "STATUS_FIT_SCORE OFFLOADING_REQUIRED = hundredths 30"
| "STATUS_FIT_SCORE STATUS_UNKNOWN = hundredths 20"
| "STATUS_FIT_SCORE INSUFFICIENT = hundredths 0"

definition BASE_WEIGHTS :: "(string, py_float) dict" where
  "BASE_WEIGHTS =
     [(''memory_fit'', hundredths 25), (''concurrency_fit'', hundredths 10), (''capability'', hundredths 15),
      (''task_match'', hundredths 20), (''language_match'', hundredths 12), (''license'', hundredths 8),
      (''metadata_quality'', hundredths 7), (''popularity'', hundredths 3)]"

fun PRIORITY_MODIFIERS :: "recommendation_priority \<Rightarrow> (string, py_float) dict" where
  "PRIORITY_MODIFIERS QUALITY =
     [(''task_match'', hundredths 140), (''capability'', hundredths 140), (''memory_fit'', hundredths 85)]"
| "PRIORITY_MODIFIERS BALANCED = []"
| "PRIORITY_MODIFIERS SPEED =
     [(''memory_fit'', hundredths 130), (''concurrency_fit'', hundredths 130), (''popularity'', hundredths 80)]"
| "PRIORITY_MODIFIERS MEMORY =
     [(''memory_fit'', hundredths 150), (''concurrency_fit'', hundredths 130), (''task_match'', hundredths 85)]"

fun CONFIDENCE_SCORE :: "estimation_confidence \<Rightarrow> py_float" where
  "CONFIDENCE_SCORE CONF_HIGH = hundredths 100"
| "CONFIDENCE_SCORE CONF_MEDIUM = hundredths 70"
| "CONFIDENCE_SCORE CONF_LOW = hundredths 40"
| "CONFIDENCE_SCORE CONF_UNKNOWN = hundredths 15"

fun CONFIDENCE_MULTIPLIER :: "estimation_confidence \<Rightarrow> py_float" where
  "CONFIDENCE_MULTIPLIER CONF_HIGH = hundredths 100"
| "CONFIDENCE_MULTIPLIER CONF_MEDIUM = hundredths 92"
| "CONFIDENCE_MULTIPLIER CONF_LOW = hundredths 78"
| "CONFIDENCE_MULTIPLIER CONF_UNKNOWN = hundredths 55"

definition WORST_PRIMARY_STATUS :: compatibility_status where
  "WORST_PRIMARY_STATUS = OFFLOADING_REQUIRED"

definition has_confirmed_memory_compatibility :: "compatibility_status \<Rightarrow> bool" where
  "has_confirmed_memory_compatibility s \<longleftrightarrow> s \<in> {COMFORTABLE, COMPATIBLE, TIGHT, OFFLOADING_REQUIRED}"

fun LICENSE_SCORE :: "license_category \<Rightarrow> py_float" where
  "LICENSE_SCORE COMMERCIAL_ALLOWED = hundredths 100"
| "LICENSE_SCORE LICENSE_UNKNOWN = hundredths 45"
| "LICENSE_SCORE COMMERCIAL_RESTRICTED = hundredths 10"

definition REAL_QUANT_TAGS :: "string list" where
  "REAL_QUANT_TAGS =
     [''bnb-4bit'', ''bnb-8bit'', ''gptq'', ''awq'', ''compressed-tensors'', ''int4'', ''4-bit'', ''8-bit'']"

section \<open>The artifact behind a candidate\<close>

definition has_tag :: "string list \<Rightarrow> string list \<Rightarrow> bool" where
  "has_tag tags tokens \<longleftrightarrow> list_ex (\<lambda>t. lower t \<in> set tokens) tags"

definition detect_from_config ::
  "model_analysis option \<Rightarrow> (artifact_format \<times> string option \<times> string) option" where
  "detect_from_config a =
     (case Option.bind a an_config of
        None \<Rightarrow> None
      | Some c \<Rightarrow>
        (case quantization_config c of
           None \<Rightarrow> None
         | Some q \<Rightarrow>
           let m = (case first_truthy q [''quant_method'', ''quantization_method''] of
                 None \<Rightarrow> [] | Some v \<Rightarrow> if truthy v then lower (text_of_obj v) else []);
               quant = map_option (\<lambda>b. ''int'' @ show_int b) (packed_quantization_bits (Some c)) in
           if contains m ''awq'' then
             Some (ART_AWQ, quant, ''config.json declares an AWQ quantization_config.'')
           else if contains m ''gptq'' then
             Some (ART_GPTQ, quant, ''config.json declares a GPTQ quantization_config.'')
           else if contains m ''bitsandbytes'' \<or> contains m ''bnb'' then
             Some (ART_BITSANDBYTES, quant, ''config.json declares a bitsandbytes quantization_config.'')
           else if contains m ''compressed-tensors'' \<or> contains m ''compressed_tensors'' then
             Some (ART_COMPRESSED_TENSORS, quant,
               ''config.json declares a compressed-tensors quantization_config.'')
           else None))"

definition detect_from_tags ::
  "model_candidate \<Rightarrow> model_analysis option \<Rightarrow> (artifact_format \<times> string) option" where
  "detect_from_tags c a =
     (let tags = cd_tags c @ (case a of None \<Rightarrow> [] | Some x \<Rightarrow> repo_tags (an_repo x));
          name = lower (cd_repo_id c) in
      if has_tag tags [''awq''] \<or> endswith name ''-awq'' \<or> contains name ''-awq-'' then
        Some (ART_AWQ, ''Repository name/tags advertise an AWQ artifact.'')
      else if has_tag tags [''gptq''] \<or> endswith name ''-gptq'' \<or> contains name ''-gptq-'' then
        Some (ART_GPTQ, ''Repository name/tags advertise a GPTQ artifact.'')
      else if has_tag tags [''bnb-4bit'', ''bnb-8bit'', ''bitsandbytes''] then
        Some (ART_BITSANDBYTES, ''Repository tags advertise a bitsandbytes artifact.'')
      else if has_tag tags [''compressed-tensors''] then
        Some (ART_COMPRESSED_TENSORS, ''Repository tags advertise a compressed-tensors artifact.'')
      else None)"

definition profile ::
  "artifact_format \<Rightarrow> string option \<Rightarrow> artifact_confirmation \<Rightarrow> string \<Rightarrow> artifact_profile" where
  "profile f q confirmation reason =
     \<lparr>ap_format = f, ap_quantization = q, ap_confirmation = confirmation, ap_reasons = [reason]\<rparr>"

definition profile_of_precision ::
  "model_analysis option \<Rightarrow> weight_precision option \<Rightarrow> artifact_profile" where
  "profile_of_precision a precision =
     (case precision of
        Some p \<Rightarrow>
          if p \<in> THEORETICAL_DTYPES then
            profile ART_UNKNOWN (Some (precision_value p)) ART_THEORETICAL
              (precision_value p @ '' is a theoretical estimate: no pre-quantized '' @
               ''artifact was found for this repository.'')
          else
            profile ART_NATIVE (Some (precision_value p)) ART_CONFIRMED
              (''Loaded at native precision '' @ precision_value p @ '' (repository '' @
               ''publishes weights at this dtype).'')
      | None \<Rightarrow>
          if map_option (\<lambda>x. primary_type (an_classification x)) a = Some REPO_TRANSFORMERS then
            profile ART_NATIVE None ART_CONFIRMED ''Repository publishes native Transformers weights.''
          else
            profile ART_UNKNOWN None ART_CONFIRMATION_UNKNOWN ''No confirmable artifact metadata was found.'')"

definition analyze_artifact ::
  "model_candidate \<Rightarrow> model_analysis option \<Rightarrow> inference_configuration option \<Rightarrow> artifact_profile" where
  "analyze_artifact c a cfg =
     (case text_or (Option.bind cfg cfg_quantization) None of
        Some q \<Rightarrow>
          profile ART_GGUF (Some q) ART_CONFIRMED
            (''GGUF variant '' @ repr_str q @ '' exists in the '' @ ''repository.'')
      | None \<Rightarrow>
        (case detect_from_config a of
           Some (f, q, note) \<Rightarrow> profile f q ART_CONFIRMED note
         | None \<Rightarrow>
           (case detect_from_tags c a of
              Some (f, note) \<Rightarrow> profile f None ART_INFERRED note
            | None \<Rightarrow> profile_of_precision a (Option.bind cfg cfg_precision))))"

end
