(* ===== verification/Scoring.thy ===== *)
theory Scoring
  imports Candidates
begin

text \<open>
  The sub-scores of a candidate (\<^verbatim>\<open>recommendation/scoring.py\<close>), the hard requirements
  (\<^verbatim>\<open>recommendation/requirements_gate.py\<close>), whether a candidate would run
  (\<^verbatim>\<open>recommendation/actionability.py\<close>), and the heading it may carry (\<^verbatim>\<open>recommendation/tier.py\<close>).
  The logarithm of the C library is a parameter of the popularity score.
\<close>

section \<open>Signals in names and tags\<close>

text \<open>The maximal runs of characters that satisfy a predicate: \<^verbatim>\<open>re.split\<close> without empty parts.\<close>

function runs :: "(char \<Rightarrow> bool) \<Rightarrow> string \<Rightarrow> string list" where
  "runs P [] = []"
| "runs P (c # cs) =
     (if P c then (c # takeWhile P cs) # runs P (dropWhile P cs) else runs P cs)"
  by pat_completeness auto
termination
  by (relation "measure (length \<circ> snd)") (auto simp: le_imp_less_Suc length_dropWhile_le)

definition is_token_char :: "char \<Rightarrow> bool" where
  "is_token_char c \<longleftrightarrow> is_alnum c \<or> c = CHR ''.''"

definition underscores_to_dashes :: "string \<Rightarrow> string" where
  "underscores_to_dashes s = map (\<lambda>c. if c = CHR ''_'' then CHR ''-'' else c) s"

definition value_tokens :: "string \<Rightarrow> string list" where
  "value_tokens v =
     (let n = lower (strip v) in
      if n = [] then [] else [n, underscores_to_dashes n] @ runs is_token_char n)"

definition last_segment :: "string \<Rightarrow> string" where
  "last_segment r = last (split_on (CHR ''/'') r)"

text \<open>A set of tokens, as a list.\<close>

definition candidate_tokens :: "model_candidate \<Rightarrow> string list" where
  "candidate_tokens c =
     concat (map value_tokens
       ([last_segment (cd_repo_id c), opt_default (cd_pipeline_tag c) [], opt_default (cd_library_name c) []] @
        cd_tags c))"

definition has_signal :: "string list \<Rightarrow> string \<Rightarrow> bool" where
  "has_signal tokens signal \<longleftrightarrow>
     lower signal \<in> set tokens \<or> underscores_to_dashes (lower signal) \<in> set tokens"

text \<open>
  The keyword tables have no entry for the legacy use case \<^verbatim>\<open>BATCH_PROCESSING\<close>, which the
  requirements normalise away on load; a lookup would raise, which is \<open>None\<close> here.
\<close>

fun USE_CASE_KEYWORDS :: "use_case \<Rightarrow> string list option" where
  "USE_CASE_KEYWORDS GENERAL_CHAT = Some [''instruct'', ''chat'', ''assistant'', ''conversational'']"
| "USE_CASE_KEYWORDS CODING = Some [''coder'', ''code'', ''programming'', ''starcoder'', ''codellama'', ''dev'']"
| "USE_CASE_KEYWORDS DOCUMENT_QA = Some [''instruct'', ''long-context'', ''longcontext'', ''qa'', ''rag'', ''chat'']"
| "USE_CASE_KEYWORDS SUMMARIZATION_EXTRACTION =
     Some [''summarization'', ''summary'', ''extraction'', ''extract'', ''instruct'']"
| "USE_CASE_KEYWORDS REASONING = Some [''reasoning'', ''math'', ''logic'', ''problem'', ''instruct'']"
| "USE_CASE_KEYWORDS WRITING_TRANSLATION =
     Some [''instruct'', ''translation'', ''translate'', ''multilingual'', ''writing'', ''nllb'', ''opus-mt'']"
| "USE_CASE_KEYWORDS BATCH_PROCESSING = None"

fun STRONG_KEYWORDS :: "use_case \<Rightarrow> string list" where
  "STRONG_KEYWORDS GENERAL_CHAT = [''chat'', ''assistant'', ''conversational'']"
| "STRONG_KEYWORDS CODING = [''coder'', ''code'']"
| "STRONG_KEYWORDS DOCUMENT_QA = [''long-context'', ''longcontext'', ''rag'']"
| "STRONG_KEYWORDS SUMMARIZATION_EXTRACTION = [''summarization'', ''extraction'']"
| "STRONG_KEYWORDS REASONING = [''reasoning'', ''math'']"
| "STRONG_KEYWORDS WRITING_TRANSLATION = [''translation'', ''multilingual'']"
| "STRONG_KEYWORDS BATCH_PROCESSING = []"

fun NEGATIVE_KEYWORDS :: "use_case \<Rightarrow> string list" where
  "NEGATIVE_KEYWORDS GENERAL_CHAT = [''coder'', ''starcoder'']"
| "NEGATIVE_KEYWORDS DOCUMENT_QA = [''coder'']"
| "NEGATIVE_KEYWORDS SUMMARIZATION_EXTRACTION = [''coder'']"
| "NEGATIVE_KEYWORDS WRITING_TRANSLATION = [''coder'']"
| "NEGATIVE_KEYWORDS _ = []"

definition count_signals :: "string list \<Rightarrow> string list \<Rightarrow> int" where
  "count_signals tokens ws = int (length (filter (has_signal tokens) ws))"

definition task_score :: "string list \<Rightarrow> use_case \<Rightarrow> string list \<Rightarrow> py_float" where
  "task_score tokens u keywords =
     (let hits = count_signals tokens keywords in
      if hits = 0 then hundredths 25
      else
        float_min float_one
          (float_add
            (float_add (hundredths 45) (float_mult (hundredths 18) (float_of_int hits)))
            (float_mult (hundredths 15) (float_of_int (count_signals tokens (STRONG_KEYWORDS u))))))"

definition TEXT_GENERATION_PIPELINE :: string where
  "TEXT_GENERATION_PIPELINE = ''text-generation''"

definition adjusted_task_score :: "string list \<Rightarrow> use_case \<Rightarrow> model_candidate \<Rightarrow> py_float \<Rightarrow> py_float" where
  "adjusted_task_score tokens u c score =
     (let s = (if cd_pipeline_tag c = Some TEXT_GENERATION_PIPELINE
               then float_min float_one (float_add score (hundredths 10)) else score) in
      float_clamp
        (if list_ex (has_signal tokens) (NEGATIVE_KEYWORDS u) then float_mult s (hundredths 50) else s))"

definition task_match :: "model_candidate \<Rightarrow> user_requirements \<Rightarrow> py_float option" where
  "task_match c req =
     (let tokens = candidate_tokens c; u = ur_use_case req in
      map_option (\<lambda>keywords. adjusted_task_score tokens u c (task_score tokens u keywords))
        (USE_CASE_KEYWORDS u))"

definition ADEQUATE_CAPABILITY_SCORE :: py_float where
  "ADEQUATE_CAPABILITY_SCORE = hundredths 55"

definition ADEQUATE_TASK_MATCH :: py_float where
  "ADEQUATE_TASK_MATCH = hundredths 45"

definition INSTRUCTION_SIGNALS :: "string list" where
  "INSTRUCTION_SIGNALS = [''instruct'', ''instruction'', ''chat'', ''assistant'', ''conversational'']"

definition BASE_SIGNALS :: "string list" where
  "BASE_SIGNALS = [''base'', ''pretrain'', ''foundation'']"

definition GENERALIST_TOKENS :: "string list" where
  "GENERALIST_TOKENS = [''chat'', ''assistant'', ''conversational'', ''multilingual'']"

definition USE_CASES :: "use_case list" where
  "USE_CASES =
     [GENERAL_CHAT, CODING, DOCUMENT_QA, SUMMARIZATION_EXTRACTION, REASONING, WRITING_TRANSLATION]"

definition other_task_tokens :: "use_case \<Rightarrow> string list" where
  "other_task_tokens u =
     filter (\<lambda>w. w \<notin> set GENERALIST_TOKENS)
       (concat (map STRONG_KEYWORDS (filter (\<lambda>v. v \<noteq> u) USE_CASES)))"

definition without_lineage :: "string list \<Rightarrow> string list" where
  "without_lineage tags = filter (\<lambda>t. \<not> startswith (lower t) ''base_model:'') tags"

definition infers_generalist_suitability :: "evaluated_candidate \<Rightarrow> user_requirements \<Rightarrow> bool" where
  "infers_generalist_suitability e req \<longleftrightarrow>
     (if float_le ADEQUATE_TASK_MATCH (ev_task_match e) then False
      else if float_less (ev_capability e) ADEQUATE_CAPABILITY_SCORE then False
      else
        let c = ev_candidate e; tokens = candidate_tokens (c\<lparr>cd_tags := without_lineage (cd_tags c)\<rparr>) in
        list_ex (has_signal tokens) INSTRUCTION_SIGNALS \<and>
        \<not> list_ex (has_signal tokens) BASE_SIGNALS \<and>
        \<not> list_ex (has_signal tokens) (other_task_tokens (ur_use_case req)))"

definition SPECIALIST_TASKS :: "(string \<times> use_case) list" where
  "SPECIALIST_TASKS =
     [(''translation'', WRITING_TRANSLATION), (''translate'', WRITING_TRANSLATION),
      (''summarization'', SUMMARIZATION_EXTRACTION), (''extraction'', SUMMARIZATION_EXTRACTION)]"

definition task_vocabulary :: "string list" where
  "task_vocabulary =
     map lower (concat (List.map_filter USE_CASE_KEYWORDS USE_CASES) @ concat (map STRONG_KEYWORDS USE_CASES))"

definition targets_another_task :: "model_candidate \<Rightarrow> user_requirements \<Rightarrow> bool" where
  "targets_another_task c req \<longleftrightarrow>
     (let tokens = candidate_tokens c; u = ur_use_case req in
      list_ex (has_signal tokens) (NEGATIVE_KEYWORDS u) \<or>
      list_ex (\<lambda>(w, task). task \<noteq> u \<and> has_signal tokens w) SPECIALIST_TASKS)"

section \<open>Sub-scores\<close>

text \<open>The part of a language code before its first dash.\<close>

definition language_root :: "string \<Rightarrow> string" where
  "language_root code = hd (split_on (CHR ''-'') (lower code))"

definition language_match :: "model_candidate \<Rightarrow> user_requirements \<Rightarrow> py_float" where
  "language_match c req =
     (if ur_languages req = [] then float_one
      else if cd_languages c = [] then
        (if has_tag (cd_tags c) [''multilingual''] then hundredths 60 else hundredths 45)
      else
        float_clamp (round_ratio
          (int (length (filter (\<lambda>l. language_root l \<in> set (map language_root (cd_languages c)))
             (ur_languages req))))
          (int (length (ur_languages req)))))"

definition memory_fit :: "compatibility_assessment option \<Rightarrow> py_float" where
  "memory_fit a = STATUS_FIT_SCORE (case a of None \<Rightarrow> STATUS_UNKNOWN | Some x \<Rightarrow> ca_status x)"

definition concurrency_of_ratio :: "py_float \<Rightarrow> py_float" where
  "concurrency_of_ratio ratio =
     (if float_le ratio (hundredths 75) then hundredths 100
      else if float_le ratio (hundredths 90) then hundredths 80
      else if float_le ratio (hundredths 100) then hundredths 50
      else if float_le ratio (hundredths 150) then hundredths 25
      else hundredths 0)"

definition concurrency_fit :: "compatibility_assessment option \<Rightarrow> user_requirements \<Rightarrow> py_float" where
  "concurrency_fit a req =
     (if ur_concurrent_users req \<le> 1 then float_one
      else
        (case Option.bind a ca_ratio of
           None \<Rightarrow> STATUS_FIT_SCORE STATUS_UNKNOWN
         | Some ratio \<Rightarrow> concurrency_of_ratio ratio))"

definition artifact_realism :: "evaluated_candidate \<Rightarrow> py_float" where
  "artifact_realism e =
     (case ev_configuration e of
        None \<Rightarrow> hundredths 60
      | Some cfg \<Rightarrow>
        if cfg_quantization cfg \<noteq> None then hundredths 100
        else if has_tag (cd_tags (ev_candidate e)) REAL_QUANT_TAGS then hundredths 100
        else if (case cfg_precision cfg of None \<Rightarrow> False | Some p \<Rightarrow> p \<in> THEORETICAL_DTYPES) then hundredths 40
        else hundredths 75)"

definition license_score :: "model_candidate \<Rightarrow> user_requirements \<Rightarrow> py_float" where
  "license_score c req =
     (let category = classify_license (cd_license c) in
      float_clamp
        (if ur_commercial_use_required req = Some True \<and> category = LICENSE_UNKNOWN
         then float_mult (LICENSE_SCORE category) (hundredths 70) else LICENSE_SCORE category))"

definition metadata_quality :: "model_candidate \<Rightarrow> compatibility_assessment option \<Rightarrow> py_float" where
  "metadata_quality c a =
     (let own = CONFIDENCE_SCORE (cd_metadata_confidence c);
          score = (case a of None \<Rightarrow> own
            | Some x \<Rightarrow> float_divide (float_add own (CONFIDENCE_SCORE (ca_confidence x))) (float_of_int 2)) in
      float_clamp
        (float_minus score (float_mult (hundredths 5) (float_of_int (int (length (cd_penalties c)))))))"

definition popularity :: "(int \<Rightarrow> py_float) \<Rightarrow> model_candidate \<Rightarrow> py_float \<Rightarrow> py_float" where
  "popularity log1p c max_log =
     (if float_le max_log float_zero then float_zero
      else
        float_clamp (float_add
          (float_mult (float_divide (log1p (max 0 (cd_downloads c))) max_log)
            (float_minus float_one (hundredths 30)))
          (float_mult (float_divide (log1p (max 0 (cd_likes c))) max_log) (hundredths 30))))"

definition max_log_downloads :: "(int \<Rightarrow> py_float) \<Rightarrow> model_candidate list \<Rightarrow> py_float" where
  "max_log_downloads log1p cs =
     (case map (\<lambda>c. log1p (max 0 (cd_downloads c))) cs of
        [] \<Rightarrow> float_zero
      | x # xs \<Rightarrow> let m = fold (\<lambda>y acc. float_max acc y) xs x in if mantissa m = 0 then float_one else m)"

definition with_features ::
  "evaluated_candidate \<Rightarrow> user_requirements \<Rightarrow> (int \<Rightarrow> py_float) \<Rightarrow> py_float \<Rightarrow> py_float option \<Rightarrow>
   py_float \<Rightarrow> py_float \<Rightarrow> py_float \<Rightarrow> evaluated_candidate" where
  "with_features e req log1p max_log capability task scaled concurrency =
     e\<lparr>ev_task_match := task,
       ev_language_match := language_match (ev_candidate e) req,
       ev_memory_fit := scaled,
       ev_concurrency_fit := concurrency,
       ev_capability := opt_default capability (hundredths 50),
       ev_artifact_realism := artifact_realism e,
       ev_hardware_fit := float_min scaled concurrency,
       ev_license_score := license_score (ev_candidate e) req,
       ev_metadata_quality := metadata_quality (ev_candidate e) (ev_compatibility e),
       ev_popularity := popularity log1p (ev_candidate e) max_log\<rparr>"

definition enrich_candidate_features ::
  "evaluated_candidate \<Rightarrow> user_requirements \<Rightarrow> (int \<Rightarrow> py_float) \<Rightarrow> py_float \<Rightarrow> py_float option \<Rightarrow>
   evaluated_candidate option" where
  "enrich_candidate_features e req log1p max_log capability =
     map_option (\<lambda>task. with_features e req log1p max_log capability task
         (float_clamp (float_mult (memory_fit (ev_compatibility e)) (artifact_realism e)))
         (concurrency_fit (ev_compatibility e) req))
       (task_match (ev_candidate e) req)"

definition confidence_of :: "evaluated_candidate \<Rightarrow> estimation_confidence" where
  "confidence_of e =
     (case ev_compatibility e of None \<Rightarrow> cd_metadata_confidence (ev_candidate e) | Some a \<Rightarrow> ca_confidence a)"

end
