(* ===== verification/Ranker.thy ===== *)
theory Ranker
  imports Scoring
begin

text \<open>
  From scored candidates to a shortlist: the hard requirements
  (\<^verbatim>\<open>recommendation/requirements_gate.py\<close>), whether a candidate would run
  (\<^verbatim>\<open>recommendation/actionability.py\<close>), the composite score and the selection
  (\<^verbatim>\<open>recommendation/ranker.py\<close>), and the heading of a result (\<^verbatim>\<open>recommendation/tier.py\<close>).
\<close>

section \<open>Hard requirements\<close>

record requirement_check =
  rc_name :: string
  rc_description :: string
  rc_required :: bool
  rc_satisfied :: bool
  rc_penalty :: py_float

definition unmet_checks :: "requirement_check list \<Rightarrow> requirement_check list" where
  "unmet_checks checks = filter (\<lambda>c. \<not> rc_satisfied c) checks"

definition penalty_multiplier :: "requirement_check list \<Rightarrow> py_float" where
  "penalty_multiplier checks =
     float_clamp (foldl (\<lambda>m c. float_mult m (float_max float_zero (float_minus float_one (rc_penalty c))))
       float_one (unmet_checks checks))"

definition unmet_labels :: "requirement_check list \<Rightarrow> string list" where
  "unmet_labels checks = map rc_description (unmet_checks checks)"

datatype language_support = LANGUAGE_CONFIRMED | LANGUAGE_UNDECLARED | LANGUAGE_OTHER_ONLY

definition language_support_of :: "string \<Rightarrow> evaluated_candidate \<Rightarrow> language_support" where
  "language_support_of l e =
     (let c = ev_candidate e in
      if language_root l \<in> set (map language_root (cd_languages c)) \<or> has_tag (cd_tags c) [''multilingual'']
      then LANGUAGE_CONFIRMED
      else if cd_languages c \<noteq> [] then LANGUAGE_OTHER_ONLY else LANGUAGE_UNDECLARED)"

definition checked :: "string \<Rightarrow> string \<Rightarrow> bool \<Rightarrow> bool \<Rightarrow> py_float \<Rightarrow> requirement_check" where
  "checked name description required satisfied penalty =
     \<lparr>rc_name = name, rc_description = description, rc_required = required, rc_satisfied = satisfied,
      rc_penalty = penalty\<rparr>"

definition text_or_none :: "string option \<Rightarrow> string" where
  "text_or_none s = (case s of None \<Rightarrow> ''None'' | Some x \<Rightarrow> repr_str x)"

definition commercial_check :: "evaluated_candidate \<Rightarrow> requirement_check" where
  "commercial_check e =
     (case classify_license (cd_license (ev_candidate e)) of
        COMMERCIAL_RESTRICTED \<Rightarrow>
          checked ''commercial_use''
            (''License '' @ text_or_none (cd_license (ev_candidate e)) @ '' restricts commercial use.'')
            True False float_one
      | LICENSE_UNKNOWN \<Rightarrow>
          checked ''commercial_use''
            ''License terms could not be confirmed as permitting commercial use.''
            True False (hundredths 40)
      | COMMERCIAL_ALLOWED \<Rightarrow>
          checked ''commercial_use'' ''License is generally suitable for commercial use.'' True True float_zero)"

definition language_check :: "evaluated_candidate \<Rightarrow> string \<Rightarrow> requirement_check" where
  "language_check e l =
     (let support = language_support_of l e in
      if support \<noteq> LANGUAGE_OTHER_ONLY then
        checked (''language:'' @ l) (''Support for '' @ upper l @ '' not confirmed in metadata.'') False
          (support = LANGUAGE_CONFIRMED) float_zero
      else
        checked (''language:'' @ l)
          (''Support for '' @ upper l @ '' not confirmed: the card declares only other languages.'') False
          False (hundredths 15))"

definition evaluate_requirements :: "evaluated_candidate \<Rightarrow> user_requirements \<Rightarrow> requirement_check list" where
  "evaluate_requirements e req =
     (if ur_commercial_use_required req = Some True then [commercial_check e] else []) @
     map (language_check e) (ur_languages req) @
     (if 1 < ur_concurrent_users req \<and> float_le (ev_concurrency_fit e) float_zero then
        [checked ''concurrency''
           (''Cannot serve '' @ lower (ur_concurrency_range req) @ '' without '' @
            ''exceeding available memory.'') False False (hundredths 35)]
      else [])"

definition gated :: "user_requirements \<Rightarrow> evaluated_candidate \<Rightarrow> evaluated_candidate" where
  "gated req e =
     e\<lparr>ev_requirement_penalty := penalty_multiplier (evaluate_requirements e req),
       ev_unmet_labels := unmet_labels (evaluate_requirements e req)\<rparr>"

section \<open>Actionability\<close>

datatype actionability = ACTIONABLE | LIKELY_ACTIONABLE | SPECULATIVE | BLOCKED

definition status_of :: "evaluated_candidate \<Rightarrow> compatibility_status" where
  "status_of e = (case ev_compatibility e of None \<Rightarrow> STATUS_UNKNOWN | Some a \<Rightarrow> ca_status a)"

definition assess_actionability :: "evaluated_candidate \<Rightarrow> actionability" where
  "assess_actionability e =
     (let status = status_of e;
          executability = map_option ra_executability (ev_runtime e);
          confirmation = map_option ap_confirmation (ev_artifact e) in
      if status = INSUFFICIENT then BLOCKED
      else if executability = Some UNSUPPORTED then BLOCKED
      else if confirmation = Some ART_THEORETICAL then SPECULATIVE
      else if executability \<in> {None, Some EXECUTABILITY_UNKNOWN} then SPECULATIVE
      else if status = STATUS_UNKNOWN then SPECULATIVE
      else if confirmation \<in> {Some ART_CONFIRMED, Some ART_INFERRED} \<and> executability = Some EXECUTABLE \<and>
        status \<in> {COMFORTABLE, COMPATIBLE} then ACTIONABLE
      else if executability \<in> {Some EXECUTABLE, Some POTENTIALLY_EXECUTABLE} then LIKELY_ACTIONABLE
      else SPECULATIVE)"

fun actionability_penalty :: "actionability \<Rightarrow> py_float" where
  "actionability_penalty ACTIONABLE = hundredths 100"
| "actionability_penalty LIKELY_ACTIONABLE = hundredths 100"
| "actionability_penalty SPECULATIVE = hundredths 70"
| "actionability_penalty BLOCKED = hundredths 0"

section \<open>The composite score\<close>

definition adjusted_weights :: "recommendation_priority \<Rightarrow> (string, py_float) dict" where
  "adjusted_weights priority =
     map (\<lambda>(k, w). (k, float_mult w (opt_default (dict_get (PRIORITY_MODIFIERS priority) k) float_one)))
       BASE_WEIGHTS"

definition weights_for :: "recommendation_priority \<Rightarrow> (string, py_float) dict" where
  "weights_for priority =
     (let adjusted = adjusted_weights priority; s = float_sum (map snd adjusted) in
      if float_le s float_zero then BASE_WEIGHTS else map (\<lambda>(k, w). (k, float_divide w s)) adjusted)"

definition score_parts :: "evaluated_candidate \<Rightarrow> (string, py_float) dict" where
  "score_parts e =
     [(''memory_fit'', ev_memory_fit e), (''concurrency_fit'', ev_concurrency_fit e),
      (''capability'', ev_capability e), (''task_match'', ev_task_match e),
      (''language_match'', ev_language_match e), (''license'', ev_license_score e),
      (''metadata_quality'', ev_metadata_quality e), (''popularity'', ev_popularity e)]"

record score_breakdown =
  sb_total :: py_float
  sb_parts :: "(string, py_float) dict"
  sb_hardware_fit :: py_float
  sb_hard_penalty :: py_float
  sb_unmet :: "string list"
  sb_weights :: "(string, py_float) dict"

text \<open>Every part has its weight, under the same key.\<close>

definition weighted_sum :: "(string, py_float) dict \<Rightarrow> (string, py_float) dict \<Rightarrow> py_float" where
  "weighted_sum parts weights =
     float_sum (map (\<lambda>(k, w). float_mult (opt_default (dict_get parts k) float_zero) w) weights)"

definition composite_total ::
  "evaluated_candidate \<Rightarrow> (string, py_float) dict \<Rightarrow> py_float \<Rightarrow> py_float" where
  "composite_total e weights hard_penalty =
     float_clamp
       (float_mult
         (float_mult
           (float_mult (weighted_sum (score_parts e) weights) (CONFIDENCE_MULTIPLIER (confidence_of e)))
           (float_clamp hard_penalty))
         (actionability_penalty (assess_actionability e)))"

definition score_breakdown_of ::
  "evaluated_candidate \<Rightarrow> recommendation_priority \<Rightarrow> py_float \<Rightarrow> string list \<Rightarrow> score_breakdown" where
  "score_breakdown_of e priority hard_penalty unmet =
     \<lparr>sb_total = composite_total e (weights_for priority) hard_penalty, sb_parts = score_parts e,
      sb_hardware_fit = float_min (ev_memory_fit e) (ev_concurrency_fit e), sb_hard_penalty = hard_penalty,
      sb_unmet = unmet, sb_weights = weights_for priority\<rparr>"

section \<open>Selection\<close>

definition can_be_primary :: "evaluated_candidate \<Rightarrow> bool" where
  "can_be_primary e \<longleftrightarrow>
     status_of e \<noteq> STATUS_UNKNOWN \<and> assess_actionability e \<noteq> BLOCKED \<and>
     STATUS_RANK (status_of e) \<le> STATUS_RANK WORST_PRIMARY_STATUS"

type_synonym scored = "evaluated_candidate \<times> score_breakdown"

definition rank_key :: "scored \<Rightarrow> rat \<times> int \<times> rat \<times> int \<times> string" where
  "rank_key p =
     (let e = fst p in
      (- float_rat (float_round 6 (sb_total (snd p))), STATUS_RANK (status_of e),
       - float_rat (CONFIDENCE_SCORE (confidence_of e)), - cd_downloads (ev_candidate e),
       cd_repo_id (ev_candidate e)))"

text \<open>The functions that give a candidate its penalty and its unmet requirements are arguments.\<close>

record penalties =
  pen_penalty :: "evaluated_candidate \<Rightarrow> py_float"
  pen_unmet :: "evaluated_candidate \<Rightarrow> string list"

definition no_penalties :: penalties where
  "no_penalties = \<lparr>pen_penalty = (\<lambda>_. float_one), pen_unmet = (\<lambda>_. [])\<rparr>"

definition gate_penalties :: penalties where
  "gate_penalties = \<lparr>pen_penalty = ev_requirement_penalty, pen_unmet = ev_unmet_labels\<rparr>"

definition scored_candidate :: "penalties \<Rightarrow> recommendation_priority \<Rightarrow> evaluated_candidate \<Rightarrow> scored" where
  "scored_candidate pen priority e =
     (e, score_breakdown_of e priority (pen_penalty pen e) (pen_unmet pen e))"

definition sort_candidates ::
  "penalties \<Rightarrow> evaluated_candidate list \<Rightarrow> recommendation_priority \<Rightarrow> scored list" where
  "sort_candidates pen es priority = sort_key rank_key (map (scored_candidate pen priority) es)"

text \<open>The first element that may lead is moved to the front; the others keep their order.\<close>

definition promote :: "('a \<Rightarrow> bool) \<Rightarrow> 'a list \<Rightarrow> 'a list" where
  "promote P xs =
     (case dropWhile (\<lambda>x. \<not> P x) xs of
        [] \<Rightarrow> xs
      | y # ys \<Rightarrow> y # takeWhile (\<lambda>x. \<not> P x) xs @ ys)"

definition eligible_candidate :: "scored \<Rightarrow> bool" where
  "eligible_candidate p \<longleftrightarrow> status_of (fst p) \<noteq> INSUFFICIENT \<and> assess_actionability (fst p) \<noteq> BLOCKED"

definition memory_confirmed :: "scored \<Rightarrow> bool" where
  "memory_confirmed p \<longleftrightarrow> has_confirmed_memory_compatibility (status_of (fst p))"

definition confirmed_first :: "scored list \<Rightarrow> scored list" where
  "confirmed_first ps = filter memory_confirmed ps @ filter (\<lambda>p. \<not> memory_confirmed p) ps"

definition select_ranked ::
  "penalties \<Rightarrow> evaluated_candidate list \<Rightarrow> recommendation_priority \<Rightarrow> nat \<Rightarrow> scored list" where
  "select_ranked pen es priority limit =
     take limit (promote (\<lambda>p. can_be_primary (fst p))
       (confirmed_first (filter eligible_candidate (sort_candidates pen es priority))))"

definition estimated_total :: "evaluated_candidate \<Rightarrow> int option" where
  "estimated_total e = Option.bind (ev_memory_estimate e) me_total_bytes"

definition alternative_label :: "evaluated_candidate \<Rightarrow> evaluated_candidate \<Rightarrow> string" where
  "alternative_label primary other =
     (let gap = hundredths 5;
          higher = float_le (float_add (ev_capability primary) gap) (ev_capability other);
          tighter = float_le (float_add (ev_memory_fit other) gap) (ev_memory_fit primary);
          safer = float_le (float_add (ev_memory_fit primary) gap) (ev_memory_fit other) in
      if higher \<and> tighter then ''Higher estimated capability, tighter fit''
      else if higher then ''Higher estimated capability''
      else if safer \<and> float_le (ev_capability other) (ev_capability primary) then ''Safer option''
      else
        (case (estimated_total primary, estimated_total other) of
           (Some p, Some t) \<Rightarrow>
             if float_less (PyFloat t 0) (float_mult (float_of_int p) (hundredths 90))
             then ''Smaller and faster option''
             else if float_less (float_mult (float_of_int p) (hundredths 110)) (PyFloat t 0)
             then ''Larger footprint, similar capability''
             else ''Alternative''
         | _ \<Rightarrow> ''Alternative''))"

section \<open>Tiers\<close>

datatype recommendation_tier = BEST_MATCH | RECOMMENDED | CLOSEST_OPTION | BEST_EFFORT

definition choose_tier ::
  "compatibility_status \<Rightarrow> estimation_confidence \<Rightarrow> py_float \<Rightarrow> actionability \<Rightarrow> recommendation_tier" where
  "choose_tier status confidence hard_penalty action =
     (if float_less hard_penalty float_one then BEST_EFFORT
      else if confidence = CONF_UNKNOWN then BEST_EFFORT
      else if action = SPECULATIVE then BEST_EFFORT
      else if status \<in> {OFFLOADING_REQUIRED, INSUFFICIENT, STATUS_UNKNOWN} then CLOSEST_OPTION
      else if status = TIGHT then RECOMMENDED
      else if confidence \<in> {CONF_LOW, CONF_MEDIUM} then RECOMMENDED
      else if action = LIKELY_ACTIONABLE then RECOMMENDED
      else BEST_MATCH)"

section \<open>The selection\<close>

text \<open>
  Whoever is eligible with a confirmed placement may lead, so moving the leader to the front
  never changes the order.
\<close>

lemma primary_iff: "can_be_primary (fst p) \<longleftrightarrow> eligible_candidate p \<and> memory_confirmed p"
  by (cases "status_of (fst p)")
    (simp_all add: can_be_primary_def eligible_candidate_def memory_confirmed_def
      has_confirmed_memory_compatibility_def WORST_PRIMARY_STATUS_def)

lemma promote_sorted:
  assumes "\<And>x. x \<in> set xs \<Longrightarrow> P x" and "\<And>x. x \<in> set ys \<Longrightarrow> \<not> P x"
  shows "promote P (xs @ ys) = xs @ ys"
proof (cases xs)
  case Nil
  have "dropWhile (\<lambda>x. \<not> P x) ys = []"
    unfolding dropWhile_eq_Nil_conv using assms(2) by blast
  then show ?thesis by (simp only: promote_def Nil append_Nil list.case)
qed (use assms(1) in \<open>simp add: promote_def\<close>)

lemma sort_key_filter_first:
  assumes "filter P (sort_key f xs) = y # ys" and "x \<in> set xs" "P x"
  shows "f y \<le> f x"
proof -
  have "sorted (map f (y # ys))"
    using sorted_filter [OF sorted_sort_key [of f xs], of P] assms(1) by simp
  moreover have "x \<in> set (y # ys)" unfolding assms(1) [symmetric] using assms(2,3) by simp
  ultimately show ?thesis by auto
qed


section \<open>Vetoes\<close>

lemma foldl_mult_zero:
  "float_value m = 0 \<Longrightarrow> float_value (foldl (\<lambda>m c. float_mult m (f c)) m cs) = 0"
  by (induction cs arbitrary: m) (simp_all add: float_mult_zero)

lemma veto_multiplier:
  assumes "c \<in> set cs" "\<not> rc_satisfied c" "1 \<le> float_value (rc_penalty c)"
  shows "float_value (penalty_multiplier cs) = 0"
proof -
  have factor: "float_value (float_max float_zero (float_minus float_one (rc_penalty c))) = 0"
    using assms(3) rnd_mono [of "1 - float_value (rc_penalty c)" 0]
    by (simp add: float_value_max float_minus_def value_float_add rnd_def)
  have "c \<in> set (unmet_checks cs)" using assms by (simp add: unmet_checks_def)
  then obtain us vs where "unmet_checks cs = us @ c # vs" by (meson split_list)
  then show ?thesis
    by (simp add: penalty_multiplier_def float_value_clamp foldl_mult_zero float_mult_zero factor)
qed

lemma composite_total_zero:
  assumes "float_value h = 0" shows "float_value (composite_total e w h) = 0"
  by (simp add: composite_total_def float_value_clamp float_mult_zero assms)

lemma composite_total_unit: "0 \<le> float_value (composite_total e w h)" "float_value (composite_total e w h) \<le> 1"
  by (simp_all add: composite_total_def float_clamp_bounds)

lemma float_rat_zero_iff: "float_rat x = 0 \<longleftrightarrow> float_value x = 0"
  by (metis of_rat_float of_rat_eq_0_iff)

lemma float_round_zero:
  assumes "float_value x = 0" shows "float_rat (float_round k x) = 0"
proof (cases x)
  case (PyFloat m e)
  have "scaled_decimal k x = 0"
    using assms unfolding PyFloat by (simp add: div_half_even_def)
  then show ?thesis unfolding float_rat_zero_iff by (simp add: float_round_def value_round_ratio rnd_def)
qed

lemma set_promote [simp]: "set (promote P xs) = set xs"
proof (cases "dropWhile (\<lambda>x. \<not> P x) xs")
  case (Cons y ys)
  then have "xs = takeWhile (\<lambda>x. \<not> P x) xs @ y # ys" by (metis takeWhile_dropWhile_id)
  then have "set xs = set (takeWhile (\<lambda>x. \<not> P x) xs) \<union> insert y (set ys)"
    by (metis list.simps(15) set_append)
  then show ?thesis unfolding promote_def Cons by simp
qed (simp only: promote_def list.case)

lemma select_ranked_member:
  assumes "p \<in> set (select_ranked pen es priority limit)"
  shows "eligible_candidate p" "p \<in> scored_candidate pen priority ` set es"
  using in_set_takeD [OF assms [unfolded select_ranked_def]]
  by (auto simp: confirmed_first_def sort_candidates_def)

lemma assess_runtime_not_executable: "ra_executability (assess_runtime r hw a m) \<noteq> EXECUTABLE"
  by (simp add: assess_runtime_def assess_llama_cpp_def assess_transformers_def assess_vllm_def
      graded_def Let_def split: option.splits)

lemma not_actionable:
  assumes "ev_runtime e = None \<or> (\<exists>r hw a m. ev_runtime e = Some (assess_runtime r hw a m))"
  shows "assess_actionability e \<noteq> ACTIONABLE"
  using assms by (auto simp: assess_actionability_def Let_def assess_runtime_not_executable)

text \<open>
  A veto is final.  If commercial use is required and the declared licence restricts it, the
  candidate's composite score is zero whatever its other scores are, the reason is among its unmet
  requirements, and every candidate with a score that shows in six decimals ranks before it.
\<close>

theorem restricted_licence_ranks_last:
  assumes "ur_commercial_use_required req = Some True"
    and "classify_license (cd_license (ev_candidate e)) = COMMERCIAL_RESTRICTED"
  shows "float_value (sb_total (snd (scored_candidate gate_penalties priority (gated req e)))) = 0 \<and>
    ''License '' @ text_or_none (cd_license (ev_candidate e)) @ '' restricts commercial use.''
      \<in> set (sb_unmet (snd (scored_candidate gate_penalties priority (gated req e)))) \<and>
    (0 < float_value (float_round 6 (sb_total (snd p))) \<longrightarrow>
      rank_key p < rank_key (scored_candidate gate_penalties priority (gated req e)))"
proof -
  have c: "commercial_check e \<in> set (evaluate_requirements e req)"
    using assms(1) by (simp add: evaluate_requirements_def)
  have k: "commercial_check e = checked ''commercial_use''
      (''License '' @ text_or_none (cd_license (ev_candidate e)) @ '' restricts commercial use.'')
      True False float_one"
    using assms(2) by (simp add: commercial_check_def)
  have zero: "float_value (sb_total (snd (scored_candidate gate_penalties priority (gated req e)))) = 0"
    unfolding scored_candidate_def score_breakdown_of_def gate_penalties_def gated_def
    by (simp add: composite_total_zero veto_multiplier [OF c] k checked_def)
  moreover have "rank_key p < rank_key (scored_candidate gate_penalties priority (gated req e))"
    if "0 < float_value (float_round 6 (sb_total (snd p)))"
  proof -
    have "0 < float_rat (float_round 6 (sb_total (snd p)))"
      using that by (metis of_rat_float zero_less_of_rat_iff)
    then show ?thesis using float_round_zero [OF zero, of 6]
      unfolding rank_key_def Let_def by (simp add: less_prod_simp)
  qed
  moreover have "''License '' @ text_or_none (cd_license (ev_candidate e)) @ '' restricts commercial use.''
      \<in> set (sb_unmet (snd (scored_candidate gate_penalties priority (gated req e))))"
    using c by (force simp: scored_candidate_def score_breakdown_of_def gate_penalties_def gated_def
      unmet_labels_def unmet_checks_def k checked_def)
  ultimately show ?thesis by blast
qed

text \<open>
  The heading of a shortlisted candidate.  A candidate that passed the selection is headed
  at least as recommended only when it misses no hard requirement and its placement in memory is
  confirmed; and whatever the estimate, no shortlisted candidate whose runtime was assessed by
  the executability rules is ever headed as best match, because that function never grades a
  runtime as executable.
\<close>

theorem shortlist_headings:
  assumes "p \<in> set (select_ranked pen es priority limit)"
    and "\<And>e. e \<in> set es \<Longrightarrow> ev_runtime e = None \<or> (\<exists>r hw a m. ev_runtime e = Some (assess_runtime r hw a m))"
  shows "choose_tier (status_of (fst p)) confidence penalty (assess_actionability (fst p)) \<noteq> BEST_MATCH \<and>
    (choose_tier (status_of (fst p)) confidence penalty (assess_actionability (fst p)) = RECOMMENDED \<longrightarrow>
      1 \<le> float_value penalty \<and> memory_confirmed p \<and>
      assess_actionability (fst p) = LIKELY_ACTIONABLE)"
proof -
  have "assess_actionability (fst p) \<notin> {ACTIONABLE, BLOCKED}"
    using select_ranked_member [OF assms(1)] assms(2) not_actionable
    by (auto simp: eligible_candidate_def scored_candidate_def)
  then have "assess_actionability (fst p) \<in> {LIKELY_ACTIONABLE, SPECULATIVE}"
    by (cases "assess_actionability (fst p)") auto
  then show ?thesis
    by (cases "status_of (fst p)")
      (auto simp: choose_tier_def float_less_iff memory_confirmed_def has_confirmed_memory_compatibility_def)
qed

section \<open>Examples\<close>

definition example_candidate :: "string option \<Rightarrow> model_candidate" where
  "example_candidate l =
     \<lparr>cd_repo_id = ''acme/tiny'', cd_pipeline_tag = None, cd_library_name = None, cd_license = l,
      cd_languages = [], cd_tags = [], cd_downloads = 10, cd_likes = 1, cd_gated = GatedBool False,
      cd_private = False, cd_repository_type = None, cd_base_model_repo_id = None, cd_revision_hint = None,
      cd_last_modified = None, cd_source_queries = [], cd_metadata_confidence = CONF_HIGH, cd_penalties = []\<rparr>"

definition example_evaluated :: "string option \<Rightarrow> evaluated_candidate" where
  "example_evaluated l =
     \<lparr>ev_candidate = example_candidate l, ev_analysis = None, ev_configuration = None,
      ev_memory_estimate = None,
      ev_compatibility = Some
        \<lparr>ca_status = COMFORTABLE, ca_confidence = CONF_HIGH, ca_target_device = CPU_DEVICE,
         ca_effective_device = CPU_DEVICE, ca_available_vram_bytes = None, ca_available_ram_bytes = None,
         ca_ratio = None, ca_reasons = [], ca_warnings = []\<rparr>,
      ev_configuration_reason = None, ev_alternatives = [], ev_task_match = float_one,
      ev_language_match = float_one, ev_hardware_fit = float_one, ev_memory_fit = float_one,
      ev_concurrency_fit = float_one, ev_capability = float_one, ev_artifact_realism = float_one,
      ev_license_score = float_one, ev_metadata_quality = float_one, ev_popularity = float_one,
      ev_warnings = [], ev_failed = False, ev_requirement_penalty = float_one, ev_unmet_labels = [],
      ev_parameter_count = None, ev_artifact = None,
      ev_runtime = Some
        (assess_runtime (Some ((no_runtime CONF_HIGH [])\<lparr>rr_runtime := LLAMA_CPP\<rparr>))
          (example_hardware 8000000000 8000000000)
          (Some \<lparr>ap_format = ART_GGUF, ap_quantization = None, ap_confirmation = ART_CONFIRMED,
            ap_reasons = []\<rparr>) None)\<rparr>"

lemma example_evaluated_simps [simp]:
  "status_of (example_evaluated l) = COMFORTABLE"
  "assess_actionability (example_evaluated l) = LIKELY_ACTIONABLE"
  "can_be_primary (example_evaluated l)"
  by (simp_all add: can_be_primary_def status_of_def assess_actionability_def example_evaluated_def
      assess_runtime_def assess_llama_cpp_def graded_def no_runtime_def WORST_PRIMARY_STATUS_def)

lemma example_shortlist:
  "select_ranked no_penalties [example_evaluated l] BALANCED 3 =
     [scored_candidate no_penalties BALANCED (example_evaluated l)]"
  by (simp add: select_ranked_def sort_candidates_def confirmed_first_def promote_def eligible_candidate_def
      memory_confirmed_def has_confirmed_memory_compatibility_def scored_candidate_def)


theorem restricted_licence_ranks_last_witness:
  "float_value (sb_total (snd (scored_candidate gate_penalties BALANCED
     (gated ((example_requirements BALANCED)\<lparr>ur_commercial_use_required := Some True\<rparr>)
       (example_evaluated (Some ''CC-BY-NC-4.0'')))))) = 0"
proof -
  let ?req = "(example_requirements BALANCED)\<lparr>ur_commercial_use_required := Some True\<rparr>"
    and ?e = "example_evaluated (Some ''CC-BY-NC-4.0'')"
  have "ur_commercial_use_required ?req = Some True" by simp
  moreover have "classify_license (cd_license (ev_candidate ?e)) = COMMERCIAL_RESTRICTED"
    unfolding example_evaluated_def example_candidate_def by code_simp
  ultimately show ?thesis using restricted_licence_ranks_last [of ?req ?e BALANCED] by simp
qed

theorem shortlist_headings_witness:
  "choose_tier COMFORTABLE CONF_HIGH float_one (assess_actionability (example_evaluated None)) = RECOMMENDED"
proof -
  have p: "scored_candidate no_penalties BALANCED (example_evaluated None)
      \<in> set (select_ranked no_penalties [example_evaluated None] BALANCED 3)"
    by (simp add: example_shortlist)
  have "\<exists>r hw a m. ev_runtime (example_evaluated None) = Some (assess_runtime r hw a m)"
    by (auto simp: example_evaluated_def)
  then have "choose_tier (status_of (example_evaluated None)) CONF_HIGH float_one
      (assess_actionability (example_evaluated None)) \<noteq> BEST_MATCH"
    using shortlist_headings [OF p, of CONF_HIGH float_one] by (simp add: scored_candidate_def)
  then show ?thesis by (simp add: choose_tier_def float_less_iff)
qed

end
