(* ===== verification/Py_Regex.thy ===== *)
theory Py_Regex
  imports Py_Arith
begin

text \<open>
  Regular expressions of the \<^verbatim>\<open>re\<close> module, as far as the sources use them.  A match is a
  backtracking search; here a pattern maps a position to the list of all its matches in the order
  in which the search finds them, and \<^verbatim>\<open>re.match\<close> is the head of that list.  A position is the
  text read so far, reversed, and the text left.  Repeated patterns of the sources never match the
  empty text, so a repetition stops as soon as its body reads nothing.
\<close>

section \<open>Patterns\<close>

datatype rx =
    Cls "char \<Rightarrow> bool"
  | Eps
  | Cat rx rx
  | Alt rx rx
  | Many rx
  | ManyLazy rx
  | Maybe rx
  | Capture nat rx
  | Ahead rx
  | NotAhead rx
  | NotBehind "char \<Rightarrow> bool"
  | WordEdge
  | AtStart
  | AtEnd

type_synonym rx_position = "string \<times> string"

type_synonym rx_state = "rx_position \<times> (nat \<times> string) list"

text \<open>Greedy repetition: one more round before none.\<close>

fun rx_rounds :: "(rx_state \<Rightarrow> rx_state list) \<Rightarrow> nat \<Rightarrow> rx_state \<Rightarrow> rx_state list" where
  "rx_rounds f 0 s = [s]"
| "rx_rounds f (Suc n) s =
     concat (map (rx_rounds f n) (filter (\<lambda>t. length (snd (fst t)) < length (snd (fst s))) (f s))) @ [s]"

text \<open>Lazy repetition, \<^verbatim>\<open>*?\<close>: none before one more round.\<close>

fun rx_lazy_rounds :: "(rx_state \<Rightarrow> rx_state list) \<Rightarrow> nat \<Rightarrow> rx_state \<Rightarrow> rx_state list" where
  "rx_lazy_rounds f 0 s = [s]"
| "rx_lazy_rounds f (Suc n) s =
     s # concat (map (rx_lazy_rounds f n) (filter (\<lambda>t. length (snd (fst t)) < length (snd (fst s))) (f s)))"

definition is_word_char :: "char \<Rightarrow> bool" where
  "is_word_char c \<longleftrightarrow> is_alnum (lower_char c) \<or> c = CHR ''_''"

definition begins_word :: "string \<Rightarrow> bool" where
  "begins_word s = (case s of [] \<Rightarrow> False | c # _ \<Rightarrow> is_word_char c)"

fun rx_matches :: "rx \<Rightarrow> rx_state \<Rightarrow> rx_state list" where
  "rx_matches (Cls P) ((b, r), g) =
     (case r of [] \<Rightarrow> [] | c # cs \<Rightarrow> if P c then [((c # b, cs), g)] else [])"
| "rx_matches Eps s = [s]"
| "rx_matches (Cat p q) s = concat (map (rx_matches q) (rx_matches p s))"
| "rx_matches (Alt p q) s = rx_matches p s @ rx_matches q s"
| "rx_matches (Many p) s = rx_rounds (rx_matches p) (length (snd (fst s))) s"
| "rx_matches (ManyLazy p) s = rx_lazy_rounds (rx_matches p) (length (snd (fst s))) s"
| "rx_matches (Maybe p) s = rx_matches p s @ [s]"
| "rx_matches (Capture n p) s =
     map (\<lambda>t. (fst t, (n, take (length (snd (fst s)) - length (snd (fst t))) (snd (fst s))) # snd t))
       (rx_matches p s)"
| "rx_matches (Ahead p) s = (if rx_matches p s = [] then [] else [s])"
| "rx_matches (NotAhead p) s = (if rx_matches p s = [] then [s] else [])"
| "rx_matches (NotBehind P) ((b, r), g) =
     (case b of [] \<Rightarrow> [((b, r), g)] | c # _ \<Rightarrow> if P c then [] else [((b, r), g)])"
| "rx_matches WordEdge ((b, r), g) = (if begins_word b \<noteq> begins_word r then [((b, r), g)] else [])"
| "rx_matches AtStart ((b, r), g) = (if b = [] then [((b, r), g)] else [])"
| "rx_matches AtEnd ((b, r), g) = (if r = [] \<or> r = [CHR 0x0A] then [((b, r), g)] else [])"

text \<open>Literal texts, classes and sequences.\<close>

fun rx_text :: "string \<Rightarrow> rx" where
  "rx_text [] = Eps"
| "rx_text (c # cs) = Cat (Cls (\<lambda>d. d = c)) (rx_text cs)"

fun rx_seq :: "rx list \<Rightarrow> rx" where
  "rx_seq [] = Eps"
| "rx_seq (p # ps) = Cat p (rx_seq ps)"

fun rx_any :: "rx list \<Rightarrow> rx" where
  "rx_any [] = Cls (\<lambda>_. False)"
| "rx_any [p] = p"
| "rx_any (p # q # ps) = Alt p (rx_any (q # ps))"

definition rx_some :: "rx \<Rightarrow> rx" where
  "rx_some p = Cat p (Many p)"

definition rx_ignore_case :: "string \<Rightarrow> rx" where
  "rx_ignore_case s = rx_seq (map (\<lambda>c. Cls (\<lambda>d. lower_char d = lower_char c)) s)"

text \<open>The dot matches everything but a line feed.\<close>

definition rx_dot :: rx where
  "rx_dot = Cls (\<lambda>c. c \<noteq> CHR 0x0A)"

definition rx_blanks :: rx where
  "rx_blanks = Many (Cls is_blank)"

definition rx_digits :: rx where
  "rx_digits = rx_some (Cls is_digit)"

definition is_letter :: "char \<Rightarrow> bool" where
  "is_letter c \<longleftrightarrow> (let n = (of_char (lower_char c) :: int) in 97 \<le> n \<and> n \<le> 122)"

text \<open>\<^verbatim>\<open>\d+(?:\.\d+)?\<close>.\<close>

definition rx_number :: rx where
  "rx_number = Cat (rx_some (Cls is_digit)) (Maybe (Cat (Cls (\<lambda>c. c = CHR ''.'')) (rx_some (Cls is_digit))))"

section \<open>Searching\<close>

record rx_match =
  rm_before :: string
  rm_text :: string
  rm_rest :: string
  rm_groups :: "(nat \<times> string) list"

text \<open>\<^verbatim>\<open>p.match\<close> at a position.\<close>

definition rx_match_at :: "rx \<Rightarrow> string \<Rightarrow> string \<Rightarrow> rx_match option" where
  "rx_match_at p b s =
     (case rx_matches p ((b, s), []) of
        [] \<Rightarrow> None
      | ((b', r), g) # _ \<Rightarrow>
          Some \<lparr>rm_before = b, rm_text = take (length s - length r) s, rm_rest = r, rm_groups = g\<rparr>)"

definition rx_match_start :: "rx \<Rightarrow> string \<Rightarrow> rx_match option" where
  "rx_match_start p s = rx_match_at p [] s"

definition rx_fullmatch :: "rx \<Rightarrow> string \<Rightarrow> rx_match option" where
  "rx_fullmatch p s = rx_match_start (Cat p (NotAhead (Cls (\<lambda>_. True)))) s"

fun rx_search_from :: "rx \<Rightarrow> string \<Rightarrow> string \<Rightarrow> rx_match option" where
  "rx_search_from p b [] = rx_match_at p b []"
| "rx_search_from p b (c # cs) =
     (case rx_match_at p b (c # cs) of Some m \<Rightarrow> Some m | None \<Rightarrow> rx_search_from p (c # b) cs)"

definition rx_search :: "rx \<Rightarrow> string \<Rightarrow> rx_match option" where
  "rx_search p s = rx_search_from p [] s"

definition rx_group :: "rx_match \<Rightarrow> nat \<Rightarrow> string option" where
  "rx_group m n = map_of (rm_groups m) n"

definition rx_group_text :: "rx_match \<Rightarrow> nat \<Rightarrow> string" where
  "rx_group_text m n = (case rx_group m n of Some t \<Rightarrow> t | None \<Rightarrow> [])"

text \<open>\<^verbatim>\<open>p.finditer\<close>: matches from left to right without overlap; all the patterns read something.\<close>

fun rx_all_from :: "nat \<Rightarrow> rx \<Rightarrow> string \<Rightarrow> string \<Rightarrow> rx_match list" where
  "rx_all_from 0 p b s = []"
| "rx_all_from (Suc n) p b s =
     (case rx_search_from p b s of
        None \<Rightarrow> []
      | Some m \<Rightarrow>
          if rm_text m = [] then
            (case rm_rest m of [] \<Rightarrow> [m] | c # cs \<Rightarrow> m # rx_all_from n p (c # rm_before m) cs)
          else m # rx_all_from n p (rev (rm_text m) @ rm_before m) (rm_rest m))"

definition rx_all :: "rx \<Rightarrow> string \<Rightarrow> rx_match list" where
  "rx_all p s = rx_all_from (Suc (length s)) p [] s"

text \<open>\<^verbatim>\<open>p.sub(f, s)\<close> and \<^verbatim>\<open>p.split(s)\<close>, for patterns that read something.\<close>

fun rx_cut_from :: "nat \<Rightarrow> rx \<Rightarrow> string \<Rightarrow> string \<Rightarrow> string list" where
  "rx_cut_from 0 p b s = [s]"
| "rx_cut_from (Suc n) p b s =
     (case rx_search_from p b s of
        None \<Rightarrow> [s]
      | Some m \<Rightarrow>
          if rm_text m = [] then [s]
          else take (length s - length (rm_text m) - length (rm_rest m)) s #
            rx_cut_from n p (rev (rm_text m) @ rm_before m) (rm_rest m))"

definition rx_split :: "rx \<Rightarrow> string \<Rightarrow> string list" where
  "rx_split p s = rx_cut_from (Suc (length s)) p [] s"

definition rx_sub :: "rx \<Rightarrow> string \<Rightarrow> string \<Rightarrow> string" where
  "rx_sub p new s = join new (rx_split p s)"

section \<open>More text\<close>

text \<open>\<^verbatim>\<open>s.replace(old, new)\<close> for a non-empty text, \<^verbatim>\<open>s.strip(chars)\<close>.\<close>

definition replace_text :: "string \<Rightarrow> string \<Rightarrow> string \<Rightarrow> string" where
  "replace_text old new s = rx_sub (rx_text old) new s"

definition strip_chars :: "(char \<Rightarrow> bool) \<Rightarrow> string \<Rightarrow> string" where
  "strip_chars P s = rev (dropWhile P (rev (dropWhile P s)))"

text \<open>\<^verbatim>\<open>s.splitlines()\<close>.\<close>

definition is_line_break :: "char \<Rightarrow> bool" where
  "is_line_break c \<longleftrightarrow> (let n = (of_char c :: int) in n \<in> {10, 11, 12, 13, 28, 29, 30})"

definition after_break :: "string \<Rightarrow> string" where
  "after_break s =
     (case s of
        [] \<Rightarrow> []
      | c # cs \<Rightarrow> if c = CHR 0x0D \<and> startswith cs [CHR 0x0A] then drop 1 cs else cs)"

function split_lines :: "string \<Rightarrow> string list" where
  "split_lines s =
     (if s = [] then []
      else takeWhile (\<lambda>c. \<not> is_line_break c) s #
        split_lines (after_break (dropWhile (\<lambda>c. \<not> is_line_break c) s)))"
  by pat_completeness auto
termination
proof (relation "measure length")
  fix s :: string assume s: "s \<noteq> []"
  let ?d = "dropWhile (\<lambda>c. \<not> is_line_break c) s"
  have "length (after_break ?d) < length s"
  proof (cases ?d)
    case Nil
    with s show ?thesis by (simp only: after_break_def list.case) simp
  next
    case (Cons c cs)
    have "length ?d \<le> length s" by (rule length_dropWhile_le)
    then show ?thesis unfolding Cons by (auto simp: after_break_def)
  qed
  then show "(after_break ?d, s) \<in> measure length" by simp
qed simp

declare split_lines.simps [simp del]

text \<open>\<^verbatim>\<open>s.split()\<close>: the words between blanks.\<close>

definition words_of :: "string \<Rightarrow> string list" where
  "words_of s = filter (\<lambda>w. w \<noteq> []) (rx_split (rx_some (Cls is_blank)) s)"

text \<open>\<^verbatim>\<open>float(s)\<close> of a number without sign and exponent.\<close>

definition decimal_float :: "string \<Rightarrow> py_float" where
  "decimal_float s =
     (case (takeWhile is_digit s, takeWhile is_digit (drop 1 (dropWhile is_digit s))) of
        (whole, decimals) \<Rightarrow> round_ratio (int_of_digits (whole @ decimals)) (10 ^ length decimals))"

end
