(* ===== verification/Families.thy ===== *)
theory Families
  imports Ranker Py_Regex
begin

text \<open>
  Families, sizes and series of models (\<^verbatim>\<open>domain/families.py\<close>, \<^verbatim>\<open>discovery/grouping.py\<close>,
  \<^verbatim>\<open>discovery/series.py\<close>): how many parameters a candidate has, which repositories are the same
  model, and which are sizes of one series.
\<close>

section \<open>Family names\<close>

definition VARIANT_TOKENS :: "string list" where
  "VARIANT_TOKENS = [''base'', ''chat'', ''instruct'', ''it'', ''sft'', ''rlhf'', ''dpo'']"

definition FORMAT_TOKENS :: "string list" where
  "FORMAT_TOKENS = [''gguf'', ''awq'', ''gptq'', ''onnx'', ''hf'', ''quantized'', ''bnb'']"

definition in_chars :: "string \<Rightarrow> char \<Rightarrow> bool" where
  "in_chars cs c \<longleftrightarrow> c \<in> set cs"

definition PARAM_PATTERN :: "rx \<Rightarrow> rx" where
  "PARAM_PATTERN between = rx_seq
     [NotBehind (\<lambda>c. is_letter c \<or> is_digit c \<or> c = CHR ''.''), Capture 1 rx_number, between,
      Capture 2 (Cls (in_chars ''bBmM'')), NotAhead (Cls is_letter)]"

definition PARAM_PATTERNS :: "rx list" where
  "PARAM_PATTERNS = [PARAM_PATTERN (Many (Cls is_blank)), PARAM_PATTERN (Maybe (Cls (in_chars ''-_'')))]"

definition SIZE_MARKER_RE :: rx where
  "SIZE_MARKER_RE = rx_seq [Cls (in_chars ''-_''), rx_number, Cls (in_chars ''bBmM''), NotAhead (Cls is_letter)]"

definition is_family_char :: "char \<Rightarrow> bool" where
  "is_family_char c \<longleftrightarrow> is_alnum c \<or> c = CHR ''.''"

definition VERSION_RE :: rx where
  "VERSION_RE = rx_seq [AtStart,
     Alt (rx_seq [Maybe (rx_text ''v''), rx_some (Cls is_digit), Many (Cat (rx_text ''.'') (rx_some (Cls is_digit)))])
       (Cat (rx_text ''r'') (rx_some (Cls is_digit))),
     AtEnd]"

definition is_version :: "string \<Rightarrow> bool" where
  "is_version s \<longleftrightarrow> rx_match_start VERSION_RE s \<noteq> None"

definition normalise_family :: "string \<Rightarrow> string" where
  "normalise_family v =
     (let cleaned = rx_sub (rx_some (rx_text ''-'')) ''-'' (underscores_to_dashes (lower (strip v)));
          s = strip_chars (in_chars ''-'') cleaned in
      if s = [] then ''unknown'' else s)"

definition SPECIALIZATIONS :: "string list" where
  "SPECIALIZATIONS = [''coder'', ''code'', ''vision'', ''embedding'', ''embed'', ''reranker'']"

definition extract_specialization :: "string \<Rightarrow> string option" where
  "extract_specialization r = List.find (contains (lower (last_segment r))) SPECIALIZATIONS"

text \<open>The loop over tokens stops at a variant or format token, or after three tokens unless the last is a version.\<close>

fun take_family_tokens :: "nat \<Rightarrow> string list \<Rightarrow> string list" where
  "take_family_tokens n [] = []"
| "take_family_tokens n (t # ts) =
     (if t \<in> set VARIANT_TOKENS \<or> t \<in> set FORMAT_TOKENS then []
      else if 3 \<le> Suc n \<and> \<not> is_version t then [t]
      else t # take_family_tokens (Suc n) ts)"

definition owner_of :: "string \<Rightarrow> string" where
  "owner_of r = (if CHR ''/'' \<in> set r then lower (takeWhile (\<lambda>c. c \<noteq> CHR ''/'') r) else [])"

definition without_owner :: "string \<Rightarrow> string list \<Rightarrow> string list" where
  "without_owner owner ts =
     (case ts of
        [] \<Rightarrow> []
      | t # rest \<Rightarrow> if 2 < length ts \<and> t \<in> set (runs is_family_char owner) then rest else ts)"

definition family_from_repo_id :: "string \<Rightarrow> string option" where
  "family_from_repo_id r =
     (let name = lower (last_segment r) in
      if rx_search SIZE_MARKER_RE name = None then None
      else
        (case without_owner (owner_of r) (runs is_family_char (rx_sub SIZE_MARKER_RE [] name)) of
           [] \<Rightarrow> None
         | t # ts \<Rightarrow>
             Some (normalise_family (join ''-''
               (case take_family_tokens 0 (t # ts) of [] \<Rightarrow> [t] | fs \<Rightarrow> fs)))))"

definition detect_family :: "model_candidate \<Rightarrow> model_analysis option \<Rightarrow> string" where
  "detect_family c analysis =
     (let source = opt_default (text_or (cd_base_model_repo_id c) (Some (cd_repo_id c))) [];
          config_type = Option.bind (Option.bind analysis an_config) model_type in
      case config_type of
        Some (k # ks) \<Rightarrow>
          (let base = normalise_family (k # ks) in
           case extract_specialization source of
             Some s \<Rightarrow> if contains base s then base else base @ ''-'' @ s
           | None \<Rightarrow> base)
      | _ \<Rightarrow> (case family_from_repo_id source of Some (k # ks) \<Rightarrow> k # ks | _ \<Rightarrow> ''unknown''))"

section \<open>Parameter counts\<close>

text \<open>\<^verbatim>\<open>int(float(digits) * multiplier)\<close>.\<close>

definition scaled_count :: "string \<Rightarrow> string \<Rightarrow> int" where
  "scaled_count number unit =
     float_trunc (float_mult (decimal_float number)
       (float_of_int (if lower unit = ''b'' then 10 ^ 9 else 10 ^ 6)))"

definition SIZE_LABEL_RE :: rx where
  "SIZE_LABEL_RE = rx_seq [Many (Cls is_blank), Capture 1 rx_number, Many (Cls is_blank),
     Capture 2 (Cls (in_chars ''bBmM'')), NotAhead (Cls (\<lambda>c. is_letter c \<or> is_digit c))]"

definition count_from_size_label :: "string option \<Rightarrow> int option" where
  "count_from_size_label label =
     map_option (\<lambda>m. scaled_count (rx_group_text m 1) (rx_group_text m 2))
       (Option.bind label (rx_match_start SIZE_LABEL_RE))"

definition declared_counts :: "string \<Rightarrow> int list" where
  "declared_counts name =
     map (\<lambda>m. scaled_count (rx_group_text m 1) (rx_group_text m 2))
       (concat (map (\<lambda>p. rx_all p name) PARAM_PATTERNS))"

definition count_from_repo_id :: "string \<Rightarrow> int option" where
  "count_from_repo_id r = max_default (declared_counts (last_segment r))"

definition counted :: "int \<Rightarrow> parameter_count_source \<Rightarrow> estimation_confidence \<Rightarrow> parameter_count" where
  "counted n source confidence = \<lparr>pc_count = Some n, pc_source = source, pc_confidence = confidence\<rparr>"

definition packed_analysis :: "model_analysis option \<Rightarrow> bool" where
  "packed_analysis analysis \<longleftrightarrow>
     (case analysis of None \<Rightarrow> False | Some a \<Rightarrow> is_packed_quantization_config (an_config a))"

definition summary_count :: "model_analysis option \<Rightarrow> int option" where
  "summary_count analysis =
     (case Option.bind analysis an_safetensors_summary of
        Some s \<Rightarrow> if 0 < total_parameters s then Some (total_parameters s) else None
      | None \<Rightarrow> None)"

definition measured_weight_count :: "weight_estimate option \<Rightarrow> int option" where
  "measured_weight_count w =
     (case w of
        None \<Rightarrow> None
      | Some e \<Rightarrow>
          (case we_num_parameters e of
             Some n \<Rightarrow> if n \<noteq> 0 \<and> mc_source (we_component e) = SRC_METADATA then Some n else None
           | None \<Rightarrow> None))"

definition resolve_parameter_count ::
  "model_candidate \<Rightarrow> model_analysis option \<Rightarrow> weight_estimate option \<Rightarrow> parameter_count" where
  "resolve_parameter_count c analysis w =
     (let packed = packed_analysis analysis in
      case (if packed then None else opt_or (summary_count analysis) (measured_weight_count w)) of
        Some n \<Rightarrow> counted n SAFETENSORS_METADATA CONF_HIGH
      | None \<Rightarrow>
      (case estimate_total_parameters_from_config (Option.bind analysis an_config) of
        Some n \<Rightarrow> counted n MODEL_CONFIG_SOURCE CONF_MEDIUM
      | None \<Rightarrow>
      (case count_from_size_label (Option.bind analysis an_declared_size_label) of
        Some n \<Rightarrow> counted n GGUF_METADATA_SOURCE CONF_MEDIUM
      | None \<Rightarrow>
      (case count_from_repo_id (cd_repo_id c) of
        Some n \<Rightarrow> counted n NAME_INFERENCE CONF_LOW
      | None \<Rightarrow> \<lparr>pc_count = None, pc_source = COUNT_SOURCE_UNKNOWN, pc_confidence = CONF_UNKNOWN\<rparr>))))"

section \<open>Families of repositories\<close>

definition family_key :: "model_candidate \<Rightarrow> string" where
  "family_key c = lower (strip (opt_default (text_or (cd_base_model_repo_id c) (Some (cd_repo_id c))) []))"

definition setdefault_append :: "('k, 'v list) dict \<Rightarrow> 'k \<Rightarrow> 'v \<Rightarrow> ('k, 'v list) dict" where
  "setdefault_append d k v = dict_set d k (opt_default (dict_get d k) [] @ [v])"

definition group_candidates :: "model_candidate list \<Rightarrow> (string, model_candidate list) dict" where
  "group_candidates cs = foldl (\<lambda>d c. setdefault_append d (family_key c) c) [] cs"

definition score_in :: "(string, py_float) dict \<Rightarrow> evaluated_candidate \<Rightarrow> py_float" where
  "score_in scores e = opt_default (dict_get scores (ev_repo_id e)) float_zero"

definition family_of :: "evaluated_candidate \<Rightarrow> string" where
  "family_of e = family_key (ev_candidate e)"

text \<open>The winners, keyed by family, in the order in which the families were first seen.\<close>

definition take_better ::
  "(string, py_float) dict \<Rightarrow> (string, evaluated_candidate) dict \<Rightarrow> evaluated_candidate \<Rightarrow>
   (string, evaluated_candidate) dict" where
  "take_better scores best e =
     (case dict_get best (family_of e) of
        None \<Rightarrow> dict_set best (family_of e) e
      | Some incumbent \<Rightarrow>
          if float_less (score_in scores incumbent) (score_in scores e) then dict_set best (family_of e) e
          else best)"

definition family_winners ::
  "(string, py_float) dict \<Rightarrow> evaluated_candidate list \<Rightarrow> (string, evaluated_candidate) dict" where
  "family_winners scores es = foldl (take_better scores) [] es"

definition add_sibling ::
  "(string, evaluated_candidate) dict \<Rightarrow> (string, string list) dict \<Rightarrow> evaluated_candidate \<Rightarrow>
   (string, string list) dict" where
  "add_sibling best siblings e =
     (case dict_get best (family_of e) of
        None \<Rightarrow> siblings
      | Some w \<Rightarrow>
          if ev_repo_id e = ev_repo_id w then siblings
          else setdefault_append siblings (ev_repo_id w) (ev_repo_id e))"

definition collapse_families ::
  "evaluated_candidate list \<Rightarrow> (string, py_float) dict \<Rightarrow>
   evaluated_candidate list \<times> (string, string list) dict" where
  "collapse_families es scores =
     (let best = family_winners scores es in (map snd best, foldl (add_sibling best) [] es))"

section \<open>Series\<close>

definition variant_tag :: "string \<Rightarrow> string option" where
  "variant_tag r =
     (let name = lower (last_segment r) in
      if \<exists>w \<in> set [''instruct'', ''chat'', ''-it-'', ''-it2-'']. contains name w then Some ''instruct''
      else if endswith name ''-it'' then Some ''instruct''
      else if contains name ''-sft'' \<or> endswith name ''-sft'' then Some ''instruct''
      else if contains name ''-base'' \<or> endswith name ''-base'' then Some ''base''
      else None)"

definition series_key :: "evaluated_candidate \<Rightarrow> string" where
  "series_key e =
     (let r = cd_repo_id (ev_candidate e); family = detect_family (ev_candidate e) None in
      if family = ''unknown'' then ''solo:'' @ lower r
      else owner_of r @ ''/'' @ family @ (case variant_tag r of Some v \<Rightarrow> '':'' @ v | None \<Rightarrow> []))"

definition parameter_label :: "int option \<Rightarrow> string" where
  "parameter_label params =
     (case params of
        None \<Rightarrow> ''unknown size''
      | Some n \<Rightarrow>
          if n \<le> 0 then ''unknown size''
          else if 10 ^ 9 \<le> n then
            replace_text ''.0B'' ''B'' (show_fixed 1 (round_ratio n (10 ^ 9)) @ ''B'')
          else if 10 ^ 6 \<le> n then show_fixed 0 (round_ratio n (10 ^ 6)) @ ''M''
          else show_int n)"

definition group_by_series :: "evaluated_candidate list \<Rightarrow> (string, evaluated_candidate list) dict" where
  "group_by_series es = foldl (\<lambda>d e. setdefault_append d (series_key e) e) [] es"

section \<open>One recommendation per family\<close>

definition winners_of :: "(string, py_float) dict \<Rightarrow> evaluated_candidate list \<Rightarrow>
  (string, evaluated_candidate) dict \<Rightarrow> bool" where
  "winners_of scores es best \<longleftrightarrow>
     distinct (map fst best) \<and>
     (\<forall>k w. dict_get best k = Some w \<longrightarrow> w \<in> set es \<and> family_of w = k) \<and>
     (\<forall>e \<in> set es. \<exists>w. dict_get best (family_of e) = Some w \<and>
       float_value (score_in scores e) \<le> float_value (score_in scores w))"

lemma winners_of_step:
  assumes "winners_of scores es best"
  shows "winners_of scores (es @ [e]) (take_better scores best e)"
  using assms unfolding winners_of_def take_better_def
  by (force simp: dict_simps distinct_dict_set float_less_iff split: option.splits)

lemma family_winners_snoc: "family_winners scores (es @ [e]) = take_better scores (family_winners scores es) e"
  by (simp add: family_winners_def)

lemma family_winners_ok: "winners_of scores es (family_winners scores es)"
proof (induction es rule: rev_induct)
  case Nil
  show ?case by (simp add: winners_of_def family_winners_def dict_get_empty)
next
  case (snoc e es)
  then show ?case unfolding family_winners_snoc by (rule winners_of_step)
qed

lemma dict_get_mem: "dict_get d k = Some v \<Longrightarrow> (k, v) \<in> set d"
  by (simp add: dict_get_def map_of_SomeD)

lemma dict_get_iff: "distinct (map fst d) \<Longrightarrow> dict_get d k = Some v \<longleftrightarrow> (k, v) \<in> set d"
  by (simp add: dict_get_def)

definition siblings_of :: "(string, string list) dict \<Rightarrow> string \<Rightarrow> string list" where
  "siblings_of d r = opt_default (dict_get d r) []"

lemma siblings_add:
  "siblings_of (setdefault_append d k v) r = (if r = k then siblings_of d k @ [v] else siblings_of d r)"
  by (simp add: siblings_of_def setdefault_append_def dict_simps)

lemma add_sibling_mono: "x \<in> set (siblings_of d r) \<Longrightarrow> x \<in> set (siblings_of (add_sibling best d e) r)"
  by (auto simp: add_sibling_def siblings_add split: option.split)

lemma add_sibling_new:
  assumes "dict_get best (family_of e) = Some w" "ev_repo_id e \<noteq> ev_repo_id w"
  shows "ev_repo_id e \<in> set (siblings_of (add_sibling best d e) (ev_repo_id w))"
  using assms by (simp add: add_sibling_def siblings_add)

lemma siblings_listed:
  assumes "e \<in> set es" "dict_get best (family_of e) = Some w" "ev_repo_id e \<noteq> ev_repo_id w"
  shows "ev_repo_id e \<in> set (siblings_of (foldl (add_sibling best) d es) (ev_repo_id w))"
  using assms(1)
proof (induction es arbitrary: d rule: rev_induct)
  case (snoc x xs)
  then show ?case
    using add_sibling_mono add_sibling_new [OF assms(2,3)] by (cases "e = x") auto
qed simp


definition example_member :: "string \<Rightarrow> string option \<Rightarrow> evaluated_candidate" where
  "example_member r base =
     (example_evaluated None)\<lparr>ev_candidate :=
        (example_candidate None)\<lparr>cd_repo_id := r, cd_base_model_repo_id := base\<rparr>\<rparr>"


end
