(* ===== verification/Py_Json.thy ===== *)
theory Py_Json
  imports Py_Regex "HOL-Library.List_Lexorder" "HOL-Library.Char_ord"
begin

text \<open>
  The text of dynamically typed objects: \<^verbatim>\<open>repr\<close> of a float (the shortest decimal that reads back as
  the same float), \<^verbatim>\<open>str\<close> of an object, and \<^verbatim>\<open>json.dumps\<close> as the sources call it.
\<close>

section \<open>Floats\<close>

text \<open>The first \<open>k\<close> significant digits of a positive quotient, correctly rounded, and its decimal exponent.\<close>

definition significant :: "nat \<Rightarrow> int \<Rightarrow> int \<Rightarrow> int \<times> int" where
  "significant k n d =
     (let e = ratio_exp10 n d;
          r = div_half_even (n * 10 ^ nat (int k - 1 - e)) (d * 10 ^ nat (e + 1 - int k)) in
      if r = 10 ^ k then (e + 1, 10 ^ (k - 1)) else (e, r))"

definition reads_back :: "int \<Rightarrow> int \<Rightarrow> nat \<Rightarrow> bool" where
  "reads_back n d k =
     (case significant k n d of (e, r) \<Rightarrow>
        float_eq (round_ratio (r * 10 ^ nat (e + 1 - int k)) (10 ^ nat (int k - 1 - e))) (round_ratio n d))"

definition repr_pos :: "int \<Rightarrow> int \<Rightarrow> string" where
  "repr_pos n d =
     (let k = opt_default (List.find (reads_back n d) [1..<18]) 17 in
      case significant k n d of (e, r) \<Rightarrow>
        (let ds = strip_zeros (show_digits r) in
         if e < -4 \<or> 16 \<le> e then
           take 1 ds @ (if drop 1 ds = [] then [] else ''.'' @ drop 1 ds) @ show_exp e
         else if 0 \<le> e then
           (let whole = take (nat (e + 1)) (ds @ replicate (nat (e + 1) - length ds) CHR ''0'');
                rest = drop (nat (e + 1)) ds in
            whole @ ''.'' @ (if rest = [] then ''0'' else rest))
         else ''0.'' @ replicate (nat (- e - 1)) CHR ''0'' @ ds))"

fun float_repr :: "py_float \<Rightarrow> string" where
  "float_repr (PyFloat m e) =
     (if m = 0 then ''0.0''
      else if m < 0 then ''-'' @ repr_pos (- m * 2 ^ nat e) (2 ^ nat (- e))
      else repr_pos (m * 2 ^ nat e) (2 ^ nat (- e)))"

section \<open>Objects\<close>

fun repr_obj :: "py_obj \<Rightarrow> string" where
  "repr_obj PyNone = ''None''"
| "repr_obj (PyBool b) = (if b then ''True'' else ''False'')"
| "repr_obj (PyInt n) = show_int n"
| "repr_obj (PyNum x) = float_repr x"
| "repr_obj (PyStr s) = repr_str s"
| "repr_obj (PyList xs) = ''['' @ join '', '' (map repr_obj xs) @ '']''"
| "repr_obj (PyDict d) =
     ''{'' @ join '', '' (map (\<lambda>(k, x). repr_str k @ '': '' @ repr_obj x) d) @ ''}''"

fun str_obj :: "py_obj \<Rightarrow> string" where
  "str_obj (PyStr s) = s"
| "str_obj x = repr_obj x"

text \<open>\<^verbatim>\<open>json.dumps(x, sort_keys=True, separators=(item, key))\<close> of ASCII text without control characters.\<close>

definition json_text :: "string \<Rightarrow> string" where
  "json_text s =
     [CHR 0x22] @ concat (map (\<lambda>c. if c = CHR 0x22 \<or> c = CHR 0x5C then [CHR 0x5C, c]
       else if c = CHR 0x0A then [CHR 0x5C, CHR ''n'']
       else if c = CHR 0x09 then [CHR 0x5C, CHR ''t'']
       else if c = CHR 0x0D then [CHR 0x5C, CHR ''r''] else [c]) s) @ [CHR 0x22]"

fun json_dumps :: "string \<Rightarrow> string \<Rightarrow> py_obj \<Rightarrow> string" where
  "json_dumps item key PyNone = ''null''"
| "json_dumps item key (PyBool b) = (if b then ''true'' else ''false'')"
| "json_dumps item key (PyInt n) = show_int n"
| "json_dumps item key (PyNum x) = float_repr x"
| "json_dumps item key (PyStr s) = json_text s"
| "json_dumps item key (PyList xs) = ''['' @ join item (map (json_dumps item key) xs) @ '']''"
| "json_dumps item key (PyDict d) =
     ''{'' @ join item (map (\<lambda>(k, t). json_text k @ key @ t)
       (sort_key fst (map (\<lambda>(k, x). (k, json_dumps item key x)) d))) @ ''}''"

definition dumps_sorted :: "py_obj \<Rightarrow> string" where
  "dumps_sorted x = json_dumps '', '' '': '' x"

end
