(* ===== verification/Runtime_Readiness.thy ===== *)
theory Runtime_Readiness
  imports Backend_Selection Py_Json
begin

text \<open>
  Whether an installed runtime could launch a plan (\<^verbatim>\<open>runtime/llama_cpp_capability.py\<close>,
  \<^verbatim>\<open>runtime/pytorch_capability.py\<close>, data in \<^verbatim>\<open>domain/runtime.py\<close>): the devices a binary lists,
  the capabilities read from them, and the preflight decision.  Running the binaries is outside;
  their output is the input here.
\<close>

section \<open>Data\<close>

datatype llama_binary_status =
    BINARY_AVAILABLE | BINARY_MISSING | BINARY_NOT_EXECUTABLE | BINARY_PROBE_FAILED | BINARY_UNKNOWN

record llama_cpp_runtime_capability =
  lc_binary_path :: "string option"
  lc_binary_status :: llama_binary_status
  lc_version_text :: "string option"
  lc_backend_capabilities :: "llama_cpp_backend_capability list"
  lc_probe_source :: "string option"
  lc_message :: "string option"

datatype pytorch_status =
    PY_AVAILABLE | PYTHON_MISSING | TORCH_MISSING | TRANSFORMERS_MISSING | PY_IMPORT_FAILED
  | PY_PROBE_FAILED | PY_UNKNOWN

datatype pytorch_reason =
    PR_RUNTIME_AVAILABLE | PR_PYTHON_MISSING | PR_TORCH_MISSING | PR_TRANSFORMERS_MISSING
  | PR_IMPORT_FAILED | PR_PROBE_FAILED | PR_BACKEND_EXPOSED | PR_BACKEND_NOT_OBSERVED
  | PR_CAPABILITY_UNKNOWN

record pytorch_device =
  pd_backend :: compute_backend
  pd_runtime_id :: string
  pd_index :: "int option"
  pd_name :: "string option"
  pd_memory_total_bytes :: "int option"
  pd_memory_free_bytes :: "int option"

record pytorch_backend_capability =
  pb_backend :: compute_backend
  pb_state :: capability_state
  pb_devices :: "pytorch_device list"
  pb_reason :: pytorch_reason
  pb_source :: "string option"
  pb_detail :: "string option"

record pytorch_runtime_capability =
  pt_python_executable :: "string option"
  pt_runtime_status :: pytorch_status
  pt_torch_version :: "string option"
  pt_transformers_version :: "string option"
  pt_torch_cuda_version :: "string option"
  pt_torch_hip_version :: "string option"
  pt_bitsandbytes_available :: "bool option"
  pt_bitsandbytes_version :: "string option"
  pt_bitsandbytes_message :: "string option"
  pt_backend_capabilities :: "pytorch_backend_capability list"
  pt_probe_source :: "string option"
  pt_message :: "string option"

datatype runtime_capability =
    LlamaCppCapability llama_cpp_runtime_capability
  | PyTorchCapability pytorch_runtime_capability

datatype backend_capability =
    LlamaCppBackend llama_cpp_backend_capability
  | PyTorchBackend pytorch_backend_capability

definition runtime_capability_version :: "runtime_capability option \<Rightarrow> string option" where
  "runtime_capability_version c =
     (case c of
        None \<Rightarrow> None
      | Some (LlamaCppCapability l) \<Rightarrow> lc_version_text l
      | Some (PyTorchCapability p) \<Rightarrow>
          (case List.map_filter (\<lambda>v. v) [pt_torch_version p, pt_transformers_version p] of
             [] \<Rightarrow> None | vs \<Rightarrow> Some (join '' / '' vs)))"

datatype readiness_status = READY | PREPARABLE | NOT_READY | READINESS_UNKNOWN

fun readiness_value :: "readiness_status \<Rightarrow> string" where
  "readiness_value READY = ''ready''"
| "readiness_value PREPARABLE = ''preparable''"
| "readiness_value NOT_READY = ''not_ready''"
| "readiness_value READINESS_UNKNOWN = ''unknown''"

datatype readiness_reason =
    ER_RUNTIME_AVAILABLE | ER_RUNTIME_MISSING | ER_RUNTIME_NOT_EXECUTABLE | ER_RUNTIME_IMPORT_FAILED
  | ER_PROBE_FAILED | ER_SELECTED_BACKEND_EXPOSED | ER_SELECTED_BACKEND_NOT_EXPOSED
  | ER_SELECTED_DEVICE_NOT_EXPOSED | ER_SELECTED_DEVICE_NOT_IDENTIFIED
  | ER_QUANTIZATION_DEPENDENCY_MISSING | ER_QUANTIZATION_DEPENDENCY_UNKNOWN
  | ER_ARTIFACT_PREPARATION_REQUIRED | ER_ARTIFACT_UNSUPPORTED | ER_CAPABILITY_UNKNOWN

fun readiness_reason_value :: "readiness_reason \<Rightarrow> string" where
  "readiness_reason_value ER_RUNTIME_AVAILABLE = ''runtime_available''"
| "readiness_reason_value ER_RUNTIME_MISSING = ''runtime_missing''"
| "readiness_reason_value ER_RUNTIME_NOT_EXECUTABLE = ''runtime_not_executable''"
| "readiness_reason_value ER_RUNTIME_IMPORT_FAILED = ''runtime_import_failed''"
| "readiness_reason_value ER_PROBE_FAILED = ''probe_failed''"
| "readiness_reason_value ER_SELECTED_BACKEND_EXPOSED = ''selected_backend_exposed''"
| "readiness_reason_value ER_SELECTED_BACKEND_NOT_EXPOSED = ''selected_backend_not_exposed''"
| "readiness_reason_value ER_SELECTED_DEVICE_NOT_EXPOSED = ''selected_device_not_exposed''"
| "readiness_reason_value ER_SELECTED_DEVICE_NOT_IDENTIFIED = ''selected_device_not_identified''"
| "readiness_reason_value ER_QUANTIZATION_DEPENDENCY_MISSING = ''quantization_dependency_missing''"
| "readiness_reason_value ER_QUANTIZATION_DEPENDENCY_UNKNOWN = ''quantization_dependency_unknown''"
| "readiness_reason_value ER_ARTIFACT_PREPARATION_REQUIRED = ''artifact_preparation_required''"
| "readiness_reason_value ER_ARTIFACT_UNSUPPORTED = ''artifact_unsupported''"
| "readiness_reason_value ER_CAPABILITY_UNKNOWN = ''capability_unknown''"

record execution_readiness =
  xr_status :: readiness_status
  xr_reason :: readiness_reason
  xr_selection :: runtime_backend_selection
  xr_runtime_capability :: runtime_capability
  xr_backend_capability :: "backend_capability option"
  xr_message :: "string option"

section \<open>The devices llama.cpp lists\<close>

definition DEVICE_LINE_RE :: rx where
  "DEVICE_LINE_RE = rx_seq
     [AtStart, rx_blanks, Capture 1 (rx_any (map rx_ignore_case [''CUDA'', ''Vulkan'', ''HIP'', ''ROCm''])),
      Capture 2 rx_digits, rx_blanks, rx_text '':'', rx_blanks,
      Capture 3 (Cat rx_dot (ManyLazy rx_dot)), rx_blanks, AtEnd]"

definition MEMORY_RE :: rx where
  "MEMORY_RE = rx_seq
     [AtStart, Capture 1 (ManyLazy rx_dot), rx_blanks, rx_text ''('', Capture 2 rx_digits, rx_blanks,
      rx_ignore_case ''MiB,'', rx_blanks, Capture 3 rx_digits, rx_blanks, rx_ignore_case ''MiB'',
      rx_some (Cls is_blank), rx_ignore_case ''free)'', rx_blanks, AtEnd]"

definition backend_from_prefix :: "string \<Rightarrow> compute_backend option" where
  "backend_from_prefix pre =
     (let n = lower pre in
      if n = ''cuda'' then Some CUDA
      else if n = ''vulkan'' then Some VULKAN
      else if n \<in> {''hip'', ''rocm''} then Some HIP
      else None)"

definition parse_memory_suffix :: "string \<Rightarrow> string \<times> int option \<times> int option" where
  "parse_memory_suffix body =
     (case rx_match_start MEMORY_RE body of
        None \<Rightarrow> (body, None, None)
      | Some m \<Rightarrow>
          (strip (rx_group_text m 1), Some (int_of_digits (rx_group_text m 2) * 1048576),
           Some (int_of_digits (rx_group_text m 3) * 1048576)))"

definition device_of_body :: "compute_backend \<Rightarrow> string \<Rightarrow> string \<times> int option \<times> int option \<Rightarrow>
  llama_cpp_runtime_device" where
  "device_of_body b runtime_id parsed =
     (case parsed of (name, t, free) \<Rightarrow>
        \<lparr>rd_backend = b, rd_runtime_id = runtime_id, rd_name = (if name = [] then None else Some name),
         rd_memory_total_bytes = t, rd_memory_free_bytes = free\<rparr>)"

definition parse_device_line :: "string \<Rightarrow> llama_cpp_runtime_device option" where
  "parse_device_line line =
     (case rx_match_start DEVICE_LINE_RE line of
        None \<Rightarrow> None
      | Some m \<Rightarrow>
          map_option
            (\<lambda>b. device_of_body b (rx_group_text m 1 @ rx_group_text m 2)
              (parse_memory_suffix (strip (rx_group_text m 3))))
            (backend_from_prefix (rx_group_text m 1)))"

definition parse_llama_cpp_devices :: "string \<Rightarrow> llama_cpp_runtime_device list" where
  "parse_llama_cpp_devices output = List.map_filter parse_device_line (split_lines output)"

definition LIST_DEVICES_SOURCE :: string where
  "LIST_DEVICES_SOURCE = ''llama-cli --list-devices''"

definition capability_for :: "llama_cpp_runtime_device list \<Rightarrow> compute_backend \<Rightarrow> llama_cpp_backend_capability" where
  "capability_for devices b =
     (let own = filter (\<lambda>d. rd_backend d = b) devices in
      if own \<noteq> [] then
        \<lparr>cb_backend = b, cb_state = CAP_CONFIRMED, cb_devices = own, cb_reason = CR_BACKEND_EXPOSED,
         cb_source = Some LIST_DEVICES_SOURCE, cb_detail = None\<rparr>
      else
        \<lparr>cb_backend = b, cb_state = CAP_NOT_OBSERVED, cb_devices = [], cb_reason = CR_BACKEND_NOT_OBSERVED,
         cb_source = Some LIST_DEVICES_SOURCE,
         cb_detail = Some (''No runtime device for this backend was observed; this is '' @
           ''not proof that the binary was compiled without it.'')\<rparr>)"

definition build_backend_capabilities :: "llama_cpp_runtime_device list \<Rightarrow> llama_cpp_backend_capability list" where
  "build_backend_capabilities devices =
     \<lparr>cb_backend = CPU, cb_state = CAP_CONFIRMED, cb_devices = [], cb_reason = CR_RUNTIME_AVAILABLE,
      cb_source = Some LIST_DEVICES_SOURCE,
      cb_detail = Some (''CPU execution is treated as usable when llama-cli itself '' @
        ''successfully responds; CPU may not appear in --list-devices.'')\<rparr> #
     map (capability_for devices) [CUDA, VULKAN, HIP]"

section \<open>Readiness of llama.cpp\<close>

definition find_capability ::
  "llama_cpp_runtime_capability \<Rightarrow> compute_backend \<Rightarrow> llama_cpp_backend_capability option" where
  "find_capability r b = List.find (\<lambda>c. cb_backend c = b) (lc_backend_capabilities r)"

definition llama_readiness ::
  "runtime_backend_selection \<Rightarrow> llama_cpp_runtime_capability \<Rightarrow> llama_cpp_backend_capability option \<Rightarrow>
   readiness_status \<Rightarrow> readiness_reason \<Rightarrow> string \<Rightarrow> execution_readiness" where
  "llama_readiness selection r capability status reason message =
     \<lparr>xr_status = status, xr_reason = reason, xr_selection = selection,
      xr_runtime_capability = LlamaCppCapability r,
      xr_backend_capability = map_option LlamaCppBackend capability, xr_message = Some message\<rparr>"

text \<open>\<^verbatim>\<open>text or default\<close>.\<close>

definition text_default :: "string option \<Rightarrow> string \<Rightarrow> string" where
  "text_default s d = (case s of None \<Rightarrow> d | Some t \<Rightarrow> if t = [] then d else t)"

definition listed_devices :: "llama_cpp_backend_capability \<Rightarrow> string" where
  "listed_devices capability =
     join '', '' (map (\<lambda>d. rd_runtime_id d @ '': '' @ text_default (rd_name d) ''unnamed'')
       (cb_devices capability))"

definition wanted_device :: "runtime_backend_selection \<Rightarrow> string" where
  "wanted_device selection =
     (case sel_accelerator selection of
        Some a \<Rightarrow> [CHR 0x27] @ sa_name a @ [CHR 0x27]
      | None \<Rightarrow> ''the selected accelerator'')"

definition vulkan_device_readiness ::
  "runtime_backend_selection \<Rightarrow> llama_cpp_backend_capability \<Rightarrow> llama_cpp_runtime_capability \<Rightarrow>
   execution_readiness option" where
  "vulkan_device_readiness selection capability r =
     (let m = match_runtime_device selection capability; wanted = wanted_device selection;
          listed = listed_devices capability in
      if dm_device m \<noteq> None then None
      else if dm_reason m = AMBIGUOUS then
        Some (llama_readiness selection r (Some capability) READINESS_UNKNOWN ER_SELECTED_DEVICE_NOT_IDENTIFIED
          (''llama-cli lists several vulkan devices ('' @ listed @ '') and none can be '' @
           ''tied to '' @ wanted @ ''; no device is selected automatically''))
      else
        Some (llama_readiness selection r (Some capability) NOT_READY ER_SELECTED_DEVICE_NOT_EXPOSED
          (if dm_reason m = NO_HARDWARE_DEVICE then
             ''llama-cli exposes only a software vulkan renderer ('' @ listed @ ''); '' @
             wanted @ '' is not usable through it''
           else ''llama-cli did not list '' @ wanted @ '' among its vulkan devices ('' @ listed @ '')'')))"

definition confirmed_readiness ::
  "runtime_backend_selection \<Rightarrow> llama_cpp_runtime_capability \<Rightarrow> llama_cpp_backend_capability \<Rightarrow>
   execution_readiness" where
  "confirmed_readiness selection r capability =
     (case (if sel_backend selection = VULKAN then vulkan_device_readiness selection capability r else None) of
        Some blocked \<Rightarrow> blocked
      | None \<Rightarrow>
          llama_readiness selection r (Some capability) READY ER_SELECTED_BACKEND_EXPOSED
            (''llama-cli exposes '' @ backend_value (sel_backend selection) @ '' device(s)''))"

definition available_readiness ::
  "runtime_backend_selection \<Rightarrow> llama_cpp_runtime_capability \<Rightarrow> execution_readiness" where
  "available_readiness selection r =
     (let b = sel_backend selection in
      if b = CPU then
        llama_readiness selection r (find_capability r CPU) READY ER_RUNTIME_AVAILABLE
          ''CPU execution is available because llama-cli probe succeeded''
      else
        (case find_capability r b of
           None \<Rightarrow>
             llama_readiness selection r None READINESS_UNKNOWN ER_CAPABILITY_UNKNOWN
               (backend_value b @ '' capability was not reported'')
         | Some capability \<Rightarrow>
             (case cb_state capability of
                CAP_CONFIRMED \<Rightarrow> confirmed_readiness selection r capability
              | CAP_NOT_OBSERVED \<Rightarrow>
                  llama_readiness selection r (Some capability) NOT_READY ER_SELECTED_BACKEND_NOT_EXPOSED
                    (''llama-cli did not expose '' @ backend_value b @ '' devices in --list-devices'')
              | CAP_UNKNOWN \<Rightarrow>
                  llama_readiness selection r (Some capability) READINESS_UNKNOWN ER_CAPABILITY_UNKNOWN
                    (backend_value b @ '' capability is unknown''))))"

definition evaluate_execution_readiness ::
  "runtime_backend_selection \<Rightarrow> llama_cpp_runtime_capability \<Rightarrow> execution_readiness" where
  "evaluate_execution_readiness selection r =
     (case lc_binary_status r of
        BINARY_MISSING \<Rightarrow>
          llama_readiness selection r None NOT_READY ER_RUNTIME_MISSING ''llama-cli executable was not found''
      | BINARY_NOT_EXECUTABLE \<Rightarrow>
          llama_readiness selection r None NOT_READY ER_RUNTIME_NOT_EXECUTABLE
            ''llama-cli exists but could not be executed''
      | BINARY_PROBE_FAILED \<Rightarrow>
          llama_readiness selection r None READINESS_UNKNOWN ER_PROBE_FAILED ''llama-cli capability probe failed''
      | BINARY_UNKNOWN \<Rightarrow>
          llama_readiness selection r None READINESS_UNKNOWN ER_CAPABILITY_UNKNOWN
            ''llama-cli capability is unknown''
      | BINARY_AVAILABLE \<Rightarrow> available_readiness selection r)"

section \<open>PyTorch\<close>

definition probe_str :: "py_obj option \<Rightarrow> string option" where
  "probe_str v =
     (case v of
        None \<Rightarrow> None
      | Some PyNone \<Rightarrow> None
      | Some x \<Rightarrow> if str_obj x = [] then None else Some (str_obj x))"

definition probe_int :: "py_obj option \<Rightarrow> int option" where
  "probe_int v =
     (case v of
        Some (PyInt n) \<Rightarrow> Some n
      | Some (PyBool b) \<Rightarrow> Some (if b then 1 else 0)
      | Some (PyStr s) \<Rightarrow> parse_int s
      | _ \<Rightarrow> None)"

definition bool_or_none :: "py_obj option \<Rightarrow> bool option" where
  "bool_or_none v = (case v of Some (PyBool b) \<Rightarrow> Some b | _ \<Rightarrow> None)"

definition PROBE_SOURCE :: string where
  "PROBE_SOURCE = ''python -c pytorch_runtime_probe''"

fun pytorch_status_of :: "string \<Rightarrow> pytorch_status" where
  "pytorch_status_of s =
     (if s = ''available'' then PY_AVAILABLE
      else if s = ''python_missing'' then PYTHON_MISSING
      else if s = ''torch_missing'' then TORCH_MISSING
      else if s = ''transformers_missing'' then TRANSFORMERS_MISSING
      else if s = ''import_failed'' then PY_IMPORT_FAILED
      else if s = ''probe_failed'' then PY_PROBE_FAILED
      else PY_UNKNOWN)"

definition device_from_probe :: "(string, py_obj) dict \<Rightarrow> compute_backend \<Rightarrow> pytorch_device" where
  "device_from_probe raw b =
     (let index = probe_int (dict_get raw ''index'') in
      \<lparr>pd_backend = b,
       pd_runtime_id = (case index of Some i \<Rightarrow> backend_value b @ '':'' @ show_int i | None \<Rightarrow> backend_value b),
       pd_index = index, pd_name = probe_str (dict_get raw ''name''),
       pd_memory_total_bytes = probe_int (dict_get raw ''memory_total_bytes''),
       pd_memory_free_bytes = probe_int (dict_get raw ''memory_free_bytes'')\<rparr>)"

definition pytorch_capability ::
  "compute_backend \<Rightarrow> capability_state \<Rightarrow> pytorch_device list \<Rightarrow> pytorch_reason \<Rightarrow> string option \<Rightarrow>
   pytorch_backend_capability" where
  "pytorch_capability b state devices reason detail =
     \<lparr>pb_backend = b, pb_state = state, pb_devices = devices, pb_reason = reason,
      pb_source = Some PROBE_SOURCE, pb_detail = detail\<rparr>"

definition cuda_capability ::
  "compute_backend option \<Rightarrow> pytorch_device list \<Rightarrow> string option \<Rightarrow> pytorch_backend_capability" where
  "cuda_capability logical devices version =
     (let own = filter (\<lambda>d. pd_backend d = CUDA) devices in
      if logical = Some CUDA \<and> own \<noteq> [] then
        pytorch_capability CUDA CAP_CONFIRMED own PR_BACKEND_EXPOSED
          (Some (case version of Some v \<Rightarrow> ''torch.version.cuda='' @ v | None \<Rightarrow> ''torch.cuda exposed device(s)''))
      else
        pytorch_capability CUDA CAP_NOT_OBSERVED [] PR_BACKEND_NOT_OBSERVED
          (Some (''No CUDA runtime device was observed; this does not prove PyTorch '' @
            ''was compiled without CUDA.'')))"

definition hip_capability ::
  "compute_backend option \<Rightarrow> pytorch_device list \<Rightarrow> string option \<Rightarrow> pytorch_backend_capability" where
  "hip_capability logical devices version =
     (let own = filter (\<lambda>d. pd_backend d = HIP) devices in
      if logical = Some HIP \<and> own \<noteq> [] then
        pytorch_capability HIP CAP_CONFIRMED own PR_BACKEND_EXPOSED
          (Some (''torch.version.hip='' @ opt_default version ''None''))
      else if version \<noteq> None then
        pytorch_capability HIP CAP_UNKNOWN [] PR_CAPABILITY_UNKNOWN
          (Some (''ROCm/HIP build metadata was observed, but no usable HIP '' @
            ''device was exposed by the runtime probe.''))
      else pytorch_capability HIP CAP_NOT_OBSERVED [] PR_BACKEND_NOT_OBSERVED None)"

definition logical_backend :: "(string, py_obj) dict \<Rightarrow> compute_backend option" where
  "logical_backend raw =
     (if (case dict_get raw ''cuda_available'' of None \<Rightarrow> False | Some v \<Rightarrow> truthy v) \<and>
         0 < opt_default (probe_int (dict_get raw ''cuda_device_count'')) 0
      then Some (if probe_str (dict_get raw ''torch_hip_version'') \<noteq> None then HIP else CUDA)
      else None)"

definition probed_devices :: "(string, py_obj) dict \<Rightarrow> compute_backend option \<Rightarrow> pytorch_device list" where
  "probed_devices raw logical =
     (case (logical, dict_get raw ''devices'') of
        (Some b, Some (PyList xs)) \<Rightarrow>
          List.map_filter (\<lambda>x. case x of PyDict d \<Rightarrow> Some (device_from_probe d b) | _ \<Rightarrow> None) xs
      | _ \<Rightarrow> [])"

definition pytorch_backend_capabilities :: "(string, py_obj) dict \<Rightarrow> pytorch_backend_capability list" where
  "pytorch_backend_capabilities raw =
     (let logical = logical_backend raw; devices = probed_devices raw logical in
      [pytorch_capability CPU CAP_CONFIRMED [] PR_RUNTIME_AVAILABLE
         (Some (''CPU execution is treated as usable when Python, PyTorch and '' @
           ''Transformers import successfully.'')),
       cuda_capability logical devices (probe_str (dict_get raw ''torch_cuda_version'')),
       pytorch_capability VULKAN CAP_NOT_OBSERVED [] PR_BACKEND_NOT_OBSERVED
         (Some ''PyTorch/Transformers Vulkan execution is not probed by Jaull.''),
       hip_capability logical devices (probe_str (dict_get raw ''torch_hip_version''))])"

text \<open>The decoded JSON of the probe; \<open>None\<close> stands for output that is not JSON.\<close>

definition blank_pytorch :: "string option \<Rightarrow> pytorch_status \<Rightarrow> string option \<Rightarrow> pytorch_runtime_capability" where
  "blank_pytorch python status message =
     \<lparr>pt_python_executable = python, pt_runtime_status = status, pt_torch_version = None,
      pt_transformers_version = None, pt_torch_cuda_version = None, pt_torch_hip_version = None,
      pt_bitsandbytes_available = None, pt_bitsandbytes_version = None, pt_bitsandbytes_message = None,
      pt_backend_capabilities = [], pt_probe_source = Some PROBE_SOURCE, pt_message = message\<rparr>"

definition read_probe :: "string option \<Rightarrow> (string, py_obj) dict \<Rightarrow> pytorch_runtime_capability" where
  "read_probe python raw =
     (let status = pytorch_status_of (case dict_get raw ''runtime_status'' of Some v \<Rightarrow> str_obj v | None \<Rightarrow> ''unknown'') in
      if status \<noteq> PY_AVAILABLE then blank_pytorch python status (probe_str (dict_get raw ''message''))
      else
        \<lparr>pt_python_executable = python, pt_runtime_status = PY_AVAILABLE,
         pt_torch_version = probe_str (dict_get raw ''torch_version''),
         pt_transformers_version = probe_str (dict_get raw ''transformers_version''),
         pt_torch_cuda_version = probe_str (dict_get raw ''torch_cuda_version''),
         pt_torch_hip_version = probe_str (dict_get raw ''torch_hip_version''),
         pt_bitsandbytes_available = bool_or_none (dict_get raw ''bitsandbytes_available''),
         pt_bitsandbytes_version = probe_str (dict_get raw ''bitsandbytes_version''),
         pt_bitsandbytes_message = probe_str (dict_get raw ''bitsandbytes_message''),
         pt_backend_capabilities = pytorch_backend_capabilities raw,
         pt_probe_source = Some PROBE_SOURCE, pt_message = probe_str (dict_get raw ''cuda_error'')\<rparr>)"

section \<open>Readiness of PyTorch\<close>

definition find_pytorch_capability ::
  "pytorch_runtime_capability \<Rightarrow> compute_backend \<Rightarrow> pytorch_backend_capability option" where
  "find_pytorch_capability r b = List.find (\<lambda>c. pb_backend c = b) (pt_backend_capabilities r)"

definition pytorch_readiness ::
  "runtime_backend_selection \<Rightarrow> pytorch_runtime_capability \<Rightarrow> pytorch_backend_capability option \<Rightarrow>
   readiness_status \<Rightarrow> readiness_reason \<Rightarrow> string \<Rightarrow> execution_readiness" where
  "pytorch_readiness selection r capability status reason message =
     \<lparr>xr_status = status, xr_reason = reason, xr_selection = selection,
      xr_runtime_capability = PyTorchCapability r,
      xr_backend_capability = map_option PyTorchBackend capability, xr_message = Some message\<rparr>"

definition with_quantization_readiness ::
  "bool \<Rightarrow> runtime_backend_selection \<Rightarrow> pytorch_runtime_capability \<Rightarrow> pytorch_backend_capability option \<Rightarrow>
   execution_readiness \<Rightarrow> execution_readiness" where
  "with_quantization_readiness needed selection r capability readiness =
     (if \<not> needed then readiness
      else if sel_backend selection = CPU then
        pytorch_readiness selection r capability NOT_READY ER_QUANTIZATION_DEPENDENCY_MISSING
          (''This quantized Transformers plan requires a CUDA/HIP-capable '' @
           ''backend in Jaull'' @ [CHR 0x27] @ ''s current loader; CPU quantization is not validated here.'')
      else if sel_backend selection \<noteq> CUDA then
        pytorch_readiness selection r capability READINESS_UNKNOWN ER_QUANTIZATION_DEPENDENCY_UNKNOWN
          (''The selected Transformers plan requires bitsandbytes, but support for the '' @
           backend_value (sel_backend selection) @ '' backend has not been validated.'')
      else
        (case pt_bitsandbytes_available r of
           Some False \<Rightarrow>
             pytorch_readiness selection r capability NOT_READY ER_QUANTIZATION_DEPENDENCY_MISSING
               (''The selected Transformers plan requires bitsandbytes, but it '' @
                ''is not installed in the probed Python environment.'')
         | None \<Rightarrow>
             pytorch_readiness selection r capability READINESS_UNKNOWN ER_QUANTIZATION_DEPENDENCY_UNKNOWN
               (''The selected Transformers plan requires bitsandbytes, but its '' @
                ''availability could not be confirmed.'')
         | Some True \<Rightarrow> readiness))"

definition missing_message :: "pytorch_runtime_capability \<Rightarrow> string" where
  "missing_message r =
     text_default (pt_message r)
       (case pt_runtime_status r of
          PYTHON_MISSING \<Rightarrow> ''Python executable was not found''
        | TORCH_MISSING \<Rightarrow> ''PyTorch is not installed''
        | TRANSFORMERS_MISSING \<Rightarrow> ''Transformers is not installed''
        | _ \<Rightarrow> ''Runtime dependency is missing'')"

definition available_pytorch_readiness ::
  "runtime_backend_selection \<Rightarrow> pytorch_runtime_capability \<Rightarrow> bool \<Rightarrow> execution_readiness" where
  "available_pytorch_readiness selection r needed =
     (let b = sel_backend selection; capability = find_pytorch_capability r b in
      if b = CPU then
        with_quantization_readiness needed selection r capability
          (pytorch_readiness selection r capability READY ER_RUNTIME_AVAILABLE
            (''CPU execution is available because Python, PyTorch and '' @ ''Transformers import successfully''))
      else
        (case capability of
           None \<Rightarrow>
             pytorch_readiness selection r None READINESS_UNKNOWN ER_CAPABILITY_UNKNOWN
               (backend_value b @ '' capability was not reported'')
         | Some c \<Rightarrow>
             (case pb_state c of
                CAP_CONFIRMED \<Rightarrow>
                  with_quantization_readiness needed selection r capability
                    (pytorch_readiness selection r capability READY ER_SELECTED_BACKEND_EXPOSED
                      (''PyTorch exposes '' @ backend_value b @ '' device(s) for this runtime''))
              | CAP_NOT_OBSERVED \<Rightarrow>
                  pytorch_readiness selection r capability NOT_READY ER_SELECTED_BACKEND_NOT_EXPOSED
                    (''PyTorch did not expose '' @ backend_value b @ '' device(s)'')
              | CAP_UNKNOWN \<Rightarrow>
                  pytorch_readiness selection r capability READINESS_UNKNOWN ER_CAPABILITY_UNKNOWN
                    (backend_value b @ '' capability is unknown''))))"

definition evaluate_pytorch_execution_readiness ::
  "runtime_backend_selection \<Rightarrow> pytorch_runtime_capability \<Rightarrow> bool \<Rightarrow> execution_readiness" where
  "evaluate_pytorch_execution_readiness selection r needed =
     (case pt_runtime_status r of
        PY_AVAILABLE \<Rightarrow> available_pytorch_readiness selection r needed
      | PY_IMPORT_FAILED \<Rightarrow>
          pytorch_readiness selection r None NOT_READY ER_RUNTIME_IMPORT_FAILED
            (text_default (pt_message r) ''PyTorch/Transformers runtime import failed'')
      | PY_PROBE_FAILED \<Rightarrow>
          pytorch_readiness selection r None READINESS_UNKNOWN ER_PROBE_FAILED
            (text_default (pt_message r) ''PyTorch capability probe failed'')
      | PY_UNKNOWN \<Rightarrow>
          pytorch_readiness selection r None READINESS_UNKNOWN ER_CAPABILITY_UNKNOWN
            ''PyTorch runtime capability is unknown''
      | _ \<Rightarrow> pytorch_readiness selection r None NOT_READY ER_RUNTIME_MISSING (missing_message r))"

section \<open>Readiness rests on the listing\<close>

lemma listed_capability:
  assumes "find_capability r b = Some c" "cb_state c = CAP_CONFIRMED" "b \<noteq> CPU"
    and "lc_backend_capabilities r = build_backend_capabilities devices"
  shows "cb_devices c = filter (\<lambda>d. rd_backend d = b) devices \<and> cb_devices c \<noteq> [] \<and> cb_backend c = b"
  using assms
  by (cases b) (auto simp: find_capability_def build_backend_capabilities_def capability_for_def Let_def
    split: if_splits)

lemma matched_listed:
  assumes "dm_device (match_runtime_device s c) = Some d"
  shows "d \<in> set (cb_devices c) \<and> \<not> is_software_device d"
proof -
  have "d \<in> set (hardware_devices c)"
    using assms
    by (auto simp: match_runtime_device_def device_match_def Let_def devices_named_def
      split: list.splits option.splits if_splits dest: filter_eq_ConsD)
  then show ?thesis by (simp add: hardware_devices_def)
qed

lemma vulkan_matched:
  assumes "dm_device (match_runtime_device s c) = Some d" "sel_backend s = VULKAN"
  shows "\<exists>a n. sel_accelerator s = Some a \<and> rd_name d = Some n \<and> names_agree n (sa_name a)"
proof -
  have "\<exists>a. sel_accelerator s = Some a \<and> devices_named (sa_name a) (hardware_devices c) = [d]"
    using assms
    by (auto simp: match_runtime_device_def device_match_def Let_def
      split: list.splits option.splits if_splits)
  then obtain a where a: "sel_accelerator s = Some a" "devices_named (sa_name a) (hardware_devices c) = [d]"
    by blast
  then have "d \<in> set (devices_named (sa_name a) (hardware_devices c))" by simp
  then show ?thesis using a(1) by (auto simp: devices_named_def split: option.splits)
qed

text \<open>
  Readiness rests on what the binary listed.  If the preflight for an accelerator says ready,
  the binary answered, and a line of its own device listing was read as a device of the selected
  backend; for Vulkan one such device is hardware and its name agrees with the selected
  accelerator's.
\<close>

theorem ready_device_was_listed:
  assumes "xr_status (evaluate_execution_readiness s r) = READY" and "sel_backend s \<noteq> CPU"
    and "lc_backend_capabilities r = build_backend_capabilities (parse_llama_cpp_devices output)"
  shows "lc_binary_status r = BINARY_AVAILABLE \<and>
    (\<exists>line \<in> set (split_lines output). \<exists>d. parse_device_line line = Some d \<and>
      rd_backend d = sel_backend s \<and>
      (sel_backend s = VULKAN \<longrightarrow> \<not> is_software_device d \<and>
        (\<exists>a n. sel_accelerator s = Some a \<and> rd_name d = Some n \<and> names_agree n (sa_name a))))"
proof -
  let ?b = "sel_backend s" and ?ds = "parse_llama_cpp_devices output"
  have avail: "lc_binary_status r = BINARY_AVAILABLE" "xr_status (available_readiness s r) = READY"
    using assms(1)
    by (auto simp: evaluate_execution_readiness_def llama_readiness_def split: llama_binary_status.splits)
  then obtain c where c: "find_capability r ?b = Some c" "cb_state c = CAP_CONFIRMED"
      "xr_status (confirmed_readiness s r c) = READY"
    using assms(2)
    by (auto simp: available_readiness_def Let_def llama_readiness_def
      split: option.splits capability_state.splits)
  have listed: "cb_devices c = filter (\<lambda>d. rd_backend d = ?b) ?ds" "cb_devices c \<noteq> []"
    using listed_capability [OF c(1,2) assms(2,3)] by blast+
  have "\<exists>d \<in> set (cb_devices c). ?b = VULKAN \<longrightarrow> \<not> is_software_device d \<and>
      (\<exists>a n. sel_accelerator s = Some a \<and> rd_name d = Some n \<and> names_agree n (sa_name a))"
  proof (cases "?b = VULKAN")
    case True
    then obtain d where "dm_device (match_runtime_device s c) = Some d"
      using c(3) by (auto simp: confirmed_readiness_def vulkan_device_readiness_def Let_def llama_readiness_def
        split: if_splits option.splits)
    then show ?thesis using matched_listed vulkan_matched True by blast
  next
    case False
    then show ?thesis using listed(2) by (cases "cb_devices c") auto
  qed
  then obtain d where d: "d \<in> set (cb_devices c)" "?b = VULKAN \<longrightarrow> \<not> is_software_device d \<and>
      (\<exists>a n. sel_accelerator s = Some a \<and> rd_name d = Some n \<and> names_agree n (sa_name a))"
    by blast
  then have "d \<in> set ?ds" "rd_backend d = ?b" unfolding listed(1) by auto
  then obtain line where "line \<in> set (split_lines output)" "parse_device_line line = Some d"
    by (auto simp: parse_llama_cpp_devices_def List.map_filter_def)
  with \<open>rd_backend d = ?b\<close> avail(1) d(2) show ?thesis by blast
qed

definition example_devices_text :: string where
  "example_devices_text = ''Vulkan0: RTX 2060 (6144 MiB, 5900 MiB free)''"

definition example_llama :: llama_cpp_runtime_capability where
  "example_llama =
     \<lparr>lc_binary_path = Some ''/bin/llama-cli'', lc_binary_status = BINARY_AVAILABLE, lc_version_text = None,
      lc_backend_capabilities = build_backend_capabilities (parse_llama_cpp_devices example_devices_text),
      lc_probe_source = Some LIST_DEVICES_SOURCE, lc_message = None\<rparr>"

lemma example_ready: "xr_status (evaluate_execution_readiness example_selection example_llama) = READY"
  by code_simp

theorem ready_device_was_listed_witness:
  "\<exists>line \<in> set (split_lines example_devices_text). \<exists>d. parse_device_line line = Some d \<and> rd_backend d = VULKAN"
  using ready_device_was_listed [OF example_ready, of example_devices_text]
  by (simp add: example_selection_def example_llama_def) blast

end
