(* ===== verification/Execution_Plans.thy ===== *)
theory Execution_Plans
  imports Families Runtime_Readiness
begin

text \<open>
  Logical models, artifacts and the plans to execute them (\<^verbatim>\<open>domain/execution_plans.py\<close>,
  \<^verbatim>\<open>execution_plans/service.py\<close>): which model a repository is, which of its claims are confirmed,
  and the plan built from an artifact, a runtime and the hardware.
\<close>

section \<open>Data\<close>

datatype identity_evidence_kind =
    KIND_REPOSITORY_ID | KIND_BASE_MODEL_METADATA | KIND_CONFIG_ARCHITECTURE | KIND_PARAMETER_METADATA
  | KIND_NAME_HEURISTIC

datatype variant_format = VF_TRANSFORMERS | VF_SAFETENSORS | VF_GGUF | VF_UNKNOWN

fun variant_format_value :: "variant_format \<Rightarrow> string" where
  "variant_format_value VF_TRANSFORMERS = ''transformers''"
| "variant_format_value VF_SAFETENSORS = ''safetensors''"
| "variant_format_value VF_GGUF = ''gguf''"
| "variant_format_value VF_UNKNOWN = ''unknown''"

datatype identity_match = MATCH_CONFIRMED | MATCH_UNCERTAIN | MATCH_REJECTED

fun identity_match_value :: "identity_match \<Rightarrow> string" where
  "identity_match_value MATCH_CONFIRMED = ''confirmed''"
| "identity_match_value MATCH_UNCERTAIN = ''uncertain''"
| "identity_match_value MATCH_REJECTED = ''rejected''"

datatype plan_compatibility = PLAN_COMPATIBLE | PLAN_NOT_COMPATIBLE | PLAN_COMPATIBILITY_UNKNOWN

record identity_evidence =
  ie_kind :: identity_evidence_kind
  ie_source :: string
  ie_value :: string
  ie_confidence :: estimation_confidence

record model_identity =
  mi_canonical_repo_id :: "string option"
  mi_family :: "string option"
  mi_model_name :: string
  mi_parameter_count :: "int option"
  mi_variant :: "string option"
  mi_architecture :: "string option"
  mi_confidence :: estimation_confidence
  mi_evidence :: "identity_evidence list"

record artifact_variant =
  av_model_identity :: model_identity
  av_repo_id :: string
  av_revision :: "string option"
  av_format :: variant_format
  av_filename :: "string option"
  av_sha256 :: "string option"
  av_size_bytes :: "int option"
  av_file_count :: "int option"
  av_quantization :: "string option"
  av_precision :: "string option"
  av_source :: string
  av_compatible_runtimes :: "runtime_name list"
  av_identity_match :: identity_match
  av_confidence :: estimation_confidence
  av_evidence :: "identity_evidence list"

record execution_plan =
  xp_plan_id :: string
  xp_model_identity :: model_identity
  xp_artifact :: artifact_variant
  xp_runtime :: runtime_recommendation
  xp_runtime_family :: runtime_name
  xp_backend_selection :: "runtime_backend_selection option"
  xp_runtime_capability :: "runtime_capability option"
  xp_execution_readiness :: "execution_readiness option"
  xp_memory_prediction :: "memory_estimate option"
  xp_hardware :: "hardware_profile option"
  xp_compatibility :: plan_compatibility
  xp_evidence :: "string list"
  xp_warnings :: "string list"

text \<open>The validators of the two classes.\<close>

definition identity_valid :: "model_identity \<Rightarrow> bool" where
  "identity_valid m \<longleftrightarrow> mi_confidence m = CONF_UNKNOWN \<or> mi_evidence m \<noteq> []"

definition plan_valid :: "execution_plan \<Rightarrow> bool" where
  "plan_valid p \<longleftrightarrow>
     xp_runtime_family p = rr_runtime (xp_runtime p) \<and>
     av_model_identity (xp_artifact p) = xp_model_identity p"

section \<open>Names of logical models\<close>

definition ARTIFACT_REPOSITORY_SUFFIXES :: "string list" where
  "ARTIFACT_REPOSITORY_SUFFIXES =
     [''gguf'', ''awq'', ''gptq'', ''onnx'', ''hf'', ''quantized'', ''bnb'', ''exl2'', ''mlx'']"

definition suffix_tokens :: "string list" where
  "suffix_tokens = concat (map (\<lambda>s. [''-'' @ s, ''_'' @ s]) ARTIFACT_REPOSITORY_SUFFIXES)"

definition strip_artifact_suffix :: "string \<Rightarrow> string" where
  "strip_artifact_suffix name =
     (case List.find (endswith (lower name)) suffix_tokens of
        Some t \<Rightarrow> take (length name - length t) name
      | None \<Rightarrow> name)"

definition logical_model_repo_id :: "string \<Rightarrow> string" where
  "logical_model_repo_id r =
     (let v = strip r in
      if CHR ''/'' \<notin> set v then strip_artifact_suffix v
      else takeWhile (\<lambda>c. c \<noteq> CHR ''/'') v @ ''/'' @
        strip_artifact_suffix (drop 1 (dropWhile (\<lambda>c. c \<noteq> CHR ''/'') v)))"

definition logical_model_repo_key :: "string \<Rightarrow> string" where
  "logical_model_repo_key r = lower (logical_model_repo_id r)"

definition folded :: "string option \<Rightarrow> string" where
  "folded s = lower (strip (opt_default s []))"

definition model_identity_key :: "model_identity \<Rightarrow> string" where
  "model_identity_key m =
     (if text_default (mi_canonical_repo_id m) [] \<noteq> [] then
        ''repo:'' @ logical_model_repo_key (opt_default (mi_canonical_repo_id m) [])
      else
        ''metadata:'' @ folded (mi_family m) @ ''|'' @
        lower (strip_artifact_suffix (strip (mi_model_name m))) @ ''|'' @
        (case mi_parameter_count m of None \<Rightarrow> [] | Some n \<Rightarrow> show_int n) @ ''|'' @
        folded (mi_variant m) @ ''|'' @ folded (mi_architecture m))"

definition confirms :: "string \<Rightarrow> identity_evidence \<Rightarrow> bool" where
  "confirms canonical e \<longleftrightarrow>
     ie_kind e \<in> {KIND_REPOSITORY_ID, KIND_BASE_MODEL_METADATA} \<and>
     lower (strip (ie_value e)) = lower (strip canonical)"

definition confirmed_model_repo_id :: "model_identity \<Rightarrow> string option" where
  "confirmed_model_repo_id m =
     (case mi_canonical_repo_id m of
        None \<Rightarrow> None
      | Some c \<Rightarrow> if \<exists>e \<in> set (mi_evidence m). confirms c e then Some (strip c) else None)"

definition artifact_label :: "artifact_variant \<Rightarrow> string" where
  "artifact_label a =
     (if text_default (av_quantization a) [] \<noteq> [] then
        variant_format_value (av_format a) @ '' '' @ opt_default (av_quantization a) []
      else if text_default (av_precision a) [] \<noteq> [] then
        variant_format_value (av_format a) @ '' '' @ opt_default (av_precision a) []
      else variant_format_value (av_format a))"

definition to_model_artifact :: "artifact_variant \<Rightarrow> model_artifact" where
  "to_model_artifact a =
     \<lparr>ma_repo_id = av_repo_id a, ma_revision = text_default (av_revision a) ''main'',
      ma_filename = text_default (av_filename a) (av_repo_id a),
      ma_format = variant_format_value (av_format a), ma_quantization = av_quantization a,
      ma_size_bytes = av_size_bytes a, ma_local_path = None, ma_sha256 = None, ma_is_downloaded = False,
      ma_is_verified = False\<rparr>"

section \<open>The identity of a candidate\<close>

definition is_artifact_wrapper_repo :: "model_candidate \<Rightarrow> bool" where
  "is_artifact_wrapper_repo c \<longleftrightarrow>
     cd_repository_type c \<in> {Some REPO_GGUF, Some REPO_ONNX, Some REPO_ADAPTER} \<or>
     logical_model_repo_key (cd_repo_id c) \<noteq> lower (cd_repo_id c)"

definition is_transformed :: "model_candidate \<Rightarrow> model_analysis option \<Rightarrow> bool" where
  "is_transformed c analysis \<longleftrightarrow>
     (case cd_base_model_repo_id c of
        None \<Rightarrow> False
      | Some b \<Rightarrow>
          (\<exists>t \<in> set (cd_tags c @ (case analysis of None \<Rightarrow> [] | Some a \<Rightarrow> repo_tags (an_repo a))).
             lower t \<in> {''base_model:finetune:'' @ lower b, ''base_model:adapter:'' @ lower b}))"

definition declared_base :: "model_candidate \<Rightarrow> string option" where
  "declared_base c = (case cd_base_model_repo_id c of Some b \<Rightarrow> if b = [] then None else Some b | None \<Rightarrow> None)"

definition wraps_its_base :: "model_candidate \<Rightarrow> model_analysis option \<Rightarrow> bool" where
  "wraps_its_base c analysis \<longleftrightarrow>
     declared_base c \<noteq> None \<and> \<not> is_transformed c analysis \<and>
     (is_artifact_wrapper_repo c \<or>
      (case analysis of None \<Rightarrow> False | Some a \<Rightarrow> primary_type (an_classification a) = REPO_GGUF))"

definition raw_canonical :: "model_candidate \<Rightarrow> model_analysis option \<Rightarrow> string" where
  "raw_canonical c analysis =
     (if wraps_its_base c analysis then opt_default (declared_base c) [] else cd_repo_id c)"

definition canonical_repo :: "model_candidate \<Rightarrow> model_analysis option \<Rightarrow> string" where
  "canonical_repo c analysis =
     (if Some (raw_canonical c analysis) = cd_base_model_repo_id c then raw_canonical c analysis
      else logical_model_repo_id (raw_canonical c analysis))"

definition identity_claim ::
  "model_candidate \<Rightarrow> identity_evidence_kind \<Rightarrow> string \<Rightarrow> estimation_confidence \<Rightarrow> identity_evidence" where
  "identity_claim c kind v confidence =
     \<lparr>ie_kind = kind, ie_source = cd_repo_id c, ie_value = v, ie_confidence = confidence\<rparr>"

definition identity_claims ::
  "model_candidate \<Rightarrow> model_analysis option \<Rightarrow> identity_evidence list \<times> estimation_confidence" where
  "identity_claims c analysis =
     (case declared_base c of
        Some b \<Rightarrow>
          (identity_claim c KIND_BASE_MODEL_METADATA b CONF_HIGH #
             (if canonical_repo c analysis = cd_repo_id c
              then [identity_claim c KIND_REPOSITORY_ID (cd_repo_id c) (cd_metadata_confidence c)] else []),
           CONF_HIGH)
      | None \<Rightarrow>
          if canonical_repo c analysis \<noteq> raw_canonical c analysis then
            ([identity_claim c KIND_NAME_HEURISTIC (canonical_repo c analysis) CONF_LOW], CONF_LOW)
          else
            ([identity_claim c KIND_REPOSITORY_ID (cd_repo_id c) (cd_metadata_confidence c)],
             cd_metadata_confidence c))"

definition architecture_claim :: "model_analysis option \<Rightarrow> (string \<times> identity_evidence) option" where
  "architecture_claim analysis =
     (case analysis of
        None \<Rightarrow> None
      | Some a \<Rightarrow>
          (case an_config a of
             None \<Rightarrow> None
           | Some mc \<Rightarrow>
               (case architectures mc of
                  [] \<Rightarrow> None
                | x # xs \<Rightarrow>
                    Some (x, \<lparr>ie_kind = KIND_CONFIG_ARCHITECTURE, ie_source = repo_id (an_repo a),
                              ie_value = x, ie_confidence = CONF_MEDIUM\<rparr>))))"

fun count_source_value :: "parameter_count_source \<Rightarrow> string" where
  "count_source_value SAFETENSORS_METADATA = ''safetensors_metadata''"
| "count_source_value MODEL_CONFIG_SOURCE = ''model_config''"
| "count_source_value GGUF_METADATA_SOURCE = ''gguf_metadata''"
| "count_source_value NAME_INFERENCE = ''name_inference''"
| "count_source_value COUNT_SOURCE_UNKNOWN = ''unknown''"

definition parameter_claims :: "parameter_count \<Rightarrow> identity_evidence list" where
  "parameter_claims p =
     (case pc_count p of
        None \<Rightarrow> []
      | Some n \<Rightarrow> [\<lparr>ie_kind = KIND_PARAMETER_METADATA, ie_source = count_source_value (pc_source p),
                    ie_value = show_int n, ie_confidence = pc_confidence p\<rparr>])"

definition repo_name :: "string \<Rightarrow> string" where
  "repo_name r = (if r = [] then ''unknown'' else last_segment r)"

definition variant_from_name :: "string \<Rightarrow> string option" where
  "variant_from_name r = List.find (contains (lower (repo_name r))) [''instruct'', ''chat'', ''base'']"

definition resolve_model_identity :: "model_candidate \<Rightarrow> model_analysis option \<Rightarrow> model_identity" where
  "resolve_model_identity c analysis =
     (let canonical = canonical_repo c analysis; claims = identity_claims c analysis;
          architecture = architecture_claim analysis; p = resolve_parameter_count c analysis None in
      \<lparr>mi_canonical_repo_id = Some canonical, mi_family = Some (detect_family c analysis),
       mi_model_name = repo_name canonical, mi_parameter_count = pc_count p,
       mi_variant = variant_from_name canonical, mi_architecture = map_option fst architecture,
       mi_confidence = snd claims,
       mi_evidence = fst claims @ (case architecture of None \<Rightarrow> [] | Some a \<Rightarrow> [snd a]) @ parameter_claims p\<rparr>)"

section \<open>Building a plan\<close>

text \<open>The backend that the structured placement implies.\<close>

definition placed_backend ::
  "runtime_recommendation \<Rightarrow> hardware_profile \<Rightarrow> runtime_backend_selection option \<Rightarrow>
   memory_estimate option \<Rightarrow> compute_backend" where
  "placed_backend r hw selection estimate =
     (let available = available_compute_backends hw; device = flag_lookup r ''device_map'';
          ngl = flag_lookup r ''--n-gpu-layers'' in
      if device = Some ''cpu'' \<or> ngl = Some ''0'' then CPU
      else if device = Some ''cuda'' then
        (if map_option sel_backend selection \<in> {Some CUDA, Some HIP}
         then opt_default (map_option sel_backend selection) CUDA
         else if CUDA \<in> available then CUDA else if HIP \<in> available then HIP else CUDA)
      else if map_option (\<lambda>e. ca_effective_device (me_assessment e)) estimate = Some CPU_DEVICE \<and> ngl = None
      then CPU
      else
        (case selection of
           Some s \<Rightarrow> sel_backend s
         | None \<Rightarrow>
             opt_default
               (List.find (\<lambda>b. b \<in> available \<and> \<not> (rr_runtime r = TRANSFORMERS \<and> b = VULKAN))
                 [CUDA, HIP, VULKAN]) CPU))"

definition plain_selection :: "compute_backend \<Rightarrow> runtime_backend_selection" where
  "plain_selection b =
     \<lparr>sel_backend = b, sel_accelerator = None,
      sel_reason = (if b = CPU then CPU_FALLBACK else NATIVE_BACKEND_AVAILABLE),
      sel_backend_info = None, sel_alternatives = [], sel_notes = []\<rparr>"

definition selection_for :: "compute_backend \<Rightarrow> runtime_backend_selection option \<Rightarrow> runtime_backend_selection" where
  "selection_for b selection =
     (case selection of
        None \<Rightarrow> plain_selection b
      | Some s \<Rightarrow>
          if sel_backend s = b then s
          else
            (case List.find (\<lambda>c. bc_backend c = b) (sel_alternatives s) of
               Some c \<Rightarrow>
                 \<lparr>sel_backend = b, sel_accelerator = bc_accelerator c, sel_reason = bc_reason c,
                  sel_backend_info = bc_backend_info c, sel_alternatives = [], sel_notes = []\<rparr>
             | None \<Rightarrow> plain_selection b))"

definition execution_selection ::
  "runtime_recommendation \<Rightarrow> hardware_profile option \<Rightarrow> runtime_backend_selection option \<Rightarrow>
   memory_estimate option \<Rightarrow> runtime_backend_selection option" where
  "execution_selection r hardware selection estimate =
     (case hardware of
        None \<Rightarrow> selection
      | Some hw \<Rightarrow> Some (selection_for (placed_backend r hw selection estimate) selection))"

definition artifact_compatibility :: "artifact_variant \<Rightarrow> runtime_recommendation \<Rightarrow> plan_compatibility" where
  "artifact_compatibility a r =
     (if rr_runtime r \<in> set (av_compatible_runtimes a) then PLAN_COMPATIBLE else PLAN_NOT_COMPATIBLE)"

definition precision_of_value :: "string \<Rightarrow> weight_precision option" where
  "precision_of_value s = List.find (\<lambda>p. precision_value p = s) [FLOAT32, FLOAT16, BFLOAT16, INT8, INT4]"

definition plan_precision :: "artifact_variant \<Rightarrow> memory_estimate option \<Rightarrow> weight_precision option" where
  "plan_precision a estimate =
     opt_or (Option.bind estimate (\<lambda>e. cfg_precision (me_configuration e)))
       (Option.bind (av_precision a) precision_of_value)"

definition plan_issue ::
  "artifact_variant \<Rightarrow> runtime_recommendation \<Rightarrow> memory_estimate option \<Rightarrow> hardware_profile option \<Rightarrow>
   runtime_backend_selection option \<Rightarrow> string option" where
  "plan_issue a r estimate hardware selection =
     (case (hardware, selection) of
        (Some hw, Some s) \<Rightarrow>
          if rr_runtime r = LLAMA_CPP \<and> flag_lookup r ''--n-gpu-layers'' \<notin> {None, Some ''0''} \<and>
             sel_backend s = CPU
          then Some ''GPU layer offload requires an available hardware accelerator backend.''
          else technical_support_issue r (sel_backend s) hw (av_quantization a) (plan_precision a estimate)
      | _ \<Rightarrow> None)"

definition plan_evidence :: "artifact_variant \<Rightarrow> execution_readiness option \<Rightarrow> string list" where
  "plan_evidence a readiness =
     [''artifact:'' @ variant_format_value (av_format a),
      ''identity_match:'' @ identity_match_value (av_identity_match a)] @
     (if text_default (av_quantization a) [] \<noteq> [] then [''quantization:'' @ opt_default (av_quantization a) []]
      else []) @
     (case readiness of
        None \<Rightarrow> []
      | Some x \<Rightarrow> [''readiness:'' @ readiness_value (xr_status x),
                   ''readiness_reason:'' @ readiness_reason_value (xr_reason x)])"

definition plan_warnings ::
  "artifact_variant \<Rightarrow> runtime_recommendation \<Rightarrow> execution_readiness option \<Rightarrow> string list" where
  "plan_warnings a r readiness =
     rr_warnings r @
     (if av_identity_match a = MATCH_UNCERTAIN
      then [''Artifact identity match is heuristic and not automatically safe.''] else []) @
     (case readiness of
        None \<Rightarrow> []
      | Some x \<Rightarrow>
          if xr_status x \<in> {NOT_READY, READINESS_UNKNOWN}
          then [text_default (xr_message x) (''Runtime readiness is '' @ readiness_value (xr_status x) @ ''.'')]
          else [])"

definition slug :: "string \<Rightarrow> string" where
  "slug v =
     (let s = strip_chars (in_chars ''-'') (rx_sub (rx_some (Cls (\<lambda>c. \<not> is_alnum c))) ''-'' (lower v)) in
      if s = [] then ''unknown'' else s)"

definition plan_id_parts ::
  "artifact_variant \<Rightarrow> runtime_recommendation \<Rightarrow> runtime_backend_selection option \<Rightarrow> string list" where
  "plan_id_parts a r selection =
     [slug (av_repo_id a), slug (text_default (av_filename a) ''repo''), variant_format_value (av_format a),
      text_default (av_quantization a) (text_default (av_precision a) ''default''),
      runtime_value (rr_runtime r)] @
     (if map_option sel_backend selection = Some VULKAN then [''vulkan''] else [])"

definition plan_id ::
  "artifact_variant \<Rightarrow> runtime_recommendation \<Rightarrow> runtime_backend_selection option \<Rightarrow> string" where
  "plan_id a r selection =
     ''plan-'' @ join ''-'' (map slug (filter (\<lambda>p. p \<noteq> []) (plan_id_parts a r selection)))"

text \<open>A readiness for another backend than the plan's is dropped.\<close>

definition readiness_for_selection ::
  "execution_readiness option \<Rightarrow> runtime_backend_selection option \<Rightarrow> execution_readiness option" where
  "readiness_for_selection readiness selection =
     (case (readiness, selection) of
        (Some x, Some s) \<Rightarrow> if sel_backend (xr_selection x) \<noteq> sel_backend s then None else readiness
      | _ \<Rightarrow> readiness)"

definition assemble_plan ::
  "model_identity \<Rightarrow> artifact_variant \<Rightarrow> runtime_recommendation \<Rightarrow> memory_estimate option \<Rightarrow>
   hardware_profile option \<Rightarrow> runtime_capability option \<Rightarrow> runtime_backend_selection option \<Rightarrow>
   string option \<Rightarrow> execution_readiness option \<Rightarrow> execution_plan" where
  "assemble_plan identity a r estimate hardware capability selection issue readiness =
     \<lparr>xp_plan_id = plan_id a r selection, xp_model_identity = identity, xp_artifact = a, xp_runtime = r,
      xp_runtime_family = rr_runtime r, xp_backend_selection = selection,
      xp_runtime_capability = capability, xp_execution_readiness = readiness,
      xp_memory_prediction = estimate, xp_hardware = hardware,
      xp_compatibility = (if issue \<noteq> None then PLAN_NOT_COMPATIBLE else artifact_compatibility a r),
      xp_evidence = plan_evidence a readiness,
      xp_warnings = plan_warnings a r readiness @ (case issue of None \<Rightarrow> [] | Some i \<Rightarrow> [i])\<rparr>"

definition build_execution_plan ::
  "model_identity \<Rightarrow> artifact_variant \<Rightarrow> runtime_recommendation \<Rightarrow> memory_estimate option \<Rightarrow>
   hardware_profile option \<Rightarrow> runtime_backend_selection option \<Rightarrow> runtime_capability option \<Rightarrow>
   execution_readiness option \<Rightarrow> execution_plan" where
  "build_execution_plan identity a r estimate hardware selection capability readiness =
     (let s = execution_selection r hardware selection estimate in
      assemble_plan identity a r estimate hardware capability s (plan_issue a r estimate hardware s)
        (readiness_for_selection readiness s))"

section \<open>What a plan and an identity claim\<close>

text \<open>
  A confirmed repository is a claim, never a guess: whatever the name and the tags, the
  confirmed repository of the identity resolved for a candidate is the
  candidate's own repository or the base model its metadata declares, up to case; a name that was
  only obtained by stripping a format suffix is not confirmed.
\<close>

theorem confirmed_identity_is_declared:
  "confirmed_model_repo_id (resolve_model_identity c analysis) = Some r \<Longrightarrow>
     lower r = lower (strip (cd_repo_id c)) \<or>
     (\<exists>b. declared_base c = Some b \<and> lower r = lower (strip b))"
  by (auto simp: confirmed_model_repo_id_def resolve_model_identity_def identity_claims_def confirms_def
    identity_claim_def architecture_claim_def parameter_claims_def Let_def
    split: option.splits if_splits list.splits)

lemma selection_for_backend [simp]: "sel_backend (selection_for b selection) = b"
  by (simp add: selection_for_def plain_selection_def split: option.split)

text \<open>
  C24. What a built plan states of itself holds: it satisfies the validators of its class; it is
  compatible exactly if its runtime is one of the artifact's and no technical issue was found, and
  an issue is its last warning; its readiness was evaluated for the backend the plan selects; and
  on known hardware a compatible plan selects a backend the machine has.
\<close>

theorem built_plan_is_coherent:
  assumes "p = build_execution_plan identity a r estimate hardware selection capability readiness"
    and "av_model_identity a = identity"
  shows "plan_valid p \<and>
    (xp_compatibility p = PLAN_COMPATIBLE \<longleftrightarrow>
      rr_runtime r \<in> set (av_compatible_runtimes a) \<and>
      plan_issue a r estimate hardware (xp_backend_selection p) = None) \<and>
    (\<forall>i. plan_issue a r estimate hardware (xp_backend_selection p) = Some i \<longrightarrow> last (xp_warnings p) = i) \<and>
    (\<forall>x s. xp_execution_readiness p = Some x \<and> xp_backend_selection p = Some s \<longrightarrow>
      sel_backend (xr_selection x) = sel_backend s) \<and>
    (\<forall>hw. hardware = Some hw \<and> xp_compatibility p = PLAN_COMPATIBLE \<longrightarrow>
      (\<exists>s. xp_backend_selection p = Some s \<and> sel_backend s \<in> available_compute_backends hw))"
proof (intro conjI)
  show "plan_valid p"
    using assms by (simp add: build_execution_plan_def assemble_plan_def plan_valid_def Let_def)
  show compatible: "xp_compatibility p = PLAN_COMPATIBLE \<longleftrightarrow>
      rr_runtime r \<in> set (av_compatible_runtimes a) \<and>
      plan_issue a r estimate hardware (xp_backend_selection p) = None"
    using assms by (simp add: build_execution_plan_def assemble_plan_def artifact_compatibility_def Let_def)
  show "\<forall>i. plan_issue a r estimate hardware (xp_backend_selection p) = Some i \<longrightarrow> last (xp_warnings p) = i"
    using assms by (simp add: build_execution_plan_def assemble_plan_def Let_def)
  show "\<forall>x s. xp_execution_readiness p = Some x \<and> xp_backend_selection p = Some s \<longrightarrow>
      sel_backend (xr_selection x) = sel_backend s"
    using assms
    by (auto simp: build_execution_plan_def assemble_plan_def readiness_for_selection_def Let_def
      split: option.splits if_splits)
  show "\<forall>hw. hardware = Some hw \<and> xp_compatibility p = PLAN_COMPATIBLE \<longrightarrow>
      (\<exists>s. xp_backend_selection p = Some s \<and> sel_backend s \<in> available_compute_backends hw)"
  proof (intro allI impI)
    fix hw assume hw: "hardware = Some hw \<and> xp_compatibility p = PLAN_COMPATIBLE"
    then obtain s where s: "xp_backend_selection p = Some s"
      using assms(1) by (simp add: build_execution_plan_def assemble_plan_def execution_selection_def Let_def)
    have "plan_issue a r estimate hardware (Some s) = None" using compatible hw s by simp
    then show "\<exists>s. xp_backend_selection p = Some s \<and> sel_backend s \<in> available_compute_backends hw"
      using hw s by (auto simp: plan_issue_def technical_support_issue_def split: if_splits)
  qed
qed

section \<open>Examples\<close>

definition example_identity :: model_identity where
  "example_identity = resolve_model_identity (example_candidate None) None"

definition plan_artifact :: artifact_variant where
  "plan_artifact =
     \<lparr>av_model_identity = example_identity, av_repo_id = ''acme/tiny'', av_revision = Some ''main'',
      av_format = VF_GGUF, av_filename = Some ''tiny.Q4_K_M.gguf'', av_sha256 = None, av_size_bytes = None,
      av_file_count = Some 1, av_quantization = Some ''Q4_K_M'', av_precision = None,
      av_source = ''analysis'', av_compatible_runtimes = [LLAMA_CPP], av_identity_match = MATCH_CONFIRMED,
      av_confidence = CONF_HIGH, av_evidence = []\<rparr>"

definition example_plan :: execution_plan where
  "example_plan =
     build_execution_plan example_identity plan_artifact ((no_runtime CONF_HIGH [])\<lparr>rr_runtime := LLAMA_CPP\<rparr>)
       None (Some (example_hardware 8000000000 8000000000)) None None None"

theorem confirmed_identity_is_declared_witness:
  "lower ''Acme/Tiny'' = lower (strip ''Acme/Tiny'')"
proof -
  have "confirmed_model_repo_id (resolve_model_identity ((example_candidate None)\<lparr>cd_repo_id := ''Acme/Tiny''\<rparr>) None)
      = Some ''Acme/Tiny''"
    by code_simp
  from confirmed_identity_is_declared [OF this] show ?thesis by (auto simp: declared_base_def example_candidate_def)
qed

theorem built_plan_is_coherent_witness:
  "plan_valid example_plan"
  using built_plan_is_coherent [OF example_plan_def] by (simp add: plan_artifact_def)

end
