(* ===== verification/Plan_Assessment_Data.thy ===== *)
theory Plan_Assessment_Data
  imports Execution_Plans
begin

text \<open>
  The assessment of one execution plan (\<^verbatim>\<open>domain/recommendation.py\<close>): its dimensions, the
  evidence behind them, and what was measured.  A time is its instant in microseconds.
\<close>

section \<open>Evidence\<close>

datatype evidence_category =
    EC_IDENTITY | EC_METADATA | EC_HARDWARE | EC_EXECUTION | EC_LOCAL | EC_EXTERNAL | EC_INFERENCE

datatype evidence_source =
    ES_SEARCH_METADATA | ES_MODEL_CARD_METADATA | ES_MODEL_ANALYSIS | ES_MEMORY_ESTIMATOR
  | ES_RUNTIME_CAPABILITY | ES_EXECUTION_READINESS | ES_LOCAL_EXPERIMENT | ES_LOCAL_BENCHMARK
  | ES_EXTERNAL_EVALUATION | ES_HEURISTIC | ES_POLICY

record recommendation_evidence =
  re_category :: evidence_category
  re_key :: string
  re_value :: string
  re_source :: evidence_source
  re_confidence :: estimation_confidence
  re_observed :: bool
  re_provenance :: "(string, py_obj) dict"

record capability_subject =
  cs_repo_id :: string
  cs_variant :: "string option"
  cs_revision :: "string option"
  cs_precision :: "string option"

text \<open>A published result; only the entries of the catalogue have a subject.\<close>

record external_evaluation =
  xe_benchmark :: string
  xe_task :: string
  xe_value :: py_obj
  xe_metric :: string
  xe_source :: string
  xe_confidence :: estimation_confidence
  xe_revision :: "string option"
  xe_notes :: "string list"
  xe_subject :: "capability_subject option"

section \<open>Levels and constraints\<close>

datatype assessment_level = LV_STRONG | LV_ADEQUATE | LV_WEAK | LV_BLOCKED | LV_UNKNOWN

fun level_value :: "assessment_level \<Rightarrow> string" where
  "level_value LV_STRONG = ''strong''"
| "level_value LV_ADEQUATE = ''adequate''"
| "level_value LV_WEAK = ''weak''"
| "level_value LV_BLOCKED = ''blocked''"
| "level_value LV_UNKNOWN = ''unknown''"

datatype recommendation_position =
    POS_BEST_OVERALL | POS_HIGHER_QUALITY | POS_FASTER | POS_LIGHTER | POS_ALTERNATIVE

datatype hard_constraint_code =
    HC_MEMORY_INSUFFICIENT | HC_LICENSE_INCOMPATIBLE | HC_LANGUAGE_INCOMPATIBLE | HC_RUNTIME_NOT_READY
  | HC_ARTIFACT_RUNTIME_INCOMPATIBLE | HC_RUNTIME_UNDETERMINED | HC_UNSUPPORTED_TASK

fun constraint_value :: "hard_constraint_code \<Rightarrow> string" where
  "constraint_value HC_MEMORY_INSUFFICIENT = ''memory_insufficient''"
| "constraint_value HC_LICENSE_INCOMPATIBLE = ''license_incompatible''"
| "constraint_value HC_LANGUAGE_INCOMPATIBLE = ''language_incompatible''"
| "constraint_value HC_RUNTIME_NOT_READY = ''runtime_not_ready''"
| "constraint_value HC_ARTIFACT_RUNTIME_INCOMPATIBLE = ''artifact_runtime_incompatible''"
| "constraint_value HC_RUNTIME_UNDETERMINED = ''runtime_undetermined''"
| "constraint_value HC_UNSUPPORTED_TASK = ''unsupported_task''"

record hard_constraint =
  hc_code :: hard_constraint_code
  hc_message :: string
  hc_evidence_key :: "string option"

section \<open>Quality and speed\<close>

datatype quality_profile = IFEVAL_INSTRUCTIONS_EN | HUMANEVAL_PYTHON_EN

fun profile_value :: "quality_profile \<Rightarrow> string" where
  "profile_value IFEVAL_INSTRUCTIONS_EN = ''ifeval-instructions-en-v1''"
| "profile_value HUMANEVAL_PYTHON_EN = ''humaneval-python-en-v1''"

record local_quality_reference =
  lq_identity_sha256 :: string
  lq_record_sha256 :: string
  lq_artifact_sha256 :: string
  lq_suite :: string
  lq_classification :: string
  lq_samples_used :: int
  lq_samples_available :: int
  lq_metrics :: "(string, py_float) dict"
  lq_blockers :: "string list"

record applicable_quality =
  aq_suite :: string
  aq_metric :: string
  aq_value :: py_float
  aq_correct :: int
  aq_samples :: int
  aq_cohort :: string
  aq_record_sha256 :: string

definition quality_scope :: string where
  "quality_scope =
     ''This exact artifact under the fixed evaluation protocol, not the proposed '' @
     ''context, placement or runtime configuration.''"

datatype applicability = APPLIES_ABSENT | APPLIES_REFERENCE_ONLY | APPLIES_MEASURED

record quality_assessment =
  qa_use_case :: "use_case option"
  qa_languages :: "string list"
  qa_requested_profile :: "quality_profile option"
  qa_applicability :: applicability
  qa_applicable :: "applicable_quality option"
  qa_metadata_prior :: assessment_level
  qa_confidence :: estimation_confidence
  qa_local_references :: "local_quality_reference list"
  qa_limitations :: "string list"

definition default_limitations :: "string list" where
  "default_limitations =
     [''Parameter count is a scale prior, not measured quality.'',
      ''No audited comparable quality protocol is enabled for this assessment.'']"

record local_speed_reference =
  lv_benchmark_id :: string
  lv_created_at :: int
  lv_artifact_sha256 :: string
  lv_tg128 :: "py_float option"
  lv_tg128_stddev :: "py_float option"
  lv_pp512 :: "py_float option"
  lv_pp512_stddev :: "py_float option"
  lv_repetitions :: "int option"
  lv_blockers :: "string list"

record applicable_speed =
  as_tokens_per_second :: py_float
  as_stddev :: "py_float option"
  as_pp512 :: "py_float option"
  as_repetitions :: int
  as_cohort :: string
  as_benchmark_id :: string
  as_benchmark_ids :: "string list"
  as_run_count :: int
  as_observed_min :: "py_float option"
  as_observed_max :: "py_float option"

text \<open>At least three distinct runs, and the figure within the observed range.\<close>

definition ranking_ready :: "applicable_speed \<Rightarrow> bool" where
  "ranking_ready s \<longleftrightarrow>
     3 \<le> as_run_count s \<and> int (length (remdups (as_benchmark_ids s))) = as_run_count s \<and>
     (case (as_observed_min s, as_observed_max s) of
        (Some lo, Some hi) \<Rightarrow> float_le lo (as_tokens_per_second s) \<and> float_le (as_tokens_per_second s) hi
      | _ \<Rightarrow> False)"

record speed_assessment =
  vs_applicability :: applicability
  vs_applicable :: "applicable_speed option"
  vs_references :: "local_speed_reference list"
  vs_limitations :: "string list"

definition default_speed_limitations :: "string list" where
  "default_speed_limitations =
     [''Only a llama_bench_v2 run that proves its settings on this exact plan applies.'']"

definition no_speed :: speed_assessment where
  "no_speed = \<lparr>vs_applicability = APPLIES_ABSENT, vs_applicable = None, vs_references = [],
     vs_limitations = default_speed_limitations\<rparr>"

definition no_quality :: quality_assessment where
  "no_quality =
     \<lparr>qa_use_case = None, qa_languages = [], qa_requested_profile = None, qa_applicability = APPLIES_ABSENT,
      qa_applicable = None, qa_metadata_prior = LV_UNKNOWN, qa_confidence = CONF_LOW,
      qa_local_references = [], qa_limitations = default_limitations\<rparr>"

section \<open>The assessment\<close>

record plan_assessment =
  pa_plan_id :: string
  pa_hard_constraints :: "hard_constraint list"
  pa_capability :: assessment_level
  pa_quality :: quality_assessment
  pa_speed :: speed_assessment
  pa_suitability :: assessment_level
  pa_execution_fitness :: assessment_level
  pa_feasibility :: assessment_level
  pa_executability :: assessment_level
  pa_runtime_readiness :: assessment_level
  pa_performance_evidence :: assessment_level
  pa_resource_evidence :: assessment_level
  pa_license_fit :: assessment_level
  pa_language_fit :: assessment_level
  pa_confidence :: estimation_confidence
  pa_evidence :: "recommendation_evidence list"
  pa_external_evaluations :: "external_evaluation list"
  pa_reasons :: "string list"
  pa_trade_offs :: "string list"
  pa_rejection_reasons :: "string list"
  pa_measured_memory_bytes :: "int option"
  pa_estimated_memory_bytes :: "int option"
  pa_measured_tps :: "py_float option"
  pa_local_experiment_id :: "string option"
  pa_local_benchmark_id :: "string option"

definition rejected :: "plan_assessment \<Rightarrow> bool" where
  "rejected a \<longleftrightarrow> pa_hard_constraints a \<noteq> []"

record ranked_plan =
  rp_evaluated :: evaluated_candidate
  rp_plan :: execution_plan
  rp_assessment :: plan_assessment
  rp_use_case :: "use_case option"

end
