(* ===== verification/Plan_Ranking.thy ===== *)
theory Plan_Ranking
  imports Plan_Assessment_Data
begin

text \<open>
  The order of assessed plans: the lexicographic key and the criteria that explain it
  (\<^verbatim>\<open>recommendation/engine_v2.py\<close>), the preference for capable models
  (\<^verbatim>\<open>recommendation/selection.py\<close>), and the choice of distinct models
  (\<^verbatim>\<open>recommendation/diversity.py\<close>).
\<close>

section \<open>Ranks\<close>

definition CAPABILITY_FIRST :: "recommendation_priority \<Rightarrow> bool" where
  "CAPABILITY_FIRST p \<longleftrightarrow> p = BALANCED \<or> p = QUALITY"

fun LEVEL_RANK :: "assessment_level \<Rightarrow> int" where
  "LEVEL_RANK LV_STRONG = 0"
| "LEVEL_RANK LV_ADEQUATE = 1"
| "LEVEL_RANK LV_WEAK = 2"
| "LEVEL_RANK LV_UNKNOWN = 3"
| "LEVEL_RANK LV_BLOCKED = 4"

fun CONFIDENCE_RANK :: "estimation_confidence \<Rightarrow> int" where
  "CONFIDENCE_RANK CONF_HIGH = 0"
| "CONFIDENCE_RANK CONF_MEDIUM = 1"
| "CONFIDENCE_RANK CONF_LOW = 2"
| "CONFIDENCE_RANK CONF_UNKNOWN = 3"

definition plan_confirmed :: "execution_plan \<Rightarrow> bool" where
  "plan_confirmed p \<longleftrightarrow>
     (case xp_memory_prediction p of
        None \<Rightarrow> False
      | Some m \<Rightarrow> has_confirmed_memory_compatibility (ca_status (me_assessment m)))"

definition viable_plan :: "ranked_plan \<Rightarrow> bool" where
  "viable_plan i \<longleftrightarrow> \<not> rejected (rp_assessment i) \<and> plan_confirmed (rp_plan i)"

definition suitability_rank :: "ranked_plan \<Rightarrow> recommendation_priority \<Rightarrow> int" where
  "suitability_rank i priority =
     (let level = pa_suitability (rp_assessment i) in
      if rp_use_case i = Some CODING \<and> CAPABILITY_FIRST priority \<and> level \<in> {LV_STRONG, LV_ADEQUATE} \<and>
         pa_language_fit (rp_assessment i) \<noteq> LV_WEAK
      then LEVEL_RANK LV_STRONG else LEVEL_RANK level)"

definition model_size_rank :: "ranked_plan \<Rightarrow> recommendation_priority \<Rightarrow> int" where
  "model_size_rank i priority =
     (if \<not> CAPABILITY_FIRST priority then 0
      else - opt_default (mi_parameter_count (xp_model_identity (rp_plan i))) 0)"

text \<open>The quantization of a GGUF plan, in capitals, if it names one.\<close>

definition gguf_quantization :: "execution_plan \<Rightarrow> string option" where
  "gguf_quantization p =
     (if av_format (xp_artifact p) \<noteq> VF_GGUF then None
      else (case av_quantization (xp_artifact p) of
              None \<Rightarrow> None | Some q \<Rightarrow> if q = [] then None else Some (upper q)))"

definition aggressive_quantization_rank :: "execution_plan \<Rightarrow> int" where
  "aggressive_quantization_rank p =
     (case gguf_quantization p of None \<Rightarrow> 0 | Some q \<Rightarrow> if q \<in> set AGGRESSIVE_QUANTIZATIONS then 1 else 0)"

definition ladder_rank :: "execution_plan \<Rightarrow> recommendation_priority \<Rightarrow> int" where
  "ladder_rank p priority =
     (case gguf_quantization p of
        None \<Rightarrow> 0 | Some q \<Rightarrow> int (index_of (QUANTIZATION_LADDERS priority) q))"

definition QUANTIZATION_QUALITY_ORDER :: "string list" where
  "QUANTIZATION_QUALITY_ORDER =
     [''F16'', ''Q8_0'', ''Q6_K'', ''Q5_K_M'', ''Q5_K_S'', ''Q4_K_M'', ''Q4_K_S'', ''Q3_K_M'', ''Q3_K_S'', ''Q2_K'']"

definition quantization_quality_rank :: "execution_plan \<Rightarrow> int" where
  "quantization_quality_rank p =
     (if av_format (xp_artifact p) \<noteq> VF_GGUF then 0
      else (case av_quantization (xp_artifact p) of
              None \<Rightarrow> 0 | Some q \<Rightarrow> int (index_of QUANTIZATION_QUALITY_ORDER (upper q))))"

text \<open>\<^verbatim>\<open>measured or estimated\<close>: a measured zero counts as unmeasured.\<close>

definition known_memory :: "plan_assessment \<Rightarrow> int option" where
  "known_memory a =
     (case pa_measured_memory_bytes a of
        None \<Rightarrow> pa_estimated_memory_bytes a
      | Some m \<Rightarrow> if m = 0 then pa_estimated_memory_bytes a else Some m)"

definition memory_efficiency_rank :: "plan_assessment \<Rightarrow> int" where
  "memory_efficiency_rank a = opt_default (known_memory a) (10 ^ 18)"

definition plan_status :: "execution_plan \<Rightarrow> compatibility_status option" where
  "plan_status p = map_option (\<lambda>m. ca_status (me_assessment m)) (xp_memory_prediction p)"

definition comfortable_memory_rank :: "ranked_plan \<Rightarrow> int" where
  "comfortable_memory_rank i =
     (if plan_status (rp_plan i) = Some TIGHT then 1
      else (case pa_feasibility (rp_assessment i) of
              LV_STRONG \<Rightarrow> 0 | LV_ADEQUATE \<Rightarrow> 0 | LV_WEAK \<Rightarrow> 2 | LV_UNKNOWN \<Rightarrow> 3 | LV_BLOCKED \<Rightarrow> 4))"

definition runnability_rank :: "plan_assessment \<Rightarrow> int" where
  "runnability_rank a =
     (case pa_execution_fitness a of
        LV_STRONG \<Rightarrow> 0 | LV_ADEQUATE \<Rightarrow> 0 | LV_WEAK \<Rightarrow> 1 | LV_UNKNOWN \<Rightarrow> 2 | LV_BLOCKED \<Rightarrow> 3)"

definition requirement_confirmation_rank :: "ranked_plan \<Rightarrow> int" where
  "requirement_confirmation_rank i =
     (case pa_license_fit (rp_assessment i) of LV_STRONG \<Rightarrow> 0 | LV_UNKNOWN \<Rightarrow> 1 | _ \<Rightarrow> 2)"

section \<open>The key\<close>

definition priority_axes :: "ranked_plan \<Rightarrow> recommendation_priority \<Rightarrow> int list" where
  "priority_axes i priority =
     (let a = rp_assessment i; p = rp_plan i in
      case priority of
        QUALITY \<Rightarrow>
          [suitability_rank i priority, LEVEL_RANK (pa_capability a), aggressive_quantization_rank p,
           runnability_rank a, model_size_rank i priority, quantization_quality_rank p,
           LEVEL_RANK (pa_execution_fitness a)]
      | SPEED \<Rightarrow>
          [LEVEL_RANK (pa_suitability a), runnability_rank a, LEVEL_RANK (pa_executability a),
           memory_efficiency_rank a]
      | MEMORY \<Rightarrow>
          [memory_efficiency_rank a, LEVEL_RANK (pa_execution_fitness a), LEVEL_RANK (pa_executability a)]
      | BALANCED \<Rightarrow>
          [suitability_rank i priority, aggressive_quantization_rank p, runnability_rank a,
           LEVEL_RANK (pa_capability a), LEVEL_RANK (pa_executability a), comfortable_memory_rank i])"

definition ranking_tie_key :: "ranked_plan \<Rightarrow> recommendation_priority \<Rightarrow> bool \<Rightarrow> int list" where
  "ranking_tie_key i priority commercial =
     [if rejected (rp_assessment i) then 1 else 0,
      if commercial then requirement_confirmation_rank i else 0] @
     priority_axes i priority @
     [CONFIDENCE_RANK (pa_confidence (rp_assessment i)), model_size_rank i priority,
      ladder_rank (rp_plan i) priority, - cd_downloads (ev_candidate (rp_evaluated i))]"

text \<open>The key of one priority has one length, so its parts compare like the flat tuple of the code.\<close>

definition ranking_key ::
  "ranked_plan \<Rightarrow> recommendation_priority \<Rightarrow> bool \<Rightarrow> int list \<times> string \<times> string \<times> string" where
  "ranking_key i priority commercial =
     (ranking_tie_key i priority commercial, ev_repo_id (rp_evaluated i),
      text_default (av_quantization (xp_artifact (rp_plan i)))
        (text_default (av_precision (xp_artifact (rp_plan i))) []),
      runtime_value (rr_runtime (xp_runtime (rp_plan i))))"

definition prioritize_confirmed_memory_fit :: "ranked_plan list \<Rightarrow> ranked_plan list" where
  "prioritize_confirmed_memory_fit is = filter viable_plan is @ filter (\<lambda>i. \<not> viable_plan i) is"

text \<open>The sort and the partition of \<^verbatim>\<open>rank_execution_plans\<close>.\<close>

definition order_plans :: "ranked_plan list \<Rightarrow> recommendation_priority \<Rightarrow> bool \<Rightarrow> ranked_plan list" where
  "order_plans is priority commercial =
     prioritize_confirmed_memory_fit (sort_key (\<lambda>i. ranking_key i priority commercial) is)"

section \<open>The criteria shown\<close>

record ranking_criterion =
  cr_axis :: string
  cr_value :: string
  cr_rank :: int

definition criterion :: "string \<Rightarrow> string \<Rightarrow> int \<Rightarrow> ranking_criterion" where
  "criterion axis v r = \<lparr>cr_axis = axis, cr_value = v, cr_rank = r\<rparr>"

fun confidence_value :: "estimation_confidence \<Rightarrow> string" where
  "confidence_value CONF_HIGH = ''high''"
| "confidence_value CONF_MEDIUM = ''medium''"
| "confidence_value CONF_LOW = ''low''"
| "confidence_value CONF_UNKNOWN = ''unknown''"

definition plan_quantization_label :: "execution_plan \<Rightarrow> string" where
  "plan_quantization_label p = text_default (av_quantization (xp_artifact p)) ''n/a''"

definition aggressive_label :: "execution_plan \<Rightarrow> string" where
  "aggressive_label p =
     plan_quantization_label p @ (if aggressive_quantization_rank p = 1 then '' (aggressive)'' else [])"

definition size_label :: "int option \<Rightarrow> string" where
  "size_label n =
     (case n of
        None \<Rightarrow> ''unknown''
      | Some k \<Rightarrow>
          if k = 0 then ''unknown''
          else show_general (float_divide (float_of_int k) (float_of_int (10 ^ 9))) @ ''B'')"

definition bytes_label :: "plan_assessment \<Rightarrow> string" where
  "bytes_label a =
     (case opt_or (pa_measured_memory_bytes a) (pa_estimated_memory_bytes a) of
        None \<Rightarrow> ''unknown''
      | Some v \<Rightarrow>
          show_fixed 2 (round_ratio v (2 ^ 30)) @ '' GiB '' @
          (if pa_measured_memory_bytes a \<noteq> None then ''measured'' else ''estimated''))"

definition requirement_confirmation_label :: "ranked_plan \<Rightarrow> string" where
  "requirement_confirmation_label i =
     (case pa_license_fit (rp_assessment i) of
        LV_STRONG \<Rightarrow> ''commercial use confirmed''
      | LV_UNKNOWN \<Rightarrow> ''commercial use unconfirmed''
      | _ \<Rightarrow> ''commercial use incompatible'')"

definition leading_criteria :: "ranked_plan \<Rightarrow> bool \<Rightarrow> ranking_criterion list" where
  "leading_criteria i commercial =
     (let a = rp_assessment i;
          detail = (case plan_status (rp_plan i) of None \<Rightarrow> [] | Some s \<Rightarrow> '' ('' @ status_value s @ '')'') in
      [criterion ''viability''
         ((if viable_plan i then ''placement confirmed'' else ''placement not confirmed'') @ detail)
         (if viable_plan i then 0 else 1),
       criterion ''plan_constraints''
         (if rejected a
          then ''failed: '' @ join '', '' (map (\<lambda>c. constraint_value (hc_code c)) (pa_hard_constraints a))
          else ''none'')
         (if rejected a then 1 else 0)] @
      (if commercial
       then [criterion ''requirement_confirmation'' (requirement_confirmation_label i)
               (requirement_confirmation_rank i)]
       else []))"

definition size_criterion :: "ranked_plan \<Rightarrow> recommendation_priority \<Rightarrow> ranking_criterion" where
  "size_criterion i priority =
     criterion ''model_size'' (size_label (mi_parameter_count (xp_model_identity (rp_plan i))))
       (model_size_rank i priority)"

definition trailing_criteria :: "ranked_plan \<Rightarrow> recommendation_priority \<Rightarrow> ranking_criterion list" where
  "trailing_criteria i priority =
     (let a = rp_assessment i; downloads = cd_downloads (ev_candidate (rp_evaluated i)) in
      [criterion ''plan_confidence'' (confidence_value (pa_confidence a)) (CONFIDENCE_RANK (pa_confidence a))] @
      (if priority = BALANCED then [size_criterion i priority] else []) @
      [criterion ''quantization_preference'' (plan_quantization_label (rp_plan i))
         (ladder_rank (rp_plan i) priority),
       criterion ''popularity'' (show_grouped downloads @ '' downloads'') (- downloads)])"

definition level_criterion :: "string \<Rightarrow> assessment_level \<Rightarrow> ranking_criterion" where
  "level_criterion axis l = criterion axis (level_value l) (LEVEL_RANK l)"

definition axis_criteria :: "ranked_plan \<Rightarrow> recommendation_priority \<Rightarrow> ranking_criterion list" where
  "axis_criteria i priority =
     (let a = rp_assessment i; p = rp_plan i;
          runnability = criterion ''runnability'' (level_value (pa_execution_fitness a)) (runnability_rank a);
          footprint = criterion ''memory_footprint'' (bytes_label a) (memory_efficiency_rank a);
          suitability = criterion ''suitability'' (level_value (pa_suitability a)) (suitability_rank i priority);
          aggressive = criterion ''aggressive_quantization'' (aggressive_label p) (aggressive_quantization_rank p) in
      case priority of
        QUALITY \<Rightarrow>
          [suitability, level_criterion ''capability'' (pa_capability a), aggressive, runnability,
           size_criterion i priority,
           criterion ''quantization_quality'' (plan_quantization_label p) (quantization_quality_rank p),
           level_criterion ''execution_fitness'' (pa_execution_fitness a)]
      | SPEED \<Rightarrow>
          [level_criterion ''suitability'' (pa_suitability a), runnability,
           level_criterion ''executability'' (pa_executability a), footprint]
      | MEMORY \<Rightarrow>
          [footprint, level_criterion ''execution_fitness'' (pa_execution_fitness a),
           level_criterion ''executability'' (pa_executability a)]
      | BALANCED \<Rightarrow>
          [suitability, aggressive, runnability, level_criterion ''capability'' (pa_capability a),
           level_criterion ''executability'' (pa_executability a),
           criterion ''memory_headroom''
             (case plan_status p of Some s \<Rightarrow> status_value s | None \<Rightarrow> level_value (pa_feasibility a))
             (comfortable_memory_rank i)])"

definition ranking_criteria ::
  "ranked_plan \<Rightarrow> recommendation_priority \<Rightarrow> bool \<Rightarrow> ranking_criterion list" where
  "ranking_criteria i priority commercial =
     leading_criteria i commercial @ axis_criteria i priority @ trailing_criteria i priority"

section \<open>Capable models first\<close>

definition viability_group :: "ranked_plan \<Rightarrow> bool \<times> bool \<times> int" where
  "viability_group i =
     (rejected (rp_assessment i), \<not> plan_confirmed (rp_plan i), runnability_rank (rp_assessment i))"

definition is_capable :: "ranked_plan \<Rightarrow> bool" where
  "is_capable i \<longleftrightarrow> pa_capability (rp_assessment i) \<in> {LV_STRONG, LV_ADEQUATE}"

text \<open>
  The slot of a weak plan: behind the capable plans seen before it, and behind the last capable
  plan that is at least as viable.
\<close>

definition anchor :: "ranked_plan list \<Rightarrow> ranked_plan \<Rightarrow> nat" where
  "anchor capable i =
     foldl max 0 (map Suc (filter (\<lambda>k. viability_group (capable ! k) \<le> viability_group i) [0..<length capable]))"

fun place_weak ::
  "ranked_plan list \<Rightarrow> ranked_plan list \<Rightarrow> nat \<Rightarrow> ranked_plan list list \<Rightarrow> ranked_plan list list" where
  "place_weak capable [] seen slots = slots"
| "place_weak capable (i # is) seen slots =
     (if is_capable i then place_weak capable is (Suc seen) slots
      else
        (let k = max seen (anchor capable i) in
         place_weak capable is seen (slots[k := slots ! k @ [i]])))"

definition weak_plans_last :: "ranked_plan list \<Rightarrow> recommendation_priority \<Rightarrow> ranked_plan list" where
  "weak_plans_last plans priority =
     (if \<not> CAPABILITY_FIRST priority then plans
      else
        (let capable = filter is_capable plans;
             slots = place_weak capable plans 0 (replicate (Suc (length capable)) []) in
         hd slots @ concat (map (\<lambda>(c, slot). c # slot) (zip capable (tl slots)))))"

section \<open>Distinct models\<close>

record identity_bucket =
  ib_key :: string
  ib_primary :: ranked_plan
  ib_alternatives :: "ranked_plan list"
  ib_original_index :: nat

record diversified =
  dv_primary :: ranked_plan
  dv_alternatives :: "ranked_plan list"
  dv_position :: recommendation_position

definition identity_of_plan :: "ranked_plan \<Rightarrow> string" where
  "identity_of_plan i =
     lower (text_default (confirmed_model_repo_id (xp_model_identity (rp_plan i)))
       (av_repo_id (xp_artifact (rp_plan i))))"

definition plan_rejected :: "ranked_plan \<Rightarrow> bool" where
  "plan_rejected i \<longleftrightarrow> rejected (rp_assessment i)"

text \<open>The identities in the order of their first plan that is not rejected, with the index of that plan.\<close>

fun identity_indexes :: "nat \<Rightarrow> ranked_plan list \<Rightarrow> (string, nat) dict \<Rightarrow> (string, nat) dict" where
  "identity_indexes n [] d = d"
| "identity_indexes n (i # is) d =
     identity_indexes (Suc n) is
       (if plan_rejected i \<or> dict_has d (identity_of_plan i) then d else dict_set d (identity_of_plan i) n)"

definition bucket_of :: "ranked_plan list \<Rightarrow> string \<times> nat \<Rightarrow> identity_bucket" where
  "bucket_of is kn =
     (let items = filter (\<lambda>i. identity_of_plan i = fst kn) is in
      \<lparr>ib_key = fst kn, ib_primary = hd (dropWhile plan_rejected items),
       ib_alternatives = takeWhile plan_rejected items @ tl (dropWhile plan_rejected items),
       ib_original_index = snd kn\<rparr>)"

definition best_plan_per_identity :: "ranked_plan list \<Rightarrow> identity_bucket list" where
  "best_plan_per_identity is = map (bucket_of is) (sort_key snd (identity_indexes 0 is []))"

definition family_label :: "model_identity \<Rightarrow> string option" where
  "family_label m =
     (case mi_family m of None \<Rightarrow> None | Some f \<Rightarrow> if lower f = ''unknown'' then None else Some (lower f))"

definition parameter_tier :: "int option \<Rightarrow> string option" where
  "parameter_tier n =
     map_option (\<lambda>k. if k < 2000000000 then ''sub_2b'' else if k < 5000000000 then ''2b_to_5b''
       else if k < 10000000000 then ''5b_to_10b'' else ''10b_plus'') n"

definition execution_profile :: "execution_plan \<Rightarrow> runtime_name \<times> string option \<times> string option \<times> string option" where
  "execution_profile p =
     (rr_runtime (xp_runtime p), map_option (\<lambda>s. backend_value (sel_backend s)) (xp_backend_selection p),
      text_or (av_quantization (xp_artifact p)) (av_precision (xp_artifact p)),
      parameter_tier (mi_parameter_count (xp_model_identity p)))"

definition count_matching :: "'a list \<Rightarrow> ('a \<Rightarrow> bool) \<Rightarrow> nat" where
  "count_matching xs P = length (filter P xs)"

definition redundancy_key :: "execution_plan \<Rightarrow> execution_plan list \<Rightarrow> nat \<times> nat \<times> nat \<times> nat" where
  "redundancy_key p chosen =
     (let family = family_label (xp_model_identity p);
          tier = (\<lambda>q. parameter_tier (mi_parameter_count (xp_model_identity q))) in
      (if family = None then 0 else count_matching chosen (\<lambda>q. family_label (xp_model_identity q) = family),
       if tier p = None then 0 else count_matching chosen (\<lambda>q. tier q = tier p),
       count_matching chosen (\<lambda>q. rr_runtime (xp_runtime q) = rr_runtime (xp_runtime p)),
       count_matching chosen (\<lambda>q. execution_profile q = execution_profile p)))"

definition bucket_plan :: "identity_bucket \<Rightarrow> execution_plan" where
  "bucket_plan b = rp_plan (ib_primary b)"

definition choose_next ::
  "(ranked_plan \<Rightarrow> 'k) \<Rightarrow> identity_bucket list \<Rightarrow> identity_bucket list \<Rightarrow> identity_bucket" where
  "choose_next signature chosen remaining =
     (let comparable = filter (\<lambda>b. signature (ib_primary b) = signature (ib_primary (hd remaining))) remaining in
      min_by (\<lambda>b. (redundancy_key (bucket_plan b) (map bucket_plan chosen), ib_original_index b))
        (hd comparable) (tl comparable))"

text \<open>The loop; its measure is the number of models left.\<close>

function select_buckets ::
  "(ranked_plan \<Rightarrow> 'k) \<Rightarrow> nat \<Rightarrow> identity_bucket list \<Rightarrow> identity_bucket list \<Rightarrow> identity_bucket list" where
  "select_buckets signature limit chosen remaining =
     (if remaining = [] \<or> limit \<le> length chosen then chosen
      else
        (let c = choose_next signature chosen remaining in
         select_buckets signature limit (chosen @ [c]) (remove1 c remaining)))"
  by pat_completeness auto

lemma min_by_comparable:
  assumes "filter P xs \<noteq> []"
  shows "min_by f (hd (filter P xs)) (tl (filter P xs)) \<in> set (filter P xs)"
  using min_by_in [of f "hd (filter P xs)" "tl (filter P xs)"] assms by (metis list.exhaust_sel)

lemma choose_next_in:
  assumes "remaining \<noteq> []"
  shows "choose_next signature chosen remaining \<in> set remaining"
    and "signature (ib_primary (choose_next signature chosen remaining)) = signature (ib_primary (hd remaining))"
proof -
  let ?P = "\<lambda>b. signature (ib_primary b) = signature (ib_primary (hd remaining))"
  have "hd remaining \<in> set (filter ?P remaining)" using assms by simp
  then have "filter ?P remaining \<noteq> []" by (metis empty_iff empty_set)
  from min_by_comparable [OF this]
  have "choose_next signature chosen remaining \<in> set (filter ?P remaining)"
    unfolding choose_next_def Let_def by blast
  then show "choose_next signature chosen remaining \<in> set remaining"
    and "signature (ib_primary (choose_next signature chosen remaining)) = signature (ib_primary (hd remaining))"
    by simp_all
qed

termination select_buckets
  by (relation "measure (\<lambda>(signature, limit, chosen, remaining). length remaining)")
    (auto simp: length_remove1 choose_next_in(1))

declare select_buckets.simps [simp del]

definition position_for :: "ranked_plan \<Rightarrow> ranked_plan \<Rightarrow> nat \<Rightarrow> recommendation_position" where
  "position_for i best index =
     (if index = 0 then POS_BEST_OVERALL
      else if pa_measured_tps (rp_assessment i) \<noteq> None then POS_FASTER
      else if (case (known_memory (rp_assessment i), known_memory (rp_assessment best)) of
                 (Some m, Some b) \<Rightarrow> m \<le> float_trunc (float_mult (float_of_int b) (hundredths 75))
               | _ \<Rightarrow> False) then POS_LIGHTER
      else if (case (mi_parameter_count (xp_model_identity (rp_plan i)),
                     mi_parameter_count (xp_model_identity (rp_plan best))) of
                 (Some n, Some b) \<Rightarrow> float_trunc (float_mult (float_of_int b) (hundredths 125)) \<le> n
               | _ \<Rightarrow> False) then POS_HIGHER_QUALITY
      else POS_ALTERNATIVE)"

definition diversified_of :: "ranked_plan \<Rightarrow> nat \<Rightarrow> identity_bucket \<Rightarrow> diversified" where
  "diversified_of best index b =
     \<lparr>dv_primary = ib_primary b, dv_alternatives = ib_alternatives b,
      dv_position = position_for (ib_primary b) best index\<rparr>"

definition diversify_ranked_plans ::
  "(ranked_plan \<Rightarrow> 'k) \<Rightarrow> nat \<Rightarrow> ranked_plan list \<Rightarrow> diversified list" where
  "diversify_ranked_plans signature limit is =
     (if limit = 0 then []
      else
        (case best_plan_per_identity is of
           [] \<Rightarrow> []
         | b # bs \<Rightarrow>
             (let selected = select_buckets signature limit [b] bs in
              map (\<lambda>(n, x). diversified_of (ib_primary (hd selected)) n x) (enumerate 0 selected))))"

text \<open>What counts as a tie: the ranking's own key, or by default the same assessments and downloads.\<close>

definition tie_key_for :: "user_requirements \<Rightarrow> ranked_plan \<Rightarrow> int list" where
  "tie_key_for req i = ranking_tie_key i (ur_priority req) (ur_commercial_use_required req = Some True)"

definition assessment_signature ::
  "ranked_plan \<Rightarrow> assessment_level list \<times> estimation_confidence \<times> int" where
  "assessment_signature i =
     (let a = rp_assessment i in
      ([pa_suitability a, pa_capability a, pa_execution_fitness a, pa_feasibility a, pa_executability a,
        pa_resource_evidence a, pa_license_fit a, pa_language_fit a],
       pa_confidence a, cd_downloads (ev_candidate (rp_evaluated i))))"

section \<open>The criteria explain the order\<close>

abbreviation shown_ranks :: "recommendation_priority \<Rightarrow> bool \<Rightarrow> ranked_plan \<Rightarrow> int list" where
  "shown_ranks priority commercial i \<equiv> map cr_rank (ranking_criteria i priority commercial)"

abbreviation order_key :: "recommendation_priority \<Rightarrow> bool \<Rightarrow> ranked_plan \<Rightarrow> bool \<times> int list" where
  "order_key priority commercial i \<equiv> (\<not> viable_plan i, ranking_tie_key i priority commercial)"

lemmas criteria_defs =
  ranking_criteria_def leading_criteria_def axis_criteria_def trailing_criteria_def criterion_def
  level_criterion_def size_criterion_def

lemma shown_ranks_less:
  "shown_ranks priority commercial i < shown_ranks priority commercial j \<longleftrightarrow>
     order_key priority commercial i < order_key priority commercial j"
proof (cases "viable_plan i = viable_plan j")
  case True
  then show ?thesis
    by (cases priority; cases commercial;
        simp add: criteria_defs ranking_tie_key_def priority_axes_def Let_def model_size_rank_def
          CAPABILITY_FIRST_def; (elim disjE conjE; simp; fail | auto; fail))
next
  case False
  then show ?thesis
    by (auto simp: ranking_criteria_def leading_criteria_def criterion_def Let_def)
qed

lemma sorted_partition:
  fixes f :: "'a \<Rightarrow> 'b::linorder"
  assumes "sorted (map f xs)"
  shows "sorted (map (\<lambda>x. (\<not> P x, f x)) (filter P xs @ filter (\<lambda>x. \<not> P x) xs))"
proof -
  have part: "sorted (map (\<lambda>x. (b, f x)) (filter Q xs))" for b :: bool and Q
    using sorted_filter [OF assms, of Q] by (simp add: sorted_map)
  have "sorted (map (\<lambda>x. (\<not> P x, f x)) (filter P xs))"
    and "sorted (map (\<lambda>x. (\<not> P x, f x)) (filter (\<lambda>x. \<not> P x) xs))"
    using part [of False P] part [of True "\<lambda>x. \<not> P x"]
    by (auto simp: sorted_map elim!: sorted_wrt_mono_rel [rotated])
  then show ?thesis by (auto simp: sorted_append)
qed

lemma order_plans_sorted: "sorted (map (order_key priority commercial) (order_plans is priority commercial))"
proof -
  have "sorted (map (\<lambda>i. ranking_key i priority commercial)
      (sort_key (\<lambda>i. ranking_key i priority commercial) is))"
    by simp
  then have "sorted (map (\<lambda>i. ranking_tie_key i priority commercial)
      (sort_key (\<lambda>i. ranking_key i priority commercial) is))"
    unfolding sorted_map by (rule sorted_wrt_mono_rel [rotated]) (auto simp: ranking_key_def)
  from sorted_partition [OF this] show ?thesis
    by (simp only: order_plans_def prioritize_confirmed_memory_fit_def)
qed

text \<open>
  C25. The criteria shown with a plan decide its place.  For two plans, the ranks of the criteria
  compare exactly as the engine's own order does before its final name tie-break, placement
  first; and along the list the engine returns those ranks never decrease, so no plan is listed
  behind one that its published criteria put after it.
\<close>

theorem criteria_explain_order:
  "(shown_ranks priority commercial i < shown_ranks priority commercial j \<longleftrightarrow>
      (\<not> viable_plan i, ranking_tie_key i priority commercial) <
      (\<not> viable_plan j, ranking_tie_key j priority commercial)) \<and>
   sorted (map (shown_ranks priority commercial) (order_plans is priority commercial)) \<and>
   mset (order_plans is priority commercial) = mset is"
proof (intro conjI)
  have le: "shown_ranks priority commercial x \<le> shown_ranks priority commercial y"
    if "order_key priority commercial x \<le> order_key priority commercial y" for x y
    using that shown_ranks_less [where i = y and j = x and priority = priority and commercial = commercial] by (metis linorder_not_less)
  show "sorted (map (shown_ranks priority commercial) (order_plans is priority commercial))"
    using order_plans_sorted [of priority commercial "is"] le
    unfolding sorted_map by (blast intro: sorted_wrt_mono_rel [rotated])
  show "mset (order_plans is priority commercial) = mset is"
    by (simp add: order_plans_def prioritize_confirmed_memory_fit_def)
qed (rule shown_ranks_less)

section \<open>Capable models stay ahead of weak ones\<close>

text \<open>A capable plan listed after one that is not capable is less viable than it.\<close>

abbreviation weak_after_capable :: "ranked_plan \<Rightarrow> ranked_plan \<Rightarrow> bool" where
  "weak_after_capable x y \<equiv> \<not> is_capable x \<and> is_capable y \<longrightarrow> viability_group x < viability_group y"

definition slots_ok :: "ranked_plan list \<Rightarrow> ranked_plan list list \<Rightarrow> bool" where
  "slots_ok capable slots \<longleftrightarrow>
     length slots = Suc (length capable) \<and>
     (\<forall>k < length slots. \<forall>w \<in> set (slots ! k). \<not> is_capable w \<and> anchor capable w \<le> k)"

lemma foldl_max_bounds:
  fixes xs :: "nat list"
  shows "a \<le> foldl max a xs \<and> (\<forall>x \<in> set xs. x \<le> foldl max a xs) \<and> (foldl max a xs = a \<or> foldl max a xs \<in> set xs)"
proof (induction xs arbitrary: a)
  case (Cons y ys)
  from Cons.IH [of "max a y"] show ?case by (auto simp: max_def split: if_splits)
qed simp

lemma anchor_le: "anchor capable w \<le> length capable"
  using foldl_max_bounds [of 0 "map Suc (filter (\<lambda>k. viability_group (capable ! k) \<le> viability_group w) [0..<length capable])"]
  by (auto simp: anchor_def)

lemma anchor_covers:
  assumes "m < length capable" "anchor capable w \<le> m"
  shows "viability_group w < viability_group (capable ! m)"
proof (rule ccontr)
  assume "\<not> ?thesis"
  then have "Suc m \<in> set (map Suc (filter (\<lambda>k. viability_group (capable ! k) \<le> viability_group w) [0..<length capable]))"
    using assms(1) by auto
  then have "Suc m \<le> anchor capable w" unfolding anchor_def using foldl_max_bounds by blast
  with assms(2) show False by simp
qed

lemma mset_concat_update:
  assumes "k < length xss"
  shows "mset (concat (xss[k := xss ! k @ [x]])) = add_mset x (mset (concat xss))"
proof -
  have "concat xss = concat (take k xss) @ xss ! k @ concat (drop (Suc k) xss)"
    using id_take_nth_drop [OF assms] by (metis concat.simps(2) concat_append)
  then show ?thesis unfolding upd_conv_take_nth_drop [OF assms] by simp
qed

lemma place_weak_ok:
  assumes "slots_ok capable slots" and "seen + length (filter is_capable is) \<le> length capable"
  shows "slots_ok capable (place_weak capable is seen slots) \<and>
    mset (concat (place_weak capable is seen slots)) = mset (concat slots) + mset (filter (\<lambda>i. \<not> is_capable i) is)"
  using assms
proof (induction "is" arbitrary: seen slots)
  case (Cons i "is")
  show ?case
  proof (cases "is_capable i")
    case False
    let ?k = "max seen (anchor capable i)"
    have k: "?k < length slots"
      using Cons.prems False anchor_le [of capable i] by (simp add: slots_ok_def)
    have "slots_ok capable (slots[?k := slots ! ?k @ [i]])"
      using Cons.prems(1) False k by (auto simp: slots_ok_def nth_list_update)
    from Cons.IH [OF this] Cons.prems(2) False mset_concat_update [OF k, of i]
    show ?thesis by (simp add: Let_def)
  qed (use Cons in simp)
qed simp

lemma interleaved:
  assumes "length ss = length cs" and "\<forall>c \<in> set cs. is_capable c"
    and "\<forall>k < length cs. \<forall>w \<in> set (ss ! k). \<not> is_capable w \<and>
      (\<forall>m < length cs. k < m \<longrightarrow> viability_group w < viability_group (cs ! m))"
  shows "sorted_wrt weak_after_capable (concat (map (\<lambda>(c, s). c # s) (zip cs ss))) \<and>
    filter is_capable (concat (map (\<lambda>(c, s). c # s) (zip cs ss))) = cs \<and>
    mset (concat (map (\<lambda>(c, s). c # s) (zip cs ss))) = mset cs + mset (concat ss)"
  using assms
proof (induction ss cs rule: list_induct2)
  case (Cons s ss c cs)
  let ?rest = "concat (map (\<lambda>(c, s). c # s) (zip cs ss))"
  have tail: "\<forall>k < length cs. \<forall>w \<in> set (ss ! k). \<not> is_capable w \<and>
      (\<forall>m < length cs. k < m \<longrightarrow> viability_group w < viability_group (cs ! m))"
    using Cons.prems(2) by (metis Suc_less_eq length_Cons nth_Cons_Suc)
  have head: "\<not> is_capable w" "\<forall>m < length cs. viability_group w < viability_group (cs ! m)" if "w \<in> set s" for w
    using Cons.prems(2) that by (force dest: spec [where x = 0] spec [where x = "Suc _"])+
  have rest: "sorted_wrt weak_after_capable ?rest" "filter is_capable ?rest = cs"
      "mset ?rest = mset cs + mset (concat ss)"
    using Cons.IH [OF _ tail] Cons.prems(1) by auto
  have "viability_group w < viability_group y" if "w \<in> set s" "y \<in> set ?rest" "is_capable y" for w y
  proof -
    have "y \<in> set (filter is_capable ?rest)" using that(2,3) by simp
    then have "y \<in> set cs" unfolding rest(2) .
    then show ?thesis using head(2) [OF that(1)] by (metis in_set_conv_nth)
  qed
  moreover have "filter is_capable s = []" "sorted_wrt weak_after_capable s"
    using head(1) by (auto simp: filter_empty_conv sorted_wrt_iff_nth_less)
  ultimately show ?case
    using rest Cons.prems(1) head(1) by (auto simp: sorted_wrt_append)
qed simp

text \<open>
  C26. Capable models first.  For the capability-first priorities the preference only permutes
  the plans; capable plans keep their relative order; and whenever a capable plan still comes
  after one that is not known to be capable, it is less viable than it.
\<close>

theorem weak_plans_stay_behind:
  "mset (weak_plans_last plans priority) = mset plans \<and>
   filter is_capable (weak_plans_last plans priority) = filter is_capable plans \<and>
   (CAPABILITY_FIRST priority \<longrightarrow>
     sorted_wrt (\<lambda>x y. \<not> is_capable x \<and> is_capable y \<longrightarrow> viability_group x < viability_group y)
       (weak_plans_last plans priority))"
proof (cases "CAPABILITY_FIRST priority")
  case True
  define cs where "cs = filter is_capable plans"
  define slots where "slots = place_weak cs plans 0 (replicate (Suc (length cs)) [])"
  have "slots_ok cs (replicate (Suc (length cs)) [])" by (simp add: slots_ok_def nth_Cons' del: replicate_Suc)
  from place_weak_ok [OF this, of 0 plans]
  have ok: "slots_ok cs slots" and m: "mset (concat slots) = mset (filter (\<lambda>i. \<not> is_capable i) plans)"
    by (simp_all add: slots_def cs_def del: replicate_Suc)
  then obtain s ss where ss: "slots = s # ss" "length ss = length cs"
    by (cases slots) (auto simp: slots_ok_def)
  have caps: "\<forall>c \<in> set cs. is_capable c" by (simp add: cs_def)
  have slot: "\<not> is_capable w \<and> anchor cs w \<le> k" if "k < length slots" "w \<in> set (slots ! k)" for k w
    using ok that by (simp add: slots_ok_def)
  have tail: "\<forall>k < length cs. \<forall>w \<in> set (ss ! k). \<not> is_capable w \<and>
      (\<forall>m < length cs. k < m \<longrightarrow> viability_group w < viability_group (cs ! m))"
  proof (intro allI impI ballI conjI)
    fix k w m assume k: "k < length cs" "w \<in> set (ss ! k)"
    then have w: "\<not> is_capable w \<and> anchor cs w \<le> Suc k" using slot [of "Suc k" w] ss by simp
    then show "\<not> is_capable w" ..
    show "viability_group w < viability_group (cs ! m)" if "m < length cs" "k < m"
      using anchor_covers [OF that(1), of w] w that(2) by simp
  qed
  have head: "\<not> is_capable w" "\<forall>m < length cs. viability_group w < viability_group (cs ! m)" if "w \<in> set s" for w
    using slot [of 0] ss that anchor_covers by auto
  note rest = interleaved [OF ss(2) caps tail]
  have eq: "weak_plans_last plans priority = s @ concat (map (\<lambda>(c, s). c # s) (zip cs ss))"
    unfolding weak_plans_last_def Let_def cs_def [symmetric] slots_def [symmetric] ss(1)
    using True by simp
  have "sorted_wrt weak_after_capable (weak_plans_last plans priority)"
    unfolding eq sorted_wrt_append
  proof (intro conjI ballI impI)
    show "sorted_wrt weak_after_capable s" using head(1) by (auto simp: sorted_wrt_iff_nth_less)
    show "sorted_wrt weak_after_capable (concat (map (\<lambda>(c, s). c # s) (zip cs ss)))" using rest by blast
    fix w y assume wy: "w \<in> set s" "y \<in> set (concat (map (\<lambda>(c, s). c # s) (zip cs ss)))"
      "\<not> is_capable w \<and> is_capable y"
    then have "y \<in> set (filter is_capable (concat (map (\<lambda>(c, s). c # s) (zip cs ss))))" by simp
    then have "y \<in> set cs" using rest by simp
    then show "viability_group w < viability_group y" using head(2) [OF wy(1)] by (metis in_set_conv_nth)
  qed
  moreover have "filter is_capable (weak_plans_last plans priority) = cs"
    using rest head(1) by (simp add: eq filter_empty_conv)
  moreover have "mset (weak_plans_last plans priority) = mset plans"
  proof -
    have "mset (weak_plans_last plans priority) = mset cs + mset (concat slots)"
      using rest by (simp add: eq ss(1))
    then show ?thesis unfolding m cs_def by (metis mset_filter multiset_partition)
  qed
  ultimately show ?thesis unfolding cs_def by blast
qed (simp add: weak_plans_last_def)

section \<open>Distinct models, in the order of the ranking\<close>

lemma sorted_remove1_tl:
  fixes f :: "'a \<Rightarrow> 'b::linorder"
  assumes "sorted (map f xs)" "x \<in> set xs" "f x = f (hd xs)"
  shows "map f (remove1 x xs) = tl (map f xs)"
  using assms
proof (induction xs)
  case (Cons y ys)
  show ?case
  proof (cases "x = y")
    case False
    then have x: "x \<in> set ys" using Cons.prems(2) by simp
    then obtain z zs where ys: "ys = z # zs" by (cases ys) auto
    have "f (hd ys) = f y"
    proof (rule antisym)
      show "f (hd ys) \<le> f y" using Cons.prems(1,3) x ys by (auto simp: sorted_map)
      show "f y \<le> f (hd ys)" using Cons.prems(1) ys by simp
    qed
    then have "map f (remove1 x ys) = tl (map f ys)"
      using Cons.IH Cons.prems x by simp
    then show ?thesis using False \<open>f (hd ys) = f y\<close> ys by simp
  qed simp
qed simp

lemma select_buckets_step:
  assumes "remaining \<noteq> []" "length chosen < limit"
  shows "select_buckets signature limit chosen remaining =
    select_buckets signature limit (chosen @ [choose_next signature chosen remaining])
      (remove1 (choose_next signature chosen remaining) remaining)"
  using assms by (subst select_buckets.simps) (simp add: Let_def)

lemma select_buckets_stop:
  "remaining = [] \<or> limit \<le> length chosen \<Longrightarrow> select_buckets signature limit chosen remaining = chosen"
  by (subst select_buckets.simps) simp

lemma select_buckets_sound:
  assumes "distinct (chosen @ remaining)" "length chosen \<le> limit"
  shows "set (select_buckets signature limit chosen remaining) \<subseteq> set (chosen @ remaining) \<and>
    distinct (select_buckets signature limit chosen remaining) \<and>
    length (select_buckets signature limit chosen remaining) = min limit (length (chosen @ remaining)) \<and>
    take (length chosen) (select_buckets signature limit chosen remaining) = chosen"
  using assms
proof (induction "length remaining" arbitrary: chosen remaining)
  case (Suc n)
  show ?case
  proof (cases "limit \<le> length chosen")
    case False
    let ?c = "choose_next signature chosen remaining"
    have r: "remaining \<noteq> []" using Suc.hyps(2) by auto
    note c = choose_next_in(1) [OF r, of signature chosen]
    have "n = length (remove1 ?c remaining)" using Suc.hyps(2) c by (simp add: length_remove1)
    moreover have "distinct ((chosen @ [?c]) @ remove1 ?c remaining)"
      using Suc.prems(1) c by (auto simp: distinct_remove1 set_remove1_eq)
    moreover have "length (chosen @ [?c]) \<le> limit" using False by simp
    ultimately have IH: "set (select_buckets signature limit (chosen @ [?c]) (remove1 ?c remaining))
          \<subseteq> set ((chosen @ [?c]) @ remove1 ?c remaining)"
        "distinct (select_buckets signature limit (chosen @ [?c]) (remove1 ?c remaining))"
        "length (select_buckets signature limit (chosen @ [?c]) (remove1 ?c remaining)) =
           min limit (length ((chosen @ [?c]) @ remove1 ?c remaining))"
        "take (length (chosen @ [?c])) (select_buckets signature limit (chosen @ [?c]) (remove1 ?c remaining)) =
           chosen @ [?c]"
      using Suc.hyps(1) by blast+
    have "set ((chosen @ [?c]) @ remove1 ?c remaining) \<subseteq> set (chosen @ remaining)"
      using c set_remove1_subset [of ?c remaining] by auto
    moreover have "length ((chosen @ [?c]) @ remove1 ?c remaining) = length (chosen @ remaining)"
      using Suc.hyps(2) c by (simp add: length_remove1)
    moreover have "take (length chosen) xs = chosen" if "take (length (chosen @ [x])) xs = chosen @ [x]" for x xs
      using arg_cong [OF that, of "take (length chosen)"] by (simp add: take_take)
    ultimately show ?thesis
      using IH select_buckets_step [OF r, of chosen limit signature] False by (metis linorder_not_le subset_trans)
  qed (use Suc.prems in \<open>auto simp: select_buckets_stop\<close>)
qed (use assms in \<open>auto simp: select_buckets_stop\<close>)

lemma select_buckets_sorted:
  fixes rank :: "ranked_plan \<Rightarrow> 'k::linorder"
  assumes "sorted (map (rank \<circ> ib_primary) remaining)" "length chosen \<le> limit"
    and "\<forall>x \<in> set remaining. \<forall>y \<in> set remaining.
      signature (ib_primary x) = signature (ib_primary y) \<longrightarrow> rank (ib_primary x) = rank (ib_primary y)"
  shows "map (rank \<circ> ib_primary) (select_buckets signature limit chosen remaining) =
    take limit (map (rank \<circ> ib_primary) (chosen @ remaining))"
  using assms
proof (induction "length remaining" arbitrary: chosen remaining)
  case (Suc n)
  show ?case
  proof (cases "limit \<le> length chosen")
    case False
    let ?c = "choose_next signature chosen remaining"
    have r: "remaining \<noteq> []" using Suc.hyps(2) by auto
    note c = choose_next_in [OF r, of signature chosen]
    have same: "rank (ib_primary ?c) = rank (ib_primary (hd remaining))"
      using Suc.prems(3) c hd_in_set [OF r] by blast
    have tl: "map (rank \<circ> ib_primary) (remove1 ?c remaining) = tl (map (rank \<circ> ib_primary) remaining)"
      by (rule sorted_remove1_tl) (use Suc.prems(1) c same in simp_all)
    have "sorted (map (rank \<circ> ib_primary) (remove1 ?c remaining))"
      unfolding tl using Suc.prems(1) by (rule sorted_tl)
    moreover have "n = length (remove1 ?c remaining)" using Suc.hyps(2) c(1) by (simp add: length_remove1)
    moreover have "length (chosen @ [?c]) \<le> limit" using False by simp
    moreover have "set (remove1 ?c remaining) \<subseteq> set remaining" by (rule set_remove1_subset)
    ultimately have "map (rank \<circ> ib_primary) (select_buckets signature limit (chosen @ [?c]) (remove1 ?c remaining)) =
        take limit (map (rank \<circ> ib_primary) ((chosen @ [?c]) @ remove1 ?c remaining))"
      using Suc.hyps(1) Suc.prems(3) by blast
    also have "map (rank \<circ> ib_primary) ((chosen @ [?c]) @ remove1 ?c remaining) =
        map (rank \<circ> ib_primary) (chosen @ remaining)"
      using tl same r by (cases remaining) simp_all
    finally show ?thesis unfolding select_buckets_step [OF r False [unfolded not_le]] .
  qed (use Suc.prems in \<open>simp add: select_buckets_stop\<close>)
qed (simp add: select_buckets_stop)

lemma dict_set_new: "k \<notin> set (map fst d) \<Longrightarrow> dict_set d k v = d @ [(k, v)]"
  unfolding dict_set_def by (induction d) auto

text \<open>The plans that open an identity: not rejected, and the first such plan of it.\<close>

definition opens_identity :: "ranked_plan list \<Rightarrow> nat \<Rightarrow> bool" where
  "opens_identity is n \<longleftrightarrow>
     \<not> plan_rejected (is ! n) \<and>
     (\<forall>m < n. \<not> plan_rejected (is ! m) \<longrightarrow> identity_of_plan (is ! m) \<noteq> identity_of_plan (is ! n))"

definition identity_openers :: "ranked_plan list \<Rightarrow> nat list" where
  "identity_openers is = filter (opens_identity is) [0..<length is]"

definition opener_items :: "ranked_plan list \<Rightarrow> (string, nat) dict" where
  "opener_items is = map (\<lambda>n. (identity_of_plan (is ! n), n)) (identity_openers is)"

lemma opener_exists:
  assumes "m < length is" "\<not> plan_rejected (is ! m)"
  shows "\<exists>n \<in> set (identity_openers is). identity_of_plan (is ! n) = identity_of_plan (is ! m)"
  using assms
proof (induction m rule: less_induct)
  case (less m)
  show ?case
  proof (cases "opens_identity is m")
    case True
    then have "m \<in> set (identity_openers is)" using less.prems(1) by (simp add: identity_openers_def)
    then show ?thesis by blast
  next
    case False
    then obtain k where k: "k < m" "\<not> plan_rejected (is ! k)"
        "identity_of_plan (is ! k) = identity_of_plan (is ! m)"
      using less.prems(2) by (auto simp: opens_identity_def)
    then show ?thesis using less.IH [OF k(1)] less.prems(1) by simp
  qed
qed

lemma opener_keys:
  "set (map fst (opener_items is)) = identity_of_plan ` {i \<in> set is. \<not> plan_rejected i}"
  (is "?l = ?r")
proof
  show "?l \<subseteq> ?r" by (auto simp: opener_items_def identity_openers_def opens_identity_def)
  show "?r \<subseteq> ?l"
  proof
    fix k assume "k \<in> ?r"
    then obtain m where m: "m < length is" "\<not> plan_rejected (is ! m)" "k = identity_of_plan (is ! m)"
      by (auto simp: in_set_conv_nth)
    obtain n where "n \<in> set (identity_openers is)" "identity_of_plan (is ! n) = k"
      using opener_exists [OF m(1,2)] m(3) by auto
    then show "k \<in> ?l" by (auto simp: opener_items_def)
  qed
qed

lemma opener_items_snoc:
  "opener_items (is @ [i]) =
     (if plan_rejected i \<or> dict_has (opener_items is) (identity_of_plan i) then opener_items is
      else dict_set (opener_items is) (identity_of_plan i) (length is))"
proof -
  have old: "opens_identity (is @ [i]) n = opens_identity is n" if "n < length is" for n
    using that by (auto simp: opens_identity_def nth_append)
  have "filter (opens_identity (is @ [i])) [0..<length is] = filter (opens_identity is) [0..<length is]"
    by (rule filter_cong) (auto simp: old)
  then have "identity_openers (is @ [i]) = identity_openers is @
      (if opens_identity (is @ [i]) (length is) then [length is] else [])"
    by (simp add: identity_openers_def)
  moreover have "map (\<lambda>n. (identity_of_plan ((is @ [i]) ! n), n)) (identity_openers is) = opener_items is"
    by (auto simp: opener_items_def identity_openers_def nth_append)
  ultimately have items: "opener_items (is @ [i]) = opener_items is @
      (if opens_identity (is @ [i]) (length is) then [(identity_of_plan i, length is)] else [])"
    by (simp add: opener_items_def)
  have key: "identity_of_plan i \<in> set (map fst (opener_items is)) \<longleftrightarrow>
      (\<exists>m < length is. \<not> plan_rejected (is ! m) \<and> identity_of_plan (is ! m) = identity_of_plan i)"
  proof -
    have "k \<in> f ` {x \<in> set xs. P x} \<longleftrightarrow> (\<exists>m < length xs. P (xs ! m) \<and> f (xs ! m) = k)"
      for f :: "ranked_plan \<Rightarrow> string" and xs P k
      by (auto simp: in_set_conv_nth)
    then show ?thesis unfolding opener_keys .
  qed
  have at: "(is @ [i]) ! length is = i" "m < length is \<Longrightarrow> (is @ [i]) ! m = is ! m" for m
    by (simp_all add: nth_append)
  have "opens_identity (is @ [i]) (length is) \<longleftrightarrow>
      \<not> plan_rejected i \<and> identity_of_plan i \<notin> set (map fst (opener_items is))"
  proof
    assume "opens_identity (is @ [i]) (length is)"
    then have o: "\<not> plan_rejected i"
        "m < length is \<Longrightarrow> \<not> plan_rejected ((is @ [i]) ! m) \<Longrightarrow> identity_of_plan ((is @ [i]) ! m) \<noteq> identity_of_plan i" for m
      unfolding opens_identity_def at(1) by simp_all
    show "\<not> plan_rejected i \<and> identity_of_plan i \<notin> set (map fst (opener_items is))"
      unfolding key using o(1) o(2) [unfolded nth_append] by auto
  next
    assume "\<not> plan_rejected i \<and> identity_of_plan i \<notin> set (map fst (opener_items is))"
    then show "opens_identity (is @ [i]) (length is)"
      unfolding key opens_identity_def at(1) by (auto simp: nth_append)
  qed
  moreover have "dict_has (opener_items is) k \<longleftrightarrow> k \<in> set (map fst (opener_items is))" for k
    by (auto simp: dict_has_def)
  ultimately show ?thesis unfolding items by (auto simp: dict_set_new)
qed

lemma identity_indexes_eq:
  "identity_indexes (length pre) post (opener_items pre) = opener_items (pre @ post)"
proof (induction post arbitrary: pre)
  case (Cons i post)
  show ?case using Cons.IH [of "pre @ [i]"] by (simp add: opener_items_snoc)
qed simp

lemma identity_indexes_openers: "sort_key snd (identity_indexes 0 is []) = opener_items is"
proof -
  have "identity_indexes 0 is [] = opener_items is"
    using identity_indexes_eq [of "[]" "is"] by (simp add: opener_items_def identity_openers_def)
  moreover have "sorted (map snd (opener_items is))"
    by (simp add: opener_items_def identity_openers_def comp_def sorted_filter [of id, simplified])
  ultimately show ?thesis by (simp add: sorted_sort_id sort_key_id_if_sorted)
qed

lemma hd_dropWhile: "hd (dropWhile P xs) = hd (filter (\<lambda>x. \<not> P x) xs)"
  by (induction xs) auto

lemma opener_first:
  assumes "n < length is" "opens_identity is n"
  shows "hd (filter (\<lambda>i. identity_of_plan i = identity_of_plan (is ! n) \<and> \<not> plan_rejected i) is) = is ! n"
    (is "hd (filter ?P is) = _")
proof -
  have "\<forall>x \<in> set (take n is). \<not> ?P x"
  proof
    fix x assume "x \<in> set (take n is)"
    then obtain m where "m < n" "m < length is" "x = is ! m" by (auto simp: in_set_conv_nth)
    then show "\<not> ?P x" using assms(2) by (auto simp: opens_identity_def)
  qed
  then have "filter ?P (take n is) = []" by (simp add: filter_empty_conv)
  moreover have "?P (is ! n)" using assms(2) by (simp add: opens_identity_def)
  moreover have "filter ?P is = filter ?P (take n is) @ filter ?P (is ! n # drop (Suc n) is)"
    using id_take_nth_drop [OF assms(1)] by (metis filter_append)
  ultimately show ?thesis by simp
qed

definition opener_bucket :: "ranked_plan list \<Rightarrow> nat \<Rightarrow> identity_bucket" where
  "opener_bucket is n = bucket_of is (identity_of_plan (is ! n), n)"

lemma buckets_eq: "best_plan_per_identity is = map (opener_bucket is) (identity_openers is)"
  by (simp add: best_plan_per_identity_def identity_indexes_openers opener_items_def opener_bucket_def)

lemma opener_bucket_primary:
  assumes "n \<in> set (identity_openers is)"
  shows "ib_primary (opener_bucket is n) = is ! n"
    and "mset (ib_primary (opener_bucket is n) # ib_alternatives (opener_bucket is n)) =
      mset (filter (\<lambda>i. identity_of_plan i = identity_of_plan (is ! n)) is)"
proof -
  let ?items = "filter (\<lambda>i. identity_of_plan i = identity_of_plan (is ! n)) is"
  have n: "n < length is" "opens_identity is n" using assms by (auto simp: identity_openers_def)
  show "ib_primary (opener_bucket is n) = is ! n"
    using opener_first [OF n] by (simp add: opener_bucket_def bucket_of_def hd_dropWhile conj_commute Let_def)
  have "is ! n \<in> set ?items" "\<not> plan_rejected (is ! n)" using n by (auto simp: opens_identity_def)
  then have "dropWhile plan_rejected ?items \<noteq> []" by (auto simp: dropWhile_eq_Nil_conv)
  then have "mset (takeWhile plan_rejected ?items) + mset (dropWhile plan_rejected ?items) =
      add_mset (hd (dropWhile plan_rejected ?items))
        (mset (takeWhile plan_rejected ?items @ tl (dropWhile plan_rejected ?items)))"
    by (cases "dropWhile plan_rejected ?items") auto
  moreover have "mset ?items = mset (takeWhile plan_rejected ?items) + mset (dropWhile plan_rejected ?items)"
    by (metis mset_append takeWhile_dropWhile_id)
  ultimately show "mset (ib_primary (opener_bucket is n) # ib_alternatives (opener_bucket is n)) = mset ?items"
    by (simp add: opener_bucket_def bucket_of_def Let_def)
qed

lemma openers_distinct: "distinct (map (\<lambda>n. identity_of_plan (is ! n)) (identity_openers is))"
proof -
  have "inj_on (\<lambda>n. identity_of_plan (is ! n)) (set (identity_openers is))"
    by (rule linorder_inj_onI) (auto simp: identity_openers_def opens_identity_def)
  then show ?thesis by (simp add: distinct_map identity_openers_def)
qed

lemma openers_count: "length (identity_openers is) = card (identity_of_plan ` {i \<in> set is. \<not> plan_rejected i})"
proof -
  have "set (map (\<lambda>n. identity_of_plan (is ! n)) (identity_openers is)) =
      identity_of_plan ` {i \<in> set is. \<not> plan_rejected i}"
    using opener_keys [of "is"] by (simp add: opener_items_def comp_def)
  then show ?thesis using distinct_card [OF openers_distinct [of "is"]] by simp
qed

lemma diversified_columns:
  "map dv_primary (map (\<lambda>(n, x). diversified_of best n x) (enumerate k xs)) = map ib_primary xs"
  "map dv_alternatives (map (\<lambda>(n, x). diversified_of best n x) (enumerate k xs)) = map ib_alternatives xs"
  by (induction xs arbitrary: k) (simp_all add: diversified_of_def)

lemma diversify_eq:
  assumes "0 < limit" "best_plan_per_identity is = b # bs"
  shows "map dv_primary (diversify_ranked_plans signature limit is) =
      map ib_primary (select_buckets signature limit [b] bs)"
    and "map dv_alternatives (diversify_ranked_plans signature limit is) =
      map ib_alternatives (select_buckets signature limit [b] bs)"
  using assms diversified_columns
  by (simp_all only: diversify_ranked_plans_def Let_def list.case if_False less_numeral_extra(3) gr_implies_not0)

text \<open>The first opener is the first plan that was not rejected.\<close>

lemma opener_of_first:
  assumes "filter (\<lambda>i. \<not> plan_rejected i) is = x # xs"
  shows "take 1 (map ((!) is) (identity_openers is)) = [x]"
proof -
  obtain us vs where split: "is = us @ x # vs" "\<forall>u \<in> set us. plan_rejected u" "\<not> plan_rejected x"
    using assms by (auto simp: filter_eq_Cons_iff)
  let ?n = "length us"
  have "opens_identity is m \<longleftrightarrow> False" if "m < ?n" for m
    using that split(1,2) by (simp add: opens_identity_def nth_append)
  then have none: "filter (opens_identity is) [0..<?n] = []" by (simp add: filter_empty_conv)
  have "opens_identity is ?n"
    using split by (simp add: opens_identity_def nth_append)
  moreover have "[0..<length is] = [0..<?n] @ ?n # [Suc ?n..<length is]"
    using split(1) upt_add_eq_append [of 0 ?n "Suc (length vs)"] by (simp add: upt_rec)
  ultimately have "identity_openers is = ?n # filter (opens_identity is) [Suc ?n..<length is]"
    using none by (simp add: identity_openers_def)
  then show ?thesis using split(1) by simp
qed

lemma first_opener: "take 1 (map ((!) is) (identity_openers is)) = take 1 (filter (\<lambda>i. \<not> plan_rejected i) is)"
proof (cases "filter (\<lambda>i. \<not> plan_rejected i) is")
  case Nil
  then have "identity_openers is = []"
    by (auto simp: identity_openers_def opens_identity_def filter_empty_conv)
  then show ?thesis using Nil by simp
next
  case (Cons x xs)
  then show ?thesis using opener_of_first [OF Cons] by simp
qed

lemma diversify_none:
  "limit = 0 \<or> best_plan_per_identity is = [] \<Longrightarrow> diversify_ranked_plans signature limit is = []"
  by (auto simp: diversify_ranked_plans_def)

text \<open>The models chosen, as openers of the list.\<close>

lemma buckets_distinct: "distinct (best_plan_per_identity is)"
proof -
  have "map (identity_of_plan \<circ> ib_primary) (best_plan_per_identity is) =
      map (\<lambda>n. identity_of_plan (is ! n)) (identity_openers is)"
    unfolding buckets_eq by (auto simp: opener_bucket_primary(1))
  then show ?thesis using openers_distinct [of "is"] distinct_map by metis
qed

lemma bucket_identity_inj: "inj_on (identity_of_plan \<circ> ib_primary) (set (best_plan_per_identity is))"
proof -
  have "map (identity_of_plan \<circ> ib_primary) (best_plan_per_identity is) =
      map (\<lambda>n. identity_of_plan (is ! n)) (identity_openers is)"
    unfolding buckets_eq by (auto simp: opener_bucket_primary(1))
  then show ?thesis using openers_distinct [of "is"] distinct_map by metis
qed

lemma bucket_contents:
  assumes "b \<in> set (best_plan_per_identity is)"
  shows "ib_primary b = hd (filter (\<lambda>i. identity_of_plan i = identity_of_plan (ib_primary b) \<and> \<not> plan_rejected i) is)"
    and "mset (ib_primary b # ib_alternatives b) =
      mset (filter (\<lambda>i. identity_of_plan i = identity_of_plan (ib_primary b)) is)"
proof -
  obtain n where n: "n \<in> set (identity_openers is)" "b = opener_bucket is n"
    using assms unfolding buckets_eq by auto
  then have "n < length is" "opens_identity is n" by (auto simp: identity_openers_def)
  from opener_first [OF this] opener_bucket_primary [OF n(1)]
  show "ib_primary b = hd (filter (\<lambda>i. identity_of_plan i = identity_of_plan (ib_primary b) \<and> \<not> plan_rejected i) is)"
    and "mset (ib_primary b # ib_alternatives b) =
      mset (filter (\<lambda>i. identity_of_plan i = identity_of_plan (ib_primary b)) is)"
    unfolding n(2) by simp_all
qed

lemma diversified_buckets:
  obtains bs where
    "set bs \<subseteq> set (best_plan_per_identity is)" "distinct bs"
    "length bs = min limit (length (best_plan_per_identity is))"
    "take 1 bs = take 1 (take limit (best_plan_per_identity is))"
    "map dv_primary (diversify_ranked_plans signature limit is) = map ib_primary bs"
    "map dv_alternatives (diversify_ranked_plans signature limit is) = map ib_alternatives bs"
proof (cases "limit = 0 \<or> best_plan_per_identity is = []")
  case False
  then obtain b rest where b: "0 < limit" "best_plan_per_identity is = b # rest"
    by (cases "best_plan_per_identity is") auto
  have "set (select_buckets signature limit [b] rest) \<subseteq> set ([b] @ rest) \<and>
      distinct (select_buckets signature limit [b] rest) \<and>
      length (select_buckets signature limit [b] rest) = min limit (length ([b] @ rest)) \<and>
      take (length [b]) (select_buckets signature limit [b] rest) = [b]"
    by (rule select_buckets_sound) (use b buckets_distinct [of "is"] in auto)
  with b show thesis
    by (intro that [of "select_buckets signature limit [b] rest"]) (auto simp: diversify_eq take_Cons')
next
  case True
  then show thesis by (intro that [of "[]"]) (auto simp: diversify_none)
qed

text \<open>
  C27. One row per model.  The diversified list has as many rows as models with a plan that was
  not rejected, up to the limit, and no two rows show the same model; the plan a row opens with
  is the first plan of its model in ranking order that was not rejected; a row's plans are all
  the plans of its model, each exactly as often as in the ranking; and the first row opens with
  the best plan of the ranking that was not rejected.
\<close>

theorem diversified_models:
  "length (diversify_ranked_plans signature limit is) =
     min limit (card (identity_of_plan ` {i \<in> set is. \<not> plan_rejected i})) \<and>
   distinct (map (\<lambda>d. identity_of_plan (dv_primary d)) (diversify_ranked_plans signature limit is)) \<and>
   list_all (\<lambda>d.
       dv_primary d =
         hd (filter (\<lambda>i. identity_of_plan i = identity_of_plan (dv_primary d) \<and> \<not> plan_rejected i) is) \<and>
       mset (dv_primary d # dv_alternatives d) =
         mset (filter (\<lambda>i. identity_of_plan i = identity_of_plan (dv_primary d)) is))
     (diversify_ranked_plans signature limit is) \<and>
   map dv_primary (take 1 (diversify_ranked_plans signature limit is)) =
     take (min 1 limit) (filter (\<lambda>i. \<not> plan_rejected i) is)"
proof (rule diversified_buckets [of "is" limit signature])
  fix bs
  let ?r = "diversify_ranked_plans signature limit is"
  let ?best = "\<lambda>k. hd (filter (\<lambda>i. identity_of_plan i = k \<and> \<not> plan_rejected i) is)"
  assume bs: "set bs \<subseteq> set (best_plan_per_identity is)" "distinct bs"
    "length bs = min limit (length (best_plan_per_identity is))"
    "take 1 bs = take 1 (take limit (best_plan_per_identity is))"
    "map dv_primary ?r = map ib_primary bs" "map dv_alternatives ?r = map ib_alternatives bs"
  have len: "length ?r = length bs" using bs(5) by (metis length_map)
  have nth: "dv_primary (?r ! k) = ib_primary (bs ! k)" "dv_alternatives (?r ! k) = ib_alternatives (bs ! k)"
    if "k < length bs" for k
    using that len arg_cong [OF bs(5), of "\<lambda>xs. xs ! k"] arg_cong [OF bs(6), of "\<lambda>xs. xs ! k"] by simp_all
  have "length ?r = min limit (card (identity_of_plan ` {i \<in> set is. \<not> plan_rejected i}))"
    unfolding len bs(3) buckets_eq length_map openers_count ..
  moreover have "distinct (map (\<lambda>d. identity_of_plan (dv_primary d)) ?r)"
  proof -
    have "map (\<lambda>d. identity_of_plan (dv_primary d)) ?r = map (identity_of_plan \<circ> ib_primary) bs"
      using arg_cong [OF bs(5), of "map identity_of_plan"] by (simp add: comp_def)
    then show ?thesis
      using bs(2) inj_on_subset [OF bucket_identity_inj bs(1)] by (simp add: distinct_map)
  qed
  moreover have "list_all (\<lambda>d. dv_primary d = ?best (identity_of_plan (dv_primary d)) \<and>
      mset (dv_primary d # dv_alternatives d) =
        mset (filter (\<lambda>i. identity_of_plan i = identity_of_plan (dv_primary d)) is)) ?r"
  proof (unfold list_all_length, intro allI impI)
    fix k assume "k < length ?r"
    then have k: "k < length bs" "bs ! k \<in> set (best_plan_per_identity is)" using len bs(1) by auto
    show "dv_primary (?r ! k) = ?best (identity_of_plan (dv_primary (?r ! k))) \<and>
      mset (dv_primary (?r ! k) # dv_alternatives (?r ! k)) =
        mset (filter (\<lambda>i. identity_of_plan i = identity_of_plan (dv_primary (?r ! k))) is)"
      unfolding nth [OF k(1)] using bucket_contents [OF k(2)] by blast
  qed
  moreover have "map dv_primary (take 1 ?r) = take (min 1 limit) (filter (\<lambda>i. \<not> plan_rejected i) is)"
  proof -
    have "map dv_primary (take 1 ?r) = map ib_primary (take 1 bs)"
      using arg_cong [OF bs(5), of "take 1"] by (simp add: take_map)
    also have "\<dots> = take (min 1 limit) (map ib_primary (best_plan_per_identity is))"
      unfolding bs(4) by (simp add: take_map min_def)
    also have "map ib_primary (best_plan_per_identity is) = map ((!) is) (identity_openers is)"
      unfolding buckets_eq by (auto simp: opener_bucket_primary(1))
    also have "take (min 1 limit) \<dots> = take (min 1 limit) (filter (\<lambda>i. \<not> plan_rejected i) is)"
      using first_opener [of "is"] by (cases limit) (simp_all add: min_def)
    finally show ?thesis .
  qed
  ultimately show ?thesis by blast
qed

lemma diversified_models_bound: "length (diversify_ranked_plans signature limit is) \<le> limit"
  by (rule diversified_buckets [of "is" limit signature])
    (metis length_map min.cobounded1)


section \<open>The statements at concrete plans\<close>

definition plan_example :: "assessment_level \<Rightarrow> plan_assessment" where
  "plan_example capability =
     \<lparr>pa_plan_id = [], pa_hard_constraints = [], pa_capability = capability, pa_quality = no_quality,
      pa_speed = no_speed, pa_suitability = LV_STRONG, pa_execution_fitness = LV_ADEQUATE,
      pa_feasibility = LV_ADEQUATE, pa_executability = LV_UNKNOWN, pa_runtime_readiness = LV_UNKNOWN,
      pa_performance_evidence = LV_UNKNOWN, pa_resource_evidence = LV_UNKNOWN, pa_license_fit = LV_STRONG,
      pa_language_fit = LV_STRONG, pa_confidence = CONF_HIGH, pa_evidence = [],
      pa_external_evaluations = [], pa_reasons = [], pa_trade_offs = [], pa_rejection_reasons = [],
      pa_measured_memory_bytes = None, pa_estimated_memory_bytes = None, pa_measured_tps = None,
      pa_local_experiment_id = None, pa_local_benchmark_id = None\<rparr>"

definition example_ranked :: "string \<Rightarrow> assessment_level \<Rightarrow> ranked_plan" where
  "example_ranked repo capability =
     \<lparr>rp_evaluated = example_evaluated None,
      rp_plan = example_plan\<lparr>xp_artifact := plan_artifact\<lparr>av_repo_id := repo\<rparr>,
        xp_model_identity := example_identity\<lparr>mi_canonical_repo_id := None\<rparr>\<rparr>,
      rp_assessment = plan_example capability, rp_use_case = None\<rparr>"

lemma example_identities: "identity_of_plan (example_ranked repo level) = lower repo"
  by code_simp

theorem weak_plans_stay_behind_witness:
  "sorted_wrt (\<lambda>x y. \<not> is_capable x \<and> is_capable y \<longrightarrow> viability_group x < viability_group y)
     (weak_plans_last [example_ranked ''b'' LV_WEAK, example_ranked ''a'' LV_ADEQUATE] BALANCED)"
  using weak_plans_stay_behind [of "[example_ranked ''b'' LV_WEAK, example_ranked ''a'' LV_ADEQUATE]" BALANCED]
  by (simp add: CAPABILITY_FIRST_def)

lemma example_buckets:
  "map (\<lambda>b. LEVEL_RANK (pa_capability (rp_assessment (ib_primary b))))
     (best_plan_per_identity [example_ranked ''a'' LV_ADEQUATE, example_ranked ''b'' LV_WEAK]) = [1, 2]"
  by code_simp


end
