(* ===== verification/Measured_Policy.thy ===== *)
theory Measured_Policy
  imports Plan_Ranking Py_Json
begin

text \<open>
  The measured policy (\<^verbatim>\<open>recommendation/shadow.py\<close>): comparable measurements reorder the
  plans of one group among the places the group already holds, and nothing else moves.
\<close>

section \<open>Square roots and the Wilson interval\<close>

text \<open>The integer square root, two bits at a time.\<close>

function isqrt :: "int \<Rightarrow> int" where
  "isqrt n =
     (if n \<le> 0 then 0
      else (let r = 2 * isqrt (n div 4) in if (r + 1) * (r + 1) \<le> n then r + 1 else r))"
  by pat_completeness auto
termination
  by (relation "measure nat") auto

declare isqrt.simps [simp del]

text \<open>
  \<^verbatim>\<open>math.sqrt\<close>.  The radicand is scaled by an even power of two so that its integer root has
  at least 54 bits; a last bit records whether the root was exact, which decides the rounding as
  the exact root would.
\<close>

definition sqrt_scaled :: "int \<Rightarrow> int \<Rightarrow> py_float" where
  "sqrt_scaled m e =
     (let q = isqrt m in
      round_ratio ((2 * q + (if q * q = m then 0 else 1)) * 2 ^ nat e) (2 * 2 ^ nat (- e)))"

fun float_sqrt :: "py_float \<Rightarrow> py_float" where
  "float_sqrt (PyFloat m e) =
     (if m \<le> 0 then PyFloat 0 0
      else if even e then sqrt_scaled (m * 2 ^ 110) (e div 2 - 55)
      else sqrt_scaled (m * 2 ^ 111) ((e - 1) div 2 - 55))"

definition WILSON_Z :: py_float where
  "WILSON_Z = round_ratio 1959964 1000000"

definition wilson :: "int \<Rightarrow> int \<Rightarrow> py_float \<times> py_float" where
  "wilson correct samples =
     (let p = round_ratio correct samples; zz = float_mult WILSON_Z WILSON_Z;
          denominator = float_add float_one (float_divide zz (float_of_int samples));
          centre = float_divide (float_add p (float_divide zz (float_of_int (2 * samples)))) denominator;
          spread = float_add
            (float_divide (float_mult p (float_minus float_one p)) (float_of_int samples))
            (float_divide zz (float_of_int (4 * samples * samples)));
          half = float_divide (float_mult WILSON_Z (float_sqrt spread)) denominator in
      (float_max float_zero (float_minus centre half), float_min float_one (float_add centre half)))"

section \<open>Evidence\<close>

text \<open>One applicable figure; figures with one cohort are comparable.\<close>

record measured_figure =
  mf_cohort :: string
  mf_value :: py_float
  mf_label :: string
  mf_evidence_ids :: "string list"
  mf_minimum :: "py_float option"
  mf_maximum :: "py_float option"
  mf_comparison_ready :: bool

record plan_figures =
  pf_quality :: "measured_figure option"
  pf_speed :: "measured_figure option"
  pf_fallback_reasons :: "string list"

definition blank_figures :: plan_figures where
  "blank_figures = \<lparr>pf_quality = None, pf_speed = None, pf_fallback_reasons = []\<rparr>"

definition quality_figure :: "applicable_quality \<Rightarrow> measured_figure" where
  "quality_figure q =
     (case wilson (aq_correct q) (aq_samples q) of
        (low, high) \<Rightarrow>
          \<lparr>mf_cohort = aq_cohort q, mf_value = aq_value q, mf_label = aq_suite q @ '' '' @ aq_metric q,
           mf_evidence_ids = [aq_record_sha256 q], mf_minimum = Some low, mf_maximum = Some high,
           mf_comparison_ready = True\<rparr>)"

definition speed_figure :: "applicable_speed \<Rightarrow> measured_figure" where
  "speed_figure s =
     \<lparr>mf_cohort = as_cohort s, mf_value = as_tokens_per_second s, mf_label = ''tg128 tok/s'',
      mf_evidence_ids = (if as_benchmark_ids s = [] then [as_benchmark_id s] else as_benchmark_ids s),
      mf_minimum = as_observed_min s, mf_maximum = as_observed_max s,
      mf_comparison_ready = ranking_ready s\<rparr>"

definition quality_reason :: "quality_assessment \<Rightarrow> string" where
  "quality_reason q =
     (if qa_applicable q \<noteq> None then
        ''Quality: measured, but it orders only against other measured plans in its '' @
        ''comparable cohort and stratum.''
      else if qa_applicability q = APPLIES_ABSENT then ''Quality: no evidence for this artifact.''
      else ''Quality: references only; none passes task/protocol applicability.'')"

text \<open>Without an applicable figure the newest reference is read; an empty list raises.\<close>

definition speed_reason :: "speed_assessment \<Rightarrow> string option" where
  "speed_reason s =
     (case vs_applicable s of
        Some a \<Rightarrow>
          Some (if ranking_ready a then
              ''Speed: measured, but it orders only against other measured plans in its '' @
              ''comparable cohort and stratum.''
            else
              ''Speed: '' @ show_int (as_run_count a) @ '' stored calls; at least three distinct '' @
              ''calls with an observed range are required to order plans.'')
      | None \<Rightarrow>
          if vs_applicability s = APPLIES_ABSENT then Some ''Speed: no benchmark of this exact artifact.''
          else
            (case vs_references s of
               [] \<Rightarrow> None
             | r # _ \<Rightarrow>
                 Some (''Speed: '' @ lv_benchmark_id r @
                   (case lv_blockers r of
                      [] \<Rightarrow> '' is reference only.'' | b # _ \<Rightarrow> '' is blocked: '' @ b))))"

definition production_evidence :: "plan_assessment \<Rightarrow> plan_figures option" where
  "production_evidence a =
     map_option (\<lambda>r.
         \<lparr>pf_quality = map_option quality_figure (qa_applicable (pa_quality a)),
          pf_speed = map_option speed_figure (vs_applicable (pa_speed a)),
          pf_fallback_reasons = [quality_reason (pa_quality a), r]\<rparr>)
       (speed_reason (pa_speed a))"

section \<open>Comparisons\<close>

datatype measured_rule = BY_QUALITY | BY_FASTEST | BY_BALANCED

fun policy_of :: "recommendation_priority \<Rightarrow> measured_rule option" where
  "policy_of QUALITY = Some BY_QUALITY"
| "policy_of SPEED = Some BY_FASTEST"
| "policy_of BALANCED = Some BY_BALANCED"
| "policy_of MEMORY = None"

definition cohort_of :: "measured_rule \<Rightarrow> plan_figures \<Rightarrow> string list option" where
  "cohort_of policy e =
     (if policy = BY_QUALITY then map_option (\<lambda>q. [mf_cohort q]) (pf_quality e)
      else
        (case pf_speed e of
           None \<Rightarrow> None
         | Some s \<Rightarrow>
             if \<not> mf_comparison_ready s then None
             else if policy = BY_FASTEST then Some [mf_cohort s]
             else map_option (\<lambda>q. [mf_cohort q, mf_cohort s]) (pf_quality e)))"

definition figure_bounds :: "measured_figure \<Rightarrow> py_float \<times> py_float" where
  "figure_bounds m = (opt_default (mf_minimum m) (mf_value m), opt_default (mf_maximum m) (mf_value m))"

text \<open>\<open>1\<close> or \<open>-1\<close> only for disjoint intervals.\<close>

definition compare_figures :: "measured_figure \<Rightarrow> measured_figure \<Rightarrow> int" where
  "compare_figures a b =
     (case (figure_bounds a, figure_bounds b) of
        ((a_low, a_high), (b_low, b_high)) \<Rightarrow>
          if float_less b_high a_low then 1 else if float_less a_high b_low then - 1 else 0)"

text \<open>
  Two missing figures never meet: the members of a group have the figures its cohort was read
  from, so the assertion of the code does not fail.
\<close>

definition compare_optional :: "measured_figure option \<Rightarrow> measured_figure option \<Rightarrow> int" where
  "compare_optional a b =
     (case (a, b) of (Some x, Some y) \<Rightarrow> compare_figures x y | _ \<Rightarrow> 0)"

definition precedes :: "measured_rule \<Rightarrow> plan_figures \<Rightarrow> plan_figures \<Rightarrow> bool" where
  "precedes policy a b \<longleftrightarrow>
     (let speed = compare_optional (pf_speed a) (pf_speed b);
          quality = compare_optional (pf_quality a) (pf_quality b) in
      if policy = BY_FASTEST then 0 < speed
      else 0 \<le> speed \<and> 0 \<le> quality \<and> (0 < speed \<or> 0 < quality))"

section \<open>The order of a group\<close>

text \<open>
  The place filled next from the back: the last remaining plan that precedes no other remaining
  plan, and on a cycle the last one.
\<close>

definition free_places :: "('a \<Rightarrow> 'a \<Rightarrow> bool) \<Rightarrow> 'a list \<Rightarrow> nat list" where
  "free_places before xs =
     filter (\<lambda>i. \<forall>j \<in> set [0..<length xs]. j \<noteq> i \<longrightarrow> \<not> before (xs ! i) (xs ! j)) [0..<length xs]"

definition pick_last :: "('a \<Rightarrow> 'a \<Rightarrow> bool) \<Rightarrow> 'a list \<Rightarrow> 'a" where
  "pick_last before xs =
     (case free_places before xs of [] \<Rightarrow> last xs | is \<Rightarrow> xs ! last is)"

text \<open>The loop; the measure is the number of plans left.\<close>

function fill_from_back :: "('a \<Rightarrow> 'a \<Rightarrow> bool) \<Rightarrow> 'a list \<Rightarrow> 'a list \<Rightarrow> 'a list" where
  "fill_from_back before remaining placed =
     (if remaining = [] then placed
      else
        (let pick = pick_last before remaining in
         fill_from_back before (remove1 pick remaining) (pick # placed)))"
  by pat_completeness auto

lemma pick_last_in:
  assumes "xs \<noteq> []"
  shows "pick_last before xs \<in> set xs"
proof (cases "free_places before xs")
  case (Cons i "is")
  then have "last (free_places before xs) \<in> set (free_places before xs)" by simp
  then have "last (i # is) < length xs" unfolding Cons [symmetric] by (auto simp: free_places_def)
  then show ?thesis by (simp add: pick_last_def Cons)
qed (use assms in \<open>simp add: pick_last_def\<close>)

termination fill_from_back
  by (relation "measure (\<lambda>(before, remaining, placed). length remaining)")
    (auto simp: length_remove1 pick_last_in)

declare fill_from_back.simps [simp del]

definition demonstrable_order :: "('a \<Rightarrow> 'a \<Rightarrow> bool) \<Rightarrow> 'a list \<Rightarrow> 'a list" where
  "demonstrable_order before items = fill_from_back before items []"

definition quality_key :: "plan_figures \<Rightarrow> rat" where
  "quality_key e = (case pf_quality e of Some q \<Rightarrow> - float_rat (mf_value q) | None \<Rightarrow> 0)"

definition order_group ::
  "measured_rule \<Rightarrow> (ranked_plan \<Rightarrow> plan_figures) \<Rightarrow> ranked_plan list \<Rightarrow> ranked_plan list" where
  "order_group policy evidence items =
     (if policy = BY_QUALITY then sort_key (\<lambda>i. quality_key (evidence i)) items
      else demonstrable_order (\<lambda>a b. precedes policy (evidence a) (evidence b)) items)"

section \<open>Strata and groups\<close>

definition stratum :: "bool \<Rightarrow> ranked_plan \<Rightarrow>
    bool \<times> bool \<times> int \<times> assessment_level \<times> assessment_level \<times> assessment_level" where
  "stratum commercial i =
     (let a = rp_assessment i in
      (viable_plan i, rejected a, if commercial then requirement_confirmation_rank i else 0,
       pa_suitability a, pa_license_fit a, pa_language_fit a))"

text \<open>The runs of one stratum, and the groups: the places of one run with one cohort.\<close>

fun run_numbers :: "bool \<Rightarrow> nat \<Rightarrow> ranked_plan list \<Rightarrow> nat list" where
  "run_numbers commercial run [] = []"
| "run_numbers commercial run [i] = [run]"
| "run_numbers commercial run (i # j # is) =
     run # run_numbers commercial (if stratum commercial j = stratum commercial i then run else Suc run) (j # is)"

definition group_key ::
  "measured_rule \<Rightarrow> (ranked_plan \<Rightarrow> plan_figures) \<Rightarrow> ranked_plan \<times> nat \<Rightarrow> (nat \<times> string list) option" where
  "group_key policy evidence ir =
     (if rejected (rp_assessment (fst ir)) then None
      else map_option (\<lambda>c. (snd ir, c)) (cohort_of policy (evidence (fst ir))))"

definition member_keys ::
  "measured_rule \<Rightarrow> bool \<Rightarrow> (ranked_plan \<Rightarrow> plan_figures) \<Rightarrow> ranked_plan list \<Rightarrow> (nat \<times> string list) option list" where
  "member_keys policy commercial evidence ranked =
     map (group_key policy evidence) (zip ranked (run_numbers commercial 0 ranked))"

definition group_slots :: "'k option list \<Rightarrow> ('k, nat list) dict" where
  "group_slots keys =
     foldl (\<lambda>d (n, k). case k of None \<Rightarrow> d | Some g \<Rightarrow> setdefault_append d g n) [] (enumerate 0 keys)"

text \<open>A group of at least two members reorders its own places.\<close>

fun put_at :: "'a list \<Rightarrow> nat list \<Rightarrow> 'a list \<Rightarrow> 'a list" where
  "put_at order (n # ns) (x # xs) = put_at (order[n := x]) ns xs"
| "put_at order _ _ = order"

definition measured_groups ::
  "measured_rule \<Rightarrow> bool \<Rightarrow> (ranked_plan \<Rightarrow> plan_figures) \<Rightarrow> ranked_plan list \<Rightarrow>
   ((nat \<times> string list) \<times> nat list) list" where
  "measured_groups policy commercial evidence ranked =
     filter (\<lambda>(k, ns). 2 \<le> length ns) (group_slots (member_keys policy commercial evidence ranked))"

definition reorder_groups ::
  "measured_rule \<Rightarrow> bool \<Rightarrow> (ranked_plan \<Rightarrow> plan_figures) \<Rightarrow> ranked_plan list \<Rightarrow> ranked_plan list" where
  "reorder_groups policy commercial evidence ranked =
     foldl (\<lambda>order (k, ns). put_at order ns (order_group policy evidence (map ((!) ranked) ns))) ranked
       (measured_groups policy commercial evidence ranked)"

definition shadow_order ::
  "recommendation_priority \<Rightarrow> bool \<Rightarrow> (ranked_plan \<Rightarrow> plan_figures) \<Rightarrow> ranked_plan list \<Rightarrow> ranked_plan list" where
  "shadow_order priority commercial evidence ranked =
     (case policy_of priority of
        None \<Rightarrow> ranked | Some policy \<Rightarrow> reorder_groups policy commercial evidence ranked)"

text \<open>The active order; it raises when the evidence of a plan that is not rejected does.\<close>

definition evidence_or_blank :: "ranked_plan \<Rightarrow> plan_figures" where
  "evidence_or_blank i = opt_default (production_evidence (rp_assessment i)) blank_figures"

definition evidence_raises :: "ranked_plan \<Rightarrow> bool" where
  "evidence_raises i \<longleftrightarrow> \<not> rejected (rp_assessment i) \<and> production_evidence (rp_assessment i) = None"

definition commercial_request :: "user_requirements \<Rightarrow> bool" where
  "commercial_request req \<longleftrightarrow> ur_commercial_use_required req = Some True"

definition apply_measured_policy ::
  "ranked_plan list \<Rightarrow> user_requirements \<Rightarrow> ranked_plan list option" where
  "apply_measured_policy ranked req =
     (if policy_of (ur_priority req) = None then Some ranked
      else if \<exists>i \<in> set ranked. evidence_raises i then None
      else Some (shadow_order (ur_priority req) (commercial_request req) evidence_or_blank ranked))"

definition apply_active_policy ::
  "ranked_plan list \<Rightarrow> user_requirements \<Rightarrow> ranked_plan list option" where
  "apply_active_policy ranked req = apply_measured_policy (weak_plans_last ranked (ur_priority req)) req"

section \<open>The loop places every plan and honours what can be honoured\<close>

lemma fill_from_back_step:
  "remaining \<noteq> [] \<Longrightarrow> fill_from_back before remaining placed =
     fill_from_back before (remove1 (pick_last before remaining) remaining) (pick_last before remaining # placed)"
  by (subst fill_from_back.simps) (simp add: Let_def)

lemma fill_from_back_done [simp]: "fill_from_back before [] placed = placed"
  by (subst fill_from_back.simps) simp

lemma mset_fill_from_back: "mset (fill_from_back before remaining placed) = mset remaining + mset placed"
proof (induction "length remaining" arbitrary: remaining placed)
  case (Suc n)
  then have r: "remaining \<noteq> []" by auto
  note p = pick_last_in [OF r, of before]
  have "n = length (remove1 (pick_last before remaining) remaining)"
    using Suc.hyps(2) p by (simp add: length_remove1)
  from Suc.hyps(1) [OF this] p show ?case by (simp add: fill_from_back_step [OF r])
qed simp

text \<open>Some member of every non-empty part precedes no member of it: there is no cycle.\<close>

definition well_founded_before :: "('a \<Rightarrow> 'a \<Rightarrow> bool) \<Rightarrow> 'a set \<Rightarrow> bool" where
  "well_founded_before before A \<longleftrightarrow>
     (\<forall>S. S \<subseteq> A \<and> S \<noteq> {} \<longrightarrow> (\<exists>x \<in> S. \<forall>y \<in> S. \<not> before x y))"

lemma pick_last_free:
  assumes "well_founded_before before (set xs)" "xs \<noteq> []" "y \<in> set (remove1 (pick_last before xs) xs)"
  shows "\<not> before (pick_last before xs) y"
proof -
  obtain x where x: "x \<in> set xs" "\<forall>y \<in> set xs. \<not> before x y"
    using assms(1,2) unfolding well_founded_before_def by (metis set_empty subset_refl)
  then obtain k where "k < length xs" "xs ! k = x" by (auto simp: in_set_conv_nth)
  with x have "k \<in> set (free_places before xs)" by (auto simp: free_places_def)
  then obtain i where i: "i = last (free_places before xs)" "i \<in> set (free_places before xs)"
      "pick_last before xs = xs ! i"
    by (cases "free_places before xs") (auto simp: pick_last_def)
  have self: "\<not> before z z" if "z \<in> set xs" for z
    using assms(1) that unfolding well_founded_before_def by (metis empty_not_insert empty_subsetI insert_subset singletonD singletonI)
  have "y \<in> set xs" using assms(3) notin_set_remove1 by metis
  then obtain j where j: "j < length xs" "xs ! j = y" by (auto simp: in_set_conv_nth)
  show ?thesis
  proof (cases "j = i")
    case True
    then show ?thesis using self [OF \<open>y \<in> set xs\<close>] j i(3) by simp
  next
    case False
    then show ?thesis using i(2,3) j by (auto simp: free_places_def)
  qed
qed

lemma fill_from_back_honours:
  assumes "well_founded_before before (set remaining)"
    and "sorted_wrt (\<lambda>a b. \<not> before b a) placed"
    and "\<forall>b \<in> set placed. \<forall>a \<in> set remaining. \<not> before b a"
  shows "sorted_wrt (\<lambda>a b. \<not> before b a) (fill_from_back before remaining placed)"
  using assms
proof (induction "length remaining" arbitrary: remaining placed)
  case (Suc n)
  then have r: "remaining \<noteq> []" by auto
  let ?p = "pick_last before remaining"
  note p = pick_last_in [OF r, of before]
  have sub: "set (remove1 ?p remaining) \<subseteq> set remaining" by (rule set_remove1_subset)
  have "n = length (remove1 ?p remaining)" using Suc.hyps(2) p by (simp add: length_remove1)
  moreover have "well_founded_before before (set (remove1 ?p remaining))"
    using Suc.prems(1) sub unfolding well_founded_before_def by (meson subset_trans)
  moreover have "sorted_wrt (\<lambda>a b. \<not> before b a) (?p # placed)" using Suc.prems(2,3) p by simp
  moreover have "\<forall>b \<in> set (?p # placed). \<forall>a \<in> set (remove1 ?p remaining). \<not> before b a"
    using Suc.prems(3) sub pick_last_free [OF Suc.prems(1) r] by auto
  ultimately show ?case unfolding fill_from_back_step [OF r] by (rule Suc.hyps(1))
qed simp

lemma fill_from_back_idle:
  assumes "\<forall>a \<in> set remaining. \<forall>b \<in> set remaining. \<not> before a b" "distinct remaining"
  shows "fill_from_back before remaining placed = remaining @ placed"
  using assms
proof (induction remaining arbitrary: placed rule: rev_induct)
  case (snoc x xs)
  let ?xs = "xs @ [x]"
  have "free_places before ?xs = [0..<length ?xs]"
    using snoc.prems(1) unfolding free_places_def by (intro filter_True) (metis atLeastLessThan_iff nth_mem set_upt)
  then have "free_places before ?xs \<noteq> []" "last (free_places before ?xs) = length xs" by simp_all
  then have pick: "pick_last before ?xs = x"
    by (cases "free_places before ?xs") (simp_all add: pick_last_def)
  have "fill_from_back before ?xs placed = fill_from_back before (remove1 x ?xs) (x # placed)"
    using fill_from_back_step [of ?xs before placed] pick by simp
  also have "remove1 x ?xs = xs" using snoc.prems(2) by (simp add: remove1_append)
  also have "fill_from_back before xs (x # placed) = ?xs @ placed"
    using snoc.IH [of "x # placed"] snoc.prems by simp
  finally show ?case .
qed simp

text \<open>
  C29. The measured loop ends with every plan placed.  Whatever the relation, cyclic or not, the
  loop returns each plan exactly once; if the relation has no cycle among the plans, no plan is
  placed behind one that it demonstrably precedes; and if nothing is demonstrable among distinct
  plans, their base order is kept.
\<close>

theorem demonstrable_order_complete:
  "mset (demonstrable_order before items) = mset items \<and>
   (well_founded_before before (set items) \<longrightarrow>
     sorted_wrt (\<lambda>a b. \<not> before b a) (demonstrable_order before items)) \<and>
   (distinct items \<and> (\<forall>a \<in> set items. \<forall>b \<in> set items. \<not> before a b) \<longrightarrow>
     demonstrable_order before items = items)"
  unfolding demonstrable_order_def
  using mset_fill_from_back [of before items "[]"] fill_from_back_honours [of before items "[]"]
    fill_from_back_idle [of items before "[]"] by auto

theorem demonstrable_order_complete_witness:
  "sorted_wrt (\<lambda>a b. \<not> b < a) (demonstrable_order (<) [3, 1, 2 :: int])"
proof -
  have "well_founded_before (<) (set [3, 1, 2 :: int])"
    unfolding well_founded_before_def
  proof (intro allI impI)
    fix S :: "int set" assume "S \<subseteq> set [3, 1, 2] \<and> S \<noteq> {}"
    moreover from this have "finite S" by (meson finite_set finite_subset)
    ultimately have "Max S \<in> S" "\<forall>y \<in> S. \<not> Max S < y" by (auto simp: not_less)
    then show "\<exists>x \<in> S. \<forall>y \<in> S. \<not> x < y" by blast
  qed
  then show ?thesis using demonstrable_order_complete [of "(<)" "[3, 1, 2 :: int]"] by blast
qed

section \<open>Only the places of a group change\<close>

lemma put_at_simps [simp]: "put_at order [] xs = order" "put_at order ns [] = order"
  by (cases ns; simp)+

lemma length_put_at [simp]: "length (put_at order ns xs) = length order"
  by (induction order ns xs rule: put_at.induct) auto

lemma put_at_other: "m \<notin> set ns \<Longrightarrow> put_at order ns xs ! m = order ! m"
  by (induction order ns xs rule: put_at.induct) auto

lemma put_at_own:
  assumes "distinct ns" "length xs = length ns" "\<forall>n \<in> set ns. n < length order" "k < length ns"
  shows "put_at order ns xs ! (ns ! k) = xs ! k"
  using assms
proof (induction order ns xs arbitrary: k rule: put_at.induct)
  case (1 order n ns x xs)
  then show ?case by (cases k) (auto simp: put_at_other)
qed auto

lemma mset_put_at:
  assumes "distinct ns" "\<forall>n \<in> set ns. n < length order" "mset xs = mset (map ((!) order) ns)"
  shows "mset (put_at order ns xs) = mset order"
proof -
  have len: "length xs = length ns" using assms(3) by (metis length_map size_mset)
  let ?r = "put_at order ns xs" and ?rest = "filter (\<lambda>m. m \<notin> set ns) [0..<length order]"
  have perm: "mset ns + mset ?rest = mset [0..<length order]"
  proof -
    have "mset ns = mset (filter (\<lambda>m. m \<in> set ns) [0..<length order])"
      using assms(1,2) by (intro set_eq_iff_mset_eq_distinct [THEN iffD1]) auto
    then show ?thesis by (metis mset_filter multiset_partition)
  qed
  have split: "mset ys = mset (map ((!) ys) ns) + mset (map ((!) ys) ?rest)" if "length ys = length order" for ys
  proof -
    have "mset ys = mset (map ((!) ys) [0..<length order])" using that by (metis map_nth)
    also have "\<dots> = image_mset ((!) ys) (mset ns + mset ?rest)" by (simp only: perm mset_map)
    finally show ?thesis by simp
  qed
  have own: "map ((!) ?r) ns = xs"
    by (rule nth_equalityI) (use put_at_own [OF assms(1) len assms(2)] len in auto)
  have rest: "map ((!) ?r) ?rest = map ((!) order) ?rest"
    using put_at_other [of _ ns order xs] by simp
  show ?thesis
    using split [of ?r] split [of order] assms(3) by (simp only: own rest length_put_at)
qed

text \<open>The groups as lists of places: the places that carry the key.\<close>

definition places_of :: "'k option list \<Rightarrow> 'k \<Rightarrow> nat list" where
  "places_of keys g = filter (\<lambda>n. keys ! n = Some g) [0..<length keys]"

lemma places_of_snoc: "places_of (keys @ [k]) g = places_of keys g @ (if k = Some g then [length keys] else [])"
  by (auto simp: places_of_def nth_append intro!: filter_cong)

lemma places_of_none: "Some g \<notin> set keys \<Longrightarrow> places_of keys g = []"
  by (auto simp: places_of_def filter_empty_conv in_set_conv_nth)

lemma group_slots_snoc:
  "group_slots (keys @ [k]) =
     (case k of None \<Rightarrow> group_slots keys | Some g \<Rightarrow> setdefault_append (group_slots keys) g (length keys))"
  unfolding group_slots_def by (cases k) (simp_all add: enumerate_append_eq)

lemma group_slots_get:
  "distinct (map fst (group_slots keys)) \<and>
   dict_get (group_slots keys) g = (if Some g \<in> set keys then Some (places_of keys g) else None)"
proof (induction keys arbitrary: g rule: rev_induct)
  case (snoc k keys)
  then show ?case
    by (cases k) (auto simp: group_slots_snoc setdefault_append_def dict_get_set distinct_dict_set
        places_of_snoc places_of_none)
qed (simp add: group_slots_def dict_get_empty)

lemma group_slots_entries:
  "(g, ns) \<in> set (group_slots keys) \<longleftrightarrow> Some g \<in> set keys \<and> ns = places_of keys g"
  using group_slots_get [of keys g] by (auto simp: dict_get_def map_of_eq_Some_iff split: if_splits)

lemma places_of_wf: "distinct (places_of keys g)" "n \<in> set (places_of keys g) \<longleftrightarrow> n < length keys \<and> keys ! n = Some g"
  by (auto simp: places_of_def)

text \<open>
  What one pass over groups with different keys does, when each group only permutes the items of
  its places.
\<close>

lemma reorder_places:
  assumes "distinct (map fst gs)" "\<forall>(g, ns) \<in> set gs. ns = places_of keys g"
    and "length keys = length order"
    and "\<forall>(g, ns) \<in> set gs. \<forall>n \<in> set ns. order ! n = base ! n"
    and "\<forall>(g, ns) \<in> set gs. mset (sort_of g ns) = mset (map ((!) base) ns)"
  defines "r \<equiv> foldl (\<lambda>order (g, ns). put_at order ns (sort_of g ns)) order gs"
  shows "length r = length order \<and> mset r = mset order \<and>
    (\<forall>(g, ns) \<in> set gs. map ((!) r) ns = sort_of g ns) \<and>
    (\<forall>m. keys ! m \<notin> Some ` fst ` set gs \<longrightarrow> m < length keys \<longrightarrow> r ! m = order ! m)"
  using assms(1-5) unfolding r_def
proof (induction gs arbitrary: order)
  case (Cons gn gs)
  obtain g ns where gn: "gn = (g, ns)" by (cases gn)
  let ?o = "put_at order ns (sort_of g ns)"
  have ns: "ns = places_of keys g" "\<forall>n \<in> set ns. n < length order" "distinct ns"
    using Cons.prems(2,3) by (auto simp: gn places_of_wf)
  have perm: "mset (sort_of g ns) = mset (map ((!) order) ns)"
  proof -
    have "map ((!) order) ns = map ((!) base) ns" using Cons.prems(4) by (simp add: gn)
    moreover have "mset (sort_of g ns) = mset (map ((!) base) ns)" using Cons.prems(5) by (auto simp: gn)
    ultimately show ?thesis by (simp only:)
  qed
  have apart: "n \<notin> set ns" if "(g', ns') \<in> set gs" "n \<in> set ns'" for g' ns' n
  proof -
    have "ns' = places_of keys g'" "g' \<noteq> g" using Cons.prems(1,2) that(1) by (force simp: gn)+
    then show ?thesis using that(2) by (auto simp: ns(1) places_of_wf)
  qed
  have "\<forall>(g, ns) \<in> set gs. \<forall>n \<in> set ns. ?o ! n = base ! n"
    using Cons.prems(4) apart by (auto simp: gn put_at_other)
  from Cons.IH [of ?o, OF _ _ _ this] Cons.prems
  have IH: "length (foldl (\<lambda>order (g, ns). put_at order ns (sort_of g ns)) ?o gs) = length ?o"
    "mset (foldl (\<lambda>order (g, ns). put_at order ns (sort_of g ns)) ?o gs) = mset ?o"
    "\<forall>(g', ns') \<in> set gs. map ((!) (foldl (\<lambda>order (g, ns). put_at order ns (sort_of g ns)) ?o gs)) ns' = sort_of g' ns'"
    "\<And>m. keys ! m \<notin> Some ` fst ` set gs \<Longrightarrow> m < length keys \<Longrightarrow>
      foldl (\<lambda>order (g, ns). put_at order ns (sort_of g ns)) ?o gs ! m = ?o ! m"
    by (auto simp: gn)
  have len: "length (sort_of g ns) = length ns" using perm by (metis length_map size_mset)
  have own: "map ((!) (foldl (\<lambda>order (g, ns). put_at order ns (sort_of g ns)) ?o gs)) ns = sort_of g ns"
  proof (rule nth_equalityI)
    fix k assume "k < length (map ((!) (foldl (\<lambda>order (g, ns). put_at order ns (sort_of g ns)) ?o gs)) ns)"
    then have k: "k < length ns" "ns ! k \<in> set ns" by auto
    then have "keys ! (ns ! k) = Some g" "ns ! k < length keys" by (auto simp: ns(1) places_of_wf)
    moreover from this have "keys ! (ns ! k) \<notin> Some ` fst ` set gs"
      using Cons.prems(1) by (force simp: gn)
    ultimately show "map ((!) (foldl (\<lambda>order (g, ns). put_at order ns (sort_of g ns)) ?o gs)) ns ! k = sort_of g ns ! k"
      using IH(4) put_at_own [OF ns(3) len ns(2) k(1)] k(1) by simp
  qed (simp add: len)
  have "?o ! m = order ! m" if "keys ! m \<noteq> Some g" for m
    using that by (intro put_at_other) (simp add: ns(1) places_of_wf)
  then show ?case
    using IH own mset_put_at [OF ns(3,2) perm] by (auto simp: gn)
qed simp

section \<open>Runs of one stratum\<close>

lemma length_run_numbers [simp]: "length (run_numbers commercial run is) = length is"
  by (induction commercial run "is" rule: run_numbers.induct) auto

lemma run_numbers_first:
  "m < length is \<Longrightarrow>
     run \<le> run_numbers commercial run is ! m \<and>
     (run_numbers commercial run is ! m = run \<longrightarrow> stratum commercial (is ! m) = stratum commercial (hd is))"
proof (induction commercial run "is" arbitrary: m rule: run_numbers.induct)
  case (3 commercial run i j "is")
  show ?case
  proof (cases m)
    case (Suc k)
    then have "k < length (j # is)" using "3.prems" by simp
    from "3.IH" [OF this] Suc show ?thesis by (auto split: if_splits)
  qed simp
qed auto

lemma same_run_same_stratum:
  assumes "n < length is" "m < length is"
    and "run_numbers commercial run is ! n = run_numbers commercial run is ! m"
  shows "stratum commercial (is ! n) = stratum commercial (is ! m)"
proof -
  have "stratum commercial (is ! n) = stratum commercial (is ! m)"
    if "n \<le> m" "m < length is" "run_numbers commercial run is ! n = run_numbers commercial run is ! m" for n m run "is"
    using that
  proof (induction commercial run "is" arbitrary: n m rule: run_numbers.induct)
    case (3 commercial run i j "is")
    show ?case
    proof (cases n)
      case 0
      then show ?thesis using "3.prems" run_numbers_first [OF "3.prems"(2), of run commercial] by simp
    next
      case (Suc n')
      then obtain m' where "m = Suc m'" using "3.prems"(1) by (cases m) auto
      with Suc show ?thesis using "3.prems" "3.IH" [of n' m'] by simp
    qed
  qed auto
  then show ?thesis using assms by (metis nat_le_linear)
qed

lemma run_numbers_cong:
  "map (stratum commercial) is = map (stratum commercial) js \<Longrightarrow>
     run_numbers commercial run is = run_numbers commercial run js"
proof (induction commercial run "is" arbitrary: js rule: run_numbers.induct)
  case (2 commercial run i)
  then show ?case by (cases js) auto
next
  case (3 commercial run i j "is")
  then obtain i' j' js' where "js = i' # j' # js'"
    by (cases js; cases "tl js") auto
  with 3 show ?case by auto
qed auto

section \<open>What the policy may change\<close>

lemma mset_order_group: "mset (order_group policy evidence items) = mset items"
  by (simp add: order_group_def demonstrable_order_def mset_fill_from_back)

lemma member_keys_nth:
  "n < length ranked \<Longrightarrow> member_keys policy commercial evidence ranked ! n =
     group_key policy evidence (ranked ! n, run_numbers commercial 0 ranked ! n)"
  by (simp add: member_keys_def)

lemma length_member_keys [simp]: "length (member_keys policy commercial evidence ranked) = length ranked"
  by (simp add: member_keys_def)

lemma group_key_Some:
  "group_key policy evidence (i, run) = Some (r, c) \<longleftrightarrow>
     \<not> rejected (rp_assessment i) \<and> cohort_of policy (evidence i) = Some c \<and> r = run"
  by (auto simp: group_key_def)

text \<open>The measured groups are the groups of several places.\<close>

lemma measured_groups_entries:
  "distinct (map fst (measured_groups policy commercial evidence ranked)) \<and>
   (\<forall>(g, ns) \<in> set (measured_groups policy commercial evidence ranked).
     ns = places_of (member_keys policy commercial evidence ranked) g) \<and>
   ((g, ns) \<in> set (measured_groups policy commercial evidence ranked) \<longleftrightarrow>
     2 \<le> length ns \<and> ns = places_of (member_keys policy commercial evidence ranked) g)"
proof -
  let ?keys = "member_keys policy commercial evidence ranked"
  have "distinct (map fst (measured_groups policy commercial evidence ranked))"
    unfolding measured_groups_def using group_slots_get [of ?keys] by (simp add: distinct_map_filter)
  moreover have "Some g \<in> set ?keys" if "2 \<le> length (places_of ?keys g)" for g
    using that places_of_none [of g ?keys] by (cases "Some g \<in> set ?keys") auto
  ultimately show ?thesis
    unfolding measured_groups_def by (cases g) (auto simp: group_slots_entries)
qed

abbreviation group_sort ::
  "measured_rule \<Rightarrow> (ranked_plan \<Rightarrow> plan_figures) \<Rightarrow> ranked_plan list \<Rightarrow> (nat \<times> string list) \<Rightarrow> nat list \<Rightarrow> ranked_plan list" where
  "group_sort policy evidence ranked g ns \<equiv> order_group policy evidence (map ((!) ranked) ns)"

lemma reorder_groups_places:
  "length (reorder_groups policy commercial evidence ranked) = length ranked \<and>
   mset (reorder_groups policy commercial evidence ranked) = mset ranked \<and>
   (\<forall>(g, ns) \<in> set (measured_groups policy commercial evidence ranked).
     map ((!) (reorder_groups policy commercial evidence ranked)) ns = order_group policy evidence (map ((!) ranked) ns)) \<and>
   (\<forall>m < length ranked.
     member_keys policy commercial evidence ranked ! m \<notin> Some ` fst ` set (measured_groups policy commercial evidence ranked) \<longrightarrow>
     reorder_groups policy commercial evidence ranked ! m = ranked ! m)"
proof -
  let ?keys = "member_keys policy commercial evidence ranked"
    and ?gs = "measured_groups policy commercial evidence ranked"
  have gs: "distinct (map fst ?gs)" "\<forall>(g, ns) \<in> set ?gs. ns = places_of ?keys g"
    using measured_groups_entries by blast+
  have "\<forall>(g, ns) \<in> set ?gs. \<forall>n \<in> set ns. ranked ! n = ranked ! n"
    and "\<forall>(g, ns) \<in> set ?gs. mset (order_group policy evidence (map ((!) ranked) ns)) = mset (map ((!) ranked) ns)"
    by (simp_all add: mset_order_group case_prod_unfold del: mset_map)
  from reorder_places [OF gs length_member_keys this]
  show ?thesis unfolding reorder_groups_def by simp
qed

text \<open>An item of the new order stood at a place with the same key, or did not move.\<close>

lemma reordered_item:
  assumes "m < length ranked"
  shows "\<exists>n < length ranked. reorder_groups policy commercial evidence ranked ! m = ranked ! n \<and>
    (n = m \<or> (\<exists>g. member_keys policy commercial evidence ranked ! n = Some g \<and>
                 member_keys policy commercial evidence ranked ! m = Some g))"
proof -
  let ?keys = "member_keys policy commercial evidence ranked"
    and ?gs = "measured_groups policy commercial evidence ranked"
    and ?r = "reorder_groups policy commercial evidence ranked"
  note places = reorder_groups_places [of policy commercial evidence ranked]
  show ?thesis
  proof (cases "?keys ! m \<in> Some ` fst ` set ?gs")
    case False
    then show ?thesis using places assms by blast
  next
    case True
    then obtain g ns where g: "?keys ! m = Some g" "(g, ns) \<in> set ?gs" by auto
    then have ns: "ns = places_of ?keys g" using measured_groups_entries by fast
    then have "m \<in> set ns" using g(1) assms by (simp add: places_of_wf)
    then have "?r ! m \<in> set (map ((!) ?r) ns)" by simp
    moreover have "map ((!) ?r) ns = order_group policy evidence (map ((!) ranked) ns)"
      using places g(2) by blast
    ultimately have "?r ! m \<in> set (order_group policy evidence (map ((!) ranked) ns))" by simp
    also have "\<dots> = set (map ((!) ranked) ns)"
      using mset_order_group [of policy evidence "map ((!) ranked) ns"] by (metis set_mset_mset)
    finally obtain n where "n \<in> set ns" "?r ! m = ranked ! n" by auto
    then show ?thesis using g(1) by (auto simp: ns places_of_wf)
  qed
qed

lemma member_key_stratum:
  assumes "n < length ranked" "m < length ranked"
    and "member_keys policy commercial evidence ranked ! n = Some g"
    and "member_keys policy commercial evidence ranked ! m = Some g"
  shows "run_numbers commercial 0 ranked ! n = run_numbers commercial 0 ranked ! m"
    and "stratum commercial (ranked ! n) = stratum commercial (ranked ! m)"
proof -
  show "run_numbers commercial 0 ranked ! n = run_numbers commercial 0 ranked ! m"
    using assms by (cases g) (auto simp: member_keys_nth group_key_Some)
  then show "stratum commercial (ranked ! n) = stratum commercial (ranked ! m)"
    by (rule same_run_same_stratum [OF assms(1,2)])
qed

lemma reordered_strata:
  "map (stratum commercial) (reorder_groups policy commercial evidence ranked) = map (stratum commercial) ranked"
proof (rule nth_equalityI)
  fix m assume "m < length (map (stratum commercial) (reorder_groups policy commercial evidence ranked))"
  then have m: "m < length ranked" "m < length (reorder_groups policy commercial evidence ranked)"
    using reorder_groups_places [of policy commercial evidence ranked] by auto
  from reordered_item [OF m(1), of policy commercial evidence] member_key_stratum(2) m
  show "map (stratum commercial) (reorder_groups policy commercial evidence ranked) ! m =
      map (stratum commercial) ranked ! m"
    by (metis nth_map)
qed (use reorder_groups_places in auto)

lemma reordered_keys:
  "member_keys policy commercial evidence (reorder_groups policy commercial evidence ranked) =
     member_keys policy commercial evidence ranked"
proof (rule nth_equalityI)
  let ?r = "reorder_groups policy commercial evidence ranked"
  have len: "length ?r = length ranked" using reorder_groups_places by blast
  then show "length (member_keys policy commercial evidence ?r) = length (member_keys policy commercial evidence ranked)"
    by simp
  have runs: "run_numbers commercial 0 ?r = run_numbers commercial 0 ranked"
    by (rule run_numbers_cong) (rule reordered_strata)
  fix m assume "m < length (member_keys policy commercial evidence ?r)"
  then have m: "m < length ranked" "m < length ?r" using len by auto
  obtain n where n: "n < length ranked" "?r ! m = ranked ! n"
      "n = m \<or> (\<exists>g. member_keys policy commercial evidence ranked ! n = Some g \<and>
                 member_keys policy commercial evidence ranked ! m = Some g)"
    using reordered_item [OF m(1)] by blast
  have "member_keys policy commercial evidence ?r ! m =
      group_key policy evidence (ranked ! n, run_numbers commercial 0 ranked ! m)"
    using m(2) by (simp add: member_keys_nth runs n(2))
  also have "\<dots> = member_keys policy commercial evidence ranked ! m"
    using n(3)
  proof
    assume "\<exists>g. member_keys policy commercial evidence ranked ! n = Some g \<and>
        member_keys policy commercial evidence ranked ! m = Some g"
    then obtain g where g: "member_keys policy commercial evidence ranked ! n = Some g"
        "member_keys policy commercial evidence ranked ! m = Some g" by blast
    then show ?thesis
      using member_key_stratum(1) [OF n(1) m(1) g] n(1) m(1) by (simp add: member_keys_nth)
  qed (use m in \<open>simp add: member_keys_nth\<close>)
  finally show "member_keys policy commercial evidence ?r ! m = member_keys policy commercial evidence ranked ! m" .
qed

lemma shadow_order_confined:
  "mset (shadow_order priority commercial evidence ranked) = mset ranked \<and>
   map (stratum commercial) (shadow_order priority commercial evidence ranked) = map (stratum commercial) ranked"
  using reorder_groups_places [of _ commercial evidence ranked] reordered_strata
  by (cases "policy_of priority") (auto simp: shadow_order_def)

lemma shadow_order_keeps:
  assumes "m < length ranked"
    and "rejected (rp_assessment (ranked ! m)) \<or>
      (\<forall>policy. policy_of priority = Some policy \<longrightarrow> cohort_of policy (evidence (ranked ! m)) = None)"
  shows "shadow_order priority commercial evidence ranked ! m = ranked ! m"
proof (cases "policy_of priority")
  case (Some policy)
  then have "member_keys policy commercial evidence ranked ! m = None"
    using assms by (auto simp: member_keys_nth group_key_def)
  then show ?thesis
    using reordered_item [OF assms(1), of policy commercial evidence] Some by (auto simp: shadow_order_def)
qed (simp add: shadow_order_def)

text \<open>
  C30. Measurements stay inside their stratum.  The measured policy only permutes the plans; the
  stratum read from the top of the list to its end (confirmed placement, rejection, commercial
  confirmation, suitability, licence and language) is the same before and after; and a plan that
  is rejected or has no figure for the requested priority keeps its place.
\<close>

theorem measured_policy_confined:
  assumes "apply_measured_policy ranked req = Some order"
  shows "mset order = mset ranked \<and>
    map (stratum (commercial_request req)) order = map (stratum (commercial_request req)) ranked \<and>
    (\<forall>m < length ranked.
      rejected (rp_assessment (ranked ! m)) \<or>
      (\<forall>policy. policy_of (ur_priority req) = Some policy \<longrightarrow>
        cohort_of policy (evidence_or_blank (ranked ! m)) = None) \<longrightarrow>
      order ! m = ranked ! m)"
proof -
  have "order = shadow_order (ur_priority req) (commercial_request req) evidence_or_blank ranked"
    using assms by (auto simp: apply_measured_policy_def shadow_order_def split: if_splits)
  then show ?thesis using shadow_order_confined shadow_order_keeps by blast
qed

section \<open>Disjoint ranges decide the fastest order\<close>

lemma ready_range:
  assumes "ranking_ready a"
  obtains lo hi where "as_observed_min a = Some lo" "as_observed_max a = Some hi" "float_value lo \<le> float_value hi"
proof -
  obtain lo hi where "as_observed_min a = Some lo" "as_observed_max a = Some hi"
      "float_le lo (as_tokens_per_second a)" "float_le (as_tokens_per_second a) hi"
    using assms by (auto simp: ranking_ready_def split: option.splits)
  then show thesis by (intro that [of lo hi]) (auto simp: float_le_iff)
qed

text \<open>The figures whose range can order a plan.\<close>

definition range_figure :: "measured_figure \<Rightarrow> bool" where
  "range_figure s \<longleftrightarrow> float_value (fst (figure_bounds s)) \<le> float_value (snd (figure_bounds s))"

lemma ready_speed_figure:
  assumes "pf_speed (evidence_or_blank i) = Some s" "mf_comparison_ready s"
  shows "range_figure s"
proof -
  obtain a where a: "s = speed_figure a" "ranking_ready a"
    using assms by (auto simp: evidence_or_blank_def production_evidence_def blank_figures_def
        opt_default_def speed_figure_def split: option.splits)
  obtain lo hi where "as_observed_min a = Some lo" "as_observed_max a = Some hi" "float_value lo \<le> float_value hi"
    by (rule ready_range [OF a(2)])
  then show ?thesis by (simp add: a(1) range_figure_def figure_bounds_def speed_figure_def)
qed

lemma fastest_well_founded:
  assumes "finite A" "\<forall>x \<in> A. \<exists>s. pf_speed (evidence x) = Some s \<and> range_figure s"
  shows "well_founded_before (\<lambda>a b. precedes BY_FASTEST (evidence a) (evidence b)) A"
  unfolding well_founded_before_def
proof (intro allI impI)
  fix S assume S: "S \<subseteq> A \<and> S \<noteq> {}"
  let ?low = "\<lambda>x. float_value (fst (figure_bounds (the (pf_speed (evidence x)))))"
  have "finite S" using S assms(1) finite_subset by blast
  then have "Min (?low ` S) \<in> ?low ` S" using S by (intro Min_in) auto
  then obtain x where x: "x \<in> S" "Min (?low ` S) = ?low x" by (rule imageE) simp
  have "\<not> precedes BY_FASTEST (evidence x) (evidence y)" if "y \<in> S" for y
  proof -
    have "?low x \<le> ?low y" unfolding x(2) [symmetric] using that \<open>finite S\<close> by (intro Min_le) auto
    moreover obtain s t where "pf_speed (evidence x) = Some s" "pf_speed (evidence y) = Some t" "range_figure t"
      using S assms(2) x(1) \<open>y \<in> S\<close> by (meson subsetD)
    ultimately show ?thesis
      by (auto simp: precedes_def compare_optional_def compare_figures_def range_figure_def float_less_iff
          split: prod.splits)
  qed
  then show "\<exists>x \<in> S. \<forall>y \<in> S. \<not> precedes BY_FASTEST (evidence x) (evidence y)" using x(1) by blast
qed

lemma adjacent_runs:
  "Suc n < length is \<Longrightarrow> stratum commercial (is ! Suc n) = stratum commercial (is ! n) \<Longrightarrow>
     run_numbers commercial run is ! Suc n = run_numbers commercial run is ! n"
proof (induction commercial run "is" arbitrary: n rule: run_numbers.induct)
  case (3 commercial run i j "is")
  show ?case
  proof (cases n)
    case 0
    then show ?thesis using "3.prems" by (cases "is") auto
  next
    case (Suc k)
    then show ?thesis using "3.prems" "3.IH" [of k] by auto
  qed
qed auto

lemma one_run:
  assumes "n \<le> m" "m < length is" "\<forall>k \<in> {n..m}. stratum commercial (is ! k) = s"
  shows "run_numbers commercial run is ! m = run_numbers commercial run is ! n"
  using assms
proof (induction m rule: dec_induct)
  case (step k)
  then have "run_numbers commercial run is ! Suc k = run_numbers commercial run is ! k"
    by (intro adjacent_runs) simp_all
  moreover have "run_numbers commercial run is ! k = run_numbers commercial run is ! n"
    using step by (intro step.IH) simp_all
  ultimately show ?case by simp
qed simp

lemma group_order_at:
  assumes "n < m" "m < length ranked"
    and "member_keys policy commercial evidence ranked ! n = Some g"
    and "member_keys policy commercial evidence ranked ! m = Some g"
    and "policy \<noteq> BY_QUALITY"
    and "well_founded_before (\<lambda>a b. precedes policy (evidence a) (evidence b))
      {x \<in> set ranked. cohort_of policy (evidence x) = Some (snd g)}"
  shows "\<not> precedes policy (evidence (reorder_groups policy commercial evidence ranked ! m))
    (evidence (reorder_groups policy commercial evidence ranked ! n))"
proof -
  let ?keys = "member_keys policy commercial evidence ranked"
    and ?r = "reorder_groups policy commercial evidence ranked"
    and ?before = "\<lambda>a b. precedes policy (evidence a) (evidence b)"
  define ns where "ns = places_of ?keys g"
  have mem: "n \<in> set ns" "m \<in> set ns" using assms(1-4) by (auto simp: ns_def places_of_wf)
  then have "2 \<le> length ns" using assms(1) by (cases ns; cases "tl ns") auto
  then have "(g, ns) \<in> set (measured_groups policy commercial evidence ranked)"
    using measured_groups_entries unfolding ns_def by blast
  then have "map ((!) ?r) ns = order_group policy evidence (map ((!) ranked) ns)"
    using reorder_groups_places by blast
  then have r: "map ((!) ?r) ns = demonstrable_order ?before (map ((!) ranked) ns)"
    using assms(5) by (simp add: order_group_def)
  have "cohort_of policy (evidence (ranked ! k)) = Some (snd g)" "k < length ranked" if "k \<in> set ns" for k
    using that by (cases g; auto simp: ns_def places_of_wf member_keys_nth group_key_Some)+
  then have "set (map ((!) ranked) ns) \<subseteq> {x \<in> set ranked. cohort_of policy (evidence x) = Some (snd g)}" by auto
  with assms(6) have "well_founded_before ?before (set (map ((!) ranked) ns))"
    unfolding well_founded_before_def by (meson subset_trans)
  then have "sorted_wrt (\<lambda>a b. \<not> ?before b a) (map ((!) ?r) ns)"
    unfolding r demonstrable_order_def by (intro fill_from_back_honours) simp_all
  moreover obtain i j where ij: "i < length ns" "ns ! i = n" "j < length ns" "ns ! j = m"
    using mem by (metis in_set_conv_nth)
  moreover have "i < j"
  proof (rule ccontr)
    assume "\<not> i < j"
    moreover have "sorted ns" unfolding ns_def places_of_def by (rule sorted_filter [of id, simplified]) simp
    ultimately have "m \<le> n" using ij sorted_nth_mono by (metis not_le_imp_less less_imp_le)
    then show False using assms(1) by simp
  qed
  ultimately show ?thesis by (auto simp: sorted_wrt_iff_nth_less)
qed

lemma production_speed:
  assumes "\<not> evidence_raises i" "\<not> rejected (rp_assessment i)"
  shows "pf_speed (evidence_or_blank i) = map_option speed_figure (vs_applicable (pa_speed (rp_assessment i)))"
  using assms by (auto simp: evidence_raises_def evidence_or_blank_def production_evidence_def)

text \<open>
  C31. Faster plans first.  When the fastest plan is asked for, and two plans stand in one
  unbroken run of a stratum, each with enough runs of one comparable speed cohort, then the
  slowest observed speed of the later plan is at most the fastest observed speed of the earlier
  one: no plan is listed behind one that every measurement shows to be slower.
\<close>

theorem fastest_honours_ranges:
  assumes "apply_measured_policy ranked req = Some order" "ur_priority req = SPEED"
    and "n < m" "m < length order"
    and "\<forall>k \<in> {n..m}. stratum (commercial_request req) (order ! k) = s"
    and "\<not> rejected (rp_assessment (order ! n))" "\<not> rejected (rp_assessment (order ! m))"
    and "vs_applicable (pa_speed (rp_assessment (order ! n))) = Some a" "ranking_ready a"
    and "vs_applicable (pa_speed (rp_assessment (order ! m))) = Some b" "ranking_ready b"
    and "as_cohort a = as_cohort b"
  shows "\<exists>slowest fastest. as_observed_min b = Some slowest \<and> as_observed_max a = Some fastest \<and>
    float_value slowest \<le> float_value fastest"
proof -
  let ?c = "commercial_request req" and ?before = "\<lambda>a b. precedes BY_FASTEST (evidence_or_blank a) (evidence_or_blank b)"
  have order: "order = reorder_groups BY_FASTEST ?c evidence_or_blank ranked" "\<forall>i \<in> set ranked. \<not> evidence_raises i"
    using assms(1,2) by (auto simp: apply_measured_policy_def shadow_order_def split: if_splits)
  note places = reorder_groups_places [of BY_FASTEST ?c evidence_or_blank ranked, folded order(1)]
  have len: "length order = length ranked" using places by blast
  have calm: "\<not> evidence_raises i" if "i \<in> set order" for i
    using that order(2) places by (metis set_mset_mset)
  have at: "order ! n \<in> set order" "order ! m \<in> set order" using assms(3,4) by simp_all
  have speeds: "pf_speed (evidence_or_blank (order ! n)) = Some (speed_figure a)"
      "pf_speed (evidence_or_blank (order ! m)) = Some (speed_figure b)"
    using production_speed [OF calm [OF at(1)] assms(6)] production_speed [OF calm [OF at(2)] assms(7)]
      assms(8,10) by simp_all
  define g where "g = (run_numbers ?c 0 order ! n, [as_cohort a])"
  have same_run: "run_numbers ?c 0 order ! m = run_numbers ?c 0 order ! n"
    using one_run [of n m order ?c s 0] assms(3-5) by simp
  have "member_keys BY_FASTEST ?c evidence_or_blank order ! n = Some g"
    using assms(3,4,6,9) speeds by (simp add: member_keys_nth group_key_def g_def cohort_of_def speed_figure_def)
  moreover have "member_keys BY_FASTEST ?c evidence_or_blank order ! m = Some g"
    using assms(4,7,11,12) speeds same_run by (simp add: member_keys_nth group_key_def g_def cohort_of_def speed_figure_def)
  moreover have "member_keys BY_FASTEST ?c evidence_or_blank order = member_keys BY_FASTEST ?c evidence_or_blank ranked"
    unfolding order(1) by (rule reordered_keys)
  moreover have "well_founded_before ?before {x \<in> set ranked. cohort_of BY_FASTEST (evidence_or_blank x) = Some (snd g)}"
    by (rule fastest_well_founded)
      (auto simp: cohort_of_def split: option.splits if_splits dest: ready_speed_figure)
  ultimately have "\<not> ?before (order ! m) (order ! n)"
    using group_order_at [of n m ranked BY_FASTEST ?c evidence_or_blank g] assms(3,4) len order(1) by simp
  moreover obtain lo hi where "as_observed_min b = Some lo" "as_observed_max b = Some hi"
    by (rule ready_range [OF assms(11)])
  moreover obtain lo' hi' where "as_observed_min a = Some lo'" "as_observed_max a = Some hi'"
    by (rule ready_range [OF assms(9)])
  ultimately show ?thesis
    by (auto simp: precedes_def compare_optional_def compare_figures_def figure_bounds_def speeds
        speed_figure_def float_less_iff split: if_splits)
qed

section \<open>The balanced rule has cycles\<close>

definition range_of :: "int \<Rightarrow> int \<Rightarrow> measured_figure" where
  "range_of low high =
     \<lparr>mf_cohort = ''c'', mf_value = float_of_int low, mf_label = [], mf_evidence_ids = [],
      mf_minimum = Some (float_of_int low), mf_maximum = Some (float_of_int high), mf_comparison_ready = True\<rparr>"

definition figures_of :: "int \<times> int \<Rightarrow> int \<times> int \<Rightarrow> plan_figures" where
  "figures_of q s = \<lparr>pf_quality = Some (range_of (fst q) (snd q)), pf_speed = Some (range_of (fst s) (snd s)),
     pf_fallback_reasons = []\<rparr>"

text \<open>
  Four plans, each of which demonstrably precedes the next and the last the first: two have clear
  quality and two have clear speed, and the wide range of the other axis ties everything else.
\<close>

lemma balanced_rule_cycles:
  defines "a \<equiv> figures_of (90, 100) (10, 20)" and "b \<equiv> figures_of (50, 60) (0, 110)"
    and "c \<equiv> figures_of (10, 20) (90, 100)" and "d \<equiv> figures_of (0, 110) (50, 60)"
  shows "precedes BY_BALANCED a b" "precedes BY_BALANCED b c" "precedes BY_BALANCED c d" "precedes BY_BALANCED d a"
    and "demonstrable_order (precedes BY_BALANCED) [a, b, c, d] = [a, b, c, d]"
  unfolding a_def b_def c_def d_def by code_simp+

section \<open>The statements at concrete plans\<close>

definition example_runs :: "int \<Rightarrow> int \<Rightarrow> applicable_speed" where
  "example_runs low high =
     \<lparr>as_tokens_per_second = float_of_int low, as_stddev = None, as_pp512 = None, as_repetitions = 5,
      as_cohort = ''c'', as_benchmark_id = ''r1'', as_benchmark_ids = [''r1'', ''r2'', ''r3''], as_run_count = 3,
      as_observed_min = Some (float_of_int low), as_observed_max = Some (float_of_int high)\<rparr>"

definition example_timed :: "string \<Rightarrow> int \<Rightarrow> int \<Rightarrow> ranked_plan" where
  "example_timed repo low high =
     (example_ranked repo LV_ADEQUATE)\<lparr>rp_assessment :=
        (plan_example LV_ADEQUATE)\<lparr>pa_speed := no_speed\<lparr>vs_applicable := Some (example_runs low high)\<rparr>\<rparr>\<rparr>"

lemma example_timed_facts [simp]:
  "rejected (rp_assessment (example_timed repo low high)) = False"
  "vs_applicable (pa_speed (rp_assessment (example_timed repo low high))) = Some (example_runs low high)"
  "stratum commercial (example_timed repo low high) = (False, False, 0, LV_STRONG, LV_STRONG, LV_STRONG)"
proof -
  have "xp_memory_prediction example_plan = None"
    by (simp add: example_plan_def build_execution_plan_def assemble_plan_def Let_def)
  then show "stratum commercial (example_timed repo low high) = (False, False, 0, LV_STRONG, LV_STRONG, LV_STRONG)"
    by (simp add: stratum_def viable_plan_def plan_confirmed_def example_timed_def example_ranked_def
        plan_example_def rejected_def requirement_confirmation_rank_def)
qed (simp_all add: example_timed_def plan_example_def rejected_def)

lemma example_figures [simp]:
  "evidence_raises (example_timed repo low high) = False"
  "pf_speed (evidence_or_blank (example_timed repo low high)) = Some (speed_figure (example_runs low high))"
  by (simp_all add: evidence_raises_def evidence_or_blank_def production_evidence_def speed_reason_def)

lemma example_runs_compared:
  "compare_figures (speed_figure (example_runs 20 22)) (speed_figure (example_runs 10 12)) = 1"
  "compare_figures (speed_figure (example_runs 10 12)) (speed_figure (example_runs 20 22)) = - 1"
  "mf_comparison_ready (speed_figure (example_runs 10 12))" "mf_comparison_ready (speed_figure (example_runs 20 22))"
  "ranking_ready (example_runs 10 12)" "ranking_ready (example_runs 20 22)"
  by code_simp+

lemma example_measured_order:
  "apply_measured_policy [example_timed ''a'' 10 12, example_timed ''b'' 20 22] (example_requirements SPEED) =
     Some [example_timed ''b'' 20 22, example_timed ''a'' 10 12]"
proof -
  let ?c = "commercial_request (example_requirements SPEED)"
    and ?a = "example_timed ''a'' 10 12" and ?b = "example_timed ''b'' 20 22"
  let ?before = "\<lambda>a b. precedes BY_FASTEST (evidence_or_blank a) (evidence_or_blank b)"
  have cohort: "mf_cohort (speed_figure (example_runs low high)) = ''c''" for low high
    by (simp add: speed_figure_def example_runs_def)
  have keys: "member_keys BY_FASTEST ?c evidence_or_blank [?a, ?b] = [Some (0, [''c'']), Some (0, [''c''])]"
    by (simp add: member_keys_def group_key_def cohort_of_def example_runs_compared cohort)
  have groups: "measured_groups BY_FASTEST ?c evidence_or_blank [?a, ?b] = [((0, [''c'']), [0, 1])]"
    unfolding measured_groups_def keys by (simp add: group_slots_def setdefault_append_def dict_get_def dict_set_def)
  have "pick_last ?before [?a, ?b] = ?a" "pick_last ?before [?b] = ?b"
    by (simp_all add: pick_last_def free_places_def precedes_def compare_optional_def example_runs_compared upt_rec)
  then have "demonstrable_order ?before [?a, ?b] = [?b, ?a]"
    by (simp add: demonstrable_order_def fill_from_back_step)
  then have "reorder_groups BY_FASTEST ?c evidence_or_blank [?a, ?b] = [?b, ?a]"
    unfolding reorder_groups_def groups by (simp add: order_group_def)
  then show ?thesis by (simp add: apply_measured_policy_def shadow_order_def example_requirements_def)
qed

theorem measured_policy_confined_witness:
  "mset [example_timed ''b'' 20 22, example_timed ''a'' 10 12] =
     mset [example_timed ''a'' 10 12, example_timed ''b'' 20 22]"
  using measured_policy_confined [OF example_measured_order] by blast

theorem fastest_honours_ranges_witness:
  "float_value (float_of_int 10) \<le> float_value (float_of_int 22)"
proof -
  let ?order = "[example_timed ''b'' 20 22, example_timed ''a'' 10 12]"
  have "\<exists>slowest fastest. as_observed_min (example_runs 10 12) = Some slowest \<and>
      as_observed_max (example_runs 20 22) = Some fastest \<and> float_value slowest \<le> float_value fastest"
  proof (rule fastest_honours_ranges [OF example_measured_order, of 0 1])
    show "\<forall>k \<in> {0..1}. stratum (commercial_request (example_requirements SPEED)) (?order ! k) =
        (False, False, 0, LV_STRONG, LV_STRONG, LV_STRONG)"
    proof
      fix k :: nat assume "k \<in> {0..1}"
      then have "k = 0 \<or> k = 1" by auto
      then show "stratum (commercial_request (example_requirements SPEED)) (?order ! k) =
          (False, False, 0, LV_STRONG, LV_STRONG, LV_STRONG)"
        by (elim disjE) simp_all
    qed
  qed (simp_all add: example_runs_compared example_requirements_def, simp_all add: example_runs_def)
  then show ?thesis by (simp add: example_runs_def)
qed

end
