(* ===== verification/Measured_Report.thy ===== *)
theory Measured_Report
  imports Measured_Policy
begin

text \<open>
  What the measured policy reports beside its order (\<^verbatim>\<open>recommendation/shadow.py\<close>): the groups, the
  moves with the rule and the evidence of each, why a plan has no group, and how the rows change.
\<close>

record shadow_move =
  sm_plan_id :: string
  sm_repo_id :: string
  sm_base_index :: nat
  sm_shadow_index :: nat
  sm_group :: string
  sm_rule :: string
  sm_evidence_ids :: "string list"

record shadow_group =
  sg_key :: string
  sg_plan_ids :: "string list"
  sg_limitations :: "string list"

record shadow_fallback =
  sf_plan_id :: string
  sf_reasons :: "string list"
  sf_repo_id :: string
  sf_artifact_label :: string
  sf_artifact_sha256 :: "string option"

record top_change =
  tc_plan_id :: string
  tc_change :: string
  tc_moved :: bool

record shadow_report =
  sr_policy_version :: string
  sr_priority :: recommendation_priority
  sr_applied :: bool
  sr_base_order :: "string list"
  sr_shadow_order :: "string list"
  sr_groups :: "shadow_group list"
  sr_moves :: "shadow_move list"
  sr_fallback :: "shadow_fallback list"
  sr_base_top5 :: "string list"
  sr_shadow_top5 :: "string list"
  sr_top5_changes :: "top_change list"

definition POLICY_VERSION :: string where
  "POLICY_VERSION = ''shadow-v2''"

section \<open>Groups and moves\<close>

definition plan_id_of :: "ranked_plan \<Rightarrow> string" where
  "plan_id_of i = xp_plan_id (rp_plan i)"

definition group_name :: "nat \<times> string list \<Rightarrow> string" where
  "group_name g = ''run'' @ show_int (int (fst g)) @ ''|'' @ dumps_sorted (PyList (map PyStr (snd g)))"

fun speed_overlaps :: "(ranked_plan \<Rightarrow> plan_figures) \<Rightarrow> ranked_plan list \<Rightarrow> bool" where
  "speed_overlaps evidence [] \<longleftrightarrow> False"
| "speed_overlaps evidence (i # is) \<longleftrightarrow>
     (\<exists>j \<in> set is. compare_optional (pf_speed (evidence i)) (pf_speed (evidence j)) = 0) \<or>
     speed_overlaps evidence is"

definition OVERLAP_LIMITATION :: string where
  "OVERLAP_LIMITATION =
     ''Some observed speed ranges overlap: those pairs are not ordered by speed '' @
     ''(Balanced lets clearly better quality decide them). Ranges are min-max of '' @
     ''the stored calls, not confidence intervals; one atypical call can keep two '' @
     ''plans indistinguishable.''"

definition group_report ::
  "measured_rule \<Rightarrow> (ranked_plan \<Rightarrow> plan_figures) \<Rightarrow> nat \<times> string list \<Rightarrow> ranked_plan list \<Rightarrow> shadow_group" where
  "group_report policy evidence g items =
     \<lparr>sg_key = group_name g, sg_plan_ids = map plan_id_of items,
      sg_limitations = (if policy \<noteq> BY_QUALITY \<and> speed_overlaps evidence items then [OVERLAP_LIMITATION] else [])\<rparr>"

definition speed_rule :: "measured_figure \<Rightarrow> string" where
  "speed_rule s =
     (case figure_bounds s of
        (low, high) \<Rightarrow>
          ''tg128 median '' @ show_general (mf_value s) @ '', observed range '' @ show_general low @ ''-'' @
          show_general high)"

definition quality_rule :: "measured_figure \<Rightarrow> string" where
  "quality_rule q =
     (case figure_bounds q of
        (low, high) \<Rightarrow>
          ''; '' @ mf_label q @ '' '' @ show_general (mf_value q) @ '' (95% interval '' @ show_fixed 3 low @ ''-'' @
          show_fixed 3 high @ '')'')"

text \<open>The figures that the rule names are those of the cohort, so they are present.\<close>

definition rule_text :: "measured_rule \<Rightarrow> plan_figures \<Rightarrow> string" where
  "rule_text policy e =
     (if policy = BY_QUALITY then
        (case pf_quality e of Some q \<Rightarrow> mf_label q @ '' '' @ show_general (mf_value q) | None \<Rightarrow> [])
      else
        (case pf_speed e of Some s \<Rightarrow> speed_rule s | None \<Rightarrow> []) @
        (if policy = BY_BALANCED then (case pf_quality e of Some q \<Rightarrow> quality_rule q | None \<Rightarrow> []) else []) @
        ''; ordered only by pairwise distinguishable differences'')"

definition group_rules ::
  "measured_rule \<Rightarrow> (ranked_plan \<Rightarrow> plan_figures) \<Rightarrow> ranked_plan list \<Rightarrow> (string, string) dict" where
  "group_rules policy evidence items =
     foldl (\<lambda>d i. dict_set d (plan_id_of i) (rule_text policy (evidence i))) [] items"

definition used_figures :: "measured_rule \<Rightarrow> plan_figures \<Rightarrow> measured_figure option list" where
  "used_figures policy e =
     (case policy of
        BY_QUALITY \<Rightarrow> [pf_quality e] | BY_FASTEST \<Rightarrow> [pf_speed e] | BY_BALANCED \<Rightarrow> [pf_quality e, pf_speed e])"

definition evidence_ids :: "measured_rule \<Rightarrow> plan_figures \<Rightarrow> string list" where
  "evidence_ids policy e =
     concat (map (\<lambda>f. case f of Some m \<Rightarrow> mf_evidence_ids m | None \<Rightarrow> []) (used_figures policy e))"

definition base_positions :: "ranked_plan list \<Rightarrow> (string, nat) dict" where
  "base_positions ranked = foldl (\<lambda>d (n, i). dict_set d (plan_id_of i) n) [] (enumerate 0 ranked)"

definition move_of ::
  "measured_rule \<Rightarrow> (ranked_plan \<Rightarrow> plan_figures) \<Rightarrow> (string, nat) dict \<Rightarrow> string \<Rightarrow> (string, string) dict \<Rightarrow>
   nat \<times> ranked_plan \<Rightarrow> shadow_move option" where
  "move_of policy evidence positions key rules si =
     (case si of
        (slot, i) \<Rightarrow>
          (let base = opt_default (dict_get positions (plan_id_of i)) slot in
           if base = slot then None
           else Some \<lparr>sm_plan_id = plan_id_of i, sm_repo_id = ev_repo_id (rp_evaluated i), sm_base_index = base,
                  sm_shadow_index = slot, sm_group = key,
                  sm_rule = opt_default (dict_get rules (plan_id_of i)) [],
                  sm_evidence_ids = evidence_ids policy (evidence i)\<rparr>))"

definition group_moves ::
  "measured_rule \<Rightarrow> (ranked_plan \<Rightarrow> plan_figures) \<Rightarrow> ranked_plan list \<Rightarrow> (nat \<times> string list) \<times> nat list \<Rightarrow>
   shadow_move list" where
  "group_moves policy evidence ranked gns =
     (case gns of
        (g, ns) \<Rightarrow>
          (let items = map ((!) ranked) ns; ordered = order_group policy evidence items;
               rules = group_rules policy evidence items in
           List.map_filter (move_of policy evidence (base_positions ranked) (group_name g) rules) (zip ns ordered)))"

definition shadow_groups ::
  "recommendation_priority \<Rightarrow> bool \<Rightarrow> (ranked_plan \<Rightarrow> plan_figures) \<Rightarrow> ranked_plan list \<Rightarrow> shadow_group list" where
  "shadow_groups priority commercial evidence ranked =
     (case policy_of priority of
        None \<Rightarrow> []
      | Some policy \<Rightarrow>
          map (\<lambda>(g, ns). group_report policy evidence g (map ((!) ranked) ns))
            (measured_groups policy commercial evidence ranked))"

definition shadow_moves ::
  "recommendation_priority \<Rightarrow> bool \<Rightarrow> (ranked_plan \<Rightarrow> plan_figures) \<Rightarrow> ranked_plan list \<Rightarrow> shadow_move list" where
  "shadow_moves priority commercial evidence ranked =
     (case policy_of priority of
        None \<Rightarrow> []
      | Some policy \<Rightarrow>
          sort_key sm_shadow_index
            (concat (map (group_moves policy evidence ranked) (measured_groups policy commercial evidence ranked))))"

section \<open>Why a plan has no group\<close>

definition references_text :: "quality_assessment \<Rightarrow> string" where
  "references_text q =
     ''Quality references for this SHA256: '' @
     join '', '' (dedup (map (\<lambda>r. lq_suite r @ '': '' @ lq_classification r @ '', '' @ show_int (lq_samples_used r) @
       ''/'' @ show_int (lq_samples_available r) @ '' samples'') (qa_local_references q))) @ ''.''"

definition quality_notes :: "ranked_plan \<Rightarrow> plan_figures \<Rightarrow> string list" where
  "quality_notes i e =
     (let q = pa_quality (rp_assessment i) in
      if pf_quality e \<noteq> None then []
      else (if qa_local_references q = [] then [] else [references_text q]) @ qa_limitations q)"

definition peer_figures :: "(ranked_plan \<Rightarrow> plan_figures) \<Rightarrow> ranked_plan list \<Rightarrow> ranked_plan \<Rightarrow> plan_figures list" where
  "peer_figures evidence ranked i =
     map evidence (filter (\<lambda>j. plan_id_of j \<noteq> plan_id_of i \<and> \<not> rejected (rp_assessment j)) ranked)"

definition cohort_note :: "measured_rule \<Rightarrow> string list \<Rightarrow> plan_figures list \<Rightarrow> string" where
  "cohort_note policy cohort peers =
     (if \<exists>p \<in> set peers. cohort_of policy p = Some cohort then
        ''Comparable evidence exists, but a stratum boundary separates the plans '' @
        ''(confirmed fit, commercial confirmation, suitability, license or language).''
      else if \<exists>p \<in> set peers. cohort_of policy p \<noteq> None then
        ''Other eligible plans have evidence, but no matching comparison protocol '' @
        ''(suite, dataset/samples, evaluator, runtime or generation settings).''
      else ''No second eligible plan has applicable evidence for this priority.'')"

definition leading_note ::
  "recommendation_priority \<Rightarrow> (ranked_plan \<Rightarrow> plan_figures) \<Rightarrow> ranked_plan list \<Rightarrow> ranked_plan \<Rightarrow> string list" where
  "leading_note priority evidence ranked i =
     (case policy_of priority of
        None \<Rightarrow> [''This priority does not reorder plans using measured evidence.'']
      | Some policy \<Rightarrow>
          (case cohort_of policy (evidence i) of
             Some cohort \<Rightarrow> [cohort_note policy cohort (peer_figures evidence ranked i)]
           | None \<Rightarrow>
               if policy = BY_BALANCED then
                 [''Balanced requires applicable quality and speed; an unknown axis cannot rank.'']
               else []))"

definition fallback_reasons ::
  "recommendation_priority \<Rightarrow> (ranked_plan \<Rightarrow> plan_figures) \<Rightarrow> ranked_plan list \<Rightarrow> ranked_plan \<Rightarrow> string list" where
  "fallback_reasons priority evidence ranked i =
     (let e = evidence i in
      dedup (leading_note priority evidence ranked i @
        (if av_sha256 (xp_artifact (rp_plan i)) = None then
           [''Quality: artifact SHA256 unavailable; exact-artifact matching is impossible.''] else []) @
        pf_fallback_reasons e @ quality_notes i e))"

section \<open>The report\<close>

definition found_figures :: "(string, plan_figures) dict \<Rightarrow> ranked_plan \<Rightarrow> plan_figures" where
  "found_figures found i = opt_default (dict_get found (plan_id_of i)) blank_figures"

definition production_figures :: "ranked_plan list \<Rightarrow> (string, plan_figures) dict option" where
  "production_figures ranked =
     (if \<exists>i \<in> set ranked. production_evidence (rp_assessment i) = None then None
      else Some (foldl (\<lambda>d i. dict_set d (plan_id_of i) (evidence_or_blank i)) [] ranked))"

definition top_ids :: "user_requirements \<Rightarrow> nat \<Rightarrow> ranked_plan list \<Rightarrow> string list" where
  "top_ids req limit plans =
     map (\<lambda>d. plan_id_of (dv_primary d)) (diversify_ranked_plans (tie_key_for req) limit plans)"

definition top_changes :: "string list \<Rightarrow> string list \<Rightarrow> string list \<Rightarrow> top_change list" where
  "top_changes moved base shadow =
     map (\<lambda>p. \<lparr>tc_plan_id = p, tc_change = ''entered'', tc_moved = p \<in> set moved\<rparr>)
       (filter (\<lambda>p. p \<notin> set base) shadow) @
     map (\<lambda>p. \<lparr>tc_plan_id = p, tc_change = ''left'', tc_moved = p \<in> set moved\<rparr>)
       (filter (\<lambda>p. p \<notin> set shadow) base)"

definition fallback_entry ::
  "recommendation_priority \<Rightarrow> (ranked_plan \<Rightarrow> plan_figures) \<Rightarrow> ranked_plan list \<Rightarrow> ranked_plan \<Rightarrow> shadow_fallback" where
  "fallback_entry priority evidence ranked i =
     \<lparr>sf_plan_id = plan_id_of i, sf_reasons = fallback_reasons priority evidence ranked i,
      sf_repo_id = av_repo_id (xp_artifact (rp_plan i)), sf_artifact_label = artifact_label (xp_artifact (rp_plan i)),
      sf_artifact_sha256 = av_sha256 (xp_artifact (rp_plan i))\<rparr>"

definition report_of ::
  "ranked_plan list \<Rightarrow> user_requirements \<Rightarrow> nat \<Rightarrow> (ranked_plan \<Rightarrow> plan_figures) \<Rightarrow> shadow_report" where
  "report_of ranked req limit evidence =
     (let priority = ur_priority req; commercial = commercial_request req;
          shadow = shadow_order priority commercial evidence ranked;
          groups = shadow_groups priority commercial evidence ranked;
          moves = shadow_moves priority commercial evidence ranked;
          grouped = concat (map sg_plan_ids groups);
          base_top = top_ids req limit ranked; shadow_top = top_ids req limit shadow in
      \<lparr>sr_policy_version = POLICY_VERSION, sr_priority = priority, sr_applied = policy_of priority \<noteq> None,
       sr_base_order = map plan_id_of ranked, sr_shadow_order = map plan_id_of shadow,
       sr_groups = groups, sr_moves = moves,
       sr_fallback = map (fallback_entry priority evidence ranked)
         (filter (\<lambda>i. plan_id_of i \<notin> set grouped \<and> \<not> rejected (rp_assessment i)) ranked),
       sr_base_top5 = base_top, sr_shadow_top5 = shadow_top,
       sr_top5_changes = top_changes (map sm_plan_id moves) base_top shadow_top\<rparr>)"

definition build_shadow_report ::
  "ranked_plan list \<Rightarrow> user_requirements \<Rightarrow> nat \<Rightarrow> (string, plan_figures) dict option \<Rightarrow> shadow_report option" where
  "build_shadow_report plans req limit evidence =
     (let ranked = weak_plans_last plans (ur_priority req) in
      map_option (\<lambda>found. report_of ranked req limit (found_figures found))
        (case evidence of Some found \<Rightarrow> Some found | None \<Rightarrow> production_figures ranked))"

section \<open>The moves are the difference of the two orders\<close>

lemma base_positions_get:
  assumes "distinct (map plan_id_of ranked)" "n < length ranked"
  shows "dict_get (base_positions ranked) (plan_id_of (ranked ! n)) = Some n"
  using assms unfolding base_positions_def
proof (induction ranked rule: rev_induct)
  case (snoc i ranked)
  show ?case
  proof (cases "n = length ranked")
    case False
    then have n: "n < length ranked" using snoc.prems(2) by simp
    have "plan_id_of (ranked ! n) \<in> plan_id_of ` set ranked" using n by (intro imageI nth_mem)
    moreover have "plan_id_of i \<notin> plan_id_of ` set ranked" using snoc.prems(1) by simp
    ultimately have "plan_id_of (ranked ! n) \<noteq> plan_id_of i" by metis
    then show ?thesis using snoc n by (simp add: enumerate_append_eq dict_get_set nth_append)
  qed (simp add: enumerate_append_eq dict_get_set)
qed simp

lemma group_moves_entries:
  assumes "(g, ns) \<in> set (measured_groups policy commercial evidence ranked)"
  shows "mv \<in> set (group_moves policy evidence ranked (g, ns)) \<longleftrightarrow>
    (\<exists>s \<in> set ns. move_of policy evidence (base_positions ranked) (group_name g)
      (group_rules policy evidence (map ((!) ranked) ns))
      (s, reorder_groups policy commercial evidence ranked ! s) = Some mv)"
proof -
  have "order_group policy evidence (map ((!) ranked) ns) =
      map ((!) (reorder_groups policy commercial evidence ranked)) ns"
    using reorder_groups_places [of policy commercial evidence ranked] assms by fastforce
  then show ?thesis
    by (auto simp: group_moves_def Let_def zip_map2 zip_same_conv_map map_filter_def split: option.splits)
      (force simp: image_iff)+
qed

text \<open>
  C32. The reported moves are exactly the difference.  If the plans have different ids, the moves
  of the report are the plans whose place in the proposed order differs from their place in the
  base order, each with both places; nothing that stayed is listed and nothing that moved is
  missing.
\<close>

theorem moves_are_the_difference:
  assumes "distinct (map plan_id_of ranked)"
  shows "(\<lambda>m. (sm_plan_id m, sm_base_index m, sm_shadow_index m)) `
      set (shadow_moves priority commercial evidence ranked) =
    {(plan_id_of (ranked ! b), b, s) |b s. b < length ranked \<and> s < length ranked \<and> b \<noteq> s \<and>
      shadow_order priority commercial evidence ranked ! s = ranked ! b}"
proof (cases "policy_of priority")
  case None
  have "b = s" if "b < length ranked" "s < length ranked" "ranked ! s = ranked ! b" for b s
    using assms that by (metis distinct_conv_nth length_map nth_map)
  then show ?thesis using None by (auto simp: shadow_moves_def shadow_order_def)
next
  case (Some policy)
  let ?gs = "measured_groups policy commercial evidence ranked"
    and ?r = "reorder_groups policy commercial evidence ranked"
    and ?keys = "member_keys policy commercial evidence ranked"
  have same: "b = n" if "b < length ranked" "n < length ranked" "ranked ! b = ranked ! n" for b n
    using assms that by (metis distinct_conv_nth length_map nth_map)
  have moves: "mv \<in> set (shadow_moves priority commercial evidence ranked) \<longleftrightarrow>
      (\<exists>(g, ns) \<in> set ?gs. \<exists>s \<in> set ns.
        move_of policy evidence (base_positions ranked) (group_name g)
          (group_rules policy evidence (map ((!) ranked) ns)) (s, ?r ! s) = Some mv)" for mv
    using group_moves_entries [of _ _ policy commercial evidence ranked mv]
    by (simp add: shadow_moves_def Some) (intro bex_cong refl; clarsimp)
  have in_range: "s < length ranked" if "(g, ns) \<in> set ?gs" "s \<in> set ns" for g ns s
  proof -
    have "ns = places_of ?keys g" using that(1) measured_groups_entries by fast
    then show ?thesis using that(2) by (simp add: places_of_wf)
  qed
  have move: "move_of policy evidence (base_positions ranked) k rules (s, ?r ! s) = Some mv \<longleftrightarrow>
      b \<noteq> s \<and> mv = \<lparr>sm_plan_id = plan_id_of (ranked ! b), sm_repo_id = ev_repo_id (rp_evaluated (ranked ! b)),
        sm_base_index = b, sm_shadow_index = s, sm_group = k,
        sm_rule = opt_default (dict_get rules (plan_id_of (ranked ! b))) [],
        sm_evidence_ids = evidence_ids policy (evidence (ranked ! b))\<rparr>"
    if "b < length ranked" "?r ! s = ranked ! b" for b s k rules mv
    using base_positions_get [OF assms that(1)] that(2) by (auto simp: move_of_def Let_def)
  show ?thesis
  proof (intro equalityI subsetI)
    fix x assume "x \<in> (\<lambda>m. (sm_plan_id m, sm_base_index m, sm_shadow_index m)) `
        set (shadow_moves priority commercial evidence ranked)"
    then obtain mv g ns s where mv: "x = (sm_plan_id mv, sm_base_index mv, sm_shadow_index mv)"
        "(g, ns) \<in> set ?gs" "s \<in> set ns"
        "move_of policy evidence (base_positions ranked) (group_name g)
          (group_rules policy evidence (map ((!) ranked) ns)) (s, ?r ! s) = Some mv"
      unfolding image_iff Bex_def moves by blast
    have s: "s < length ranked" by (rule in_range [OF mv(2,3)])
    obtain b where b: "b < length ranked" "?r ! s = ranked ! b" using reordered_item [OF s] by blast
    then show "x \<in> {(plan_id_of (ranked ! b), b, s) |b s. b < length ranked \<and> s < length ranked \<and> b \<noteq> s \<and>
        shadow_order priority commercial evidence ranked ! s = ranked ! b}"
      using mv(1) mv(4) [unfolded move [OF b]] s by (auto simp: shadow_order_def Some)
  next
    fix x assume "x \<in> {(plan_id_of (ranked ! b), b, s) |b s. b < length ranked \<and> s < length ranked \<and> b \<noteq> s \<and>
        shadow_order priority commercial evidence ranked ! s = ranked ! b}"
    then obtain b s where x: "x = (plan_id_of (ranked ! b), b, s)" "b < length ranked" "s < length ranked"
        "b \<noteq> s" "?r ! s = ranked ! b"
      by (auto simp: shadow_order_def Some)
    obtain g where g: "?keys ! b = Some g" "?keys ! s = Some g"
      using reordered_item [OF x(3), of policy commercial evidence] x same by metis
    define ns where "ns = places_of ?keys g"
    have mem: "b \<in> set ns" "s \<in> set ns" using g x by (auto simp: ns_def places_of_wf)
    then have "2 \<le> length ns" using x(4) by (cases ns; cases "tl ns") auto
    then have gs: "(g, ns) \<in> set ?gs" using measured_groups_entries unfolding ns_def by blast
    obtain mv where mv: "move_of policy evidence (base_positions ranked) (group_name g)
        (group_rules policy evidence (map ((!) ranked) ns)) (s, ?r ! s) = Some mv"
        "x = (sm_plan_id mv, sm_base_index mv, sm_shadow_index mv)"
      using move [OF x(2,5)] x(1,4) by simp
    then have "mv \<in> set (shadow_moves priority commercial evidence ranked)"
      unfolding moves using gs mem(2) by blast
    then show "x \<in> (\<lambda>m. (sm_plan_id m, sm_base_index m, sm_shadow_index m)) `
        set (shadow_moves priority commercial evidence ranked)"
      using mv(2) by blast
  qed
qed

definition example_pair :: "ranked_plan list" where
  "example_pair =
     [(example_timed ''a'' 10 12)\<lparr>rp_plan := example_plan\<lparr>xp_plan_id := ''p''\<rparr>\<rparr>,
      (example_timed ''b'' 20 22)\<lparr>rp_plan := example_plan\<lparr>xp_plan_id := ''q''\<rparr>\<rparr>]"

theorem moves_are_the_difference_witness:
  "(\<lambda>m. (sm_plan_id m, sm_base_index m, sm_shadow_index m)) `
     set (shadow_moves SPEED False evidence_or_blank example_pair) =
   {(plan_id_of (example_pair ! b), b, s) |b s.
     b < length example_pair \<and> s < length example_pair \<and> b \<noteq> s \<and>
     shadow_order SPEED False evidence_or_blank example_pair ! s = example_pair ! b}"
  by (rule moves_are_the_difference) (simp add: example_pair_def plan_id_of_def)

end
