(* ===== verification/Candidate_Filter.thy ===== *)
theory Candidate_Filter
  imports Families Kv_Cache_Props Gguf_Selection
begin

text \<open>
  The work on search results before any repository is inspected
  (\<^verbatim>\<open>discovery/candidate_filter.py\<close>): repeated sightings are merged, re-uploads of one base are
  collapsed, unusable repositories are rejected with a reason, and a coarse placement is guessed
  from the name and the memory of the machine.
\<close>

section \<open>Tags\<close>

definition MULTIMODAL_TAGS :: "string list" where
  "MULTIMODAL_TAGS =
     [''image-to-text'', ''text-to-image'', ''text-to-speech'', ''text-to-video'',
      ''automatic-speech-recognition'', ''audio-classification'', ''image-classification'',
      ''visual-question-answering'', ''image-text-to-text'', ''video-text-to-text'', ''multimodal'', ''vision'']"

definition VISION_LANGUAGE_TAGS :: "string list" where
  "VISION_LANGUAGE_TAGS = [''image-text-to-text'', ''video-text-to-text'']"

definition VISION_LANGUAGE_GGUF_NOTE :: string where
  "VISION_LANGUAGE_GGUF_NOTE =
     ''Vision-language model in GGUF: only its text part is sized and run; '' @
     ''the vision projector is a separate file.''"

definition ADAPTER_TAGS :: "string list" where
  "ADAPTER_TAGS = [''peft'', ''lora'', ''adapter'', ''adapter-transformers'']"

definition DIFFUSION_LIBRARIES :: "string list" where
  "DIFFUSION_LIBRARIES = [''diffusers'', ''diffusion-single-file'']"

definition lower_tags :: "model_candidate \<Rightarrow> string list" where
  "lower_tags c = map lower (cd_tags c)"

definition named_or_tagged :: "model_candidate \<Rightarrow> string" where
  "named_or_tagged c = join '' '' (cd_repo_id c # cd_tags c)"

definition is_gguf_candidate :: "model_candidate \<Rightarrow> bool" where
  "is_gguf_candidate c \<longleftrightarrow> contains (lower (named_or_tagged c)) ''gguf''"

definition is_vision_language_gguf :: "model_candidate \<Rightarrow> bool" where
  "is_vision_language_gguf c \<longleftrightarrow>
     is_gguf_candidate c \<and>
     (let multimodal = set (lower_tags c) \<inter> set MULTIMODAL_TAGS in
      multimodal \<noteq> {} \<and> multimodal \<subseteq> set VISION_LANGUAGE_TAGS) \<and>
     (case cd_pipeline_tag c of
        None \<Rightarrow> True | Some p \<Rightarrow> p = TEXT_GENERATION_PIPELINE \<or> p \<in> set VISION_LANGUAGE_TAGS)"

section \<open>Merging sightings and re-uploads\<close>

text \<open>The dictionary keeps the order of first sightings, which is the order returned.\<close>

definition add_sighting :: "(string, model_candidate) dict \<Rightarrow> model_candidate \<Rightarrow> (string, model_candidate) dict" where
  "add_sighting d c =
     (if cd_repo_id c = [] then d
      else dict_set d (cd_repo_id c)
        (case dict_get d (cd_repo_id c) of None \<Rightarrow> c | Some old \<Rightarrow> merged_with old c))"

definition deduplicate :: "model_candidate list \<Rightarrow> model_candidate list" where
  "deduplicate cs = map snd (foldl add_sighting [] cs)"

definition QUANTIZED_BASE_PREFIX :: string where
  "QUANTIZED_BASE_PREFIX = ''base_model:quantized:''"

definition quantized_base :: "model_candidate \<Rightarrow> string option" where
  "quantized_base c =
     (if ''gguf'' \<notin> set (lower_tags c) then None
      else map_option (\<lambda>t. lower (drop (length QUANTIZED_BASE_PREFIX) t))
        (List.find (\<lambda>t. startswith (lower t) QUANTIZED_BASE_PREFIX) (cd_tags c)))"

definition more_popular :: "model_candidate \<Rightarrow> model_candidate \<Rightarrow> bool" where
  "more_popular a b \<longleftrightarrow>
     (cd_downloads b, cd_likes b, cd_repo_id a) < (cd_downloads a, cd_likes a, cd_repo_id b)"

text \<open>The copy kept for each base, by its place in the list.\<close>

definition take_popular ::
  "model_candidate list \<Rightarrow> (string, nat) dict \<Rightarrow> nat \<Rightarrow> (string, nat) dict" where
  "take_popular cs best n =
     (case quantized_base (cs ! n) of
        None \<Rightarrow> best
      | Some base \<Rightarrow>
          (case dict_get best base of
             None \<Rightarrow> dict_set best base n
           | Some m \<Rightarrow> if more_popular (cs ! n) (cs ! m) then dict_set best base n else best))"

definition best_copies :: "model_candidate list \<Rightarrow> (string, nat) dict" where
  "best_copies cs = foldl (take_popular cs) [] [0..<length cs]"

text \<open>The place of the copy that is kept for a candidate: its own, unless it is a re-upload.\<close>

definition kept_place :: "model_candidate list \<Rightarrow> nat \<Rightarrow> nat" where
  "kept_place cs n =
     (case quantized_base (cs ! n) of
        None \<Rightarrow> n | Some base \<Rightarrow> opt_default (dict_get (best_copies cs) base) n)"

record reuploads =
  ru_kept :: "model_candidate list"
  ru_alternatives :: "(string, model_candidate list) dict"

definition alternatives_by_repo :: "model_candidate list \<Rightarrow> (string, model_candidate list) dict" where
  "alternatives_by_repo cs =
     foldl (\<lambda>d n. if kept_place cs n = n then d
              else setdefault_append d (lower (cd_repo_id (cs ! kept_place cs n))) (cs ! n)) [] [0..<length cs]"

definition collapse_quantized_reuploads :: "model_candidate list \<Rightarrow> reuploads" where
  "collapse_quantized_reuploads cs =
     \<lparr>ru_kept = map ((!) cs) (filter (\<lambda>n. kept_place cs n = n) [0..<length cs]),
      ru_alternatives = map (\<lambda>(r, xs). (r, sort_key (\<lambda>c. (- cd_downloads c, - cd_likes c, cd_repo_id c)) xs))
        (alternatives_by_repo cs)\<rparr>"

section \<open>Rejections and penalties\<close>

definition is_gated :: "model_candidate \<Rightarrow> bool" where
  "is_gated c = (case cd_gated c of GatedBool b \<Rightarrow> b | GatedText s \<Rightarrow> s \<noteq> [])"

definition declares_diffusion :: "model_candidate \<Rightarrow> bool" where
  "declares_diffusion c \<longleftrightarrow>
     lower (opt_default (cd_library_name c) []) \<in> set DIFFUSION_LIBRARIES \<or>
     set (lower_tags c) \<inter> set DIFFUSION_LIBRARIES \<noteq> {}"

definition optional_repr :: "string option \<Rightarrow> string" where
  "optional_repr s = (case s of None \<Rightarrow> ''None'' | Some t \<Rightarrow> repr_str t)"

definition modality_rejection :: "model_candidate \<Rightarrow> string option" where
  "modality_rejection c =
     (if set (lower_tags c) \<inter> set MULTIMODAL_TAGS \<noteq> {} \<and> \<not> is_vision_language_gguf c then
        Some ''Model is multimodal; this version only recommends text models.''
      else
        (case cd_pipeline_tag c of
           None \<Rightarrow> None
         | Some p \<Rightarrow>
             if p \<noteq> [] \<and> p \<noteq> TEXT_GENERATION_PIPELINE \<and> \<not> is_vision_language_gguf c then
               Some (''Pipeline '' @ repr_str p @ '' is not text generation.'')
             else None))"

definition adapter_rejection :: "model_candidate \<Rightarrow> string option" where
  "adapter_rejection c =
     (if set (lower_tags c) \<inter> set ADAPTER_TAGS \<noteq> {} \<and> opt_default (cd_base_model_repo_id c) [] = [] then
        Some ''Adapter without a resolvable base model.''
      else if list_ex (\<lambda>t. startswith t ''base_model:adapter:'') (lower_tags c) then
        Some ''Repository is an adapter, not a standalone model.''
      else None)"

definition license_rejection :: "model_candidate \<Rightarrow> user_requirements \<Rightarrow> string option" where
  "license_rejection c req =
     (if ur_commercial_use_required req = Some True \<and> classify_license (cd_license c) = COMMERCIAL_RESTRICTED then
        Some (''License '' @ optional_repr (cd_license c) @ '' is not generally suitable for commercial use.'')
      else None)"

definition rejection_reason :: "model_candidate \<Rightarrow> user_requirements \<Rightarrow> string option" where
  "rejection_reason c req =
     (if cd_private c then Some ''Repository is private.''
      else if is_gated c then Some ''Repository is gated and cannot be inspected without access.''
      else if cd_repository_type c = Some REPO_ADAPTER then
        Some ''Repository is an adapter, not a standalone model.''
      else if declares_diffusion c then
        Some ''Repository declares a diffusion library; this version only recommends text models.''
      else opt_or (modality_rejection c) (opt_or (adapter_rejection c) (license_rejection c req)))"

fun lower_confidence :: "estimation_confidence \<Rightarrow> estimation_confidence" where
  "lower_confidence CONF_HIGH = CONF_MEDIUM"
| "lower_confidence CONF_MEDIUM = CONF_LOW"
| "lower_confidence CONF_LOW = CONF_UNKNOWN"
| "lower_confidence CONF_UNKNOWN = CONF_UNKNOWN"

definition unlicensed :: "model_candidate \<Rightarrow> bool" where
  "unlicensed c \<longleftrightarrow> opt_default (cd_license c) [] = []"

definition apply_penalties :: "model_candidate \<Rightarrow> model_candidate" where
  "apply_penalties c =
     c\<lparr>cd_penalties := cd_penalties c @
         (if unlicensed c then [''No license declared in the model card.''] else []) @
         (if cd_pipeline_tag c = None then [''No pipeline tag declared; task match is inferred from tags.''] else []) @
         (if is_vision_language_gguf c then [VISION_LANGUAGE_GGUF_NOTE] else []),
       cd_metadata_confidence :=
         (if unlicensed c then lower_confidence (cd_metadata_confidence c) else cd_metadata_confidence c)\<rparr>"

record filter_outcome =
  fo_kept :: "model_candidate list"
  fo_rejected :: "(string \<times> string) list"

definition filter_step :: "user_requirements \<Rightarrow> filter_outcome \<Rightarrow> model_candidate \<Rightarrow> filter_outcome" where
  "filter_step req out c =
     (case rejection_reason c req of
        Some r \<Rightarrow> out\<lparr>fo_rejected := fo_rejected out @ [(cd_repo_id c, r)]\<rparr>
      | None \<Rightarrow> out\<lparr>fo_kept := fo_kept out @ [apply_penalties c]\<rparr>)"

definition filter_candidates :: "model_candidate list \<Rightarrow> user_requirements \<Rightarrow> filter_outcome" where
  "filter_candidates cs req = foldl (filter_step req) \<lparr>fo_kept = [], fo_rejected = []\<rparr> cs"

section \<open>Hints in the name\<close>

definition PARAM_COUNT_RE :: rx where
  "PARAM_COUNT_RE = rx_seq
     [NotBehind (\<lambda>c. is_letter c \<or> is_digit c \<or> c = CHR ''.''), Capture 1 rx_number, rx_blanks,
      Cls (in_chars ''bB''), NotAhead (Cls is_letter)]"

definition parameter_count_hint :: "string \<Rightarrow> py_float option" where
  "parameter_count_hint r =
     (case map (\<lambda>m. decimal_float (rx_group_text m 1)) (rx_all PARAM_COUNT_RE r) of
        [] \<Rightarrow> None | x # xs \<Rightarrow> Some (foldl float_max x xs))"

definition QUANT_RE :: rx where
  "QUANT_RE = rx_seq
     [NotBehind (\<lambda>c. is_digit c \<or> c \<in> set ''abcdefghijklmnopqrstuvwxyz''), rx_text ''q'',
      Capture 1 (Cls (in_chars ''2345678'')),
      Maybe (Alt (Cat (rx_text ''_k'') (Maybe (Cat (rx_text ''_'') (Cls (in_chars ''ms''))))) (rx_text ''_0'')),
      NotAhead (Cls (\<lambda>c. is_digit c \<or> c \<in> set ''abcdefghijklmnopqrstuvwxyz''))]"

definition COARSE_DEFAULT_QUANTIZATION :: string where
  "COARSE_DEFAULT_QUANTIZATION = lower DEFAULT_GGUF_QUANTIZATION"

definition quantization_hint :: "model_candidate \<Rightarrow> string" where
  "quantization_hint c =
     (let h = lower (if is_gguf_candidate c then cd_repo_id c else named_or_tagged c) in
      if contains h ''awq'' then ''awq''
      else if contains h ''gptq'' then ''gptq''
      else if contains h ''int8'' \<or> contains h ''8-bit'' then ''int8''
      else if contains h ''int4'' \<or> contains h ''4-bit'' then ''int4''
      else if contains h ''bfloat16'' \<or> contains h ''bf16'' then ''bfloat16''
      else if contains h ''float16'' \<or> contains h ''fp16'' then ''float16''
      else
        (case rx_search QUANT_RE h of
           Some m \<Rightarrow> ''q'' @ rx_group_text m 1
         | None \<Rightarrow> if is_gguf_candidate c then COARSE_DEFAULT_QUANTIZATION else ''float16''))"

definition COARSE_BYTES_PER_PARAM :: "(string, py_float) dict" where
  "COARSE_BYTES_PER_PARAM =
     [(''q2'', hundredths 35), (''q3'', hundredths 45), (''q4'', hundredths 60), (''q5'', hundredths 72),
      (''q6'', hundredths 86), (''q8'', hundredths 105), (''int4'', hundredths 60), (''awq'', hundredths 60),
      (''gptq'', hundredths 60), (''int8'', hundredths 105), (''float16'', hundredths 200),
      (''bfloat16'', hundredths 200)]"

definition bytes_per_parameter_hint :: "string \<Rightarrow> py_float" where
  "bytes_per_parameter_hint q =
     opt_default
       (dict_get COARSE_BYTES_PER_PARAM (if startswith q ''q'' \<and> 2 \<le> length q then take 2 q else q))
       (hundredths 60)"

section \<open>Coarse memory\<close>

definition CUDA_ONLY_QUANTIZATIONS :: "string list" where
  "CUDA_ONLY_QUANTIZATIONS = [''awq'', ''gptq'']"

definition supported_backends :: "model_candidate \<Rightarrow> compute_backend list" where
  "supported_backends c =
     (if is_gguf_candidate c then [CUDA, HIP, VULKAN]
      else if quantization_hint c \<in> set CUDA_ONLY_QUANTIZATIONS then [CUDA]
      else [CUDA, HIP])"

definition device_capacity :: "compute_backend list \<Rightarrow> accelerator_profile \<Rightarrow> int option" where
  "device_capacity supported a =
     (case dedicated_memory_bytes a of
        None \<Rightarrow> None
      | Some n \<Rightarrow>
          if is_discrete a \<and> 0 < n \<and>
             list_ex (\<lambda>b. backend b \<in> set supported \<and> availability b = AVAILABLE \<and> \<not> software_renderer b) (backends a)
          then Some n else None)"

definition candidate_vram_bytes :: "model_candidate \<Rightarrow> hardware_profile \<Rightarrow> int option" where
  "candidate_vram_bytes c hw =
     max_default (List.map_filter (device_capacity (supported_backends c)) (accelerators hw) @
       (if accelerators hw = [] \<and> CUDA \<in> set (supported_backends c) then map vram_total_bytes (gpus hw) else []))"

definition has_unified_memory :: "hardware_profile \<Rightarrow> bool" where
  "has_unified_memory hw \<longleftrightarrow>
     planning_accelerator_memory_bytes hw = None \<and> list_ex shared_memory (accelerators hw)"

definition coarse_kv_cache_bytes :: "py_float \<Rightarrow> user_requirements \<Rightarrow> int" where
  "coarse_kv_cache_bytes billions req =
     (let context = float_max float_one (round_ratio (ur_desired_context req) 4096);
          users = float_of_int (max 1 (ur_concurrent_users req)) in
      float_trunc (float_mult
        (float_max (hundredths 15)
          (float_mult (float_mult (float_mult billions (round_ratio 35 1000)) context) users))
        (float_of_int (1024 ^ 3))))"

definition coarse_overhead_bytes :: "int \<Rightarrow> int" where
  "coarse_overhead_bytes weights =
     max OVERHEAD_MIN_BYTES
       (float_trunc (float_add (float_of_int OVERHEAD_BASE_BYTES)
         (float_mult (float_of_int weights) OVERHEAD_WEIGHT_FRACTION)))"

definition with_safety_margin :: "int \<Rightarrow> int" where
  "with_safety_margin n =
     float_ceil (float_mult (float_of_int n)
       (float_add float_one (float_divide SAFETY_MARGIN_DEFAULT_PERCENT (float_of_int 100))))"

definition split_proportionally :: "int \<Rightarrow> int \<Rightarrow> int \<Rightarrow> int" where
  "split_proportionally amount part whole =
     (if whole \<le> 0 then 0
      else min amount (max 0 (float_trunc (float_mult (float_of_int amount) (round_ratio part whole)))))"

definition gpu_share_required :: "int \<Rightarrow> int \<Rightarrow> int \<Rightarrow> int \<Rightarrow> int" where
  "gpu_share_required weights kv overhead x =
     with_safety_margin (kv + DEVICE_RESERVE_DEFAULT_BYTES + x + split_proportionally overhead x weights)"

text \<open>The binary search; the measure is the width of the interval.\<close>

function gpu_weight_search :: "int \<Rightarrow> int \<Rightarrow> int \<Rightarrow> int \<Rightarrow> int \<Rightarrow> int \<Rightarrow> int" where
  "gpu_weight_search weights kv overhead vram low high =
     (if low < high then
        (let mid = (low + high + 1) div 2 in
         if gpu_share_required weights kv overhead mid \<le> vram
         then gpu_weight_search weights kv overhead vram mid high
         else gpu_weight_search weights kv overhead vram low (mid - 1))
      else low)"
  by pat_completeness auto
termination
  by (relation "measure (\<lambda>(weights, kv, overhead, vram, low, high). nat (high - low))") auto

declare gpu_weight_search.simps [simp del]

definition max_gpu_weight_bytes :: "int \<Rightarrow> int \<Rightarrow> int \<Rightarrow> int \<Rightarrow> int" where
  "max_gpu_weight_bytes weights kv overhead vram = gpu_weight_search weights kv overhead vram 0 weights"

section \<open>The coarse placement\<close>

record coarse_hint =
  ch_mode :: "hardware_fit_mode option"
  ch_method :: placement_method
  ch_confidence :: estimation_confidence
  ch_weight_bytes :: "int option"
  ch_total_bytes :: "int option"
  ch_gpu_required :: "int option"
  ch_ram_required :: "int option"
  ch_gpu_weight :: int
  ch_ram_weight :: int
  ch_quantization :: "string option"
  ch_reason :: string

definition unknown_hint :: coarse_hint where
  "unknown_hint =
     \<lparr>ch_mode = None, ch_method = PLACEMENT_NONE, ch_confidence = CONF_UNKNOWN, ch_weight_bytes = None,
      ch_total_bytes = None, ch_gpu_required = None, ch_ram_required = None, ch_gpu_weight = 0,
      ch_ram_weight = 0, ch_quantization = None,
      ch_reason = ''No parameter-count hint is available before inspection.''\<rparr>"

definition hint_of :: "hardware_fit_mode \<Rightarrow> int \<Rightarrow> int \<Rightarrow> string \<Rightarrow> string \<Rightarrow> coarse_hint" where
  "hint_of mode weights amount quantization reason =
     unknown_hint\<lparr>ch_mode := Some mode,
       ch_method := (if mode = TOO_LARGE then PLACEMENT_NONE else ESTIMATED_BYTES), ch_confidence := CONF_LOW,
       ch_weight_bytes := Some weights, ch_total_bytes := Some amount, ch_quantization := Some quantization,
       ch_reason := reason\<rparr>"

definition coarse_offload_hint :: "int \<Rightarrow> int \<Rightarrow> int \<Rightarrow> int \<Rightarrow> int \<Rightarrow> string \<Rightarrow> coarse_hint option" where
  "coarse_offload_hint weights kv overhead vram ram quantization =
     (let fixed = kv + DEVICE_RESERVE_DEFAULT_BYTES in
      if vram \<le> with_safety_margin fixed then None
      else
        (let gpu_weight = max_gpu_weight_bytes weights kv overhead vram; ram_weight = weights - gpu_weight in
         if ram_weight \<le> 0 \<or> float_less (round_ratio gpu_weight weights) (hundredths 10) then None
         else
           (let gpu_overhead = split_proportionally overhead gpu_weight weights;
                gpu_required = with_safety_margin (fixed + gpu_weight + gpu_overhead);
                ram_required = with_safety_margin (ram_weight + (overhead - gpu_overhead)) in
            if gpu_required \<le> vram \<and> ram_required \<le> ram then
              Some ((hint_of GPU_OFFLOAD weights (gpu_required + ram_required) quantization
                  ''Coarse byte placement fits GPU weights plus host spillover.'')
                \<lparr>ch_gpu_required := Some gpu_required, ch_ram_required := Some ram_required,
                  ch_gpu_weight := gpu_weight, ch_ram_weight := ram_weight\<rparr>)
            else None)))"

definition host_hint :: "hardware_fit_mode \<Rightarrow> int \<Rightarrow> int \<Rightarrow> string \<Rightarrow> string \<Rightarrow> coarse_hint" where
  "host_hint mode weights amount quantization reason =
     (hint_of mode weights amount quantization reason)\<lparr>ch_ram_required := Some amount, ch_ram_weight := weights\<rparr>"

definition coarse_weights :: "py_float \<Rightarrow> string \<Rightarrow> int" where
  "coarse_weights billions quantization =
     max 1 (float_trunc (float_mult (float_mult billions (float_of_int (10 ^ 9)))
       (bytes_per_parameter_hint quantization)))"

definition placed_hint ::
  "int \<Rightarrow> int \<Rightarrow> int \<Rightarrow> int \<Rightarrow> int \<Rightarrow> string \<Rightarrow> coarse_hint" where
  "placed_hint weights kv overhead vram ram quantization =
     (let cpu_total = with_safety_margin (weights + kv + overhead);
          resident = with_safety_margin (weights + kv + overhead + DEVICE_RESERVE_DEFAULT_BYTES) in
      if resident \<le> vram then
        (hint_of GPU_RESIDENT weights resident quantization ''Coarse estimate fits fully in GPU memory.'')
          \<lparr>ch_gpu_required := Some resident, ch_gpu_weight := weights\<rparr>
      else
        (case coarse_offload_hint weights kv overhead vram ram quantization of
           Some h \<Rightarrow> h
         | None \<Rightarrow>
             if cpu_total \<le> ram then
               host_hint CPU_RAM weights cpu_total quantization
                 ''Coarse GPU placement is not viable, but CPU RAM is plausible.''
             else
               (host_hint TOO_LARGE weights cpu_total quantization
                 ''No coarse GPU or CPU placement fits the planning budget.'')\<lparr>ch_gpu_required := Some resident\<rparr>))"

definition sized_hint ::
  "model_candidate \<Rightarrow> user_requirements \<Rightarrow> hardware_profile \<Rightarrow> py_float \<Rightarrow> coarse_hint" where
  "sized_hint c req hw billions =
     (let quantization = quantization_hint c; weights = coarse_weights billions quantization;
          kv = coarse_kv_cache_bytes billions req; overhead = coarse_overhead_bytes weights;
          ram = mem_total_bytes (memory hw); cpu_total = with_safety_margin (weights + kv + overhead) in
      if quantization \<in> set CUDA_ONLY_QUANTIZATIONS \<and> \<not> is_gguf_candidate c \<and>
         CUDA \<notin> available_compute_backends hw then
        hint_of TOO_LARGE weights cpu_total quantization ''AWQ/GPTQ loading requires an available CUDA backend.''
      else
        (case (if has_unified_memory hw then None else candidate_vram_bytes c hw) of
           None \<Rightarrow>
             if cpu_total \<le> ram then
               host_hint CPU_RAM weights cpu_total quantization ''Coarse estimate fits system memory.''
             else host_hint TOO_LARGE weights cpu_total quantization ''Coarse estimate exceeds system memory.''
         | Some vram \<Rightarrow> placed_hint weights kv overhead vram ram quantization))"

definition coarse_placement_hint ::
  "model_candidate \<Rightarrow> user_requirements \<Rightarrow> hardware_profile \<Rightarrow> coarse_hint" where
  "coarse_placement_hint c req hw =
     (case parameter_count_hint (cd_repo_id c) of
        None \<Rightarrow> unknown_hint | Some billions \<Rightarrow> sized_hint c req hw billions)"

section \<open>The largest model of a machine\<close>

definition needed_bytes :: "user_requirements \<Rightarrow> py_float \<Rightarrow> int" where
  "needed_bytes req billions =
     (let weights = float_trunc (float_mult (float_mult billions (float_of_int (10 ^ 9)))
            (bytes_per_parameter_hint COARSE_DEFAULT_QUANTIZATION)) in
      with_safety_margin (coarse_kv_cache_bytes billions req + DEVICE_RESERVE_DEFAULT_BYTES + weights +
        coarse_overhead_bytes weights))"

fun bisect_billions :: "nat \<Rightarrow> user_requirements \<Rightarrow> int \<Rightarrow> py_float \<Rightarrow> py_float \<Rightarrow> py_float" where
  "bisect_billions 0 req pool low high = low"
| "bisect_billions (Suc n) req pool low high =
     (let middle = float_divide (float_add low high) (float_of_int 2) in
      if needed_bytes req middle \<le> pool then bisect_billions n req pool middle high
      else bisect_billions n req pool low middle)"

definition largest_fitting_billions :: "hardware_profile \<Rightarrow> user_requirements \<Rightarrow> py_float option" where
  "largest_fitting_billions hw req =
     (let pool = (case planning_accelerator_memory_bytes hw of
                    Some n \<Rightarrow> if n = 0 then mem_total_bytes (memory hw) else n
                  | None \<Rightarrow> mem_total_bytes (memory hw)) in
      if pool = 0 then None else Some (bisect_billions 40 req pool float_zero (float_of_int 1000)))"

section \<open>Size classes\<close>

definition SCALE_BUCKETS :: "(py_float \<times> string) list" where
  "SCALE_BUCKETS =
     [(float_of_int 1, ''tiny''), (float_of_int 4, ''small''), (float_of_int 14, ''medium''),
      (float_of_int 32, ''large'')]"

definition scale_bucket :: "py_float option \<Rightarrow> string" where
  "scale_bucket billions =
     (case billions of
        None \<Rightarrow> ''unknown''
      | Some b \<Rightarrow>
          (case List.find (\<lambda>(u, l). float_le b u) SCALE_BUCKETS of Some (u, l) \<Rightarrow> l | None \<Rightarrow> ''huge''))"

definition scale_order :: "py_float option \<Rightarrow> int" where
  "scale_order billions =
     int (index_of [''tiny'', ''small'', ''medium'', ''large'', ''huge'', ''unknown''] (scale_bucket billions))"

definition needs_small_model_coverage :: "py_float option \<Rightarrow> bool" where
  "needs_small_model_coverage most =
     (case most of None \<Rightarrow> False | Some m \<Rightarrow> float_less float_zero m \<and> float_le m (float_of_int 14))"

definition size_bands :: "py_float \<Rightarrow> (py_float \<times> py_float) list" where
  "size_bands most =
     (if float_le most float_zero then []
      else
        (let small = needs_small_model_coverage (Some most);
             lower = (if small then float_zero else float_of_int 4);
             bounds = map fst SCALE_BUCKETS @ (if small then [float_of_int 2] else []);
             inner = filter (\<lambda>u. float_less lower u \<and> float_less u most) (sort_key float_rat bounds);
             edges = lower # inner @ [most] in
         filter (\<lambda>(low, high). float_less low high) (zip edges (tl edges))))"

section \<open>The largest device share\<close>

lemma with_safety_margin_mono: "m \<le> n \<Longrightarrow> with_safety_margin m \<le> with_safety_margin n"
proof -
  assume mn: "m \<le> n"
  define f where "f = float_value (float_add float_one (float_divide SAFETY_MARGIN_DEFAULT_PERCENT (float_of_int 100)))"
  have pct: "0 < mantissa (float_of_int 100)" by code_simp
  have "0 \<le> float_value (float_divide SAFETY_MARGIN_DEFAULT_PERCENT (float_of_int 100))"
    unfolding value_float_divide [OF pct]
    by (intro rnd_nonneg divide_nonneg_nonneg)
       (simp_all add: SAFETY_MARGIN_DEFAULT_PERCENT_def value_float_of_int rnd_nonneg)
  then have "0 \<le> f" by (simp add: f_def value_float_add rnd_nonneg)
  then have "rnd (rnd (real_of_int m) * f) \<le> rnd (rnd (real_of_int n) * f)"
    using mn by (intro rnd_mono mult_right_mono) simp_all
  then show ?thesis
    by (simp only: with_safety_margin_def float_ceil_eq value_float_mult value_float_of_int f_def ceiling_mono)
qed

lemma split_proportionally_mono:
  assumes "x \<le> y" "0 \<le> x" "0 \<le> amount" shows "split_proportionally amount x whole \<le> split_proportionally amount y whole"
proof (cases "0 < whole")
  case True
  have v: "0 \<le> float_value (float_mult (float_of_int amount) (round_ratio z whole))" if "0 \<le> z" for z
    using that True assms(3)
    by (simp add: value_float_mult value_float_of_int value_round_ratio rnd_nonneg)
  have "float_value (float_mult (float_of_int amount) (round_ratio x whole)) \<le>
      float_value (float_mult (float_of_int amount) (round_ratio y whole))"
    using True assms
    by (simp add: value_float_mult value_float_of_int value_round_ratio)
       (intro rnd_mono mult_left_mono; simp add: rnd_nonneg divide_right_mono)
  then have "float_trunc (float_mult (float_of_int amount) (round_ratio x whole)) \<le>
      float_trunc (float_mult (float_of_int amount) (round_ratio y whole))"
    using v [of x] v [of y] assms(1,2) by (simp add: float_trunc_eq floor_mono)
  then show ?thesis using True by (simp add: split_proportionally_def)
qed (simp add: split_proportionally_def)

lemma gpu_share_required_mono:
  assumes "x \<le> y" "0 \<le> x" "0 \<le> overhead"
  shows "gpu_share_required weights kv overhead x \<le> gpu_share_required weights kv overhead y"
  using split_proportionally_mono [OF assms, of weights] assms(1)
  by (auto simp: gpu_share_required_def intro!: with_safety_margin_mono)

text \<open>The search keeps: nothing above the interval fits, and its lower end does once it has moved.\<close>

lemma gpu_weight_search_range:
  "low \<le> high \<Longrightarrow>
   low \<le> gpu_weight_search weights kv overhead vram low high \<and>
   gpu_weight_search weights kv overhead vram low high \<le> high"
proof (induction weights kv overhead vram low high rule: gpu_weight_search.induct)
  case (1 weights kv overhead vram low high)
  then show ?case by (subst (1 2) gpu_weight_search.simps) (force simp: Let_def)
qed

lemma gpu_weight_search_stops:
  assumes "low \<le> high" "high = weights \<or> vram < gpu_share_required weights kv overhead (high + 1)"
  shows "gpu_weight_search weights kv overhead vram low high = weights \<or>
    vram < gpu_share_required weights kv overhead (gpu_weight_search weights kv overhead vram low high + 1)"
  using assms
proof (induction weights kv overhead vram low high rule: gpu_weight_search.induct)
  case (1 weights kv overhead vram low high)
  define mid where "mid = (low + high + 1) div 2"
  show ?case
  proof (cases "low < high")
    case True
    then have m: "low < mid" "mid \<le> high" by (auto simp: mid_def)
    show ?thesis
    proof (cases "gpu_share_required weights kv overhead mid \<le> vram")
      case fits: True
      have "gpu_weight_search weights kv overhead vram low high = gpu_weight_search weights kv overhead vram mid high"
        using True fits by (subst gpu_weight_search.simps) (simp add: Let_def mid_def)
      then show ?thesis using "1.IH"(1) [OF True mid_def fits] "1.prems" m by simp
    next
      case False
      have "gpu_weight_search weights kv overhead vram low high = gpu_weight_search weights kv overhead vram low (mid - 1)"
        using True False by (subst gpu_weight_search.simps) (simp add: Let_def mid_def)
      then show ?thesis using "1.IH"(2) [OF True mid_def False] "1.prems" m False by simp
    qed
  next
    case False
    then show ?thesis using "1.prems" by (simp add: gpu_weight_search.simps)
  qed
qed

text \<open>
  C34. A coarse offload placement is honest and takes all the device can hold: what it needs on each side is
  within that side's memory, the two shares add up to the weights with a real share on the host, and
  no larger device share would have fitted.
\<close>
theorem coarse_offload_is_largest:
  assumes "coarse_offload_hint weights kv overhead vram ram quantization = Some h" "0 \<le> weights" "0 \<le> overhead"
  shows "(\<exists>need. ch_gpu_required h = Some need \<and> need \<le> vram) \<and>
    (\<exists>need. ch_ram_required h = Some need \<and> need \<le> ram) \<and>
    ch_gpu_weight h + ch_ram_weight h = weights \<and> 0 \<le> ch_gpu_weight h \<and> 0 < ch_ram_weight h \<and>
    (\<forall>share. vram < gpu_share_required weights kv overhead share \<or> share \<le> ch_gpu_weight h)"
proof -
  define g where "g = max_gpu_weight_bytes weights kv overhead vram"
  have h: "g < weights" "ch_gpu_weight h = g" "ch_ram_weight h = weights - g"
    "\<exists>need. ch_gpu_required h = Some need \<and> need \<le> vram" "\<exists>need. ch_ram_required h = Some need \<and> need \<le> ram"
    using assms(1) by (auto simp: coarse_offload_hint_def Let_def g_def split: if_splits)
  have g: "0 \<le> g" using gpu_weight_search_range [OF assms(2)] by (simp add: g_def max_gpu_weight_bytes_def)
  have "vram < gpu_share_required weights kv overhead (g + 1)"
    using gpu_weight_search_stops [OF assms(2), of weights vram kv overhead] h(1)
    by (simp add: g_def max_gpu_weight_bytes_def)
  then have "vram < gpu_share_required weights kv overhead share \<or> share \<le> g" for share
    using gpu_share_required_mono [of "g + 1" share overhead weights kv] g assms(3) by fastforce
  then show ?thesis using h g by auto
qed

lemma example_offload:
  "coarse_offload_hint 1073741824 1 0 1200000000 (16 * 1024 ^ 3) ''q4'' \<noteq> None"
  by code_simp

lemma coarse_offload_is_largest_witness:
  "\<exists>h. coarse_offload_hint 1073741824 1 0 1200000000 (16 * 1024 ^ 3) ''q4'' = Some h \<and>
     ch_gpu_weight h + ch_ram_weight h = 1073741824 \<and> 0 < ch_ram_weight h"
proof -
  obtain h where "coarse_offload_hint 1073741824 1 0 1200000000 (16 * 1024 ^ 3) ''q4'' = Some h"
    using example_offload by blast
  with coarse_offload_is_largest [OF this] show ?thesis by auto
qed

section \<open>What merging and filtering keep\<close>

lemma merged_with_repo_id [simp]: "cd_repo_id (merged_with a b) = cd_repo_id a"
  by (simp add: merged_with_def Let_def)

lemma keys_of_set: "map fst (dict_set d k v) = (if k \<in> set (map fst d) then map fst d else map fst d @ [k])"
  unfolding dict_set_def by (induction d) auto

lemma add_sighting_keys:
  assumes "\<forall>(k, c) \<in> set d. cd_repo_id c = k"
  shows "map fst (add_sighting d c) =
      (if cd_repo_id c = [] \<or> cd_repo_id c \<in> set (map fst d) then map fst d else map fst d @ [cd_repo_id c])"
    and "\<forall>(k, c) \<in> set (add_sighting d c). cd_repo_id c = k"
proof -
  show "map fst (add_sighting d c) =
      (if cd_repo_id c = [] \<or> cd_repo_id c \<in> set (map fst d) then map fst d else map fst d @ [cd_repo_id c])"
    by (simp add: add_sighting_def keys_of_set)
  define v where "v = (case dict_get d (cd_repo_id c) of None \<Rightarrow> c | Some old \<Rightarrow> merged_with old c)"
  have "set (dict_set d k v) \<subseteq> insert (k, v) (set d)" for k
    unfolding dict_set_def by (induction d) auto
  then have sub: "set (add_sighting d c) \<subseteq> insert (cd_repo_id c, v) (set d)"
    by (auto simp: add_sighting_def v_def)
  have "cd_repo_id v = cd_repo_id c"
    using assms by (auto simp: v_def dict_get_def dest!: map_of_SomeD split: option.split)
  then show "\<forall>(k, c) \<in> set (add_sighting d c). cd_repo_id c = k"
    using sub assms by blast
qed

definition first_sightings :: "string list \<Rightarrow> string list" where
  "first_sightings ids = rev (remdups (rev (filter (\<lambda>r. r \<noteq> []) ids)))"

lemma first_sightings_snoc:
  "first_sightings (ids @ [r]) =
     (if r = [] \<or> r \<in> set (first_sightings ids) then first_sightings ids else first_sightings ids @ [r])"
  by (auto simp: first_sightings_def)

lemma sightings_keys:
  "map fst (foldl add_sighting [] cs) = first_sightings (map cd_repo_id cs) \<and>
   (\<forall>(k, c) \<in> set (foldl add_sighting [] cs). cd_repo_id c = k)"
proof (induction cs rule: rev_induct)
  case (snoc c cs)
  then show ?case
    using add_sighting_keys [of "foldl add_sighting [] cs" c] by (simp add: first_sightings_snoc)
qed (simp add: first_sightings_def)

lemma deduplicate_ids: "map cd_repo_id (deduplicate cs) = first_sightings (map cd_repo_id cs)"
proof -
  have "map (cd_repo_id \<circ> snd) (foldl add_sighting [] cs) = map fst (foldl add_sighting [] cs)"
    using conjunct2 [OF sightings_keys [of cs]] by (intro map_cong) auto
  then show ?thesis using sightings_keys [of cs] by (simp add: deduplicate_def)
qed

lemma filter_fold:
  "foldl (filter_step req) out cs =
     out\<lparr>fo_kept := fo_kept out @ map apply_penalties (filter (\<lambda>c. rejection_reason c req = None) cs),
       fo_rejected := fo_rejected out @
         List.map_filter (\<lambda>c. map_option (Pair (cd_repo_id c)) (rejection_reason c req)) cs\<rparr>"
  by (induction cs arbitrary: out) (simp_all add: filter_step_def map_filter_simps split: option.split)


end
