(* ===== verification/Shortlist.thy ===== *)
theory Shortlist
  imports Candidate_Filter
begin

text \<open>
  The candidates worth inspecting (\<^verbatim>\<open>shortlist\<close> of \<^verbatim>\<open>discovery/candidate_filter.py\<close>): the
  pre-ranking by popularity when the machine is unknown, and the selection by coarse placement when
  it is known.  The logarithm of the C library and \<^verbatim>\<open>math.log(100)\<close> are parameters, as is the
  caller's test for a repository of another task; the optional audit record is left out.
\<close>

section \<open>Desirability\<close>

definition preferred_format_tag :: "user_requirements \<Rightarrow> model_candidate \<Rightarrow> bool" where
  "preferred_format_tag req c =
     (case ur_preferred_formats req of [] \<Rightarrow> False | f # fs \<Rightarrow> f \<in> set (lower_tags c))"

definition cheap_desirability ::
  "(int \<Rightarrow> py_float) \<Rightarrow> user_requirements \<Rightarrow> model_candidate \<Rightarrow> py_float" where
  "cheap_desirability log1p req c =
     float_sum
       [log1p (max 0 (cd_downloads c)),
        float_mult (hundredths 50) (log1p (max 0 (cd_likes c))),
        (if preferred_format_tag req c then float_of_int 2 else float_zero),
        float_mult (hundredths 75) (float_of_int (int (length (cd_source_queries c)) - 1)),
        float_mult (hundredths (- 50)) (float_of_int (int (length (cd_penalties c))))]"

definition size_bonus :: "model_candidate \<Rightarrow> py_float option \<Rightarrow> py_float" where
  "size_bonus c budget =
     (case (budget, parameter_count_hint (cd_repo_id c)) of
        (Some gib, Some billions) \<Rightarrow>
          (let smallest = float_mult billions (hundredths 60) in
           if float_less gib smallest then float_of_int (- 6)
           else if float_less (float_mult gib (hundredths 70)) smallest then hundredths (- 150)
           else hundredths 150)
      | _ \<Rightarrow> float_zero)"

text \<open>The slice \<^verbatim>\<open>xs[:n]\<close>: a negative bound counts from the end.\<close>

definition slice_to :: "int \<Rightarrow> 'a list \<Rightarrow> 'a list" where
  "slice_to n xs = take (if n < 0 then length xs - nat (- n) else nat n) xs"

definition popularity_shortlist ::
  "(int \<Rightarrow> py_float) \<Rightarrow> model_candidate list \<Rightarrow> user_requirements \<Rightarrow> int \<Rightarrow> int option \<Rightarrow> model_candidate list" where
  "popularity_shortlist log1p cs req limit budget =
     (let gib = (case budget of
                   Some n \<Rightarrow> if n = 0 then None else Some (round_ratio n (1024 ^ 3)) | None \<Rightarrow> None) in
      slice_to limit
        (sort_key (\<lambda>c. (- float_rat (float_add (cheap_desirability log1p req c) (size_bonus c gib)), cd_repo_id c)) cs))"

fun FIT_BONUS :: "hardware_fit_mode option \<Rightarrow> py_float" where
  "FIT_BONUS (Some GPU_RESIDENT) = float_of_int 4"
| "FIT_BONUS (Some GPU_OFFLOAD) = float_of_int 3"
| "FIT_BONUS (Some CPU_RAM) = hundredths 150"
| "FIT_BONUS None = float_zero"
| "FIT_BONUS (Some TOO_LARGE) = float_of_int (- 9)"

section \<open>Entries and their keys\<close>

record shortlist_entry =
  se_candidate :: model_candidate
  se_hint :: coarse_hint
  se_score :: py_float
  se_other_task :: bool

definition se_mode :: "shortlist_entry \<Rightarrow> hardware_fit_mode option" where
  "se_mode e = ch_mode (se_hint e)"

definition se_billions :: "shortlist_entry \<Rightarrow> py_float option" where
  "se_billions e = parameter_count_hint (cd_repo_id (se_candidate e))"

definition shortlist_entry_of ::
  "(int \<Rightarrow> py_float) \<Rightarrow> user_requirements \<Rightarrow> hardware_profile \<Rightarrow> (model_candidate \<Rightarrow> bool) \<Rightarrow>
   model_candidate \<Rightarrow> shortlist_entry" where
  "shortlist_entry_of log1p req hw other_task c =
     (let h = coarse_placement_hint c req hw in
      \<lparr>se_candidate = c, se_hint = h,
       se_score = float_add (cheap_desirability log1p req c) (FIT_BONUS (ch_mode h)),
       se_other_task = other_task c\<rparr>)"

definition has_text_execution_signal :: "model_candidate \<Rightarrow> bool" where
  "has_text_execution_signal c \<longleftrightarrow> is_gguf_candidate c \<or> cd_pipeline_tag c = Some TEXT_GENERATION_PIPELINE"

definition GENERIC_NAME_WORDS :: "string list" where
  "GENERIC_NAME_WORDS =
     [''instruct'', ''chat'', ''assistant'', ''gguf'', ''awq'', ''gptq'', ''safetensors'', ''model'']"

definition QUANT_TOKEN_RE :: rx where
  "QUANT_TOKEN_RE = rx_seq
     [rx_text ''q'', Cls (in_chars ''2345678''),
      Maybe (Alt (Cat (rx_text ''_k'') (Maybe (Cat (rx_text ''_'') (Cls (in_chars ''ms''))))) (rx_text ''_0''))]"

definition names_a_family :: "string \<Rightarrow> bool" where
  "names_a_family t \<longleftrightarrow>
     t \<noteq> [] \<and> t \<notin> set GENERIC_NAME_WORDS \<and> parameter_count_hint t = None \<and> rx_fullmatch QUANT_TOKEN_RE t = None"

definition name_family_key :: "model_candidate \<Rightarrow> string" where
  "name_family_key c =
     (case filter names_a_family
          (words_of (rx_sub (rx_some (Cls (in_chars ''-_.''))) '' '' (lower (last_segment (cd_repo_id c))))) of
        t # ts \<Rightarrow> t
      | [] \<Rightarrow> lower (takeWhile (\<lambda>x. x \<noteq> CHR ''/'') (cd_repo_id c)))"

text \<open>Two repositories with the same key are versions of one model.\<close>

definition version_key :: "shortlist_entry \<Rightarrow> string \<times> rat option" where
  "version_key e = (name_family_key (se_candidate e), map_option float_rat (se_billions e))"

definition kind_key :: "shortlist_entry \<Rightarrow> string \<times> string \<times> hardware_fit_mode option" where
  "kind_key e = (name_family_key (se_candidate e), scale_bucket (se_billions e), se_mode e)"

definition is_small :: "shortlist_entry \<Rightarrow> bool" where
  "is_small e \<longleftrightarrow> scale_bucket (se_billions e) \<in> {''tiny'', ''small''}"

definition mode_order :: "hardware_profile \<Rightarrow> hardware_fit_mode option \<Rightarrow> int" where
  "mode_order hw m =
     int (index_of
       (if planning_accelerator_memory_bytes hw = None \<or> has_unified_memory hw
        then [Some CPU_RAM, None, Some GPU_RESIDENT, Some GPU_OFFLOAD, Some TOO_LARGE]
        else [Some GPU_RESIDENT, Some GPU_OFFLOAD, Some CPU_RAM, None, Some TOO_LARGE]) m)"

definition best_first :: "shortlist_entry \<Rightarrow> bool \<times> rat \<times> string" where
  "best_first e = (se_other_task e, - float_rat (se_score e), cd_repo_id (se_candidate e))"

section \<open>Buckets\<close>

definition class_key :: "hardware_profile \<Rightarrow> bool \<Rightarrow> shortlist_entry \<Rightarrow> int \<times> int" where
  "class_key hw cover_small e =
     (mode_order hw (se_mode e),
      (let scale = scale_order (se_billions e) in
       if cover_small then
         2 * scale +
           (case se_billions e of
              None \<Rightarrow> 0
            | Some b \<Rightarrow> if float_less (float_of_int 2) b \<and> float_le b (float_of_int 4) then 1 else 0)
       else scale))"

definition group_shortlist_buckets ::
  "shortlist_entry list \<Rightarrow> hardware_profile \<Rightarrow> bool \<Rightarrow> shortlist_entry list list" where
  "group_shortlist_buckets es hw cover_small =
     map snd (sort_key fst (foldl (\<lambda>d e. setdefault_append d (class_key hw cover_small e) e) [] es))"

definition SCORE_TIE_EPSILON :: py_float where
  "SCORE_TIE_EPSILON = round_ratio 1 (10 ^ 9)"

text \<open>
  The places tied with the first entry, and the one taken: of an unseen family, else of an unseen
  kind, else the first.  What was seen is read off the entries selected so far.
\<close>

definition tied_places :: "shortlist_entry list \<Rightarrow> nat list" where
  "tied_places b =
     filter (\<lambda>n. float_le (float_minus (se_score (b ! 0)) SCORE_TIE_EPSILON) (se_score (b ! n)) \<and>
       se_other_task (b ! n) = se_other_task (b ! 0)) [0..<length b]"

definition unseen_kind :: "shortlist_entry list \<Rightarrow> shortlist_entry \<Rightarrow> bool" where
  "unseen_kind selected e \<longleftrightarrow> kind_key e \<notin> set (map kind_key selected)"

definition unseen_family :: "shortlist_entry list \<Rightarrow> shortlist_entry \<Rightarrow> bool" where
  "unseen_family selected e \<longleftrightarrow>
     name_family_key (se_candidate e) \<notin> set (map (name_family_key \<circ> se_candidate) selected)"

definition chosen_place :: "shortlist_entry list \<Rightarrow> shortlist_entry list \<Rightarrow> nat" where
  "chosen_place selected b =
     (case List.find (\<lambda>n. unseen_kind selected (b ! n) \<and> unseen_family selected (b ! n)) (tied_places b) of
        Some n \<Rightarrow> n
      | None \<Rightarrow>
          (case List.find (\<lambda>n. unseen_kind selected (b ! n)) (tied_places b) of
             Some n \<Rightarrow> n | None \<Rightarrow> (case tied_places b of [] \<Rightarrow> 0 | n # ns \<Rightarrow> n)))"

definition pop_bucket_candidate ::
  "shortlist_entry list \<Rightarrow> shortlist_entry list \<Rightarrow> (shortlist_entry \<times> shortlist_entry list) option" where
  "pop_bucket_candidate selected b =
     (if b = [] then None
      else (let n = chosen_place selected b in Some (b ! n, take n b @ drop (Suc n) b)))"

section \<open>Coverage\<close>

definition coverage_buckets ::
  "shortlist_entry list \<Rightarrow> hardware_profile \<Rightarrow> bool \<Rightarrow> shortlist_entry list list" where
  "coverage_buckets es hw cover_small =
     (let bs = map (sort_key best_first) (group_shortlist_buckets es hw cover_small) in
      if cover_small then sort_key (\<lambda>b. (mode_order hw (se_mode (b ! 0)), is_small (b ! 0))) bs else bs)"

definition best_class :: "hardware_profile \<Rightarrow> shortlist_entry list list \<Rightarrow> int option" where
  "best_class hw bs =
     (case map (\<lambda>b. mode_order hw (se_mode (b ! 0))) (filter (\<lambda>b. b \<noteq> [] \<and> se_mode (b ! 0) \<noteq> None) bs) of
        [] \<Rightarrow> None | n # ns \<Rightarrow> Some (foldl min n ns))"

definition larger_in_best_class :: "hardware_profile \<Rightarrow> shortlist_entry list list \<Rightarrow> bool" where
  "larger_in_best_class hw bs =
     list_ex (\<lambda>b. b \<noteq> [] \<and> se_mode (b ! 0) \<noteq> None \<and>
       Some (mode_order hw (se_mode (b ! 0))) = best_class hw bs \<and> \<not> is_small (b ! 0)) bs"

definition signalled_first :: "shortlist_entry \<Rightarrow> bool \<times> bool \<times> rat \<times> string" where
  "signalled_first e = (\<not> has_text_execution_signal (se_candidate e), best_first e)"

text \<open>The bucket as it is left, and whether an entry is taken from it.\<close>

definition covered_bucket ::
  "hardware_profile \<Rightarrow> bool \<Rightarrow> int option \<Rightarrow> bool \<Rightarrow> shortlist_entry list \<Rightarrow> shortlist_entry list \<times> bool" where
  "covered_bucket hw cover_small best larger b =
     (case se_mode (b ! 0) of
        None \<Rightarrow> (let s = sort_key signalled_first b in (s, has_text_execution_signal (se_candidate (s ! 0))))
      | Some m \<Rightarrow>
          (b, Some (mode_order hw (Some m)) = best \<and> \<not> (larger \<and> \<not> cover_small \<and> is_small (b ! 0))))"

text \<open>Once the limit is reached the remaining buckets stay as they are.\<close>

definition cover_bucket ::
  "hardware_profile \<Rightarrow> bool \<Rightarrow> int option \<Rightarrow> bool \<Rightarrow> nat \<Rightarrow>
   shortlist_entry list \<times> shortlist_entry list list \<Rightarrow> shortlist_entry list \<Rightarrow>
   shortlist_entry list \<times> shortlist_entry list list" where
  "cover_bucket hw cover_small best larger limit acc b =
     (case acc of (selected, done_buckets) \<Rightarrow>
        if limit \<le> length selected \<or> b = [] then (selected, done_buckets @ [b])
        else
          (case covered_bucket hw cover_small best larger b of (b', taken) \<Rightarrow>
             (case (if taken then pop_bucket_candidate selected b' else None) of
                None \<Rightarrow> (selected, done_buckets @ [b'])
              | Some (e, rest) \<Rightarrow> (selected @ [e], done_buckets @ [rest]))))"

definition cover_classes ::
  "hardware_profile \<Rightarrow> bool \<Rightarrow> nat \<Rightarrow> shortlist_entry list list \<Rightarrow>
   shortlist_entry list \<times> shortlist_entry list list" where
  "cover_classes hw cover_small limit bs =
     foldl (cover_bucket hw cover_small (best_class hw bs) (larger_in_best_class hw bs) limit) ([], []) bs"

section \<open>Relevance and exploration\<close>

record shortlist_setting =
  ss_hardware :: hardware_profile
  ss_cover_small :: bool
  ss_quality_scale :: bool
  ss_log1p :: "int \<Rightarrow> py_float"
  ss_max_gap :: py_float

definition relevance_key :: "shortlist_setting \<Rightarrow> shortlist_entry \<Rightarrow> int \<times> bool \<times> bool \<times> rat \<times> string" where
  "relevance_key st e =
     (mode_order (ss_hardware st) (se_mode e), (if \<not> ss_cover_small st then is_small e else False), best_first e)"

definition relevance_group :: "shortlist_setting \<Rightarrow> shortlist_entry list \<Rightarrow> shortlist_entry list" where
  "relevance_group st remaining =
     filter (\<lambda>e. mode_order (ss_hardware st) (se_mode e) = mode_order (ss_hardware st) (se_mode (remaining ! 0)) \<and>
       (ss_cover_small st \<or> is_small e = is_small (remaining ! 0)) \<and>
       se_other_task e = se_other_task (remaining ! 0)) remaining"

definition exploration_score :: "shortlist_setting \<Rightarrow> shortlist_entry \<Rightarrow> py_float" where
  "exploration_score st e =
     (if ss_quality_scale st then ss_log1p st (max 0 (cd_downloads (se_candidate e)))
      else float_minus (se_score e) (FIT_BONUS (se_mode e)))"

definition exploration_group :: "shortlist_setting \<Rightarrow> shortlist_entry list \<Rightarrow> shortlist_entry list" where
  "exploration_group st remaining =
     (if ss_quality_scale st \<and> se_mode (remaining ! 0) = Some GPU_RESIDENT then
        filter (\<lambda>e. se_mode e \<in> {Some GPU_RESIDENT, Some GPU_OFFLOAD} \<and> \<not> is_small e \<and>
          se_other_task e = se_other_task (remaining ! 0)) remaining
      else relevance_group st remaining)"

definition novel_entries ::
  "shortlist_setting \<Rightarrow> shortlist_entry list \<Rightarrow> shortlist_entry list \<Rightarrow> shortlist_entry list" where
  "novel_entries st selected remaining =
     (let lowest = float_minus (exploration_score st (relevance_group st remaining ! 0)) (ss_max_gap st) in
      filter (\<lambda>e. (if ss_quality_scale st then version_key e \<notin> set (map version_key selected)
                   else unseen_kind selected e) \<and>
        float_le lowest (exploration_score st e)) (exploration_group st remaining))"

definition explored_first :: "shortlist_setting \<Rightarrow> shortlist_entry \<Rightarrow> rat \<times> rat \<times> string" where
  "explored_first st e =
     ((if ss_quality_scale st then - opt_default (map_option float_rat (se_billions e)) 0
       else - of_int (scale_order (se_billions e))),
      - float_rat (se_score e), cd_repo_id (se_candidate e))"

text \<open>The group one slot is filled from, and whether that slot explores.\<close>

definition slot_group ::
  "shortlist_setting \<Rightarrow> nat \<Rightarrow> shortlist_entry list \<Rightarrow> shortlist_entry list \<Rightarrow> shortlist_entry list \<times> bool" where
  "slot_group st left selected remaining =
     (let novel = (if left = 0 then [] else novel_entries st selected remaining) in
      if novel = [] then (relevance_group st remaining, False)
      else (sort_key (explored_first st) novel, True))"

definition seen_version :: "shortlist_entry list \<Rightarrow> shortlist_entry \<Rightarrow> bool" where
  "seen_version selected e \<longleftrightarrow> version_key e \<in> set (map version_key selected)"

definition first_place :: "shortlist_entry list \<Rightarrow> shortlist_entry list \<Rightarrow> nat" where
  "first_place selected grp =
     opt_default (List.find (\<lambda>n. \<not> seen_version selected (grp ! n)) [0..<length grp]) 0"

definition tied_group :: "shortlist_entry list \<Rightarrow> shortlist_entry list \<Rightarrow> shortlist_entry list" where
  "tied_group selected grp =
     (let n = first_place selected grp; first = grp ! n in
      first # filter (\<lambda>e. float_le (float_abs (float_minus (se_score e) (se_score first))) SCORE_TIE_EPSILON \<and>
          (seen_version selected first \<or> \<not> seen_version selected e)) (take n grp @ drop (Suc n) grp))"

definition slot_pick ::
  "shortlist_setting \<Rightarrow> nat \<Rightarrow> shortlist_entry list \<Rightarrow> shortlist_entry list \<Rightarrow> (shortlist_entry \<times> bool) option" where
  "slot_pick st left selected remaining =
     (case slot_group st left selected remaining of (grp, explored) \<Rightarrow>
        map_option (\<lambda>(e, rest). (e, explored)) (pop_bucket_candidate selected (tied_group selected grp)))"

text \<open>The slots left bound the loop.\<close>

function fill_slots ::
  "shortlist_setting \<Rightarrow> nat \<Rightarrow> nat \<Rightarrow> shortlist_entry list \<Rightarrow> shortlist_entry list \<Rightarrow> shortlist_entry list" where
  "fill_slots st limit left selected remaining =
     (if remaining = [] \<or> limit \<le> length selected then selected
      else
        (let ordered = sort_key (relevance_key st) remaining in
         case slot_pick st left selected ordered of
           None \<Rightarrow> selected
         | Some (e, explored) \<Rightarrow>
             fill_slots st limit (if explored then left - 1 else left) (selected @ [e]) (remove1 e ordered)))"
  by pat_completeness auto
termination
  by (relation "measure (\<lambda>(st, limit, left, selected, remaining). limit - length selected)") auto

declare fill_slots.simps [simp del]

section \<open>The shortlist\<close>

definition MAX_TOO_LARGE_FALLBACKS :: nat where
  "MAX_TOO_LARGE_FALLBACKS = 2"

definition too_large_fallbacks :: "nat \<Rightarrow> shortlist_entry list \<Rightarrow> shortlist_entry list \<Rightarrow> shortlist_entry list" where
  "too_large_fallbacks limit selected too_large =
     (let es = sort_key (\<lambda>e. (- float_rat (se_score e), cd_repo_id (se_candidate e))) too_large in
      take (limit - length selected)
        (if selected = [] then take (min limit MAX_TOO_LARGE_FALLBACKS) es
         else take (min MAX_TOO_LARGE_FALLBACKS (limit - length selected)) es))"

definition plausible_entries :: "shortlist_entry list \<Rightarrow> shortlist_entry list" where
  "plausible_entries es = filter (\<lambda>e. se_mode e \<noteq> Some TOO_LARGE) es"

definition too_large_entries :: "shortlist_entry list \<Rightarrow> shortlist_entry list" where
  "too_large_entries es = filter (\<lambda>e. se_mode e = Some TOO_LARGE) es"

definition setting_of ::
  "(int \<Rightarrow> py_float) \<Rightarrow> py_float \<Rightarrow> user_requirements \<Rightarrow> hardware_profile \<Rightarrow> shortlist_setting" where
  "setting_of log1p max_gap req hw =
     (let cover_small = needs_small_model_coverage (largest_fitting_billions hw req) in
      \<lparr>ss_hardware = hw, ss_cover_small = cover_small,
       ss_quality_scale = (ur_priority req = QUALITY \<and> \<not> cover_small), ss_log1p = log1p, ss_max_gap = max_gap\<rparr>)"

definition selected_plausible :: "shortlist_setting \<Rightarrow> nat \<Rightarrow> shortlist_entry list \<Rightarrow> shortlist_entry list" where
  "selected_plausible st limit plausible =
     (case cover_classes (ss_hardware st) (ss_cover_small st) limit
          (coverage_buckets plausible (ss_hardware st) (ss_cover_small st)) of
        (selected, buckets) \<Rightarrow>
          fill_slots st limit (limit div (if ss_quality_scale st then 2 else 4)) selected (concat buckets))"

definition selected_entries :: "shortlist_setting \<Rightarrow> nat \<Rightarrow> shortlist_entry list \<Rightarrow> shortlist_entry list" where
  "selected_entries st limit es =
     (let selected = selected_plausible st limit (plausible_entries es) in
      selected @ too_large_fallbacks limit selected (too_large_entries es))"

definition hardware_aware_shortlist ::
  "(int \<Rightarrow> py_float) \<Rightarrow> py_float \<Rightarrow> (model_candidate \<Rightarrow> bool) \<Rightarrow> model_candidate list \<Rightarrow> user_requirements \<Rightarrow>
   int \<Rightarrow> hardware_profile \<Rightarrow> model_candidate list" where
  "hardware_aware_shortlist log1p max_gap other_task cs req limit hw =
     (if limit \<le> 0 then []
      else
        (let es = sort_key best_first (map (shortlist_entry_of log1p req hw other_task) cs) in
         map se_candidate
           (take (nat limit) (selected_entries (setting_of log1p max_gap req hw) (nat limit) es))))"

definition shortlist ::
  "(int \<Rightarrow> py_float) \<Rightarrow> py_float \<Rightarrow> (model_candidate \<Rightarrow> bool) \<Rightarrow> model_candidate list \<Rightarrow> user_requirements \<Rightarrow>
   int \<Rightarrow> int option \<Rightarrow> hardware_profile option \<Rightarrow> model_candidate list" where
  "shortlist log1p max_gap other_task cs req limit budget hw =
     (case hw of
        Some h \<Rightarrow> hardware_aware_shortlist log1p max_gap other_task cs req limit h
      | None \<Rightarrow> popularity_shortlist log1p cs req limit budget)"

section \<open>Nothing is lost or repeated\<close>

lemma mset_setdefault_append:
  "mset (concat (map snd (setdefault_append d k v))) = add_mset v (mset (concat (map snd d)))"
proof (induction d)
  case Nil
  show ?case by (simp add: setdefault_append_def dict_set_def dict_get_def opt_default_def)
next
  case (Cons p d)
  then show ?case by (cases p) (auto simp: setdefault_append_def dict_set_def dict_get_def opt_default_def)
qed

lemma mset_grouped:
  "mset (concat (map snd (foldl (\<lambda>d e. setdefault_append d (f e) e) d es))) = mset (concat (map snd d)) + mset es"
  by (induction es arbitrary: d) (simp_all add: mset_setdefault_append)

lemma mset_concat_sorted: "mset (concat (map g (sort_key f xs))) = mset (concat (map g xs))"
proof -
  have "mset (concat (map g xs)) = \<Sum>\<^sub># (image_mset (mset \<circ> g) (mset xs))" for xs
    by (induction xs) simp_all
  then show ?thesis by simp
qed

lemma mset_concat_map: assumes "\<And>b. mset (f b) = mset b" shows "mset (concat (map f bs)) = mset (concat bs)"
  by (induction bs) (simp_all add: assms)

lemma mset_buckets: "mset (concat (group_shortlist_buckets es hw small)) = mset es"
  by (simp add: group_shortlist_buckets_def mset_concat_sorted mset_grouped)

lemma mset_coverage_buckets: "mset (concat (coverage_buckets es hw small)) = mset es"
proof -
  have "mset (concat (map (sort_key best_first) (group_shortlist_buckets es hw small))) = mset es" for small
    by (subst mset_concat_map) (simp_all add: mset_buckets)
  then show ?thesis
    using mset_concat_sorted [of id "\<lambda>b. (mode_order hw (se_mode (b ! 0)), is_small (b ! 0))"]
    by (simp add: coverage_buckets_def Let_def)
qed

lemma chosen_place_in_range: "b \<noteq> [] \<Longrightarrow> chosen_place selected b < length b"
proof -
  assume b: "b \<noteq> []"
  have tied: "n < length b" if "n \<in> set (tied_places b)" for n using that by (simp add: tied_places_def)
  have found: "n < length b" if "List.find P (tied_places b) = Some n" for P n
    using that by (intro tied) (auto dest: find_Some_iff)
  have "(case tied_places b of [] \<Rightarrow> 0 | n # ns \<Rightarrow> n) < length b"
    using b tied by (cases "tied_places b") auto
  then show ?thesis unfolding chosen_place_def by (auto dest: found split: option.split)
qed

lemma pop_bucket_candidate_takes:
  assumes "pop_bucket_candidate selected b = Some (e, rest)" shows "mset b = add_mset e (mset rest)"
proof -
  have b: "b \<noteq> []" and e: "e = b ! chosen_place selected b"
    and rest: "rest = take (chosen_place selected b) b @ drop (Suc (chosen_place selected b)) b"
    using assms by (auto simp: pop_bucket_candidate_def Let_def split: if_splits)
  show ?thesis
    using id_take_nth_drop [OF chosen_place_in_range [OF b, of selected]] unfolding e rest
    by (metis add_mset_add_single mset.simps(2) mset_append union_mset_add_mset_right)
qed

lemma pop_bucket_candidate_None: "pop_bucket_candidate selected b = None \<longleftrightarrow> b = []"
  by (simp add: pop_bucket_candidate_def Let_def)

section \<open>The coverage pass\<close>

lemma cover_bucket_keeps:
  assumes "cover_bucket hw small best larger limit (selected, bs) b = (selected', bs')"
    and "length selected \<le> limit"
  shows "mset selected' + mset (concat bs') = mset selected + mset (concat bs) + mset b \<and> length selected' \<le> limit"
proof -
  obtain b' taken where c: "covered_bucket hw small best larger b = (b', taken)" by fastforce
  have b': "mset b' = mset b" using c
    by (auto simp: covered_bucket_def Let_def split: option.splits)
  show ?thesis using assms pop_bucket_candidate_takes [of selected b']
    by (auto simp: cover_bucket_def c b' split: if_splits option.splits)
qed

lemma cover_fold_keeps:
  assumes "foldl (cover_bucket hw small best larger limit) (selected, bs) cs = (selected', bs')"
    and "length selected \<le> limit"
  shows "mset selected' + mset (concat bs') = mset selected + mset (concat bs) + mset (concat cs) \<and>
    length selected' \<le> limit"
  using assms
proof (induction cs arbitrary: selected bs)
  case (Cons c cs)
  obtain s1 b1 where s1: "cover_bucket hw small best larger limit (selected, bs) c = (s1, b1)" by fastforce
  from cover_bucket_keeps [OF s1 Cons.prems(2)] Cons.IH [of s1 b1] Cons.prems(1)
  show ?case by (simp add: s1 union_ac)
qed simp

section \<open>The relevance loop\<close>

lemma set_relevance_group: "set (relevance_group st remaining) \<subseteq> set remaining"
  by (auto simp: relevance_group_def)

lemma relevance_group_nonempty: "remaining \<noteq> [] \<Longrightarrow> relevance_group st remaining \<noteq> []"
  by (cases remaining) (simp_all add: relevance_group_def)

lemma set_slot_group: "set (fst (slot_group st left selected remaining)) \<subseteq> set remaining"
proof -
  have "set (novel_entries st selected remaining) \<subseteq> set remaining"
    using set_relevance_group [of st remaining]
    by (auto simp: novel_entries_def exploration_group_def Let_def split: if_splits)
  then show ?thesis using set_relevance_group [of st remaining] by (auto simp: slot_group_def Let_def)
qed

lemma slot_group_nonempty:
  assumes "remaining \<noteq> []" shows "fst (slot_group st left selected remaining) \<noteq> []"
proof -
  have "sort_key (explored_first st) xs \<noteq> []" if "xs \<noteq> []" for xs
    using that by (metis length_0_conv length_sort)
  then show ?thesis using relevance_group_nonempty [OF assms] by (auto simp: slot_group_def Let_def)
qed

lemma set_tied_group: "g \<noteq> [] \<Longrightarrow> set (tied_group selected g) \<subseteq> set g"
proof -
  assume g: "g \<noteq> []"
  have "n < length g" if "List.find P [0..<length g] = Some n" for P n
    using that by (auto dest: find_Some_iff)
  then have "first_place selected g < length g"
    using g unfolding first_place_def opt_default_def by (auto split: option.split)
  then show ?thesis by (auto simp: tied_group_def Let_def dest: in_set_takeD in_set_dropD)
qed

lemma slot_pick_from_remaining:
  assumes "remaining \<noteq> []"
  obtains e explored where "slot_pick st left selected remaining = Some (e, explored)" "e \<in> set remaining"
proof -
  obtain g explored where g: "slot_group st left selected remaining = (g, explored)" by fastforce
  have "g \<noteq> []" "set g \<subseteq> set remaining"
    using slot_group_nonempty [OF assms, of st left selected] set_slot_group [of st left selected remaining]
    by (simp_all add: g)
  then have t: "tied_group selected g \<noteq> []" "set (tied_group selected g) \<subseteq> set remaining"
    using set_tied_group [of g selected] by (auto simp: tied_group_def Let_def)
  then obtain e rest where p: "pop_bucket_candidate selected (tied_group selected g) = Some (e, rest)"
    by (metis not_Some_eq pop_bucket_candidate_None surj_pair)
  moreover have "e \<in> set (tied_group selected g)"
    using pop_bucket_candidate_takes [OF p] by (metis set_mset_mset union_single_eq_member)
  ultimately show ?thesis using that t(2) by (auto simp: slot_pick_def g)
qed

lemma fill_slots_fills:
  "length selected \<le> limit \<Longrightarrow>
   \<exists>picked. fill_slots st limit left selected remaining = selected @ picked \<and>
     mset picked \<subseteq># mset remaining \<and>
     length (selected @ picked) = min limit (length selected + length remaining)"
proof (induction st limit left selected remaining rule: fill_slots.induct)
  case (1 st limit left selected remaining)
  show ?case
  proof (cases "remaining = [] \<or> limit \<le> length selected")
    case True
    then show ?thesis using 1(2) by (intro exI [of _ "[]"]) (auto simp: fill_slots.simps)
  next
    case False
    define ordered where "ordered = sort_key (relevance_key st) remaining"
    have ord: "mset ordered = mset remaining" "ordered \<noteq> []" "length ordered = length remaining"
      using False by (auto simp: ordered_def dest: arg_cong [where f = length])
    obtain e explored where pick: "slot_pick st left selected ordered = Some (e, explored)" "e \<in> set ordered"
      using slot_pick_from_remaining [OF ord(2)] by blast
    obtain picked where IH:
      "fill_slots st limit (if explored then left - 1 else left) (selected @ [e]) (remove1 e ordered) =
         (selected @ [e]) @ picked"
      "mset picked \<subseteq># mset (remove1 e ordered)"
      "length ((selected @ [e]) @ picked) = min limit (length (selected @ [e]) + length (remove1 e ordered))"
      using 1(1) [OF False ordered_def pick(1) refl] False by auto
    have "fill_slots st limit left selected remaining = selected @ (e # picked)"
      using False IH(1) by (simp add: fill_slots.simps [of st limit left selected remaining] pick flip: ordered_def)
    moreover have "mset (e # picked) \<subseteq># mset ordered"
      using IH(2) pick(2) by (simp add: insert_subset_eq_iff)
    moreover have "length (selected @ e # picked) = min limit (length selected + length remaining)"
      using IH(3) pick(2) ord(3) False by (cases remaining) (simp_all add: length_remove1)
    ultimately show ?thesis unfolding ord(1) by blast
  qed
qed

section \<open>The selection\<close>

lemma selected_plausible_fills:
  "mset (selected_plausible st limit es) \<subseteq># mset es \<and>
     length (selected_plausible st limit es) = min limit (length es)"
proof -
  define bs where "bs = coverage_buckets es (ss_hardware st) (ss_cover_small st)"
  obtain s b where c: "cover_classes (ss_hardware st) (ss_cover_small st) limit bs = (s, b)" by fastforce
  have keep: "mset s + mset (concat b) = mset es" "length s \<le> limit"
    using cover_fold_keeps [OF c [unfolded cover_classes_def]]
    by (simp_all add: bs_def mset_coverage_buckets)
  define left where "left = limit div (if ss_quality_scale st then 2 else 4)"
  obtain picked where p: "fill_slots st limit left s (concat b) = s @ picked"
    "mset picked \<subseteq># mset (concat b)" "length (s @ picked) = min limit (length s + length (concat b))"
    using fill_slots_fills [OF keep(2)] by blast
  have r: "selected_plausible st limit es = s @ picked"
    using p(1) by (simp add: selected_plausible_def c left_def flip: bs_def)
  have "length s + length (concat b) = length es" using keep(1) by (metis size_mset size_union)
  then show ?thesis using p(2,3) by (simp add: r flip: keep(1))
qed

lemma too_large_fallbacks_take:
  "mset (too_large_fallbacks limit selected ts) \<subseteq># mset ts \<and>
     length (too_large_fallbacks limit selected ts) = min (limit - length selected) (min 2 (length ts))"
proof -
  let ?es = "sort_key (\<lambda>e. (- float_rat (se_score e), cd_repo_id (se_candidate e))) ts"
  have "mset (take n ?es) \<subseteq># mset ts" for n
    by (metis append_take_drop_id mset_append mset_subset_eq_add_left mset_sort)
  then have sub: "mset (too_large_fallbacks limit selected ts) \<subseteq># mset ts"
    by (simp add: too_large_fallbacks_def Let_def del: mset_sort)
  have "length (too_large_fallbacks limit selected ts) = min (limit - length selected) (min 2 (length ts))"
    by (simp add: too_large_fallbacks_def Let_def MAX_TOO_LARGE_FALLBACKS_def min.left_commute min.commute)
  with sub show ?thesis ..
qed

definition too_large_for :: "user_requirements \<Rightarrow> hardware_profile \<Rightarrow> model_candidate \<Rightarrow> bool" where
  "too_large_for req hw c \<longleftrightarrow> ch_mode (coarse_placement_hint c req hw) = Some TOO_LARGE"

lemma entry_facts [simp]:
  "se_candidate (shortlist_entry_of log1p req hw t c) = c"
  "se_mode (shortlist_entry_of log1p req hw t c) = ch_mode (coarse_placement_hint c req hw)"
  by (simp_all add: shortlist_entry_of_def se_mode_def Let_def)

lemma mset_entries_of_class:
  defines "es log1p req hw t cs \<equiv> sort_key best_first (map (shortlist_entry_of log1p req hw t) cs)"
  shows "mset (map se_candidate (plausible_entries (es log1p req hw t cs))) = mset (filter (\<lambda>c. \<not> too_large_for req hw c) cs)"
    and "mset (map se_candidate (too_large_entries (es log1p req hw t cs))) = mset (filter (too_large_for req hw) cs)"
proof -
  have "mset (map se_candidate (filter P (sort_key best_first (map (shortlist_entry_of log1p req hw t) cs)))) =
      image_mset se_candidate (filter_mset P (image_mset (shortlist_entry_of log1p req hw t) (mset cs)))" for P
    by (simp add: mset_filter)
  then show "mset (map se_candidate (plausible_entries (es log1p req hw t cs))) = mset (filter (\<lambda>c. \<not> too_large_for req hw c) cs)"
    and "mset (map se_candidate (too_large_entries (es log1p req hw t cs))) = mset (filter (too_large_for req hw) cs)"
    by (simp_all add: es_def plausible_entries_def too_large_entries_def too_large_for_def
        filter_mset_image_mset image_mset.compositionality comp_def)
qed

lemma shortlist_split:
  assumes "0 < limit"
  obtains A B where "hardware_aware_shortlist log1p gap t cs req limit hw = A @ B"
    "mset A \<subseteq># mset (filter (\<lambda>c. \<not> too_large_for req hw c) cs)"
    "mset B \<subseteq># mset (filter (too_large_for req hw) cs)"
    "length A = min (nat limit) (length (filter (\<lambda>c. \<not> too_large_for req hw c) cs))"
    "length B = min (nat limit - length A) (min 2 (length (filter (too_large_for req hw) cs)))"
proof -
  define es where "es = sort_key best_first (map (shortlist_entry_of log1p req hw t) cs)"
  note classes = mset_entries_of_class [of log1p req hw t cs, folded es_def]
  define P where "P = selected_plausible (setting_of log1p gap req hw) (nat limit) (plausible_entries es)"
  define T where "T = too_large_fallbacks (nat limit) P (too_large_entries es)"
  have P: "mset P \<subseteq># mset (plausible_entries es)" "length P = min (nat limit) (length (plausible_entries es))"
    using selected_plausible_fills unfolding P_def by blast+
  have T: "mset T \<subseteq># mset (too_large_entries es)"
    "length T = min (nat limit - length P) (min 2 (length (too_large_entries es)))"
    using too_large_fallbacks_take unfolding T_def by blast+
  have "take (nat limit) (P @ T) = P @ T" using P(2) T(2) by simp
  then have r: "hardware_aware_shortlist log1p gap t cs req limit hw = map se_candidate P @ map se_candidate T"
    using assms
    by (simp only: hardware_aware_shortlist_def selected_entries_def Let_def not_le [symmetric] if_False
        map_append flip: es_def P_def T_def)
  have lens: "length (plausible_entries es) = length (filter (\<lambda>c. \<not> too_large_for req hw c) cs)"
    "length (too_large_entries es) = length (filter (too_large_for req hw) cs)"
    using classes by (metis length_map size_mset)+
  show ?thesis
  proof (rule that [OF r])
    show "mset (map se_candidate P) \<subseteq># mset (filter (\<lambda>c. \<not> too_large_for req hw c) cs)"
      using image_mset_subseteq_mono [OF P(1), of se_candidate] classes(1) by simp
    show "mset (map se_candidate T) \<subseteq># mset (filter (too_large_for req hw) cs)"
      using image_mset_subseteq_mono [OF T(1), of se_candidate] classes(2) by simp
    show "length (map se_candidate P) = min (nat limit) (length (filter (\<lambda>c. \<not> too_large_for req hw c) cs))"
      unfolding length_map P(2) lens(1) ..
    show "length (map se_candidate T) =
        min (nat limit - length (map se_candidate P)) (min 2 (length (filter (too_large_for req hw) cs)))"
      unfolding length_map T(2) lens(2) ..
  qed
qed

lemma all_of_sub: "mset xs \<subseteq># mset (filter P ys) \<Longrightarrow> \<forall>x \<in> set xs. P x"
  using mset_subset_eqD by fastforce

text \<open>
  C33. The shortlist of a known machine wastes no inspection: it holds candidates of the search, none more
  often than it was found, in the number the budget allows; every plausible candidate stands before
  one that is too large for the machine, at most two of those are kept, and only in the slots the
  plausible ones leave.
\<close>
theorem shortlist_fills_budget:
  "let out = hardware_aware_shortlist log1p gap other_task cs req limit hw;
       plausible = filter (\<lambda>c. \<not> too_large_for req hw c) in
   mset out \<subseteq># mset cs \<and>
   out = plausible out @ filter (too_large_for req hw) out \<and>
   length (plausible out) = min (nat limit) (length (plausible cs)) \<and>
   length (filter (too_large_for req hw) out) =
     min (nat limit - length (plausible cs)) (min 2 (length (filter (too_large_for req hw) cs)))"
proof (cases "0 < limit")
  case False
  then show ?thesis by (simp add: hardware_aware_shortlist_def)
next
  case True
  obtain A B where r: "hardware_aware_shortlist log1p gap other_task cs req limit hw = A @ B"
    and A: "mset A \<subseteq># mset (filter (\<lambda>c. \<not> too_large_for req hw c) cs)"
    and B: "mset B \<subseteq># mset (filter (too_large_for req hw) cs)"
    and len: "length A = min (nat limit) (length (filter (\<lambda>c. \<not> too_large_for req hw c) cs))"
      "length B = min (nat limit - length A) (min 2 (length (filter (too_large_for req hw) cs)))"
    by (rule shortlist_split [OF True])
  have parts: "filter (\<lambda>c. \<not> too_large_for req hw c) (A @ B) = A" "filter (too_large_for req hw) (A @ B) = B"
    using all_of_sub [OF A] all_of_sub [OF B] by (auto simp: filter_empty_conv filter_id_conv)
  have "mset (A @ B) \<subseteq># mset (filter (\<lambda>c. \<not> too_large_for req hw c) cs) + mset (filter (too_large_for req hw) cs)"
    using subset_mset.add_mono [OF A B] by simp
  also have "\<dots> = mset cs" by (simp add: mset_filter)
  finally have sub: "mset (A @ B) \<subseteq># mset cs" .
  have "n - min n m = n - m" for n m :: nat by simp
  then show ?thesis unfolding Let_def r parts using sub len by simp
qed

end
