(* ===== verification/Benchmark_Records.thy ===== *)
theory Benchmark_Records
  imports Plan_Assessment_Data
begin

text \<open>
  Stored measurements: the records of a benchmark and their validators (\<^verbatim>\<open>domain/benchmarks.py\<close>),
  what the recommendation reads of an experiment (\<^verbatim>\<open>domain/experiments.py\<close>,
  \<^verbatim>\<open>domain/execution.py\<close>), and the identity of a machine
  (\<^verbatim>\<open>evaluation/hardware_fingerprint.py\<close>).  A time is its instant in microseconds.
\<close>

section \<open>Benchmarks\<close>

datatype measurement_kind = PREFILL | GENERATION

datatype benchmark_failure =
    BF_EXECUTABLE_NOT_FOUND | BF_SPAWN_ERROR | BF_TIMEOUT | BF_NON_ZERO_EXIT | BF_PARSE_ERROR | BF_NOT_RUNNABLE

datatype bench_binary_status =
    BENCH_AVAILABLE | BENCH_MISSING | BENCH_NOT_EXECUTABLE | BENCH_PROBE_FAILED | BENCH_UNKNOWN

record bench_gpu_layers =
  gl_count :: "int option"
  gl_full_offload :: bool

record bench_measurement =
  bm_kind :: measurement_kind
  bm_tokens :: int
  bm_mean :: py_float
  bm_stddev :: py_float
  bm_mean_duration :: "py_float option"
  bm_stddev_duration :: "py_float option"
  bm_repetitions :: "int option"
  bm_source_label :: string
  bm_raw_backend :: "string option"
  bm_raw_device :: "string option"
  bm_raw_ngl :: "string option"

record bench_protocol =
  bp_build_commit :: "string option"
  bp_build_number :: "int option"
  bp_n_threads :: "int option"
  bp_n_batch :: "int option"
  bp_n_ubatch :: "int option"
  bp_cache_type_k :: "string option"
  bp_cache_type_v :: "string option"
  bp_flash_attn :: "string option"
  bp_load_mode :: "string option"
  bp_warmup :: "string option"
  bp_thread_policy :: "string option"

record bench_observation =
  bo_success :: bool
  bo_measurements :: "bench_measurement list"
  bo_repetitions :: int
  bo_duration :: py_float
  bo_protocol :: "bench_protocol option"
  bo_methodology :: "string option"
  bo_model_load :: "py_float option"
  bo_warmup :: "py_float option"
  bo_first_token :: "py_float option"
  bo_first_token_stddev :: "py_float option"
  bo_generation_latency :: "py_float option"
  bo_generation_latency_stddev :: "py_float option"
  bo_peak_ram_bytes :: "int option"
  bo_peak_vram_bytes :: "int option"
  bo_command :: "string list"
  bo_exit_code :: "int option"
  bo_failure_reason :: "benchmark_failure option"
  bo_message :: "string option"
  bo_raw_stdout :: string
  bo_raw_stderr :: string

record bench_request =
  bq_artifact :: model_artifact
  bq_runtime :: runtime_recommendation
  bq_backend :: compute_backend
  bq_device :: "string option"
  bq_gpu_layers :: bench_gpu_layers
  bq_context_length :: "int option"
  bq_prefill_sizes :: "int list"
  bq_generation_sizes :: "int list"
  bq_repetitions :: int
  bq_timeout :: py_float
  bq_notes :: "string list"

record bench_identity =
  bi_benchmark_id :: string
  bi_created_at :: int

record bench_environment =
  be_jaull_version :: "string option"
  be_python_version :: "string option"
  be_python_implementation :: "string option"
  be_platform :: "string option"
  be_git_commit :: "string option"

record llama_bench_capability =
  lb_binary_path :: "string option"
  lb_binary_status :: bench_binary_status
  lb_version_text :: "string option"
  lb_probe_source :: "string option"
  lb_message :: "string option"

record bench_record =
  br_schema_version :: int
  br_identity :: bench_identity
  br_environment :: bench_environment
  br_hardware :: hardware_profile
  br_artifact :: model_artifact
  br_runtime :: runtime_recommendation
  br_requested_backend :: compute_backend
  br_requested_device :: "string option"
  br_gpu_layers :: bench_gpu_layers
  br_request :: bench_request
  br_observation :: bench_observation
  br_bench_capability :: "llama_bench_capability option"
  br_runtime_capability :: "runtime_capability option"
  br_notes :: "string list"

definition br_id :: "bench_record \<Rightarrow> string" where
  "br_id r = bi_benchmark_id (br_identity r)"

definition br_created_at :: "bench_record \<Rightarrow> int" where
  "br_created_at r = bi_created_at (br_identity r)"

section \<open>Validators\<close>

definition gpu_layers_consistent :: "bench_gpu_layers \<Rightarrow> bool" where
  "gpu_layers_consistent g \<longleftrightarrow>
     (if gl_full_offload g then gl_count g = None else \<exists>n. gl_count g = Some n \<and> 0 \<le> n)"

definition gpu_layers_label :: "bench_gpu_layers \<Rightarrow> string" where
  "gpu_layers_label g =
     (if gl_full_offload g then ''all''
      else (case gl_count g of Some n \<Rightarrow> show_int n | None \<Rightarrow> ''None''))"

definition observation_consistent :: "bench_observation \<Rightarrow> bool" where
  "observation_consistent o' \<longleftrightarrow>
     (if bo_success o' then bo_measurements o' \<noteq> [] \<and> bo_failure_reason o' = None
      else bo_failure_reason o' \<noteq> None)"

definition request_consistent :: "bench_request \<Rightarrow> bool" where
  "request_consistent q \<longleftrightarrow>
     bq_prefill_sizes q \<noteq> [] \<and> bq_generation_sizes q \<noteq> [] \<and>
     list_all (\<lambda>n. 0 < n) (bq_prefill_sizes q) \<and> list_all (\<lambda>n. 0 < n) (bq_generation_sizes q) \<and>
     (bq_backend q = CPU \<longrightarrow>
        bq_device q \<in> {None, Some ''none''} \<and> \<not> gl_full_offload (bq_gpu_layers q) \<and>
        gl_count (bq_gpu_layers q) = Some 0)"

definition BENCHMARK_RECORD_SCHEMA_VERSION :: int where
  "BENCHMARK_RECORD_SCHEMA_VERSION = 1"

definition record_consistent :: "bench_record \<Rightarrow> bool" where
  "record_consistent r \<longleftrightarrow>
     br_schema_version r = BENCHMARK_RECORD_SCHEMA_VERSION \<and>
     br_artifact r = bq_artifact (br_request r) \<and> br_runtime r = bq_runtime (br_request r) \<and>
     bq_backend (br_request r) = br_requested_backend r \<and> bq_device (br_request r) = br_requested_device r \<and>
     bq_gpu_layers (br_request r) = br_gpu_layers r"

definition create_record ::
  "hardware_profile \<Rightarrow> bench_request \<Rightarrow> bench_observation \<Rightarrow> llama_bench_capability option \<Rightarrow>
   runtime_capability option \<Rightarrow> bench_identity \<Rightarrow> bench_environment \<Rightarrow> string list option \<Rightarrow> bench_record" where
  "create_record hw q obs bench_capability capability identity environment notes =
     \<lparr>br_schema_version = BENCHMARK_RECORD_SCHEMA_VERSION, br_identity = identity,
      br_environment = environment, br_hardware = hw, br_artifact = bq_artifact q, br_runtime = bq_runtime q,
      br_requested_backend = bq_backend q, br_requested_device = bq_device q, br_gpu_layers = bq_gpu_layers q,
      br_request = q, br_observation = obs, br_bench_capability = bench_capability,
      br_runtime_capability = capability,
      br_notes = (case notes of Some (n # ns) \<Rightarrow> n # ns | _ \<Rightarrow> bq_notes q)\<rparr>"

lemma create_record_consistent: "record_consistent (create_record hw q obs bc rc i e notes)"
  by (simp add: record_consistent_def create_record_def)

section \<open>The pinned protocol\<close>

definition LLAMA_BENCH_V2 :: string where
  "LLAMA_BENCH_V2 = ''llama_bench_v2''"

definition LLAMA_BENCH_V2_FLAGS :: "(string \<times> string) list" where
  "LLAMA_BENCH_V2_FLAGS =
     [(''-b'', ''512''), (''-ub'', ''512''), (''-fa'', ''off''), (''-ctk'', ''f16''), (''-ctv'', ''f16''),
      (''-lm'', ''mmap'')]"

definition LLAMA_BENCH_V2_SETTINGS :: "(string \<times> py_obj) list" where
  "LLAMA_BENCH_V2_SETTINGS =
     [(''n_batch'', PyInt 512), (''n_ubatch'', PyInt 512), (''flash_attn'', PyStr ''off''),
      (''cache_type_k'', PyStr ''f16''), (''cache_type_v'', PyStr ''f16''), (''load_mode'', PyStr ''mmap''),
      (''warmup'', PyStr ''ran''), (''thread_policy'', PyStr ''physical_cores'')]"

definition optional_int :: "int option \<Rightarrow> py_obj" where
  "optional_int x = (case x of None \<Rightarrow> PyNone | Some n \<Rightarrow> PyInt n)"

definition optional_str :: "string option \<Rightarrow> py_obj" where
  "optional_str x = (case x of None \<Rightarrow> PyNone | Some s \<Rightarrow> PyStr s)"

text \<open>The fields by name, in the order of the class: \<^verbatim>\<open>model_dump\<close> and \<^verbatim>\<open>getattr\<close>.\<close>

definition protocol_fields :: "bench_protocol \<Rightarrow> (string, py_obj) dict" where
  "protocol_fields p =
     [(''build_commit'', optional_str (bp_build_commit p)), (''build_number'', optional_int (bp_build_number p)),
      (''n_threads'', optional_int (bp_n_threads p)), (''n_batch'', optional_int (bp_n_batch p)),
      (''n_ubatch'', optional_int (bp_n_ubatch p)), (''cache_type_k'', optional_str (bp_cache_type_k p)),
      (''cache_type_v'', optional_str (bp_cache_type_v p)), (''flash_attn'', optional_str (bp_flash_attn p)),
      (''load_mode'', optional_str (bp_load_mode p)), (''warmup'', optional_str (bp_warmup p)),
      (''thread_policy'', optional_str (bp_thread_policy p))]"

definition protocol_field :: "bench_protocol \<Rightarrow> string \<Rightarrow> py_obj" where
  "protocol_field p name = opt_default (dict_get (protocol_fields p) name) PyNone"

definition llama_bench_v2_mismatches :: "bench_protocol option \<Rightarrow> int option \<Rightarrow> string list" where
  "llama_bench_v2_mismatches protocol cores =
     (case protocol of
        None \<Rightarrow> [''llama-bench reported no settings'']
      | Some p \<Rightarrow>
          (case cores of
             None \<Rightarrow> [''Physical core count is unknown or invalid.'']
           | Some n \<Rightarrow>
               if n < 1 then [''Physical core count is unknown or invalid.'']
               else
                 map (\<lambda>(name, value). name @ ''='' @ repr_obj (protocol_field p name) @ '' (expected '' @
                     repr_obj value @ '')'')
                   (filter (\<lambda>(name, value). protocol_field p name \<noteq> value)
                     (LLAMA_BENCH_V2_SETTINGS @ [(''n_threads'', PyInt n)]))))"

section \<open>Experiments\<close>

text \<open>The fields the recommendation reads.\<close>

record execution_observation =
  eo_success :: bool
  eo_peak_ram_bytes :: "int option"
  eo_peak_vram_bytes :: "int option"

record experiment_record =
  er_experiment_id :: string
  er_created_at :: int
  er_hardware :: hardware_profile
  er_artifact :: model_artifact
  er_observed_backend :: "compute_backend option"
  er_runtime :: runtime_recommendation
  er_prediction :: memory_estimate
  er_readiness :: execution_readiness
  er_observation :: execution_observation

section \<open>The identity of a machine\<close>

fun vendor_value :: "accelerator_vendor \<Rightarrow> string" where
  "vendor_value NVIDIA = ''nvidia''"
| "vendor_value AMD = ''amd''"
| "vendor_value INTEL = ''intel''"
| "vendor_value VENDOR_OTHER = ''other''"
| "vendor_value VENDOR_UNKNOWN = ''unknown''"

fun accelerator_type_value :: "accelerator_type \<Rightarrow> string" where
  "accelerator_type_value DEDICATED = ''dedicated''"
| "accelerator_type_value INTEGRATED = ''integrated''"
| "accelerator_type_value SOFTWARE = ''software''"
| "accelerator_type_value TYPE_UNKNOWN = ''unknown''"

text \<open>\<^verbatim>\<open>round(x)\<close> of a float, and \<^verbatim>\<open>str(n or "")\<close> of an optional count.\<close>

definition float_round_int :: "py_float \<Rightarrow> int" where
  "float_round_int x = (if mantissa x < 0 then -1 else 1) * scaled_decimal 0 x"

definition count_text :: "int option \<Rightarrow> string" where
  "count_text n = (case n of None \<Rightarrow> [] | Some k \<Rightarrow> if k = 0 then [] else show_int k)"

definition EVIDENCE_MEMORY_GRANULARITY :: int where
  "EVIDENCE_MEMORY_GRANULARITY = 256 * 1024 * 1024"

definition rounded_memory :: "int option \<Rightarrow> int \<Rightarrow> int" where
  "rounded_memory granularity n =
     (case granularity of None \<Rightarrow> n | Some g \<Rightarrow> float_round_int (round_ratio n g) * g)"

definition gpu_print :: "gpu_info \<Rightarrow> string" where
  "gpu_print g = gpu_name g @ '':'' @ show_int (vram_total_bytes g)"

definition accelerator_print :: "accelerator_profile \<Rightarrow> string" where
  "accelerator_print a =
     join '':''
       [acc_name a, vendor_value (acc_vendor a), accelerator_type_value (acc_type a),
        opt_default (vendor_id a) [], opt_default (device_id a) [], opt_default (pci_bus_id a) [],
        opt_default (acc_uuid a) [], count_text (dedicated_memory_bytes a),
        (if shared_memory a then ''True'' else ''False'')]"

definition machine_fingerprint :: "int option \<Rightarrow> hardware_profile \<Rightarrow> string list" where
  "machine_fingerprint granularity hw =
     [os_name hw, opt_default (os_version hw) [], arch hw, opt_default (cpu_model (cpu hw)) [],
      count_text (physical_cores (cpu hw)), count_text (logical_cores (cpu hw)),
      show_int (rounded_memory granularity (mem_total_bytes (memory hw)))] @
     sort (map gpu_print (gpus hw)) @ sort (map accelerator_print (accelerators hw))"

definition same_machine :: "hardware_profile \<Rightarrow> hardware_profile \<Rightarrow> bool" where
  "same_machine l r \<longleftrightarrow>
     machine_fingerprint (Some EVIDENCE_MEMORY_GRANULARITY) l =
     machine_fingerprint (Some EVIDENCE_MEMORY_GRANULARITY) r"

text \<open>The volatile fields of a scan do not enter the identity.\<close>

lemma machine_fingerprint_stable:
  "machine_fingerprint g (hw\<lparr>memory := (memory hw)\<lparr>mem_available_bytes := n\<rparr>, storage := s, hw_warnings := w\<rparr>) =
   machine_fingerprint g hw"
  by (simp add: machine_fingerprint_def)

end
