(* ===== verification/Local_Evidence.thy ===== *)
theory Local_Evidence
  imports Benchmark_Records Py_Json Measured_Policy
begin

text \<open>
  Which stored measurements speak for a plan (\<^verbatim>\<open>recommendation/local_evidence.py\<close>, the device
  lines of \<^verbatim>\<open>runtime/device_matching.py\<close>): the matching of experiments and benchmarks, the
  reasons that keep a benchmark from ordering plans, and the speed drawn from those without any.
  The digest of a text and the serialised form of a record are parameters.
\<close>

section \<open>Matching\<close>

definition flag_values :: "runtime_recommendation \<Rightarrow> (string, string) dict" where
  "flag_values r = foldl (\<lambda>d f. dict_set d (flag_name f) (flag_value f)) [] (rr_flags r)"

definition configuration_matches :: "inference_configuration \<Rightarrow> inference_configuration \<Rightarrow> bool" where
  "configuration_matches l r \<longleftrightarrow>
     cfg_context_length l = cfg_context_length r \<and> cfg_batch_size l = cfg_batch_size r \<and>
     cfg_concurrent_users l = cfg_concurrent_users r \<and> cfg_precision l = cfg_precision r \<and>
     cfg_quantization l = cfg_quantization r \<and> cfg_kv_cache_dtype l = cfg_kv_cache_dtype r"

definition same_planned_artifact :: "execution_plan \<Rightarrow> model_artifact \<Rightarrow> bool" where
  "same_planned_artifact p a \<longleftrightarrow>
     (let planned = av_sha256 (xp_artifact p); recorded = ma_sha256 a;
          known = (text_default planned [] \<noteq> [] \<and> text_default recorded [] \<noteq> []);
          equal = (map_option lower planned = map_option lower recorded) in
      \<not> (known \<and> \<not> equal) \<and>
      (artifact_identity_matches (to_model_artifact (xp_artifact p)) a \<or>
       known \<and> equal \<and> av_repo_id (xp_artifact p) = ma_repo_id a \<and>
       av_filename (xp_artifact p) = Some (ma_filename a)))"

definition common_matches ::
  "execution_plan \<Rightarrow> model_artifact \<Rightarrow> runtime_recommendation \<Rightarrow> hardware_profile \<Rightarrow> bool" where
  "common_matches p a r hw \<longleftrightarrow>
     (case xp_hardware p of None \<Rightarrow> False | Some h \<Rightarrow> same_machine h hw) \<and>
     xp_backend_selection p \<noteq> None \<and> rr_runtime (xp_runtime p) = rr_runtime r \<and> same_planned_artifact p a"

text \<open>\<^verbatim>\<open>max(xs, key=f, default=None)\<close>.\<close>

definition max_on :: "('a \<Rightarrow> 'b::linorder) \<Rightarrow> 'a list \<Rightarrow> 'a option" where
  "max_on f xs = (case xs of [] \<Rightarrow> None | y # ys \<Rightarrow> Some (max_by f y ys))"

definition planned_backend :: "execution_plan \<Rightarrow> compute_backend option" where
  "planned_backend p = map_option sel_backend (xp_backend_selection p)"

definition experiment_matches :: "execution_plan \<Rightarrow> experiment_record \<Rightarrow> bool" where
  "experiment_matches p r \<longleftrightarrow>
     common_matches p (er_artifact r) (er_runtime r) (er_hardware r) \<and>
     Some (sel_backend (xr_selection (er_readiness r))) = planned_backend p \<and>
     (er_observed_backend r = None \<or> er_observed_backend r = planned_backend p) \<and>
     (case xp_memory_prediction p of
        None \<Rightarrow> False
      | Some m \<Rightarrow> configuration_matches (me_configuration m) (me_configuration (er_prediction r))) \<and>
     set (flag_values (xp_runtime p)) = set (flag_values (er_runtime r))"

definition matching_experiment :: "execution_plan \<Rightarrow> experiment_record list \<Rightarrow> experiment_record option" where
  "matching_experiment p rs =
     max_on (\<lambda>r. (er_created_at r, er_experiment_id r)) (filter (experiment_matches p) rs)"

definition known_benchmark_methodologies :: "runtime_name \<Rightarrow> string list" where
  "known_benchmark_methodologies r =
     (case r of
        LLAMA_CPP \<Rightarrow> [''llama_bench_v2'', ''llama_bench_v1'']
      | TRANSFORMERS \<Rightarrow> [''transformers_isolated_inference_v3'']
      | _ \<Rightarrow> [])"

definition generation_measured :: "bench_record \<Rightarrow> bool" where
  "generation_measured r \<longleftrightarrow>
     (let ms = filter (\<lambda>m. bm_kind m = GENERATION) (bo_measurements (br_observation r)) in
      ms \<noteq> [] \<and> list_all (\<lambda>m. bm_tokens m \<in> set (bq_generation_sizes (br_request r))) ms)"

definition offload_matches :: "execution_plan \<Rightarrow> bench_record \<Rightarrow> bool" where
  "offload_matches p r \<longleftrightarrow>
     (case (case dict_get (flag_values (xp_runtime p)) ''--n-gpu-layers'' of
              Some raw \<Rightarrow> Some raw
            | None \<Rightarrow> if br_requested_backend r = CPU then Some ''0'' else None) of
        None \<Rightarrow> False
      | Some raw \<Rightarrow>
          if gl_full_offload (br_gpu_layers r) then raw \<in> {''-1'', ''all''}
          else raw = gpu_layers_label (br_gpu_layers r))"

definition transformers_precision_matches :: "execution_plan \<Rightarrow> bench_record \<Rightarrow> bool" where
  "transformers_precision_matches p r \<longleftrightarrow>
     list_all (\<lambda>n. dict_get (flag_values (xp_runtime p)) n = dict_get (flag_values (br_runtime r)) n)
       [''torch_dtype'', ''quantization'']"

definition benchmark_matches :: "execution_plan \<Rightarrow> bench_record \<Rightarrow> bool" where
  "benchmark_matches p r \<longleftrightarrow>
     common_matches p (br_artifact r) (br_runtime r) (br_hardware r) \<and>
     Some (br_requested_backend r) = planned_backend p \<and> bo_success (br_observation r) \<and>
     bo_methodology (br_observation r) \<in> Some ` set (known_benchmark_methodologies (rr_runtime (xp_runtime p))) \<and>
     generation_measured r \<and>
     (if rr_runtime (xp_runtime p) = LLAMA_CPP then offload_matches p r else transformers_precision_matches p r)"

text \<open>A record of the current protocol wins over an older one, then the newest.\<close>

definition current_methodology :: "execution_plan \<Rightarrow> bench_record \<Rightarrow> bool" where
  "current_methodology p r \<longleftrightarrow>
     (case known_benchmark_methodologies (rr_runtime (xp_runtime p)) of
        [] \<Rightarrow> False | m # ms \<Rightarrow> bo_methodology (br_observation r) = Some m)"

definition matching_benchmark :: "execution_plan \<Rightarrow> bench_record list \<Rightarrow> bench_record option" where
  "matching_benchmark p rs =
     max_on (\<lambda>r. (current_methodology p r, br_created_at r, br_id r)) (filter (benchmark_matches p) rs)"

section \<open>The producing build\<close>

definition is_hex_digit :: "char \<Rightarrow> bool" where
  "is_hex_digit c \<longleftrightarrow> is_digit c \<or> lower_char c \<in> set ''abcdef''"

definition BUILD_LINE_RE :: rx where
  "BUILD_LINE_RE = rx_seq
     [rx_text ''build:'', rx_blanks, Capture 1 (rx_some (Cls is_hex_digit)), rx_blanks, rx_text ''('',
      Capture 2 rx_digits, rx_text '')'', rx_blanks]"

text \<open>The bounds 7 to 40 of the digits are checked on the run, which is maximal before its blank or bracket.\<close>

definition build_of_line :: "string \<Rightarrow> string option" where
  "build_of_line line =
     (case rx_fullmatch BUILD_LINE_RE line of
        None \<Rightarrow> None
      | Some m \<Rightarrow>
          (let commit = rx_group_text m 1 in
           if 7 \<le> length commit \<and> length commit \<le> 40
           then Some (lower commit @ '' ('' @ show_int (int_of_digits (rx_group_text m 2)) @ '')'') else None))"

definition reported_bench_build :: "string \<Rightarrow> string option" where
  "reported_bench_build output =
     (let builds = map build_of_line (filter (\<lambda>l. startswith l ''build:'') (split_lines output)) in
      if None \<in> set builds then None
      else (case remdups builds of [b] \<Rightarrow> b | _ \<Rightarrow> None))"

section \<open>What keeps a record from ordering plans\<close>

definition is_digest :: "string \<Rightarrow> bool" where
  "is_digest s \<longleftrightarrow> length s = 64 \<and> list_all is_hex_digit s"

definition output_of :: "bench_record \<Rightarrow> string" where
  "output_of r = bo_raw_stdout (br_observation r) @ NL @ bo_raw_stderr (br_observation r)"

definition record_build :: "bench_record \<Rightarrow> string option" where
  "record_build r = reported_bench_build (output_of r)"

definition guard_text :: "bool \<Rightarrow> string \<Rightarrow> string list" where
  "guard_text b s = (if b then [s] else [])"

definition probed_build_disagrees :: "bench_record \<Rightarrow> bool" where
  "probed_build_disagrees r \<longleftrightarrow>
     (case br_bench_capability r of
        None \<Rightarrow> False
      | Some c \<Rightarrow>
          (case lb_version_text c of
             None \<Rightarrow> False
           | Some v \<Rightarrow>
               v \<noteq> [] \<and> (case reported_bench_build v of None \<Rightarrow> False | Some b \<Rightarrow> Some b \<noteq> record_build r)))"

definition origin_blockers :: "bench_record \<Rightarrow> string list" where
  "origin_blockers r =
     (let ob = br_observation r; a = br_artifact r in
      guard_text (\<not> bo_success ob \<or> bo_exit_code ob \<noteq> Some 0)
        ''Benchmark did not complete with a confirmed successful exit.'' @
      guard_text (rr_runtime (br_runtime r) \<noteq> LLAMA_CPP \<or> ma_format a \<noteq> ''gguf'')
        ''Fastest v1 requires a llama-bench GGUF measurement.'' @
      guard_text (bo_methodology ob \<notin> {Some ''llama_bench_v1'', Some ''llama_bench_v2''})
        ''llama-bench methodology is missing or unsupported.'' @
      guard_text (case ma_sha256 a of None \<Rightarrow> True | Some s \<Rightarrow> \<not> is_digest s)
        ''Exact artifact SHA256 is missing or invalid.'' @
      guard_text (\<not> ma_is_verified a) ''The record does not confirm a verified artifact.'' @
      guard_text (record_build r = None)
        ''The producing llama-bench build is unknown or ambiguous in the output.'' @
      guard_text (probed_build_disagrees r)
        ''The probed llama-bench build disagrees with the producing build.'' @
      guard_text (bq_repetitions (br_request r) \<noteq> 5 \<or> bo_repetitions ob \<noteq> 5)
        ''Fastest v1 requires five repetitions.'')"

definition measurements_of :: "bench_record \<Rightarrow> measurement_kind \<Rightarrow> int \<Rightarrow> bench_measurement list" where
  "measurements_of r k n =
     filter (\<lambda>m. bm_kind m = k \<and> bm_tokens m = n) (bo_measurements (br_observation r))"

definition expected_device :: "bench_record \<Rightarrow> string option" where
  "expected_device r = (if br_requested_backend r = CPU then Some ''none'' else br_requested_device r)"

definition expected_ngl :: "bench_record \<Rightarrow> string" where
  "expected_ngl r = (if gl_full_offload (br_gpu_layers r) then ''-1'' else gpu_layers_label (br_gpu_layers r))"

definition measurement_blockers ::
  "bench_record \<Rightarrow> measurement_kind \<Rightarrow> int \<Rightarrow> string \<Rightarrow> int list \<Rightarrow> string list" where
  "measurement_blockers r kind tokens name sizes =
     (case (if tokens \<in> set sizes then measurements_of r kind tokens else []) of
        [m] \<Rightarrow>
          guard_text (bm_repetitions m \<noteq> Some 5) (name @ '' repetition count is missing or incompatible.'') @
          guard_text (expected_device r = None \<or> bm_raw_device m \<noteq> expected_device r)
            (name @ '' runtime-reported device is unknown or differs from the request.'') @
          guard_text (bm_raw_ngl m \<noteq> Some (expected_ngl r))
            (name @ '' runtime-reported offload is unknown or differs from the request.'')
      | _ \<Rightarrow> [''A single requested '' @ name @ '' measurement is required.''])"

text \<open>The value after a flag that occurs once in the recorded command.\<close>

definition flag_argument :: "string list \<Rightarrow> string \<Rightarrow> string option option" where
  "flag_argument command flag =
     (if length (filter (\<lambda>c. c = flag) command) \<noteq> 1 then None
      else
        (let n = Suc (index_of command flag) in
         Some (if n < length command then Some (command ! n) else None)))"

definition expected_command :: "bench_record \<Rightarrow> (string \<times> string option) list" where
  "expected_command r =
     (let sizes = (\<lambda>ns. join '','' (map show_int ns)) in
      [(''-m'', ma_local_path (br_artifact r)),
       (''-dev'', expected_device r), (''-ngl'', Some (expected_ngl r)),
       (''-p'', Some (sizes (bq_prefill_sizes (br_request r)))),
       (''-n'', Some (sizes (bq_generation_sizes (br_request r)))),
       (''-r'', Some (show_int (bq_repetitions (br_request r))))])"

definition command_blockers :: "bench_record \<Rightarrow> string list" where
  "command_blockers r =
     concat (map (\<lambda>(flag, value).
       (case (value, flag_argument (bo_command (br_observation r)) flag) of
          (Some v, Some argument) \<Rightarrow>
            guard_text (argument \<noteq> Some v)
              (''Recorded command '' @ flag @ '' differs from the recorded request.'')
        | _ \<Rightarrow> [''Recorded command '' @ flag @ '' is missing or ambiguous.'']))
       (expected_command r))"

definition protocol_build :: "bench_protocol \<Rightarrow> string" where
  "protocol_build p =
     lower (opt_default (bp_build_commit p) []) @ '' ('' @
     (case bp_build_number p of None \<Rightarrow> ''None'' | Some n \<Rightarrow> show_int n) @ '')''"

definition cores_text :: "int option \<Rightarrow> string" where
  "cores_text n = (case n of None \<Rightarrow> ''None'' | Some k \<Rightarrow> show_int k)"

definition v2_blockers :: "bench_record \<Rightarrow> string list" where
  "v2_blockers r =
     (let protocol = bo_protocol (br_observation r); cores = physical_cores (cpu (br_hardware r)) in
      map (\<lambda>i. ''Reported setting differs from llama_bench_v2: '' @ i @ ''.'')
        (llama_bench_v2_mismatches protocol cores) @
      concat (map (\<lambda>(flag, value).
          guard_text (flag_argument (bo_command (br_observation r)) flag \<noteq> Some (Some value))
            (''Recorded command '' @ flag @ '' '' @ value @ '' is missing or differs.''))
        (LLAMA_BENCH_V2_FLAGS @ [(''-t'', cores_text cores)])) @
      guard_text
        (case (protocol, record_build r) of (Some p, Some b) \<Rightarrow> b \<noteq> protocol_build p | _ \<Rightarrow> False)
        ''The recorded protocol build disagrees with the producing build.'')"

definition UNAUDITED_PROTOCOL :: string where
  "UNAUDITED_PROTOCOL =
     ''Effective threads, batching, cache types and load protocol were not recorded by '' @
     ''the run that produced this measurement.''"

definition flash_blockers :: "bench_protocol \<Rightarrow> string list" where
  "flash_blockers p =
     (case bp_flash_attn p of
        None \<Rightarrow> [''Recorded protocol is missing the effective flash-attention setting.'']
      | Some f \<Rightarrow>
          if f = ''auto_unresolved'' then
            [''The effective flash-attention setting is absent from llama-bench output: it '' @
             ''reports the requested value, and this run requested `auto`.'']
          else
            guard_text (f = ''on'')
              ''Requested flash attention `on` is not proof it ran: the runtime can disable it.'')"

definition required_settings :: "bench_protocol \<Rightarrow> (string \<times> bool) list" where
  "required_settings p =
     [(''the effective thread count'', bp_n_threads p \<noteq> None), (''the reported batch size'', bp_n_batch p \<noteq> None),
      (''the reported microbatch size'', bp_n_ubatch p \<noteq> None),
      (''the effective K cache type'', text_default (bp_cache_type_k p) [] \<noteq> []),
      (''the effective V cache type'', text_default (bp_cache_type_v p) [] \<noteq> []),
      (''the effective load mode'', text_default (bp_load_mode p) [] \<noteq> []),
      (''its own build'', text_default (bp_build_commit p) [] \<noteq> []),
      (''its own build number'', bp_build_number p \<noteq> None)]"

definition protocol_blockers :: "bench_protocol option \<Rightarrow> string option \<Rightarrow> string list" where
  "protocol_blockers protocol build =
     (case protocol of
        None \<Rightarrow> [UNAUDITED_PROTOCOL]
      | Some p \<Rightarrow>
          map (\<lambda>(name, known). ''Recorded protocol is missing '' @ name @ ''.'')
            (filter (\<lambda>(name, known). \<not> known) (required_settings p)) @
          flash_blockers p @
          [''JSONL reports requested batch/microbatch limits, not runtime-applied context limits.''] @
          guard_text (bp_warmup p = None) ''Whether warmup ran was not recorded.'' @
          guard_text
            (bp_build_commit p \<noteq> None \<and> bp_build_number p \<noteq> None \<and>
             (case build of None \<Rightarrow> False | Some b \<Rightarrow> b \<noteq> protocol_build p))
            ''The recorded protocol build disagrees with the producing build.'')"

definition fastest_record_blockers :: "bench_record \<Rightarrow> string list" where
  "fastest_record_blockers r =
     origin_blockers r @
     measurement_blockers r GENERATION 128 ''tg128'' (bq_generation_sizes (br_request r)) @
     measurement_blockers r PREFILL 512 ''pp512'' (bq_prefill_sizes (br_request r)) @
     command_blockers r @
     (if bo_methodology (br_observation r) = Some LLAMA_BENCH_V2 then v2_blockers r
      else protocol_blockers (bo_protocol (br_observation r)) (record_build r))"

section \<open>The device a run used\<close>

definition VULKAN_LIST_RE :: rx where
  "VULKAN_LIST_RE = rx_seq
     [WordEdge, rx_text ''ggml_vulkan:'', rx_blanks, Capture 1 rx_digits, rx_blanks, rx_text ''='', rx_blanks,
      Capture 2 (Cat rx_dot (ManyLazy rx_dot)), rx_blanks, rx_text ''|'']"

definition CUDA_LIST_RE :: rx where
  "CUDA_LIST_RE = rx_seq
     [WordEdge, rx_text ''Device '', Capture 1 rx_digits, rx_text '': '',
      Capture 2 (rx_some (Cls (\<lambda>c. c \<noteq> CHR '',''))), rx_text '','']"

definition USED_DEVICE_RE :: rx where
  "USED_DEVICE_RE = rx_seq
     [rx_text ''using device '', Capture 1 (Cat (Alt (rx_text ''CUDA'') (rx_text ''Vulkan'')) rx_digits),
      rx_some (Cls is_blank), rx_text ''('', Capture 2 (Cat rx_dot (ManyLazy rx_dot)), rx_text '')'',
      Ahead (Cat rx_blanks (Alt (rx_text ''('') (Alt (rx_text ''-'') AtEnd)))]"

definition line_devices :: "string \<Rightarrow> (string \<times> string) list" where
  "line_devices line =
     (case rx_search VULKAN_LIST_RE line of
        None \<Rightarrow> [] | Some m \<Rightarrow> [(''Vulkan'' @ rx_group_text m 1, rx_group_text m 2)]) @
     (case rx_search CUDA_LIST_RE line of
        None \<Rightarrow> [] | Some m \<Rightarrow> [(''CUDA'' @ rx_group_text m 1, rx_group_text m 2)]) @
     (case rx_search USED_DEVICE_RE line of
        None \<Rightarrow> [] | Some m \<Rightarrow> [(rx_group_text m 1, rx_group_text m 2)])"

definition runtime_device_name_matches :: "string \<Rightarrow> string \<Rightarrow> string \<Rightarrow> bool" where
  "runtime_device_name_matches output runtime_id name \<longleftrightarrow>
     (let prefix = rev (dropWhile is_digit (rev runtime_id));
          candidates = filter (\<lambda>(d, l). startswith d prefix) (concat (map line_devices (split_lines output))) in
      set (map fst (filter (\<lambda>(d, l). names_agree l name) candidates)) = {runtime_id} \<and>
      list_all (\<lambda>(d, l). d = runtime_id \<longrightarrow> names_agree l name) candidates)"

definition device_is_the_plans :: "execution_plan \<Rightarrow> bench_record \<Rightarrow> bool" where
  "device_is_the_plans p r \<longleftrightarrow>
     (case Option.bind (xp_backend_selection p) sel_accelerator of
        None \<Rightarrow> False
      | Some a \<Rightarrow> runtime_device_name_matches (output_of r) (opt_default (br_requested_device r) []) (sa_name a))"

text \<open>Name, driver and CUDA version of each device, in a stable order.\<close>

type_synonym device_environment = "(string \<times> string option \<times> string option) list"

definition present_first :: "string option \<Rightarrow> bool \<times> string" where
  "present_first s = (s \<noteq> None, opt_default s [])"

definition usable_vulkan :: "accelerator_profile \<Rightarrow> bool" where
  "usable_vulkan a \<longleftrightarrow>
     acc_type a \<noteq> SOFTWARE \<and>
     list_ex (\<lambda>b. backend b = VULKAN \<and> availability b = AVAILABLE \<and> \<not> software_renderer b) (backends a)"

definition gpu_environment :: "hardware_profile \<Rightarrow> compute_backend \<Rightarrow> device_environment" where
  "gpu_environment hw b =
     sort_key (\<lambda>(name, driver, cuda). ((True, name), present_first driver, present_first cuda))
       (if b = VULKAN then
          map (\<lambda>a. (acc_name a,
              Option.bind (List.find (\<lambda>i. backend i = VULKAN) (backends a)) backend_driver_version, None))
            (filter usable_vulkan (accelerators hw))
        else map (\<lambda>g. (gpu_name g, gpu_driver_version g, cuda_version g)) (gpus hw))"

definition unknown_text :: "string option \<Rightarrow> bool" where
  "unknown_text s \<longleftrightarrow> strip (opt_default s []) = []"

definition environment_differs :: "execution_plan \<Rightarrow> bench_record \<Rightarrow> bool" where
  "environment_differs p r \<longleftrightarrow>
     (let b = br_requested_backend r; environment = gpu_environment (br_hardware r) b in
      case xp_hardware p of
        None \<Rightarrow> True
      | Some hw \<Rightarrow>
          environment = [] \<or>
          list_ex (\<lambda>(name, driver, cuda). unknown_text driver \<or> b = CUDA \<and> unknown_text cuda) environment \<or>
          environment \<noteq> gpu_environment hw b)"

section \<open>What keeps a record from speaking for a plan\<close>

definition requested_devices :: "execution_plan \<Rightarrow> string list" where
  "requested_devices p = map flag_value (filter (\<lambda>f. flag_name f = ''--device'') (rr_flags (xp_runtime p)))"

definition device_blockers :: "execution_plan \<Rightarrow> bench_record \<Rightarrow> string list" where
  "device_blockers p r =
     (if br_requested_backend r = CPU then []
      else
        guard_text
          (\<not> device_is_the_plans p r \<or>
           requested_devices p \<noteq> [] \<and> map Some (requested_devices p) \<noteq> [br_requested_device r])
          ''The plan's runtime device is unknown or differs from the measurement.'' @
        guard_text (environment_differs p r)
          ''The GPU driver or CUDA version differs from this machine's, or is unknown.'')"

definition fastest_benchmark_blockers ::
  "execution_plan \<Rightarrow> user_requirements \<Rightarrow> bench_record \<Rightarrow> string list" where
  "fastest_benchmark_blockers p req r =
     fastest_record_blockers r @
     guard_text (ur_workload_mode req \<noteq> INTERACTIVE \<or> ur_concurrent_users req \<noteq> 1)
       ''A single-request microbenchmark does not cover batch or multiuser throughput.'' @
     guard_text
       (case (av_sha256 (xp_artifact p), ma_sha256 (br_artifact r)) of
          (Some planned, Some sha) \<Rightarrow> planned \<noteq> lower sha | _ \<Rightarrow> True)
       ''This plan has no matching exact artifact SHA256.'' @
     guard_text (matching_benchmark p [r] = None)
       ''Historical artifact/machine/runtime/backend/offload matching failed.'' @
     device_blockers p r"

section \<open>The cohort of a speed\<close>

definition speed_cohort :: "(string \<Rightarrow> string) \<Rightarrow> bench_record \<Rightarrow> string" where
  "speed_cohort sha256 r =
     sha256 (dumps_sorted (PyDict
       [(''machine'',
           PyList (map PyStr (machine_fingerprint (Some EVIDENCE_MEMORY_GRANULARITY) (br_hardware r)))),
        (''gpu_environment'',
           PyList (map (\<lambda>(name, driver, cuda). PyList [PyStr name, optional_str driver, optional_str cuda])
             (gpu_environment (br_hardware r) (br_requested_backend r)))),
        (''methodology'', optional_str (bo_methodology (br_observation r))),
        (''protocol'',
           (case bo_protocol (br_observation r) of None \<Rightarrow> PyNone | Some p \<Rightarrow> PyDict (protocol_fields p))),
        (''backend'', PyStr (backend_value (br_requested_backend r))),
        (''device'', optional_str (br_requested_device r)),
        (''workload'',
           PyList [PyList (map PyInt (bq_prefill_sizes (br_request r))),
             PyList (map PyInt (bq_generation_sizes (br_request r))), PyInt (bq_repetitions (br_request r))])]))"

section \<open>The speed of a plan\<close>

definition exact_sha :: "string option \<Rightarrow> string option" where
  "exact_sha s = (case s of None \<Rightarrow> None | Some t \<Rightarrow> if is_digest t then Some (lower t) else None)"

text \<open>One record for each id; of two that differ, the one that serialises first.\<close>

definition lesser_record :: "(bench_record \<Rightarrow> string) \<Rightarrow> bench_record \<Rightarrow> bench_record \<Rightarrow> bench_record" where
  "lesser_record json a b = (if json b < json a then b else a)"

definition add_record ::
  "(bench_record \<Rightarrow> string) \<Rightarrow> (string, bench_record) dict \<times> string list \<Rightarrow> bench_record \<Rightarrow>
   (string, bench_record) dict \<times> string list" where
  "add_record json acc r =
     (case acc of
        (by_id, conflicts) \<Rightarrow>
          (case dict_get by_id (br_id r) of
             None \<Rightarrow> (dict_set by_id (br_id r) r, conflicts)
           | Some previous \<Rightarrow>
               if previous = r then (dict_set by_id (br_id r) r, conflicts)
               else (dict_set by_id (br_id r) (lesser_record json previous r), br_id r # conflicts)))"

definition records_of ::
  "(bench_record \<Rightarrow> string) \<Rightarrow> string \<Rightarrow> bench_record list \<Rightarrow> (string, bench_record) dict \<times> string list" where
  "records_of json sha rs =
     foldl (add_record json) ([], []) (filter (\<lambda>r. exact_sha (ma_sha256 (br_artifact r)) = Some sha) rs)"

text \<open>\<^verbatim>\<open>sort(key=f, reverse=True)\<close> keeps the order of equal elements.\<close>

definition sort_down :: "('a \<Rightarrow> 'b::linorder) \<Rightarrow> 'a list \<Rightarrow> 'a list" where
  "sort_down f xs = rev (sort_key f (rev xs))"

definition single :: "bench_record \<Rightarrow> measurement_kind \<Rightarrow> int \<Rightarrow> bench_measurement option" where
  "single r kind tokens = (case measurements_of r kind tokens of [m] \<Rightarrow> Some m | _ \<Rightarrow> None)"

definition speed_reference ::
  "execution_plan \<Rightarrow> user_requirements \<Rightarrow> string \<Rightarrow> string list \<Rightarrow> bench_record \<Rightarrow> local_speed_reference" where
  "speed_reference p req sha conflicts r =
     \<lparr>lv_benchmark_id = br_id r, lv_created_at = br_created_at r, lv_artifact_sha256 = sha,
      lv_tg128 = map_option bm_mean (single r GENERATION 128),
      lv_tg128_stddev = map_option bm_stddev (single r GENERATION 128),
      lv_pp512 = map_option bm_mean (single r PREFILL 512),
      lv_pp512_stddev = map_option bm_stddev (single r PREFILL 512),
      lv_repetitions = Some (bo_repetitions (br_observation r)),
      lv_blockers = fastest_benchmark_blockers p req r @
        guard_text (br_id r \<in> set conflicts) ''Conflicting records share this benchmark ID.''\<rparr>"

definition eligible_reference :: "local_speed_reference \<Rightarrow> bool" where
  "eligible_reference v \<longleftrightarrow>
     lv_blockers v = [] \<and> (case lv_tg128 v of None \<Rightarrow> False | Some x \<Rightarrow> mantissa x \<noteq> 0)"

text \<open>\<^verbatim>\<open>statistics.median\<close>: the middle one, or the mean of the two in the middle.\<close>

definition float_median :: "py_float list \<Rightarrow> py_float" where
  "float_median xs =
     (let s = sort_key float_rat xs; n = length xs in
      if odd n then s ! (n div 2)
      else float_divide (float_add (s ! (n div 2 - 1)) (s ! (n div 2))) (float_of_int 2))"

definition float_least :: "py_float list \<Rightarrow> py_float" where
  "float_least xs = (case xs of [] \<Rightarrow> float_zero | y # ys \<Rightarrow> foldl float_min y ys)"

definition float_greatest :: "py_float list \<Rightarrow> py_float" where
  "float_greatest xs = (case xs of [] \<Rightarrow> float_zero | y # ys \<Rightarrow> foldl float_max y ys)"

definition speed_of_runs :: "string \<Rightarrow> int \<Rightarrow> local_speed_reference list \<Rightarrow> applicable_speed" where
  "speed_of_runs cohort repetitions rows =
     (let figures = List.map_filter lv_tg128 rows; prefill = List.map_filter lv_pp512 rows in
      \<lparr>as_tokens_per_second = float_median figures,
       as_stddev = (case rows of [v] \<Rightarrow> lv_tg128_stddev v | _ \<Rightarrow> None),
       as_pp512 = (if length prefill = length rows then Some (float_median prefill) else None),
       as_repetitions = repetitions, as_cohort = cohort, as_benchmark_id = lv_benchmark_id (rows ! 0),
       as_benchmark_ids = sort (map lv_benchmark_id rows), as_run_count = int (length rows),
       as_observed_min = Some (float_least figures), as_observed_max = Some (float_greatest figures)\<rparr>)"

definition applicable_speed_of ::
  "(string \<Rightarrow> string) \<Rightarrow> (local_speed_reference \<times> bench_record) list \<Rightarrow> applicable_speed option" where
  "applicable_speed_of sha256 pairs =
     (case filter (\<lambda>(v, r). eligible_reference v) pairs of
        [] \<Rightarrow> None
      | (v, r) # rest \<Rightarrow>
          (let cohort = speed_cohort sha256 r in
           Some (speed_of_runs cohort (bo_repetitions (br_observation r))
             (map fst (filter (\<lambda>(w, s). speed_cohort sha256 s = cohort) ((v, r) # rest))))))"

definition assess_speed ::
  "(string \<Rightarrow> string) \<Rightarrow> (bench_record \<Rightarrow> string) \<Rightarrow> execution_plan \<Rightarrow> user_requirements \<Rightarrow>
   bench_record list \<Rightarrow> speed_assessment" where
  "assess_speed sha256 json p req rs =
     (case av_sha256 (xp_artifact p) of
        None \<Rightarrow> no_speed
      | Some sha \<Rightarrow>
          (case records_of json sha rs of
             (by_id, conflicts) \<Rightarrow>
               (let matched = sort_down (\<lambda>r. (br_created_at r, br_id r)) (map snd by_id);
                    references = map (speed_reference p req sha conflicts) matched;
                    speed = applicable_speed_of sha256 (zip references matched) in
                no_speed\<lparr>vs_applicability :=
                    (if speed \<noteq> None then APPLIES_MEASURED
                     else if references \<noteq> [] then APPLIES_REFERENCE_ONLY else APPLIES_ABSENT),
                  vs_applicable := speed, vs_references := references\<rparr>)))"

end
