(* ===== verification/Local_Evidence_Props.thy ===== *)
theory Local_Evidence_Props
  imports Local_Evidence
begin

text \<open>
  What the speed of a plan rests on: the records that survive the lookup by id, the bounds of a
  median, the records behind an applicable speed, and a measured plan as an example.
\<close>

section \<open>The records of one artifact\<close>

lemma dict_set_entries: "set (dict_set d k v) \<subseteq> insert (k, v) {e \<in> set d. fst e \<noteq> k \<or> snd e = v}"
  if "distinct (map fst d)"
  using that unfolding dict_set_def
proof (induction d)
  case (Cons e d)
  then show ?case by (cases "fst e = k") (auto simp: rev_image_eqI)
qed simp

text \<open>
  After any number of records: one entry for each id, itself one of the records, and the only one
  with its id unless the id is marked as a conflict.
\<close>

definition records_sound :: "bench_record list \<Rightarrow> (string, bench_record) dict \<times> string list \<Rightarrow> bool" where
  "records_sound rs acc \<longleftrightarrow>
     distinct (map fst (fst acc)) \<and>
     (\<forall>(k, r) \<in> set (fst acc). br_id r = k \<and> r \<in> set rs \<and>
        (k \<in> set (snd acc) \<or> (\<forall>s \<in> set rs. br_id s = k \<longrightarrow> s = r))) \<and>
     (\<forall>r \<in> set rs. br_id r \<in> set (map fst (fst acc)))"

lemma add_record_sound:
  assumes "records_sound rs acc" shows "records_sound (rs @ [r]) (add_record json acc r)"
proof -
  obtain d cs where acc: "acc = (d, cs)" by fastforce
  have d: "distinct (map fst d)"
    and entries: "\<And>k s. (k, s) \<in> set d \<Longrightarrow> br_id s = k \<and> s \<in> set rs \<and>
        (k \<in> set cs \<or> (\<forall>u \<in> set rs. br_id u = k \<longrightarrow> u = s))"
    and known: "\<And>u. u \<in> set rs \<Longrightarrow> br_id u \<in> set (map fst d)"
    using assms by (auto simp: records_sound_def acc)
  show ?thesis
  proof (cases "dict_get d (br_id r)")
    case None
    then have new: "br_id r \<notin> set (map fst d)" by (simp add: dict_get_def map_of_eq_None_iff)
    have set: "set (dict_set d (br_id r) r) \<subseteq> insert (br_id r, r) (set d)"
      using dict_set_entries [OF d, of "br_id r" r] by auto
    have "\<forall>(k, s) \<in> set (dict_set d (br_id r) r). br_id s = k \<and> s \<in> set (rs @ [r]) \<and>
        (k \<in> set cs \<or> (\<forall>u \<in> set (rs @ [r]). br_id u = k \<longrightarrow> u = s))"
    proof clarify
      fix k s assume "(k, s) \<in> set (dict_set d (br_id r) r)"
      then consider "(k, s) = (br_id r, r)" | "(k, s) \<in> set d" using set by auto
      then show "br_id s = k \<and> s \<in> set (rs @ [r]) \<and>
          (k \<in> set cs \<or> (\<forall>u \<in> set (rs @ [r]). br_id u = k \<longrightarrow> u = s))"
      proof cases
        case 1
        have "br_id u \<noteq> br_id r" if "u \<in> set rs" for u using known [OF that] new by metis
        then show ?thesis using 1 by auto
      next
        case 2
        then have "k \<noteq> br_id r" using new by force
        then show ?thesis using entries [OF 2] by auto
      qed
    qed
    then show ?thesis using distinct_dict_set [OF d] known
      by (auto simp: records_sound_def acc add_record_def None keys_dict_set [simplified])
  next
    case (Some previous)
    define w where "w = (if previous = r then r else lesser_record json previous r)"
    define cs' where "cs' = (if previous = r then cs else br_id r # cs)"
    have add: "add_record json acc r = (dict_set d (br_id r) w, cs')"
      by (simp add: acc add_record_def Some w_def cs'_def)
    have prev: "(br_id r, previous) \<in> set d" using Some by (auto simp: dict_get_def dest: map_of_SomeD)
    have w: "w = previous \<or> w = r" by (simp add: w_def lesser_record_def)
    have wid: "br_id w = br_id r" "w \<in> set (rs @ [r])" using w entries [OF prev] by auto
    have "\<forall>(k, s) \<in> set (dict_set d (br_id r) w). br_id s = k \<and> s \<in> set (rs @ [r]) \<and>
        (k \<in> set cs' \<or> (\<forall>u \<in> set (rs @ [r]). br_id u = k \<longrightarrow> u = s))"
    proof clarify
      fix k s assume "(k, s) \<in> set (dict_set d (br_id r) w)"
      then have "(k, s) = (br_id r, w) \<or> (k, s) \<in> set d \<and> k \<noteq> br_id r"
        using dict_set_entries [OF d, of "br_id r" w] by auto
      then consider "(k, s) = (br_id r, w)" | "(k, s) \<in> set d" "k \<noteq> br_id r" by blast
      then show "br_id s = k \<and> s \<in> set (rs @ [r]) \<and>
          (k \<in> set cs' \<or> (\<forall>u \<in> set (rs @ [r]). br_id u = k \<longrightarrow> u = s))"
      proof cases
        case 1
        then show ?thesis using wid entries [OF prev] by (cases "previous = r") (auto simp: cs'_def w_def)
      next
        case 2
        then show ?thesis using entries [OF 2(1)] by (auto simp: cs'_def)
      qed
    qed
    then show ?thesis using distinct_dict_set [OF d] known
      by (auto simp: records_sound_def add keys_dict_set [simplified])
  qed
qed

lemma records_of_sound:
  "records_sound (filter (\<lambda>r. exact_sha (ma_sha256 (br_artifact r)) = Some sha) rs) (records_of json sha rs)"
proof -
  have "records_sound xs (foldl (add_record json) ([], []) xs)" for xs
    by (induction xs rule: rev_induct) (simp_all add: add_record_sound records_sound_def [of "[]"])
  then show ?thesis by (simp add: records_of_def)
qed

section \<open>The median\<close>

definition representable :: "py_float \<Rightarrow> bool" where
  "representable x \<longleftrightarrow> rnd (float_value x) = float_value x"

lemma fold_min: "float_value (foldl float_min y ys) = foldl min (float_value y) (map float_value ys)"
  by (induction ys arbitrary: y) (simp_all add: float_value_min)

lemma fold_max: "float_value (foldl float_max y ys) = foldl max (float_value y) (map float_value ys)"
  by (induction ys arbitrary: y) (simp_all add: float_value_max)

lemma foldl_min_le: "x \<in> set (y # ys) \<Longrightarrow> foldl min y ys \<le> x" for x :: "'a::linorder"
proof (induction ys arbitrary: y x)
  case (Cons z zs)
  then show ?case by (fastforce simp: min_le_iff_disj intro: order.trans [OF Cons.IH [of "min y z" "min y z"]])
qed simp

lemma foldl_max_ge: "x \<in> set (y # ys) \<Longrightarrow> x \<le> foldl max y ys" for x :: "'a::linorder"
proof (induction ys arbitrary: y x)
  case (Cons z zs)
  then show ?case by (fastforce simp: le_max_iff_disj intro: order.trans [OF _ Cons.IH [of "max y z" "max y z"]])
qed simp

lemma float_least_le: "x \<in> set xs \<Longrightarrow> float_value (float_least xs) \<le> float_value x"
  by (cases xs) (auto simp: float_least_def fold_min intro: foldl_min_le)

lemma float_greatest_ge: "x \<in> set xs \<Longrightarrow> float_value x \<le> float_value (float_greatest xs)"
  by (cases xs) (auto simp: float_greatest_def fold_max intro: foldl_max_ge)

lemma middle_between:
  assumes "representable x" "representable y" "float_value x \<le> float_value y"
  shows "float_value x \<le> float_value (float_divide (float_add x y) (float_of_int 2)) \<and>
    float_value (float_divide (float_add x y) (float_of_int 2)) \<le> float_value y"
proof -
  have two: "0 < mantissa (float_of_int 2)" by code_simp
  have half: "rnd (r / 2) = rnd r / 2" for r using rnd_scale [of r "-1"] by (simp add: powr_minus field_simps)
  have double: "rnd (2 * r) = 2 * rnd r" for r using rnd_scale [of r 1] by (simp add: field_simps)
  have mid: "float_value (float_divide (float_add x y) (float_of_int 2)) =
      rnd (rnd (float_value x + float_value y) / 2)"
    by (simp add: value_float_divide [OF two] value_float_add value_float_of_int rnd_int [of 2, simplified])
  have "rnd (2 * float_value x) \<le> rnd (float_value x + float_value y)"
    "rnd (float_value x + float_value y) \<le> rnd (2 * float_value y)"
    using assms(3) by (auto intro: rnd_mono)
  then have "float_value x \<le> rnd (float_value x + float_value y) / 2"
    "rnd (float_value x + float_value y) / 2 \<le> float_value y"
    using assms(1,2) by (simp_all add: double representable_def)
  then show ?thesis unfolding mid using assms(1,2) rnd_mono [of "float_value x" "rnd (float_value x + float_value y) / 2"]
      rnd_mono [of "rnd (float_value x + float_value y) / 2" "float_value y"]
    by (simp add: representable_def)
qed

lemma float_median_between:
  assumes "xs \<noteq> []" "\<forall>x \<in> set xs. representable x"
  shows "float_le (float_least xs) (float_median xs) \<and> float_le (float_median xs) (float_greatest xs)"
proof -
  define s where "s = sort_key float_rat xs"
  have s: "set s = set xs" "length s = length xs" by (simp_all add: s_def)
  have mem: "s ! k \<in> set xs" if "k < length xs" for k using that s by (metis nth_mem)
  have ends: "float_value (float_least xs) \<le> float_value (s ! k)" "float_value (s ! k) \<le> float_value (float_greatest xs)"
    if "k < length xs" for k using mem [OF that] float_least_le float_greatest_ge by blast+
  have n: "length xs div 2 < length xs" using assms(1) by (cases xs) auto
  show ?thesis
  proof (cases "odd (length xs)")
    case True
    then have "float_median xs = s ! (length xs div 2)" by (simp add: float_median_def s_def)
    then show ?thesis using ends [OF n] by (simp add: float_le_iff)
  next
    case False
    let ?a = "s ! (length xs div 2 - 1)" and ?b = "s ! (length xs div 2)"
    have m: "float_median xs = float_divide (float_add ?a ?b) (float_of_int 2)"
      using False by (simp add: float_median_def s_def Let_def)
    have "float_rat ?a \<le> float_rat ?b"
      using sorted_nth_mono [of "map float_rat s" "length xs div 2 - 1" "length xs div 2"] n s(2)
      by (simp add: s_def)
    then have "float_value ?a \<le> float_value ?b" by (simp add: float_rat_le)
    moreover have "length xs div 2 - 1 < length xs" using n by linarith
    ultimately show ?thesis
      using middle_between [of ?a ?b] assms(2) mem n ends [of "length xs div 2 - 1"] ends [of "length xs div 2"]
      unfolding m float_le_iff by (meson order.trans)
  qed
qed

section \<open>What an applicable speed rests on\<close>

text \<open>A record of the artifact that nothing disqualifies and no other record of its id contradicts.\<close>

definition proven_record ::
  "execution_plan \<Rightarrow> user_requirements \<Rightarrow> bench_record list \<Rightarrow> bench_record \<Rightarrow> bool" where
  "proven_record p req rs r \<longleftrightarrow>
     r \<in> set rs \<and> exact_sha (ma_sha256 (br_artifact r)) = av_sha256 (xp_artifact p) \<and>
     fastest_benchmark_blockers p req r = [] \<and>
     list_all (\<lambda>s. s = r \<or> br_id s \<noteq> br_id r \<or>
       exact_sha (ma_sha256 (br_artifact s)) \<noteq> exact_sha (ma_sha256 (br_artifact r))) rs"

lemma set_sort_down [simp]: "set (sort_down f xs) = set xs" by (simp add: sort_down_def)

lemma distinct_sort_down [simp]: "distinct (map g (sort_down f xs)) \<longleftrightarrow> distinct (map g xs)"
proof -
  have "mset (map g (sort_down f xs)) = mset (map g xs)" by (simp add: sort_down_def)
  then show ?thesis by (metis mset_eq_imp_distinct_iff)
qed

lemma assess_speed_applicable:
  assumes "vs_applicable (assess_speed sha256 json p req rs) = Some s"
  obtains rows repetitions where
    "rows \<noteq> []" "distinct (map br_id rows)" "\<forall>r \<in> set rows. proven_record p req rs r"
    "\<forall>r \<in> set rows. speed_cohort sha256 r = as_cohort s"
    "\<forall>r \<in> set rows. \<exists>m. single r GENERATION 128 = Some m \<and> mantissa (bm_mean m) \<noteq> 0"
    "s = speed_of_runs (as_cohort s) repetitions (map (speed_reference p req (the (av_sha256 (xp_artifact p))) []) rows)"
proof -
  obtain sha where sha: "av_sha256 (xp_artifact p) = Some sha"
    using assms by (cases "av_sha256 (xp_artifact p)") (auto simp: assess_speed_def no_speed_def)
  obtain by_id conflicts where recs: "records_of json sha rs = (by_id, conflicts)" by fastforce
  define matched where "matched = sort_down (\<lambda>r. (br_created_at r, br_id r)) (map snd by_id)"
  let ?ref = "speed_reference p req sha"
  have sound: "records_sound (filter (\<lambda>r. exact_sha (ma_sha256 (br_artifact r)) = Some sha) rs) (by_id, conflicts)"
    using records_of_sound [of sha rs json] by (simp add: recs)
  then have ids: "distinct (map fst by_id)" "\<And>k r. (k, r) \<in> set by_id \<Longrightarrow> br_id r = k"
    by (auto simp: records_sound_def)
  have same: "map (br_id \<circ> snd) by_id = map fst by_id" using ids(2) by (intro map_cong) auto
  have dist: "distinct (map br_id matched)"
    unfolding matched_def distinct_sort_down map_map same by (rule ids(1))
  have proven: "proven_record p req rs r" if "r \<in> set matched" "eligible_reference (?ref conflicts r)" for r
  proof -
    have "(br_id r, r) \<in> set by_id" using that(1) ids(2) by (force simp: matched_def)
    moreover have "br_id r \<notin> set conflicts" and "fastest_benchmark_blockers p req r = []"
      using that(2) by (auto simp: eligible_reference_def speed_reference_def guard_text_def split: if_splits)
    ultimately show ?thesis using sound sha by (auto simp: records_sound_def proven_record_def list_all_iff)
  qed
  define eligible where "eligible = filter (\<lambda>r. eligible_reference (?ref conflicts r)) matched"
  have pairs: "filter (\<lambda>(v, r). eligible_reference v) (zip (map (?ref conflicts) matched) matched) =
      map (\<lambda>r. (?ref conflicts r, r)) eligible"
    by (simp add: eligible_def zip_map1 zip_same_conv_map filter_map comp_def)
  have app: "applicable_speed_of sha256 (zip (map (?ref conflicts) matched) matched) = Some s"
    using assms by (simp add: assess_speed_def sha recs matched_def Let_def)
  then obtain r0 rest where el: "eligible = r0 # rest"
    by (cases eligible) (auto simp: applicable_speed_of_def pairs)
  define rows where "rows = filter (\<lambda>r. speed_cohort sha256 r = speed_cohort sha256 r0) eligible"
  have s: "s = speed_of_runs (speed_cohort sha256 r0) (bo_repetitions (br_observation r0)) (map (?ref conflicts) rows)"
    using app by (simp add: applicable_speed_of_def pairs el rows_def Let_def filter_map comp_def)
  then have cohort: "as_cohort s = speed_cohort sha256 r0" by (simp add: speed_of_runs_def Let_def)
  have clean: "?ref conflicts r = ?ref [] r" if "r \<in> set rows" for r
    using that by (auto simp: rows_def eligible_def eligible_reference_def speed_reference_def guard_text_def split: if_splits)
  have tg: "\<exists>m. single r GENERATION 128 = Some m \<and> mantissa (bm_mean m) \<noteq> 0" if "r \<in> set rows" for r
    using that by (auto simp: rows_def eligible_def eligible_reference_def speed_reference_def split: option.splits)
  show ?thesis
  proof (rule that [of rows])
    show "rows \<noteq> []" by (simp add: rows_def el)
    show "distinct (map br_id rows)" using dist by (simp add: rows_def eligible_def distinct_map_filter)
    show "\<forall>r \<in> set rows. proven_record p req rs r" using proven by (auto simp: rows_def eligible_def)
    show "\<forall>r \<in> set rows. speed_cohort sha256 r = as_cohort s" by (simp add: rows_def cohort)
    show "s = speed_of_runs (as_cohort s) (bo_repetitions (br_observation r0))
        (map (speed_reference p req (the (av_sha256 (xp_artifact p))) []) rows)"
      using s clean cohort by (simp add: sha cong: map_cong)
  qed (use tg in blast)
qed

lemma single_SomeD: "single r k n = Some m \<Longrightarrow> measurements_of r k n = [m]"
  unfolding single_def by (cases "measurements_of r k n"; cases "tl (measurements_of r k n)") simp_all


section \<open>A measured plan\<close>

definition measured_machine :: hardware_profile where
  "measured_machine =
     (example_hardware 0 16000000000)\<lparr>cpu := \<lparr>cpu_model = None, physical_cores = Some 6, logical_cores = Some 12\<rparr>\<rparr>"

definition measured_sha :: string where
  "measured_sha = replicate 64 (CHR ''a'')"

definition measured_runtime :: runtime_recommendation where
  "measured_runtime = (no_runtime CONF_HIGH [])\<lparr>rr_runtime := LLAMA_CPP\<rparr>"

definition measured_plan :: execution_plan where
  "measured_plan =
     example_plan\<lparr>xp_artifact := plan_artifact\<lparr>av_sha256 := Some measured_sha\<rparr>,
       xp_runtime := measured_runtime, xp_hardware := Some measured_machine,
       xp_backend_selection := Some \<lparr>sel_backend = CPU, sel_accelerator = None, sel_reason = CPU_FALLBACK,
         sel_backend_info = None, sel_alternatives = [], sel_notes = []\<rparr>\<rparr>"

definition measured_artifact :: model_artifact where
  "measured_artifact =
     (to_model_artifact plan_artifact)\<lparr>ma_sha256 := Some measured_sha, ma_is_verified := True,
       ma_local_path := Some ''/m.gguf''\<rparr>"

definition measured_request :: bench_request where
  "measured_request =
     \<lparr>bq_artifact = measured_artifact, bq_runtime = measured_runtime, bq_backend = CPU, bq_device = None,
      bq_gpu_layers = \<lparr>gl_count = Some 0, gl_full_offload = False\<rparr>, bq_context_length = None,
      bq_prefill_sizes = [512], bq_generation_sizes = [128], bq_repetitions = 5,
      bq_timeout = float_of_int 900, bq_notes = []\<rparr>"

definition measured_row :: "measurement_kind \<Rightarrow> int \<Rightarrow> int \<Rightarrow> bench_measurement" where
  "measured_row k n x =
     \<lparr>bm_kind = k, bm_tokens = n, bm_mean = PyFloat x 0, bm_stddev = PyFloat 0 0, bm_mean_duration = None,
      bm_stddev_duration = None, bm_repetitions = Some 5, bm_source_label = ''test'', bm_raw_backend = None,
      bm_raw_device = Some ''none'', bm_raw_ngl = Some ''0''\<rparr>"

definition measured_protocol :: bench_protocol where
  "measured_protocol =
     \<lparr>bp_build_commit = Some ''0123abc'', bp_build_number = Some 7, bp_n_threads = Some 6, bp_n_batch = Some 512,
      bp_n_ubatch = Some 512, bp_cache_type_k = Some ''f16'', bp_cache_type_v = Some ''f16'',
      bp_flash_attn = Some ''off'', bp_load_mode = Some ''mmap'', bp_warmup = Some ''ran'',
      bp_thread_policy = Some ''physical_cores''\<rparr>"

definition measured_observation :: "int \<Rightarrow> bench_observation" where
  "measured_observation tps =
     \<lparr>bo_success = True, bo_measurements = [measured_row PREFILL 512 900, measured_row GENERATION 128 tps],
      bo_repetitions = 5, bo_duration = float_of_int 60, bo_protocol = Some measured_protocol,
      bo_methodology = Some ''llama_bench_v2'', bo_model_load = None, bo_warmup = None, bo_first_token = None,
      bo_first_token_stddev = None, bo_generation_latency = None, bo_generation_latency_stddev = None,
      bo_peak_ram_bytes = None, bo_peak_vram_bytes = None,
      bo_command =
        [''llama-bench'', ''-m'', ''/m.gguf'', ''-dev'', ''none'', ''-ngl'', ''0'', ''-p'', ''512'', ''-n'', ''128'',
         ''-r'', ''5'', ''-b'', ''512'', ''-ub'', ''512'', ''-fa'', ''off'', ''-ctk'', ''f16'', ''-ctv'', ''f16'',
         ''-lm'', ''mmap'', ''-t'', ''6''],
      bo_exit_code = Some 0, bo_failure_reason = None, bo_message = None,
      bo_raw_stdout = ''build: 0123abc (7)'', bo_raw_stderr = []\<rparr>"

definition measured_record :: "string \<Rightarrow> int \<Rightarrow> bench_record" where
  "measured_record i tps =
     create_record measured_machine measured_request (measured_observation tps) None None
       \<lparr>bi_benchmark_id = i, bi_created_at = 0\<rparr>
       \<lparr>be_jaull_version = None, be_python_version = None, be_python_implementation = None, be_platform = None,
        be_git_commit = None\<rparr> None"

lemma measured_record_fields [simp]:
  "br_id (measured_record i x) = i" "br_observation (measured_record i x) = measured_observation x"
  "br_artifact (measured_record i x) = measured_artifact" "br_runtime (measured_record i x) = measured_runtime"
  "br_hardware (measured_record i x) = measured_machine" "br_request (measured_record i x) = measured_request"
  "br_requested_backend (measured_record i x) = CPU" "br_requested_device (measured_record i x) = None"
  "br_gpu_layers (measured_record i x) = \<lparr>gl_count = Some 0, gl_full_offload = False\<rparr>"
  "br_bench_capability (measured_record i x) = None"
  by (simp_all add: measured_record_def create_record_def br_id_def measured_request_def)

lemma measured_texts [simp]:
  "show_int 0 = ''0''" "show_int 5 = ''5''" "show_int 6 = ''6''" "show_int 7 = ''7''" "show_int 128 = ''128''"
  "show_int 512 = ''512''" "lower ''0123abc'' = ''0123abc''"
  by (code_simp, code_simp, code_simp, code_simp, code_simp, code_simp, code_simp)

lemma measured_sha_digest [simp]: "is_digest measured_sha" "lower measured_sha = measured_sha"
  by (code_simp, code_simp)

lemma measured_build: "record_build (measured_record i x) = Some ''0123abc (7)''"
proof -
  have "reported_bench_build (''build: 0123abc (7)'' @ NL @ []) = Some ''0123abc (7)''" by code_simp
  then show ?thesis by (simp add: record_build_def output_of_def measured_observation_def)
qed

lemma measured_runtime_flags [simp]: "rr_flags measured_runtime = []" "rr_runtime measured_runtime = LLAMA_CPP"
  by (simp_all add: measured_runtime_def no_runtime_def)

lemma measured_plan_fields [simp]:
  "av_sha256 (xp_artifact measured_plan) = Some measured_sha" "xp_runtime measured_plan = measured_runtime"
  "xp_hardware measured_plan = Some measured_machine" "planned_backend measured_plan = Some CPU"
  by (simp_all add: measured_plan_def planned_backend_def)

lemma measured_artifact_fields [simp]:
  "ma_sha256 measured_artifact = Some measured_sha" "ma_is_verified measured_artifact"
  "ma_local_path measured_artifact = Some ''/m.gguf''" "ma_format measured_artifact = ''gguf''"
  by (simp_all add: measured_artifact_def to_model_artifact_def plan_artifact_def)

lemma measured_origin: "origin_blockers (measured_record i x) = []"
  by (simp add: origin_blockers_def guard_text_def measured_build probed_build_disagrees_def)
   (simp add: measured_observation_def measured_request_def)

lemma measured_rows: "measurement_blockers (measured_record i x) GENERATION 128 n [128] = []" "measurement_blockers (measured_record i x) PREFILL 512 n [512] = []"
  by (simp_all add: measurement_blockers_def measurements_of_def measured_observation_def measured_row_def guard_text_def
     expected_device_def expected_ngl_def gpu_layers_label_def)

lemma measured_command: "command_blockers (measured_record i x) = []"
  by (simp add: command_blockers_def expected_command_def expected_device_def expected_ngl_def gpu_layers_label_def
   measured_request_def measured_observation_def flag_argument_def guard_text_def)
lemma measured_settings: "v2_blockers (measured_record i x) = []"
  by (simp add: v2_blockers_def measured_build measured_observation_def flag_argument_def guard_text_def measured_protocol_def LLAMA_BENCH_V2_FLAGS_def
    LLAMA_BENCH_V2_SETTINGS_def llama_bench_v2_mismatches_def protocol_field_def protocol_fields_def dict_get_def optional_int_def optional_str_def measured_machine_def cores_text_def protocol_build_def)

lemma measured_matches: "benchmark_matches measured_plan (measured_record i x)"
proof -
  have "same_planned_artifact measured_plan measured_artifact"
   by (simp add: same_planned_artifact_def measured_plan_def measured_artifact_def to_model_artifact_def plan_artifact_def Let_def artifact_identity_matches_def known_equal_def identity_of_def)
  moreover have "generation_measured (measured_record i x)"
    by (simp add: generation_measured_def measured_observation_def measured_row_def measured_request_def)
  moreover have "offload_matches measured_plan (measured_record i x)"
   by (simp add: offload_matches_def flag_values_def dict_get_def gpu_layers_label_def)
  ultimately show ?thesis
   by (simp add: benchmark_matches_def common_matches_def same_machine_def known_benchmark_methodologies_def measured_observation_def)
    (simp add: measured_plan_def)
qed

lemma measured_blockers:
  "fastest_benchmark_blockers measured_plan (example_requirements SPEED) (measured_record i x) = []"
proof -
  have "bq_generation_sizes measured_request = [128]" "bq_prefill_sizes measured_request = [512]"
    by (simp_all add: measured_request_def)
  moreover have "bo_methodology (measured_observation x) = Some LLAMA_BENCH_V2"
    by (simp add: measured_observation_def LLAMA_BENCH_V2_def)
  ultimately have "fastest_record_blockers (measured_record i x) = []"
    by (simp add: fastest_record_blockers_def measured_origin measured_rows measured_command measured_settings)
  moreover have "matching_benchmark measured_plan [measured_record i x] \<noteq> None"
    by (simp add: matching_benchmark_def measured_matches max_on_def)
  ultimately show ?thesis
    by (simp add: fastest_benchmark_blockers_def device_blockers_def guard_text_def example_requirements_def)
qed

lemma measured_single:
  "single (measured_record i x) GENERATION 128 = Some (measured_row GENERATION 128 x)"
  by (simp add: single_def measurements_of_def measured_observation_def measured_row_def)

lemma measured_speed:
  assumes "x \<noteq> 0"
  shows "vs_applicable (assess_speed sha256 json measured_plan (example_requirements SPEED) [measured_record i x]) \<noteq> None"
proof -
  have "exact_sha (Some measured_sha) = Some measured_sha" by (simp add: exact_sha_def)
  then have "records_of json measured_sha [measured_record i x] = ([(i, measured_record i x)], [])"
    by (simp add: records_of_def add_record_def dict_get_def dict_set_def)
  moreover have "eligible_reference (speed_reference measured_plan (example_requirements SPEED) measured_sha [] (measured_record i x))"
    using assms by (simp add: eligible_reference_def speed_reference_def measured_blockers measured_single measured_row_def guard_text_def)
  ultimately show ?thesis
    by (simp add: assess_speed_def applicable_speed_of_def sort_down_def Let_def)
qed


end
