(* ===== verification/Quality_Evidence.thy ===== *)
theory Quality_Evidence
  imports Plan_Assessment_Data "HOL-Library.List_Lexorder" "HOL-Library.Char_ord"
begin

text \<open>
  The measured quality of a plan (\<^verbatim>\<open>recommendation/quality.py\<close>): the profile a request asks for,
  the stored evaluations of the exact artifact, and the one result among them that applies.
  Reading one raw record (its validation, digests and audit, \<^verbatim>\<open>evaluation/quality_records.py\<close> and
  \<^verbatim>\<open>quality_comparison.py\<close>) is a function parameter that gives nothing for an invalid record.
\<close>

section \<open>Described records\<close>

record quality_metric =
  qm_name :: string
  qm_value :: py_float
  qm_correct :: int
  qm_samples :: int

text \<open>What the projection reads of a described record.\<close>

record quality_evidence =
  qe_identity_sha256 :: string
  qe_artifact_sha256 :: string
  qe_suite :: string
  qe_metrics :: "quality_metric list"
  qe_samples_used :: int
  qe_samples_available :: int
  qe_classification :: string
  qe_reusable :: bool
  qe_limitations :: "string list"

record quality_entry =
  qn_evidence :: quality_evidence
  qn_record_sha256 :: string
  qn_cohort :: string
  qn_audited :: bool
  qn_repeat :: string

record quality_index =
  qi_by_artifact :: "(string, quality_entry list) dict"
  qi_invalid :: int

definition index_step :: "('r \<Rightarrow> quality_entry option) \<Rightarrow> quality_index \<Rightarrow> 'r \<Rightarrow> quality_index" where
  "index_step describe ix r =
     (case describe r of
        None \<Rightarrow> ix\<lparr>qi_invalid := qi_invalid ix + 1\<rparr>
      | Some e \<Rightarrow>
          ix\<lparr>qi_by_artifact := setdefault_append (qi_by_artifact ix) (qe_artifact_sha256 (qn_evidence e)) e\<rparr>)"

definition index_quality_records :: "('r \<Rightarrow> quality_entry option) \<Rightarrow> 'r list \<Rightarrow> quality_index" where
  "index_quality_records describe rs = foldl (index_step describe) \<lparr>qi_by_artifact = [], qi_invalid = 0\<rparr> rs"

definition entries_of :: "quality_index \<Rightarrow> string option \<Rightarrow> quality_entry list" where
  "entries_of ix sha = (case sha of None \<Rightarrow> [] | Some s \<Rightarrow> opt_default (dict_get (qi_by_artifact ix) s) [])"

section \<open>The profile of a request\<close>

definition requested_profile :: "user_requirements \<Rightarrow> quality_profile option" where
  "requested_profile req =
     (if set (map (\<lambda>l. lower (strip l)) (ur_languages req)) \<noteq> {''en''} then None
      else if ur_use_case req = GENERAL_CHAT then Some IFEVAL_INSTRUCTIONS_EN
      else if ur_use_case req = CODING then Some HUMANEVAL_PYTHON_EN
      else None)"

fun PROFILE_SUITES :: "quality_profile \<Rightarrow> string option" where
  "PROFILE_SUITES IFEVAL_INSTRUCTIONS_EN = Some ''jaull-ifeval-chat-v1''"
| "PROFILE_SUITES HUMANEVAL_PYTHON_EN = None"

fun PRIMARY_METRICS :: "quality_profile \<Rightarrow> string" where
  "PRIMARY_METRICS IFEVAL_INSTRUCTIONS_EN = ''prompt_level_strict_acc''"
| "PRIMARY_METRICS HUMANEVAL_PYTHON_EN = []"

section \<open>The stored result\<close>

record stored_quality_result =
  sq_applicable :: "quality_entry option"
  sq_complete :: nat
  sq_distinct :: nat

definition complete_entries :: "quality_index \<Rightarrow> string option \<Rightarrow> quality_profile \<Rightarrow> string \<Rightarrow> quality_entry list" where
  "complete_entries ix sha target suite =
     sort_key qn_record_sha256
       (filter (\<lambda>e. qe_suite (qn_evidence e) = suite \<and> qe_reusable (qn_evidence e) \<and> qn_audited e \<and>
           PRIMARY_METRICS target \<in> set (map qm_name (qe_metrics (qn_evidence e))))
         (entries_of ix sha))"

text \<open>
  Repeats with the same answers are one result; the lowest digest stands for them.  The code sorts
  whole tuples; two with one digest are the same record, so the digest decides.
\<close>

definition stored_quality :: "quality_index \<Rightarrow> string option \<Rightarrow> quality_profile option \<Rightarrow> stored_quality_result" where
  "stored_quality ix sha target =
     (case Option.bind target PROFILE_SUITES of
        None \<Rightarrow> \<lparr>sq_applicable = None, sq_complete = 0, sq_distinct = 0\<rparr>
      | Some suite \<Rightarrow>
          (if sha = None then \<lparr>sq_applicable = None, sq_complete = 0, sq_distinct = 0\<rparr>
           else
             (let entries = complete_entries ix sha (the target) suite;
                  distinct_results = length (remdups (map qn_repeat entries)) in
              \<lparr>sq_applicable = (if distinct_results = 1 then Some (entries ! 0) else None),
               sq_complete = length entries, sq_distinct = distinct_results\<rparr>)))"

section \<open>The assessment\<close>

definition profile_blocker :: "quality_profile option \<Rightarrow> string" where
  "profile_blocker target =
     (case target of
        None \<Rightarrow> ''No validated quality profile covers the requested task and languages.''
      | Some p \<Rightarrow>
          (case PROFILE_SUITES p of
             Some suite \<Rightarrow>
               ''Profile '' @ profile_value p @ '' is applicable only through one complete '' @ suite @ '' run '' @
               ''of this exact artifact, matching the audited pins for suite, dataset, evaluator '' @
               ''and runtime.''
           | None \<Rightarrow>
               ''Profile '' @ profile_value p @ '' requires an audited generation contract; none exists yet.''))"

definition UNVERIFIED_RUNTIME :: string where
  "UNVERIFIED_RUNTIME = ''Current runtime, placement and effective protocol are not verified.''"

definition quality_reference :: "string \<Rightarrow> quality_entry \<Rightarrow> local_quality_reference" where
  "quality_reference blocker e =
     (let v = qn_evidence e in
      \<lparr>lq_identity_sha256 = qe_identity_sha256 v, lq_record_sha256 = qn_record_sha256 e,
       lq_artifact_sha256 = qe_artifact_sha256 v, lq_suite = qe_suite v,
       lq_classification = qe_classification v, lq_samples_used = qe_samples_used v,
       lq_samples_available = qe_samples_available v,
       lq_metrics = foldl (\<lambda>d m. dict_set d (qm_name m) (qm_value m)) [] (qe_metrics v),
       lq_blockers = qe_limitations v @ [UNVERIFIED_RUNTIME, blocker]\<rparr>)"

text \<open>The applied record is what the profile blocker asks for, so its reference drops it.\<close>

definition cleared_reference :: "string \<Rightarrow> string \<Rightarrow> local_quality_reference \<Rightarrow> local_quality_reference" where
  "cleared_reference blocker sha q =
     (if lq_record_sha256 q = sha then q\<lparr>lq_blockers := filter (\<lambda>b. b \<noteq> blocker) (lq_blockers q)\<rparr> else q)"

definition applicable_quality_of :: "quality_profile \<Rightarrow> quality_entry \<Rightarrow> applicable_quality option" where
  "applicable_quality_of target e =
     map_option (\<lambda>m.
         \<lparr>aq_suite = qe_suite (qn_evidence e), aq_metric = qm_name m, aq_value = qm_value m,
          aq_correct = qm_correct m, aq_samples = qm_samples m, aq_cohort = qn_cohort e,
          aq_record_sha256 = qn_record_sha256 e\<rparr>)
       (List.find (\<lambda>m. qm_name m = PRIMARY_METRICS target) (qe_metrics (qn_evidence e)))"

definition quality_limitations ::
  "applicable_quality option \<Rightarrow> stored_quality_result \<Rightarrow> string \<Rightarrow> string \<Rightarrow> bool \<Rightarrow> int \<Rightarrow> string list" where
  "quality_limitations applicable stored suite blocker published invalid =
     (if applicable \<noteq> None then [default_limitations ! 0, quality_scope] else default_limitations @ [blocker]) @
     (if 1 < sq_distinct stored then
        [show_int (int (sq_complete stored)) @ '' complete '' @ suite @ '' runs of this artifact give '' @
         show_int (int (sq_distinct stored)) @ '' '' @
         ''different results; no rule selects one, so none is applied.'']
      else if 1 < sq_complete stored then
        [show_int (int (sq_complete stored)) @ '' complete '' @ suite @ '' runs of this artifact gave identical '' @
         ''answers; they count as one result.'']
      else []) @
     (if published then
        [''Published model references have not passed task, representation and protocol '' @
         ''applicability gates; they do not measure this artifact or replace local records.'']
      else []) @
     (if invalid = 0 then [] else [''Ignored '' @ show_int invalid @ '' invalid local quality record(s).''])"

definition assess_quality ::
  "execution_plan \<Rightarrow> user_requirements \<Rightarrow> assessment_level \<Rightarrow> quality_index \<Rightarrow> external_evaluation list \<Rightarrow>
   quality_assessment" where
  "assess_quality p req prior ix published =
     (let target = requested_profile req; blocker = profile_blocker target;
          sha = av_sha256 (xp_artifact p);
          references = map (quality_reference blocker) (entries_of ix sha);
          stored = stored_quality ix sha target;
          applicable = Option.bind (sq_applicable stored) (applicable_quality_of (the target));
          shown = (case applicable of None \<Rightarrow> references
                   | Some a \<Rightarrow> map (cleared_reference blocker (aq_record_sha256 a)) references);
          suite = opt_default (Option.bind target PROFILE_SUITES) [] in
      \<lparr>qa_use_case = Some (ur_use_case req), qa_languages = ur_languages req, qa_requested_profile = target,
       qa_applicability =
         (if applicable \<noteq> None then APPLIES_MEASURED
          else if references \<noteq> [] \<or> published \<noteq> [] then APPLIES_REFERENCE_ONLY else APPLIES_ABSENT),
       qa_applicable = applicable, qa_metadata_prior = prior, qa_confidence = CONF_LOW,
       qa_local_references = sort_key (\<lambda>q. (lq_identity_sha256 q, lq_record_sha256 q)) shown,
       qa_limitations =
         quality_limitations applicable stored suite blocker (published \<noteq> []) (qi_invalid ix)\<rparr>)"

section \<open>What applies\<close>

lemma entries_of_index:
  "entries_of (index_quality_records describe rs) (Some sha) =
     filter (\<lambda>e. qe_artifact_sha256 (qn_evidence e) = sha) (List.map_filter describe rs)"
proof (induction rs rule: rev_induct)
  case (snoc r rs)
  have "index_quality_records describe (rs @ [r]) = index_step describe (index_quality_records describe rs) r"
    by (simp add: index_quality_records_def)
  then show ?case using snoc
    by (auto simp: index_step_def entries_of_def setdefault_append_def dict_simps map_filter_def split: option.split)
qed (simp add: index_quality_records_def entries_of_def dict_simps map_filter_simps)

lemma invalid_of_index: "qi_invalid (index_quality_records describe rs) = int (length (filter (\<lambda>r. describe r = None) rs))"
proof (induction rs rule: rev_induct)
  case (snoc r rs)
  then show ?case by (auto simp: index_quality_records_def index_step_def split: option.split)
qed (simp add: index_quality_records_def)

text \<open>A complete audited run of the suite, on the plan's own bytes.\<close>

definition audited_run :: "execution_plan \<Rightarrow> string \<Rightarrow> string \<Rightarrow> quality_entry \<Rightarrow> bool" where
  "audited_run p suite metric e \<longleftrightarrow>
     av_sha256 (xp_artifact p) = Some (qe_artifact_sha256 (qn_evidence e)) \<and>
     qe_suite (qn_evidence e) = suite \<and> qe_reusable (qn_evidence e) \<and> qn_audited e \<and>
     metric \<in> set (map qm_name (qe_metrics (qn_evidence e)))"

lemma complete_entries_index:
  "set (complete_entries (index_quality_records describe rs) (Some sha) target suite) =
     {e \<in> set (List.map_filter describe rs). qe_artifact_sha256 (qn_evidence e) = sha \<and>
        qe_suite (qn_evidence e) = suite \<and> qe_reusable (qn_evidence e) \<and> qn_audited e \<and>
        PRIMARY_METRICS target \<in> set (map qm_name (qe_metrics (qn_evidence e)))}"
  by (auto simp: complete_entries_def entries_of_index)

lemma one_result: "length (remdups xs) = 1 \<longleftrightarrow> (\<exists>x. set xs = {x})"
proof
  assume "length (remdups xs) = 1"
  then obtain x where "remdups xs = [x]" by (metis One_nat_def length_0_conv length_Suc_conv)
  then show "\<exists>x. set xs = {x}" by (metis list.set(1,2) set_remdups)
next
  assume "\<exists>x. set xs = {x}"
  then have "card (set xs) = 1" by auto
  then show "length (remdups xs) = 1" by (simp add: length_remdups_card_conv)
qed

lemma sort_key_first:
  assumes "xs \<noteq> []"
  shows "sort_key f xs ! 0 \<in> set xs \<and> (\<forall>x \<in> set xs. f (sort_key f xs ! 0) \<le> f x)"
proof -
  obtain y ys where ys: "sort_key f xs = y # ys"
    using assms by (cases "sort_key f xs") (auto dest: arg_cong [where f = set])
  then have "set xs = insert y (set ys)" by (metis list.simps(15) set_sort)
  moreover have "sorted (map f (y # ys))" unfolding ys [symmetric] by (rule sorted_sort_key)
  ultimately show ?thesis unfolding ys by auto
qed

lemma complete_first:
  "complete_entries ix sha t suite \<noteq> [] \<Longrightarrow>
     complete_entries ix sha t suite ! 0 \<in> set (complete_entries ix sha t suite) \<and>
     (\<forall>e' \<in> set (complete_entries ix sha t suite).
        qn_record_sha256 (complete_entries ix sha t suite ! 0) \<le> qn_record_sha256 e')"
  unfolding complete_entries_def set_sort
  by (rule sort_key_first) (auto dest: arg_cong [where f = set])

lemma stored_quality_applies:
  assumes "sq_applicable (stored_quality (index_quality_records describe rs) sha target) = Some e"
  obtains t suite s where "target = Some t" "PROFILE_SUITES t = Some suite" "sha = Some s"
    "e \<in> set (complete_entries (index_quality_records describe rs) sha t suite)"
    "\<forall>e' \<in> set (complete_entries (index_quality_records describe rs) sha t suite).
       qn_repeat e' = qn_repeat e \<and> qn_record_sha256 e \<le> qn_record_sha256 e'"
proof -
  let ?ix = "index_quality_records describe rs"
  from assms obtain t suite s where t: "target = Some t" "PROFILE_SUITES t = Some suite" "sha = Some s"
    and one: "length (remdups (map qn_repeat (complete_entries ?ix sha t suite))) = 1"
    and e: "e = complete_entries ?ix sha t suite ! 0"
    by (cases target; cases sha) (auto simp: stored_quality_def Let_def split: option.splits if_splits)
  from one obtain r where r: "set (map qn_repeat (complete_entries ?ix sha t suite)) = {r}" by (auto simp only: one_result)
  then have ne: "complete_entries ?ix sha t suite \<noteq> []" by auto
  have first: "e \<in> set (complete_entries ?ix sha t suite) \<and>
      (\<forall>e' \<in> set (complete_entries ?ix sha t suite). qn_record_sha256 e \<le> qn_record_sha256 e')"
    using complete_first [OF ne] unfolding e .
  show thesis
  proof (rule that [OF t])
    show "e \<in> set (complete_entries ?ix sha t suite)" using first by blast
    show "\<forall>e' \<in> set (complete_entries ?ix sha t suite). qn_repeat e' = qn_repeat e \<and> qn_record_sha256 e \<le> qn_record_sha256 e'"
      using first r by (metis imageI set_map singletonD)
  qed
qed

definition english_only :: "user_requirements \<Rightarrow> bool" where
  "english_only req \<longleftrightarrow> set (map (\<lambda>l. lower (strip l)) (ur_languages req)) = {''en''}"

lemma requested_profile_english:
  "requested_profile req =
     (if \<not> english_only req then None
      else if ur_use_case req = GENERAL_CHAT then Some IFEVAL_INSTRUCTIONS_EN
      else if ur_use_case req = CODING then Some HUMANEVAL_PYTHON_EN
      else None)"
  unfolding requested_profile_def english_only_def by (rule refl)

lemma requested_chat:
  "requested_profile req = Some t \<Longrightarrow> PROFILE_SUITES t \<noteq> None \<Longrightarrow>
     t = IFEVAL_INSTRUCTIONS_EN \<and> ur_use_case req = GENERAL_CHAT \<and> english_only req"
  by (cases t) (auto simp: requested_profile_english split: if_split_asm)

lemma applicable_of:
  "applicable_quality_of t e = Some a \<Longrightarrow>
     aq_record_sha256 a = qn_record_sha256 e \<and>
     (\<exists>m \<in> set (qe_metrics (qn_evidence e)). qm_name m = PRIMARY_METRICS t \<and> aq_metric a = qm_name m \<and>
        aq_value a = qm_value m \<and> aq_correct a = qm_correct m \<and> aq_samples a = qm_samples m)"
  unfolding applicable_quality_of_def map_option_eq_Some
  by (elim exE conjE) (drule find_Some_iff, auto)

text \<open>
  C37. A measured quality applies to a plan only for an English chat request, and only from a complete
  audited run of the profile's suite on the plan's own bytes: the figure is that run's primary
  metric, every other such run in the store gave the same answers, and among them the run with
  the lowest record digest is the one cited.
\<close>

theorem applicable_quality_is_audited:
  assumes "qa_applicable (assess_quality p req prior (index_quality_records describe rs) published) = Some a"
  shows "requested_profile req = Some IFEVAL_INSTRUCTIONS_EN \<and> ur_use_case req = GENERAL_CHAT \<and> english_only req \<and>
    (\<exists>suite e. PROFILE_SUITES IFEVAL_INSTRUCTIONS_EN = Some suite \<and> e \<in> set (List.map_filter describe rs) \<and>
       audited_run p suite (PRIMARY_METRICS IFEVAL_INSTRUCTIONS_EN) e \<and>
       aq_record_sha256 a = qn_record_sha256 e \<and>
       (\<exists>m \<in> set (qe_metrics (qn_evidence e)).
          qm_name m = PRIMARY_METRICS IFEVAL_INSTRUCTIONS_EN \<and> aq_value a = qm_value m \<and>
          aq_correct a = qm_correct m \<and> aq_samples a = qm_samples m) \<and>
       (\<forall>e' \<in> set (List.map_filter describe rs). audited_run p suite (PRIMARY_METRICS IFEVAL_INSTRUCTIONS_EN) e' \<longrightarrow>
          qn_repeat e' = qn_repeat e \<and> qn_record_sha256 e \<le> qn_record_sha256 e'))"
proof -
  let ?ix = "index_quality_records describe rs"
  from assms have bound: "Option.bind (sq_applicable (stored_quality ?ix (av_sha256 (xp_artifact p)) (requested_profile req)))
      (applicable_quality_of (the (requested_profile req))) = Some a"
    by (simp only: assess_quality_def Let_def quality_assessment.select_convs)
  then obtain e where stored: "sq_applicable (stored_quality ?ix (av_sha256 (xp_artifact p)) (requested_profile req)) = Some e"
    and a: "applicable_quality_of (the (requested_profile req)) e = Some a"
    unfolding bind_eq_Some_conv by blast
  obtain t suite s where t: "requested_profile req = Some t" "PROFILE_SUITES t = Some suite"
      "av_sha256 (xp_artifact p) = Some s"
    and e: "e \<in> set (complete_entries ?ix (Some s) t suite)"
    and every: "\<forall>e' \<in> set (complete_entries ?ix (Some s) t suite).
        qn_repeat e' = qn_repeat e \<and> qn_record_sha256 e \<le> qn_record_sha256 e'"
    using stored_quality_applies [OF stored] by metis
  have chat: "t = IFEVAL_INSTRUCTIONS_EN" "ur_use_case req = GENERAL_CHAT" "english_only req"
    using requested_chat [OF t(1)] t(2) by simp_all
  have e': "e \<in> set (List.map_filter describe rs)" "audited_run p suite (PRIMARY_METRICS t) e"
    using e t(3) unfolding complete_entries_index audited_run_def by simp_all
  have all': "\<forall>e' \<in> set (List.map_filter describe rs). audited_run p suite (PRIMARY_METRICS t) e' \<longrightarrow>
          qn_repeat e' = qn_repeat e \<and> qn_record_sha256 e \<le> qn_record_sha256 e'"
    using every t(3) unfolding complete_entries_index audited_run_def by auto
  have "aq_record_sha256 a = qn_record_sha256 e" and
    "\<exists>m \<in> set (qe_metrics (qn_evidence e)). qm_name m = PRIMARY_METRICS t \<and> aq_value a = qm_value m \<and>
        aq_correct a = qm_correct m \<and> aq_samples a = qm_samples m"
    using applicable_of [of t e a] a t(1) by auto
  then show ?thesis using t chat e' all' by blast
qed

definition example_entry :: "string \<Rightarrow> quality_entry" where
  "example_entry sha =
     \<lparr>qn_evidence =
        \<lparr>qe_identity_sha256 = ''i'', qe_artifact_sha256 = ''a'', qe_suite = ''jaull-ifeval-chat-v1'',
         qe_metrics = [\<lparr>qm_name = ''prompt_level_strict_acc'', qm_value = PyFloat 1 0, qm_correct = 541, qm_samples = 541\<rparr>],
         qe_samples_used = 541, qe_samples_available = 541, qe_classification = ''complete'', qe_reusable = True,
         qe_limitations = []\<rparr>,
      qn_record_sha256 = sha, qn_cohort = ''c'', qn_audited = True, qn_repeat = ''answers''\<rparr>"

definition example_chat :: user_requirements where
  "example_chat = (example_requirements BALANCED)\<lparr>ur_use_case := GENERAL_CHAT, ur_languages := [''en'']\<rparr>"

lemma example_quality_applies:
  "qa_applicable (assess_quality (example_plan\<lparr>xp_artifact := plan_artifact\<lparr>av_sha256 := Some ''a''\<rparr>\<rparr>) example_chat LV_WEAK
      (index_quality_records Some [example_entry ''r2'', example_entry ''r1'']) []) =
    Some \<lparr>aq_suite = ''jaull-ifeval-chat-v1'', aq_metric = ''prompt_level_strict_acc'', aq_value = PyFloat 1 0,
      aq_correct = 541, aq_samples = 541, aq_cohort = ''c'', aq_record_sha256 = ''r1''\<rparr>"
  by code_simp

theorem applicable_quality_is_audited_witness:
  "\<exists>e \<in> set [example_entry ''r2'', example_entry ''r1'']. ''r1'' = qn_record_sha256 e"
proof -
  have "List.map_filter Some [example_entry ''r2'', example_entry ''r1''] = [example_entry ''r2'', example_entry ''r1'']"
    by (simp add: map_filter_simps)
  then show ?thesis
    using applicable_quality_is_audited [OF example_quality_applies] by (metis applicable_quality.select_convs(7))
qed

end
