(* ===== verification/Plan_Generation.thy ===== *)
theory Plan_Generation
  imports Quality_Evidence Local_Evidence
begin

text \<open>
  The execution plans of one evaluated candidate (\<^verbatim>\<open>generate_execution_plans\<close> of
  \<^verbatim>\<open>recommendation/engine_v2.py\<close>): one for each preferred GGUF variant, or one for each precision a
  Transformers repository may load in.  The memory estimator is a function parameter: it gives an
  estimate or the text of the package's own error, which becomes a warning of the plan.
\<close>

section \<open>The context of a ranking\<close>

text \<open>The raw quality records are held as the index that is computed from them once.\<close>

record ranking_context =
  rc_hardware :: "hardware_profile option"
  rc_backend_selection :: "runtime_backend_selection option"
  rc_readiness :: "(runtime_name, execution_readiness) dict option"
  rc_benchmarks :: "bench_record list"
  rc_experiments :: "experiment_record list"
  rc_evaluations :: "external_evaluation list"
  rc_quality :: quality_index

type_synonym estimate_plan = "model_analysis \<Rightarrow> string estimate_fn"

definition readiness_for :: "runtime_name \<Rightarrow> ranking_context \<Rightarrow> execution_readiness option" where
  "readiness_for r ctx = Option.bind (rc_readiness ctx) (\<lambda>d. dict_get d r)"

section \<open>Configurations\<close>

text \<open>The defaults of \<^verbatim>\<open>InferenceConfiguration\<close> reserve nothing on the device.\<close>

definition default_config :: "user_requirements \<Rightarrow> inference_configuration" where
  "default_config req = (build_config req None None)\<lparr>cfg_device_reserve_bytes := 0\<rparr>"

text \<open>The ladder is walked with the one estimate at hand, which cannot fail.\<close>

definition ladder_config :: "evaluated_candidate \<Rightarrow> user_requirements \<Rightarrow> inference_configuration option" where
  "ladder_config e req =
     (case (ev_analysis e, ev_memory_estimate e) of
        (Some a, Some m) \<Rightarrow>
          (case select_configuration a req (\<lambda>_. Inr m :: unit + memory_estimate) None of
             Inl _ \<Rightarrow> None | Inr choice \<Rightarrow> cc_configuration choice)
      | _ \<Rightarrow> None)"

definition config_for_variant ::
  "evaluated_candidate \<Rightarrow> user_requirements \<Rightarrow> string option \<Rightarrow> weight_precision option \<Rightarrow>
   inference_configuration" where
  "config_for_variant e req quantization precision =
     (let base = (case ev_configuration e of
                    Some c \<Rightarrow> c | None \<Rightarrow> opt_default (ladder_config e req) (default_config req)) in
      base\<lparr>cfg_quantization := quantization, cfg_precision := precision\<rparr>)"

section \<open>Runtimes and their readiness\<close>

definition runtime_for_artifact :: "artifact_variant \<Rightarrow> runtime_recommendation" where
  "runtime_for_artifact a =
     (let r = (if av_format a = VF_GGUF then LLAMA_CPP else TRANSFORMERS) in
      \<lparr>rr_runtime = r, rr_command_preview = None, rr_python_snippet = None, rr_flags = [],
       rr_reasons = [variant_format_value (av_format a) @ '' artifact is compatible with '' @
         runtime_value r @ ''.''],
       rr_warnings = [], rr_confidence = av_confidence a, rr_alternatives = []\<rparr>)"

definition planned_runtime :: "memory_estimate option \<Rightarrow> artifact_variant \<Rightarrow> runtime_recommendation" where
  "planned_runtime estimate a =
     opt_default (Option.bind estimate me_runtime_recommendation) (runtime_for_artifact a)"

definition needs_bitsandbytes :: "runtime_recommendation \<Rightarrow> bool" where
  "needs_bitsandbytes r \<longleftrightarrow>
     list_ex (\<lambda>f. flag_name f = ''quantization'' \<and> requires_bitsandbytes (Some (flag_value f))) (rr_flags r)"

definition transformers_readiness ::
  "runtime_recommendation \<Rightarrow> ranking_context \<Rightarrow> runtime_backend_selection option \<Rightarrow> execution_readiness option" where
  "transformers_readiness r ctx selection =
     (case readiness_for TRANSFORMERS ctx of
        None \<Rightarrow> None
      | Some x \<Rightarrow>
          if \<not> needs_bitsandbytes r \<and>
             (case selection of None \<Rightarrow> True | Some s \<Rightarrow> sel_backend s = sel_backend (xr_selection x))
          then Some x
          else
            (case xr_runtime_capability x of
               PyTorchCapability c \<Rightarrow>
                 Some (evaluate_pytorch_execution_readiness (opt_default selection (xr_selection x)) c
                   (needs_bitsandbytes r))
             | LlamaCppCapability _ \<Rightarrow> Some x))"

definition gguf_readiness ::
  "ranking_context \<Rightarrow> runtime_backend_selection option \<Rightarrow> execution_readiness option" where
  "gguf_readiness ctx selection =
     (case (readiness_for LLAMA_CPP ctx, selection) of
        (Some x, Some s) \<Rightarrow>
          (case xr_runtime_capability x of
             LlamaCppCapability c \<Rightarrow>
               if sel_backend (xr_selection x) \<noteq> sel_backend s
               then Some (evaluate_execution_readiness s c) else Some x
           | PyTorchCapability _ \<Rightarrow> Some x)
      | (x, _) \<Rightarrow> x)"

section \<open>GGUF\<close>

definition MAX_GGUF_PLAN_VARIANTS :: nat where
  "MAX_GGUF_PLAN_VARIANTS = 8"

text \<open>An unknown size sorts as infinity; a name the ladder does not hold comes after those it holds.\<close>

definition variant_order_key ::
  "recommendation_priority \<Rightarrow> gguf_variant \<Rightarrow> nat \<times> (bool \<times> int) \<times> string" where
  "variant_order_key priority v =
     (index_of (QUANTIZATION_LADDERS priority) (upper (var_quantization v)),
      (var_total_bytes v = None, opt_default (var_total_bytes v) 0), var_quantization v)"

definition ordered_gguf_variants :: "gguf_variant list \<Rightarrow> recommendation_priority \<Rightarrow> gguf_variant list" where
  "ordered_gguf_variants vs priority = sort_key (variant_order_key priority) vs"

definition selected_quantization :: "evaluated_candidate \<Rightarrow> string option" where
  "selected_quantization e = Option.bind (ev_configuration e) cfg_quantization"

text \<open>At most eight variants, the selected one among them.\<close>

definition bounded_variants :: "gguf_variant list \<Rightarrow> string option \<Rightarrow> gguf_variant list" where
  "bounded_variants vs selected =
     (let first = take MAX_GGUF_PLAN_VARIANTS vs in
      case List.find (\<lambda>v. Some (var_quantization v) = selected) vs of
        None \<Rightarrow> first
      | Some v \<Rightarrow> if v \<in> set first then first else butlast first @ [v])"

definition only_selected :: "gguf_variant list \<Rightarrow> string option \<Rightarrow> gguf_variant list" where
  "only_selected vs selected =
     (let chosen = filter (\<lambda>v. Some (var_quantization v) = selected) vs in
      if chosen \<noteq> [] then chosen else take 1 vs)"

definition planned_variants ::
  "evaluated_candidate \<Rightarrow> model_analysis \<Rightarrow> recommendation_priority \<Rightarrow> bool \<Rightarrow> gguf_variant list" where
  "planned_variants e a priority estimating =
     (let vs = bounded_variants
            (ordered_gguf_variants (preferred_gguf_variants (gguf_variants (an_classification a))) priority)
            (selected_quantization e) in
      if estimating then vs else only_selected vs (selected_quantization e))"

definition gguf_artifact :: "evaluated_candidate \<Rightarrow> model_identity \<Rightarrow> gguf_variant \<Rightarrow> artifact_variant" where
  "gguf_artifact e identity v =
     \<lparr>av_model_identity = identity, av_repo_id = ev_repo_id e, av_revision = Some ''main'',
      av_format = VF_GGUF,
      av_filename = (case var_files v of [] \<Rightarrow> None | f # fs \<Rightarrow> Some (file_path f)),
      av_sha256 = gguf_variant_sha256 v, av_size_bytes = var_total_bytes v,
      av_file_count = Some (int (length (var_files v))), av_quantization = Some (var_quantization v),
      av_precision = None, av_source = ''analysis'', av_compatible_runtimes = [LLAMA_CPP],
      av_identity_match = MATCH_CONFIRMED, av_confidence = mi_confidence identity,
      av_evidence = mi_evidence identity\<rparr>"

text \<open>An estimate, or the warning that stands for it.\<close>

definition attempted :: "string + memory_estimate \<Rightarrow> string \<Rightarrow> memory_estimate option \<times> string list" where
  "attempted outcome name =
     (case outcome of
        Inr m \<Rightarrow> (Some m, [])
      | Inl err \<Rightarrow> (None, [''Memory estimate unavailable for '' @ name @ '': '' @ err]))"

definition with_issue :: "string list \<Rightarrow> execution_plan \<Rightarrow> execution_plan" where
  "with_issue issue p = p\<lparr>xp_warnings := xp_warnings p @ issue\<rparr>"

definition gguf_plan ::
  "ranking_context \<Rightarrow> estimate_plan option \<Rightarrow> evaluated_candidate \<Rightarrow> model_analysis \<Rightarrow> model_identity \<Rightarrow>
   user_requirements \<Rightarrow> gguf_variant \<Rightarrow> execution_plan" where
  "gguf_plan ctx estimate e a identity req v =
     (let q = var_quantization v; config = config_for_variant e req (Some q) None;
          (m, issue) = (case estimate of
                          None \<Rightarrow> (ev_memory_estimate e, []) | Some f \<Rightarrow> attempted (f a config) q);
          artifact = gguf_artifact e identity v;
          p = with_issue issue
                (build_execution_plan identity artifact (planned_runtime m artifact) m (rc_hardware ctx)
                  (rc_backend_selection ctx) None (readiness_for LLAMA_CPP ctx)) in
      p\<lparr>xp_execution_readiness := gguf_readiness ctx (xp_backend_selection p)\<rparr>)"

section \<open>Transformers\<close>

definition transformers_artifact ::
  "evaluated_candidate \<Rightarrow> model_identity \<Rightarrow> artifact_variant" where
  "transformers_artifact e identity =
     (let packed = packed_quantization_label (Option.bind (ev_analysis e) an_config);
          names = (case ev_analysis e of None \<Rightarrow> [] | Some a \<Rightarrow> map file_path (an_files a)) in
      \<lparr>av_model_identity = identity, av_repo_id = ev_repo_id e, av_revision = Some ''main'',
       av_format = (if list_ex (\<lambda>n. endswith n ''.safetensors'') names then VF_SAFETENSORS else VF_TRANSFORMERS),
       av_filename = Some (ev_repo_id e), av_sha256 = None,
       av_size_bytes = Option.bind (ev_analysis e) an_total_size_bytes, av_file_count = None,
       av_quantization = packed,
       av_precision = (if packed = None
                       then map_option precision_value (Option.bind (ev_configuration e) cfg_precision) else None),
       av_source = ''analysis'', av_compatible_runtimes = [TRANSFORMERS],
       av_identity_match = MATCH_CONFIRMED, av_confidence = mi_confidence identity,
       av_evidence = mi_evidence identity\<rparr>)"

definition transformers_plan :: "evaluated_candidate \<Rightarrow> model_identity \<Rightarrow> ranking_context \<Rightarrow> execution_plan" where
  "transformers_plan e identity ctx =
     (let artifact = transformers_artifact e identity; m = ev_memory_estimate e;
          r = planned_runtime m artifact;
          p = build_execution_plan identity artifact r m (rc_hardware ctx) (rc_backend_selection ctx) None
                (transformers_readiness r ctx None) in
      p\<lparr>xp_execution_readiness := transformers_readiness r ctx (xp_backend_selection p)\<rparr>)"

text \<open>A precision that is only reached by quantizing on load is a theoretical one.\<close>

definition theoretical_estimate ::
  "model_analysis \<Rightarrow> weight_precision \<Rightarrow> memory_estimate \<Rightarrow> memory_estimate" where
  "theoretical_estimate a precision m =
     (if precision \<in> {INT4, INT8} \<and> packed_quantization_label (an_config a) = None
      then lower_theoretical_confidence m else m)"

definition precision_plan ::
  "ranking_context \<Rightarrow> estimate_plan \<Rightarrow> evaluated_candidate \<Rightarrow> model_analysis \<Rightarrow> model_identity \<Rightarrow>
   user_requirements \<Rightarrow> weight_precision \<Rightarrow> execution_plan" where
  "precision_plan ctx f e a identity req precision =
     (let config0 = config_for_variant e req None (Some precision);
          config = (if without_quantized_backend (rc_hardware ctx)
                    then config0\<lparr>cfg_target_device := CPU_DEVICE\<rparr> else config0);
          (m, issue) = attempted (f a config) (precision_value precision);
          configured = e\<lparr>ev_configuration := Some config,
            ev_memory_estimate := map_option (theoretical_estimate a precision) m\<rparr> in
      with_issue issue (transformers_plan configured identity ctx))"

definition add_plan :: "execution_plan list \<Rightarrow> execution_plan \<Rightarrow> execution_plan list" where
  "add_plan ps p = (if list_ex (\<lambda>x. xp_plan_id x = xp_plan_id p) ps then ps else ps @ [p])"

definition generate_execution_plans ::
  "ranking_context \<Rightarrow> estimate_plan option \<Rightarrow> evaluated_candidate \<Rightarrow> user_requirements \<Rightarrow> execution_plan list" where
  "generate_execution_plans ctx estimate e req =
     (case ev_analysis e of
        None \<Rightarrow> []
      | Some a \<Rightarrow>
          (let identity = resolve_model_identity (ev_candidate e) (Some a) in
           if primary_type (an_classification a) = REPO_GGUF then
             map (gguf_plan ctx estimate e a identity req)
               (planned_variants e a (ur_priority req) (estimate \<noteq> None))
           else
             (case estimate of
                None \<Rightarrow> [transformers_plan e identity ctx]
              | Some f \<Rightarrow>
                  foldl add_plan []
                    (map (precision_plan ctx f e a identity req) (transformers_precision_options (an_config a))))))"

end
