(* ===== verification/Capability_Signals.thy ===== *)
theory Capability_Signals
  imports Families
begin

text \<open>
  The capability prior of a candidate (\<^verbatim>\<open>recommendation/capability.py\<close>): a score from the parameter
  count and from what the repository contains, with its explanation.  The decimal logarithm and
  the exponential of the C library are parameters.
\<close>

section \<open>The score\<close>

definition DEFAULT_CAPABILITY_SCORE :: py_float where
  "DEFAULT_CAPABILITY_SCORE = hundredths 50"

fun REPOSITORY_TYPE_SIGNAL :: "repository_type \<Rightarrow> py_float" where
  "REPOSITORY_TYPE_SIGNAL REPO_TRANSFORMERS = hundredths 75"
| "REPOSITORY_TYPE_SIGNAL REPO_GGUF = hundredths 80"
| "REPOSITORY_TYPE_SIGNAL REPO_ONNX = hundredths 65"
| "REPOSITORY_TYPE_SIGNAL REPO_ADAPTER = hundredths 35"
| "REPOSITORY_TYPE_SIGNAL REPO_DIFFUSERS = hundredths 20"
| "REPOSITORY_TYPE_SIGNAL REPO_UNKNOWN = hundredths 50"

definition REAL_ARTIFACT_TAGS :: "string list" where
  "REAL_ARTIFACT_TAGS =
     [''gguf'', ''safetensors'', ''4-bit'', ''8-bit'', ''awq'', ''gptq'', ''bnb-4bit'', ''bitsandbytes'']"

record capability_signal =
  sg_score :: py_float
  sg_parameter_count :: "int option"
  sg_scale_tier :: "string option"
  sg_family :: string
  sg_instruction_tuned :: "bool option"
  sg_chat_or_base :: "string option"
  sg_confidence :: estimation_confidence
  sg_reasons :: "string list"

definition inspected_type :: "model_candidate \<Rightarrow> model_analysis option \<Rightarrow> repository_type option" where
  "inspected_type c analysis =
     (case analysis of None \<Rightarrow> cd_repository_type c | Some a \<Rightarrow> Some (primary_type (an_classification a)))"

definition artifact_signal :: "model_candidate \<Rightarrow> model_analysis option \<Rightarrow> py_float" where
  "artifact_signal c analysis =
     (let s0 = REPOSITORY_TYPE_SIGNAL (opt_default (inspected_type c analysis) REPO_UNKNOWN);
          s1 = (if set (map lower (cd_tags c)) \<inter> set REAL_ARTIFACT_TAGS \<noteq> {}
                then float_add s0 (hundredths 10) else s0);
          s2 = (if cd_pipeline_tag c = Some ''text-generation'' then float_add s1 (hundredths 5) else s1);
          s3 = (if (case analysis of None \<Rightarrow> False | Some a \<Rightarrow> an_relevant_files a \<noteq> [])
                then float_add s2 (hundredths 5) else s2) in
      float_clamp s3)"

definition size_curve :: "(int \<Rightarrow> py_float) \<Rightarrow> (py_float \<Rightarrow> py_float) \<Rightarrow> int option \<Rightarrow> py_float" where
  "size_curve log10 expf params =
     (case params of
        None \<Rightarrow> DEFAULT_CAPABILITY_SCORE
      | Some n \<Rightarrow>
          if n \<le> 0 then DEFAULT_CAPABILITY_SCORE
          else
            float_divide float_one
              (float_add float_one
                (expf (float_mult (hundredths (- 180)) (float_minus (log10 n) (hundredths 950))))))"

definition scale_tier :: "int option \<Rightarrow> string option" where
  "scale_tier params =
     (case params of
        None \<Rightarrow> None
      | Some n \<Rightarrow>
          if n \<le> 0 then None
          else if n < 300000000 then Some ''lightweight''
          else if n < 1500000000 then Some ''small''
          else if n < 4000000000 then Some ''balanced''
          else if n < 7000000000 then Some ''mid_size''
          else Some ''higher_capacity'')"

section \<open>The explanation\<close>

definition instruction_tuned :: "model_candidate \<Rightarrow> bool option" where
  "instruction_tuned c =
     (let tokens = candidate_tokens c in
      if list_ex (has_signal tokens) [''instruct'', ''instruction'', ''chat'', ''conversational''] then Some True
      else if list_ex (has_signal tokens) [''base'', ''pretrain'', ''foundation''] then Some False
      else if has_signal tokens ''assistant'' then Some True
      else None)"

definition chat_or_base :: "model_candidate \<Rightarrow> string option" where
  "chat_or_base c =
     (let tokens = candidate_tokens c in
      if has_signal tokens ''chat'' \<or> has_signal tokens ''conversational'' then Some ''chat''
      else if has_signal tokens ''instruct'' \<or> has_signal tokens ''instruction'' then Some ''instruction''
      else if list_ex (has_signal tokens) [''base'', ''pretrain'', ''foundation''] then Some ''base''
      else if has_signal tokens ''assistant'' then Some ''chat''
      else None)"

definition size_reason :: "int option \<Rightarrow> string" where
  "size_reason params =
     (case params of
        None \<Rightarrow> ''Parameter count could not be confirmed.''
      | Some n \<Rightarrow>
          if 10 ^ 9 \<le> n then
            ''Estimated around '' @ show_fixed 1 (round_ratio n (10 ^ 9)) @ ''B parameters.''
          else ''Estimated around '' @ show_fixed 0 (round_ratio n (10 ^ 6)) @ ''M parameters.'')"

definition instruction_reason :: "model_candidate \<Rightarrow> string option" where
  "instruction_reason c =
     (let kind = chat_or_base c in
      if kind = Some ''chat'' then Some ''Metadata/name suggests chat tuning.''
      else if kind = Some ''instruction'' then Some ''Metadata/name suggests instruction tuning.''
      else if kind = Some ''base'' then
        Some ''Metadata/name suggests a base model rather than an assistant-tuned model.''
      else None)"

definition metadata_reason :: "model_candidate \<Rightarrow> model_analysis option \<Rightarrow> string option" where
  "metadata_reason c analysis =
     (if (case analysis of None \<Rightarrow> False | Some a \<Rightarrow> an_config a \<noteq> None)
      then Some ''Repository exposes model configuration metadata.''
      else if cd_metadata_confidence c = CONF_LOW then Some ''Model card metadata is incomplete.''
      else None)"

definition artifact_reason :: "model_candidate \<Rightarrow> model_analysis option \<Rightarrow> string option" where
  "artifact_reason c analysis =
     (if inspected_type c analysis = Some REPO_GGUF then Some ''Repository contains a runnable GGUF artifact.''
      else if inspected_type c analysis = Some REPO_TRANSFORMERS then
        Some ''Repository can be inspected as a Transformers model.''
      else None)"

definition activity_reason :: "model_candidate \<Rightarrow> string option" where
  "activity_reason c =
     (if cd_downloads c \<le> 0 \<and> cd_likes c \<le> 0 then None
      else Some ''Hub activity provides a secondary maturity signal.'')"

definition analyze_capability ::
  "(int \<Rightarrow> py_float) \<Rightarrow> (py_float \<Rightarrow> py_float) \<Rightarrow> model_candidate \<Rightarrow> model_analysis option \<Rightarrow> capability_signal" where
  "analyze_capability log10 expf c analysis =
     (let params = pc_count (resolve_parameter_count c analysis None) in
      \<lparr>sg_score = float_clamp
         (float_add (float_mult (hundredths 75) (size_curve log10 expf params))
           (float_mult (hundredths 25) (artifact_signal c analysis))),
       sg_parameter_count = params, sg_scale_tier = scale_tier params,
       sg_family = detect_family c analysis, sg_instruction_tuned = instruction_tuned c,
       sg_chat_or_base = chat_or_base c, sg_confidence = cd_metadata_confidence c,
       sg_reasons = List.map_filter id
         [Some (size_reason params), instruction_reason c, metadata_reason c analysis,
          artifact_reason c analysis, activity_reason c]\<rparr>)"

definition capability_score ::
  "(int \<Rightarrow> py_float) \<Rightarrow> (py_float \<Rightarrow> py_float) \<Rightarrow> model_candidate \<Rightarrow> model_analysis option \<Rightarrow> py_float" where
  "capability_score log10 expf c analysis = sg_score (analyze_capability log10 expf c analysis)"

section \<open>What moves the score\<close>

text \<open>Neither the activity on the Hub nor the completeness of the model card enters the score.\<close>

lemma capability_ignores_activity:
  assumes "cd_repo_id c' = cd_repo_id c" "cd_repository_type c' = cd_repository_type c"
    and "cd_tags c' = cd_tags c" "cd_pipeline_tag c' = cd_pipeline_tag c"
  shows "capability_score log10 expf c' analysis = capability_score log10 expf c analysis"
proof -
  have "resolve_parameter_count c' analysis None = resolve_parameter_count c analysis None"
    unfolding resolve_parameter_count_def assms ..
  moreover have "artifact_signal c' analysis = artifact_signal c analysis"
    unfolding artifact_signal_def inspected_type_def assms ..
  ultimately show ?thesis
    unfolding capability_score_def analyze_capability_def Let_def capability_signal.select_convs by simp
qed

text \<open>A model that is taken for a base one was not named or tagged as tuned for chat or instructions.\<close>

lemma base_is_not_tuned:
  "chat_or_base c = Some ''base'' \<longleftrightarrow> instruction_tuned c = Some False"
  by (auto simp: chat_or_base_def instruction_tuned_def Let_def split: if_splits)

end
