(* ===== verification/Plan_Assessment.thy ===== *)
theory Plan_Assessment
  imports Plan_Generation Capability_Signals
begin

text \<open>
  The assessment of one plan and the ranking of all plans (\<^verbatim>\<open>assess_plan\<close> and
  \<^verbatim>\<open>rank_execution_plans\<close> of \<^verbatim>\<open>recommendation/engine_v2.py\<close>): the constraints that reject a plan,
  the levels of its dimensions, the evidence and the reasons it shows.
\<close>

section \<open>What rejects a plan\<close>

definition memory_insufficient :: "execution_plan \<Rightarrow> bool" where
  "memory_insufficient p \<longleftrightarrow>
     (case xp_memory_prediction p of
        None \<Rightarrow> False | Some m \<Rightarrow> ca_status (me_assessment m) = INSUFFICIENT)"

definition constraint :: "hard_constraint_code \<Rightarrow> string \<Rightarrow> string \<Rightarrow> hard_constraint" where
  "constraint code message key = \<lparr>hc_code = code, hc_message = message, hc_evidence_key = Some key\<rparr>"

definition first_or :: "'a list \<Rightarrow> 'a \<Rightarrow> 'a" where
  "first_or xs d = (case xs of [] \<Rightarrow> d | x # _ \<Rightarrow> x)"

definition runtime_constraints :: "execution_plan \<Rightarrow> hard_constraint list" where
  "runtime_constraints p =
     (if rr_runtime (xp_runtime p) = RUNTIME_UNKNOWN then
        (if memory_insufficient p then []
         else [constraint HC_RUNTIME_UNDETERMINED
           (''No runtime could be planned: '' @
            first_or (rr_warnings (xp_runtime p)) ''No runtime recommendation was available.'')
           ''runtime.recommendation''])
      else if rr_runtime (xp_runtime p) \<notin> set (av_compatible_runtimes (xp_artifact p)) then
        [constraint HC_ARTIFACT_RUNTIME_INCOMPATIBLE
          ''Artifact is not compatible with the selected runtime.'' ''artifact.runtime'']
      else if xp_compatibility p = PLAN_NOT_COMPATIBLE then
        [constraint HC_ARTIFACT_RUNTIME_INCOMPATIBLE
          (first_or (rev (xp_warnings p)) ''Unsupported execution configuration.'') ''plan.technical_support'']
      else [])"

definition license_constraints :: "evaluated_candidate \<Rightarrow> user_requirements \<Rightarrow> hard_constraint list" where
  "license_constraints e req =
     (let l = cd_license (ev_candidate e) in
      if ur_commercial_use_required req = Some True \<and> classify_license l = COMMERCIAL_RESTRICTED then
        [constraint HC_LICENSE_INCOMPATIBLE
          (''License '' @ (case l of None \<Rightarrow> ''None'' | Some t \<Rightarrow> repr_str t) @ '' restricts commercial use.'')
          ''license'']
      else [])"

definition hard_constraints ::
  "evaluated_candidate \<Rightarrow> execution_plan \<Rightarrow> user_requirements \<Rightarrow> hard_constraint list" where
  "hard_constraints e p req =
     runtime_constraints p @
     (if memory_insufficient p then
        [constraint HC_MEMORY_INSUFFICIENT ''Estimated memory exceeds available hardware memory.'' ''memory.estimate'']
      else []) @
     license_constraints e req"

section \<open>Evidence\<close>

definition evidence_item ::
  "evidence_category \<Rightarrow> string \<Rightarrow> string \<Rightarrow> evidence_source \<Rightarrow> estimation_confidence \<Rightarrow> bool \<Rightarrow>
   (string, py_obj) dict \<Rightarrow> recommendation_evidence" where
  "evidence_item category key v source confidence observed provenance =
     \<lparr>re_category = category, re_key = key, re_value = v, re_source = source,
      re_confidence = confidence, re_observed = observed, re_provenance = provenance\<rparr>"

definition text_obj :: "string option \<Rightarrow> py_obj" where
  "text_obj s = (case s of None \<Rightarrow> PyNone | Some t \<Rightarrow> PyStr t)"

definition base_evidence :: "evaluated_candidate \<Rightarrow> execution_plan \<Rightarrow> recommendation_evidence list" where
  "base_evidence e p =
     [evidence_item EC_IDENTITY ''repository'' (ev_repo_id e) ES_SEARCH_METADATA
        (cd_metadata_confidence (ev_candidate e)) False [(''repo_id'', PyStr (ev_repo_id e))],
      evidence_item EC_METADATA ''artifact'' (artifact_label (xp_artifact p)) ES_MODEL_ANALYSIS
        (av_confidence (xp_artifact p)) False
        [(''repo_id'', PyStr (av_repo_id (xp_artifact p))), (''filename'', text_obj (av_filename (xp_artifact p)))]] @
     (case xp_memory_prediction p of
        None \<Rightarrow> []
      | Some m \<Rightarrow>
          [evidence_item EC_HARDWARE ''memory_estimate''
             (case me_total_bytes m of None \<Rightarrow> ''None'' | Some n \<Rightarrow> show_int n) ES_MEMORY_ESTIMATOR
             (ca_confidence (me_assessment m)) False
             [(''status'', PyStr (status_value (ca_status (me_assessment m)))),
              (''context'', PyInt (cfg_context_length (me_configuration m)))]])"

definition capability_evidence :: "capability_signal \<Rightarrow> recommendation_evidence list" where
  "capability_evidence s =
     (case sg_parameter_count s of
        None \<Rightarrow> []
      | Some n \<Rightarrow> [evidence_item EC_METADATA ''parameter_count'' (show_int n) ES_MODEL_ANALYSIS (sg_confidence s) False []]) @
     (case sg_scale_tier s of
        None \<Rightarrow> []
      | Some t \<Rightarrow> [evidence_item EC_METADATA ''model_scale'' t ES_POLICY (sg_confidence s) False
          [(''parameter_count'', (case sg_parameter_count s of None \<Rightarrow> PyNone | Some n \<Rightarrow> PyInt n))]]) @
     (case sg_chat_or_base s of
        None \<Rightarrow> []
      | Some k \<Rightarrow> [evidence_item EC_METADATA ''assistant_tuning'' k ES_HEURISTIC CONF_LOW False []])"

definition external_evidence :: "external_evaluation list \<Rightarrow> recommendation_evidence list" where
  "external_evidence xs =
     map (\<lambda>x. evidence_item EC_EXTERNAL (''external:'' @ xe_benchmark x @ '':'' @ xe_task x)
         (str_obj (xe_value x) @ '' '' @ xe_metric x) ES_EXTERNAL_EVALUATION (xe_confidence x) False
         [(''benchmark'', PyStr (xe_benchmark x)), (''task'', PyStr (xe_task x)),
          (''source'', PyStr (xe_source x)), (''revision'', text_obj (xe_revision x))]) xs"

definition experiment_evidence :: "experiment_record \<Rightarrow> recommendation_evidence" where
  "experiment_evidence r =
     evidence_item EC_LOCAL ''validation'' (if eo_success (er_observation r) then ''success'' else ''failed'')
       ES_LOCAL_EXPERIMENT CONF_HIGH True
       [(''experiment_id'', PyStr (er_experiment_id r)), (''artifact_identity'', PyStr ''metadata_match'')]"

definition benchmark_evidence :: "bench_record \<Rightarrow> recommendation_evidence" where
  "benchmark_evidence r =
     evidence_item EC_LOCAL ''benchmark'' (text_default (bo_methodology (br_observation r)) ''unknown'')
       ES_LOCAL_BENCHMARK CONF_HIGH True
       [(''benchmark_id'', PyStr (br_id r)), (''methodology'', text_obj (bo_methodology (br_observation r))),
        (''scope'', PyStr ''recorded_microbenchmark''), (''artifact_identity'', PyStr ''metadata_match'')]"

definition readiness_evidence :: "execution_readiness \<Rightarrow> recommendation_evidence" where
  "readiness_evidence x =
     evidence_item EC_EXECUTION ''readiness'' (readiness_value (xr_status x)) ES_EXECUTION_READINESS CONF_HIGH True []"

text \<open>The blanks of a pattern, on ASCII text.\<close>

definition is_regex_space :: "char \<Rightarrow> bool" where
  "is_regex_space c \<longleftrightarrow> (of_char c :: int) \<in> {32, 9, 10, 11, 12, 13}"

text \<open>The repository of a subject is two parts without blanks; its variant is not blank.\<close>

definition subject_repo_valid :: "string \<Rightarrow> bool" where
  "subject_repo_valid r \<longleftrightarrow>
     (case split_on (CHR ''/'') r of
        [a, b] \<Rightarrow> a \<noteq> [] \<and> b \<noteq> [] \<and> list_all (\<lambda>c. \<not> is_regex_space c) (a @ b)
      | _ \<Rightarrow> False)"

definition plan_subject :: "model_identity \<Rightarrow> capability_subject option" where
  "plan_subject m =
     (case mi_canonical_repo_id m of
        None \<Rightarrow> None
      | Some r \<Rightarrow>
          if confirmed_model_repo_id m = None \<or> \<not> subject_repo_valid r \<or>
             (case mi_variant m of None \<Rightarrow> False | Some v \<Rightarrow> list_all is_regex_space v)
          then None
          else Some \<lparr>cs_repo_id = r, cs_variant = mi_variant m, cs_revision = None, cs_precision = None\<rparr>)"

definition matching_evaluations ::
  "execution_plan \<Rightarrow> external_evaluation list \<Rightarrow> external_evaluation list" where
  "matching_evaluations p xs =
     (case plan_subject (xp_model_identity p) of
        None \<Rightarrow> [] | Some s \<Rightarrow> filter (\<lambda>x. xe_subject x = Some s) xs)"

section \<open>Levels\<close>

fun one_level_lower :: "assessment_level \<Rightarrow> assessment_level" where
  "one_level_lower LV_STRONG = LV_ADEQUATE"
| "one_level_lower LV_ADEQUATE = LV_WEAK"
| "one_level_lower l = l"

definition declared_language_mismatch :: "evaluated_candidate \<Rightarrow> user_requirements \<Rightarrow> bool" where
  "declared_language_mismatch e req \<longleftrightarrow>
     (let c = ev_candidate e in
      ur_languages req \<noteq> [] \<and> cd_languages c \<noteq> [] \<and> ''multilingual'' \<notin> set (map lower (cd_tags c)) \<and>
      \<not> list_ex (\<lambda>l. hd (split_on (CHR ''-'') l) \<in> set (map language_root (cd_languages c))) (ur_languages req))"

definition adjusted_suitability_score :: "string list \<Rightarrow> py_float \<Rightarrow> py_float" where
  "adjusted_suitability_score tokens s =
     (let chat = list_ex (has_signal tokens) [''chat'', ''assistant'', ''conversational''];
          instruction = chat \<or> list_ex (has_signal tokens) [''instruct'', ''instruction''] in
      if instruction then
        (let raised = float_max s (hundredths 65) in if chat then raised else float_min raised (hundredths 70))
      else if list_ex (has_signal tokens) [''base'', ''pretrain'', ''foundation''] then float_min s (hundredths 40)
      else s)"

definition task_suitability :: "evaluated_candidate \<Rightarrow> user_requirements \<Rightarrow> assessment_level" where
  "task_suitability e req =
     (let s = (if ur_use_case req \<in> {GENERAL_CHAT, REASONING, DOCUMENT_QA}
               then adjusted_suitability_score (candidate_tokens (ev_candidate e)) (ev_task_match e)
               else ev_task_match e) in
      if float_le (hundredths 75) s then LV_STRONG
      else if float_le (hundredths 45) s then LV_ADEQUATE
      else if infers_generalist_suitability e req then LV_ADEQUATE
      else if float_less float_zero s then LV_WEAK
      else if cd_metadata_confidence (ev_candidate e) = CONF_LOW then LV_UNKNOWN
      else LV_WEAK)"

definition suitability_level :: "evaluated_candidate \<Rightarrow> user_requirements \<Rightarrow> assessment_level" where
  "suitability_level e req =
     (if declared_language_mismatch e req then one_level_lower (task_suitability e req) else task_suitability e req)"

definition capability_level :: "py_float \<Rightarrow> assessment_level" where
  "capability_level s =
     (if float_le (hundredths 72) s then LV_STRONG
      else if float_le ADEQUATE_CAPABILITY_SCORE s then LV_ADEQUATE
      else if float_less float_zero s then LV_WEAK
      else LV_UNKNOWN)"

definition feasibility_level :: "execution_plan \<Rightarrow> assessment_level" where
  "feasibility_level p =
     (case xp_memory_prediction p of
        None \<Rightarrow> LV_UNKNOWN
      | Some m \<Rightarrow>
          (case ca_status (me_assessment m) of
             COMFORTABLE \<Rightarrow> LV_STRONG
           | COMPATIBLE \<Rightarrow> LV_ADEQUATE
           | TIGHT \<Rightarrow> LV_ADEQUATE
           | OFFLOADING_REQUIRED \<Rightarrow> LV_WEAK
           | INSUFFICIENT \<Rightarrow> LV_BLOCKED
           | _ \<Rightarrow> LV_UNKNOWN))"

definition executability_level :: "execution_plan \<Rightarrow> assessment_level" where
  "executability_level p =
     (case xp_compatibility p of
        PLAN_NOT_COMPATIBLE \<Rightarrow> LV_BLOCKED
      | PLAN_COMPATIBLE \<Rightarrow> LV_STRONG
      | PLAN_COMPATIBILITY_UNKNOWN \<Rightarrow> LV_UNKNOWN)"

definition execution_fitness_level :: "execution_plan \<Rightarrow> assessment_level" where
  "execution_fitness_level p =
     (let x = executability_level p; f = feasibility_level p in
      if x = LV_BLOCKED \<or> f = LV_BLOCKED then LV_BLOCKED
      else if x = LV_UNKNOWN then LV_UNKNOWN
      else if f \<in> {LV_STRONG, LV_ADEQUATE, LV_WEAK} then f
      else LV_UNKNOWN)"

definition readiness_level :: "execution_readiness option \<Rightarrow> assessment_level" where
  "readiness_level r =
     (case r of
        None \<Rightarrow> LV_UNKNOWN
      | Some x \<Rightarrow>
          (case xr_status x of
             READY \<Rightarrow> LV_STRONG
           | PREPARABLE \<Rightarrow> LV_ADEQUATE
           | NOT_READY \<Rightarrow> LV_BLOCKED
           | READINESS_UNKNOWN \<Rightarrow> LV_UNKNOWN))"

definition resource_level :: "execution_plan \<Rightarrow> assessment_level" where
  "resource_level p =
     (case xp_memory_prediction p of
        None \<Rightarrow> LV_UNKNOWN
      | Some m \<Rightarrow>
          (case ca_confidence (me_assessment m) of
             CONF_HIGH \<Rightarrow> LV_STRONG
           | CONF_MEDIUM \<Rightarrow> LV_ADEQUATE
           | _ \<Rightarrow> LV_WEAK))"

definition license_level :: "evaluated_candidate \<Rightarrow> user_requirements \<Rightarrow> assessment_level" where
  "license_level e req =
     (case classify_license (cd_license (ev_candidate e)) of
        COMMERCIAL_ALLOWED \<Rightarrow> LV_STRONG
      | COMMERCIAL_RESTRICTED \<Rightarrow> if ur_commercial_use_required req = Some True then LV_BLOCKED else LV_WEAK
      | LICENSE_UNKNOWN \<Rightarrow> LV_UNKNOWN)"

definition language_level :: "evaluated_candidate \<Rightarrow> user_requirements \<Rightarrow> assessment_level" where
  "language_level e req =
     (let declared = map language_root (cd_languages (ev_candidate e)) in
      if ur_languages req = [] then LV_UNKNOWN
      else if declared_language_mismatch e req then LV_WEAK
      else if declared \<noteq> [] \<and> list_all (\<lambda>l. hd (split_on (CHR ''-'') l) \<in> set declared) (ur_languages req)
      then LV_STRONG
      else if ''multilingual'' \<in> set (map lower (cd_tags (ev_candidate e))) then LV_ADEQUATE
      else LV_UNKNOWN)"

definition weaker_confidence :: "estimation_confidence \<Rightarrow> estimation_confidence \<Rightarrow> estimation_confidence" where
  "weaker_confidence l r = (if CONFIDENCE_RANK r \<le> CONFIDENCE_RANK l then l else r)"

definition plan_confidence :: "evaluated_candidate \<Rightarrow> execution_plan \<Rightarrow> estimation_confidence" where
  "plan_confidence e p =
     (let c = cd_metadata_confidence (ev_candidate e) in
      case xp_memory_prediction p of
        None \<Rightarrow> c | Some m \<Rightarrow> weaker_confidence c (ca_confidence (me_assessment m)))"

section \<open>Reasons and trade-offs\<close>

definition plan_reasons ::
  "evaluated_candidate \<Rightarrow> execution_plan \<Rightarrow> bool \<Rightarrow> bool \<Rightarrow> bool \<Rightarrow> string list" where
  "plan_reasons e p validated benchmarked memory_measured =
     (case xp_memory_prediction p of
        None \<Rightarrow> [] | Some m \<Rightarrow> [''memory:'' @ status_value (ca_status (me_assessment m))]) @
     (case xp_execution_readiness p of
        None \<Rightarrow> [] | Some x \<Rightarrow> [''runtime:'' @ readiness_value (xr_status x)]) @
     guard_text (float_le (hundredths 45) (ev_task_match e)) ''use_case:metadata_match'' @
     guard_text (float_le (hundredths 60) (ev_language_match e)) ''language:metadata_match'' @
     guard_text validated ''local:validated'' @
     guard_text benchmarked ''local:benchmarked'' @
     guard_text memory_measured ''memory:measured''"

definition plan_trade_offs :: "execution_plan \<Rightarrow> external_evaluation list \<Rightarrow> string list" where
  "plan_trade_offs p external =
     (case av_quantization (xp_artifact p) of None \<Rightarrow> [] | Some q \<Rightarrow> [''quantized:'' @ q]) @
     (case av_precision (xp_artifact p) of
        None \<Rightarrow> [] | Some x \<Rightarrow> guard_text (x \<in> {''int8'', ''int4''}) (''runtime_quantization:'' @ x)) @
     guard_text (external = []) ''external_quality_evidence:incomplete'' @
     guard_text (xp_execution_readiness p = None) ''runtime_readiness:not_checked''"

definition capability_reasons :: "capability_signal \<Rightarrow> string list" where
  "capability_reasons s =
     (case sg_scale_tier s of None \<Rightarrow> [] | Some t \<Rightarrow> [''capability:scale:'' @ t]) @
     (case sg_chat_or_base s of
        None \<Rightarrow> []
      | Some k \<Rightarrow> guard_text (k \<in> {''chat'', ''instruction''}) (''capability:'' @ k @ ''_tuned''))"

definition capability_trade_offs :: "capability_signal \<Rightarrow> string list" where
  "capability_trade_offs s =
     guard_text (sg_scale_tier s = Some ''lightweight'') ''capability:lightweight_model'' @
     guard_text (sg_chat_or_base s = Some ''base'') ''capability:base_model''"

definition measured_memory :: "experiment_record option \<Rightarrow> bench_record option \<Rightarrow> int option" where
  "measured_memory experiment benchmark =
     max_default (List.map_filter id
       ((case experiment of
           None \<Rightarrow> []
         | Some r \<Rightarrow> [eo_peak_ram_bytes (er_observation r), eo_peak_vram_bytes (er_observation r)]) @
        (case benchmark of
           None \<Rightarrow> []
         | Some r \<Rightarrow> [bo_peak_ram_bytes (br_observation r), bo_peak_vram_bytes (br_observation r)])))"

section \<open>The assessment\<close>

text \<open>
  What an assessment takes from outside the program: the logarithm and the exponential of the
  capability prior, and the digest and the serialised form of a record.
\<close>

record libraries =
  lib_log10 :: "int \<Rightarrow> py_float"
  lib_exp :: "py_float \<Rightarrow> py_float"
  lib_sha256 :: "string \<Rightarrow> string"
  lib_record_json :: "bench_record \<Rightarrow> string"

definition assessed_capability :: "libraries \<Rightarrow> evaluated_candidate \<Rightarrow> capability_signal" where
  "assessed_capability lib e = analyze_capability (lib_log10 lib) (lib_exp lib) (ev_candidate e) (ev_analysis e)"

definition assessed_speed ::
  "libraries \<Rightarrow> ranking_context \<Rightarrow> execution_plan \<Rightarrow> user_requirements \<Rightarrow> speed_assessment" where
  "assessed_speed lib ctx p req = assess_speed (lib_sha256 lib) (lib_record_json lib) p req (rc_benchmarks ctx)"

definition plan_evidence_items ::
  "evaluated_candidate \<Rightarrow> execution_plan \<Rightarrow> capability_signal \<Rightarrow> experiment_record option \<Rightarrow> bench_record option \<Rightarrow>
   external_evaluation list \<Rightarrow> recommendation_evidence list" where
  "plan_evidence_items e p s experiment benchmark external =
     base_evidence e p @ capability_evidence s @
     (case experiment of None \<Rightarrow> [] | Some r \<Rightarrow> [experiment_evidence r]) @
     (case benchmark of None \<Rightarrow> [] | Some r \<Rightarrow> [benchmark_evidence r]) @
     external_evidence external @
     (case xp_execution_readiness p of None \<Rightarrow> [] | Some x \<Rightarrow> [readiness_evidence x])"

definition assess_plan ::
  "libraries \<Rightarrow> ranking_context \<Rightarrow> evaluated_candidate \<Rightarrow> user_requirements \<Rightarrow> execution_plan \<Rightarrow> plan_assessment" where
  "assess_plan lib ctx e req p =
     (let s = assessed_capability lib e; hard = hard_constraints e p req;
          experiment = matching_experiment p (rc_experiments ctx);
          benchmark = matching_benchmark p (rc_benchmarks ctx);
          memory = measured_memory experiment benchmark;
          speed = assessed_speed lib ctx p req;
          external = matching_evaluations p (rc_evaluations ctx) in
      \<lparr>pa_plan_id = xp_plan_id p, pa_hard_constraints = hard,
       pa_capability = capability_level (sg_score s),
       pa_quality = assess_quality p req (capability_level (sg_score s)) (rc_quality ctx) external,
       pa_speed = speed, pa_suitability = suitability_level e req,
       pa_execution_fitness = execution_fitness_level p, pa_feasibility = feasibility_level p,
       pa_executability = executability_level p,
       pa_runtime_readiness = readiness_level (xp_execution_readiness p),
       pa_performance_evidence = (if vs_applicable speed \<noteq> None then LV_STRONG else LV_UNKNOWN),
       pa_resource_evidence = (if memory \<noteq> None then LV_STRONG else resource_level p),
       pa_license_fit = license_level e req, pa_language_fit = language_level e req,
       pa_confidence = plan_confidence e p,
       pa_evidence = plan_evidence_items e p s experiment benchmark external,
       pa_external_evaluations = external,
       pa_reasons = plan_reasons e p (experiment \<noteq> None) (benchmark \<noteq> None) (memory \<noteq> None) @ capability_reasons s,
       pa_trade_offs = plan_trade_offs p external @ capability_trade_offs s,
       pa_rejection_reasons = map hc_message hard,
       pa_measured_memory_bytes = memory,
       pa_estimated_memory_bytes = Option.bind (xp_memory_prediction p) me_total_bytes,
       pa_measured_tps = map_option as_tokens_per_second (vs_applicable speed),
       pa_local_experiment_id = map_option er_experiment_id experiment,
       pa_local_benchmark_id = map_option br_id benchmark\<rparr>)"

section \<open>The ranking\<close>

definition assessed_plans ::
  "libraries \<Rightarrow> ranking_context \<Rightarrow> estimate_plan option \<Rightarrow> user_requirements \<Rightarrow> evaluated_candidate \<Rightarrow> ranked_plan list" where
  "assessed_plans lib ctx estimate req e =
     (if ev_failed e \<or> ev_analysis e = None then []
      else
        map (\<lambda>p. \<lparr>rp_evaluated = e, rp_plan = p, rp_assessment = assess_plan lib ctx e req p,
                  rp_use_case = Some (ur_use_case req)\<rparr>)
          (generate_execution_plans ctx estimate e req))"

definition rank_execution_plans ::
  "libraries \<Rightarrow> ranking_context \<Rightarrow> estimate_plan option \<Rightarrow> user_requirements \<Rightarrow> evaluated_candidate list \<Rightarrow>
   nat option \<Rightarrow> ranked_plan list" where
  "rank_execution_plans lib ctx estimate req es limit =
     (let ordered = order_plans (concat (map (assessed_plans lib ctx estimate req) es)) (ur_priority req)
            (commercial_request req) in
      case limit of None \<Rightarrow> ordered | Some n \<Rightarrow> take n ordered)"

end
