(* ===== verification/Plan_Assessment_Props.thy ===== *)
theory Plan_Assessment_Props
  imports Plan_Assessment
begin

text \<open>
  What holds of the plans and of their ranking: which plans a candidate gets and what an estimator
  error does to one, what rejects a plan, and that the installed runtimes never move a plan.
\<close>

section \<open>The plans of a repository\<close>

lemma build_artifact [simp]:
  "xp_artifact (build_execution_plan identity a r m hw s c x) = a"
  "xp_model_identity (build_execution_plan identity a r m hw s c x) = identity"
  "xp_memory_prediction (build_execution_plan identity a r m hw s c x) = m"
  "xp_runtime (build_execution_plan identity a r m hw s c x) = r"
  "xp_runtime_family (build_execution_plan identity a r m hw s c x) = rr_runtime r"
  by (simp_all add: build_execution_plan_def assemble_plan_def Let_def)

lemma with_issue_fields [simp]:
  "xp_artifact (with_issue i p) = xp_artifact p" "xp_memory_prediction (with_issue i p) = xp_memory_prediction p"
  "xp_model_identity (with_issue i p) = xp_model_identity p" "xp_runtime (with_issue i p) = xp_runtime p"
  "xp_runtime_family (with_issue i p) = xp_runtime_family p" "xp_plan_id (with_issue i p) = xp_plan_id p"
  "xp_warnings (with_issue i p) = xp_warnings p @ i"
  by (simp_all add: with_issue_def)

lemma gguf_plan_artifact: "xp_artifact (gguf_plan ctx estimate e a identity req v) = gguf_artifact e identity v"
  by (simp add: gguf_plan_def Let_def split: prod.split)

lemma gguf_plan_valid: "plan_valid (gguf_plan ctx estimate e a identity req v)"
  by (simp add: gguf_plan_def Let_def plan_valid_def gguf_artifact_def split: prod.split)

lemma gguf_plan_outcome:
  "xp_memory_prediction (gguf_plan ctx (Some f) e a identity req v) =
     (case f a (config_for_variant e req (Some (var_quantization v)) None) of Inl _ \<Rightarrow> None | Inr m \<Rightarrow> Some m)"
  "f a (config_for_variant e req (Some (var_quantization v)) None) = Inl err \<Longrightarrow>
     last (xp_warnings (gguf_plan ctx (Some f) e a identity req v)) =
       ''Memory estimate unavailable for '' @ var_quantization v @ '': '' @ err"
  by (simp_all add: gguf_plan_def attempted_def Let_def split: sum.split)

lemma bounded_variants_length: "length (bounded_variants vs selected) \<le> MAX_GGUF_PLAN_VARIANTS"
  by (auto simp: bounded_variants_def MAX_GGUF_PLAN_VARIANTS_def Let_def min_def split: option.split)

lemma bounded_variants_subset: "set (bounded_variants vs selected) \<subseteq> set vs"
  by (auto simp: bounded_variants_def Let_def split: option.splits if_splits
      dest!: find_Some_iff in_set_butlastD in_set_takeD)

lemma set_ordered_variants [simp]: "set (ordered_gguf_variants vs priority) = set vs"
  by (simp add: ordered_gguf_variants_def)

lemma bounded_variants_selected:
  assumes "v \<in> set vs" "Some (var_quantization v) = selected"
  shows "\<exists>w \<in> set (bounded_variants vs selected). Some (var_quantization w) = selected"
proof -
  obtain w where w: "List.find (\<lambda>v. Some (var_quantization v) = selected) vs = Some w"
    using assms by (cases "List.find (\<lambda>v. Some (var_quantization v) = selected) vs") (auto simp: find_None_iff)
  then have "Some (var_quantization w) = selected" using find_Some_iff [OF w] by simp
  moreover have "w \<in> set (bounded_variants vs selected)" using w by (simp add: bounded_variants_def Let_def)
  ultimately show ?thesis by blast
qed


section \<open>Rejected plans\<close>

text \<open>
  C39. A plan is rejected exactly if its memory is shown insufficient, no runtime was chosen for it, its
  runtime is not one of the artifact's, the plan is technically unsupported, or commercial use is
  required of a restricted licence; each reason shown is the message of a constraint.  What is not
  rejected is never blocked in its fitness, whichever runtimes are installed.
\<close>

theorem plan_rejected_exactly:
  "(rejected (assess_plan lib ctx e req p) \<longleftrightarrow>
      memory_insufficient p \<or> rr_runtime (xp_runtime p) = RUNTIME_UNKNOWN \<or>
      rr_runtime (xp_runtime p) \<notin> set (av_compatible_runtimes (xp_artifact p)) \<or>
      xp_compatibility p = PLAN_NOT_COMPATIBLE \<or>
      ur_commercial_use_required req = Some True \<and> classify_license (cd_license (ev_candidate e)) = COMMERCIAL_RESTRICTED) \<and>
   pa_rejection_reasons (assess_plan lib ctx e req p) = map hc_message (pa_hard_constraints (assess_plan lib ctx e req p)) \<and>
   (rejected (assess_plan lib ctx e req p) \<or> pa_execution_fitness (assess_plan lib ctx e req p) \<noteq> LV_BLOCKED)"
proof -
  have iff: "hard_constraints e p req \<noteq> [] \<longleftrightarrow>
      memory_insufficient p \<or> rr_runtime (xp_runtime p) = RUNTIME_UNKNOWN \<or>
      rr_runtime (xp_runtime p) \<notin> set (av_compatible_runtimes (xp_artifact p)) \<or>
      xp_compatibility p = PLAN_NOT_COMPATIBLE \<or>
      ur_commercial_use_required req = Some True \<and> classify_license (cd_license (ev_candidate e)) = COMMERCIAL_RESTRICTED"
    by (simp add: hard_constraints_def runtime_constraints_def license_constraints_def Let_def)
  moreover have "execution_fitness_level p = LV_BLOCKED \<Longrightarrow>
      xp_compatibility p = PLAN_NOT_COMPATIBLE \<or> memory_insufficient p"
    by (auto simp: execution_fitness_level_def executability_level_def feasibility_level_def memory_insufficient_def
        Let_def split: if_splits plan_compatibility.splits option.splits compatibility_status.splits)
  ultimately show ?thesis by (auto simp: rejected_def assess_plan_def Let_def)
qed

section \<open>Installed runtimes and the order\<close>

definition forget_readiness :: "execution_plan \<Rightarrow> execution_plan" where
  "forget_readiness p = p\<lparr>xp_execution_readiness := None, xp_evidence := [], xp_warnings := []\<rparr>"

lemma forget_cong:
  "forget_readiness p = forget_readiness p' \<Longrightarrow>
     p' = p\<lparr>xp_execution_readiness := xp_execution_readiness p', xp_evidence := xp_evidence p', xp_warnings := xp_warnings p'\<rparr>"
  by (cases p; cases p') (simp add: forget_readiness_def)

lemma forget_update [simp]:
  "forget_readiness (p\<lparr>xp_execution_readiness := x\<rparr>) = forget_readiness p"
  "forget_readiness (p\<lparr>xp_warnings := w\<rparr>) = forget_readiness p"
  "forget_readiness (with_issue i p) = forget_readiness p"
  "xp_plan_id (forget_readiness p) = xp_plan_id p"
  by (simp_all add: forget_readiness_def with_issue_def)

lemma forget_build:
  "forget_readiness (build_execution_plan i a r m hw s c x) = forget_readiness (build_execution_plan i a r m hw s c x')"
  by (simp add: forget_readiness_def build_execution_plan_def assemble_plan_def Let_def)

lemma forget_gguf:
  "forget_readiness (gguf_plan (ctx\<lparr>rc_readiness := x\<rparr>) estimate e a i req v) = forget_readiness (gguf_plan ctx estimate e a i req v)"
  by (simp add: gguf_plan_def Let_def split: prod.split) (auto intro: forget_build)

lemma forget_transformers:
  "forget_readiness (transformers_plan e i (ctx\<lparr>rc_readiness := x\<rparr>)) = forget_readiness (transformers_plan e i ctx)"
  by (simp add: transformers_plan_def Let_def) (rule forget_build)

lemma forget_precision:
  "forget_readiness (precision_plan (ctx\<lparr>rc_readiness := x\<rparr>) f e a i req q) = forget_readiness (precision_plan ctx f e a i req q)"
  by (simp add: precision_plan_def Let_def forget_transformers split: prod.split)

lemma forget_dedup:
  "map forget_readiness (foldl add_plan ps qs) = foldl add_plan (map forget_readiness ps) (map forget_readiness qs)"
proof (induction qs arbitrary: ps)
  case (Cons q qs)
  have "map forget_readiness (add_plan ps q) = add_plan (map forget_readiness ps) (forget_readiness q)"
    by (simp add: add_plan_def list_ex_iff)
  then show ?case by (simp add: Cons)
qed simp

lemma forget_generate:
  "map forget_readiness (generate_execution_plans (ctx\<lparr>rc_readiness := x\<rparr>) estimate e req) =
     map forget_readiness (generate_execution_plans ctx estimate e req)"
  by (simp add: generate_execution_plans_def Let_def forget_dedup forget_gguf forget_precision forget_transformers comp_def
      split: option.split)

text \<open>What the order reads of a plan, apart from its readiness.\<close>

lemma matching_unready:
  "matching_experiment (p\<lparr>xp_execution_readiness := x, xp_evidence := ev, xp_warnings := w\<rparr>) rs = matching_experiment p rs"
  "matching_benchmark (p\<lparr>xp_execution_readiness := x, xp_evidence := ev, xp_warnings := w\<rparr>) rs' = matching_benchmark p rs'"
proof -
  let ?p = "p\<lparr>xp_execution_readiness := x, xp_evidence := ev, xp_warnings := w\<rparr>"
  have "common_matches ?p = common_matches p" by (intro ext) (simp add: common_matches_def same_planned_artifact_def)
  moreover have "planned_backend ?p = planned_backend p" by (simp add: planned_backend_def)
  moreover have "offload_matches ?p = offload_matches p" "transformers_precision_matches ?p = transformers_precision_matches p"
    by (simp_all add: fun_eq_iff offload_matches_def transformers_precision_matches_def)
  ultimately have "experiment_matches ?p = experiment_matches p" "benchmark_matches ?p = benchmark_matches p"
    by (simp_all add: fun_eq_iff experiment_matches_def benchmark_matches_def)
  moreover have "current_methodology ?p = current_methodology p" by (intro ext) (simp add: current_methodology_def)
  ultimately show "matching_experiment ?p rs = matching_experiment p rs" "matching_benchmark ?p rs' = matching_benchmark p rs'"
    by (simp_all add: matching_experiment_def matching_benchmark_def)
qed

text \<open>What a rank list is compared by: the candidate and the plan without its readiness, its key, its viability.\<close>

definition order_view ::
  "recommendation_priority \<Rightarrow> bool \<Rightarrow> ranked_plan \<Rightarrow>
   evaluated_candidate \<times> execution_plan \<times> (int list \<times> string \<times> string \<times> string) \<times> bool" where
  "order_view priority commercial i =
     (rp_evaluated i, forget_readiness (rp_plan i), ranking_key i priority commercial, viable_plan i)"

lemma map_sort_key: "map h (sort_key (k \<circ> h) xs) = sort_key k (map h xs)"
proof -
  have step: "map h (insort_key (k \<circ> h) x xs) = insort_key k (h x) (map h xs)" for x xs
    by (induction xs) auto
  show ?thesis by (induction xs) (simp_all add: step [unfolded comp_def] comp_def)
qed

lemma view_order:
  "map (order_view priority commercial) (order_plans is priority commercial) =
     (let ordered = sort_key (fst \<circ> snd \<circ> snd) (map (order_view priority commercial) is) in
      filter (snd \<circ> snd \<circ> snd) ordered @ filter (\<lambda>v. \<not> (snd \<circ> snd \<circ> snd) v) ordered)"
proof -
  have key: "(\<lambda>i. ranking_key i priority commercial) = (fst \<circ> snd \<circ> snd) \<circ> order_view priority commercial"
    and viable: "viable_plan = (snd \<circ> snd \<circ> snd) \<circ> order_view priority commercial"
    by (simp_all add: fun_eq_iff order_view_def)
  show ?thesis unfolding order_plans_def key prioritize_confirmed_memory_fit_def Let_def map_append
      map_sort_key [symmetric] filter_map comp_def
    by (simp add: order_view_def comp_def)
qed

lemma key_unready:
  assumes "forget_readiness p = forget_readiness p'"
  shows "order_view priority commercial \<lparr>rp_evaluated = e, rp_plan = p', rp_assessment = assess_plan lib (ctx\<lparr>rc_readiness := x\<rparr>) e req p', rp_use_case = u\<rparr> =
    order_view priority commercial \<lparr>rp_evaluated = e, rp_plan = p, rp_assessment = assess_plan lib ctx e req p, rp_use_case = u\<rparr>"
proof -
  obtain r ev w where p': "p' = p\<lparr>xp_execution_readiness := r, xp_evidence := ev, xp_warnings := w\<rparr>"
    using forget_cong [OF assms] by blast
  have levels: "execution_fitness_level p' = execution_fitness_level p" "feasibility_level p' = feasibility_level p"
    "executability_level p' = executability_level p" "plan_confidence e p' = plan_confidence e p"
    "memory_insufficient p' = memory_insufficient p" "plan_confirmed p' = plan_confirmed p"
    by (simp_all add: p' execution_fitness_level_def feasibility_level_def executability_level_def plan_confidence_def
        memory_insufficient_def plan_confirmed_def Let_def)
  have rej: "rejected (assess_plan lib (ctx\<lparr>rc_readiness := x\<rparr>) e req p') = rejected (assess_plan lib ctx e req p)"
    by (simp add: rejected_def assess_plan_def Let_def hard_constraints_def runtime_constraints_def levels) (simp add: p')
  have memory: "known_memory (assess_plan lib (ctx\<lparr>rc_readiness := x\<rparr>) e req p') = known_memory (assess_plan lib ctx e req p)"
  proof -
    have "pa_measured_memory_bytes (assess_plan lib c e req q) =
        measured_memory (matching_experiment q (rc_experiments c)) (matching_benchmark q (rc_benchmarks c))"
      "pa_estimated_memory_bytes (assess_plan lib c e req q) = Option.bind (xp_memory_prediction q) me_total_bytes" for c q
      by (simp_all add: assess_plan_def Let_def)
    then have both: "pa_measured_memory_bytes (assess_plan lib (ctx\<lparr>rc_readiness := x\<rparr>) e req p') =
          pa_measured_memory_bytes (assess_plan lib ctx e req p)"
      "pa_estimated_memory_bytes (assess_plan lib (ctx\<lparr>rc_readiness := x\<rparr>) e req p') =
          pa_estimated_memory_bytes (assess_plan lib ctx e req p)"
      by (simp_all add: p' matching_unready)
    show ?thesis unfolding known_memory_def both ..
  qed
  have fields: "pa_capability (assess_plan lib c e req q) = capability_level (sg_score (assessed_capability lib e))"
    "pa_suitability (assess_plan lib c e req q) = suitability_level e req"
    "pa_execution_fitness (assess_plan lib c e req q) = execution_fitness_level q"
    "pa_feasibility (assess_plan lib c e req q) = feasibility_level q"
    "pa_executability (assess_plan lib c e req q) = executability_level q"
    "pa_license_fit (assess_plan lib c e req q) = license_level e req"
    "pa_language_fit (assess_plan lib c e req q) = language_level e req"
    "pa_confidence (assess_plan lib c e req q) = plan_confidence e q" for c q
    by (simp_all add: assess_plan_def Let_def)
  have ranks: "aggressive_quantization_rank p' = aggressive_quantization_rank p" "ladder_rank p' = ladder_rank p"
    "quantization_quality_rank p' = quantization_quality_rank p" "plan_status p' = plan_status p"
    "xp_artifact p' = xp_artifact p" "xp_runtime p' = xp_runtime p" "xp_model_identity p' = xp_model_identity p"
    by (simp_all add: fun_eq_iff p' aggressive_quantization_rank_def ladder_rank_def quantization_quality_rank_def
        gguf_quantization_def plan_status_def)
  show ?thesis
    by (cases priority)
       (simp_all add: order_view_def assms ranking_key_def ranking_tie_key_def priority_axes_def viable_plan_def rej memory
        levels fields ranks suitability_rank_def model_size_rank_def runnability_rank_def comfortable_memory_rank_def
        memory_efficiency_rank_def requirement_confirmation_rank_def)
qed

text \<open>
  C40. Which runtimes are installed never changes the ranking: for any two readiness reports the same
  plans come out in the same order, alike in everything but the readiness, the evidence lines and
  the warnings that quote it.
\<close>

theorem readiness_never_reorders:
  "map (\<lambda>i. (rp_evaluated i, forget_readiness (rp_plan i)))
      (rank_execution_plans lib (ctx\<lparr>rc_readiness := x\<rparr>) estimate req es limit) =
   map (\<lambda>i. (rp_evaluated i, forget_readiness (rp_plan i)))
      (rank_execution_plans lib ctx estimate req es limit)"
proof -
  let ?v = "order_view (ur_priority req) (commercial_request req)"
  have one: "map ?v (assessed_plans lib (ctx\<lparr>rc_readiness := x\<rparr>) estimate req e) =
      map ?v (assessed_plans lib ctx estimate req e)" for e
  proof -
    have "map ?v (map (\<lambda>p. \<lparr>rp_evaluated = e, rp_plan = p,
              rp_assessment = assess_plan lib (ctx\<lparr>rc_readiness := x\<rparr>) e req p, rp_use_case = u\<rparr>) ps') =
        map ?v (map (\<lambda>p. \<lparr>rp_evaluated = e, rp_plan = p, rp_assessment = assess_plan lib ctx e req p, rp_use_case = u\<rparr>) ps)"
      if "map forget_readiness ps' = map forget_readiness ps" for ps' ps u
    proof -
      have "length ps' = length ps" using that by (rule map_eq_imp_length_eq)
      then show ?thesis using that
        by (induction ps' ps rule: list_induct2) (auto intro: key_unready [OF sym])
    qed
    from this [OF forget_generate] show ?thesis by (simp add: assessed_plans_def)
  qed
  have "map ?v (concat (map (assessed_plans lib (ctx\<lparr>rc_readiness := x\<rparr>) estimate req) es)) =
      map ?v (concat (map (assessed_plans lib ctx estimate req) es))"
    by (induction es) (simp_all add: one)
  then have "map ?v (order_plans (concat (map (assessed_plans lib (ctx\<lparr>rc_readiness := x\<rparr>) estimate req) es))
        (ur_priority req) (commercial_request req)) =
      map ?v (order_plans (concat (map (assessed_plans lib ctx estimate req) es)) (ur_priority req) (commercial_request req))"
    by (simp add: view_order)
  then have "map ?v (rank_execution_plans lib (ctx\<lparr>rc_readiness := x\<rparr>) estimate req es limit) =
      map ?v (rank_execution_plans lib ctx estimate req es limit)"
    by (cases limit) (simp_all add: rank_execution_plans_def Let_def take_map [symmetric])
  then have "map (\<lambda>w. (fst w, fst (snd w))) (map ?v (rank_execution_plans lib (ctx\<lparr>rc_readiness := x\<rparr>) estimate req es limit)) =
      map (\<lambda>w. (fst w, fst (snd w))) (map ?v (rank_execution_plans lib ctx estimate req es limit))"
    by simp
  then show ?thesis by (simp add: comp_def order_view_def)
qed

section \<open>Example\<close>

definition example_gguf_candidate :: evaluated_candidate where
  "example_gguf_candidate = (example_evaluated None)\<lparr>
     ev_analysis := Some (example_model_analysis\<lparr>an_classification :=
       (an_classification example_model_analysis)\<lparr>primary_type := REPO_GGUF, gguf_variants := two_variants\<rparr>\<rparr>),
     ev_configuration := Some (build_config example_chat (Some ''Q4_K_M'') None)\<rparr>"

definition example_context :: ranking_context where
  "example_context =
     \<lparr>rc_hardware = None, rc_backend_selection = None, rc_readiness = None, rc_benchmarks = [],
      rc_experiments = [], rc_evaluations = [], rc_quality = index_quality_records Some []\<rparr>"

definition failing_plans :: "execution_plan list" where
  "failing_plans = generate_execution_plans example_context (Some (\<lambda>_ _. Inl ''no header'')) example_gguf_candidate example_chat"

lemma preferred_two:
  "example_variant ''Q4_K_M'' 4 True False \<in> set (preferred_gguf_variants two_variants)"
  by code_simp


definition example_libraries :: libraries where
  "example_libraries =
     \<lparr>lib_log10 = (\<lambda>_. hundredths 950), lib_exp = (\<lambda>_. float_one), lib_sha256 = id, lib_record_json = (\<lambda>_. [])\<rparr>"

theorem plan_rejected_exactly_witness:
  "rejected (assess_plan example_libraries example_context example_gguf_candidate example_chat
     (example_plan\<lparr>xp_compatibility := PLAN_NOT_COMPATIBLE\<rparr>))"
  using plan_rejected_exactly [of example_libraries example_context example_gguf_candidate example_chat
      "example_plan\<lparr>xp_compatibility := PLAN_NOT_COMPATIBLE\<rparr>"]
  by simp

end
