(* ===== verification/Measured_Refresh.thy ===== *)
theory Measured_Refresh
  imports Plan_Assessment Measured_Report
begin

text \<open>
  The comparison of a saved ranking with the stores of today (\<^verbatim>\<open>recompare_quality\<close> of
  \<^verbatim>\<open>recommendation/shadow.py\<close>): quality, and speed when benchmarks are given, are read again for each
  plan; nothing is planned or ranked again.
\<close>

definition refreshed_plan ::
  "libraries \<Rightarrow> user_requirements \<Rightarrow> quality_index \<Rightarrow> bench_record list option \<Rightarrow> ranked_plan \<Rightarrow> ranked_plan" where
  "refreshed_plan lib req ix benchmarks i =
     (let a = rp_assessment i;
          a' = a\<lparr>pa_quality := assess_quality (rp_plan i) req (qa_metadata_prior (pa_quality a)) ix
                  (pa_external_evaluations a)\<rparr> in
      i\<lparr>rp_assessment :=
          (case benchmarks of
             None \<Rightarrow> a'
           | Some rs \<Rightarrow> a'\<lparr>pa_speed := assess_speed (lib_sha256 lib) (lib_record_json lib) (rp_plan i) req rs\<rparr>)\<rparr>)"

definition recompare_quality ::
  "libraries \<Rightarrow> ranked_plan list \<Rightarrow> user_requirements \<Rightarrow> quality_index \<Rightarrow> nat \<Rightarrow> bench_record list option \<Rightarrow>
   shadow_report option" where
  "recompare_quality lib ranked req ix limit benchmarks =
     build_shadow_report (map (refreshed_plan lib req ix benchmarks) ranked) req limit None"

text \<open>With the stores the search saw, the comparison is the report of the search.\<close>

lemma recompare_unchanged:
  assumes "\<forall>i \<in> set ranked. \<exists>e. rp_assessment i = assess_plan lib ctx e req (rp_plan i)"
  shows "recompare_quality lib ranked req (rc_quality ctx) limit (Some (rc_benchmarks ctx)) =
    build_shadow_report ranked req limit None"
proof -
  have "refreshed_plan lib req (rc_quality ctx) (Some (rc_benchmarks ctx)) i = i" if i: "i \<in> set ranked" for i
  proof -
    obtain e where a: "rp_assessment i = assess_plan lib ctx e req (rp_plan i)" using assms i by blast
    have "qa_metadata_prior (assess_quality p req level ix xs) = level" for p level ix xs
      by (simp add: assess_quality_def Let_def)
    then have q: "assess_quality (rp_plan i) req (qa_metadata_prior (pa_quality (rp_assessment i))) (rc_quality ctx)
        (pa_external_evaluations (rp_assessment i)) = pa_quality (rp_assessment i)"
      by (simp add: a assess_plan_def Let_def)
    have s: "assess_speed (lib_sha256 lib) (lib_record_json lib) (rp_plan i) req (rc_benchmarks ctx) =
        pa_speed (rp_assessment i)"
      by (simp add: a assess_plan_def assessed_speed_def Let_def)
    show ?thesis by (simp add: refreshed_plan_def Let_def q s)
  qed
  then have "map (refreshed_plan lib req (rc_quality ctx) (Some (rc_benchmarks ctx))) ranked = ranked"
    by (simp add: map_idI)
  then show ?thesis by (simp add: recompare_quality_def)
qed

end
