(* ===== verification/Spec2Isabelle.thy ===== *)
theory Spec2Isabelle
  imports Hardware_Fit_Props Hardware_Fit_Analysis Kv_Cache_Props Weights Compatibility
    Gguf_Selection Gguf_Reader_Props Gguf_Tensors Gguf_Fetch Backend_Selection Launch_Policy
    Runtime_Advice Configuration Hub_Client Repository_Files Repository_Analysis Base_Model
    Config_Merge Header_Cache Enrichment Estimate_Service Plan_Ranking Measured_Report Shortlist
    Local_Evidence_Props Plan_Assessment_Props Measured_Refresh
begin

text \<open>
  A verification development for Jaull, a program that decides which language models a machine
  can run and how.  Paths below are relative to \<^verbatim>\<open>src/src/jaull/\<close>.

  \<^bold>\<open>The program.\<close>  A repository of model files is described by metadata (file sizes, a
  configuration, GGUF headers read over HTTP ranges).  From these the estimator computes the
  memory components of an inference (weights, KV cache, runtime overhead), the hardware fit places
  them in VRAM and RAM, and the compatibility assessment turns the placement into a verdict.  The
  runtime layer, the recommendation engine and the interfaces sit on top of these results.

  \<^bold>\<open>Theories and sources.\<close>

  \<^item> \<open>Py_Float\<close>, \<open>Py_Prelude\<close>: the fragment of Python the sources use.  A float is an exact dyadic
    or an infinity, each operation the exact result rounded to 53 bits, ties to even (locale
    \<open>rounding\<close>, interpreted by the binary64 rounding); number formatting, string predicates,
    dictionaries as association lists in insertion order, results as sums.  Exponent underflow
    and NaN do not occur in the modelled code.
  \<^item> \<open>Hardware\<close> (\<^verbatim>\<open>domain/hardware.py\<close>, \<^verbatim>\<open>domain/runtime_support.py\<close>), \<open>Model_Data\<close>
    (\<^verbatim>\<open>domain/enums.py\<close>, \<^verbatim>\<open>inference.py\<close>, \<^verbatim>\<open>model.py\<close>, \<^verbatim>\<open>parameters.py\<close>), \<open>Estimation\<close>
    (\<^verbatim>\<open>domain/estimation.py\<close>): the data classes as records, the enumerations as datatypes, their
    validators as predicates.
  \<^item> \<open>Weights\<close> (\<^verbatim>\<open>estimator/weights.py\<close>), \<open>Kv_Cache\<close> with \<open>Kv_Cache_Props\<close>
    (\<^verbatim>\<open>estimator/kv_cache.py\<close>, \<^verbatim>\<open>overhead.py\<close>, \<^verbatim>\<open>policies.py\<close>): the three memory components.
  \<^item> \<open>Hardware_Fit\<close> with \<open>Hardware_Fit_Props\<close> and \<open>Hardware_Fit_Analysis\<close>
    (\<^verbatim>\<open>estimator/hardware_fit.py\<close>): the placement, by searches over GPU block counts or bytes.
  \<^item> \<open>Compatibility\<close> (\<^verbatim>\<open>estimator/compatibility.py\<close>): the verdict.
  \<^item> \<open>Gguf_Selection\<close> (\<^verbatim>\<open>domain/gguf_variants.py\<close>, \<^verbatim>\<open>estimator/gguf_selection.py\<close>): which artifact
    a quantization names.
  \<^item> \<open>Gguf_Reader\<close> with \<open>Gguf_Reader_Props\<close>, \<open>Gguf_Tensors\<close> (\<^verbatim>\<open>metadata/gguf_reader.py\<close>,
    \<^verbatim>\<open>domain/gguf.py\<close>, \<^verbatim>\<open>domain/artifacts.py\<close>): the binary reader of headers and tensor tables.
  \<^item> \<open>Gguf_Fetch\<close> (\<^verbatim>\<open>metadata/range_reader.py\<close>): the growing range download.

  \<^item> \<open>Py_Text\<close>: integers and blanks in text.  \<open>Backend_Selection\<close>
    (\<^verbatim>\<open>runtime/backend_selection.py\<close>, \<^verbatim>\<open>device_matching.py\<close>): the compute backend and its device.
  \<^item> \<open>Launch_Policy\<close> (\<^verbatim>\<open>runtime/llama_cpp_launch_policy.py\<close>, \<^verbatim>\<open>llama_cpp_tensor_policy.py\<close>): how many
    layers llama.cpp is asked to offload.
  \<^item> \<open>Runtime_Advice\<close> (\<^verbatim>\<open>runtime/service.py\<close> and the builders it calls, \<^verbatim>\<open>executability.py\<close>,
    \<^verbatim>\<open>domain/artifact_profile.py\<close>): the recommended runtime with its flags, and which artifacts a
    runtime can execute.
  \<^item> \<open>Configuration\<close> (\<^verbatim>\<open>estimator/configuration.py\<close>): the walk down a ladder of quantizations or
    precisions, over the estimator as a function.
  \<^item> \<open>Hub_Client\<close> (\<^verbatim>\<open>huggingface/client.py\<close>), \<open>Repository_Files\<close> (\<^verbatim>\<open>huggingface/classifiers.py\<close>,
    \<^verbatim>\<open>artifact_resolver.py\<close>), \<open>Repository_Analysis\<close> (\<^verbatim>\<open>huggingface/repository.py\<close>, \<^verbatim>\<open>analyzers/\<close>):
    from the listing of a repository to its type, its GGUF variants and its configuration.
  \<^item> \<open>Base_Model\<close>, \<open>Config_Merge\<close>, \<open>Enrichment\<close> (\<^verbatim>\<open>metadata/base_model_resolver.py\<close>,
    \<^verbatim>\<open>config_merger.py\<close>, \<^verbatim>\<open>service.py\<close>): the base model of a repository, the merge of its configuration
    with a GGUF header, and the service around them.  \<open>Header_Cache\<close>
    (\<^verbatim>\<open>adapters/cache/gguf_header_cache.py\<close>): the cache of headers, a state machine that shares its
    directory with other programs.
  \<^item> \<open>Estimate_Service\<close> (\<^verbatim>\<open>estimator/service.py\<close>): the composition of all of these to one estimate.
  \<^item> \<open>Candidates\<close> (\<^verbatim>\<open>domain/candidates.py\<close>, \<^verbatim>\<open>licenses.py\<close>, \<^verbatim>\<open>estimator/artifact_analysis.py\<close>),
    \<open>Scoring\<close> and \<open>Ranker\<close> (\<^verbatim>\<open>recommendation/scoring.py\<close>, \<^verbatim>\<open>requirements_gate.py\<close>,
    \<^verbatim>\<open>ranker.py\<close>, \<^verbatim>\<open>actionability.py\<close>, \<^verbatim>\<open>tier.py\<close>): candidates, their features and weighted
    total, the shortlist and its headings.  \<open>Py_Arith\<close>: sums and roundings of floats.
  \<^item> \<open>Families\<close> (\<^verbatim>\<open>domain/families.py\<close>, \<^verbatim>\<open>discovery/grouping.py\<close>, \<^verbatim>\<open>series.py\<close>): names and
    sizes read from repository names, one candidate per family.  \<open>Py_Regex\<close> is the fragment of
    regular expressions the sources use, with Python's order of alternatives; \<open>Py_Json\<close> the text
    of JSON values.
  \<^item> \<open>Runtime_Readiness\<close> (\<^verbatim>\<open>runtime/llama_cpp_capability.py\<close>, \<^verbatim>\<open>pytorch_capability.py\<close>): what a
    probe's output says of a runtime, and whether the selected backend is ready.
  \<^item> \<open>Execution_Plans\<close> (\<^verbatim>\<open>domain/execution_plans.py\<close>, \<^verbatim>\<open>execution_plans/service.py\<close>): the
    identity of a model and the plan for one artifact.  \<open>Plan_Assessment_Data\<close>
    (\<^verbatim>\<open>domain/recommendation.py\<close>) and \<open>Plan_Ranking\<close> (\<^verbatim>\<open>recommendation/engine_v2.py\<close>,
    \<^verbatim>\<open>selection.py\<close>, \<^verbatim>\<open>diversity.py\<close>): the order of assessed plans, the criteria shown for it,
    the preference for capable models and the rows of distinct models.
  \<^item> \<open>Benchmark_Records\<close> (\<^verbatim>\<open>domain/benchmarks.py\<close>, \<^verbatim>\<open>evaluation/hardware_fingerprint.py\<close>),
    \<open>Local_Evidence\<close> with \<open>Local_Evidence_Props\<close> (\<^verbatim>\<open>recommendation/local_evidence.py\<close>): stored
    benchmarks, and the speed they prove for a plan.  \<open>Quality_Evidence\<close>
    (\<^verbatim>\<open>recommendation/quality.py\<close>): the measured quality that applies to one.
    \<open>Capability_Signals\<close> (\<^verbatim>\<open>recommendation/capability.py\<close>): the prior from size and artifact.
  \<^item> \<open>Plan_Generation\<close>, \<open>Plan_Assessment\<close> and \<open>Plan_Assessment_Props\<close> (the first half of
    \<^verbatim>\<open>recommendation/engine_v2.py\<close>): the plans of a candidate, what rejects one, its levels and
    evidence, and the ranking of all of them.
  \<^item> \<open>Measured_Policy\<close>, \<open>Measured_Report\<close> and \<open>Measured_Refresh\<close>
    (\<^verbatim>\<open>recommendation/shadow.py\<close>): comparable measurements reorder the plans of one group, the
    report of what that moves, and the same for a saved ranking with the stores of today.
  \<^item> \<open>Candidate_Filter\<close> and \<open>Shortlist\<close> (\<^verbatim>\<open>discovery/candidate_filter.py\<close>): which search results
    are worth an inspection, and a coarse placement from their names.

  \<^bold>\<open>What is shown.\<close>  The placement accounts for every byte, respects its budgets, is the best
  mode possible and is monotone in memory; the block search returns the largest feasible count;
  the float ratio and thresholds of the verdict behave as exact fractions; the cache and overhead
  formulas are the ones they report, up to the truncation of a half-byte element; the block split
  conserves the weights; a selected artifact is unambiguous; the header reader inverts the wire
  format and is stable under more bytes, so that a header fetched by ranges is the header of the
  file; a tensor index is consistent with its file.  The selected backend is the best eligible one
  and a matched device is identified; the requested layers are the largest number that fits; the
  advice follows the verdict and the two rule sets on executability agree; a ladder reports a
  fitting rung whenever there is one, and its message is true.  The GGUF variants of a listing
  partition its model files; a resolved artifact is one of its files; a base model rests on an
  explicit reference; each merged field has the header value before the base value; a cached header
  belongs to the artifact it is returned for, and the cache does not change an enrichment.  An estimate is the
  sum of its components, and its verdict is about exactly that sum.  The shortlist is the sorted
  candidates without the unusable ones; a restricted licence ranks last when commercial use is
  required; a family is represented by its best member.  A backend is ready only if the probed
  binary listed its device; a confirmed identity was declared; the published criteria explain the
  order of the plans; capable models stay ahead of weak ones; each model has one row, and variety
  decides only between ties.  The measured order places every plan once, honours every demonstrable
  pair when there is no cycle, and stays inside its strata; its report is the exact difference.  The
  A speed or a quality applies to a plan only from uncontradicted runs on its exact bytes that no
  check disqualifies; the reasons that reject a plan are complete; an error of the estimator costs
  one plan its prediction; installed runtimes never change the order.  The
  inspection shortlist fills its limit with plausible candidates first, and a coarse offload takes
  the largest device share that fits.

  \<^bold>\<open>Bounds.\<close>  The range loop runs at most six times (256 KiB doubled up to 8 MiB), which is its
  termination measure.  Nested arrays are read to 33 levels, the limit of the code.  The float
  theorems carry explicit bounds on byte counts (at most \<open>2 ^ 53\<close>).  No other fuel is used.

  \<^bold>\<open>Parameters.\<close>  The HTTP library (a server function in \<open>Gguf_Fetch\<close>) and the file system (the
  contents and the two \<^verbatim>\<open>fstat\<close> results in \<open>Gguf_Tensors\<close>); the hub library (record \<open>hub_sdk\<close>), the
  digest and the clock of the header cache, and the address of a file on the hub; the natural
  logarithm behind popularity, the decimal one and the exponential behind the capability prior; the
  digest behind a speed cohort, the serialised form of a benchmark record, and the reading of one
  raw quality record (its validation and audit).  In the ranking the estimator is a function, as in
  the code.

  \<^bold>\<open>Not modelled.\<close>  Interfaces (terminal, command line, reports), probes of the hardware and of
  installed runtimes, network clients, stores on disk and object wiring are input and output.  The
  search queries, the evaluation comparisons, the validation of raw quality records, the sentences
  of an explanation and the workflow around a run are logic that is not yet covered.
\<close>

end
